(* ===== verification/Prelude.thy ===== *)
theory Prelude
  imports Complex_Main "HOL-Library.AList" "HOL-Library.Char_ord" "HOL-Library.List_Lexorder"
    "HOL-Library.Product_Lexorder"
begin

text \<open>
  The vocabulary the components share.

  Python values.  \<open>json\<close> is the type of decoded JSON documents: an object is the list of its
  members in insertion order, with distinct keys, as a Python \<open>dict\<close> keeps them.  A
  \<open>float\<close> is a rational number, an infinity or not-a-number; rounding to
  doubles is modelled in the ranking (\<open>Float64\<close>) and nowhere else.  Text is a list
  of code points below 256 (Latin-1, one \<open>char\<close> each): \<open>length\<close> counts code points, as
  Python's \<open>len\<close> does, and the Unicode tables the code consults (\<open>str.isspace\<close>,
  \<open>str.lower\<close>, general category, normalisation) are written out on that range.

  Errors.  A call that may raise returns \<open>exn + 'a\<close>; \<open>rbind\<close> sequences such calls and
  \<open>rmap\<close> runs one over a list, stopping at the first error as a Python loop does.
\<close>

section \<open>Exceptions and results\<close>

datatype exn_class =
    ValueError | TypeError | KeyError | RuntimeError | AssertionError | HTTPException nat
  | AttributionRejected | CategoryValidationError | PolicyConflict
  | ScanValidationError | ScanConflict | AuthRejected nat | ConsolidationConflict
  | MutationConflict | MutationFence | UpstreamError | ProtocolError | MutationAdminError
  | IntegrityError | OverflowError | OtherError string

datatype exn = Exn (exn_class: exn_class) (exn_message: string)

type_synonym 'a res = "exn + 'a"

abbreviation value_error :: "string \<Rightarrow> exn + 'a" where
  "value_error m \<equiv> Inl (Exn ValueError m)"

abbreviation raise :: "exn_class \<Rightarrow> string \<Rightarrow> exn + 'a" where
  "raise c m \<equiv> Inl (Exn c m)"

definition is_ok :: "'e + 'a \<Rightarrow> bool" where
  "is_ok r = (case r of Inl _ \<Rightarrow> False | Inr _ \<Rightarrow> True)"

definition rbind :: "'e + 'a \<Rightarrow> ('a \<Rightarrow> 'e + 'b) \<Rightarrow> 'e + 'b" where
  "rbind m f = (case m of Inl e \<Rightarrow> Inl e | Inr x \<Rightarrow> f x)"

text \<open>\<open>raise_if b e\<close> is the guard \<open>if b: raise e\<close>.\<close>

definition raise_if :: "bool \<Rightarrow> 'e \<Rightarrow> 'e + unit" where
  "raise_if b e = (if b then Inl e else Inr ())"

fun rmap :: "('a \<Rightarrow> 'e + 'b) \<Rightarrow> 'a list \<Rightarrow> 'e + 'b list" where
  "rmap f [] = Inr []"
| "rmap f (x # xs) = rbind (f x) (\<lambda>y. rbind (rmap f xs) (\<lambda>ys. Inr (y # ys)))"

named_theorems res_simps \<open>rules that take a successful or failed call apart\<close>

lemma is_ok_simps [simp]: "is_ok (Inr x)" "\<not> is_ok (Inl e)"
  by (simp_all add: is_ok_def)

lemma rbind_simps [simp, code]: "rbind (Inl e) f = Inl e" "rbind (Inr x) f = f x"
  by (simp_all add: rbind_def)

lemma rbind_Inr_iff [res_simps]: "rbind m f = Inr y \<longleftrightarrow> (\<exists>x. m = Inr x \<and> f x = Inr y)"
  by (cases m) auto

lemma rbind_Inl_iff [res_simps]:
  "rbind m f = Inl e \<longleftrightarrow> m = Inl e \<or> (\<exists>x. m = Inr x \<and> f x = Inl e)"
  by (cases m) auto

lemma raise_if_simps [simp]: "raise_if True e = Inl e" "raise_if False e = Inr ()"
  by (simp_all add: raise_if_def)

lemma raise_if_Inr [res_simps]: "raise_if b e = Inr u \<longleftrightarrow> \<not> b"
  by (simp add: raise_if_def)

lemma raise_if_Inl [res_simps]: "raise_if b e = Inl e' \<longleftrightarrow> b \<and> e' = e"
  by (auto simp: raise_if_def)

lemma rbind_cong [fundef_cong]:
  "m = m' \<Longrightarrow> (\<And>x. m' = Inr x \<Longrightarrow> f x = g x) \<Longrightarrow> rbind m f = rbind m' g"
  by (cases m') auto

lemma rmap_length: "rmap f xs = Inr ys \<Longrightarrow> length ys = length xs"
  by (induction xs arbitrary: ys) (auto simp: res_simps)

lemma rmap_all2: "rmap f xs = Inr ys \<longleftrightarrow> list_all2 (\<lambda>x y. f x = Inr y) xs ys"
  by (induction xs arbitrary: ys) (auto simp: res_simps list_all2_Cons1)

lemma rmap_mem: "rmap f xs = Inr ys \<Longrightarrow> y \<in> set ys \<Longrightarrow> \<exists>x \<in> set xs. f x = Inr y"
proof (induction xs arbitrary: ys)
  case (Cons x xs)
  then show ?case by (fastforce simp: res_simps)
qed simp

lemma rmap_id: "(\<And>x. x \<in> set xs \<Longrightarrow> f x = Inr x) \<Longrightarrow> rmap f xs = Inr xs"
  by (induction xs) auto

lemma rmap_map: "rmap f (map g xs) = rmap (\<lambda>x. f (g x)) xs"
  by (induction xs) auto

lemma rmap_eqI: "(\<And>x. x \<in> set xs \<Longrightarrow> f x = Inr (g x)) \<Longrightarrow> rmap f xs = Inr (map g xs)"
  by (induction xs) auto

lemma rmap_cong [fundef_cong]:
  "xs = ys \<Longrightarrow> (\<And>x. x \<in> set ys \<Longrightarrow> f x = g x) \<Longrightarrow> rmap f xs = rmap g ys"
proof (induction xs arbitrary: ys)
  case (Cons x xs)
  then show ?case by (cases ys) auto
qed simp

section \<open>Numbers and dates\<close>

datatype pyfloat = Fin rat | PosInf | NegInf | NaN

definition isfinite :: "pyfloat \<Rightarrow> bool" where
  "isfinite f = (case f of Fin _ \<Rightarrow> True | _ \<Rightarrow> False)"

fun float_lt :: "pyfloat \<Rightarrow> pyfloat \<Rightarrow> bool" where
  "float_lt (Fin a) (Fin b) = (a < b)"
| "float_lt NegInf b = (b \<noteq> NegInf \<and> b \<noteq> NaN)"
| "float_lt a PosInf = (a \<noteq> PosInf \<and> a \<noteq> NaN)"
| "float_lt _ _ = False"

text \<open>
  A \<open>datetime\<close> is its wall clock in microseconds since 1970 and, when it is timezone aware,
  the offset from UTC in microseconds.  \<open>instant\<close> is the point in time of an aware value,
  and of a naive one read as UTC, which is how the code normalises stored values.
\<close>

datatype datetime = Naive int | Aware int int

fun instant :: "datetime \<Rightarrow> int" where
  "instant (Naive w) = w"
| "instant (Aware w off) = w - off"

fun as_utc :: "datetime \<Rightarrow> datetime" where
  "as_utc (Naive w) = Aware w 0"
| "as_utc (Aware w off) = Aware (w - off) 0"

lemma instant_as_utc [simp]: "instant (as_utc d) = instant d"
  by (cases d) auto

lemma as_utc_idem [simp]: "as_utc (as_utc d) = as_utc d"
  by (cases d) auto

lemma as_utc_eq_iff: "as_utc a = as_utc b \<longleftrightarrow> instant a = instant b"
  by (cases a; cases b) auto

section \<open>JSON documents and dictionaries\<close>

type_synonym 'v dict = "(string \<times> 'v) list"

datatype json =
    JNull
  | JBool bool
  | JInt int
  | JFloat pyfloat
  | JStr string
  | JList "json list"
  | JObj "(string \<times> json) list"

abbreviation dget :: "'v dict \<Rightarrow> string \<Rightarrow> 'v option" where
  "dget d k \<equiv> map_of d k"

abbreviation dset :: "string \<Rightarrow> 'v \<Rightarrow> 'v dict \<Rightarrow> 'v dict" where
  "dset \<equiv> AList.update"

abbreviation ddel :: "string \<Rightarrow> 'v dict \<Rightarrow> 'v dict" where
  "ddel \<equiv> AList.delete"

abbreviation dkeys :: "'v dict \<Rightarrow> string list" where
  "dkeys d \<equiv> map fst d"

text \<open>\<open>d.get(k)\<close>, with \<open>None\<close> for a missing key, and \<open>d.get(k, default)\<close>.\<close>

definition jget :: "json dict \<Rightarrow> string \<Rightarrow> json" where
  "jget d k = (case dget d k of None \<Rightarrow> JNull | Some v \<Rightarrow> v)"

definition dget_or :: "'v dict \<Rightarrow> string \<Rightarrow> 'v \<Rightarrow> 'v" where
  "dget_or d k v0 = (case dget d k of None \<Rightarrow> v0 | Some v \<Rightarrow> v)"

fun opt_json :: "string option \<Rightarrow> json" where
  "opt_json None = JNull"
| "opt_json (Some s) = JStr s"

text \<open>Python's truth value of a decoded document (\<open>bool(x)\<close>).\<close>

fun truthy :: "json \<Rightarrow> bool" where
  "truthy JNull = False"
| "truthy (JBool b) = b"
| "truthy (JInt i) = (i \<noteq> 0)"
| "truthy (JFloat f) = (f \<noteq> Fin 0)"
| "truthy (JStr s) = (s \<noteq> [])"
| "truthy (JList xs) = (xs \<noteq> [])"
| "truthy (JObj m) = (m \<noteq> [])"

lemma json_case_Inr [res_simps]:
  "(case j of JStr s \<Rightarrow> f s | _ \<Rightarrow> Inl e) = Inr x \<longleftrightarrow> (\<exists>s. j = JStr s \<and> f s = Inr x)"
  "(case j of JList l \<Rightarrow> g l | _ \<Rightarrow> Inl e) = Inr x \<longleftrightarrow> (\<exists>l. j = JList l \<and> g l = Inr x)"
  "(case j of JObj d \<Rightarrow> h d | _ \<Rightarrow> Inl e) = Inr x \<longleftrightarrow> (\<exists>d. j = JObj d \<and> h d = Inr x)"
  "(case j of JInt i \<Rightarrow> k i | _ \<Rightarrow> Inl e) = Inr x \<longleftrightarrow> (\<exists>i. j = JInt i \<and> k i = Inr x)"
  "(case j of JBool b \<Rightarrow> l b | _ \<Rightarrow> Inl e) = Inr x \<longleftrightarrow> (\<exists>b. j = JBool b \<and> l b = Inr x)"
  by (cases j; simp)+

lemma option_case_Inr [res_simps]:
  "(case x of None \<Rightarrow> Inl e | Some y \<Rightarrow> f y) = Inr z \<longleftrightarrow> (\<exists>y. x = Some y \<and> f y = Inr z)"
  by (cases x) auto

lemma if_Inl_Inr [res_simps]:
  "(if b then Inl e else r) = Inr x \<longleftrightarrow> \<not> b \<and> r = Inr x"
  "(if b then r else Inl e) = Inr x \<longleftrightarrow> b \<and> r = Inr x"
  by auto

text \<open>Taking a check of an evaluated result apart.\<close>

lemma case_Inr_iff: "(case x of Inl _ \<Rightarrow> False | Inr y \<Rightarrow> P y) \<longleftrightarrow> (\<exists>y. x = Inr y \<and> P y)"
  by (cases x) auto

lemma case_Some_iff: "(case x of None \<Rightarrow> False | Some y \<Rightarrow> P y) \<longleftrightarrow> (\<exists>y. x = Some y \<and> P y)"
  by (cases x) auto

lemmas case_checks = case_Inr_iff case_Some_iff split_paired_Ex prod.case

lemma dget_dset [simp]: "dget (dset k v d) k' = (if k' = k then Some v else dget d k')"
  by (simp add: AList.update_conv')

lemma dget_ddel [simp]: "dget (ddel k d) k' = (if k' = k then None else dget d k')"
  by (simp add: AList.delete_conv')

lemma dkeys_dset: "set (dkeys (dset k r d)) = insert k (set (dkeys d))"
  by (induction d) auto

lemma dkeys_ddel: "set (dkeys (ddel k d)) = set (dkeys d) - {k}"
  by (auto simp: AList.delete_eq)

lemma jget_Some [simp]: "dget d k = Some v \<Longrightarrow> jget d k = v"
  by (simp add: jget_def)

lemma jget_Nil [simp]: "jget [] k = JNull"
  by (simp add: jget_def)

lemma jget_Cons [simp]: "jget ((k', v) # d) k = (if k = k' then v else jget d k)"
  by (simp add: jget_def)

lemma dget_or_Nil [simp]: "dget_or [] k v = v"
  by (simp add: dget_or_def)

lemma dget_or_Cons [simp]: "dget_or ((k', v) # d) k v0 = (if k = k' then v else dget_or d k v0)"
  by (simp add: dget_or_def)

lemma distinct_dset: "distinct (dkeys d) \<Longrightarrow> distinct (dkeys (dset k v d))"
  by (rule distinct_update)

section \<open>Text\<close>

definition code :: "char \<Rightarrow> nat" where
  "code c = of_char c"

definition is_space :: "char \<Rightarrow> bool" where
  "is_space c = (let n = code c in
     9 \<le> n \<and> n \<le> 13 \<or> 28 \<le> n \<and> n \<le> 32 \<or> n = 133 \<or> n = 160)"

text \<open>General category \<open>C*\<close>: the two control blocks and the soft hyphen.\<close>

definition is_control :: "char \<Rightarrow> bool" where
  "is_control c = (let n = code c in n < 32 \<or> 127 \<le> n \<and> n \<le> 159 \<or> n = 173)"

definition is_digit :: "char \<Rightarrow> bool" where
  "is_digit c = (48 \<le> code c \<and> code c \<le> 57)"

definition is_lower_az :: "char \<Rightarrow> bool" where
  "is_lower_az c = (97 \<le> code c \<and> code c \<le> 122)"

definition is_upper_AZ :: "char \<Rightarrow> bool" where
  "is_upper_AZ c = (65 \<le> code c \<and> code c \<le> 90)"

definition is_az09 :: "char \<Rightarrow> bool" where
  "is_az09 c = (is_lower_az c \<or> is_digit c)"

definition is_ascii_alnum :: "char \<Rightarrow> bool" where
  "is_ascii_alnum c = (is_lower_az c \<or> is_upper_AZ c \<or> is_digit c)"

text \<open>\<open>str.isalnum\<close>: letters, digits and the superscripts and fractions of the upper half.\<close>

definition is_alnum :: "char \<Rightarrow> bool" where
  "is_alnum c = (is_ascii_alnum c \<or>
     (let n = code c in n \<in> {170, 178, 179, 181, 185, 186, 188, 189, 190} \<or>
        192 \<le> n \<and> n \<noteq> 215 \<and> n \<noteq> 247))"

definition lower_char :: "char \<Rightarrow> char" where
  "lower_char c = (let n = code c in
     if 65 \<le> n \<and> n \<le> 90 \<or> 192 \<le> n \<and> n \<le> 222 \<and> n \<noteq> 215 then char_of (n + 32) else c)"

text \<open>
  Upper case. Code points 181 and 255 have upper-case forms outside the range; they are kept,
  since every use compares the result with an ASCII word.
\<close>

definition upper_char :: "char \<Rightarrow> string" where
  "upper_char c = (let n = code c in
     if n = 223 then ''SS''
     else if 97 \<le> n \<and> n \<le> 122 \<or> 224 \<le> n \<and> n \<le> 254 \<and> n \<noteq> 247 then [char_of (n - 32)]
     else [c])"

definition casefold_char :: "char \<Rightarrow> string" where
  "casefold_char c = (if code c = 223 then ''ss'' else [lower_char c])"

text \<open>
  Compatibility normalisation (NFKC). Combining marks and the fraction slash, which leave the
  range, are written as the spacing diaeresis (168): like them it is neither a space nor
  alphanumeric.  Every use but the content fingerprint keeps only the characters \<open>a-z0-9\<close> of the
  result; the fingerprint is exact for text without the code points 168, 175, 180, 184 and
  188-190.
\<close>

definition nfkc_char :: "char \<Rightarrow> string" where
  "nfkc_char c = (let n = code c in
     if n = 160 then '' ''
     else if n \<in> {168, 175, 180, 184} then '' '' @ [char_of (168 :: nat)]
     else if n = 170 then ''a'' else if n = 186 then ''o''
     else if n = 185 then ''1'' else if n = 178 then ''2'' else if n = 179 then ''3''
     else if n = 188 then ''1'' @ [char_of (168 :: nat)] @ ''4''
     else if n = 189 then ''1'' @ [char_of (168 :: nat)] @ ''2''
     else if n = 190 then ''3'' @ [char_of (168 :: nat)] @ ''4''
     else [c])"

definition lower :: "string \<Rightarrow> string" where
  "lower s = map lower_char s"

definition upper :: "string \<Rightarrow> string" where
  "upper s = concat (map upper_char s)"

definition casefold :: "string \<Rightarrow> string" where
  "casefold s = concat (map casefold_char s)"

definition nfkc :: "string \<Rightarrow> string" where
  "nfkc s = concat (map nfkc_char s)"

text \<open>Canonical normalisation (NFC) leaves every text of code points below 768 alone.\<close>

definition nfc :: "string \<Rightarrow> string" where
  "nfc s = s"

definition strip_if :: "(char \<Rightarrow> bool) \<Rightarrow> string \<Rightarrow> string" where
  "strip_if p s = rev (dropWhile p (rev (dropWhile p s)))"

definition strip :: "string \<Rightarrow> string" where
  "strip s = strip_if is_space s"

text \<open>The length of the UTF-8 encoding.\<close>

definition utf8_len :: "string \<Rightarrow> nat" where
  "utf8_len s = sum_list (map (\<lambda>c. if code c < 128 then 1 else 2) s)"

fun nat_str_aux :: "nat \<Rightarrow> string \<Rightarrow> string" where
  "nat_str_aux n acc =
     (let acc' = char_of (48 + n mod 10) # acc in if n < 10 then acc' else nat_str_aux (n div 10) acc')"

definition nat_str :: "nat \<Rightarrow> string" where
  "nat_str n = nat_str_aux n []"

definition int_str :: "int \<Rightarrow> string" where
  "int_str i = (if i < 0 then CHR ''-'' # nat_str (nat (- i)) else nat_str (nat i))"

declare nat_str_aux.simps [simp del]

text \<open>\<open>bool(s and s.strip())\<close>-style tests and prefix tests.\<close>

definition starts_with :: "string \<Rightarrow> string \<Rightarrow> bool" where
  "starts_with p s = (take (length p) s = p)"

definition ends_with :: "string \<Rightarrow> string \<Rightarrow> bool" where
  "ends_with p s = starts_with (rev p) (rev s)"

definition quoted :: "string \<Rightarrow> string" where
  "quoted s = [CHR 0x27] @ s @ [CHR 0x27]"

text \<open>
  The regular expressions \<open>[...]+\<close> of the code: \<open>re.sub\<close> and \<open>re.findall\<close> on the maximal runs
  of a class of characters.
\<close>

function sub_runs :: "(char \<Rightarrow> bool) \<Rightarrow> string \<Rightarrow> string \<Rightarrow> string" where
  "sub_runs p repl [] = []"
| "sub_runs p repl (c # cs) =
     (if p c then repl @ sub_runs p repl (dropWhile p cs) else c # sub_runs p repl cs)"
  by pat_completeness auto
termination
  by (relation "measure (\<lambda>(p, r, s). length s)") (auto simp: le_imp_less_Suc length_dropWhile_le)

function find_runs :: "(char \<Rightarrow> bool) \<Rightarrow> string \<Rightarrow> string list" where
  "find_runs p [] = []"
| "find_runs p (c # cs) =
     (if p c then (c # takeWhile p cs) # find_runs p (dropWhile p cs) else find_runs p cs)"
  by pat_completeness auto
termination
  by (relation "measure (\<lambda>(p, s). length s)") (auto simp: le_imp_less_Suc length_dropWhile_le)

text \<open>\<open>sep.join(parts)\<close>.\<close>

fun join :: "string \<Rightarrow> string list \<Rightarrow> string" where
  "join sep [] = []"
| "join sep [x] = x"
| "join sep (x # y # ys) = x @ sep @ join sep (y # ys)"

text \<open>
  \<open>float(i)\<close> of an integer raises \<open>OverflowError\<close> from the midpoint above the largest finite
  double on; text and JSON numbers beyond it become infinities.
\<close>

definition FLOAT_LIMIT :: int where "FLOAT_LIMIT = 2 ^ 1024 - 2 ^ 970"

definition float_of_int :: "int \<Rightarrow> pyfloat res" where
  "float_of_int i =
     (if \<bar>i\<bar> \<ge> FLOAT_LIMIT then raise OverflowError ''int too large to convert to float''
      else Inr (Fin (of_int i)))"

definition float_of_rat :: "rat \<Rightarrow> pyfloat" where
  "float_of_rat r =
     (if r \<ge> of_int FLOAT_LIMIT then PosInf else if r \<le> - of_int FLOAT_LIMIT then NegInf else Fin r)"

lemma dropWhile_idem_hd: "s = [] \<or> \<not> p (hd s) \<Longrightarrow> dropWhile p s = s"
  by (cases s) auto

lemma hd_dropWhile_not: "dropWhile p s \<noteq> [] \<Longrightarrow> \<not> p (hd (dropWhile p s))"
  by (rule hd_dropWhile)

lemma strip_if_ends:
  assumes "strip_if p s \<noteq> []"
  shows "\<not> p (hd (strip_if p s))" and "\<not> p (last (strip_if p s))"
proof -
  let ?t = "dropWhile p s"
  let ?u = "dropWhile p (rev ?t)"
  from assms have u: "?u \<noteq> []" unfolding strip_if_def by (metis rev.simps(1))
  then show "\<not> p (last (strip_if p s))"
    unfolding strip_if_def last_rev by (rule hd_dropWhile)
  have "rev ?t = takeWhile p (rev ?t) @ ?u" by simp
  then have "?t = rev ?u @ rev (takeWhile p (rev ?t))"
    by (metis rev_append rev_rev_ident)
  with u have "hd ?t = hd (rev ?u)" by (metis Nil_is_rev_conv hd_append2)
  moreover have "?t \<noteq> []" using u by (metis dropWhile.simps(1) rev.simps(1))
  ultimately show "\<not> p (hd (strip_if p s))"
    by (metis hd_dropWhile strip_if_def)
qed

lemma strip_if_fix: "s = [] \<or> \<not> p (hd s) \<and> \<not> p (last s) \<Longrightarrow> strip_if p s = s"
  by (cases "s = []") (auto simp: strip_if_def dropWhile_idem_hd hd_rev)

lemma strip_if_idem [simp]: "strip_if p (strip_if p s) = strip_if p s"
  using strip_if_ends [of p s] by (intro strip_if_fix) auto

lemma strip_idem [simp]: "strip (strip s) = strip s"
  by (simp add: strip_def)

lemma strip_Nil [simp]: "strip [] = []"
  by (simp add: strip_def strip_if_def)

lemma set_strip_if: "set (strip_if p s) \<subseteq> set s"
  unfolding strip_if_def by (metis set_dropWhileD set_rev subsetI)

lemma length_strip_if: "length (strip_if p s) \<le> length s"
  unfolding strip_if_def by (metis length_dropWhile_le length_rev le_trans)

lemma strip_no_space: "(\<forall>c \<in> set s. \<not> is_space c) \<Longrightarrow> strip s = s"
  unfolding strip_def by (rule strip_if_fix) (cases s; auto)

lemma code_char_of [simp]: "n < 256 \<Longrightarrow> code (char_of n) = n"
  by (simp add: code_def)

lemma code_inject: "code c = code d \<longleftrightarrow> c = d"
  by (simp add: code_def)

lemma code_less_256: "code c < 256"
  using nat_of_char_less_256 [of c] by (simp add: code_def)

lemma utf8_len_Nil [simp]: "utf8_len [] = 0"
  by (simp add: utf8_len_def)

lemma utf8_len_append [simp]: "utf8_len (s @ t) = utf8_len s + utf8_len t"
  by (simp add: utf8_len_def)

lemma length_le_utf8_len: "length s \<le> utf8_len s"
  by (induction s) (auto simp: utf8_len_def)

lemma lower_char_idem [simp]: "lower_char (lower_char c) = lower_char c"
proof -
  have "code (lower_char c) = (if 65 \<le> code c \<and> code c \<le> 90 \<or>
      192 \<le> code c \<and> code c \<le> 222 \<and> code c \<noteq> 215 then code c + 32 else code c)"
    by (auto simp: lower_char_def Let_def)
  then have "\<not> (65 \<le> code (lower_char c) \<and> code (lower_char c) \<le> 90 \<or>
      192 \<le> code (lower_char c) \<and> code (lower_char c) \<le> 222 \<and> code (lower_char c) \<noteq> 215)"
    by (auto split: if_splits)
  then show ?thesis unfolding lower_char_def [of "lower_char c"] Let_def by (simp only: if_False)
qed

lemma lower_idem [simp]: "lower (lower s) = lower s"
  by (simp add: lower_def)

text \<open>Evaluation of the text functions on literals.\<close>

lemmas text_eval = char_of_def bit_0 code_def strip_def strip_if_def is_space_def is_control_def
  upper_def upper_char_def lower_def lower_char_def casefold_def casefold_char_def
  nfkc_def nfkc_char_def nfc_def is_az09_def is_lower_az_def is_upper_AZ_def is_digit_def
  is_alnum_def is_ascii_alnum_def starts_with_def ends_with_def

section \<open>Sorting and grouping\<close>

text \<open>
  \<open>sorted(xs, key=k)\<close> is \<open>sort_key k xs\<close>: both are stable.  Text compares by code point and
  tuples compare component by component, as in Python.
\<close>

lemma take_sort_sorted: "sorted (map k (take n (sort_key k xs)))"
  by (metis sorted_sort_key sorted_wrt_take take_map)

definition dedup :: "'a list \<Rightarrow> 'a list" where
  "dedup xs = rev (remdups (rev xs))"

text \<open>\<open>list(dict.fromkeys(xs))\<close>: first occurrences, in order.\<close>

lemma set_dedup [simp]: "set (dedup xs) = set xs"
  by (simp add: dedup_def)

lemma distinct_dedup [simp]: "distinct (dedup xs)"
  by (simp add: dedup_def)

text \<open>\<open>[xs[i : i + n] for i in range(0, len(xs), n)]\<close>.\<close>

function chunks :: "nat \<Rightarrow> 'a list \<Rightarrow> 'a list list" where
  "chunks n xs = (if xs = [] \<or> n = 0 then [] else take n xs # chunks n (drop n xs))"
  by pat_completeness auto
termination by (relation "measure (\<lambda>(n, xs). length xs)") auto

declare chunks.simps [simp del]

lemma concat_chunks: "0 < n \<Longrightarrow> concat (chunks n xs) = xs"
proof (induction n xs rule: chunks.induct)
  case (1 n xs)
  show ?case
  proof (cases "xs = []")
    case False
    have "concat (chunks n xs) = take n xs @ concat (chunks n (drop n xs))"
      using False 1(2) by (subst chunks.simps) simp
    with 1 False show ?thesis by simp
  qed (simp add: chunks.simps)
qed

lemma chunk_length: "c \<in> set (chunks n xs) \<Longrightarrow> 0 < length c \<and> length c \<le> n"
proof (induction n xs rule: chunks.induct)
  case (1 n xs)
  then show ?case
    by (subst (asm) (2) chunks.simps) (auto split: if_splits)
qed

end
