(* ===== verification/Scope.thy ===== *)
theory Scope
  imports Prelude
begin

text \<open>
  The tenancy scope of a request (\<open>core/scope.py\<close>): validation of one identifier, the
  \<open>Scope\<close> record, its normalisation and the filter dictionary sent upstream.
\<close>

section \<open>Identifiers\<close>

definition MAX_SCOPE_ID_CHARS :: nat where
  "MAX_SCOPE_ID_CHARS = 256"

definition MAX_PROJECT_ID_CHARS :: nat where
  "MAX_PROJECT_ID_CHARS = 128"

definition scope_maximum :: "string \<Rightarrow> nat" where
  "scope_maximum field_name =
     (if field_name = ''project_id'' then MAX_PROJECT_ID_CHARS else MAX_SCOPE_ID_CHARS)"

text \<open>The tests a string must fail to be accepted, in the order of the source.\<close>

definition portable_id :: "nat \<Rightarrow> string \<Rightarrow> bool" where
  "portable_id maximum value =
     (\<not> (value = [] \<or> value \<noteq> strip value \<or> length value > maximum \<or> nfc value \<noteq> value
        \<or> list_ex is_space value \<or> list_ex is_control value))"

definition validate_scope_id :: "json \<Rightarrow> string \<Rightarrow> bool \<Rightarrow> string option res" where
  "validate_scope_id value field_name required =
     (let maximum = scope_maximum field_name;
          rejected = value_error (field_name @ '' must be a portable 1-'' @ nat_str maximum
            @ '' character identifier'')
      in case value of
           JNull \<Rightarrow> if \<not> required then Inr None else rejected
         | JStr s \<Rightarrow> if \<not> portable_id maximum s then rejected else Inr (Some s)
         | _ \<Rightarrow> rejected)"

section \<open>Scopes\<close>

record scope =
  scope_project_id :: string
  scope_user_id :: "string option"
  scope_app_id :: string
  scope_agent_id :: "string option"
  scope_run_id :: "string option"

definition as_filter_dict :: "scope \<Rightarrow> string dict" where
  "as_filter_dict sc =
     List.map_filter (\<lambda>(k, v). case v of Some s \<Rightarrow> if s \<noteq> [] then Some (k, s) else None | None \<Rightarrow> None)
       [(''user_id'', scope_user_id sc), (''agent_id'', scope_agent_id sc),
        (''app_id'', Some (scope_app_id sc)), (''run_id'', scope_run_id sc)]"

text \<open>
  A call with \<open>required=True\<close> returns a string or raises; \<open>require_id\<close> reads the string
  off the result.
\<close>

definition require_id :: "string option res \<Rightarrow> string res" where
  "require_id r = rbind r (\<lambda>v. case v of Some s \<Rightarrow> Inr s | None \<Rightarrow> raise AssertionError [])"

definition normalize_scope ::
    "json \<Rightarrow> json \<Rightarrow> json \<Rightarrow> json \<Rightarrow> json \<Rightarrow> scope res" where
  "normalize_scope project_id user_id app_id agent_id run_id =
     rbind (require_id (validate_scope_id project_id ''project_id'' True)) (\<lambda>normalized_project_id.
     rbind (require_id (validate_scope_id
        (if app_id = JNull then JStr normalized_project_id else app_id) ''app_id'' True))
       (\<lambda>normalized_app_id.
     rbind (validate_scope_id user_id ''user_id'' False) (\<lambda>u.
     rbind (validate_scope_id agent_id ''agent_id'' False) (\<lambda>g.
     rbind (validate_scope_id run_id ''run_id'' False) (\<lambda>r.
       Inr \<lparr>scope_project_id = normalized_project_id, scope_user_id = u,
            scope_app_id = normalized_app_id, scope_agent_id = g, scope_run_id = r\<rparr>)))))"

section \<open>What validation guarantees\<close>

lemma portable_id_bounds: "portable_id n s \<Longrightarrow> 0 < length s \<and> length s \<le> n"
  by (auto simp: portable_id_def)

lemma portable_id_nonempty [simp]: "\<not> portable_id n []"
  by (simp add: portable_id_def)

lemma portable_id_strip: "portable_id n s \<Longrightarrow> strip s = s"
  by (auto simp: portable_id_def)

lemma portable_id_mono: "portable_id n s \<Longrightarrow> n \<le> m \<Longrightarrow> portable_id m s"
  by (auto simp: portable_id_def)

lemma validate_scope_id_Some:
  "validate_scope_id v f req = Inr (Some s) \<longleftrightarrow> v = JStr s \<and> portable_id (scope_maximum f) s"
  by (auto simp: validate_scope_id_def Let_def split: json.splits if_splits)

lemma validate_scope_id_None:
  "validate_scope_id v f req = Inr None \<longleftrightarrow> v = JNull \<and> \<not> req"
  by (auto simp: validate_scope_id_def Let_def split: json.splits if_splits)

lemma validate_scope_id_Inl:
  "validate_scope_id v f req = Inl e \<longleftrightarrow>
     e = Exn ValueError (f @ '' must be a portable 1-'' @ nat_str (scope_maximum f)
           @ '' character identifier'')
     \<and> (case v of JNull \<Rightarrow> req | JStr s \<Rightarrow> \<not> portable_id (scope_maximum f) s | _ \<Rightarrow> True)"
  by (auto simp: validate_scope_id_def Let_def split: json.splits if_splits)

lemmas validate_scope_id_cases =
  validate_scope_id_Some validate_scope_id_None validate_scope_id_Inl

lemma require_id_Inr: "require_id r = Inr s \<longleftrightarrow> r = Inr (Some s)"
  by (auto simp: require_id_def res_simps split: option.splits)

lemma validate_optional:
  "validate_scope_id v f False = Inr r \<longleftrightarrow>
     v = opt_json r \<and> (\<forall>s. r = Some s \<longrightarrow> portable_id (scope_maximum f) s)"
  by (cases r) (auto simp: validate_scope_id_cases)

lemma normalize_scope_Inr:
  "normalize_scope p u a g r = Inr sc \<longleftrightarrow>
     p = JStr (scope_project_id sc) \<and> portable_id 128 (scope_project_id sc)
     \<and> (a = JNull \<and> scope_app_id sc = scope_project_id sc \<or> a = JStr (scope_app_id sc))
     \<and> portable_id 256 (scope_app_id sc)
     \<and> u = opt_json (scope_user_id sc) \<and> pred_option (portable_id 256) (scope_user_id sc)
     \<and> g = opt_json (scope_agent_id sc) \<and> pred_option (portable_id 256) (scope_agent_id sc)
     \<and> r = opt_json (scope_run_id sc) \<and> pred_option (portable_id 256) (scope_run_id sc)"
  (is "?L \<longleftrightarrow> ?R")
proof
  assume ?L
  then show ?R
    by (auto simp: normalize_scope_def res_simps require_id_Inr validate_scope_id_Some
        validate_optional scope_maximum_def MAX_SCOPE_ID_CHARS_def MAX_PROJECT_ID_CHARS_def
        pred_option_def split: if_splits)
next
  assume ?R
  then show ?L
    by (cases sc) (auto simp: normalize_scope_def res_simps require_id_Inr validate_scope_id_Some
        validate_optional scope_maximum_def MAX_SCOPE_ID_CHARS_def MAX_PROJECT_ID_CHARS_def
        pred_option_def)
qed

lemma as_filter_dict_get:
  "dget (as_filter_dict sc) k =
     (if k = ''user_id'' then Option.bind (scope_user_id sc) (\<lambda>s. if s = [] then None else Some s)
      else if k = ''agent_id'' then Option.bind (scope_agent_id sc) (\<lambda>s. if s = [] then None else Some s)
      else if k = ''app_id'' then (if scope_app_id sc = [] then None else Some (scope_app_id sc))
      else if k = ''run_id'' then Option.bind (scope_run_id sc) (\<lambda>s. if s = [] then None else Some s)
      else None)"
  by (cases "scope_user_id sc"; cases "scope_agent_id sc"; cases "scope_run_id sc")
    (simp_all add: as_filter_dict_def List.map_filter_simps)

end
