(* ===== verification/Explorer_Filters.thy ===== *)
theory Explorer_Filters
  imports Prelude
begin

text \<open>
  The explorer query language (\<open>core/explorer_filters.py\<close>): parsing of a request document
  into filters, a date range and a page window, with every rejection of the source.
  \<open>fromiso\<close> stands for \<open>datetime.fromisoformat\<close>.
\<close>

section \<open>Queries\<close>

definition EXPLORER_RECORD_HORIZON :: int where "EXPLORER_RECORD_HORIZON = 5000"
definition MAX_EXPLORER_FILTERS :: nat where "MAX_EXPLORER_FILTERS = 64"
definition MAX_EXPLORER_IN_VALUES :: nat where "MAX_EXPLORER_IN_VALUES = 100"
definition MAX_EXPLORER_VALUE_CHARS :: nat where "MAX_EXPLORER_VALUE_CHARS = 256"

definition MEMORY_FILTER_FIELDS :: "string list" where
  "MEMORY_FILTER_FIELDS = [''entity_type'', ''user_id'', ''agent_id'', ''app_id'', ''run_id'',
     ''memory_id'', ''category'', ''metadata'']"

definition SCALAR_OPERATORS :: "string list" where
  "SCALAR_OPERATORS = [''equals'', ''not_equals'', ''in'']"

definition KNOWN_OPERATORS :: "string list" where
  "KNOWN_OPERATORS = [''equals'', ''not_equals'', ''in'', ''contains'']"

definition compatible_operators :: "string \<Rightarrow> string list" where
  "compatible_operators field = (if field = ''metadata'' then [''contains''] else SCALAR_OPERATORS)"

definition EXPLORER_ENTITY_TYPES :: "string list" where
  "EXPLORER_ENTITY_TYPES = [''user'', ''agent'', ''app'', ''run'']"

definition EXPLORER_SORTS :: "string list" where
  "EXPLORER_SORTS = [''created_at_desc'', ''created_at_asc'']"

text \<open>The three shapes a normalised filter value has: a scalar, a tuple, a key/value pair.\<close>

datatype filter_value = FScalar string | FMany "string list" | FPair string string

record explorer_filter =
  ef_field :: string
  ef_operator :: string
  ef_value :: filter_value

record explorer_date_range =
  from_at :: "datetime option"
  to_at :: "datetime option"

record explorer_query =
  eq_match :: string
  eq_filters :: "explorer_filter list"
  eq_date_range :: explorer_date_range
  eq_page :: int
  eq_page_size :: int
  eq_sort :: string

section \<open>Values\<close>

definition non_empty_string :: "json \<Rightarrow> string \<Rightarrow> string res" where
  "non_empty_string value path =
     (case value of
        JStr s \<Rightarrow>
          if strip s = [] then value_error (path @ '' must be a non-empty string'')
          else let normalized = strip s in
            if length normalized > MAX_EXPLORER_VALUE_CHARS
            then value_error (path @ '' must contain at most 256 characters'')
            else Inr normalized
      | _ \<Rightarrow> value_error (path @ '' must be a non-empty string''))"

definition normalize_scalar_value :: "string \<Rightarrow> json \<Rightarrow> string \<Rightarrow> string res" where
  "normalize_scalar_value field value path =
     rbind (non_empty_string value path) (\<lambda>normalized.
       if field = ''entity_type'' \<and> normalized \<notin> set EXPLORER_ENTITY_TYPES
       then value_error (path @ '' must be one of app, agent, run, user'')
       else Inr normalized)"

definition index_path :: "string \<Rightarrow> nat \<Rightarrow> string" where
  "index_path path i = path @ ''['' @ nat_str i @ '']''"

definition normalize_in_value :: "string \<Rightarrow> json \<Rightarrow> string \<Rightarrow> string list res" where
  "normalize_in_value field value path =
     (case value of
        JList items \<Rightarrow>
          if items = [] then value_error (path @ '' must be a non-empty list'')
          else if length items > MAX_EXPLORER_IN_VALUES
          then value_error (path @ '' must contain at most 100 items'')
          else rmap (\<lambda>(index, item). normalize_scalar_value field item (index_path path index))
                 (enumerate 0 items)
      | _ \<Rightarrow> value_error (path @ '' must be a non-empty list''))"

definition normalize_metadata_value :: "json \<Rightarrow> string \<Rightarrow> (string \<times> string) res" where
  "normalize_metadata_value value path =
     (case value of
        JObj m \<Rightarrow>
          (case dget m ''key'' of
             None \<Rightarrow> value_error (path @ ''.key is required'')
           | Some k \<Rightarrow>
          (case dget m ''value'' of
             None \<Rightarrow> value_error (path @ ''.value is required'')
           | Some v \<Rightarrow>
               rbind (non_empty_string k (path @ ''.key'')) (\<lambda>k'.
               rbind (non_empty_string v (path @ ''.value'')) (\<lambda>v'. Inr (k', v')))))
      | _ \<Rightarrow> value_error (path @ '' must be an object''))"

section \<open>Filters\<close>

definition parse_filter :: "string list \<Rightarrow> nat \<Rightarrow> json \<Rightarrow> explorer_filter res" where
  "parse_filter allowed_fields index value =
     (let path = index_path ''filters'' index in
      case value of
        JObj m \<Rightarrow>
          (case jget m ''field'' of
             JStr field \<Rightarrow>
               if field \<notin> set allowed_fields then value_error (path @ ''.field is not allowed'')
               else
          (case jget m ''operator'' of
             JStr operator \<Rightarrow>
               if operator \<notin> set KNOWN_OPERATORS then value_error (path @ ''.operator is invalid'')
               else if operator \<notin> set (compatible_operators field)
               then value_error (path @ ''.operator is incompatible with '' @ field)
               else
                 let raw_value = jget m ''value''; value_path = path @ ''.value'' in
                 rbind (if field = ''metadata''
                        then rbind (normalize_metadata_value raw_value value_path)
                               (\<lambda>(k, v). Inr (FPair k v))
                        else if operator = ''in''
                        then rbind (normalize_in_value field raw_value value_path)
                               (\<lambda>vs. Inr (FMany vs))
                        else rbind (normalize_scalar_value field raw_value value_path)
                               (\<lambda>v. Inr (FScalar v)))
                   (\<lambda>normalized_value.
                      Inr \<lparr>ef_field = field, ef_operator = operator, ef_value = normalized_value\<rparr>)
           | _ \<Rightarrow> value_error (path @ ''.operator is invalid''))
           | _ \<Rightarrow> value_error (path @ ''.field is not allowed''))
      | _ \<Rightarrow> value_error (path @ '' must be an object''))"

section \<open>Dates and numbers\<close>

text \<open>\<open>value.replace("Z", "+00:00")\<close>\<close>

definition replace_Z :: "string \<Rightarrow> string" where
  "replace_Z s = concat (map (\<lambda>c. if c = CHR ''Z'' then ''+00:00'' else [c]) s)"

definition parse_datetime ::
    "(string \<Rightarrow> datetime option) \<Rightarrow> json \<Rightarrow> string \<Rightarrow> datetime option res" where
  "parse_datetime fromiso value path =
     (case value of
        JNull \<Rightarrow> Inr None
      | JStr s \<Rightarrow>
          (case fromiso (replace_Z s) of
             None \<Rightarrow> value_error (path @ '' must be an ISO 8601 datetime'')
           | Some (Naive _) \<Rightarrow> value_error (path @ '' must include a timezone'')
           | Some parsed \<Rightarrow> Inr (Some parsed))
      | _ \<Rightarrow> value_error (path @ '' must be an ISO 8601 datetime''))"

definition parse_date_range ::
    "(string \<Rightarrow> datetime option) \<Rightarrow> json \<Rightarrow> explorer_date_range res" where
  "parse_date_range fromiso value =
     (case (if value = JNull then JObj [] else value) of
        JObj m \<Rightarrow>
          rbind (parse_datetime fromiso (jget m ''from'') ''date_range.from'') (\<lambda>f.
          rbind (parse_datetime fromiso (jget m ''to'') ''date_range.to'') (\<lambda>t.
            (case (f, t) of
               (Some a, Some b) \<Rightarrow>
                 if instant a > instant b
                 then value_error ''date_range.from must not be after date_range.to''
                 else Inr \<lparr>from_at = f, to_at = t\<rparr>
             | _ \<Rightarrow> Inr \<lparr>from_at = f, to_at = t\<rparr>)))
      | _ \<Rightarrow> value_error ''date_range must be an object'')"

definition parse_integer :: "json \<Rightarrow> string \<Rightarrow> int \<Rightarrow> int option \<Rightarrow> int res" where
  "parse_integer value path minimum maximum =
     (case value of
        JInt i \<Rightarrow>
          if i < minimum then
            (case maximum of
               None \<Rightarrow> value_error (path @ '' must be at least '' @ int_str minimum)
             | Some mx \<Rightarrow> value_error (path @ '' must be between '' @ int_str minimum
                 @ '' and '' @ int_str mx))
          else
            (case maximum of
               None \<Rightarrow> Inr i
             | Some mx \<Rightarrow>
                 if i > mx then value_error (path @ '' must be between '' @ int_str minimum
                   @ '' and '' @ int_str mx)
                 else Inr i)
      | _ \<Rightarrow> value_error (path @ '' must be an integer''))"

section \<open>The query\<close>

definition parse_explorer_query ::
    "(string \<Rightarrow> datetime option) \<Rightarrow> string list \<Rightarrow> json dict \<Rightarrow> explorer_query res" where
  "parse_explorer_query fromiso allowed_fields payload =
     (case dget_or payload ''match'' (JStr ''all'') of
        JStr match_mode \<Rightarrow>
          if match_mode \<notin> {''all'', ''any''} then value_error (''match must be '' @ quoted ''all'' @ '' or '' @ quoted ''any'')
          else
     (case dget_or payload ''filters'' (JList []) of
        JList raw_filters \<Rightarrow>
          if length raw_filters > MAX_EXPLORER_FILTERS
          then value_error ''filters must contain at most 64 items''
          else
     rbind (rmap (\<lambda>(index, v). parse_filter allowed_fields index v) (enumerate 0 raw_filters))
       (\<lambda>filters.
     rbind (parse_date_range fromiso (jget payload ''date_range'')) (\<lambda>date_range.
     rbind (parse_integer (dget_or payload ''page'' (JInt 1)) ''page'' 1 None) (\<lambda>page.
     rbind (parse_integer (dget_or payload ''page_size'' (JInt 20)) ''page_size'' 1 (Some 100))
       (\<lambda>page_size.
     if page * page_size > EXPLORER_RECORD_HORIZON
     then value_error ''page window must not exceed 5000 records''
     else
     (case dget_or payload ''sort'' (JStr ''created_at_desc'') of
        JStr sort_order \<Rightarrow>
          if sort_order \<notin> set EXPLORER_SORTS then value_error ''sort is invalid''
          else Inr \<lparr>eq_match = match_mode, eq_filters = filters, eq_date_range = date_range,
                    eq_page = page, eq_page_size = page_size, eq_sort = sort_order\<rparr>
      | _ \<Rightarrow> value_error ''sort is invalid'')))))
      | _ \<Rightarrow> value_error ''filters must be a list'')
      | _ \<Rightarrow> value_error (''match must be '' @ quoted ''all'' @ '' or '' @ quoted ''any''))"

section \<open>Well-formed queries\<close>

text \<open>
  What a parsed query promises its consumers: every value is stripped, non-empty and bounded,
  its shape fits the operator, the operator fits the field, and the page window is bounded.
\<close>

definition wf_text :: "string \<Rightarrow> bool" where
  "wf_text s = (s \<noteq> [] \<and> strip s = s \<and> length s \<le> MAX_EXPLORER_VALUE_CHARS)"

definition wf_scalar :: "string \<Rightarrow> string \<Rightarrow> bool" where
  "wf_scalar field s = (wf_text s \<and> (field = ''entity_type'' \<longrightarrow> s \<in> set EXPLORER_ENTITY_TYPES))"

fun wf_value :: "string \<Rightarrow> string \<Rightarrow> filter_value \<Rightarrow> bool" where
  "wf_value field operator (FPair k v) = (field = ''metadata'' \<and> wf_text k \<and> wf_text v)"
| "wf_value field operator (FMany vs) = (field \<noteq> ''metadata'' \<and> operator = ''in'' \<and> vs \<noteq> []
     \<and> length vs \<le> MAX_EXPLORER_IN_VALUES \<and> list_all (wf_scalar field) vs)"
| "wf_value field operator (FScalar v) =
     (field \<noteq> ''metadata'' \<and> operator \<noteq> ''in'' \<and> wf_scalar field v)"

definition wf_filter :: "string list \<Rightarrow> explorer_filter \<Rightarrow> bool" where
  "wf_filter allowed f =
     (ef_field f \<in> set allowed \<and> ef_operator f \<in> set (compatible_operators (ef_field f))
      \<and> wf_value (ef_field f) (ef_operator f) (ef_value f))"

fun is_aware :: "datetime \<Rightarrow> bool" where
  "is_aware (Naive _) = False"
| "is_aware (Aware _ _) = True"

definition wf_date_range :: "explorer_date_range \<Rightarrow> bool" where
  "wf_date_range r =
     (pred_option is_aware (from_at r) \<and> pred_option is_aware (to_at r)
      \<and> (case (from_at r, to_at r) of (Some a, Some b) \<Rightarrow> instant a \<le> instant b | _ \<Rightarrow> True))"

definition wf_query :: "string list \<Rightarrow> explorer_query \<Rightarrow> bool" where
  "wf_query allowed q =
     (eq_match q \<in> {''all'', ''any''} \<and> length (eq_filters q) \<le> MAX_EXPLORER_FILTERS
      \<and> list_all (wf_filter allowed) (eq_filters q) \<and> wf_date_range (eq_date_range q)
      \<and> 1 \<le> eq_page q \<and> 1 \<le> eq_page_size q \<and> eq_page_size q \<le> 100
      \<and> eq_page q * eq_page_size q \<le> EXPLORER_RECORD_HORIZON
      \<and> eq_sort q \<in> set EXPLORER_SORTS)"

lemma non_empty_string_Inr:
  "non_empty_string v p = Inr t \<longleftrightarrow>
     (\<exists>s. v = JStr s \<and> t = strip s \<and> t \<noteq> [] \<and> length t \<le> MAX_EXPLORER_VALUE_CHARS)"
  by (auto simp: non_empty_string_def Let_def split: json.splits if_splits)

lemma non_empty_string_wf: "non_empty_string v p = Inr t \<Longrightarrow> wf_text t"
  by (auto simp: non_empty_string_Inr wf_text_def)

lemma normalize_scalar_value_Inr:
  "normalize_scalar_value f v p = Inr t \<longleftrightarrow>
     non_empty_string v p = Inr t \<and> (f = ''entity_type'' \<longrightarrow> t \<in> set EXPLORER_ENTITY_TYPES)"
  by (auto simp: normalize_scalar_value_def res_simps split: if_splits)

lemma normalize_scalar_value_wf: "normalize_scalar_value f v p = Inr t \<Longrightarrow> wf_scalar f t"
  by (auto simp: normalize_scalar_value_Inr wf_scalar_def dest: non_empty_string_wf)

lemma normalize_in_value_wf:
  assumes "normalize_in_value f v p = Inr ts"
  shows "ts \<noteq> [] \<and> length ts \<le> MAX_EXPLORER_IN_VALUES \<and> list_all (wf_scalar f) ts"
proof -
  from assms obtain items where v: "v = JList items" and items: "items \<noteq> []"
      "length items \<le> MAX_EXPLORER_IN_VALUES"
    and r: "rmap (\<lambda>(i, item). normalize_scalar_value f item (index_path p i)) (enumerate 0 items)
      = Inr ts"
    by (auto simp: normalize_in_value_def split: json.splits if_splits)
  have "length ts = length items" using rmap_length [OF r] by simp
  moreover have "\<forall>t \<in> set ts. wf_scalar f t"
    using rmap_mem [OF r] by (fastforce dest: normalize_scalar_value_wf)
  ultimately show ?thesis using items by (auto simp: list_all_iff)
qed

lemma normalize_metadata_value_wf:
  "normalize_metadata_value v p = Inr (k, w) \<Longrightarrow> wf_text k \<and> wf_text w"
  by (auto simp: normalize_metadata_value_def res_simps dest: non_empty_string_wf)

lemma parse_filter_wf:
  assumes "parse_filter allowed i v = Inr f"
  shows "wf_filter allowed f"
proof -
  from assms obtain m field operator where
      v: "v = JObj m" "jget m ''field'' = JStr field" "jget m ''operator'' = JStr operator"
    and ok: "field \<in> set allowed" "operator \<in> set (compatible_operators field)"
    by (auto simp: parse_filter_def Let_def split: json.splits if_splits)
  show ?thesis
  proof (cases "field = ''metadata''")
    case True
    with assms v ok show ?thesis
      by (auto simp: parse_filter_def Let_def wf_filter_def res_simps split: if_splits
          dest: normalize_metadata_value_wf)
  next
    case False
    with assms v ok show ?thesis
      by (cases "operator = ''in''")
        (auto simp: parse_filter_def Let_def wf_filter_def res_simps split: if_splits
          dest: normalize_in_value_wf normalize_scalar_value_wf)
  qed
qed

lemma parse_datetime_aware: "parse_datetime fromiso v p = Inr d \<Longrightarrow> pred_option is_aware d"
  by (cases d) (auto simp: parse_datetime_def split: json.splits option.splits datetime.splits)

lemma parse_date_range_wf:
  assumes "parse_date_range fromiso v = Inr r"
  shows "wf_date_range r"
proof -
  from assms obtain f t m where
      f: "parse_datetime fromiso (jget m ''from'') ''date_range.from'' = Inr f"
    and t: "parse_datetime fromiso (jget m ''to'') ''date_range.to'' = Inr t"
    and r: "(case (f, t) of
       (Some a, Some b) \<Rightarrow> if instant a > instant b
         then value_error ''date_range.from must not be after date_range.to''
         else Inr \<lparr>from_at = f, to_at = t\<rparr>
     | _ \<Rightarrow> Inr \<lparr>from_at = f, to_at = t\<rparr>) = Inr r"
    unfolding parse_date_range_def by (auto simp: res_simps)
  from r parse_datetime_aware [OF f] parse_datetime_aware [OF t] show ?thesis
    by (cases f; cases t) (auto simp: wf_date_range_def split: if_splits)
qed

lemma parse_integer_Inr:
  "parse_integer v p mn mx = Inr i \<longleftrightarrow>
     v = JInt i \<and> mn \<le> i \<and> (\<forall>m. mx = Some m \<longrightarrow> i \<le> m)"
  by (auto simp: parse_integer_def split: json.splits option.splits if_splits)

lemma parse_explorer_query_wf_aux:
  assumes "parse_explorer_query fromiso allowed payload = Inr q"
  shows "wf_query allowed q"
proof -
  from assms obtain raw where
      raw: "length raw \<le> MAX_EXPLORER_FILTERS"
    and fs: "rmap (\<lambda>(i, v). parse_filter allowed i v) (enumerate 0 raw) = Inr (eq_filters q)"
    and dr: "parse_date_range fromiso (jget payload ''date_range'') = Inr (eq_date_range q)"
    and pg: "parse_integer (dget_or payload ''page'' (JInt 1)) ''page'' 1 None = Inr (eq_page q)"
    and ps: "parse_integer (dget_or payload ''page_size'' (JInt 20)) ''page_size'' 1 (Some 100)
      = Inr (eq_page_size q)"
    and rest: "eq_match q \<in> {''all'', ''any''}" "eq_sort q \<in> set EXPLORER_SORTS"
      "eq_page q * eq_page_size q \<le> EXPLORER_RECORD_HORIZON"
    unfolding parse_explorer_query_def by (auto simp: res_simps not_less)
  have "\<forall>f \<in> set (eq_filters q). wf_filter allowed f"
    using rmap_mem [OF fs] by (fastforce dest: parse_filter_wf)
  moreover have "length (eq_filters q) \<le> MAX_EXPLORER_FILTERS"
    using rmap_length [OF fs] raw by simp
  ultimately show ?thesis
    using parse_date_range_wf [OF dr] pg ps rest
    by (auto simp: wf_query_def list_all_iff parse_integer_Inr)
qed

section \<open>Rendering a query back\<close>

text \<open>
  The document a parsed query is rendered to before it is validated again
  (\<open>_validated_query\<close> in \<open>core/entities.py\<close>), piece by piece.
\<close>

fun filter_value_json :: "filter_value \<Rightarrow> json" where
  "filter_value_json (FScalar s) = JStr s"
| "filter_value_json (FMany vs) = JList (map JStr vs)"
| "filter_value_json (FPair k v) = JObj [(''key'', JStr k), (''value'', JStr v)]"

definition filter_json :: "explorer_filter \<Rightarrow> json" where
  "filter_json f = JObj [(''field'', JStr (ef_field f)), (''operator'', JStr (ef_operator f)),
     (''value'', filter_value_json (ef_value f))]"

definition date_json :: "(datetime \<Rightarrow> string) \<Rightarrow> datetime option \<Rightarrow> json" where
  "date_json isoformat d = opt_json (map_option isoformat d)"

text \<open>What is assumed of \<open>isoformat\<close> and \<open>fromisoformat\<close>: aware values survive.\<close>

definition iso_roundtrip ::
    "(string \<Rightarrow> datetime option) \<Rightarrow> (datetime \<Rightarrow> string) \<Rightarrow> datetime \<Rightarrow> bool" where
  "iso_roundtrip fromiso isoformat d = (fromiso (replace_Z (isoformat d)) = Some d)"

lemma wf_text_parse: "wf_text s \<Longrightarrow> non_empty_string (JStr s) p = Inr s"
  by (auto simp: non_empty_string_Inr wf_text_def)

lemma wf_scalar_parse: "wf_scalar f s \<Longrightarrow> normalize_scalar_value f (JStr s) p = Inr s"
  by (auto simp: normalize_scalar_value_Inr wf_scalar_def wf_text_parse)

lemma wf_many_parse:
  assumes "vs \<noteq> []" "length vs \<le> MAX_EXPLORER_IN_VALUES" "list_all (wf_scalar f) vs"
  shows "normalize_in_value f (JList (map JStr vs)) p = Inr vs"
proof -
  have "rmap (\<lambda>(i, item). normalize_scalar_value f item (index_path p i)) (enumerate 0 (map JStr vs))
      = Inr (map (\<lambda>(i, item). case item of JStr s \<Rightarrow> s) (enumerate 0 (map JStr vs)))"
    using assms(3)
    by (intro rmap_eqI) (auto simp: in_set_enumerate_eq list_all_length wf_scalar_parse)
  also have "map (\<lambda>(i, item). case item of JStr s \<Rightarrow> s) (enumerate 0 (map JStr vs)) = vs"
    by (rule nth_equalityI) (auto simp: nth_enumerate_eq)
  finally show ?thesis using assms(1,2) by (simp add: normalize_in_value_def)
qed

lemma wf_filter_parse:
  assumes "wf_filter allowed f"
  shows "parse_filter allowed i (filter_json f) = Inr f"
proof -
  have known: "ef_operator f \<in> set KNOWN_OPERATORS"
    using assms by (auto simp: wf_filter_def compatible_operators_def SCALAR_OPERATORS_def
        KNOWN_OPERATORS_def split: if_splits)
  show ?thesis
  proof (cases "ef_value f")
    case (FScalar s)
    with assms known show ?thesis
      by (simp add: parse_filter_def filter_json_def wf_filter_def wf_scalar_parse Let_def)
  next
    case (FMany vs)
    with assms known have "ef_operator f = ''in''" "''in'' \<in> set KNOWN_OPERATORS"
      "''in'' \<in> set (compatible_operators (ef_field f))"
      by (auto simp: wf_filter_def)
    with FMany assms show ?thesis
      by (cases f) (simp add: parse_filter_def filter_json_def wf_filter_def wf_many_parse Let_def)
  next
    case (FPair k v)
    with assms known show ?thesis
      by (cases f) (auto simp: parse_filter_def filter_json_def wf_filter_def wf_text_parse Let_def
          normalize_metadata_value_def)
  qed
qed

lemma wf_filters_parse:
  assumes "list_all (wf_filter allowed) fs"
  shows "rmap (\<lambda>(i, v). parse_filter allowed i v) (enumerate 0 (map filter_json fs)) = Inr fs"
proof -
  have "rmap (\<lambda>(i, v). parse_filter allowed i v) (enumerate 0 (map filter_json fs))
      = Inr (map (\<lambda>(i, v). fs ! i) (enumerate 0 (map filter_json fs)))"
    using assms by (intro rmap_eqI) (auto simp: in_set_enumerate_eq list_all_length wf_filter_parse)
  also have "map (\<lambda>(i, v). fs ! i) (enumerate 0 (map filter_json fs)) = fs"
    by (rule nth_equalityI) (auto simp: nth_enumerate_eq)
  finally show ?thesis .
qed

lemma date_json_parse:
  assumes "pred_option is_aware d" and "\<And>x. d = Some x \<Longrightarrow> iso_roundtrip fromiso isoformat x"
  shows "parse_datetime fromiso (date_json isoformat d) p = Inr d"
  using assms
  by (cases d) (auto simp: date_json_def parse_datetime_def iso_roundtrip_def split: datetime.splits)

lemma date_range_parse:
  assumes "wf_date_range r"
    and "\<And>x. x \<in> set_option (from_at r) \<union> set_option (to_at r) \<Longrightarrow> iso_roundtrip fromiso isoformat x"
  shows "parse_date_range fromiso (JObj [(''from'', date_json isoformat (from_at r)),
      (''to'', date_json isoformat (to_at r))]) = Inr r"
proof -
  have "parse_datetime fromiso (date_json isoformat (from_at r)) p = Inr (from_at r)"
    "parse_datetime fromiso (date_json isoformat (to_at r)) p = Inr (to_at r)" for p
    using assms by (auto simp: wf_date_range_def intro!: date_json_parse)
  then show ?thesis
    using assms(1) by (cases r) (auto simp: parse_date_range_def wf_date_range_def split: option.splits)
qed

end
