(* ===== verification/Models.thy ===== *)
theory Models
  imports Prelude
begin

text \<open>
  The tables of the sidecar database (\<open>store/models.py\<close>), one record per table with the
  columns of the source.  A \<open>*_json\<close> column is the document its text decodes to, \<open>None\<close> when
  the text does not decode.  A timestamp column is a point in time in microseconds: SQLite
  returns it naive and PostgreSQL aware, and the code reads both as UTC.  Row identifiers and
  the current time come from outside (\<open>uuid4\<close>, the clock) and are arguments of the operations.
\<close>

type_synonym json_text = "json option"
type_synonym time = int

section \<open>Status values\<close>

datatype event_status = EV_PENDING | EV_RUNNING | EV_SUCCEEDED | EV_FAILED | EV_CANCELLED

datatype job_status = JOB_PENDING | JOB_RUNNING | JOB_SUCCEEDED | JOB_FAILED | JOB_CANCELLED

datatype export_status = EXPORT_PENDING | EXPORT_RUNNING | EXPORT_SUCCEEDED | EXPORT_FAILED

definition INACTIVE_CONSOLIDATION_STATES :: "string list" where
  "INACTIVE_CONSOLIDATION_STATES = [''SHADOWED'', ''MERGED'', ''SUPERSEDED'']"

section \<open>Tables\<close>

record project =
  prj_id :: string
  prj_name :: string
  prj_default_user_id :: "string option"
  prj_default_app_id :: "string option"
  prj_default_agent_id :: "string option"
  prj_mem0_base_url :: string
  prj_mem0_api_key_ref :: "string option"
  prj_settings_json :: json_text
  prj_created_at :: time
  prj_updated_at :: time

record category =
  cat_id :: string
  cat_project_id :: string
  cat_name :: string
  cat_description :: string
  cat_schema_json :: json_text
  cat_enabled :: int
  cat_strategy :: string
  cat_version :: int
  cat_created_at :: time
  cat_updated_at :: time

record memory_index =
  mi_id :: string
  mi_project_id :: string
  mi_mem0_memory_id :: string
  mi_user_id :: "string option"
  mi_agent_id :: "string option"
  mi_app_id :: "string option"
  mi_run_id :: "string option"
  mi_category :: "string option"
  mi_entity_refs_json :: json_text
  mi_metadata_projection_json :: json_text
  mi_content_hash :: "string option"
  mi_content_length :: "int option"
  mi_normalized_type :: "string option"
  mi_source :: "string option"
  mi_pinned :: int
  mi_expires_at :: "time option"
  mi_last_observed_at :: "time option"
  mi_access_count :: int
  mi_last_accessed_at :: "time option"
  mi_last_consolidation_scan_at :: "time option"
  mi_scope_markers_verified :: int
  mi_scope_marker_backfill_status :: string
  mi_scope_marker_backfill_attempted_at :: "time option"
  mi_consolidation_state :: string
  mi_shadowed_by_proposal_id :: "string option"
  mi_created_at :: time
  mi_updated_at :: time
  mi_deleted_at :: "time option"

record event =
  ev_id :: string
  ev_project_id :: string
  ev_app_id :: "string option"
  ev_user_id :: "string option"
  ev_agent_id :: "string option"
  ev_run_id :: "string option"
  ev_operation :: string
  ev_status :: event_status
  ev_subject_type :: "string option"
  ev_subject_id :: "string option"
  ev_request_json :: json_text
  ev_response_json :: json_text
  ev_error_json :: json_text
  ev_correlation_id :: "string option"
  ev_request_transport :: "string option"
  ev_credential_kind :: "string option"
  ev_credential_id :: "string option"
  ev_credential_label :: "string option"
  ev_credential_prefix :: "string option"
  ev_latency_ms :: "pyfloat option"
  ev_result_count :: int
  ev_has_results :: int
  ev_created_at :: time
  ev_started_at :: "time option"
  ev_completed_at :: "time option"

record entity =
  ent_id :: string
  ent_project_id :: string
  ent_app_id :: string
  ent_entity_type :: string
  ent_entity_id :: string
  ent_display_name :: "string option"
  ent_metadata_json :: json_text
  ent_memory_count :: int
  ent_last_seen_at :: "time option"
  ent_created_at :: time
  ent_updated_at :: time

record mutation_intent =
  int_id :: string
  int_project_id :: string
  int_app_id :: string
  int_event_id :: string
  int_operation :: string
  int_operation_key :: string
  int_status :: string
  int_payload_json :: json_text
  int_result_json :: json_text
  int_error_json :: json_text
  int_attempt_count :: int
  int_lease_expires_at :: "time option"
  int_created_at :: time
  int_updated_at :: time
  int_completed_at :: "time option"

record mutation_intent_target =
  tgt_id :: string
  tgt_intent_id :: string
  tgt_memory_id :: string
  tgt_ordinal :: nat
  tgt_status :: string
  tgt_error_json :: json_text
  tgt_created_at :: time
  tgt_updated_at :: time

record consolidation_policy =
  cpol_id :: string
  cpol_project_id :: string
  cpol_app_id :: string
  cpol_enabled :: int
  cpol_mode :: string
  cpol_policy_json :: json_text
  cpol_version :: int
  cpol_created_at :: time
  cpol_updated_at :: time

record consolidation_run =
  run_id :: string
  run_project_id :: string
  run_app_id :: string
  run_policy_id :: "string option"
  run_policy_version :: int
  run_mode :: string
  run_status :: string
  run_scan_cutoff :: "time option"
  run_counts_json :: json_text
  run_error_code :: "string option"
  run_error_json :: json_text
  run_created_at :: time
  run_updated_at :: time
  run_started_at :: "time option"
  run_completed_at :: "time option"

record consolidation_proposal =
  prop_id :: string
  prop_run_id :: string
  prop_project_id :: string
  prop_app_id :: string
  prop_proposal_key :: string
  prop_kind :: string
  prop_status :: string
  prop_source_ids_json :: json_text
  prop_canonical_memory_id :: "string option"
  prop_score :: "pyfloat option"
  prop_evidence_json :: json_text
  prop_expected_hashes_json :: json_text
  prop_canonical_content_hash :: "string option"
  prop_export_job_id :: "string option"
  prop_shadow_attempt_id :: "string option"
  prop_shadow_attempt_expires_at :: "time option"
  prop_not_before :: "time option"
  prop_created_at :: time
  prop_updated_at :: time
  prop_applied_at :: "time option"

record consolidation_lineage =
  lin_id :: string
  lin_project_id :: string
  lin_app_id :: string
  lin_run_id :: string
  lin_proposal_id :: string
  lin_source_memory_id :: string
  lin_canonical_memory_id :: "string option"
  lin_action :: string
  lin_source_content_hash :: "string option"
  lin_export_job_id :: "string option"
  lin_metadata_json :: json_text
  lin_applied_at :: time
  lin_created_at :: time

record job =
  job_id :: string
  job_project_id :: string
  job_event_id :: "string option"
  job_type :: string
  job_status :: job_status
  job_payload_json :: json_text
  job_result_json :: json_text
  job_dedupe_key :: "string option"
  job_attempt_count :: int
  job_max_attempts :: int
  job_run_after :: "time option"
  job_locked_at :: "time option"
  job_lease_expires_at :: "time option"
  job_completed_at :: "time option"
  job_error_json :: json_text
  job_created_at :: time
  job_updated_at :: time

record export_job =
  exj_id :: string
  exj_project_id :: string
  exj_status :: export_status
  exj_format :: string
  exj_filters_json :: json_text
  exj_result_json :: json_text
  exj_result_ref :: "string option"
  exj_error_json :: json_text
  exj_total_count :: int
  exj_exported_count :: int
  exj_skipped_count :: int
  exj_created_at :: time
  exj_started_at :: "time option"
  exj_completed_at :: "time option"

section \<open>Tables as lists of rows\<close>

text \<open>
  A table is the list of its rows in insertion order.  \<open>select_where\<close> is a query without an
  order, \<open>update_where\<close> a bulk update, \<open>row_by\<close> a primary-key lookup and \<open>save\<close> the flush
  of one changed row.
\<close>

definition select_where :: "('r \<Rightarrow> bool) \<Rightarrow> 'r list \<Rightarrow> 'r list" where
  "select_where p rows = filter p rows"

definition update_where :: "('r \<Rightarrow> bool) \<Rightarrow> ('r \<Rightarrow> 'r) \<Rightarrow> 'r list \<Rightarrow> 'r list" where
  "update_where p f rows = map (\<lambda>r. if p r then f r else r) rows"

definition row_by :: "('r \<Rightarrow> 'k) \<Rightarrow> 'k \<Rightarrow> 'r list \<Rightarrow> 'r option" where
  "row_by key k rows = List.find (\<lambda>r. key r = k) rows"

definition save :: "('r \<Rightarrow> 'k) \<Rightarrow> 'r \<Rightarrow> 'r list \<Rightarrow> 'r list" where
  "save key row rows = map (\<lambda>r. if key r = key row then row else r) rows"

definition count_where :: "('r \<Rightarrow> bool) \<Rightarrow> 'r list \<Rightarrow> nat" where
  "count_where p rows = length (filter p rows)"

text \<open>\<open>ORDER BY k LIMIT 1\<close>, and an aggregate over no rows.\<close>

definition first_by :: "('r \<Rightarrow> 'k::linorder) \<Rightarrow> 'r list \<Rightarrow> 'r option" where
  "first_by k rows = (case sort_key k rows of [] \<Rightarrow> None | r # _ \<Rightarrow> Some r)"

definition max_opt :: "'a::linorder list \<Rightarrow> 'a option" where
  "max_opt xs = (if xs = [] then None else Some (fold max (tl xs) (hd xs)))"

definition min_opt :: "'a::linorder list \<Rightarrow> 'a option" where
  "min_opt xs = (if xs = [] then None else Some (fold min (tl xs) (hd xs)))"

lemma first_by_None: "first_by k rows = None \<longleftrightarrow> rows = []"
  by (auto simp: first_by_def split: list.splits) (metis length_0_conv length_sort list.size(3))

lemma first_by_Some:
  assumes "first_by k rows = Some r"
  shows "r \<in> set rows" and "\<And>x. x \<in> set rows \<Longrightarrow> k r \<le> k x"
proof -
  from assms obtain rest where s: "sort_key k rows = r # rest"
    by (auto simp: first_by_def split: list.splits)
  then have st: "set rows = insert r (set rest)" by (metis list.simps(15) set_sort)
  then show "r \<in> set rows" by simp
  have "sorted (map k (r # rest))" by (metis s sorted_sort_key)
  then show "\<And>x. x \<in> set rows \<Longrightarrow> k r \<le> k x" using st by auto
qed

named_theorems table_simps \<open>rules about rows, lookups and bulk updates\<close>

lemma row_by_Some [table_simps]: "row_by key k rows = Some r \<Longrightarrow> r \<in> set rows \<and> key r = k"
  by (auto simp: row_by_def find_Some_iff)

lemma row_by_None: "row_by key k rows = None \<longleftrightarrow> k \<notin> key ` set rows"
  by (auto simp: row_by_def find_None_iff)

lemma row_by_unique:
  "distinct (map key rows) \<Longrightarrow> row_by key k rows = Some r \<longleftrightarrow> r \<in> set rows \<and> key r = k"
  by (induction rows) (auto simp: row_by_def)

lemma length_update_where [simp]: "length (update_where p f rows) = length rows"
  by (simp add: update_where_def)

lemma length_save [simp]: "length (save key r rows) = length rows"
  by (simp add: save_def)

lemma save_keys [simp]: "map key (save key r rows) = map key rows"
  by (simp add: save_def)

lemma update_where_keys:
  "(\<And>r. key (f r) = key r) \<Longrightarrow> map key (update_where p f rows) = map key rows"
  by (simp add: update_where_def)

lemma set_save: "set (save key r rows) \<subseteq> insert r (set rows)"
  by (auto simp: save_def)

lemma mem_save [table_simps]:
  "x \<in> set (save key r rows) \<longleftrightarrow>
     (x = r \<and> key r \<in> key ` set rows) \<or> (x \<in> set rows \<and> key x \<noteq> key r)"
  by (auto simp: save_def image_iff split: if_splits) metis+

lemma mem_update_where [table_simps]:
  "x \<in> set (update_where p f rows) \<longleftrightarrow>
     (\<exists>r \<in> set rows. p r \<and> x = f r) \<or> (x \<in> set rows \<and> \<not> p x)"
  by (auto simp: update_where_def)

lemma row_by_save_same [simp]:
  "key r \<in> key ` set rows \<Longrightarrow> row_by key (key r) (save key r rows) = Some r"
  by (induction rows) (auto simp: row_by_def save_def)

lemma row_by_save_other:
  "k \<noteq> key r \<Longrightarrow> row_by key k (save key r rows) = row_by key k rows"
  by (induction rows) (auto simp: row_by_def save_def)

lemma row_by_Cons [simp]:
  "row_by key k (r # rows) = (if key r = k then Some r else row_by key k rows)"
  by (simp add: row_by_def)

lemma row_by_Nil [simp]: "row_by key k [] = None"
  by (simp add: row_by_def)

lemma row_by_append [simp]:
  "row_by key k (rows @ rows') =
     (case row_by key k rows of Some r \<Rightarrow> Some r | None \<Rightarrow> row_by key k rows')"
  by (induction rows) auto

lemma row_by_update_where_other:
  "k \<noteq> k0 \<Longrightarrow> (\<And>r. key (f r) = key r) \<Longrightarrow>
     row_by key k (update_where (\<lambda>r. key r = k0) f rows) = row_by key k rows"
  by (induction rows) (auto simp: update_where_def)

lemma row_by_update_where_key:
  assumes "c \<in> set rows" "distinct (map key rows)" "\<And>r. key (f r) = key r"
  shows "row_by key (key c) (update_where (\<lambda>r. key r = key c) f rows) = Some (f c)"
  using assms by (induction rows) (auto simp: update_where_def)

lemma filter_unique_row:
  assumes "distinct (map key rows)" "r \<in> set rows" "p r" "\<And>x. p x \<Longrightarrow> key x = key r"
  shows "filter p rows = [r]"
proof -
  obtain xs ys where rows: "rows = xs @ r # ys" using assms(2) by (meson split_list)
  then have "x \<in> set xs \<union> set ys \<Longrightarrow> key x \<noteq> key r" for x
    using assms(1) by (auto simp: image_iff)
  then have "filter p xs = []" "filter p ys = []" using assms(4) by (auto simp: filter_empty_conv)
  then show ?thesis using assms(3) by (simp add: rows)
qed

lemma row_by_mem: "distinct (map key rows) \<Longrightarrow> r \<in> set rows \<Longrightarrow> row_by key (key r) rows = Some r"
  by (simp add: row_by_unique)

end
