(* ===== verification/Leases.thy ===== *)
theory Leases
  imports Prelude
begin

text \<open>
  Time-limited ownership, the protocol three components follow: a worker claims a job, a
  recovery pass claims a mutation intent, a shadowing attempt claims a proposal.  The interface
  is one operation, \<open>take now r\<close>: \<open>leased\<close> has the laws that keep successful takes a lease
  apart, whatever the clock readings of the takers are, and \<open>fenced\<close> adds a token that every
  take increases.
\<close>

text \<open>The successful takes of one row, tried at the listed times, each with the row it left.\<close>

fun run_takes :: "(int \<Rightarrow> 'r \<Rightarrow> 'r option) \<Rightarrow> int list \<Rightarrow> 'r \<Rightarrow> (int \<times> 'r) list" where
  "run_takes take_row [] r = []"
| "run_takes take_row (t # ts) r =
     (case take_row t r of
        None \<Rightarrow> run_takes take_row ts r
      | Some r' \<Rightarrow> (t, r') # run_takes take_row ts r')"

locale leased =
  fixes take_row :: "int \<Rightarrow> 'r \<Rightarrow> 'r option"
    and held_until :: "'r \<Rightarrow> int option"
    and duration :: int
  assumes duration_nonneg: "0 \<le> duration"
    and refused_while_held: "held_until r = Some t \<Longrightarrow> now < t \<Longrightarrow> take_row now r = None"
    and take_holds: "take_row now r = Some r' \<Longrightarrow> held_until r' = Some (now + duration)"
begin

lemma takes_after_holder:
  "held_until r = Some u \<Longrightarrow> (t, r') \<in> set (run_takes take_row ts r) \<Longrightarrow> u \<le> t"
proof (induction ts arbitrary: r u)
  case (Cons s ts)
  show ?case
  proof (cases "take_row s r")
    case None
    with Cons show ?thesis by auto
  next
    case (Some q)
    have "u \<le> s" using refused_while_held [OF Cons.prems(1), of s] Some by fastforce
    moreover have "(t, r') \<in> set (run_takes take_row ts q) \<Longrightarrow> s + duration \<le> t"
      using Cons.IH take_holds [OF Some] by blast
    ultimately show ?thesis using Cons.prems(2) Some duration_nonneg by fastforce
  qed
qed simp

lemma takes_separated:
  "sorted_wrt (\<lambda>(t, _) (t', _). t + duration \<le> t') (run_takes take_row ts r)"
proof (induction ts arbitrary: r)
  case (Cons s ts)
  show ?case
  proof (cases "take_row s r")
    case (Some q)
    then show ?thesis using Cons takes_after_holder [OF take_holds [OF Some]] by auto
  qed (use Cons in simp)
qed simp

end

locale fenced = leased take_row held_until duration
  for take_row :: "int \<Rightarrow> 'r \<Rightarrow> 'r option" and held_until :: "'r \<Rightarrow> int option" and duration :: int +
  fixes token :: "'r \<Rightarrow> int"
  assumes take_token: "take_row now r = Some r' \<Longrightarrow> token r' = token r + 1"
begin

lemma takes_tokens:
  "map (\<lambda>(_, r'). token r') (run_takes take_row ts r) =
     map (\<lambda>i. token r + 1 + int i) [0..<length (run_takes take_row ts r)]"
proof (induction ts arbitrary: r)
  case (Cons s ts)
  show ?case
  proof (cases "take_row s r")
    case (Some q)
    let ?rest = "run_takes take_row ts q"
    have "map (\<lambda>i. token r + 1 + int i) [0..<Suc (length ?rest)]
        = (token r + 1) # map (\<lambda>i. token r + 1 + int (Suc i)) [0..<length ?rest]"
      by (simp add: upt_conv_Cons map_Suc_upt [symmetric] del: upt_Suc map_Suc_upt)
    with Some Cons [of q] take_token [OF Some] show ?thesis by (simp add: ac_simps)
  qed (use Cons in simp)
qed simp

lemma takes_fence:
  assumes "i < j" "j < length (run_takes take_row ts r)"
  shows "token (snd (run_takes take_row ts r ! i)) < token (snd (run_takes take_row ts r ! j))"
proof -
  have "token (snd (run_takes take_row ts r ! k)) = token r + 1 + int k"
    if "k < length (run_takes take_row ts r)" for k
    using arg_cong [OF takes_tokens [of ts r], of "\<lambda>xs. xs ! k"] that
    by (simp add: case_prod_beta)
  then show ?thesis using assms by simp
qed

end

end
