(* ===== verification/Jobs.thy ===== *)
theory Jobs
  imports Models Leases
begin

text \<open>
  The durable job queue (\<open>JobRepository\<close> in \<open>store/repositories.py\<close>) and the worker loop that
  drains it (\<open>workers/runner.py\<close>): enqueueing, claiming under a lease, completion, failure with
  retry, and the status report of the consolidation worker.
\<close>

section \<open>Operations\<close>

definition SECOND :: int where "SECOND = 1000000"

definition job_key_taken :: "job list \<Rightarrow> string \<Rightarrow> string \<Rightarrow> string option \<Rightarrow> bool" where
  "job_key_taken jobs pid jtype key =
     (key \<noteq> None \<and> list_ex (\<lambda>j. job_project_id j = pid \<and> job_type j = jtype
        \<and> job_dedupe_key j = key) jobs)"

definition enqueue ::
    "string \<Rightarrow> time \<Rightarrow> string \<Rightarrow> string option \<Rightarrow> string \<Rightarrow> json \<Rightarrow> time option \<Rightarrow> int \<Rightarrow>
     string option \<Rightarrow> job list \<Rightarrow> (job \<times> job list) res" where
  "enqueue new_id now pid event_id jtype payload run_after max_attempts dedupe_key jobs =
     (if max_attempts < 1 \<or> max_attempts > 100
      then value_error ''max_attempts must be between 1 and 100''
      else if job_key_taken jobs pid jtype dedupe_key \<or> new_id \<in> job_id ` set jobs
      then raise IntegrityError ''uq_jobs_project_type_dedupe''
      else
        let j = \<lparr>job_id = new_id, job_project_id = pid, job_event_id = event_id,
                 job_type = jtype, job_status = JOB_PENDING, job_payload_json = Some payload,
                 job_result_json = Some (JObj []), job_dedupe_key = dedupe_key,
                 job_attempt_count = 0, job_max_attempts = max_attempts,
                 job_run_after = run_after, job_locked_at = None, job_lease_expires_at = None,
                 job_completed_at = None, job_error_json = Some (JObj []),
                 job_created_at = now, job_updated_at = now\<rparr>
        in Inr (j, jobs @ [j]))"

definition find_by_dedupe :: "string \<Rightarrow> string \<Rightarrow> string \<Rightarrow> job list \<Rightarrow> job option" where
  "find_by_dedupe pid jtype key jobs =
     List.find (\<lambda>j. job_project_id j = pid \<and> job_type j = jtype \<and> job_dedupe_key j = Some key) jobs"

definition lease_expired :: "time \<Rightarrow> job \<Rightarrow> bool" where
  "lease_expired now j = (case job_lease_expires_at j of Some t \<Rightarrow> t \<le> now | None \<Rightarrow> False)"

definition claim_eligible :: "string list \<Rightarrow> time \<Rightarrow> job \<Rightarrow> bool" where
  "claim_eligible job_types now j =
     ((job_status j = JOB_PENDING
         \<and> (case job_run_after j of None \<Rightarrow> True | Some t \<Rightarrow> t \<le> now)
       \<or> job_status j = JOB_RUNNING \<and> lease_expired now j)
      \<and> job_attempt_count j < job_max_attempts j
      \<and> (job_types = [] \<or> job_type j \<in> set job_types))"

definition claim_order :: "job \<Rightarrow> time \<times> time \<times> string" where
  "claim_order j = (case job_run_after j of Some t \<Rightarrow> t | None \<Rightarrow> job_created_at j,
     job_created_at j, job_id j)"

definition claim_candidate :: "string list \<Rightarrow> time \<Rightarrow> job list \<Rightarrow> job option" where
  "claim_candidate job_types now jobs = first_by claim_order (filter (claim_eligible job_types now) jobs)"

definition attempts_exhausted :: "time \<Rightarrow> job \<Rightarrow> bool" where
  "attempts_exhausted now j =
     (job_status j = JOB_RUNNING \<and> lease_expired now j \<and> job_attempt_count j \<ge> job_max_attempts j)"

definition fail_exhausted :: "time \<Rightarrow> job \<Rightarrow> job" where
  "fail_exhausted now j = j\<lparr>job_status := JOB_FAILED, job_lease_expires_at := None,
     job_completed_at := Some now,
     job_error_json := Some (JObj [(''error_type'', JStr ''AttemptsExhausted'')]),
     job_updated_at := now\<rparr>"

definition start_attempt :: "time \<Rightarrow> int \<Rightarrow> job \<Rightarrow> job" where
  "start_attempt now lease_seconds j = j\<lparr>job_status := JOB_RUNNING, job_locked_at := Some now,
     job_lease_expires_at := Some (now + lease_seconds * SECOND),
     job_attempt_count := job_attempt_count j + 1, job_completed_at := None,
     job_updated_at := now\<rparr>"

definition claim_next ::
    "string list \<Rightarrow> int \<Rightarrow> time \<Rightarrow> job list \<Rightarrow> (job option \<times> job list) res" where
  "claim_next job_types lease_seconds now jobs =
     (if lease_seconds < 1 \<or> lease_seconds > 86400
      then value_error ''lease_seconds must be between 1 and 86400''
      else
        let swept = update_where (attempts_exhausted now) (fail_exhausted now) jobs in
        case claim_candidate job_types now swept of
          None \<Rightarrow> Inr (None, swept)
        | Some c \<Rightarrow>
            let claimed = update_where (\<lambda>j. job_id j = job_id c) (start_attempt now lease_seconds) swept
            in Inr (row_by job_id (job_id c) claimed, claimed))"

definition job_payload :: "job \<Rightarrow> json dict" where
  "job_payload j = (case job_payload_json j of Some (JObj d) \<Rightarrow> d | _ \<Rightarrow> [])"

definition job_mark_succeeded :: "time \<Rightarrow> string \<Rightarrow> json \<Rightarrow> job list \<Rightarrow> (job \<times> job list) res" where
  "job_mark_succeeded now jid result jobs =
     (case row_by job_id jid jobs of
        None \<Rightarrow> raise KeyError jid
      | Some j \<Rightarrow>
          let j' = j\<lparr>job_status := JOB_SUCCEEDED, job_result_json := Some result,
                     job_error_json := Some (JObj []), job_lease_expires_at := None,
                     job_completed_at := Some now, job_updated_at := now\<rparr>
          in Inr (j', save job_id j' jobs))"

definition job_mark_failed ::
    "time \<Rightarrow> string \<Rightarrow> json \<Rightarrow> time option \<Rightarrow> job list \<Rightarrow> (job \<times> job list) res" where
  "job_mark_failed now jid error retry_at jobs =
     (case row_by job_id jid jobs of
        None \<Rightarrow> raise KeyError jid
      | Some j \<Rightarrow>
          let should_retry = retry_at \<noteq> None \<and> job_attempt_count j < job_max_attempts j;
              j' = j\<lparr>job_status := (if should_retry then JOB_PENDING else JOB_FAILED),
                     job_error_json := Some error,
                     job_run_after := (if should_retry then retry_at else job_run_after j),
                     job_locked_at := None, job_lease_expires_at := None,
                     job_completed_at := (if should_retry then None else Some now),
                     job_updated_at := now\<rparr>
          in Inr (j', save job_id j' jobs))"

record worker_status =
  ws_last_success_at :: "time option"
  ws_pending_count :: nat
  ws_oldest_pending_age :: "int option"

definition consolidation_status :: "string \<Rightarrow> string \<Rightarrow> time \<Rightarrow> job list \<Rightarrow> worker_status" where
  "consolidation_status pid app now jobs =
     (let recent = take 5000 (sort_key (\<lambda>j. - job_created_at j)
            (filter (\<lambda>j. job_project_id j = pid
               \<and> job_type j \<in> {''consolidation.scan'', ''consolidation.finalize''}) jobs));
          matching = filter (\<lambda>j. jget (job_payload j) ''app_id'' = JStr app) recent;
          succeeded = List.map_filter
            (\<lambda>j. if job_status j = JOB_SUCCEEDED then job_completed_at j else None) matching;
          pending = filter (\<lambda>j. job_status j = JOB_PENDING) matching;
          oldest = min_opt (map job_created_at pending)
      in \<lparr>ws_last_success_at = max_opt succeeded,
          ws_pending_count = length pending,
          ws_oldest_pending_age = map_option (\<lambda>t. max (now - t) 0) oldest\<rparr>)"

section \<open>The worker\<close>

text \<open>
  A handler runs in its own sessions: it sees the committed queue and may change it.  It
  returns a value, raises an exception (its type name), or is cancelled.
\<close>

datatype outcome = Returned json | Raised string | Cancelled

type_synonym handler = "string \<Rightarrow> json dict \<Rightarrow> job list \<Rightarrow> outcome \<times> job list"

definition retry_delay_seconds :: "int \<Rightarrow> int" where
  "retry_delay_seconds attempt_count = min 3600 (2 ^ nat attempt_count * 30)"

definition record_failure ::
    "time \<Rightarrow> string \<Rightarrow> int \<Rightarrow> string \<Rightarrow> job list \<Rightarrow> job list res" where
  "record_failure now jid attempt_count error_type jobs =
     rbind (job_mark_failed now jid (JObj [(''error_type'', JStr error_type)])
              (Some (now + retry_delay_seconds attempt_count * SECOND)) jobs)
       (\<lambda>(_, jobs'). Inr jobs')"

text \<open>
  What happens after the handler: a mapping marks the job succeeded, anything else it returns
  is a \<open>TypeError\<close>, and a cancellation is recorded as a failure and raised again.
\<close>

fun settle :: "time \<Rightarrow> job \<Rightarrow> outcome \<Rightarrow> job list \<Rightarrow> (bool res \<times> job list) res" where
  "settle now j (Returned (JObj d)) jobs =
     rbind (job_mark_succeeded now (job_id j) (JObj d) jobs) (\<lambda>(_, jobs'). Inr (Inr True, jobs'))"
| "settle now j (Returned v) jobs =
     rbind (record_failure now (job_id j) (job_attempt_count j) ''TypeError'' jobs)
       (\<lambda>jobs'. Inr (Inr True, jobs'))"
| "settle now j (Raised error_type) jobs =
     rbind (record_failure now (job_id j) (job_attempt_count j) error_type jobs)
       (\<lambda>jobs'. Inr (Inr True, jobs'))"
| "settle now j Cancelled jobs =
     rbind (record_failure now (job_id j) (job_attempt_count j) ''CancelledError'' jobs)
       (\<lambda>jobs'. Inr (raise (OtherError ''CancelledError'') [], jobs'))"

text \<open>
  \<open>run_once\<close> reports whether a job was claimed.  When none was, the session is rolled back,
  and with it the sweep of exhausted jobs that \<open>claim_next\<close> had done.  A claim is committed
  before the handler is looked up, so an exception from then on leaves the job claimed; a worker
  without handlers claims jobs of every type and then misses the handler.
\<close>

definition run_once ::
    "(string \<times> handler) list \<Rightarrow> int \<Rightarrow> time \<Rightarrow> time \<Rightarrow> job list \<Rightarrow> (bool res \<times> job list) res" where
  "run_once handlers lease_seconds claim_time end_time jobs =
     rbind (claim_next (map fst handlers) lease_seconds claim_time jobs) (\<lambda>(claimed, jobs1).
       case claimed of
         None \<Rightarrow> Inr (Inr False, jobs)
       | Some j \<Rightarrow>
           (case map_of handlers (job_type j) of
              None \<Rightarrow> Inr (raise KeyError (job_type j), jobs1)
            | Some handler \<Rightarrow>
                let (result, jobs2) = handler (job_id j) (job_payload j) jobs1
                in (case settle end_time j result jobs2 of Inl e \<Rightarrow> Inr (Inl e, jobs2) | Inr done_with \<Rightarrow> Inr done_with)))"

section \<open>The queue invariant\<close>

text \<open>
  A job never exceeds its attempts; it holds a lease exactly while it runs; it has a completion
  time exactly when it is finished.  Identifiers and deduplication keys are unique.
\<close>

definition job_ok :: "job \<Rightarrow> bool" where
  "job_ok j =
     (0 \<le> job_attempt_count j \<and> job_attempt_count j \<le> job_max_attempts j
      \<and> 1 \<le> job_max_attempts j \<and> job_max_attempts j \<le> 100
      \<and> (job_lease_expires_at j \<noteq> None \<longleftrightarrow> job_status j = JOB_RUNNING)
      \<and> (job_completed_at j \<noteq> None \<longleftrightarrow> job_status j \<in> {JOB_SUCCEEDED, JOB_FAILED})
      \<and> (job_status j = JOB_RUNNING \<longrightarrow> 1 \<le> job_attempt_count j))"

definition dedupe_ok :: "job list \<Rightarrow> bool" where
  "dedupe_ok jobs =
     distinct (map (\<lambda>j. (job_project_id j, job_type j, job_dedupe_key j))
       (filter (\<lambda>j. job_dedupe_key j \<noteq> None) jobs))"

definition queue_ok :: "job list \<Rightarrow> bool" where
  "queue_ok jobs = (distinct (map job_id jobs) \<and> (\<forall>j \<in> set jobs. job_ok j) \<and> dedupe_ok jobs)"

text \<open>The columns the unique constraints are about; no update touches them.\<close>

definition job_identity :: "job \<Rightarrow> string \<times> string \<times> string \<times> string option" where
  "job_identity j = (job_id j, job_project_id j, job_type j, job_dedupe_key j)"

lemma queue_ok_mapI:
  assumes "queue_ok jobs" and "\<And>j. j \<in> set jobs \<Longrightarrow> job_ok j \<Longrightarrow> job_ok (f j)"
    and "\<And>j. j \<in> set jobs \<Longrightarrow> job_identity (f j) = job_identity j"
  shows "queue_ok (map f jobs)"
proof -
  have ids: "map job_id (map f jobs) = map job_id jobs"
    using assms(3) by (simp add: job_identity_def)
  have "filter (\<lambda>j. job_dedupe_key j \<noteq> None) (map f jobs) = map f (filter (\<lambda>j. job_dedupe_key j \<noteq> None) jobs)"
    unfolding filter_map comp_def
    by (rule arg_cong [where f = "map f"], rule filter_cong)
      (use assms(3) in \<open>auto simp: job_identity_def\<close>)
  then have "map (\<lambda>j. (job_project_id j, job_type j, job_dedupe_key j))
      (filter (\<lambda>j. job_dedupe_key j \<noteq> None) (map f jobs))
    = map (\<lambda>j. (job_project_id j, job_type j, job_dedupe_key j))
      (filter (\<lambda>j. job_dedupe_key j \<noteq> None) jobs)"
    using assms(3) by (auto simp: job_identity_def)
  then show ?thesis using assms(1,2) unfolding queue_ok_def dedupe_ok_def ids by auto
qed

lemma job_ok_fail_exhausted: "job_ok j \<Longrightarrow> attempts_exhausted now j \<Longrightarrow> job_ok (fail_exhausted now j)"
  by (auto simp: job_ok_def fail_exhausted_def attempts_exhausted_def)

lemma job_ok_start_attempt:
  "job_ok j \<Longrightarrow> claim_eligible types now j \<Longrightarrow> job_ok (start_attempt now lease j)"
  by (auto simp: job_ok_def start_attempt_def claim_eligible_def)

lemma job_identity_simps [simp]:
  "job_identity (fail_exhausted now j) = job_identity j"
  "job_identity (start_attempt now lease j) = job_identity j"
  "job_id (fail_exhausted now j) = job_id j"
  "job_id (start_attempt now lease j) = job_id j"
  by (simp_all add: job_identity_def fail_exhausted_def start_attempt_def)

definition swept_queue :: "time \<Rightarrow> job list \<Rightarrow> job list" where
  "swept_queue now jobs = update_where (attempts_exhausted now) (fail_exhausted now) jobs"

lemma queue_ok_swept: "queue_ok jobs \<Longrightarrow> queue_ok (swept_queue now jobs)"
  unfolding swept_queue_def update_where_def
  by (rule queue_ok_mapI) (auto intro: job_ok_fail_exhausted)

lemma claim_candidate_Some:
  assumes "claim_candidate types now jobs = Some c"
  shows "c \<in> set jobs" "claim_eligible types now c"
    and "\<And>j. j \<in> set jobs \<Longrightarrow> claim_eligible types now j \<Longrightarrow> claim_order c \<le> claim_order j"
  using first_by_Some [OF assms [unfolded claim_candidate_def]] by auto

lemma claim_candidate_None:
  "claim_candidate types now jobs = None \<longleftrightarrow> (\<forall>j \<in> set jobs. \<not> claim_eligible types now j)"
  by (auto simp: claim_candidate_def first_by_None filter_empty_conv)

lemma claim_next_cases:
  assumes "claim_next types lease now jobs = Inr (r, jobs')"
  obtains (none) "r = None" "jobs' = swept_queue now jobs"
      "\<forall>j \<in> set jobs'. \<not> claim_eligible types now j"
  | (some) c where "claim_candidate types now (swept_queue now jobs) = Some c"
      "jobs' = update_where (\<lambda>j. job_id j = job_id c) (start_attempt now lease) (swept_queue now jobs)"
      "r = row_by job_id (job_id c) jobs'" "1 \<le> lease" "lease \<le> 86400"
proof (cases "claim_candidate types now (swept_queue now jobs)")
  case None
  with assms have "r = None" "jobs' = swept_queue now jobs"
    by (auto simp: claim_next_def Let_def swept_queue_def split: if_splits)
  with None show ?thesis unfolding claim_candidate_None by (intro none) auto
next
  case (Some c)
  with assms show ?thesis
    by (intro some [of c]) (auto simp: claim_next_def Let_def swept_queue_def split: if_splits)
qed

lemma claim_next_Some:
  assumes ok: "queue_ok jobs" and run: "claim_next types lease now jobs = Inr (Some j, jobs')"
  obtains c where "c \<in> set (swept_queue now jobs)" "claim_eligible types now c"
    "j = start_attempt now lease c"
    "jobs' = update_where (\<lambda>x. job_id x = job_id c) (start_attempt now lease) (swept_queue now jobs)"
    "\<And>x. x \<in> set (swept_queue now jobs) \<Longrightarrow> claim_eligible types now x \<Longrightarrow> claim_order c \<le> claim_order x"
  using run
proof (cases rule: claim_next_cases)
  case (some c)
  have "distinct (map job_id (swept_queue now jobs))"
    using queue_ok_swept [OF ok] by (simp add: queue_ok_def)
  then have "row_by job_id (job_id c) jobs' = Some (start_attempt now lease c)"
    using claim_candidate_Some(1) [OF some(1)] unfolding some(2)
    by (intro row_by_update_where_key) auto
  with some claim_candidate_Some [OF some(1)] show ?thesis by (intro that [of c]) auto
qed simp

lemma queue_ok_claim:
  assumes ok: "queue_ok jobs" and run: "claim_next types lease now jobs = Inr (r, jobs')"
  shows "queue_ok jobs'"
  using run
proof (cases rule: claim_next_cases)
  case none
  then show ?thesis using queue_ok_swept [OF ok] by simp
next
  case (some c)
  let ?sw = "swept_queue now jobs"
  have q: "queue_ok ?sw" by (rule queue_ok_swept [OF ok])
  have "j = c" if "j \<in> set ?sw" "job_id j = job_id c" for j
    using that q claim_candidate_Some(1) [OF some(1)] by (auto simp: queue_ok_def distinct_map inj_on_def)
  then show ?thesis
    unfolding some(2) update_where_def
    using claim_candidate_Some(2) [OF some(1)]
    by (intro queue_ok_mapI [OF q]) (auto intro: job_ok_start_attempt)
qed

lemma queue_ok_save:
  assumes "queue_ok jobs" "job_ok j'" "row_by job_id (job_id j') jobs = Some j"
    "job_identity j' = job_identity j"
  shows "queue_ok (save job_id j' jobs)"
proof -
  have "x = j" if "x \<in> set jobs" "job_id x = job_id j'" for x
    using that assms(1,3) by (auto simp: queue_ok_def row_by_unique distinct_map inj_on_def)
  then show ?thesis
    unfolding save_def using assms by (intro queue_ok_mapI) auto
qed

lemma queue_ok_enqueue:
  assumes ok: "queue_ok jobs"
    and run: "enqueue nid now pid ev jt pl ra ma dk jobs = Inr (j, jobs')"
  shows "queue_ok jobs'"
proof -
  from run have bounds: "1 \<le> ma" "ma \<le> 100" and free: "\<not> job_key_taken jobs pid jt dk"
      "nid \<notin> job_id ` set jobs" and jobs': "jobs' = jobs @ [j]"
    and j: "job_ok j" "job_id j = nid" "job_project_id j = pid" "job_type j = jt"
      "job_dedupe_key j = dk"
    by (auto simp: enqueue_def Let_def job_ok_def split: if_splits)
  then show ?thesis
    using ok by (cases dk) (auto simp: queue_ok_def dedupe_ok_def job_key_taken_def list_ex_iff)
qed

lemma queue_ok_succeeded:
  assumes "queue_ok jobs" "job_mark_succeeded now jid res jobs = Inr (j, jobs')"
  shows "queue_ok jobs'"
proof -
  from assms(2) obtain j0 where j0: "row_by job_id jid jobs = Some j0"
    by (auto simp: job_mark_succeeded_def split: option.splits)
  with assms(2) row_by_Some [OF j0] have j': "jobs' = save job_id j jobs"
    and j: "job_identity j = job_identity j0" "job_id j = jid" "job_status j = JOB_SUCCEEDED"
      "job_lease_expires_at j = None" "job_completed_at j \<noteq> None"
      "job_attempt_count j = job_attempt_count j0" "job_max_attempts j = job_max_attempts j0"
    by (auto simp: job_mark_succeeded_def Let_def job_identity_def)
  have "job_ok j0" using assms(1) row_by_Some [OF j0] by (auto simp: queue_ok_def)
  then have "job_ok j" using j by (auto simp: job_ok_def)
  then show ?thesis using assms(1) j j0 j' by (auto intro: queue_ok_save)
qed

lemma queue_ok_failed:
  assumes "queue_ok jobs" "job_mark_failed now jid err retry jobs = Inr (j, jobs')"
  shows "queue_ok jobs'"
proof -
  from assms(2) obtain j0 where j0: "row_by job_id jid jobs = Some j0"
    by (auto simp: job_mark_failed_def split: option.splits)
  with assms(2) row_by_Some [OF j0] have j': "jobs' = save job_id j jobs"
    and j: "job_identity j = job_identity j0" "job_id j = jid"
      "job_lease_expires_at j = None" "job_attempt_count j = job_attempt_count j0"
      "job_max_attempts j = job_max_attempts j0"
      "job_status j = JOB_PENDING \<and> job_completed_at j = None
       \<or> job_status j = JOB_FAILED \<and> job_completed_at j \<noteq> None"
    by (cases "retry \<noteq> None \<and> job_attempt_count j0 < job_max_attempts j0";
        auto simp: job_mark_failed_def Let_def job_identity_def)+
  have "job_ok j0" using assms(1) row_by_Some [OF j0] by (auto simp: queue_ok_def)
  then have "job_ok j" using j by (auto simp: job_ok_def)
  then show ?thesis using assms(1) j j0 j' by (auto intro: queue_ok_save)
qed

section \<open>Runs of the queue\<close>

text \<open>
  Every committed change of the queue is one of these steps; the arguments (identifiers, clock
  readings, error documents) come from outside and are arbitrary.
\<close>

inductive job_step :: "job list \<Rightarrow> job list \<Rightarrow> bool" where
  step_enqueue: "enqueue nid now pid ev jt pl ra ma dk jobs = Inr (j, jobs') \<Longrightarrow> job_step jobs jobs'"
| step_claim: "claim_next types lease now jobs = Inr (r, jobs') \<Longrightarrow> job_step jobs jobs'"
| step_succeed: "job_mark_succeeded now jid res jobs = Inr (j, jobs') \<Longrightarrow> job_step jobs jobs'"
| step_fail: "job_mark_failed now jid err retry jobs = Inr (j, jobs') \<Longrightarrow> job_step jobs jobs'"

inductive reachable_queue :: "job list \<Rightarrow> bool" where
  queue_start: "reachable_queue []"
| queue_step: "reachable_queue jobs \<Longrightarrow> job_step jobs jobs' \<Longrightarrow> reachable_queue jobs'"

lemma job_step_ok: "job_step jobs jobs' \<Longrightarrow> queue_ok jobs \<Longrightarrow> queue_ok jobs'"
  by (induction rule: job_step.induct)
    (auto intro: queue_ok_enqueue queue_ok_claim queue_ok_succeeded queue_ok_failed)

lemma queue_ok_Nil: "queue_ok []"
  by (simp add: queue_ok_def dedupe_ok_def)

section \<open>Claims are leases\<close>

definition take_job :: "int \<Rightarrow> time \<Rightarrow> job \<Rightarrow> job option" where
  "take_job lease_seconds now j =
     (if claim_eligible [] now j then Some (start_attempt now lease_seconds j) else None)"

definition job_held_until :: "job \<Rightarrow> time option" where
  "job_held_until j = (if job_status j = JOB_RUNNING then job_lease_expires_at j else None)"

interpretation job_lease: fenced "take_job (int lease_seconds)" job_held_until
    "int lease_seconds * SECOND" job_attempt_count for lease_seconds :: nat
  by unfold_locales
    (auto simp: take_job_def job_held_until_def claim_eligible_def lease_expired_def
      start_attempt_def SECOND_def split: if_splits option.splits)

section \<open>Claims are bounded\<close>

text \<open>What is left of the attempts of a queue: each successful claim uses one.\<close>

definition attempts_left :: "job list \<Rightarrow> nat" where
  "attempts_left jobs = sum_list (map (\<lambda>j. nat (job_max_attempts j - job_attempt_count j)) jobs)"

text \<open>Successive claims with the listed clock readings, with no job ending in between.\<close>

fun claims :: "string list \<Rightarrow> int \<Rightarrow> time list \<Rightarrow> job list \<Rightarrow> job list" where
  "claims types lease [] jobs = []"
| "claims types lease (t # ts) jobs =
     (case claim_next types lease t jobs of
        Inr (Some j, jobs') \<Rightarrow> j # claims types lease ts jobs'
      | Inr (None, jobs') \<Rightarrow> claims types lease ts jobs'
      | Inl _ \<Rightarrow> [])"

lemma attempts_left_swept [simp]: "attempts_left (swept_queue now jobs) = attempts_left jobs"
  unfolding attempts_left_def swept_queue_def update_where_def
  by (simp add: comp_def fail_exhausted_def if_distrib cong: if_cong)

lemma attempts_left_update:
  assumes "distinct (map job_id jobs)" "c \<in> set jobs" "job_attempt_count c < job_max_attempts c"
  shows "Suc (attempts_left (update_where (\<lambda>j. job_id j = job_id c) (start_attempt now lease) jobs))
    = attempts_left jobs"
  using assms
proof (induction jobs)
  case (Cons j jobs)
  show ?case
  proof (cases "j = c")
    case True
    with Cons.prems(1) have other: "job_id x \<noteq> job_id c" if "x \<in> set jobs" for x
      using that by (metis distinct.simps(2) image_eqI list.map(2) set_map)
    then have "update_where (\<lambda>j. job_id j = job_id c) (start_attempt now lease) jobs = jobs"
      unfolding update_where_def by (intro map_idI) simp
    with True have eq: "update_where (\<lambda>j. job_id j = job_id c) (start_attempt now lease) (j # jobs)
        = start_attempt now lease c # jobs"
      by (simp add: update_where_def)
    from True Cons.prems(3) show ?thesis
      unfolding eq by (simp add: attempts_left_def start_attempt_def)
  next
    case False
    with Cons have "job_id j \<noteq> job_id c" "c \<in> set jobs" by auto
    with Cons show ?thesis by (simp add: attempts_left_def update_where_def)
  qed
qed simp

lemma claim_uses_attempt:
  assumes ok: "queue_ok jobs" and run: "claim_next types lease now jobs = Inr (Some j, jobs')"
  shows "Suc (attempts_left jobs') = attempts_left jobs"
proof -
  from claim_next_Some [OF ok run] obtain c where c: "c \<in> set (swept_queue now jobs)"
      "claim_eligible types now c"
    "jobs' = update_where (\<lambda>x. job_id x = job_id c) (start_attempt now lease) (swept_queue now jobs)"
    by metis
  have "distinct (map job_id (swept_queue now jobs))"
    using queue_ok_swept [OF ok] by (simp add: queue_ok_def)
  with c have "Suc (attempts_left jobs') = attempts_left (swept_queue now jobs)"
    unfolding c(3) by (intro attempts_left_update) (auto simp: claim_eligible_def)
  then show ?thesis by simp
qed

lemma claim_none_attempts:
  assumes "claim_next types lease now jobs = Inr (None, jobs')" "queue_ok jobs"
  shows "attempts_left jobs' = attempts_left jobs"
  using assms(1)
proof (cases rule: claim_next_cases)
  case (some c)
  have "map job_id jobs' = map job_id (swept_queue now jobs)"
    unfolding some(2) by (rule update_where_keys) simp
  then have "job_id c \<in> job_id ` set jobs'"
    using claim_candidate_Some(1) [OF some(1)] by (metis image_eqI image_set)
  with some(3) row_by_None [of job_id "job_id c" jobs'] show ?thesis by simp
qed simp

lemma claims_bounded:
  "queue_ok jobs \<Longrightarrow> length (claims types lease ts jobs) \<le> attempts_left jobs"
proof (induction ts arbitrary: jobs)
  case (Cons t ts)
  show ?case
  proof (cases "claim_next types lease t jobs")
    case (Inr p)
    obtain r jobs' where p: "p = (r, jobs')" by (cases p)
    have ok: "queue_ok jobs'" using queue_ok_claim [OF Cons.prems] Inr p by blast
    show ?thesis
    proof (cases r)
      case None
      with Inr p Cons.IH [OF ok] claim_none_attempts [OF _ Cons.prems] show ?thesis by force
    next
      case (Some j)
      with Inr p claim_uses_attempt [OF Cons.prems] have "Suc (attempts_left jobs') = attempts_left jobs"
        by blast
      with Inr p Some Cons.IH [OF ok] show ?thesis by simp
    qed
  qed simp
qed simp

section \<open>One turn of the worker\<close>

lemma retry_delay_bounds: "0 \<le> n \<Longrightarrow> 30 \<le> retry_delay_seconds n \<and> retry_delay_seconds n \<le> 3600"
  by (auto simp: retry_delay_seconds_def)

section \<open>Properties\<close>

text \<open>
  C5: A successful claim takes the first eligible job in queue order.  The job runs under a lease
  of the requested length, within its attempts, and every other row is as the sweep left it.
\<close>

theorem claim_next_takes_first_eligible:
  assumes "queue_ok jobs" and "claim_next types lease now jobs = Inr (Some j, jobs')"
  shows "\<exists>c. c \<in> set (swept_queue now jobs) \<and> claim_eligible types now c
      \<and> j = start_attempt now lease c \<and> job_status j = JOB_RUNNING
      \<and> job_lease_expires_at j = Some (now + lease * SECOND)
      \<and> job_attempt_count j \<le> job_max_attempts j
      \<and> row_by job_id (job_id j) jobs' = Some j
      \<and> list_all (\<lambda>x. \<not> claim_eligible types now x \<or> claim_order c \<le> claim_order x) (swept_queue now jobs)
      \<and> (\<forall>k. row_by job_id k jobs' = (if k = job_id j then Some j
             else row_by job_id k (swept_queue now jobs)))"
proof -
  from claim_next_Some [OF assms] obtain c where c: "c \<in> set (swept_queue now jobs)"
      "claim_eligible types now c" "j = start_attempt now lease c"
    and jobs': "jobs' = update_where (\<lambda>x. job_id x = job_id c) (start_attempt now lease) (swept_queue now jobs)"
    and first: "\<And>x. x \<in> set (swept_queue now jobs) \<Longrightarrow> claim_eligible types now x \<Longrightarrow> claim_order c \<le> claim_order x"
    by metis
  have row: "row_by job_id (job_id c) jobs' = Some j"
    unfolding jobs' c(3) using c(1) queue_ok_swept [OF assms(1), of now]
    by (intro row_by_update_where_key) (auto simp: queue_ok_def)
  have other: "row_by job_id k jobs' = row_by job_id k (swept_queue now jobs)" if "k \<noteq> job_id c" for k
    unfolding jobs' using that by (rule row_by_update_where_other) simp
  have "job_status j = JOB_RUNNING" "job_lease_expires_at j = Some (now + lease * SECOND)"
    "job_attempt_count j \<le> job_max_attempts j"
    using c(2,3) by (auto simp: start_attempt_def claim_eligible_def)
  with c row other first show ?thesis
    by (intro exI [of _ c]) (auto simp: list_all_iff)
qed

definition sample_job :: job where
  "sample_job = \<lparr>job_id = ''j1'', job_project_id = ''p'', job_event_id = None,
     job_type = ''consolidation.scan'', job_status = JOB_PENDING,
     job_payload_json = Some (JObj [(''app_id'', JStr ''a'')]), job_result_json = Some (JObj []),
     job_dedupe_key = Some ''a:1'', job_attempt_count = 0, job_max_attempts = 3,
     job_run_after = None, job_locked_at = None, job_lease_expires_at = None,
     job_completed_at = None, job_error_json = Some (JObj []), job_created_at = 5,
     job_updated_at = 5\<rparr>"

lemma sample_queue_ok: "queue_ok [sample_job]"
  by (simp add: queue_ok_def dedupe_ok_def job_ok_def sample_job_def)

lemma sample_claim:
  "claim_next [''consolidation.scan''] 300 10 [sample_job]
     = Inr (Some (start_attempt 10 300 sample_job), [start_attempt 10 300 sample_job])"
  by (simp add: claim_next_def claim_candidate_def first_by_def claim_eligible_def sample_job_def
      update_where_def attempts_exhausted_def lease_expired_def)

lemma claim_next_takes_first_eligible_witness:
  "\<exists>j jobs'. claim_next [''consolidation.scan''] 300 10 [sample_job] = Inr (Some j, jobs')
     \<and> job_status j = JOB_RUNNING \<and> row_by job_id (job_id j) jobs' = Some j"
  using claim_next_takes_first_eligible [OF sample_queue_ok sample_claim] sample_claim by blast

text \<open>
  C6: In every queue that the operations can produce, no job exceeds its attempts, a job holds a
  lease exactly while it runs, finished jobs carry their completion time, and deduplication keys
  are unique per project and job type.
\<close>

theorem reachable_queue_ok:
  assumes "reachable_queue jobs"
  shows "queue_ok jobs"
  using assms by (induction rule: reachable_queue.induct) (auto intro: queue_ok_Nil job_step_ok)

lemma sample_reachable: "reachable_queue [sample_job]"
proof -
  have "enqueue ''j1'' 5 ''p'' None ''consolidation.scan'' (JObj [(''app_id'', JStr ''a'')]) None 3
      (Some ''a:1'') [] = Inr (sample_job, [sample_job])"
    by (simp add: enqueue_def job_key_taken_def sample_job_def Let_def)
  then show ?thesis by (rule queue_step [OF queue_start step_enqueue])
qed

lemma reachable_queue_ok_witness:
  "reachable_queue [start_attempt 10 300 sample_job] \<and> queue_ok [start_attempt 10 300 sample_job]"
proof -
  have r: "reachable_queue [start_attempt 10 300 sample_job]"
    by (rule queue_step [OF sample_reachable step_claim [OF sample_claim]])
  show ?thesis using r reachable_queue_ok [OF r] by (rule conjI)
qed

text \<open>
  Two claims of the same job are at least a lease apart, whatever times the claimers read:
  while the lease runs every other claim of the job is refused.
\<close>

lemma job_claims_a_lease_apart:
  "sorted_wrt (\<lambda>(t, _) (t', _). t + int lease_seconds * SECOND \<le> t')
     (run_takes (take_job (int lease_seconds)) clock_readings j)"
  by (rule job_lease.takes_separated)

text \<open>
  C7: A queue in which no job ends serves a bounded number of claims, whatever the clock
  readings, lease and job types: every claim uses one of the attempts left.
\<close>

theorem claims_terminate:
  assumes "reachable_queue jobs"
  shows "length (claims types lease clock_readings jobs) \<le> attempts_left jobs
    \<and> attempts_left jobs \<le> 100 * length jobs"
proof (rule conjI)
  have ok: "queue_ok jobs"
    using assms by (induction rule: reachable_queue.induct) (auto intro: queue_ok_Nil job_step_ok)
  then show "length (claims types lease clock_readings jobs) \<le> attempts_left jobs"
    by (rule claims_bounded)
  have "nat (job_max_attempts j - job_attempt_count j) \<le> 100" if "j \<in> set jobs" for j
    using that ok by (fastforce simp: queue_ok_def job_ok_def)
  then have "attempts_left jobs \<le> sum_list (map (\<lambda>_. 100) jobs)"
    unfolding attempts_left_def by (rule sum_list_mono)
  then show "attempts_left jobs \<le> 100 * length jobs"
    by (simp add: sum_list_triv mult.commute)
qed

lemma claims_terminate_witness:
  "length (claims [] 300 [0, 1, 400000000] [sample_job]) \<le> attempts_left [sample_job]
   \<and> claims [] 300 [10] [sample_job] \<noteq> []"
proof
  show "length (claims [] 300 [0, 1, 400000000] [sample_job]) \<le> attempts_left [sample_job]"
    by (rule claims_terminate [OF sample_reachable, THEN conjunct1])
  show "claims [] 300 [10] [sample_job] \<noteq> []"
    by (simp add: claim_next_def claim_candidate_def first_by_def claim_eligible_def sample_job_def
        update_where_def attempts_exhausted_def lease_expired_def)
qed

fun returned_mapping :: "outcome \<Rightarrow> json dict option" where
  "returned_mapping (Returned (JObj d)) = Some d"
| "returned_mapping _ = None"

text \<open>A handler may add jobs, but leaves the rows of the jobs it finds alone.\<close>

definition handlers_keep_rows :: "(string \<times> handler) list \<Rightarrow> bool" where
  "handlers_keep_rows handlers = (\<forall>(jt, h) \<in> set handlers. \<forall>jid d q k j.
     row_by job_id k q = Some j \<longrightarrow> row_by job_id k (snd (h jid d q)) = Some j)"

lemma handlers_keep_rowsD:
  "handlers_keep_rows handlers \<Longrightarrow> map_of handlers jt = Some h \<Longrightarrow> row_by job_id k q = Some j \<Longrightarrow>
     row_by job_id k (snd (h jid d q)) = Some j"
  unfolding handlers_keep_rows_def by (drule map_of_SomeD) blast

definition settled :: "time \<Rightarrow> outcome \<Rightarrow> job \<Rightarrow> job \<Rightarrow> bool" where
  "settled now r claimed j =
     (job_id j = job_id claimed \<and> job_lease_expires_at j = None \<and>
      (case returned_mapping r of
         Some d \<Rightarrow> job_status j = JOB_SUCCEEDED \<and> job_result_json j = Some (JObj d)
       | None \<Rightarrow>
           if job_attempt_count claimed < job_max_attempts claimed
           then job_status j = JOB_PENDING \<and>
             (case job_run_after j of None \<Rightarrow> False
              | Some t \<Rightarrow> now + 30 * SECOND \<le> t \<and> t \<le> now + 3600 * SECOND)
           else job_status j = JOB_FAILED))"

lemma record_failure_settles:
  assumes "row_by job_id (job_id j) jobs = Some j" "0 \<le> job_attempt_count j"
    "record_failure now (job_id j) (job_attempt_count j) err jobs = Inr jobs'"
  shows "\<exists>j'. row_by job_id (job_id j) jobs' = Some j' \<and> job_id j' = job_id j
    \<and> job_lease_expires_at j' = None
    \<and> (if job_attempt_count j < job_max_attempts j
        then job_status j' = JOB_PENDING
          \<and> job_run_after j' = Some (now + retry_delay_seconds (job_attempt_count j) * SECOND)
        else job_status j' = JOB_FAILED)"
proof -
  from assms(3) obtain j' where run: "job_mark_failed now (job_id j) (JObj [(''error_type'', JStr err)])
      (Some (now + retry_delay_seconds (job_attempt_count j) * SECOND)) jobs = Inr (j', jobs')"
    by (auto simp: record_failure_def res_simps split: prod.splits)
  with assms(1) have j': "jobs' = save job_id j' jobs" "job_id j' = job_id j"
    by (auto simp: job_mark_failed_def Let_def)
  have "job_id j' \<in> job_id ` set jobs" using row_by_Some [OF assms(1)] j'(2) by auto
  then have "row_by job_id (job_id j) jobs' = Some j'"
    using j' row_by_save_same [of job_id j' jobs] by simp
  with run assms(1) j'(2) show ?thesis
    by (intro exI [of _ j']) (auto simp: job_mark_failed_def Let_def)
qed

lemma settle_settles:
  assumes row: "row_by job_id (job_id j) jobs = Some j" and att: "0 \<le> job_attempt_count j"
    and run: "settle now j r jobs = Inr (x, jobs')"
  shows "\<exists>j'. row_by job_id (job_id j) jobs' = Some j' \<and> settled now r j j'"
proof -
  have sec: "a * SECOND \<le> b * SECOND \<longleftrightarrow> a \<le> b" for a b by (simp add: SECOND_def)
  have failed: ?thesis if "record_failure now (job_id j) (job_attempt_count j) err jobs = Inr jobs'"
    "returned_mapping r = None" for err
    using record_failure_settles [OF row att that(1)] that(2) retry_delay_bounds [OF att]
    by (auto simp: settled_def sec split: if_splits)
  show ?thesis
  proof (cases "returned_mapping r")
    case (Some d)
    then have r: "r = Returned (JObj d)" by (cases r rule: returned_mapping.cases) auto
    with run obtain j' where m: "job_mark_succeeded now (job_id j) (JObj d) jobs = Inr (j', jobs')"
      by (auto simp: res_simps split: prod.splits)
    with row have j': "jobs' = save job_id j' jobs" "job_id j' = job_id j" "settled now r j j'"
      by (auto simp: job_mark_succeeded_def Let_def settled_def r)
    have "job_id j' \<in> job_id ` set jobs" using row_by_Some [OF row] j'(2) by auto
    then have "row_by job_id (job_id j) jobs' = Some j'"
      using j' row_by_save_same [of job_id j' jobs] by simp
    with j'(3) show ?thesis by blast
  next
    case None
    with run obtain err where "record_failure now (job_id j) (job_attempt_count j) err jobs = Inr jobs'"
      by (cases "(now, j, r, jobs)" rule: settle.cases) (auto simp: res_simps split: prod.splits)
    with None failed show ?thesis by blast
  qed
qed

lemma settle_total:
  assumes "row_by job_id (job_id j) jobs = Some j"
  shows "\<exists>jobs'. settle now j r jobs
    = Inr (case r of Cancelled \<Rightarrow> raise (OtherError ''CancelledError'') [] | _ \<Rightarrow> Inr True, jobs')"
  using assms
  by (cases "(now, j, r, jobs)" rule: settle.cases)
    (auto simp: record_failure_def job_mark_failed_def job_mark_succeeded_def Let_def)

lemma claim_next_Inl: "claim_next types lease now jobs = Inl e \<Longrightarrow> lease < 1 \<or> 86400 < lease"
  by (auto simp: claim_next_def Let_def split: if_splits option.splits)

text \<open>
  C8: What one turn of the worker does, when its handlers leave the rows of the queue that are
  there alone.  It raises before it does anything when its lease is not between a second and a
  day.  Otherwise it finds nothing and leaves the queue alone; or, when it has no handlers at
  all, it claims a job of any type, raises a missing key and leaves the job claimed; or it runs
  the handler of the job it claimed and settles it: succeeded with the mapping the handler
  returned, or, on an exception, pending again with a retry half a minute to an hour ahead while
  attempts remain, and failed otherwise; a cancellation is raised again after that.
\<close>

theorem run_once_settles_or_idles:
  assumes ok: "queue_ok jobs"
    and keeps: "handlers_keep_rows handlers"
  shows "case run_once handlers lease t0 t1 jobs of
      Inl e \<Rightarrow> lease < 1 \<or> 86400 < lease
    | Inr (x, jobs') \<Rightarrow>
        (x = Inr False \<and> jobs' = jobs \<and> (\<exists>q. claim_next (map fst handlers) lease t0 jobs = Inr (None, q)))
      \<or> (\<exists>j. handlers = [] \<and> claim_next [] lease t0 jobs = Inr (Some j, jobs') \<and> x = raise KeyError (job_type j))
      \<or> (\<exists>j q h r j'. claim_next (map fst handlers) lease t0 jobs = Inr (Some j, q)
           \<and> map_of handlers (job_type j) = Some h \<and> r = fst (h (job_id j) (job_payload j) q)
           \<and> x = (case r of Cancelled \<Rightarrow> raise (OtherError ''CancelledError'') [] | _ \<Rightarrow> Inr True)
           \<and> row_by job_id (job_id j) jobs' = Some j' \<and> settled t1 r j j')"
proof (cases "claim_next (map fst handlers) lease t0 jobs")
  case (Inl e)
  then show ?thesis using claim_next_Inl [OF Inl] by (simp add: run_once_def)
next
  case (Inr claimed)
  obtain c q where cq: "claimed = (c, q)" by fastforce
  note cl = Inr [unfolded cq]
  show ?thesis
  proof (cases c)
    case None
    with cl show ?thesis by (simp add: run_once_def)
  next
    case (Some j)
    from claim_next_Some [OF ok cl [unfolded Some]] obtain c0 where c0: "c0 \<in> set (swept_queue t0 jobs)"
      "claim_eligible (map fst handlers) t0 c0" "j = start_attempt t0 lease c0"
      "q = update_where (\<lambda>x. job_id x = job_id c0) (start_attempt t0 lease) (swept_queue t0 jobs)"
      by metis
    show ?thesis
    proof (cases "map_of handlers (job_type j)")
      case None
      then have "job_type c0 \<notin> fst ` set handlers" by (simp add: c0(3) start_attempt_def map_of_eq_None_iff)
      then have "handlers = []" using c0(2) by (simp add: claim_eligible_def)
      with cl Some None show ?thesis by (simp add: run_once_def)
    next
      case h: (Some h)
      obtain r q2 where hr: "h (job_id j) (job_payload j) q = (r, q2)" by fastforce
      have "row_by job_id (job_id j) q = Some j"
        using c0(1,3) queue_ok_swept [OF ok, of t0] unfolding c0(4)
        by (auto intro!: row_by_update_where_key simp: queue_ok_def)
      then have row: "row_by job_id (job_id j) q2 = Some j"
        using handlers_keep_rowsD [OF keeps h, of "job_id j" q j "job_id j" "job_payload j"] hr by simp
      obtain jobs' where st: "settle t1 j r q2
          = Inr (case r of Cancelled \<Rightarrow> raise (OtherError ''CancelledError'') [] | _ \<Rightarrow> Inr True, jobs')"
        using settle_total [OF row] by blast
      have "job_ok c0" using c0(1) queue_ok_swept [OF ok, of t0] by (auto simp: queue_ok_def)
      then have "0 \<le> job_attempt_count j" by (simp add: c0(3) start_attempt_def job_ok_def)
      from settle_settles [OF row this st] obtain j' where "row_by job_id (job_id j) jobs' = Some j'" "settled t1 r j j'" by blast
      with st Some cl h hr show ?thesis by (simp add: run_once_def)
    qed
  qed
qed

lemma run_once_settles_or_idles_witness:
  "\<exists>x jobs' j'. run_once [(''consolidation.scan'', \<lambda>jid d q. (Raised ''RuntimeError'', q))] 300 10 20
       [sample_job] = Inr (x, jobs')
     \<and> row_by job_id ''j1'' jobs' = Some j' \<and> job_status j' = JOB_PENDING"
proof -
  let ?hs = "[(''consolidation.scan'', \<lambda>jid d q. (Raised ''RuntimeError'', q))]"
  obtain x jobs' where run: "run_once ?hs 300 10 20 [sample_job] = Inr (x, jobs')"
    using sample_claim
    by (simp add: run_once_def record_failure_def job_mark_failed_def start_attempt_def sample_job_def Let_def)
  have x: "x \<noteq> Inr False" using run sample_claim
    by (auto simp: run_once_def record_failure_def job_mark_failed_def start_attempt_def sample_job_def Let_def)
  have keeps: "handlers_keep_rows ?hs" by (simp add: handlers_keep_rows_def)
  obtain j q h r j' where *: "claim_next (map fst ?hs) 300 10 [sample_job] = Inr (Some j, q)"
      "map_of ?hs (job_type j) = Some h" "r = fst (h (job_id j) (job_payload j) q)"
      "row_by job_id (job_id j) jobs' = Some j'" "settled 20 r j j'"
    using run_once_settles_or_idles [OF sample_queue_ok keeps, of 300 10 20] x unfolding run sum.case prod.case
    by (elim disjE conjE exE) auto
  from *(1) sample_claim have j: "j = start_attempt 10 300 sample_job" by simp
  have "r = Raised ''RuntimeError''" using *(2,3) by (auto split: if_splits)
  with *(5) j have "job_status j' = JOB_PENDING"
    by (simp add: settled_def start_attempt_def sample_job_def)
  moreover have "row_by job_id ''j1'' jobs' = Some j'"
    using *(4) j by (simp add: start_attempt_def sample_job_def)
  ultimately show ?thesis using run by blast
qed

end
