(* ===== verification/Py_Text.thy ===== *)
theory Py_Text
  imports Prelude
begin

text \<open>
  Text processing of the Python library that the code calls: regular expressions with
  backtracking (\<open>re\<close>), the JSON printer (\<open>json.dumps\<close>) and the conversion of text to a number
  (\<open>float\<close>).
\<close>

section \<open>Regular expressions\<close>

text \<open>
  A subject is the character before the position and the text from it on.  \<open>rx_match\<close> lists
  the positions a match can end at, in the order the backtracking matcher tries them; a
  repetition is of a single character class and greedy.
\<close>

type_synonym subject = "char option \<times> string"

datatype rx =
    Cls "char \<Rightarrow> bool"
  | Plus "char \<Rightarrow> bool"
  | Opt rx
  | Seq rx rx
  | WordB

definition is_word :: "char \<Rightarrow> bool" where
  "is_word c = (is_alnum c \<or> c = CHR ''_'')"

definition word_at :: "char option \<Rightarrow> bool" where
  "word_at oc = (case oc of None \<Rightarrow> False | Some c \<Rightarrow> is_word c)"

definition first_char :: "string \<Rightarrow> char option" where
  "first_char s = (case s of [] \<Rightarrow> None | c # _ \<Rightarrow> Some c)"

fun greedy :: "(char \<Rightarrow> bool) \<Rightarrow> string \<Rightarrow> subject list" where
  "greedy p [] = []"
| "greedy p (c # cs) = (if p c then greedy p cs @ [(Some c, cs)] else [])"

fun rx_match :: "rx \<Rightarrow> subject \<Rightarrow> subject list" where
  "rx_match (Cls p) (prev, s) = (case s of [] \<Rightarrow> [] | c # cs \<Rightarrow> if p c then [(Some c, cs)] else [])"
| "rx_match (Plus p) (prev, s) = greedy p s"
| "rx_match (Opt r) st = rx_match r st @ [st]"
| "rx_match (Seq r1 r2) st = concat (map (rx_match r2) (rx_match r1 st))"
| "rx_match WordB (prev, s) = (if word_at prev \<noteq> word_at (first_char s) then [(prev, s)] else [])"

fun rx_seq :: "rx list \<Rightarrow> rx" where
  "rx_seq [] = Opt (Cls (\<lambda>_. False))"
| "rx_seq [r] = r"
| "rx_seq (r1 # r2 # rs) = Seq r1 (rx_seq (r2 # rs))"

text \<open>
  \<open>findall\<close> and \<open>sub\<close>: scanning from the left, the first way to match at each position.  Every
  pattern of the code consumes a character, so a match that does not advance is not treated.
\<close>

function rx_pieces :: "rx \<Rightarrow> subject \<Rightarrow> (char + string) list" where
  "rx_pieces r (prev, s) =
     (case rx_match r (prev, s) of
        (prev', s') # _ \<Rightarrow>
          if length s' < length s
          then Inr (take (length s - length s') s) # rx_pieces r (prev', s')
          else []
      | [] \<Rightarrow> (case s of [] \<Rightarrow> [] | c # cs \<Rightarrow> Inl c # rx_pieces r (Some c, cs)))"
  by pat_completeness auto
termination by (relation "measure (\<lambda>(r, (prev, s)). length s)") auto

declare rx_pieces.simps [simp del]

definition rx_findall :: "rx \<Rightarrow> string \<Rightarrow> string list" where
  "rx_findall r s =
     List.map_filter (\<lambda>x. case x of Inl _ \<Rightarrow> None | Inr m \<Rightarrow> Some m) (rx_pieces r (None, s))"

definition rx_sub :: "rx \<Rightarrow> string \<Rightarrow> string \<Rightarrow> string" where
  "rx_sub r repl s = concat (map (case_sum (\<lambda>c. [c]) (\<lambda>_. repl)) (rx_pieces r (None, s)))"

section \<open>JSON text\<close>

record json_style =
  js_item_separator :: string
  js_key_separator :: string
  js_ensure_ascii :: bool
  js_sort_keys :: bool

definition hex_digit :: "nat \<Rightarrow> char" where
  "hex_digit n = (if n < 10 then char_of (48 + n) else char_of (87 + n))"

definition json_escape :: "bool \<Rightarrow> char \<Rightarrow> string" where
  "json_escape ensure_ascii c = (let n = code c in
     if n = 34 then [CHR 0x5C, CHR 0x22] else if n = 92 then [CHR 0x5C, CHR 0x5C]
     else if n = 10 then [CHR 0x5C, CHR ''n''] else if n = 13 then [CHR 0x5C, CHR ''r'']
     else if n = 9 then [CHR 0x5C, CHR ''t''] else if n = 8 then [CHR 0x5C, CHR ''b'']
     else if n = 12 then [CHR 0x5C, CHR ''f'']
     else if n < 32 \<or> ensure_ascii \<and> n > 126
     then [CHR 0x5C, CHR ''u'', CHR ''0'', CHR ''0'', hex_digit (n div 16), hex_digit (n mod 16)]
     else [c])"

definition json_string :: "bool \<Rightarrow> string \<Rightarrow> string" where
  "json_string ensure_ascii s = [CHR 0x22] @ concat (map (json_escape ensure_ascii) s) @ [CHR 0x22]"

text \<open>The decimal text of a float (\<open>float.__repr__\<close>) is a parameter.\<close>

fun json_dumps :: "(pyfloat \<Rightarrow> string) \<Rightarrow> json_style \<Rightarrow> json \<Rightarrow> string" where
  "json_dumps fr st JNull = ''null''"
| "json_dumps fr st (JBool b) = (if b then ''true'' else ''false'')"
| "json_dumps fr st (JInt i) = int_str i"
| "json_dumps fr st (JFloat f) =
     (case f of PosInf \<Rightarrow> ''Infinity'' | NegInf \<Rightarrow> ''-Infinity'' | NaN \<Rightarrow> ''NaN'' | Fin _ \<Rightarrow> fr f)"
| "json_dumps fr st (JStr s) = json_string (js_ensure_ascii st) s"
| "json_dumps fr st (JList xs) =
     ''['' @ join (js_item_separator st) (map (json_dumps fr st) xs) @ '']''"
| "json_dumps fr st (JObj m) =
     (let rendered = map (\<lambda>(k, v). (k, json_dumps fr st v)) m;
          ordered = (if js_sort_keys st then sort_key fst rendered else rendered)
      in ''{'' @ join (js_item_separator st)
           (map (\<lambda>(k, t). json_string (js_ensure_ascii st) k @ js_key_separator st @ t) ordered) @ ''}'')"

text \<open>The document that \<open>sort_keys\<close> makes of one, key order included.\<close>

fun canon_json :: "json \<Rightarrow> json" where
  "canon_json (JList xs) = JList (map canon_json xs)"
| "canon_json (JObj m) = JObj (sort_key fst (map (\<lambda>(k, v). (k, canon_json v)) m))"
| "canon_json j = j"

definition compact_sorted :: json_style where
  "compact_sorted = \<lparr>js_item_separator = '','', js_key_separator = '':'', js_ensure_ascii = True,
     js_sort_keys = True\<rparr>"

section \<open>Numbers in text\<close>

fun digits_value :: "string \<Rightarrow> nat \<Rightarrow> nat" where
  "digits_value [] acc = acc"
| "digits_value (c # cs) acc = digits_value cs (10 * acc + (code c - 48))"

text \<open>An underscore may stand between two digits.\<close>

fun drop_underscores :: "bool \<Rightarrow> string \<Rightarrow> string option" where
  "drop_underscores after_digit [] = Some []"
| "drop_underscores after_digit (c # cs) =
     (if c = CHR ''_''
      then (case cs of
              d # _ \<Rightarrow> if after_digit \<and> is_digit d then drop_underscores False cs else None
            | [] \<Rightarrow> None)
      else map_option (Cons c) (drop_underscores (is_digit c) cs))"

fun exponent_value :: "string \<Rightarrow> int option" where
  "exponent_value [] = Some 0"
| "exponent_value (c # cs) =
     (let (negative, ds) = (case cs of
             s # t \<Rightarrow> if s = CHR ''-'' then (True, t) else if s = CHR ''+'' then (False, t) else (False, cs)
           | [] \<Rightarrow> (False, []))
      in if c \<in> {CHR ''e'', CHR ''E''} \<and> ds \<noteq> [] \<and> list_all is_digit ds
         then Some (if negative then - int (digits_value ds 0) else int (digits_value ds 0))
         else None)"

definition scaled :: "nat \<Rightarrow> int \<Rightarrow> rat" where
  "scaled m e = (if e \<ge> 0 then of_nat m * 10 ^ nat e else of_nat m / 10 ^ nat (- e))"

definition unsigned_float :: "string \<Rightarrow> pyfloat option" where
  "unsigned_float t =
     (if lower t \<in> {''inf'', ''infinity''} then Some PosInf
      else if lower t = ''nan'' then Some NaN
      else
        let ip = takeWhile is_digit t; r1 = dropWhile is_digit t;
            (fp, r2) = (case r1 of
                c # cs \<Rightarrow> if c = CHR ''.'' then (takeWhile is_digit cs, dropWhile is_digit cs) else ([], r1)
              | [] \<Rightarrow> ([], []))
        in if ip @ fp = [] then None
           else map_option (\<lambda>e. float_of_rat (scaled (digits_value (ip @ fp) 0) (e - int (length fp))))
                  (exponent_value r2))"

fun float_neg :: "pyfloat \<Rightarrow> pyfloat" where
  "float_neg (Fin r) = Fin (- r)"
| "float_neg PosInf = NegInf"
| "float_neg NegInf = PosInf"
| "float_neg NaN = NaN"

definition float_of_text :: "string \<Rightarrow> pyfloat option" where
  "float_of_text s =
     (case drop_underscores False (strip s) of
        None \<Rightarrow> None
      | Some [] \<Rightarrow> None
      | Some (c # cs) \<Rightarrow>
          if c = CHR ''-'' then map_option float_neg (unsigned_float cs)
          else if c = CHR ''+'' then unsigned_float cs
          else unsigned_float (c # cs))"

text \<open>\<open>float(x)\<close> of a decoded value; the class of the error tells a bad type from bad text.\<close>

definition float_of_json :: "json \<Rightarrow> pyfloat res" where
  "float_of_json v = (case v of
     JBool b \<Rightarrow> Inr (Fin (if b then 1 else 0))
   | JInt i \<Rightarrow> float_of_int i
   | JFloat f \<Rightarrow> Inr f
   | JStr s \<Rightarrow> (case float_of_text s of
        Some f \<Rightarrow> Inr f
      | None \<Rightarrow> value_error ''could not convert string to float'')
   | _ \<Rightarrow> raise TypeError ''float() argument must be a string or a real number'')"

lemma float_of_int_finite: "float_of_int i = Inr f \<Longrightarrow> f = Fin (of_int i)"
  by (auto simp: float_of_int_def split: if_splits)

end
