(* ===== verification/Consolidation_Policy.thy ===== *)
theory Consolidation_Policy
  imports Prelude
begin

text \<open>
  The consolidation policy (\<open>core/consolidation_policy.py\<close>): parsing and validation of the
  operator's document, defaults, retention rules per memory type, and the document written
  back.  A \<open>frozenset\<close> is a \<open>set\<close>; the rules keep the insertion order of the source's \<open>dict\<close>.
\<close>

section \<open>Data\<close>

definition ALLOWED_MODES :: "string list" where
  "ALLOWED_MODES = [''OBSERVE'', ''MANUAL'', ''AUTO_SAFE'']"

definition ALLOWED_RETENTION_ACTIONS :: "string list" where
  "ALLOWED_RETENTION_ACTIONS = [''REVIEW'', ''SHADOW'']"

definition ALLOWED_SAFE_ACTIONS :: "string set" where
  "ALLOWED_SAFE_ACTIONS = {''EXACT_DUPLICATE'', ''RETENTION_EXPIRED''}"

record retention_rule =
  rule_days :: "int option"
  rule_action :: string

definition DEFAULT_RETENTION :: "retention_rule dict" where
  "DEFAULT_RETENTION =
    [(''session_state'', \<lparr>rule_days = Some 90, rule_action = ''SHADOW''\<rparr>),
     (''compact_summary'', \<lparr>rule_days = Some 90, rule_action = ''SHADOW''\<rparr>),
     (''auto_capture'', \<lparr>rule_days = Some 30, rule_action = ''SHADOW''\<rparr>),
     (''debugging_note'', \<lparr>rule_days = Some 180, rule_action = ''REVIEW''\<rparr>),
     (''decision'', \<lparr>rule_days = None, rule_action = ''REVIEW''\<rparr>),
     (''user_preference'', \<lparr>rule_days = None, rule_action = ''REVIEW''\<rparr>),
     (''project_profile'', \<lparr>rule_days = None, rule_action = ''REVIEW''\<rparr>)]"

record policy_spec =
  pol_enabled :: bool
  pol_mode :: string
  pol_max_anchors_per_run :: int
  pol_max_proposals_per_run :: int
  pol_shadow_grace_days :: int
  pol_min_new_memories :: int
  pol_scan_interval_seconds :: int
  pol_near_duplicate_threshold :: pyfloat
  pol_policy_version :: int
  pol_safe_actions :: "string set"
  pol_retention :: "retention_rule dict"

section \<open>Parsing\<close>

definition normalize_type_key :: "string \<Rightarrow> string res" where
  "normalize_type_key value =
     (let normalized = lower (strip (nfkc value));
          key = strip_if (\<lambda>c. c = CHR ''_'') (sub_runs (\<lambda>c. \<not> is_az09 c) ''_'' normalized)
      in if key = [] then value_error ''retention type names must not be empty'' else Inr key)"

definition bounded_int :: "json \<Rightarrow> string \<Rightarrow> int \<Rightarrow> int \<Rightarrow> int res" where
  "bounded_int value field_name minimum maximum =
     (case value of
        JInt i \<Rightarrow>
          if i < minimum \<or> i > maximum
          then value_error (field_name @ '' must be between '' @ int_str minimum @ '' and '' @ int_str maximum)
          else Inr i
      | _ \<Rightarrow> value_error (field_name @ '' must be an integer''))"

definition retention_days :: "json \<Rightarrow> string \<Rightarrow> int option res" where
  "retention_days days type_name =
     (if days = JNull then Inr None
      else rbind (bounded_int days (''retention.'' @ type_name @ ''.days'') 1 36500) (\<lambda>d. Inr (Some d)))"

definition parse_retention_rule :: "json \<Rightarrow> string \<Rightarrow> retention_rule res" where
  "parse_retention_rule value type_name =
     (case value of
        JObj d \<Rightarrow>
          let unknown = filter (\<lambda>k. k \<notin> set [''days'', ''action'']) (dkeys d) in
          if unknown \<noteq> []
          then value_error (''retention rule '' @ quoted type_name @ '' has unknown fields: '' @ join '', '' (sort unknown))
          else
            rbind (retention_days (jget d ''days'') type_name) (\<lambda>days.
              case dget_or d ''action'' (JStr ''REVIEW'') of
                JStr a \<Rightarrow>
                  let action = upper (strip a) in
                  if action \<notin> set ALLOWED_RETENTION_ACTIONS
                  then value_error (''retention.'' @ type_name @ ''.action must be REVIEW or SHADOW'')
                  else if action = ''SHADOW'' \<and> days = None
                  then value_error (''retention.'' @ type_name @ '' cannot SHADOW without a finite day limit'')
                  else Inr \<lparr>rule_days = days, rule_action = action\<rparr>
              | _ \<Rightarrow> value_error (''retention.'' @ type_name @ ''.action must be REVIEW or SHADOW''))
      | _ \<Rightarrow> value_error (''retention rule '' @ quoted type_name @ '' must be a mapping''))"

fun apply_overrides ::
    "(string \<times> json) list \<Rightarrow> retention_rule dict \<Rightarrow> string list \<Rightarrow> retention_rule dict res" where
  "apply_overrides [] retention seen = Inr retention"
| "apply_overrides ((raw_type, raw_rule) # rest) retention seen =
     rbind (normalize_type_key raw_type) (\<lambda>type_name.
       if type_name \<in> set seen
       then value_error (''retention contains duplicate normalized type '' @ quoted type_name)
       else rbind (parse_retention_rule raw_rule type_name) (\<lambda>rule.
         apply_overrides rest (dset type_name rule retention) (type_name # seen)))"

definition parse_mode :: "json \<Rightarrow> string res" where
  "parse_mode raw =
     (case raw of
        JStr s \<Rightarrow>
          let mode = upper (strip s) in
          if mode \<in> set ALLOWED_MODES then Inr mode
          else value_error ''mode must be OBSERVE, MANUAL, or AUTO_SAFE''
      | _ \<Rightarrow> value_error ''mode must be OBSERVE, MANUAL, or AUTO_SAFE'')"

text \<open>Comparisons with not-a-number are false, so both range tests let it pass.\<close>

definition parse_threshold :: "json \<Rightarrow> pyfloat res" where
  "parse_threshold raw =
     rbind (case raw of
              JInt i \<Rightarrow> float_of_int i
            | JFloat f \<Rightarrow> Inr f
            | _ \<Rightarrow> value_error ''near_duplicate_threshold must be a number'')
       (\<lambda>threshold.
          if float_lt threshold (Fin (1/2)) \<or> float_lt (Fin 1) threshold
          then value_error ''near_duplicate_threshold must be between 0.5 and 1.0''
          else Inr threshold)"

definition parse_safe_actions :: "json option \<Rightarrow> string set res" where
  "parse_safe_actions raw =
     (case raw of
        None \<Rightarrow> Inr ALLOWED_SAFE_ACTIONS
      | Some (JList items) \<Rightarrow>
          rbind (rmap (\<lambda>item. case item of
                   JStr s \<Rightarrow> Inr (upper (strip s))
                 | _ \<Rightarrow> value_error ''safe_actions entries must be strings'') items)
            (\<lambda>actions.
               if set actions \<subseteq> ALLOWED_SAFE_ACTIONS then Inr (set actions)
               else value_error ''safe_actions may contain only EXACT_DUPLICATE and RETENTION_EXPIRED'')
      | Some _ \<Rightarrow> value_error ''safe_actions must be a collection'')"

definition parse_retention :: "json \<Rightarrow> retention_rule dict res" where
  "parse_retention raw =
     (case raw of
        JObj d \<Rightarrow> apply_overrides d DEFAULT_RETENTION []
      | _ \<Rightarrow> value_error ''retention must be a mapping'')"

definition allowed_policy_fields :: "string list" where
  "allowed_policy_fields =
     [''enabled'', ''mode'', ''max_anchors_per_run'', ''max_proposals_per_run'', ''shadow_grace_days'',
      ''min_new_memories'', ''scan_interval_seconds'', ''near_duplicate_threshold'',
      ''policy_version'', ''safe_actions'', ''retention'']"

definition from_mapping :: "json \<Rightarrow> policy_spec res" where
  "from_mapping value = (case value of
     JObj d \<Rightarrow>
       rbind (raise_if (\<exists>k \<in> set (dkeys d). k \<notin> set allowed_policy_fields)
                (Exn ValueError (''unknown consolidation policy fields: '' @
                   join '', '' (sort (filter (\<lambda>k. k \<notin> set allowed_policy_fields) (dkeys d)))))) (\<lambda>_.
       rbind (case dget_or d ''enabled'' (JBool False) of
                JBool b \<Rightarrow> Inr b
              | _ \<Rightarrow> value_error ''enabled must be a boolean'') (\<lambda>enabled.
       rbind (parse_mode (dget_or d ''mode'' (JStr ''OBSERVE''))) (\<lambda>mode.
       rbind (parse_threshold (dget_or d ''near_duplicate_threshold'' (JFloat (Fin (92/100))))) (\<lambda>threshold.
       rbind (parse_safe_actions (dget d ''safe_actions'')) (\<lambda>safe_actions.
       rbind (parse_retention (dget_or d ''retention'' (JObj []))) (\<lambda>retention.
       rbind (bounded_int (dget_or d ''max_anchors_per_run'' (JInt 100)) ''max_anchors_per_run'' 1 1000) (\<lambda>anchors.
       rbind (bounded_int (dget_or d ''max_proposals_per_run'' (JInt 200)) ''max_proposals_per_run'' 1 1000) (\<lambda>proposals.
       rbind (bounded_int (dget_or d ''shadow_grace_days'' (JInt 7)) ''shadow_grace_days'' 7 365) (\<lambda>grace.
       rbind (bounded_int (dget_or d ''min_new_memories'' (JInt 20)) ''min_new_memories'' 1 100000) (\<lambda>min_new.
       rbind (bounded_int (dget_or d ''scan_interval_seconds'' (JInt 86400)) ''scan_interval_seconds'' 60 31536000) (\<lambda>interval.
       rbind (bounded_int (dget_or d ''policy_version'' (JInt 1)) ''policy_version'' 1 2147483647) (\<lambda>version.
       Inr \<lparr>pol_enabled = enabled, pol_mode = mode, pol_max_anchors_per_run = anchors,
            pol_max_proposals_per_run = proposals, pol_shadow_grace_days = grace,
            pol_min_new_memories = min_new, pol_scan_interval_seconds = interval,
            pol_near_duplicate_threshold = threshold, pol_policy_version = version,
            pol_safe_actions = safe_actions, pol_retention = retention\<rparr>))))))))))))
   | _ \<Rightarrow> value_error ''consolidation policy must be a mapping'')"

definition rule_json :: "retention_rule \<Rightarrow> json" where
  "rule_json r = JObj [(''days'', case rule_days r of None \<Rightarrow> JNull | Some d \<Rightarrow> JInt d),
     (''action'', JStr (rule_action r))]"

definition to_mapping :: "policy_spec \<Rightarrow> json" where
  "to_mapping p = JObj
     [(''enabled'', JBool (pol_enabled p)),
      (''mode'', JStr (pol_mode p)),
      (''max_anchors_per_run'', JInt (pol_max_anchors_per_run p)),
      (''max_proposals_per_run'', JInt (pol_max_proposals_per_run p)),
      (''shadow_grace_days'', JInt (pol_shadow_grace_days p)),
      (''min_new_memories'', JInt (pol_min_new_memories p)),
      (''scan_interval_seconds'', JInt (pol_scan_interval_seconds p)),
      (''near_duplicate_threshold'', JFloat (pol_near_duplicate_threshold p)),
      (''policy_version'', JInt (pol_policy_version p)),
      (''safe_actions'', JList (map JStr (sorted_list_of_set (pol_safe_actions p)))),
      (''retention'', JObj (map (\<lambda>(k, r). (k, rule_json r)) (sort_key fst (pol_retention p))))]"

section \<open>What a parsed policy satisfies\<close>

definition wf_rule :: "retention_rule \<Rightarrow> bool" where
  "wf_rule r =
     ((case rule_days r of None \<Rightarrow> True | Some d \<Rightarrow> 1 \<le> d \<and> d \<le> 36500)
      \<and> rule_action r \<in> set ALLOWED_RETENTION_ACTIONS
      \<and> (rule_action r = ''SHADOW'' \<longrightarrow> rule_days r \<noteq> None))"

definition wf_type_key :: "string \<Rightarrow> bool" where
  "wf_type_key k = (normalize_type_key k = Inr k)"

definition wf_retention :: "retention_rule dict \<Rightarrow> bool" where
  "wf_retention d =
     (distinct (dkeys d) \<and> (\<forall>(k, r) \<in> set d. wf_type_key k \<and> wf_rule r)
      \<and> set (dkeys DEFAULT_RETENTION) \<subseteq> set (dkeys d))"

definition wf_policy :: "policy_spec \<Rightarrow> bool" where
  "wf_policy p =
     (pol_mode p \<in> set ALLOWED_MODES
      \<and> 1 \<le> pol_max_anchors_per_run p \<and> pol_max_anchors_per_run p \<le> 1000
      \<and> 1 \<le> pol_max_proposals_per_run p \<and> pol_max_proposals_per_run p \<le> 1000
      \<and> 7 \<le> pol_shadow_grace_days p \<and> pol_shadow_grace_days p \<le> 365
      \<and> 1 \<le> pol_min_new_memories p \<and> pol_min_new_memories p \<le> 100000
      \<and> 60 \<le> pol_scan_interval_seconds p \<and> pol_scan_interval_seconds p \<le> 31536000
      \<and> (pol_near_duplicate_threshold p = NaN
         \<or> (\<exists>t. pol_near_duplicate_threshold p = Fin t \<and> 1/2 \<le> t \<and> t \<le> 1))
      \<and> 1 \<le> pol_policy_version p \<and> pol_policy_version p \<le> 2147483647
      \<and> pol_safe_actions p \<subseteq> ALLOWED_SAFE_ACTIONS
      \<and> wf_retention (pol_retention p))"

text \<open>
  Type keys are words of \<open>a-z0-9\<close> joined by single underscores; normalising one gives it back.
\<close>

definition single_runs :: "string \<Rightarrow> bool" where
  "single_runs s = ((\<forall>c \<in> set s. is_az09 c \<or> c = CHR ''_'')
     \<and> successively (\<lambda>a b. is_az09 a \<or> is_az09 b) s)"

lemma underscore_not_az09 [simp]: "\<not> is_az09 CHR ''_''"
  by (simp add: is_az09_def is_lower_az_def is_digit_def code_def)

lemma az09_code: "is_az09 c \<longleftrightarrow> 97 \<le> code c \<and> code c \<le> 122 \<or> 48 \<le> code c \<and> code c \<le> 57"
  by (simp add: is_az09_def is_lower_az_def is_digit_def)

lemma code_underscore [simp]: "code CHR ''_'' = 95"
  by (simp add: code_def)

lemma az09_chars:
  assumes "is_az09 c \<or> c = CHR ''_''"
  shows "nfkc_char c = [c]" "lower_char c = c" "\<not> is_space c" "\<not> is_control c"
  using assms by (auto simp: az09_code nfkc_char_def lower_char_def is_space_def is_control_def Let_def)

lemma single_runs_sub_runs: "single_runs s \<Longrightarrow> sub_runs (\<lambda>c. \<not> is_az09 c) ''_'' s = s"
proof (induction s)
  case (Cons c cs)
  then have cs: "single_runs cs" by (auto simp: single_runs_def successively_Cons)
  show ?case
  proof (cases "is_az09 c")
    case False
    with Cons.prems have c: "c = CHR ''_''" "cs = [] \<or> is_az09 (hd cs)"
      by (auto simp: single_runs_def successively_Cons)
    then have "dropWhile (\<lambda>c. \<not> is_az09 c) cs = cs" by (cases cs) auto
    with c cs False Cons.IH show ?thesis by simp
  qed (use cs Cons.IH in simp)
qed simp

lemma sub_runs_single: "single_runs (sub_runs (\<lambda>c. \<not> is_az09 c) ''_'' t)"
proof (induction "\<lambda>c. \<not> is_az09 c" "''_''" t rule: sub_runs.induct)
  case (2 c cs)
  show ?case
  proof (cases "is_az09 c")
    case True
    with 2 show ?thesis by (auto simp: single_runs_def successively_Cons)
  next
    case False
    let ?d = "dropWhile (\<lambda>c. \<not> is_az09 c) cs"
    have "sub_runs (\<lambda>c. \<not> is_az09 c) ''_'' ?d = [] \<or> is_az09 (hd (sub_runs (\<lambda>c. \<not> is_az09 c) ''_'' ?d))"
    proof (cases ?d)
      case (Cons x xs)
      then have "is_az09 x" using hd_dropWhile [of "\<lambda>c. \<not> is_az09 c" cs] by simp
      with Cons show ?thesis by simp
    qed (simp del: dropWhile_eq_Nil_conv)
    with 2 False show ?thesis by (auto simp: single_runs_def successively_Cons)
  qed
qed (simp add: single_runs_def)

lemma strip_if_infix: "\<exists>a b. s = a @ strip_if p s @ b"
proof -
  let ?t = "dropWhile p s"
  have "?t = strip_if p s @ rev (takeWhile p (rev ?t))"
    unfolding strip_if_def by (metis rev_append rev_rev_ident takeWhile_dropWhile_id)
  then have "s = takeWhile p s @ strip_if p s @ rev (takeWhile p (rev ?t))"
    by (metis takeWhile_dropWhile_id)
  then show ?thesis by blast
qed

lemma single_runs_infix: "single_runs (a @ u @ b) \<Longrightarrow> single_runs u"
  by (auto simp: single_runs_def successively_append_iff)

lemma single_runs_strip: "single_runs s \<Longrightarrow> single_runs (strip_if p s)"
  using strip_if_infix [of s p] single_runs_infix by metis

lemma map_concat_id: "(\<And>c. c \<in> set s \<Longrightarrow> f c = [c]) \<Longrightarrow> concat (map f s) = s"
  by (induction s) auto

lemma single_runs_key:
  assumes "single_runs s" "s \<noteq> []" "hd s \<noteq> CHR ''_''" "last s \<noteq> CHR ''_''"
  shows "normalize_type_key s = Inr s"
proof -
  have chars: "\<And>c. c \<in> set s \<Longrightarrow> is_az09 c \<or> c = CHR ''_''"
    using assms(1) by (auto simp: single_runs_def)
  have "nfkc s = s" unfolding nfkc_def
    by (rule map_concat_id) (use chars az09_chars in blast)
  moreover have "strip s = s" by (rule strip_no_space) (use chars az09_chars in blast)
  moreover have "lower s = s" unfolding lower_def
    by (rule map_idI) (use chars az09_chars in blast)
  moreover have "strip_if (\<lambda>c. c = CHR ''_'') s = s"
    by (rule strip_if_fix) (use assms in auto)
  ultimately show ?thesis
    using assms by (simp add: normalize_type_key_def single_runs_sub_runs)
qed

lemma normalize_type_key_wf:
  assumes "normalize_type_key v = Inr k"
  shows "wf_type_key k"
proof -
  let ?s = "sub_runs (\<lambda>c. \<not> is_az09 c) ''_'' (lower (strip (nfkc v)))"
  from assms have k: "k = strip_if (\<lambda>c. c = CHR ''_'') ?s" "k \<noteq> []"
    by (auto simp: normalize_type_key_def Let_def split: if_splits)
  show ?thesis unfolding wf_type_key_def
  proof (rule single_runs_key)
    show "single_runs k" unfolding k(1) by (rule single_runs_strip [OF sub_runs_single])
    show "hd k \<noteq> CHR ''_''" "last k \<noteq> CHR ''_''"
      using strip_if_ends [of "\<lambda>c. c = CHR ''_''" ?s] k by auto
  qed (rule k(2))
qed

lemma bounded_int_Inr [res_simps]:
  "bounded_int v f lo hi = Inr i \<longleftrightarrow> v = JInt i \<and> lo \<le> i \<and> i \<le> hi"
  by (cases v) (auto simp: bounded_int_def)

lemma parse_retention_rule_wf: "parse_retention_rule v n = Inr r \<Longrightarrow> wf_rule r"
  unfolding parse_retention_rule_def
  by (auto simp: res_simps Let_def retention_days_def wf_rule_def split: if_splits json.splits option.splits)

lemma dset_mem: "(k', r') \<in> set (dset k r d) \<Longrightarrow> k' = k \<and> r' = r \<or> (k', r') \<in> set d"
  by (induction d) (auto split: if_splits)

lemma wf_retention_dset:
  assumes "wf_retention d" "wf_type_key k" "wf_rule r"
  shows "wf_retention (dset k r d)"
  unfolding wf_retention_def
proof (intro conjI ballI)
  show "distinct (dkeys (dset k r d))" using assms(1) by (simp add: wf_retention_def distinct_update)
  show "set (dkeys DEFAULT_RETENTION) \<subseteq> set (dkeys (dset k r d))"
    using assms(1) unfolding dkeys_dset wf_retention_def by blast
  fix x assume "x \<in> set (dset k r d)"
  then show "case x of (k, r) \<Rightarrow> wf_type_key k \<and> wf_rule r"
    using assms dset_mem [of "fst x" "snd x" k r d] by (cases x) (auto simp: wf_retention_def)
qed

lemma apply_overrides_wf:
  "apply_overrides xs ret seen = Inr ret' \<Longrightarrow> wf_retention ret \<Longrightarrow> wf_retention ret'"
proof (induction xs ret seen rule: apply_overrides.induct)
  case (2 k v rest ret seen)
  then obtain n r where *: "normalize_type_key k = Inr n" "n \<notin> set seen"
    "parse_retention_rule v n = Inr r" "apply_overrides rest (dset n r ret) (n # seen) = Inr ret'"
    by (auto simp: res_simps)
  show ?case
    using 2(1) [OF *(1,2,3,4)] wf_retention_dset [OF 2(3) normalize_type_key_wf [OF *(1)]
      parse_retention_rule_wf [OF *(3)]] by blast
qed simp

lemma default_key_wf:
  "k \<in> set (dkeys DEFAULT_RETENTION) \<Longrightarrow> wf_type_key k"
  unfolding wf_type_key_def
  by (rule single_runs_key)
    (auto simp: DEFAULT_RETENTION_def single_runs_def az09_code code_def)

lemma wf_default_retention: "wf_retention DEFAULT_RETENTION"
  unfolding wf_retention_def
proof (intro conjI ballI)
  fix x assume x: "x \<in> set DEFAULT_RETENTION"
  then have "wf_type_key (fst x)" by (intro default_key_wf) auto
  moreover have "wf_rule (snd x)"
    using x by (auto simp: DEFAULT_RETENTION_def wf_rule_def ALLOWED_RETENTION_ACTIONS_def)
  ultimately show "case x of (k, r) \<Rightarrow> wf_type_key k \<and> wf_rule r" by (cases x) auto
qed (simp_all add: DEFAULT_RETENTION_def)

lemma parse_mode_Inr: "parse_mode v = Inr m \<Longrightarrow> m \<in> set ALLOWED_MODES"
  by (auto simp: parse_mode_def res_simps Let_def)

lemma parse_threshold_Inr:
  assumes "parse_threshold v = Inr t"
  shows "t = NaN \<or> (\<exists>q. t = Fin q \<and> 1/2 \<le> q \<and> q \<le> 1)"
  using assms by (cases t) (auto simp: parse_threshold_def res_simps not_less)

lemma parse_safe_actions_Inr: "parse_safe_actions v = Inr a \<Longrightarrow> a \<subseteq> ALLOWED_SAFE_ACTIONS"
  by (auto simp: parse_safe_actions_def res_simps split: option.splits json.splits if_splits)

lemma parse_retention_Inr: "parse_retention v = Inr d \<Longrightarrow> wf_retention d"
  using apply_overrides_wf wf_default_retention
  by (auto simp: parse_retention_def res_simps split: json.splits)

text \<open>
  C9: Every policy the parser accepts is well formed: a known mode, every limit in its range, a
  threshold in [0.5, 1] (or not-a-number), only the two safe actions, and retention rules under
  distinct normalised type names that include the defaults, where a rule that shadows has a
  finite number of days.
\<close>

theorem policy_parse_wf:
  assumes "from_mapping v = Inr p"
  shows "wf_policy p"
  using assms unfolding from_mapping_def wf_policy_def
  by (auto simp: res_simps intro: parse_safe_actions_Inr [THEN subsetD]
      dest: parse_mode_Inr parse_threshold_Inr parse_retention_Inr)

section \<open>Writing a policy and reading it back\<close>

lemma upper_word: "(\<forall>c \<in> set s. is_upper_AZ c \<or> c = CHR ''_'') \<Longrightarrow> upper (strip s) = s"
proof -
  assume *: "\<forall>c \<in> set s. is_upper_AZ c \<or> c = CHR ''_''"
  have "strip s = s" using * by (intro strip_no_space) (auto simp: is_upper_AZ_def is_space_def Let_def)
  moreover have "upper s = s" unfolding upper_def
    by (rule map_concat_id) (use * in \<open>auto simp: is_upper_AZ_def upper_char_def Let_def\<close>)
  ultimately show ?thesis by simp
qed

lemma upper_allowed:
  "m \<in> set ALLOWED_MODES \<Longrightarrow> upper (strip m) = m"
  "a \<in> set ALLOWED_RETENTION_ACTIONS \<Longrightarrow> upper (strip a) = a"
  "b \<in> ALLOWED_SAFE_ACTIONS \<Longrightarrow> upper (strip b) = b"
  by (rule upper_word; auto simp: ALLOWED_MODES_def ALLOWED_RETENTION_ACTIONS_def
      ALLOWED_SAFE_ACTIONS_def is_upper_AZ_def code_def)+

lemma parse_rule_json: "wf_rule r \<Longrightarrow> parse_retention_rule (rule_json r) n = Inr r"
  using upper_allowed(2) [of "rule_action r"]
  by (cases "rule_days r") (auto simp: wf_rule_def rule_json_def parse_retention_rule_def
      retention_days_def bounded_int_def Let_def)

lemma apply_overrides_rules:
  "distinct (map fst xs) \<Longrightarrow> \<forall>(k, r) \<in> set xs. wf_type_key k \<and> wf_rule r \<Longrightarrow>
   set (map fst xs) \<inter> set seen = {} \<Longrightarrow> distinct (dkeys ret) \<Longrightarrow>
   \<exists>ret'. apply_overrides (map (\<lambda>(k, r). (k, rule_json r)) xs) ret seen = Inr ret'
     \<and> map_of ret' = map_of ret ++ map_of xs \<and> distinct (dkeys ret')"
proof (induction xs arbitrary: ret seen)
  case (Cons x xs)
  obtain k r where x: "x = (k, r)" by fastforce
  from Cons.prems x obtain ret' where
    "apply_overrides (map (\<lambda>(k, r). (k, rule_json r)) xs) (dset k r ret) (k # seen) = Inr ret'"
    "map_of ret' = map_of (dset k r ret) ++ map_of xs" "distinct (dkeys ret')"
    using Cons.IH [of "k # seen" "dset k r ret"]
    by (auto simp: distinct_update AList.update_conv' fun_upd_def)
  moreover have "map_of (dset k r ret) ++ map_of xs = map_of ret ++ map_of (x # xs)"
    using Cons.prems(1) x by (simp add: AList.update_conv' map_add_upd_left dom_map_of_conv_image_fst)
  ultimately show ?case
    using Cons.prems x by (auto simp: wf_type_key_def parse_rule_json map_add_def fun_eq_iff)
qed simp

lemma map_of_determines:
  assumes "distinct (map fst xs)" "distinct (map fst ys)" "map_of xs = map_of ys"
  shows "sort_key fst xs = sort_key (fst :: 'a :: linorder \<times> 'b \<Rightarrow> 'a) ys"
proof -
  have key: "map fst (sort_key fst zs) = sorted_list_of_set (fst ` set zs)"
    if "distinct (map fst zs)" for zs :: "('a \<times> 'b) list"
    using that by (intro sorted_distinct_set_unique) (auto simp: distinct_map)
  have self: "map (\<lambda>k. (k, the (map_of zs k))) (map fst (sort_key fst zs)) = sort_key fst zs"
    if "distinct (map fst zs)" for zs :: "('a \<times> 'b) list"
    using that by (auto intro!: map_idI)
  have "fst ` set xs = fst ` set ys"
    using assms(3) by (metis dom_map_of_conv_image_fst)
  then show ?thesis using self [OF assms(1)] self [OF assms(2)] key [OF assms(1)] key [OF assms(2)]
    assms(3) by metis
qed

lemma parse_retention_roundtrip:
  assumes "wf_retention d"
  shows "\<exists>d'. parse_retention (JObj (map (\<lambda>(k, r). (k, rule_json r)) (sort_key fst d))) = Inr d'
    \<and> map_of d' = map_of d \<and> distinct (dkeys d')"
proof -
  have sorted: "distinct (map fst (sort_key fst d))"
    using assms by (simp add: wf_retention_def distinct_map)
  obtain d' where d': "apply_overrides (map (\<lambda>(k, r). (k, rule_json r)) (sort_key fst d)) DEFAULT_RETENTION [] = Inr d'"
    "map_of d' = map_of DEFAULT_RETENTION ++ map_of (sort_key fst d)" "distinct (dkeys d')"
    using apply_overrides_rules [OF sorted, of "[]" DEFAULT_RETENTION] assms wf_default_retention
    by (auto simp: wf_retention_def)
  have same: "map_of (sort_key fst d) = map_of d"
  proof (rule ext, rule option.expand)
    fix k
    have "map_of (sort_key fst d) k = Some v \<longleftrightarrow> map_of d k = Some v" for v
      using assms sorted by (simp add: wf_retention_def)
    then show "(map_of (sort_key fst d) k = None) = (map_of d k = None)"
      and "the (map_of (sort_key fst d) k) = the (map_of d k)"
      by (metis not_None_eq)+
  qed
  have "dom (map_of DEFAULT_RETENTION) \<subseteq> dom (map_of d)"
    using assms by (simp add: wf_retention_def dom_map_of_conv_image_fst)
  then have "map_of d' = map_of d"
    unfolding d'(2) same by (intro ext) (auto simp: map_add_def split: option.splits)
  with d' show ?thesis by (auto simp: parse_retention_def)
qed

text \<open>
  C10: The document of a well-formed policy parses, to a policy that agrees with it in every
  field and for every memory type, and whose own document is the same: storing a policy and
  reading it back changes nothing, and doing so again neither.
\<close>

theorem policy_roundtrip:
  assumes "wf_policy p"
  shows "\<exists>p'. from_mapping (to_mapping p) = Inr p' \<and> to_mapping p' = to_mapping p
    \<and> map_of (pol_retention p') = map_of (pol_retention p)
    \<and> p'\<lparr>pol_retention := pol_retention p\<rparr> = p"
proof -
  have ret: "wf_retention (pol_retention p)" using assms by (simp add: wf_policy_def)
  obtain d' where d': "parse_retention (JObj (map (\<lambda>(k, r). (k, rule_json r)) (sort_key fst (pol_retention p)))) = Inr d'"
    "map_of d' = map_of (pol_retention p)" "distinct (dkeys d')"
    using parse_retention_roundtrip [OF ret] by blast
  have same: "sort_key fst d' = sort_key fst (pol_retention p)"
    using ret d'(2,3) by (intro map_of_determines) (auto simp: wf_retention_def)
  have fin: "finite (pol_safe_actions p)"
    using assms by (auto simp: wf_policy_def ALLOWED_SAFE_ACTIONS_def intro: finite_subset)
  have act: "rmap (\<lambda>item. case item of JStr s \<Rightarrow> Inr (upper (strip s))
       | _ \<Rightarrow> value_error ''safe_actions entries must be strings'')
      (map JStr (sorted_list_of_set (pol_safe_actions p))) = Inr (sorted_list_of_set (pol_safe_actions p))"
    unfolding rmap_map by (rule rmap_id) (use assms fin upper_allowed(3) in \<open>auto simp: wf_policy_def\<close>)
  have safe: "parse_safe_actions (Some (JList (map JStr (sorted_list_of_set (pol_safe_actions p))))) = Inr (pol_safe_actions p)"
    using assms fin by (simp add: parse_safe_actions_def act wf_policy_def)
  have mode: "parse_mode (JStr (pol_mode p)) = Inr (pol_mode p)"
    using assms upper_allowed(1) by (simp add: parse_mode_def wf_policy_def)
  have thr: "parse_threshold (JFloat (pol_near_duplicate_threshold p)) = Inr (pol_near_duplicate_threshold p)"
    using assms by (auto simp: parse_threshold_def wf_policy_def)
  have "from_mapping (to_mapping p) = Inr (p\<lparr>pol_retention := d'\<rparr>)"
    using assms d'(1) safe mode thr
    by (simp add: from_mapping_def to_mapping_def dget_or_def allowed_policy_fields_def
        bounded_int_def wf_policy_def)
  then show ?thesis using d'(2) same by (intro exI [of _ "p\<lparr>pol_retention := d'\<rparr>"])
    (simp add: to_mapping_def)
qed

definition sample_policy :: policy_spec where
  "sample_policy = \<lparr>pol_enabled = True, pol_mode = ''MANUAL'', pol_max_anchors_per_run = 100,
     pol_max_proposals_per_run = 200, pol_shadow_grace_days = 7, pol_min_new_memories = 20,
     pol_scan_interval_seconds = 86400, pol_near_duplicate_threshold = Fin 1,
     pol_policy_version = 3, pol_safe_actions = {''EXACT_DUPLICATE''},
     pol_retention = dset ''decision'' \<lparr>rule_days = Some 10, rule_action = ''SHADOW''\<rparr> DEFAULT_RETENTION\<rparr>"

lemma sample_policy_wf: "wf_policy sample_policy"
proof -
  have "wf_retention (pol_retention sample_policy)"
    unfolding sample_policy_def policy_spec.simps
    by (rule wf_retention_dset [OF wf_default_retention default_key_wf])
      (simp_all add: DEFAULT_RETENTION_def wf_rule_def ALLOWED_RETENTION_ACTIONS_def)
  then show ?thesis
    by (simp add: wf_policy_def sample_policy_def ALLOWED_MODES_def ALLOWED_SAFE_ACTIONS_def)
qed

lemma policy_parse_wf_witness:
  "\<exists>p. from_mapping (JObj [(''mode'', JStr '' auto_safe ''), (''policy_version'', JInt 7)]) = Inr p \<and> wf_policy p"
proof -
  obtain p where p: "from_mapping (JObj [(''mode'', JStr '' auto_safe ''), (''policy_version'', JInt 7)]) = Inr p"
    by (simp add: from_mapping_def allowed_policy_fields_def parse_mode_def text_eval ALLOWED_MODES_def parse_threshold_def
        parse_safe_actions_def parse_retention_def bounded_int_def dget_or_def)
  with policy_parse_wf [OF p] show ?thesis by blast
qed

lemma policy_roundtrip_witness:
  "\<exists>p'. from_mapping (to_mapping sample_policy) = Inr p' \<and> to_mapping p' = to_mapping sample_policy"
  using policy_roundtrip [OF sample_policy_wf] by blast

text \<open>Not-a-number passes the range test of the threshold.\<close>

lemma nan_threshold_accepted:
  "\<exists>p. from_mapping (JObj [(''near_duplicate_threshold'', JFloat NaN)]) = Inr p
     \<and> pol_near_duplicate_threshold p = NaN"
  by (simp add: from_mapping_def allowed_policy_fields_def parse_mode_def text_eval ALLOWED_MODES_def parse_threshold_def
        parse_safe_actions_def parse_retention_def bounded_int_def dget_or_def)

end
