(* ===== verification/Consolidation_Analysis.thy ===== *)
theory Consolidation_Analysis
  imports Models Py_Text Consolidation_Policy "HOL-Library.Multiset"
begin

text \<open>
  The analysis of a scope for consolidation (\<open>core/consolidation_analysis.py\<close>): proposals to
  merge exact duplicates and to retire expired memories, and the classification of a pair of
  similar memories as near duplicates or as contradicting each other.  The digest \<open>sha256\<close> is a
  parameter.
\<close>

section \<open>Data\<close>

record proposal_draft =
  pd_kind :: string
  pd_source_ids :: "string list"
  pd_canonical_id :: "string option"
  pd_score :: "pyfloat option"
  pd_evidence :: "json dict"
  pd_proposal_key :: string

record memory_snapshot =
  snap_project_id :: string
  snap_app_id :: string
  snap_memory_id :: string
  snap_user_id :: "string option"
  snap_agent_id :: "string option"
  snap_normalized_type :: string
  snap_content_hash :: string
  snap_content_length :: int
  snap_text :: string

definition AUTO_SOURCES :: "string list" where
  "AUTO_SOURCES = [''auto'', ''auto_capture'', ''opencode'', ''periodic_capture'']"

definition NEGATION_TOKENS :: "string list" where
  "NEGATION_TOKENS = [''not'', ''no'', ''never'', ''without'', ''false'']"

section \<open>Similar memories\<close>

definition chr_is :: "string \<Rightarrow> rx" where
  "chr_is s = Cls (\<lambda>c. c \<in> set s)"

definition DATE_PATTERN :: rx where
  "DATE_PATTERN = rx_seq
     [WordB, Cls (\<lambda>c. c \<in> set ''12''), Cls (\<lambda>c. c \<in> set ''90''), Cls is_digit, Cls is_digit,
      chr_is ''-'', Cls is_digit, Cls is_digit, chr_is ''-'', Cls is_digit, Cls is_digit, WordB]"

definition VERSION_PATTERN :: rx where
  "VERSION_PATTERN = rx_seq
     [WordB, Opt (chr_is ''vV''), Plus is_digit, chr_is ''.'', Plus is_digit,
      Opt (Seq (chr_is ''.'') (Plus is_digit)), WordB]"

definition tokens :: "string \<Rightarrow> string list" where
  "tokens t = find_runs is_az09 (casefold (nfkc t))"

definition replacement_conflict :: "string \<Rightarrow> string \<Rightarrow> rx \<Rightarrow> bool" where
  "replacement_conflict left right pattern =
     (let left_values = rx_findall pattern left; right_values = rx_findall pattern right in
      if left_values = [] \<or> right_values = [] \<or> left_values = right_values then False
      else rx_sub pattern ''<value>'' (casefold left) = rx_sub pattern ''<value>'' (casefold right))"

definition contradiction_reason :: "string \<Rightarrow> string \<Rightarrow> string option" where
  "contradiction_reason left right =
     (let negation = (\<lambda>t. t \<in> set NEGATION_TOKENS);
          left_tokens = tokens left; right_tokens = tokens right;
          left_negated = list_ex negation left_tokens;
          right_negated = list_ex negation right_tokens;
          left_base = filter (\<lambda>t. \<not> negation t) left_tokens;
          right_base = filter (\<lambda>t. \<not> negation t) right_tokens
      in if left_negated \<noteq> right_negated \<and> left_base = right_base then Some ''negation_flip''
         else if replacement_conflict left right DATE_PATTERN then Some ''date_change''
         else if replacement_conflict left right VERSION_PATTERN then Some ''version_change''
         else None)"

definition proposal_key ::
    "(string \<Rightarrow> string) \<Rightarrow> string \<Rightarrow> string \<Rightarrow> string \<Rightarrow> string list \<Rightarrow> int \<Rightarrow> string" where
  "proposal_key sha256 pid app kind source_ids policy_version =
     sha256 (json_dumps (\<lambda>_. []) compact_sorted (JObj
       [(''project_id'', JStr pid), (''app_id'', JStr app), (''kind'', JStr kind),
        (''source_ids'', JList (map JStr (sort source_ids))),
        (''policy_version'', JInt policy_version)]))"

definition same_neighborhood :: "memory_snapshot \<Rightarrow> memory_snapshot \<Rightarrow> bool" where
  "same_neighborhood a b =
     (snap_memory_id a \<noteq> snap_memory_id b \<and> snap_project_id a = snap_project_id b
      \<and> snap_app_id a = snap_app_id b \<and> snap_user_id a = snap_user_id b
      \<and> snap_agent_id a = snap_agent_id b \<and> snap_normalized_type a = snap_normalized_type b
      \<and> snap_content_hash a \<noteq> snap_content_hash b)"

definition classify_neighbor ::
    "(string \<Rightarrow> string) \<Rightarrow> memory_snapshot \<Rightarrow> memory_snapshot \<Rightarrow> pyfloat \<Rightarrow> int \<Rightarrow> proposal_draft option" where
  "classify_neighbor sha256 anchor candidate score policy_version =
     (if \<not> same_neighborhood anchor candidate \<or> \<not> isfinite score then None
      else
        let shared_terms = set (tokens (snap_text anchor)) \<inter> set (tokens (snap_text candidate));
            kind_reason =
              (case contradiction_reason (snap_text anchor) (snap_text candidate) of
                 Some reason \<Rightarrow> Some (''CONTRADICTION'', reason)
               | None \<Rightarrow> if card shared_terms \<ge> 2
                         then Some (''NEAR_DUPLICATE'', ''high_similarity_shared_terms'') else None)
        in case kind_reason of
             None \<Rightarrow> None
           | Some (kind, reason) \<Rightarrow>
               let source_ids = sort [snap_memory_id anchor, snap_memory_id candidate] in
               Some \<lparr>pd_kind = kind, pd_source_ids = source_ids, pd_canonical_id = None,
                 pd_score = Some score,
                 pd_evidence =
                   [(''score'', JFloat score),
                    (''shared_term_count'', JInt (int (card shared_terms))),
                    (''normalized_type'', JStr (snap_normalized_type anchor)),
                    (''content_hash_prefixes'', JList (map JStr (sorted_list_of_set
                       {take 12 (snap_content_hash anchor), take 12 (snap_content_hash candidate)}))),
                    (''content_lengths'', JList (map JInt
                       (sort [snap_content_length anchor, snap_content_length candidate]))),
                    (''reason_codes'', JList [JStr reason]),
                    (''safe_action'', JBool False)],
                 pd_proposal_key = proposal_key sha256 (snap_project_id anchor) (snap_app_id anchor)
                   kind source_ids policy_version\<rparr>)"

section \<open>Scanning a scope\<close>

definition memory_metadata :: "memory_index \<Rightarrow> json dict" where
  "memory_metadata m = (case mi_metadata_projection_json m of Some (JObj d) \<Rightarrow> d | _ \<Rightarrow> [])"

text \<open>
  The confidence a memory's metadata claims.  A boolean, text that is no number and a non-finite
  value count as 0; an integer too large for a float raises, since only \<open>TypeError\<close> and
  \<open>ValueError\<close> are caught.
\<close>

definition confidence :: "memory_index \<Rightarrow> rat res" where
  "confidence m =
     (case dget_or (memory_metadata m) ''confidence'' (JFloat (Fin 0)) of
        JBool _ \<Rightarrow> Inr 0
      | v \<Rightarrow> (case float_of_json v of
            Inr (Fin r) \<Rightarrow> Inr r
          | Inr _ \<Rightarrow> Inr 0
          | Inl e \<Rightarrow> if exn_class e \<in> {TypeError, ValueError} then Inr 0 else Inl e))"

definition subject_identity :: "memory_index \<Rightarrow> string \<times> string \<times> string" where
  "subject_identity m =
     (case (mi_user_id m, mi_agent_id m) of
        (Some u, Some a) \<Rightarrow> (''user_agent'', u, a)
      | (Some u, None) \<Rightarrow> (''user'', u, [])
      | (None, Some a) \<Rightarrow> (''agent'', a, [])
      | (None, None) \<Rightarrow> (''unscoped'', [], []))"

definition or_empty :: "string option \<Rightarrow> string" where
  "or_empty s = (case s of None \<Rightarrow> [] | Some t \<Rightarrow> t)"

definition is_auto_source :: "memory_index \<Rightarrow> bool" where
  "is_auto_source m = (lower (strip (or_empty (mi_source m))) \<in> set AUTO_SOURCES)"

type_synonym canonical_key = "nat \<times> rat \<times> int \<times> time \<times> string"

definition canonical_sort_key :: "memory_index \<Rightarrow> canonical_key res" where
  "canonical_sort_key m =
     rbind (confidence m) (\<lambda>c. Inr (if is_auto_source m then 1 else 0, - c,
       - (case mi_content_length m of None \<Rightarrow> 0 | Some n \<Rightarrow> n), mi_created_at m, mi_mem0_memory_id m))"

text \<open>\<open>min(group, key=...)\<close>: the keys are computed for every member; the first least one wins.\<close>

definition canonical_of :: "memory_index list \<Rightarrow> memory_index res" where
  "canonical_of members =
     rbind (rmap (\<lambda>m. rbind (canonical_sort_key m) (\<lambda>k. Inr (k, m))) members) (\<lambda>keyed.
       case first_by fst keyed of
         Some (_, m) \<Rightarrow> Inr m
       | None \<Rightarrow> value_error ''min() iterable argument is empty'')"

type_synonym group_key = "string \<times> string \<times> string \<times> string \<times> string"

definition type_or_unknown :: "memory_index \<Rightarrow> string" where
  "type_or_unknown m = (let t = or_empty (mi_normalized_type m) in if t = [] then ''unknown'' else t)"

definition group_key :: "memory_index \<Rightarrow> group_key" where
  "group_key m =
     (let (kind, subject, secondary) = subject_identity m
      in (kind, subject, secondary, type_or_unknown m, or_empty (mi_content_hash m)))"

definition analyzable :: "string \<Rightarrow> string \<Rightarrow> memory_index \<Rightarrow> bool" where
  "analyzable pid app m =
     (mi_project_id m = pid \<and> mi_app_id m = Some app \<and> mi_deleted_at m = None
      \<and> mi_consolidation_state m = ''ACTIVE'' \<and> mi_pinned m = 0 \<and> mi_content_hash m \<noteq> None)"

definition eligible_memories :: "string \<Rightarrow> string \<Rightarrow> memory_index list \<Rightarrow> memory_index list" where
  "eligible_memories pid app anchors = sort_key mi_mem0_memory_id (filter (analyzable pid app) anchors)"

definition exact_groups :: "memory_index list \<Rightarrow> (group_key \<times> memory_index list) list" where
  "exact_groups eligible =
     filter (\<lambda>(_, g). 2 \<le> length g \<and> length g \<le> 100)
       (map (\<lambda>k. (k, filter (\<lambda>m. group_key m = k) eligible))
         (sort (remdups (map group_key eligible))))"

definition exact_draft ::
    "(string \<Rightarrow> string) \<Rightarrow> string \<Rightarrow> string \<Rightarrow> policy_spec \<Rightarrow> group_key \<times> memory_index list \<Rightarrow> proposal_draft res" where
  "exact_draft sha256 pid app policy kg =
     (let (key, members) = kg; (subject_kind, _, _, normalized_type, content_hash) = key;
          source_ids = sort (map mi_mem0_memory_id members)
      in rbind (canonical_of members) (\<lambda>canonical. Inr
        \<lparr>pd_kind = ''EXACT_DUPLICATE'', pd_source_ids = source_ids,
         pd_canonical_id = Some (mi_mem0_memory_id canonical), pd_score = None,
         pd_evidence =
           [(''hash_prefix'', JStr (take 12 content_hash)), (''normalized_type'', JStr normalized_type),
            (''subject_kind'', JStr subject_kind), (''count'', JInt (int (length members))),
            (''selection_reasons'', JList (map JStr [''non_auto_source'', ''higher_confidence'',
               ''longer_content'', ''older_created_at'', ''lexical_memory_id''])),
            (''safe_action'', JBool (''EXACT_DUPLICATE'' \<in> pol_safe_actions policy))],
         pd_proposal_key = proposal_key sha256 pid app ''EXACT_DUPLICATE'' source_ids
           (pol_policy_version policy)\<rparr>))"

definition DAY :: int where "DAY = 86400000000"

definition retention_draft ::
    "(string \<Rightarrow> string) \<Rightarrow> string \<Rightarrow> string \<Rightarrow> policy_spec \<Rightarrow> time \<Rightarrow> string list \<Rightarrow> memory_index \<Rightarrow>
     proposal_draft option" where
  "retention_draft sha256 pid app policy now exact_ids m =
     (if mi_mem0_memory_id m \<in> set exact_ids then None
      else case dget (pol_retention policy) (type_or_unknown m) of
        None \<Rightarrow> None
      | Some rule \<Rightarrow> (case rule_days rule of
            None \<Rightarrow> None
          | Some days \<Rightarrow>
              let age = now - mi_created_at m in
              if age \<le> days * DAY then None
              else Some
                \<lparr>pd_kind = ''RETENTION_EXPIRED'', pd_source_ids = [mi_mem0_memory_id m],
                 pd_canonical_id = None, pd_score = None,
                 pd_evidence =
                   [(''normalized_type'', JStr (type_or_unknown m)), (''age_days'', JInt (age div DAY)),
                    (''retention_days'', JInt days), (''retention_action'', JStr (rule_action rule)),
                    (''safe_action'', JBool (rule_action rule = ''SHADOW''
                       \<and> ''RETENTION_EXPIRED'' \<in> pol_safe_actions policy))],
                 pd_proposal_key = proposal_key sha256 pid app ''RETENTION_EXPIRED''
                   [mi_mem0_memory_id m] (pol_policy_version policy)\<rparr>))"

definition draft_order :: "proposal_draft \<Rightarrow> string \<times> string list" where
  "draft_order d = (pd_kind d, pd_source_ids d)"

definition analyze_scope ::
    "(string \<Rightarrow> string) \<Rightarrow> string \<Rightarrow> string \<Rightarrow> policy_spec \<Rightarrow> memory_index list \<Rightarrow> time \<Rightarrow>
     proposal_draft list res" where
  "analyze_scope sha256 pid app policy anchors now =
     (let eligible = eligible_memories pid app anchors;
          groups = exact_groups eligible;
          exact_ids = concat (map (\<lambda>(_, g). map mi_mem0_memory_id g) groups)
      in rbind (rmap (exact_draft sha256 pid app policy) groups) (\<lambda>exact.
           Inr (take (nat (pol_max_proposals_per_run policy))
             (sort_key draft_order
               (exact @ List.map_filter (retention_draft sha256 pid app policy now exact_ids) eligible)))))"

section \<open>Pairs of memories\<close>

lemma contradiction_reason_sym: "contradiction_reason a b = contradiction_reason b a"
  unfolding contradiction_reason_def replacement_conflict_def Let_def by (auto simp: eq_commute)

lemma sort_pair: "sort [a, b] = sort [b, a :: 'a :: linorder]"
  by (auto simp: not_le)

text \<open>
  Classifying a pair does not depend on which memory is the anchor: the draft, with its
  evidence and its deduplication key, is the same.  A draft only ever joins two memories of one
  project, application, user and agent, is never marked safe, and names no canonical memory.
\<close>

lemma classify_neighbor_symmetric:
  "classify_neighbor h a b score v = classify_neighbor h b a score v
   \<and> (case classify_neighbor h a b score v of None \<Rightarrow> True
     | Some d \<Rightarrow> same_neighborhood a b \<and> isfinite score
         \<and> set (pd_source_ids d) = {snap_memory_id a, snap_memory_id b}
         \<and> jget (pd_evidence d) ''safe_action'' = JBool False \<and> pd_canonical_id d = None)"
proof -
  have nb: "same_neighborhood a b \<longleftrightarrow> same_neighborhood b a"
    by (auto simp: same_neighborhood_def)
  have eqs: "same_neighborhood a b \<Longrightarrow> snap_project_id a = snap_project_id b
      \<and> snap_app_id a = snap_app_id b \<and> snap_normalized_type a = snap_normalized_type b"
    by (simp add: same_neighborhood_def)
  have "classify_neighbor h a b score v = classify_neighbor h b a score v"
    unfolding classify_neighbor_def Let_def
    using nb eqs contradiction_reason_sym [of "snap_text a" "snap_text b"]
      sort_pair [of "snap_memory_id a" "snap_memory_id b"]
      sort_pair [of "snap_content_length a" "snap_content_length b"]
    by (cases "same_neighborhood a b")
      (simp_all add: Int_commute insert_commute split: option.splits if_splits)
  then show ?thesis
    by (auto simp: classify_neighbor_def Let_def split: option.splits if_splits)
qed

section \<open>Drafts of a scope\<close>

lemma eligible_mem [simp]:
  "m \<in> set (eligible_memories pid app anchors) \<longleftrightarrow> m \<in> set anchors \<and> analyzable pid app m"
  by (auto simp: eligible_memories_def)

lemma exact_groups_mem:
  "(k, g) \<in> set (exact_groups e) \<Longrightarrow>
     g = filter (\<lambda>m. group_key m = k) e \<and> 2 \<le> length g \<and> length g \<le> 100"
  by (auto simp: exact_groups_def)

lemma canonical_of_Inr:
  assumes "canonical_of g = Inr c"
  shows "c \<in> set g"
    and "\<And>m. m \<in> set g \<Longrightarrow> \<exists>kc km. canonical_sort_key c = Inr kc \<and> canonical_sort_key m = Inr km \<and> kc \<le> km"
proof -
  from assms obtain keyed kc where keyed:
      "rmap (\<lambda>m. rbind (canonical_sort_key m) (\<lambda>k. Inr (k, m))) g = Inr keyed"
      "first_by fst keyed = Some (kc, c)"
    by (auto simp: canonical_of_def res_simps)
  note least = first_by_Some [OF keyed(2)]
  have bwd: "m \<in> set g \<and> canonical_sort_key m = Inr k" if "(k, m) \<in> set keyed" for k m
    using rmap_mem [OF keyed(1) that] by (auto simp: res_simps)
  have fwd: "\<exists>k. (k, m) \<in> set keyed" if "m \<in> set g" for m
    using keyed(1) that by (auto simp: rmap_all2 list_all2_conv_all_nth in_set_conv_nth res_simps) metis
  show "c \<in> set g" using bwd least(1) by blast
  show "\<And>m. m \<in> set g \<Longrightarrow> \<exists>kc km. canonical_sort_key c = Inr kc \<and> canonical_sort_key m = Inr km \<and> kc \<le> km"
    using bwd fwd least by (metis fst_conv)
qed

lemma exact_draft_Inr:
  assumes "exact_draft h pid app policy (k, g) = Inr d"
  shows "\<exists>c. canonical_of g = Inr c \<and> pd_kind d = ''EXACT_DUPLICATE''
    \<and> pd_source_ids d = sort (map mi_mem0_memory_id g) \<and> pd_canonical_id d = Some (mi_mem0_memory_id c)"
  using assms by (auto simp: exact_draft_def res_simps Let_def split: prod.splits)

lemma retention_draft_Some:
  "retention_draft h pid app policy now ids m = Some d \<Longrightarrow>
     pd_kind d = ''RETENTION_EXPIRED'' \<and> pd_source_ids d = [mi_mem0_memory_id m]
     \<and> pd_canonical_id d = None \<and> mi_mem0_memory_id m \<notin> set ids"
  by (auto simp: retention_draft_def Let_def split: if_splits option.splits)

text \<open>A scan before sorting and truncation.\<close>

lemma analyze_scope_Inr:
  assumes "analyze_scope h pid app policy anchors now = Inr ds"
  obtains (drafts) exact ids where
    "rmap (exact_draft h pid app policy) (exact_groups (eligible_memories pid app anchors)) = Inr exact"
    "ids = concat (map (\<lambda>(_, g). map mi_mem0_memory_id g) (exact_groups (eligible_memories pid app anchors)))"
    "ds = take (nat (pol_max_proposals_per_run policy)) (sort_key draft_order
       (exact @ List.map_filter (retention_draft h pid app policy now ids) (eligible_memories pid app anchors)))"
  using assms unfolding analyze_scope_def by (auto simp: res_simps Let_def)

lemma map_filter_mem: "x \<in> set (List.map_filter f xs) \<longleftrightarrow> (\<exists>y \<in> set xs. f y = Some x)"
  by (induction xs) (auto simp: List.map_filter_def)

lemma draft_origin:
  assumes "analyze_scope h pid app policy anchors now = Inr ds" "d \<in> set ds"
  shows "(\<exists>k c g. pd_kind d = ''EXACT_DUPLICATE'' \<and> canonical_of g = Inr c
        \<and> g = filter (\<lambda>m. group_key m = k) (eligible_memories pid app anchors)
        \<and> 2 \<le> length g \<and> length g \<le> 100
        \<and> pd_source_ids d = sort (map mi_mem0_memory_id g) \<and> pd_canonical_id d = Some (mi_mem0_memory_id c))
    \<or> (\<exists>m \<in> set anchors. pd_kind d = ''RETENTION_EXPIRED'' \<and> analyzable pid app m
        \<and> pd_source_ids d = [mi_mem0_memory_id m] \<and> pd_canonical_id d = None)"
proof -
  obtain exact ids where *:
    "rmap (exact_draft h pid app policy) (exact_groups (eligible_memories pid app anchors)) = Inr exact"
    "ds = take (nat (pol_max_proposals_per_run policy)) (sort_key draft_order
       (exact @ List.map_filter (retention_draft h pid app policy now ids) (eligible_memories pid app anchors)))"
    by (rule analyze_scope_Inr [OF assms(1)]) blast
  from assms(2) *(2) have "d \<in> set exact
      \<or> d \<in> set (List.map_filter (retention_draft h pid app policy now ids) (eligible_memories pid app anchors))"
    by (auto dest: in_set_takeD)
  then show ?thesis
  proof
    assume "d \<in> set exact"
    from rmap_mem [OF *(1) this] obtain k g where kg:
      "(k, g) \<in> set (exact_groups (eligible_memories pid app anchors))" "exact_draft h pid app policy (k, g) = Inr d"
      by auto
    then show ?thesis using exact_groups_mem [OF kg(1)] exact_draft_Inr [OF kg(2)] by blast
  next
    assume "d \<in> set (List.map_filter (retention_draft h pid app policy now ids) (eligible_memories pid app anchors))"
    then obtain m where "m \<in> set anchors" "analyzable pid app m" "retention_draft h pid app policy now ids m = Some d"
      by (auto simp: map_filter_mem)
    then show ?thesis using retention_draft_Some by blast
  qed
qed

text \<open>
  C11: Every proposal of a scan is about memories of that project and application that are
  stored, active, not pinned, not deleted and hashed; a canonical memory is one of the sources; a group of
  duplicates has 2 to 100 members.  The proposals come in order of kind and sources, at most
  as many as the policy allows.
\<close>

theorem analyze_scope_sound:
  assumes "analyze_scope h pid app policy anchors now = Inr ds"
  shows "length ds \<le> nat (pol_max_proposals_per_run policy) \<and> sorted (map draft_order ds)
    \<and> (\<forall>d \<in> set ds.
        (\<forall>s \<in> set (pd_source_ids d). \<exists>m \<in> set anchors. analyzable pid app m \<and> mi_mem0_memory_id m = s)
        \<and> (case pd_canonical_id d of None \<Rightarrow> pd_kind d = ''RETENTION_EXPIRED'' \<and> length (pd_source_ids d) = 1
           | Some c \<Rightarrow> pd_kind d = ''EXACT_DUPLICATE'' \<and> c \<in> set (pd_source_ids d)
               \<and> 2 \<le> length (pd_source_ids d) \<and> length (pd_source_ids d) \<le> 100))"
proof (intro conjI ballI)
  obtain exact ids where ds: "ds = take (nat (pol_max_proposals_per_run policy)) (sort_key draft_order
       (exact @ List.map_filter (retention_draft h pid app policy now ids) (eligible_memories pid app anchors)))"
    by (rule analyze_scope_Inr [OF assms]) blast
  show "length ds \<le> nat (pol_max_proposals_per_run policy)" by (simp add: ds)
  show "sorted (map draft_order ds)" unfolding ds by (rule take_sort_sorted)
  fix d assume d: "d \<in> set ds"
  note origin = draft_origin [OF assms d]
  show "\<exists>m \<in> set anchors. analyzable pid app m \<and> mi_mem0_memory_id m = s" if "s \<in> set (pd_source_ids d)" for s
    using origin that by auto
  show "case pd_canonical_id d of None \<Rightarrow> pd_kind d = ''RETENTION_EXPIRED'' \<and> length (pd_source_ids d) = 1
      | Some c \<Rightarrow> pd_kind d = ''EXACT_DUPLICATE'' \<and> c \<in> set (pd_source_ids d)
          \<and> 2 \<le> length (pd_source_ids d) \<and> length (pd_source_ids d) \<le> 100"
    using origin by (auto dest!: canonical_of_Inr(1))
qed

text \<open>
  The canonical memory of a group of duplicates is its best member: no member is captured
  by hand while the canonical one is automatic, and among members of the same origin none has a
  higher confidence; the group is exactly the active memories with one subject, type and hash.
\<close>

lemma canonical_is_best:
  assumes "analyze_scope h pid app policy anchors now = Inr ds" "d \<in> set ds"
    "pd_canonical_id d = Some cid"
  shows "\<exists>k c. mi_mem0_memory_id c = cid \<and> c \<in> set anchors \<and> group_key c = k
    \<and> set (pd_source_ids d) = mi_mem0_memory_id ` {m \<in> set anchors. analyzable pid app m \<and> group_key m = k}
    \<and> (\<forall>m \<in> set anchors. analyzable pid app m \<and> group_key m = k \<longrightarrow>
         (is_auto_source c \<longrightarrow> is_auto_source m)
         \<and> (is_auto_source c = is_auto_source m \<longrightarrow>
              (\<exists>rc rm. confidence c = Inr rc \<and> confidence m = Inr rm \<and> rm \<le> rc)))"
proof -
  from draft_origin [OF assms(1,2)] assms(3) obtain k c g where g: "canonical_of g = Inr c"
    "g = filter (\<lambda>m. group_key m = k) (eligible_memories pid app anchors)"
    "pd_source_ids d = sort (map mi_mem0_memory_id g)" "cid = mi_mem0_memory_id c" by auto
  have c: "c \<in> set g" using canonical_of_Inr(1) [OF g(1)] .
  have best: "(is_auto_source c \<longrightarrow> is_auto_source m) \<and> (is_auto_source c = is_auto_source m \<longrightarrow>
      (\<exists>rc rm. confidence c = Inr rc \<and> confidence m = Inr rm \<and> rm \<le> rc))" if "m \<in> set g" for m
    using canonical_of_Inr(2) [OF g(1) that]
    by (auto simp: canonical_sort_key_def res_simps less_eq_prod_def split: if_splits)
  show ?thesis
  proof (rule exI [of _ k], rule exI [of _ c], intro conjI ballI impI)
    show "set (pd_source_ids d) = mi_mem0_memory_id ` {m \<in> set anchors. analyzable pid app m \<and> group_key m = k}"
      by (auto simp: g(2,3))
    show "c \<in> set anchors" "group_key c = k" using c by (auto simp: g(2))
    fix m assume m: "m \<in> set anchors" "analyzable pid app m \<and> group_key m = k"
    then have "m \<in> set g" by (simp add: g(2))
    note b = best [OF this]
    show "is_auto_source c \<Longrightarrow> is_auto_source m" using b by blast
    show "is_auto_source c = is_auto_source m \<Longrightarrow>
      \<exists>rc rm. confidence c = Inr rc \<and> confidence m = Inr rm \<and> rm \<le> rc" using b by blast
  qed (simp add: g(4))
qed

lemma distinct_concat_take: "distinct (concat (map f xs)) \<Longrightarrow> distinct (concat (map f (take n xs)))"
  by (metis append_take_drop_id concat_append distinct_append map_append)

lemma distinct_concat_sort:
  "distinct (concat (map f (sort_key k xs))) \<longleftrightarrow> distinct (concat (map f xs))"
  by (intro mset_eq_imp_distinct_iff)
    (simp add: mset_concat sum_mset_sum_list [symmetric] del: sum_mset_sum_list)

lemma distinct_group_ids:
  assumes "distinct (map mi_mem0_memory_id e)" "distinct ks"
  shows "distinct (concat (map (\<lambda>(_, g). map mi_mem0_memory_id g)
      (filter q (map (\<lambda>k. (k, filter (\<lambda>m. group_key m = k) e)) ks))))"
  using assms(2)
proof (induction ks)
  case (Cons k ks)
  have inj: "inj_on mi_mem0_memory_id (set e)" using assms(1) by (simp add: distinct_map)
  have "distinct (map mi_mem0_memory_id (filter (\<lambda>m. group_key m = k) e))"
    using assms(1) by (simp add: distinct_map distinct_filter inj_on_def)
  then show ?case using Cons inj by (auto dest: inj_onD)
qed simp

lemma exact_sources:
  "rmap (exact_draft h pid app policy) gs = Inr exact \<Longrightarrow>
     mset (concat (map pd_source_ids exact)) = mset (concat (map (\<lambda>(_, g). map mi_mem0_memory_id g) gs))"
proof (induction gs arbitrary: exact)
  case (Cons kg gs)
  then obtain d rest where "exact_draft h pid app policy kg = Inr d" "exact = d # rest"
    "rmap (exact_draft h pid app policy) gs = Inr rest" by (auto simp: res_simps)
  with Cons show ?case
    using exact_draft_Inr [of h pid app policy "fst kg" "snd kg" d] by (cases kg) auto
qed simp

text \<open>
  No memory appears in two proposals of one scan, or twice in one: merging duplicates and
  retiring expired memories never compete for the same memory.
\<close>

lemma drafts_disjoint:
  assumes unique: "distinct (map mi_mem0_memory_id anchors)"
    and run: "analyze_scope h pid app policy anchors now = Inr ds"
  shows "distinct (concat (map pd_source_ids ds))"
proof -
  let ?e = "eligible_memories pid app anchors"
  obtain exact ids where ex: "rmap (exact_draft h pid app policy) (exact_groups ?e) = Inr exact"
    and ids: "ids = concat (map (\<lambda>(_, g). map mi_mem0_memory_id g) (exact_groups ?e))"
    and ds: "ds = take (nat (pol_max_proposals_per_run policy)) (sort_key draft_order
       (exact @ List.map_filter (retention_draft h pid app policy now ids) ?e))"
    by (rule analyze_scope_Inr [OF run]) blast
  have e: "distinct (map mi_mem0_memory_id ?e)"
    unfolding eligible_memories_def using unique by (simp add: distinct_map distinct_filter inj_on_def)
  have "distinct ids" unfolding ids exact_groups_def by (rule distinct_group_ids [OF e]) simp
  moreover have perm: "mset (concat (map pd_source_ids exact)) = mset ids"
    unfolding ids by (rule exact_sources [OF ex])
  ultimately have d1: "distinct (concat (map pd_source_ids exact))" by (metis mset_eq_imp_distinct_iff)
  have ret: "set (concat (map pd_source_ids (List.map_filter (retention_draft h pid app policy now ids) xs)))
        \<subseteq> mi_mem0_memory_id ` set xs - set ids" for xs
    using retention_draft_Some by (fastforce simp: map_filter_mem)
  have "distinct (concat (map pd_source_ids (List.map_filter (retention_draft h pid app policy now ids) xs)))"
    if "distinct (map mi_mem0_memory_id xs)" for xs
    using that
  proof (induction xs)
    case (Cons x xs)
    then show ?case using ret [of xs] retention_draft_Some [of h pid app policy now ids x]
      by (cases "retention_draft h pid app policy now ids x") (auto simp: List.map_filter_simps)
  qed (simp add: List.map_filter_simps)
  then have "distinct (concat (map pd_source_ids (exact @ List.map_filter (retention_draft h pid app policy now ids) ?e)))"
    using d1 e ret [of ?e] mset_eq_setD [OF perm] by auto
  then show ?thesis unfolding ds by (intro distinct_concat_take) (simp add: distinct_concat_sort)
qed

text \<open>
  A scan with room left proposes every expired memory: if the scan returns fewer drafts than
  the policy allows, then each eligible memory older than the days of its type's rule is a
  source of one of them.
\<close>

lemma expired_memories_proposed:
  assumes run: "analyze_scope h pid app policy anchors now = Inr ds"
    and room: "length ds < nat (pol_max_proposals_per_run policy)"
    and m: "m \<in> set anchors" "analyzable pid app m"
    and rule: "dget (pol_retention policy) (type_or_unknown m) = Some r" "rule_days r = Some days"
    and age: "now - mi_created_at m > days * DAY"
  shows "\<exists>d \<in> set ds. mi_mem0_memory_id m \<in> set (pd_source_ids d)"
proof -
  let ?e = "eligible_memories pid app anchors"
  obtain exact ids where ex: "rmap (exact_draft h pid app policy) (exact_groups ?e) = Inr exact"
    and ids: "ids = concat (map (\<lambda>(_, g). map mi_mem0_memory_id g) (exact_groups ?e))"
    and ds: "ds = take (nat (pol_max_proposals_per_run policy)) (sort_key draft_order
       (exact @ List.map_filter (retention_draft h pid app policy now ids) ?e))"
    by (rule analyze_scope_Inr [OF run]) blast
  have all: "set ds = set (exact @ List.map_filter (retention_draft h pid app policy now ids) ?e)"
    using room unfolding ds by (simp del: set_append)
  show ?thesis
  proof (cases "mi_mem0_memory_id m \<in> set ids")
    case True
    then have "mi_mem0_memory_id m \<in> set (concat (map pd_source_ids exact))"
      using mset_eq_setD [OF exact_sources [OF ex]] unfolding ids by simp
    then show ?thesis using all by auto
  next
    case False
    then obtain d where "retention_draft h pid app policy now ids m = Some d"
      using rule age by (simp add: retention_draft_def Let_def)
    moreover from this have "d \<in> set ds" using m unfolding all by (auto simp: map_filter_mem)
    ultimately show ?thesis by (intro bexI [of _ d]) (auto dest!: retention_draft_Some)
  qed
qed

section \<open>When a scan fails\<close>

text \<open>The metadata claims an integer confidence that is too large for a float.\<close>

definition overflowing :: "memory_index \<Rightarrow> bool" where
  "overflowing m =
     (case dget_or (memory_metadata m) ''confidence'' (JFloat (Fin 0)) of
        JInt i \<Rightarrow> \<bar>i\<bar> \<ge> FLOAT_LIMIT | _ \<Rightarrow> False)"

lemma confidence_error:
  "case confidence m of Inl e \<Rightarrow> overflowing m \<and> exn_class e = OverflowError | Inr _ \<Rightarrow> \<not> overflowing m"
  unfolding confidence_def overflowing_def
  by (auto simp: float_of_json_def float_of_int_def split: json.splits sum.splits pyfloat.splits option.splits)

lemma rmap_error:
  "case rmap f xs of Inl e \<Rightarrow> \<exists>x \<in> set xs. f x = Inl e | Inr _ \<Rightarrow> \<forall>x \<in> set xs. is_ok (f x)"
proof (induction xs)
  case (Cons x xs)
  then show ?case by (cases "f x"; cases "rmap f xs") auto
qed simp

lemma canonical_of_error:
  assumes "g \<noteq> []"
  shows "case canonical_of g of Inl e \<Rightarrow> (\<exists>m \<in> set g. overflowing m) \<and> exn_class e = OverflowError
    | Inr _ \<Rightarrow> \<not> (\<exists>m \<in> set g. overflowing m)"
proof -
  let ?f = "\<lambda>m. rbind (canonical_sort_key m) (\<lambda>k. Inr (k, m))"
  have f: "case ?f m of Inl e \<Rightarrow> overflowing m \<and> exn_class e = OverflowError | Inr _ \<Rightarrow> \<not> overflowing m" for m
    using confidence_error [of m] by (cases "confidence m") (auto simp: canonical_sort_key_def)
  show ?thesis
  proof (cases "rmap ?f g")
    case (Inl e)
    then obtain m where "m \<in> set g" "?f m = Inl e" using rmap_error [where f = ?f and xs = g] by auto
    then show ?thesis using f [of m] Inl by (auto simp: canonical_of_def)
  next
    case (Inr keyed)
    have "\<not> overflowing m" if "m \<in> set g" for m
    proof -
      have "is_ok (?f m)" using rmap_error [where f = ?f and xs = g] that unfolding Inr by simp
      then obtain y where "?f m = Inr y" by (cases "?f m") auto
      then show ?thesis using f [of m] by simp
    qed
    then have "\<forall>m \<in> set g. \<not> overflowing m" by blast
    moreover have "first_by fst keyed \<noteq> None"
      using rmap_length [OF Inr] assms by (auto simp: first_by_None)
    ultimately show ?thesis using Inr by (auto simp: canonical_of_def)
  qed
qed

text \<open>
  C12: A scan fails exactly when some group of duplicates has a member whose metadata claims an
  integer confidence beyond the float range, and then with an overflow: one such memory keeps
  its whole scope from being scanned.
\<close>

theorem scan_fails_iff_overflow:
  "case analyze_scope h pid app policy anchors now of
     Inl e \<Rightarrow> exn_class e = OverflowError
       \<and> (\<exists>(k, g) \<in> set (exact_groups (eligible_memories pid app anchors)). \<exists>m \<in> set g. overflowing m)
   | Inr _ \<Rightarrow> \<not> (\<exists>(k, g) \<in> set (exact_groups (eligible_memories pid app anchors)). \<exists>m \<in> set g. overflowing m)"
proof -
  let ?gs = "exact_groups (eligible_memories pid app anchors)"
  have d: "case exact_draft h pid app policy (k, g) of
      Inl e \<Rightarrow> (\<exists>m \<in> set g. overflowing m) \<and> exn_class e = OverflowError
    | Inr _ \<Rightarrow> \<not> (\<exists>m \<in> set g. overflowing m)" if "(k, g) \<in> set ?gs" for k g
  proof -
    have "g \<noteq> []" using exact_groups_mem [OF that] by auto
    from canonical_of_error [OF this] show ?thesis
      by (cases "canonical_of g") (auto simp: exact_draft_def Let_def split: prod.splits)
  qed
  show ?thesis
  proof (cases "rmap (exact_draft h pid app policy) ?gs")
    case (Inl e)
    then obtain k g where "(k, g) \<in> set ?gs" "exact_draft h pid app policy (k, g) = Inl e"
      using rmap_error [where f = "exact_draft h pid app policy" and xs = ?gs] by auto
    then show ?thesis using d [of k g] Inl by (auto simp: analyze_scope_def Let_def)
  next
    case (Inr ds)
    have "\<not> (\<exists>m \<in> set g. overflowing m)" if kg: "(k, g) \<in> set ?gs" for k g
    proof -
      have "is_ok (exact_draft h pid app policy (k, g))"
        using rmap_error [where f = "exact_draft h pid app policy" and xs = ?gs] kg unfolding Inr by auto
      then obtain y where "exact_draft h pid app policy (k, g) = Inr y"
        by (cases "exact_draft h pid app policy (k, g)") auto
      then show ?thesis using d [OF kg] by simp
    qed
    then have "\<not> (\<exists>(k, g) \<in> set ?gs. \<exists>m \<in> set g. overflowing m)" by blast
    then show ?thesis using Inr by (simp add: analyze_scope_def Let_def)
  qed
qed

section \<open>Witnesses\<close>

definition sample_memory :: "string \<Rightarrow> string \<Rightarrow> string \<Rightarrow> memory_index" where
  "sample_memory mid hash source =
     \<lparr>mi_id = mid, mi_project_id = ''p'', mi_mem0_memory_id = mid, mi_user_id = Some ''u'',
      mi_agent_id = None, mi_app_id = Some ''a'', mi_run_id = None, mi_category = None,
      mi_entity_refs_json = Some (JObj []), mi_metadata_projection_json = Some (JObj []),
      mi_content_hash = Some hash, mi_content_length = Some 5, mi_normalized_type = Some ''auto_capture'',
      mi_source = Some source, mi_pinned = 0, mi_expires_at = None, mi_last_observed_at = None,
      mi_access_count = 0, mi_last_accessed_at = None, mi_last_consolidation_scan_at = None,
      mi_scope_markers_verified = 1, mi_scope_marker_backfill_status = ''PENDING'',
      mi_scope_marker_backfill_attempted_at = None, mi_consolidation_state = ''ACTIVE'',
      mi_shadowed_by_proposal_id = None, mi_created_at = 0, mi_updated_at = 0, mi_deleted_at = None\<rparr>"

definition sample_anchors :: "memory_index list" where
  "sample_anchors = [sample_memory ''m1'' ''h1'' ''auto'', sample_memory ''m2'' ''h1'' ''user'',
     sample_memory ''m3'' ''h3'' ''user'']"

definition sample_drafts :: "proposal_draft list res" where
  "sample_drafts = analyze_scope (\<lambda>s. []) ''p'' ''a'' sample_policy sample_anchors (31 * DAY)"

lemma sample_drafts_run:
  obtains ds where "sample_drafts = Inr ds"
    and "map (\<lambda>d. (pd_kind d, pd_source_ids d, pd_canonical_id d)) ds =
      [(''EXACT_DUPLICATE'', [''m1'', ''m2''], Some ''m2''), (''RETENTION_EXPIRED'', [''m3''], None)]"
proof -
  have *: "case sample_drafts of Inl _ \<Rightarrow> False
    | Inr ds \<Rightarrow> map (\<lambda>d. (pd_kind d, pd_source_ids d, pd_canonical_id d)) ds =
      [(''EXACT_DUPLICATE'', [''m1'', ''m2''], Some ''m2''), (''RETENTION_EXPIRED'', [''m3''], None)]"
    by code_simp
  show ?thesis
  proof (cases sample_drafts)
    case (Inr ds)
    show ?thesis by (rule that [OF Inr]) (rule * [unfolded Inr sum.case])
  next
    case (Inl e)
    show ?thesis using * unfolding Inl by simp
  qed
qed

lemma analyze_scope_sound_witness:
  "\<exists>ds. sample_drafts = Inr ds \<and> ds \<noteq> [] \<and> sorted (map draft_order ds)"
proof -
  obtain ds where ds: "sample_drafts = Inr ds" "ds \<noteq> []" by (rule sample_drafts_run) auto
  with analyze_scope_sound [OF ds(1) [unfolded sample_drafts_def]] show ?thesis by blast
qed

lemma canonical_is_best_witness:
  "\<exists>k c. mi_mem0_memory_id c = ''m2'' \<and> c \<in> set sample_anchors \<and> group_key c = k"
proof -
  obtain ds where ds: "sample_drafts = Inr ds"
    "map (\<lambda>d. (pd_kind d, pd_source_ids d, pd_canonical_id d)) ds =
      [(''EXACT_DUPLICATE'', [''m1'', ''m2''], Some ''m2''), (''RETENTION_EXPIRED'', [''m3''], None)]"
    by (rule sample_drafts_run)
  then obtain d where "d \<in> set ds" "pd_canonical_id d = Some ''m2''"
    by (cases ds) auto
  from canonical_is_best [OF ds(1) [unfolded sample_drafts_def] this] show ?thesis by blast
qed

lemma drafts_disjoint_witness:
  "\<exists>ds. sample_drafts = Inr ds \<and> length ds = 2 \<and> distinct (concat (map pd_source_ids ds))"
proof -
  obtain ds where ds: "sample_drafts = Inr ds" "length ds = 2"
    by (rule sample_drafts_run) (auto dest: arg_cong [of _ _ length])
  have "distinct (map mi_mem0_memory_id sample_anchors)"
    by (simp add: sample_anchors_def sample_memory_def)
  from drafts_disjoint [OF this ds(1) [unfolded sample_drafts_def]] ds show ?thesis by blast
qed

lemma expired_memories_proposed_witness:
  "\<exists>ds. sample_drafts = Inr ds \<and> (\<exists>d \<in> set ds. ''m3'' \<in> set (pd_source_ids d))"
proof -
  obtain ds where ds: "sample_drafts = Inr ds" "length ds = 2"
    by (rule sample_drafts_run) (auto dest: arg_cong [of _ _ length])
  let ?m = "sample_memory ''m3'' ''h3'' ''user''"
  have "\<exists>d \<in> set ds. mi_mem0_memory_id ?m \<in> set (pd_source_ids d)"
  proof (rule expired_memories_proposed [OF ds(1) [unfolded sample_drafts_def]])
    show "length ds < nat (pol_max_proposals_per_run sample_policy)"
      by (simp add: ds sample_policy_def)
    show "?m \<in> set sample_anchors" by (simp add: sample_anchors_def)
    show "analyzable ''p'' ''a'' ?m" by (simp add: analyzable_def sample_memory_def)
    show "dget (pol_retention sample_policy) (type_or_unknown ?m) = Some \<lparr>rule_days = Some 30, rule_action = ''SHADOW''\<rparr>"
      by (simp add: sample_policy_def type_or_unknown_def or_empty_def sample_memory_def DEFAULT_RETENTION_def)
    show "31 * DAY - mi_created_at ?m > 30 * DAY"
      unfolding DAY_def sample_memory_def memory_index.simps by simp
  qed (simp_all)
  then show ?thesis using ds(1) by (intro exI [of _ ds] conjI) (simp_all add: sample_memory_def)
qed

end
