(* ===== verification/Mutation_Intents.thy ===== *)
theory Mutation_Intents
  imports Models Leases
begin

text \<open>
  Durable mutation intents (\<open>MutationIntentRepository\<close> in \<open>store/repositories.py\<close>): the record of
  a mutation that is about to reach the upstream memory service, its targets, the lease and the
  attempt count that fence it, and the recovery of intents whose worker disappeared.  The
  sanitised form of a stored document (\<open>_safe_trace_document\<close>) is the argument \<open>safe\<close>.
\<close>

section \<open>State\<close>

definition MAX_TARGETS :: nat where "MAX_TARGETS = 5000"
definition RECOVERY_LIMIT :: nat where "RECOVERY_LIMIT = 100"
definition LEASE_SECONDS :: int where "LEASE_SECONDS = 300"
definition MAX_ATTEMPTS :: int where "MAX_ATTEMPTS = 3"

definition LEASE :: int where "LEASE = LEASE_SECONDS * 1000000"

definition BLOCKING_STATUSES :: "string list" where
  "BLOCKING_STATUSES = [''ACTIVE'', ''UNKNOWN'', ''PENDING'', ''EXHAUSTED'']"

definition TERMINAL_STATUSES :: "string list" where
  "TERMINAL_STATUSES = [''COMPLETED'', ''FAILED'', ''PARTIAL'']"

record intent_store =
  is_intents :: "mutation_intent list"
  is_targets :: "mutation_intent_target list"

definition json_object :: "json_text \<Rightarrow> json dict" where
  "json_object doc = (case doc of Some (JObj d) \<Rightarrow> d | _ \<Rightarrow> [])"

abbreviation intent_payload :: "mutation_intent \<Rightarrow> json dict" where
  "intent_payload i \<equiv> json_object (int_payload_json i)"

abbreviation intent_result :: "mutation_intent \<Rightarrow> json dict" where
  "intent_result i \<equiv> json_object (int_result_json i)"

section \<open>Lookups\<close>

definition get_intent :: "string \<Rightarrow> intent_store \<Rightarrow> mutation_intent res" where
  "get_intent iid st =
     (case row_by int_id iid (is_intents st) of Some i \<Rightarrow> Inr i | None \<Rightarrow> raise KeyError iid)"

definition save_intent :: "mutation_intent \<Rightarrow> intent_store \<Rightarrow> intent_store" where
  "save_intent i st = st\<lparr>is_intents := save int_id i (is_intents st)\<rparr>"

definition find_by_operation_key ::
    "string \<Rightarrow> string \<Rightarrow> string \<Rightarrow> string \<Rightarrow> intent_store \<Rightarrow> mutation_intent option" where
  "find_by_operation_key pid app operation key st =
     List.find (\<lambda>i. int_project_id i = pid \<and> int_app_id i = app \<and> int_operation i = operation
       \<and> int_operation_key i = key) (is_intents st)"

text \<open>\<open>ORDER BY created_at DESC, id DESC LIMIT 100\<close>, then the first with the fingerprint.\<close>

definition find_resumable_by_fingerprint ::
    "string \<Rightarrow> string \<Rightarrow> string \<Rightarrow> string \<Rightarrow> intent_store \<Rightarrow> mutation_intent option" where
  "find_resumable_by_fingerprint pid app operation fingerprint st =
     List.find (\<lambda>i. jget (intent_payload i) ''request_fingerprint'' = JStr fingerprint)
       (take RECOVERY_LIMIT (rev (sort_key (\<lambda>i. (int_created_at i, int_id i))
         (filter (\<lambda>i. int_project_id i = pid \<and> int_app_id i = app \<and> int_operation i = operation
            \<and> int_status i \<in> set [''ACTIVE'', ''UNKNOWN'', ''PENDING'', ''FAILED'', ''PARTIAL''])
           (is_intents st)))))"

definition recoverable :: "time \<Rightarrow> mutation_intent \<Rightarrow> bool" where
  "recoverable now i =
     (int_status i \<in> set [''UNKNOWN'', ''PENDING'']
      \<or> int_status i = ''EXHAUSTED'' \<and> int_operation i = ''memory.add''
      \<or> int_status i = ''ACTIVE''
        \<and> (case int_lease_expires_at i of None \<Rightarrow> True | Some t \<Rightarrow> t \<le> now))"

definition list_recoverable ::
    "time \<Rightarrow> string \<Rightarrow> string \<Rightarrow> string option \<Rightarrow> intent_store \<Rightarrow> mutation_intent list" where
  "list_recoverable now pid app operation st =
     take RECOVERY_LIMIT (sort_key (\<lambda>i. (int_updated_at i, int_created_at i, int_id i))
       (filter (\<lambda>i. int_project_id i = pid \<and> int_app_id i = app
          \<and> (case operation of None \<Rightarrow> True | Some op \<Rightarrow> op = [] \<or> int_operation i = op)
          \<and> recoverable now i) (is_intents st)))"

definition list_blocking :: "string \<Rightarrow> string \<Rightarrow> intent_store \<Rightarrow> mutation_intent list" where
  "list_blocking pid app st =
     take RECOVERY_LIMIT (sort_key (\<lambda>i. (int_created_at i, int_id i))
       (filter (\<lambda>i. int_project_id i = pid \<and> int_app_id i = app
          \<and> int_status i \<in> set BLOCKING_STATUSES) (is_intents st)))"

definition intent_targets :: "string \<Rightarrow> intent_store \<Rightarrow> mutation_intent_target list" where
  "intent_targets iid st =
     sort_key (\<lambda>t. (tgt_ordinal t, tgt_memory_id t)) (filter (\<lambda>t. tgt_intent_id t = iid) (is_targets st))"

definition pending_targets :: "string \<Rightarrow> intent_store \<Rightarrow> mutation_intent_target list" where
  "pending_targets iid st = filter (\<lambda>t. tgt_status t = ''PENDING'') (intent_targets iid st)"

definition incomplete_targets :: "string \<Rightarrow> int \<Rightarrow> intent_store \<Rightarrow> mutation_intent_target list res" where
  "incomplete_targets iid limit st =
     (if limit < 1 \<or> limit > 200 then value_error ''incomplete target limit must be between 1 and 200''
      else Inr (take (nat limit) (filter (\<lambda>t. tgt_status t \<noteq> ''COMPLETED'') (intent_targets iid st))))"

definition get_target :: "string \<Rightarrow> intent_store \<Rightarrow> mutation_intent_target res" where
  "get_target tid st =
     (case row_by tgt_id tid (is_targets st) of Some t \<Rightarrow> Inr t | None \<Rightarrow> raise KeyError tid)"

definition count_targets :: "string \<Rightarrow> string option \<Rightarrow> intent_store \<Rightarrow> nat" where
  "count_targets iid status st =
     count_where (\<lambda>t. tgt_intent_id t = iid
       \<and> (case status of None \<Rightarrow> True | Some s \<Rightarrow> tgt_status t = s)) (is_targets st)"

section \<open>Creation\<close>

text \<open>New target rows take the given ordinals; \<open>new_id\<close> names the row of an ordinal.\<close>

definition target_row ::
    "(nat \<Rightarrow> string) \<Rightarrow> time \<Rightarrow> string \<Rightarrow> nat \<times> string \<Rightarrow> mutation_intent_target" where
  "target_row new_id now iid om =
     \<lparr>tgt_id = new_id (fst om), tgt_intent_id = iid, tgt_memory_id = snd om, tgt_ordinal = fst om,
      tgt_status = ''PENDING'', tgt_error_json = Some (JObj []), tgt_created_at = now,
      tgt_updated_at = now\<rparr>"

definition insert_targets ::
    "(nat \<Rightarrow> string) \<Rightarrow> time \<Rightarrow> string \<Rightarrow> nat \<Rightarrow> string list \<Rightarrow> intent_store \<Rightarrow>
     mutation_intent_target list \<times> intent_store" where
  "insert_targets new_id now iid start new_ids st =
     (let rows = map (target_row new_id now iid) (zip [start..<start + length new_ids] new_ids)
      in (rows, st\<lparr>is_targets := is_targets st @ rows\<rparr>))"

definition unknown_targets :: "string \<Rightarrow> string list \<Rightarrow> intent_store \<Rightarrow> string list" where
  "unknown_targets iid memory_ids st =
     filter (\<lambda>m. m \<notin> tgt_memory_id ` set (intent_targets iid st)) (dedup memory_ids)"

definition add_targets ::
    "(nat \<Rightarrow> string) \<Rightarrow> time \<Rightarrow> string \<Rightarrow> string list \<Rightarrow> intent_store \<Rightarrow>
     (mutation_intent_target list \<times> intent_store) res" where
  "add_targets new_id now iid memory_ids st =
     (let current = intent_targets iid st; new_ids = unknown_targets iid memory_ids st in
      if length current + length new_ids > MAX_TARGETS
      then value_error ''mutation intent exceeds 5000 memory targets''
      else Inr (insert_targets new_id now iid (length current) new_ids st))"

definition next_ordinal :: "string \<Rightarrow> intent_store \<Rightarrow> nat" where
  "next_ordinal iid st =
     (case max_opt (map tgt_ordinal (filter (\<lambda>t. tgt_intent_id t = iid) (is_targets st))) of
        None \<Rightarrow> 0 | Some m \<Rightarrow> m + 1)"

definition add_target_batch ::
    "(nat \<Rightarrow> string) \<Rightarrow> time \<Rightarrow> string \<Rightarrow> string list \<Rightarrow> intent_store \<Rightarrow>
     (mutation_intent_target list \<times> intent_store) res" where
  "add_target_batch new_id now iid memory_ids st =
     (let target_ids = dedup memory_ids in
      if length target_ids > 200 then value_error ''mutation target batch exceeds 200 records''
      else if target_ids = [] then Inr ([], st)
      else
        let current_count = count_targets iid None st;
            new_ids = unknown_targets iid memory_ids st
        in if current_count + length new_ids > MAX_TARGETS
           then value_error ''mutation intent exceeds 5000 memory targets''
           else Inr (insert_targets new_id now iid (next_ordinal iid st) new_ids st))"

definition new_intent ::
    "(json dict \<Rightarrow> json) \<Rightarrow> string \<Rightarrow> string \<Rightarrow> time \<Rightarrow> string \<Rightarrow> string \<Rightarrow> string \<Rightarrow> string \<Rightarrow> json dict \<Rightarrow>
     mutation_intent" where
  "new_intent safe new_id key now pid app event_id operation payload =
     \<lparr>int_id = new_id, int_project_id = pid, int_app_id = app, int_event_id = event_id,
      int_operation = operation, int_operation_key = key, int_status = ''ACTIVE'',
      int_payload_json = Some (safe payload), int_result_json = Some (JObj []),
      int_error_json = Some (JObj []), int_attempt_count = 1,
      int_lease_expires_at = Some (now + LEASE), int_created_at = now,
      int_updated_at = now, int_completed_at = None\<rparr>"

text \<open>
  Creation inserts the intent, active and under a lease from the start, and its targets.  A
  missing operation key is replaced by a random token.
\<close>

definition create_intent ::
    "(json dict \<Rightarrow> json) \<Rightarrow> string \<Rightarrow> (nat \<Rightarrow> string) \<Rightarrow> string \<Rightarrow> time \<Rightarrow> string \<Rightarrow> string \<Rightarrow> string \<Rightarrow>
     string \<Rightarrow> json dict \<Rightarrow> string list \<Rightarrow> string option \<Rightarrow> intent_store \<Rightarrow>
     (mutation_intent \<times> intent_store) res" where
  "create_intent safe new_id target_id token now pid app event_id operation payload memory_ids operation_key st =
     (let target_ids = dedup memory_ids;
          key = (case operation_key of None \<Rightarrow> token | Some k \<Rightarrow> if k = [] then token else k)
      in if length target_ids > MAX_TARGETS
         then value_error ''mutation intent exceeds 5000 memory targets''
         else if find_by_operation_key pid app operation key st \<noteq> None
           \<or> new_id \<in> int_id ` set (is_intents st)
         then raise IntegrityError ''uq_mutation_intents_scope_operation_key''
         else
           let i = new_intent safe new_id key now pid app event_id operation payload
           in rbind (add_targets target_id now new_id target_ids
                       (st\<lparr>is_intents := is_intents st @ [i]\<rparr>)) (\<lambda>(_, st'). Inr (i, st')))"

text \<open>Keys to preserve keep their stored value and come first.\<close>

definition update_payload ::
    "(json dict \<Rightarrow> json) \<Rightarrow> time \<Rightarrow> string \<Rightarrow> json dict \<Rightarrow> string list \<Rightarrow> intent_store \<Rightarrow>
     (mutation_intent \<times> intent_store) res" where
  "update_payload safe now iid payload preserve_keys st =
     rbind (get_intent iid st) (\<lambda>i.
       let existing = intent_payload i;
           preserved = List.map_filter (\<lambda>k. map_option (Pair k) (dget existing k)) (dedup preserve_keys);
           merged = preserved @ filter (\<lambda>(k, _). k \<notin> set (dkeys preserved)) payload;
           i' = i\<lparr>int_payload_json := Some (safe merged), int_updated_at := now\<rparr>
       in Inr (i', save_intent i' st))"

text \<open>An operation that is resumed is traced by a new event.\<close>

definition point_to_event :: "string \<Rightarrow> string \<Rightarrow> intent_store \<Rightarrow> (mutation_intent \<times> intent_store) res" where
  "point_to_event iid eid st =
     rbind (get_intent iid st) (\<lambda>i. let i' = i\<lparr>int_event_id := eid\<rparr> in Inr (i', save_intent i' st))"

section \<open>Outcomes\<close>

definition mark_unresolved ::
    "(json dict \<Rightarrow> json) \<Rightarrow> time \<Rightarrow> string \<Rightarrow> json dict option \<Rightarrow> intent_store \<Rightarrow>
     (mutation_intent \<times> intent_store) res" where
  "mark_unresolved safe now iid error st =
     rbind (get_intent iid st) (\<lambda>i.
       let i' = i\<lparr>int_status := (if int_attempt_count i \<ge> MAX_ATTEMPTS then ''EXHAUSTED'' else ''UNKNOWN''),
             int_lease_expires_at := None, int_updated_at := now,
             int_error_json := (case error of None \<Rightarrow> int_error_json i | Some e \<Rightarrow> Some (safe e))\<rparr>
       in Inr (i', save_intent i' st))"

definition fail_intent ::
    "(json dict \<Rightarrow> json) \<Rightarrow> time \<Rightarrow> string \<Rightarrow> json dict \<Rightarrow> string \<Rightarrow> json dict option \<Rightarrow> intent_store \<Rightarrow>
     (mutation_intent \<times> intent_store) res" where
  "fail_intent safe now iid error status result st =
     (if status \<notin> set [''FAILED'', ''PARTIAL''] then value_error ''terminal mutation failure status is invalid''
      else rbind (get_intent iid st) (\<lambda>i.
        let i' = i\<lparr>int_status := status, int_error_json := Some (safe error),
              int_result_json := (case result of None \<Rightarrow> int_result_json i | Some r \<Rightarrow> Some (safe r)),
              int_lease_expires_at := None, int_completed_at := Some now, int_updated_at := now\<rparr>
        in Inr (i', save_intent i' st)))"

definition complete_intent ::
    "(json dict \<Rightarrow> json) \<Rightarrow> time \<Rightarrow> string \<Rightarrow> json dict \<Rightarrow> intent_store \<Rightarrow>
     (mutation_intent \<times> intent_store) res" where
  "complete_intent safe now iid result st =
     rbind (get_intent iid st) (\<lambda>i.
       let i' = i\<lparr>int_status := ''COMPLETED'', int_result_json := Some (safe result),
             int_error_json := Some (JObj []), int_lease_expires_at := None,
             int_completed_at := Some now, int_updated_at := now\<rparr>
       in Inr (i', save_intent i' st))"

definition mark_target_succeeded :: "time \<Rightarrow> string \<Rightarrow> intent_store \<Rightarrow> intent_store" where
  "mark_target_succeeded now tid st = st\<lparr>is_targets := update_where (\<lambda>t. tgt_id t = tid)
     (\<lambda>t. t\<lparr>tgt_status := ''COMPLETED'', tgt_error_json := Some (JObj []), tgt_updated_at := now\<rparr>)
     (is_targets st)\<rparr>"

definition mark_target_failed ::
    "(json dict \<Rightarrow> json) \<Rightarrow> time \<Rightarrow> mutation_intent_target \<Rightarrow> json dict \<Rightarrow> intent_store \<Rightarrow> intent_store res" where
  "mark_target_failed safe now target error st =
     rbind (get_intent (tgt_intent_id target) st) (\<lambda>_.
       Inr (st\<lparr>is_targets := update_where (\<lambda>t. tgt_id t = tgt_id target)
         (\<lambda>t. t\<lparr>tgt_status := ''FAILED'', tgt_error_json := Some (safe error), tgt_updated_at := now\<rparr>)
         (is_targets st)\<rparr>))"

section \<open>Recovery\<close>

definition observes_exhausted_add :: "mutation_intent \<Rightarrow> bool" where
  "observes_exhausted_add i =
     (int_operation i = ''memory.add'' \<and> int_status i = ''EXHAUSTED'' \<and> int_attempt_count i \<ge> MAX_ATTEMPTS)"

definition lease_held :: "time \<Rightarrow> mutation_intent \<Rightarrow> bool" where
  "lease_held now i =
     (int_status i = ''ACTIVE'' \<and> (case int_lease_expires_at i of None \<Rightarrow> False | Some t \<Rightarrow> t > now))"

definition reclaim :: "time \<Rightarrow> mutation_intent \<Rightarrow> mutation_intent \<Rightarrow> mutation_intent" where
  "reclaim now snapshot i = i\<lparr>int_attempt_count :=
       (if observes_exhausted_add snapshot then int_attempt_count snapshot else int_attempt_count snapshot + 1),
     int_status := ''ACTIVE'', int_lease_expires_at := Some (now + LEASE), int_updated_at := now\<rparr>"

text \<open>
  \<open>snapshot\<close> is the row as the worker read it.  The update is conditional on the status and the
  attempt count the worker saw, so it loses its fence when another worker has come first.
\<close>

definition claim_recovery ::
    "(json dict \<Rightarrow> json) \<Rightarrow> time \<Rightarrow> mutation_intent \<Rightarrow> intent_store \<Rightarrow> (bool \<times> intent_store) res" where
  "claim_recovery safe now snapshot st =
     (if lease_held now snapshot then Inr (False, st)
      else if int_attempt_count snapshot \<ge> MAX_ATTEMPTS \<and> \<not> observes_exhausted_add snapshot
      then rbind (mark_unresolved safe now (int_id snapshot)
             (Some [(''message'', JStr ''Mutation recovery attempts exhausted'')]) st) (\<lambda>(_, st'). Inr (False, st'))
      else
        let matches = (\<lambda>i. int_id i = int_id snapshot \<and> int_status i = int_status snapshot
              \<and> int_attempt_count i = int_attempt_count snapshot)
        in if count_where matches (is_intents st) \<noteq> 1
           then raise MutationFence ''durable mutation recovery claim lost its fence''
           else Inr (True, st\<lparr>is_intents := update_where matches (reclaim now snapshot) (is_intents st)\<rparr>))"

definition require_active_attempt ::
    "string \<Rightarrow> int \<Rightarrow> time option \<Rightarrow> intent_store \<Rightarrow> mutation_intent res" where
  "require_active_attempt iid attempt claim_updated_at st =
     (if attempt < 1 then value_error ''expected mutation attempt count is invalid''
      else case List.find (\<lambda>i. int_id i = iid \<and> int_status i = ''ACTIVE'' \<and> int_attempt_count i = attempt
             \<and> (case claim_updated_at of None \<Rightarrow> True | Some t \<Rightarrow> int_updated_at i = t)) (is_intents st) of
        None \<Rightarrow> raise MutationFence ''durable mutation attempt lost its fence''
      | Some i \<Rightarrow> Inr i)"

definition renew_active_attempt ::
    "time \<Rightarrow> string \<Rightarrow> int \<Rightarrow> intent_store \<Rightarrow> (mutation_intent \<times> intent_store) res" where
  "renew_active_attempt now iid attempt st =
     rbind (require_active_attempt iid attempt None st) (\<lambda>i.
       let i' = i\<lparr>int_lease_expires_at := Some (now + LEASE), int_updated_at := now\<rparr>
       in Inr (i', save_intent i' st))"

section \<open>Leases and fences\<close>

text \<open>The claim of one row that is read and updated without another worker in between.\<close>

definition take_intent :: "time \<Rightarrow> mutation_intent \<Rightarrow> mutation_intent option" where
  "take_intent now i =
     (if lease_held now i \<or> int_attempt_count i \<ge> MAX_ATTEMPTS \<and> \<not> observes_exhausted_add i then None
      else Some (reclaim now i i))"

definition intent_held_until :: "mutation_intent \<Rightarrow> time option" where
  "intent_held_until i = (if int_status i = ''ACTIVE'' then int_lease_expires_at i else None)"

interpretation intent_lease: leased take_intent intent_held_until LEASE
  by unfold_locales
    (auto simp: take_intent_def intent_held_until_def lease_held_def reclaim_def LEASE_def
      LEASE_SECONDS_def split: if_splits)

text \<open>Observing an exhausted \<open>memory.add\<close> does not count as an attempt; every other claim does.\<close>

definition take_attempt :: "time \<Rightarrow> mutation_intent \<Rightarrow> mutation_intent option" where
  "take_attempt now i = (if observes_exhausted_add i then None else take_intent now i)"

interpretation intent_attempt: fenced take_attempt intent_held_until LEASE int_attempt_count
  by unfold_locales
    (auto simp: take_attempt_def take_intent_def intent_held_until_def lease_held_def reclaim_def LEASE_def
      LEASE_SECONDS_def split: if_splits)

lemma claim_recovery_fresh:
  assumes "distinct (map int_id (is_intents st))" "i \<in> set (is_intents st)"
  shows "(\<exists>st'. claim_recovery safe now i st = Inr (True, st')) \<longleftrightarrow> take_intent now i \<noteq> None"
proof -
  have "filter (\<lambda>x. int_id x = int_id i \<and> int_status x = int_status i
      \<and> int_attempt_count x = int_attempt_count i) (is_intents st) = [i]"
    using assms by (intro filter_unique_row [of int_id]) auto
  then show ?thesis
    by (auto simp: claim_recovery_def take_intent_def count_where_def Let_def res_simps)
qed

lemma claim_recovery_True:
  assumes "claim_recovery safe now snap st = Inr (True, st')"
  defines "matches \<equiv> \<lambda>i. int_id i = int_id snap \<and> int_status i = int_status snap
      \<and> int_attempt_count i = int_attempt_count snap"
  shows "count_where matches (is_intents st) = 1"
    and "st' = st\<lparr>is_intents := update_where matches (reclaim now snap) (is_intents st)\<rparr>"
    and "int_attempt_count snap < MAX_ATTEMPTS \<or> observes_exhausted_add snap"
  using assms unfolding claim_recovery_def matches_def
  by (auto simp: Let_def res_simps split: if_splits prod.splits)

lemma reclaim_differs:
  "int_status (reclaim now snap i) = int_status snap \<Longrightarrow>
     int_attempt_count (reclaim now snap i) \<noteq> int_attempt_count snap"
  by (auto simp: reclaim_def observes_exhausted_add_def split: if_splits)

text \<open>
  In the store that a successful claim leaves, no claim from the version it was read in succeeds
  again, at any clock reading.
\<close>

lemma recovery_claimed_once:
  assumes "claim_recovery safe now snap st = Inr (True, st')"
  shows "claim_recovery safe' now' snap st' \<noteq> Inr (True, st'')"
proof
  let ?m = "\<lambda>i. int_id i = int_id snap \<and> int_status i = int_status snap
      \<and> int_attempt_count i = int_attempt_count snap"
  assume "claim_recovery safe' now' snap st' = Inr (True, st'')"
  from claim_recovery_True(1) [OF this] have one: "count_where ?m (is_intents st') = 1" .
  have "filter ?m (update_where ?m (reclaim now snap) (is_intents st)) = []"
    using reclaim_differs by (auto simp: filter_empty_conv update_where_def)
  with one claim_recovery_True(2) [OF assms] show False by (simp add: count_where_def)
qed

text \<open>
  C13: A worker that lost its intent is fenced off.  When another worker has claimed the recovery
  of an intent, asking for the attempt that was active before fails; when that claim only
  observes an exhausted addition, which keeps the attempt count, the time of the claim tells
  the two apart.
\<close>

theorem stale_attempt_fenced:
  assumes unique: "distinct (map int_id (is_intents st))"
    and claim: "claim_recovery safe now snap st = Inr (True, st')"
    and stale: "1 \<le> int_attempt_count snap" "old \<noteq> now"
  shows "require_active_attempt (int_id snap) (int_attempt_count snap)
      (if observes_exhausted_add snap then Some old else None) st'
    = raise MutationFence ''durable mutation attempt lost its fence''"
proof -
  let ?m = "\<lambda>i. int_id i = int_id snap \<and> int_status i = int_status snap
      \<and> int_attempt_count i = int_attempt_count snap"
  from claim_recovery_True(1) [OF claim] obtain r where r: "r \<in> set (is_intents st)" "?m r"
    by (fastforce simp: count_where_def length_Suc_conv filter_eq_Cons_iff)
  have only: "x = r" if "x \<in> set (is_intents st)" "int_id x = int_id snap" for x
    using unique r that by (metis distinct_map inj_onD)
  have "is_intents st' = update_where ?m (reclaim now snap) (is_intents st)"
    using claim_recovery_True(2) [OF claim] by simp
  then have row: "i = reclaim now snap r" if i: "i \<in> set (is_intents st')" "int_id i = int_id snap" for i
  proof -
    from i(1) obtain j where j: "j \<in> set (is_intents st)" "i = (if ?m j then reclaim now snap j else j)"
      using \<open>is_intents st' = _\<close> by (auto simp: update_where_def)
    then have "int_id j = int_id snap" using i(2) by (auto simp: reclaim_def split: if_splits)
    then have "j = r" using only j(1) by blast
    with j(2) r(2) show ?thesis by simp
  qed
  have "List.find (\<lambda>i. int_id i = int_id snap \<and> int_status i = ''ACTIVE''
      \<and> int_attempt_count i = int_attempt_count snap
      \<and> (case if observes_exhausted_add snap then Some old else None of None \<Rightarrow> True
         | Some t \<Rightarrow> int_updated_at i = t)) (is_intents st') = None"
    unfolding find_None_iff
  proof
    assume "\<exists>i. i \<in> set (is_intents st') \<and> int_id i = int_id snap \<and> int_status i = ''ACTIVE''
      \<and> int_attempt_count i = int_attempt_count snap
      \<and> (case if observes_exhausted_add snap then Some old else None of None \<Rightarrow> True
         | Some t \<Rightarrow> int_updated_at i = t)"
    then obtain i where i: "i \<in> set (is_intents st')" "int_id i = int_id snap"
      "int_attempt_count i = int_attempt_count snap"
      "observes_exhausted_add snap \<longrightarrow> int_updated_at i = old" by (auto split: if_splits)
    from row [OF i(1,2)] i(3,4) stale(2) show False by (auto simp: reclaim_def split: if_splits)
  qed
  then show ?thesis using stale(1) by (simp add: require_active_attempt_def)
qed

text \<open>
  Claims of one intent, by whatever workers and clocks, are at least five minutes apart, and
  those that count as attempts are at most two after the first attempt that created it.
\<close>

lemma intent_claims_bounded:
  shows "sorted_wrt (\<lambda>(t, _) (t', _). t + LEASE \<le> t') (run_takes take_intent ts i)
    \<and> int (length (run_takes take_attempt ts i)) \<le> max 0 (MAX_ATTEMPTS - int_attempt_count i)"
proof
  show "sorted_wrt (\<lambda>(t, _) (t', _). t + LEASE \<le> t') (run_takes take_intent ts i)"
    by (rule intent_lease.takes_separated)
  show "int (length (run_takes take_attempt ts i)) \<le> max 0 (MAX_ATTEMPTS - int_attempt_count i)"
  proof (induction ts arbitrary: i)
    case (Cons t ts)
    show ?case
    proof (cases "take_attempt t i")
      case (Some i')
      then have "int_attempt_count i < MAX_ATTEMPTS"
        by (auto simp: take_attempt_def take_intent_def split: if_splits)
      then show ?thesis using Some Cons [of i'] intent_attempt.take_token [OF Some] by simp
    qed (use Cons in simp)
  qed simp
qed

section \<open>The invariant of the store\<close>

definition intent_ok :: "mutation_intent \<Rightarrow> bool" where
  "intent_ok i =
     (1 \<le> int_attempt_count i \<and> int_attempt_count i \<le> MAX_ATTEMPTS
      \<and> (int_lease_expires_at i \<noteq> None \<longleftrightarrow> int_status i = ''ACTIVE'')
      \<and> (int_status i \<in> set TERMINAL_STATUSES \<longrightarrow> int_completed_at i \<noteq> None)
      \<and> int_status i \<in> set (BLOCKING_STATUSES @ TERMINAL_STATUSES))"

text \<open>
  The targets of an intent are numbered from zero without a gap, name each memory once, and
  are at most 5000.
\<close>

definition targets_ok :: "string \<Rightarrow> mutation_intent_target list \<Rightarrow> bool" where
  "targets_ok iid ts =
     (map tgt_ordinal (filter (\<lambda>t. tgt_intent_id t = iid) ts)
        = [0..<length (filter (\<lambda>t. tgt_intent_id t = iid) ts)]
      \<and> distinct (map tgt_memory_id (filter (\<lambda>t. tgt_intent_id t = iid) ts))
      \<and> length (filter (\<lambda>t. tgt_intent_id t = iid) ts) \<le> MAX_TARGETS)"

definition intent_key :: "mutation_intent \<Rightarrow> string \<times> string \<times> string \<times> string" where
  "intent_key i = (int_project_id i, int_app_id i, int_operation i, int_operation_key i)"

definition intents_ok :: "intent_store \<Rightarrow> bool" where
  "intents_ok st =
     (distinct (map int_id (is_intents st)) \<and> distinct (map intent_key (is_intents st))
      \<and> (\<forall>i \<in> set (is_intents st). intent_ok i) \<and> (\<forall>iid. targets_ok iid (is_targets st)))"

text \<open>Updates that keep the identity of every intent and leave the targets alone.\<close>

lemma intents_ok_map:
  assumes "intents_ok st" and "is_targets st' = is_targets st"
    and "is_intents st' = map f (is_intents st)"
    and "\<And>i. i \<in> set (is_intents st) \<Longrightarrow> intent_ok i \<Longrightarrow>
      intent_ok (f i) \<and> int_id (f i) = int_id i \<and> intent_key (f i) = intent_key i"
  shows "intents_ok st'"
proof -
  have ids: "map int_id (map f (is_intents st)) = map int_id (is_intents st)"
    and keys: "map intent_key (map f (is_intents st)) = map intent_key (is_intents st)"
    using assms(1,4) by (simp_all add: intents_ok_def)
  show ?thesis unfolding intents_ok_def assms(2,3) ids keys
    using assms(1,4) by (auto simp: intents_ok_def)
qed

lemma intents_ok_save:
  assumes "intents_ok st" "row_by int_id iid (is_intents st) = Some i"
    and "int_id i' = int_id i" "intent_key i' = intent_key i" "intent_ok i \<Longrightarrow> intent_ok i'"
  shows "intents_ok (save_intent i' st)"
proof (rule intents_ok_map [OF assms(1)])
  show "is_intents (save_intent i' st) = map (\<lambda>r. if int_id r = int_id i' then i' else r) (is_intents st)"
    by (simp add: save_intent_def save_def)
  have i: "i \<in> set (is_intents st)" using row_by_Some [OF assms(2)] by simp
  fix j assume j: "j \<in> set (is_intents st)" "intent_ok j"
  then have "int_id j = int_id i \<Longrightarrow> j = i"
    using i assms(1) by (metis distinct_map inj_onD intents_ok_def)
  then show "intent_ok (if int_id j = int_id i' then i' else j)
      \<and> int_id (if int_id j = int_id i' then i' else j) = int_id j
      \<and> intent_key (if int_id j = int_id i' then i' else j) = intent_key j"
    using assms(3-5) j by auto
qed (simp add: save_intent_def)

lemma get_intent_Inr [res_simps]:
  "get_intent iid st = Inr i \<longleftrightarrow> row_by int_id iid (is_intents st) = Some i"
  by (auto simp: get_intent_def split: option.splits)

lemmas intent_ok_defs = intent_ok_def intent_key_def BLOCKING_STATUSES_def TERMINAL_STATUSES_def

lemma mark_unresolved_ok:
  "mark_unresolved safe now iid e st = Inr (i, st') \<Longrightarrow> intents_ok st \<Longrightarrow> intents_ok st'"
  by (auto simp: mark_unresolved_def res_simps Let_def intro!: intents_ok_save)
    (auto simp: intent_ok_defs)

lemma fail_intent_ok:
  "fail_intent safe now iid e s r st = Inr (i, st') \<Longrightarrow> intents_ok st \<Longrightarrow> intents_ok st'"
  by (auto simp: fail_intent_def res_simps Let_def intro!: intents_ok_save) (auto simp: intent_ok_defs)

lemma complete_intent_ok:
  "complete_intent safe now iid r st = Inr (i, st') \<Longrightarrow> intents_ok st \<Longrightarrow> intents_ok st'"
  by (auto simp: complete_intent_def res_simps Let_def intro!: intents_ok_save) (auto simp: intent_ok_defs)

lemma update_payload_ok:
  "update_payload safe now iid p ks st = Inr (i, st') \<Longrightarrow> intents_ok st \<Longrightarrow> intents_ok st'"
  by (auto simp: update_payload_def res_simps Let_def intro!: intents_ok_save) (auto simp: intent_ok_defs)

lemma point_to_event_ok:
  "point_to_event iid eid st = Inr (i, st') \<Longrightarrow> intents_ok st \<Longrightarrow> intents_ok st'"
  by (auto simp: point_to_event_def res_simps Let_def intro!: intents_ok_save) (auto simp: intent_ok_defs)

lemma require_active_attempt_Inr:
  "require_active_attempt iid n t st = Inr i \<Longrightarrow>
     i \<in> set (is_intents st) \<and> int_id i = iid \<and> int_status i = ''ACTIVE'' \<and> int_attempt_count i = n"
  by (auto simp: require_active_attempt_def find_Some_iff split: if_splits option.splits)

lemma renew_active_attempt_ok:
  assumes run: "renew_active_attempt now iid n st = Inr (i', st')" and ok: "intents_ok st"
  shows "intents_ok st'"
proof -
  from run obtain i where i: "require_active_attempt iid n None st = Inr i"
    and st': "st' = save_intent (i\<lparr>int_lease_expires_at := Some (now + LEASE), int_updated_at := now\<rparr>) st"
    by (auto simp: renew_active_attempt_def res_simps Let_def)
  have "row_by int_id (int_id i) (is_intents st) = Some i"
    using require_active_attempt_Inr [OF i] ok by (intro row_by_mem) (auto simp: intents_ok_def)
  then show ?thesis unfolding st'
    using require_active_attempt_Inr [OF i]
    by (intro intents_ok_save [OF ok]) (auto simp: intent_ok_defs)
qed

lemma claim_recovery_ok:
  assumes run: "claim_recovery safe now snap st = Inr (b, st')" and ok: "intents_ok st"
  shows "intents_ok st'"
proof (cases b)
  case True
  with run have "claim_recovery safe now snap st = Inr (True, st')" by simp
  note c = claim_recovery_True [OF this]
  show ?thesis
  proof (rule intents_ok_map [OF ok])
    show "is_intents st' = map (\<lambda>i. if int_id i = int_id snap \<and> int_status i = int_status snap
        \<and> int_attempt_count i = int_attempt_count snap then reclaim now snap i else i) (is_intents st)"
      using c(2) by (simp add: update_where_def)
  qed (use c in \<open>auto simp: reclaim_def intent_ok_defs\<close>)
next
  case False
  with run show ?thesis
    using ok by (auto simp: claim_recovery_def res_simps Let_def dest!: mark_unresolved_ok split: if_splits prod.splits)
qed

lemma targets_ok_map:
  assumes "\<And>t. tgt_intent_id (f t) = tgt_intent_id t" "\<And>t. tgt_memory_id (f t) = tgt_memory_id t"
    and "\<And>t. tgt_ordinal (f t) = tgt_ordinal t"
  shows "targets_ok iid (map f ts) \<longleftrightarrow> targets_ok iid ts"
  using assms by (simp add: targets_ok_def filter_map comp_def)

lemma mark_target_ok:
  "intents_ok st \<Longrightarrow> intents_ok (mark_target_succeeded now tid st)"
  "mark_target_failed safe now t e st = Inr st' \<Longrightarrow> intents_ok st \<Longrightarrow> intents_ok st'"
  by (auto simp: intents_ok_def mark_target_succeeded_def mark_target_failed_def update_where_def
      res_simps targets_ok_map)

lemma intent_targets_length [simp]:
  "length (intent_targets iid st) = length (filter (\<lambda>t. tgt_intent_id t = iid) (is_targets st))"
  by (simp add: intent_targets_def)

lemma unknown_targets_new:
  "distinct (unknown_targets iid ms st)"
  "set (unknown_targets iid ms st) \<inter> tgt_memory_id ` {t \<in> set (is_targets st). tgt_intent_id t = iid} = {}"
  by (auto simp: unknown_targets_def intent_targets_def)

lemma zip_rows:
  "map tgt_ordinal (map (target_row f now iid) (zip [a..<a + length ms] ms)) = [a..<a + length ms]"
  "map tgt_memory_id (map (target_row f now iid) (zip [a..<a + length ms] ms)) = ms"
  by (simp_all add: comp_def target_row_def flip: map_map [unfolded comp_def])

lemma target_row_intent [simp]: "tgt_intent_id (target_row f now iid x) = iid"
  by (simp add: target_row_def)

lemma insert_targets_ok:
  assumes ok: "intents_ok st"
    and start: "start = length (filter (\<lambda>t. tgt_intent_id t = iid) (is_targets st))"
    and new: "distinct ms" "set ms \<inter> tgt_memory_id ` {t \<in> set (is_targets st). tgt_intent_id t = iid} = {}"
    and room: "start + length ms \<le> MAX_TARGETS"
  shows "intents_ok (snd (insert_targets f now iid start ms st))"
proof -
  let ?rows = "map (target_row f now iid) (zip [start..<start + length ms] ms)"
  let ?old = "filter (\<lambda>t. tgt_intent_id t = iid) (is_targets st)"
  have "targets_ok j (is_targets st @ ?rows)" for j
  proof (cases "j = iid")
    case True
    have all: "filter (\<lambda>t. tgt_intent_id t = iid) ?rows = ?rows" by (simp add: filter_id_conv)
    have old: "map tgt_ordinal ?old = [0..<start]" "distinct (map tgt_memory_id ?old)"
      using ok by (simp_all add: intents_ok_def targets_ok_def start)
    have len: "length ?rows = length ms" by simp
    have "map tgt_ordinal (?old @ ?rows) = [0..<start + length ms]"
      unfolding map_append old zip_rows by (rule upt_add_eq_append [OF le0, symmetric])
    moreover have "distinct (map tgt_memory_id (?old @ ?rows))"
      unfolding map_append distinct_append zip_rows using old new by auto
    moreover have "length (?old @ ?rows) = start + length ms" unfolding length_append len start by simp
    ultimately show ?thesis
      using True room unfolding targets_ok_def filter_append True all by simp
  next
    case False
    then have "filter (\<lambda>t. tgt_intent_id t = j) ?rows = []" by (auto simp: filter_empty_conv)
    then show ?thesis using ok by (simp add: targets_ok_def intents_ok_def)
  qed
  then show ?thesis using ok by (simp add: intents_ok_def insert_targets_def Let_def)
qed

lemma fold_max_upt: "m < n \<Longrightarrow> fold max [Suc m..<n] m = n - 1"
proof (induction n)
  case (Suc n)
  show ?case
  proof (cases "m < n")
    case True
    with Suc show ?thesis by simp
  next
    case False
    with Suc have "m = n" by simp
    then show ?thesis by simp
  qed
qed simp

lemma max_opt_upt: "max_opt [0..<n] = (if n = 0 then None else Some (n - 1))"
proof (cases n)
  case (Suc k)
  have "[0..<n] = 0 # [Suc 0..<n]" using Suc by (intro upt_conv_Cons) simp
  then show ?thesis using Suc fold_max_upt [of 0 n] by (simp add: max_opt_def del: upt_Suc)
qed (simp add: max_opt_def)

lemma next_ordinal_length:
  "intents_ok st \<Longrightarrow> next_ordinal iid st = length (filter (\<lambda>t. tgt_intent_id t = iid) (is_targets st))"
  by (simp add: next_ordinal_def intents_ok_def targets_ok_def max_opt_upt)

lemma add_targets_ok:
  assumes "add_targets f now iid ms st = Inr (rows, st')" "intents_ok st"
  shows "intents_ok st'"
proof -
  from assms(1) have st': "st' = snd (insert_targets f now iid (length (intent_targets iid st)) (unknown_targets iid ms st) st)"
    and room: "length (intent_targets iid st) + length (unknown_targets iid ms st) \<le> MAX_TARGETS"
    by (auto simp: add_targets_def Let_def split: if_splits)
  show ?thesis unfolding st'
    by (rule insert_targets_ok [OF assms(2)]) (use room unknown_targets_new [of iid ms st] in simp_all)
qed

lemma add_target_batch_ok:
  assumes run: "add_target_batch f now iid ms st = Inr (rows, st')" and ok: "intents_ok st"
  shows "intents_ok st'"
proof (cases "dedup ms = []")
  case False
  with run have st': "st' = snd (insert_targets f now iid (next_ordinal iid st) (unknown_targets iid ms st) st)"
    and room: "count_targets iid None st + length (unknown_targets iid ms st) \<le> MAX_TARGETS"
    by (auto simp: add_target_batch_def Let_def split: if_splits)
  show ?thesis unfolding st'
    by (rule insert_targets_ok [OF ok])
      (use room unknown_targets_new in \<open>auto simp: next_ordinal_length [OF ok] count_targets_def count_where_def\<close>)
qed (use run ok in \<open>simp add: add_target_batch_def\<close>)

lemma create_intent_ok:
  assumes run: "create_intent safe nid tid tok now pid app ev op payload ms key st = Inr (i, st')"
    and ok: "intents_ok st"
  shows "intents_ok st'"
proof -
  let ?key = "case key of None \<Rightarrow> tok | Some k \<Rightarrow> if k = [] then tok else k"
  let ?i = "new_intent safe nid ?key now pid app ev op payload"
  from run obtain rows where
    none: "find_by_operation_key pid app op ?key st = None" "nid \<notin> int_id ` set (is_intents st)" and
    add: "add_targets tid now nid (dedup ms) (st\<lparr>is_intents := is_intents st @ [?i]\<rparr>) = Inr (rows, st')"
    by (auto simp: create_intent_def Let_def res_simps split: if_splits prod.splits)
  have i: "int_id ?i = nid" "intent_key ?i = (pid, app, op, ?key)" "intent_ok ?i"
    by (simp_all add: new_intent_def intent_ok_defs MAX_ATTEMPTS_def)
  have "intents_ok (st\<lparr>is_intents := is_intents st @ [?i]\<rparr>)"
    using ok none i by (auto simp: intents_ok_def find_by_operation_key_def find_None_iff intent_key_def)
  then show ?thesis by (rule add_targets_ok [OF add])
qed

section \<open>Histories\<close>

inductive intent_step :: "intent_store \<Rightarrow> intent_store \<Rightarrow> bool" where
  created: "create_intent safe nid tid tok now pid app ev op payload ms key st = Inr (i, st') \<Longrightarrow> intent_step st st'"
| targeted: "add_targets tid now iid ms st = Inr (rows, st') \<Longrightarrow> intent_step st st'"
| batched: "add_target_batch tid now iid ms st = Inr (rows, st') \<Longrightarrow> intent_step st st'"
| repaid: "update_payload safe now iid payload keep st = Inr (i, st') \<Longrightarrow> intent_step st st'"
| claimed: "claim_recovery safe now snap st = Inr (b, st') \<Longrightarrow> intent_step st st'"
| renewed: "renew_active_attempt now iid n st = Inr (i, st') \<Longrightarrow> intent_step st st'"
| unresolved: "mark_unresolved safe now iid e st = Inr (i, st') \<Longrightarrow> intent_step st st'"
| failed: "fail_intent safe now iid e s r st = Inr (i, st') \<Longrightarrow> intent_step st st'"
| completed: "complete_intent safe now iid r st = Inr (i, st') \<Longrightarrow> intent_step st st'"
| repointed: "point_to_event iid eid st = Inr (i, st') \<Longrightarrow> intent_step st st'"
| target_done: "intent_step st (mark_target_succeeded now tid' st)"
| target_failed: "mark_target_failed safe now t e st = Inr st' \<Longrightarrow> intent_step st st'"

inductive reachable_intents :: "intent_store \<Rightarrow> bool" where
  empty_store: "reachable_intents \<lparr>is_intents = [], is_targets = []\<rparr>"
| next_store: "reachable_intents st \<Longrightarrow> intent_step st st' \<Longrightarrow> reachable_intents st'"

lemma intent_step_ok: "intent_step st st' \<Longrightarrow> intents_ok st \<Longrightarrow> intents_ok st'"
  by (induction rule: intent_step.induct)
    (blast intro: create_intent_ok add_targets_ok add_target_batch_ok update_payload_ok claim_recovery_ok
      renew_active_attempt_ok mark_unresolved_ok fail_intent_ok complete_intent_ok mark_target_ok point_to_event_ok)+

lemma reachable_intents_ok_aux: "reachable_intents st \<Longrightarrow> intents_ok st"
proof (induction rule: reachable_intents.induct)
  case empty_store
  show ?case by (simp add: intents_ok_def targets_ok_def)
next
  case (next_store st st')
  then show ?case by (blast intro: intent_step_ok)
qed

text \<open>
  In every store the operations can produce, an intent has between one and three attempts,
  holds a lease exactly while it is active, and has a completion time when it is finished; no
  two share an operation key in one scope; the targets of an intent are numbered 0, 1, 2, ...
  without a gap, name each memory once and are at most 5000, whichever mixture of the two
  insertion operations made them.
\<close>

lemma reachable_intents_ok:
  assumes "reachable_intents st"
  shows "intents_ok st"
  using assms by (rule reachable_intents_ok_aux)

section \<open>Witnesses\<close>

definition sample_intent :: mutation_intent where
  "sample_intent = new_intent JObj ''i1'' ''k'' 0 ''p'' ''a'' ''e'' ''memory.delete'' []"

definition sample_store :: intent_store where
  "sample_store = \<lparr>is_intents = [sample_intent],
     is_targets = map (target_row (\<lambda>n. ''t'') 0 ''i1'') [(0, ''m1''), (1, ''m2'')]\<rparr>"

lemma sample_created:
  "create_intent JObj ''i1'' (\<lambda>n. ''t'') ''tok'' 0 ''p'' ''a'' ''e'' ''memory.delete'' [] [''m1'', ''m2''] (Some ''k'')
     \<lparr>is_intents = [], is_targets = []\<rparr> = Inr (sample_intent, sample_store)"
  by (simp add: create_intent_def sample_intent_def sample_store_def add_targets_def insert_targets_def
      unknown_targets_def intent_targets_def find_by_operation_key_def dedup_def MAX_TARGETS_def
      upt_rec new_intent_def Let_def)

lemma sample_reachable_intents: "reachable_intents sample_store"
  by (rule reachable_intents.next_store [OF reachable_intents.empty_store intent_step.created [OF sample_created]])

lemma sample_recovery:
  "claim_recovery JObj LEASE sample_intent sample_store =
     Inr (True, sample_store\<lparr>is_intents := [reclaim LEASE sample_intent sample_intent]\<rparr>)"
  by (simp add: claim_recovery_def lease_held_def sample_store_def count_where_def update_where_def
      MAX_ATTEMPTS_def sample_intent_def new_intent_def)

lemma reachable_intents_ok_witness: "intents_ok sample_store \<and> is_intents sample_store \<noteq> []"
  using reachable_intents_ok [OF sample_reachable_intents] by (simp add: sample_store_def)

lemma recovery_claimed_once_witness:
  "claim_recovery JObj (2 * LEASE) sample_intent
     (sample_store\<lparr>is_intents := [reclaim LEASE sample_intent sample_intent]\<rparr>) \<noteq> Inr (True, sample_store)"
  by (rule recovery_claimed_once [OF sample_recovery])

lemma stale_attempt_fenced_witness:
  "require_active_attempt ''i1'' 1 None
     (sample_store\<lparr>is_intents := [reclaim LEASE sample_intent sample_intent]\<rparr>)
   = raise MutationFence ''durable mutation attempt lost its fence''"
  using stale_attempt_fenced [OF _ sample_recovery, of 0]
  by (simp add: sample_store_def sample_intent_def new_intent_def observes_exhausted_add_def
      LEASE_def LEASE_SECONDS_def)

end
