(* ===== verification/Paging.thy ===== *)
theory Paging
  imports Prelude
begin

text \<open>
  Keyset pagination, the protocol of the scans over stored memories: a page is the next rows in
  key order after the key of the last row seen.  The interface is the page function with the
  rows it ranges over; the lemma says that following the pages to the end visits every row
  exactly once, in order.
\<close>

text \<open>The pages a client reads, with at most \<open>fuel\<close> requests.\<close>

fun read_pages :: "('k option \<Rightarrow> 'r list) \<Rightarrow> ('r \<Rightarrow> 'k) \<Rightarrow> nat \<Rightarrow> 'k option \<Rightarrow> 'r list list" where
  "read_pages page key 0 after = []"
| "read_pages page key (Suc fuel) after =
     (if page after = [] then []
      else page after # read_pages page key fuel (Some (key (last (page after)))))"

definition beyond :: "('r \<Rightarrow> 'k::linorder) \<Rightarrow> 'k option \<Rightarrow> 'r \<Rightarrow> bool" where
  "beyond key after r = (case after of None \<Rightarrow> True | Some k \<Rightarrow> k < key r)"

locale keyset =
  fixes page :: "'t \<Rightarrow> 'k::linorder option \<Rightarrow> 'r list"
    and key :: "'r \<Rightarrow> 'k"
    and all_rows :: "'t \<Rightarrow> 'r list"
    and keys_unique :: "'t \<Rightarrow> bool"
    and size :: nat
  assumes size_pos: "0 < size"
    and rows_sorted: "keys_unique t \<Longrightarrow> sorted_wrt (\<lambda>x y. key x < key y) (all_rows t)"
    and page_def: "page t after = take size (filter (beyond key after) (all_rows t))"
begin

lemma filter_sorted: "keys_unique t \<Longrightarrow> sorted_wrt (\<lambda>x y. key x < key y) (filter p (all_rows t))"
  using rows_sorted by (rule sorted_wrt_filter)

lemma rest_after_page:
  assumes ok: "keys_unique t" and nonempty: "page t after \<noteq> []"
  shows "filter (beyond key (Some (key (last (page t after))))) (all_rows t)
    = drop size (filter (beyond key after) (all_rows t))"
proof -
  let ?R = "filter (beyond key after) (all_rows t)"
  let ?k = "key (last (page t after))"
  have split: "page t after @ drop size ?R = ?R" by (simp add: page_def)
  have srt: "sorted_wrt (\<lambda>x y. key x < key y) (page t after @ drop size ?R)"
    unfolding split by (rule filter_sorted [OF ok])
  have late: "?k < key y" if "y \<in> set (drop size ?R)" for y
    using srt nonempty that by (simp add: sorted_wrt_append)
  have early: "\<not> ?k < key x" if "x \<in> set (page t after)" for x
  proof -
    obtain xs where xs: "page t after = xs @ [last (page t after)]"
      using nonempty by (metis append_butlast_last_id)
    then have "x = last (page t after) \<or> key x < ?k"
      using srt that by (metis (no_types, lifting) Un_iff empty_iff list.set(1) set_ConsD set_append
          list.set_intros(1) sorted_wrt_append)
    then show ?thesis by auto
  qed
  have bk: "last (page t after) \<in> set ?R"
    using nonempty split by (metis Un_iff last_in_set set_append)
  have sub: "beyond key (Some ?k) r \<Longrightarrow> beyond key after r" for r
    using bk by (auto simp: beyond_def split: option.splits)
  have "filter (beyond key (Some ?k)) (all_rows t) = filter (beyond key (Some ?k)) ?R"
    using sub by (auto simp: filter_filter intro!: filter_cong)
  also have "\<dots> = filter (beyond key (Some ?k)) (page t after) @ filter (beyond key (Some ?k)) (drop size ?R)"
    using split by (metis filter_append)
  also have "\<dots> = drop size ?R"
    using early late by (simp add: beyond_def)
  finally show ?thesis .
qed

lemma read_pages_from:
  "keys_unique t \<Longrightarrow> length (filter (beyond key after) (all_rows t)) < fuel \<Longrightarrow>
     concat (read_pages (page t) key fuel after) = filter (beyond key after) (all_rows t)"
proof (induction fuel arbitrary: after)
  case (Suc fuel)
  let ?R = "filter (beyond key after) (all_rows t)"
  show ?case
  proof (cases "page t after = []")
    case True
    then have "?R = []" using size_pos by (simp add: page_def)
    with True show ?thesis by simp
  next
    case False
    note rest = rest_after_page [OF Suc.prems(1) False]
    have "?R \<noteq> []" using False by (auto simp: page_def)
    then have "0 < length ?R" by (rule length_greater_0_conv [THEN iffD2])
    then have "length (drop size ?R) < fuel"
      using Suc.prems(2) size_pos unfolding length_drop by linarith
    then have "concat (read_pages (page t) key fuel (Some (key (last (page t after))))) = drop size ?R"
      using Suc.IH [of "Some (key (last (page t after)))"] Suc.prems(1) unfolding rest by simp
    then have "concat (read_pages (page t) key (Suc fuel) after) = page t after @ drop size ?R"
      using False by simp
    also have "\<dots> = ?R" unfolding page_def by (rule append_take_drop_id)
    finally show ?thesis .
  qed
qed simp

lemma read_all:
  assumes "keys_unique t" "length (all_rows t) < fuel"
  shows "concat (read_pages (page t) key fuel None) = (all_rows t)"
proof -
  have "filter (beyond key None) (all_rows t) = (all_rows t)" by (simp add: beyond_def)
  then show ?thesis using read_pages_from [of t None fuel] assms by simp
qed

lemma page_bounded: "length (page t after) \<le> size"
  by (simp add: page_def)

end

text \<open>Rows sorted by a key that tells them apart are in strictly increasing order.\<close>

lemma sort_key_strict:
  assumes "inj_on k (set xs)" "distinct xs"
  shows "sorted_wrt (\<lambda>x y. k x < k y) (sort_key k xs)"
proof -
  have "distinct (map k (sort_key k xs))" using assms by (simp add: distinct_map)
  then have "sorted_wrt (<) (map k (sort_key k xs))"
    by (simp add: strict_sorted_iff)
  then show ?thesis by (simp add: sorted_wrt_map)
qed

lemma filter_sort_key: "filter p (sort_key k xs) = sort_key k (filter p xs)"
  by (simp add: filter_sort)

end
