(* ===== verification/Memory_Store.thy ===== *)
theory Memory_Store
  imports Models Py_Text Explorer_Filters Paging
begin

text \<open>
  The index of stored memories (\<open>MemoryIndexRepository\<close> in \<open>store/repositories.py\<close>): lookups,
  keyset scans, the explorer query with its SQL and its Python evaluation, the bookkeeping of
  consolidation scans and scope markers, and the operations that write projections.  \<open>now\<close> is
  the time that \<open>updated_at\<close> takes on every update.
\<close>

section \<open>Lookups\<close>

definition live :: "memory_index \<Rightarrow> bool" where
  "live m = (mi_deleted_at m = None)"

definition active :: "memory_index \<Rightarrow> bool" where
  "active m = (live m \<and> mi_consolidation_state m = ''ACTIVE'')"

definition opt_is :: "string option \<Rightarrow> string option \<Rightarrow> bool" where
  "opt_is wanted actual = (wanted = None \<or> actual = wanted)"

definition get_memory ::
    "string \<Rightarrow> string \<Rightarrow> string option \<Rightarrow> bool \<Rightarrow> memory_index list \<Rightarrow> memory_index option" where
  "get_memory pid mid app include_deleted rows =
     List.find (\<lambda>m. mi_project_id m = pid \<and> mi_mem0_memory_id m = mid \<and> opt_is app (mi_app_id m)
       \<and> (include_deleted \<or> live m)) rows"

definition list_memories_by_ids ::
    "string \<Rightarrow> string option \<Rightarrow> string list \<Rightarrow> bool \<Rightarrow> bool \<Rightarrow> memory_index list \<Rightarrow> memory_index list" where
  "list_memories_by_ids pid app ids include_deleted include_shadowed rows =
     concat (map (\<lambda>batch. filter (\<lambda>m. mi_project_id m = pid \<and> mi_mem0_memory_id m \<in> set batch
         \<and> opt_is app (mi_app_id m) \<and> (include_deleted \<or> live m)
         \<and> (include_shadowed \<or> mi_consolidation_state m = ''ACTIVE'')) rows)
       (chunks 400 (dedup ids)))"

definition list_scoped_memory_ids ::
    "string \<Rightarrow> string list \<Rightarrow> string option \<Rightarrow> string option \<Rightarrow> string option \<Rightarrow> string option \<Rightarrow>
     bool \<Rightarrow> memory_index list \<Rightarrow> string set" where
  "list_scoped_memory_ids pid ids user app agent run current_only rows =
     mi_mem0_memory_id ` set (filter (\<lambda>m. mi_project_id m = pid \<and> live m \<and> mi_mem0_memory_id m \<in> set ids
       \<and> (current_only \<longrightarrow> mi_consolidation_state m = ''ACTIVE'') \<and> opt_is user (mi_user_id m)
       \<and> opt_is app (mi_app_id m) \<and> opt_is agent (mi_agent_id m) \<and> opt_is run (mi_run_id m)) rows)"

section \<open>Keyset scans\<close>

type_synonym memory_key = "time \<times> string"

definition memory_key :: "memory_index \<Rightarrow> memory_key" where
  "memory_key m = (mi_created_at m, mi_mem0_memory_id m)"

record scan_scope =
  sc_project_id :: string
  sc_app_id :: "string option"
  sc_project_wide :: bool
  sc_user_id :: "string option"
  sc_agent_id :: "string option"
  sc_run_id :: "string option"
  sc_snapshot_at :: time
  sc_include_expired :: bool

definition scan_predicates :: "scan_scope \<Rightarrow> memory_index \<Rightarrow> bool" where
  "scan_predicates sc m =
     (mi_project_id m = sc_project_id sc \<and> active m \<and> mi_updated_at m \<le> sc_snapshot_at sc
      \<and> (sc_project_wide sc \<or> mi_app_id m = sc_app_id sc)
      \<and> opt_is (sc_user_id sc) (mi_user_id m) \<and> opt_is (sc_agent_id sc) (mi_agent_id m)
      \<and> opt_is (sc_run_id sc) (mi_run_id m)
      \<and> (sc_include_expired sc
         \<or> (case mi_expires_at m of None \<Rightarrow> True | Some t \<Rightarrow> t > sc_snapshot_at sc)))"

definition find_scan_upper :: "scan_scope \<Rightarrow> memory_index list \<Rightarrow> memory_key option" where
  "find_scan_upper sc rows =
     (case rev (sort_key memory_key (filter (scan_predicates sc) rows)) of
        [] \<Rightarrow> None | m # _ \<Rightarrow> Some (memory_key m))"

definition count_scan_rows :: "scan_scope \<Rightarrow> memory_key option \<Rightarrow> memory_index list \<Rightarrow> nat" where
  "count_scan_rows sc top_key rows =
     (case top_key of None \<Rightarrow> 0
      | Some u \<Rightarrow> count_where (\<lambda>m. scan_predicates sc m \<and> memory_key m \<le> u) rows)"

definition list_scan_candidates ::
    "scan_scope \<Rightarrow> memory_key option \<Rightarrow> memory_key option \<Rightarrow> int \<Rightarrow> memory_index list \<Rightarrow> memory_index list" where
  "list_scan_candidates sc top_key after limit rows =
     (case top_key of None \<Rightarrow> []
      | Some u \<Rightarrow>
          if limit < 1 then []
          else take (nat limit) (sort_key memory_key
            (filter (\<lambda>m. scan_predicates sc m \<and> memory_key m \<le> u \<and> beyond memory_key after m) rows)))"

text \<open>The filters of a bulk deletion name a user, an agent or a run; empty text is no filter.\<close>

definition str_filter :: "string dict \<Rightarrow> string \<Rightarrow> string option \<Rightarrow> bool" where
  "str_filter filters field actual =
     (case dget filters field of None \<Rightarrow> True | Some v \<Rightarrow> v = [] \<or> actual = Some v)"

definition bulk_delete_match ::
    "string \<Rightarrow> string \<Rightarrow> string dict \<Rightarrow> time option \<Rightarrow> memory_index \<Rightarrow> bool" where
  "bulk_delete_match pid app filters created_at_lte m =
     (mi_project_id m = pid \<and> mi_app_id m = Some app \<and> active m
      \<and> str_filter filters ''user_id'' (mi_user_id m) \<and> str_filter filters ''agent_id'' (mi_agent_id m)
      \<and> str_filter filters ''run_id'' (mi_run_id m)
      \<and> (case created_at_lte of None \<Rightarrow> True | Some t \<Rightarrow> mi_created_at m \<le> t))"

definition count_bulk_delete_candidates ::
    "string \<Rightarrow> string \<Rightarrow> string dict \<Rightarrow> time option \<Rightarrow> memory_index list \<Rightarrow> nat" where
  "count_bulk_delete_candidates pid app filters created_at_lte rows =
     count_where (bulk_delete_match pid app filters created_at_lte) rows"

definition cursor_key :: "time option \<Rightarrow> string option \<Rightarrow> memory_key option" where
  "cursor_key t mid = (case (t, mid) of (Some a, Some b) \<Rightarrow> Some (a, b) | _ \<Rightarrow> None)"

definition list_bulk_delete_candidates ::
    "string \<Rightarrow> string \<Rightarrow> string dict \<Rightarrow> time option \<Rightarrow> time option \<Rightarrow> string option \<Rightarrow> int \<Rightarrow>
     memory_index list \<Rightarrow> memory_index list res" where
  "list_bulk_delete_candidates pid app filters created_at_lte after_created_at after_memory_id limit rows =
     (if limit < 1 \<or> limit > 200
      then value_error ''bulk delete candidate limit must be between 1 and 200''
      else if (after_created_at = None) \<noteq> (after_memory_id = None)
      then value_error ''bulk delete candidate cursor is incomplete''
      else Inr (take (nat limit) (sort_key memory_key
        (filter (\<lambda>m. bulk_delete_match pid app filters created_at_lte m
           \<and> beyond memory_key (cursor_key after_created_at after_memory_id) m) rows))))"

definition list_reconcile_stale_candidates ::
    "string \<Rightarrow> string option \<Rightarrow> time \<Rightarrow> time option \<Rightarrow> string option \<Rightarrow> int \<Rightarrow> memory_index list \<Rightarrow>
     memory_index list res" where
  "list_reconcile_stale_candidates pid app updated_at_lte after_created_at after_memory_id limit rows =
     (if limit < 1 \<or> limit > 200
      then value_error ''reconcile candidate batch limit must be between 1 and 200''
      else if (after_created_at = None) \<noteq> (after_memory_id = None)
      then value_error ''reconcile candidate cursor is incomplete''
      else Inr (take (nat limit) (sort_key memory_key
        (filter (\<lambda>m. mi_project_id m = pid \<and> live m \<and> mi_updated_at m \<le> updated_at_lte
           \<and> opt_is app (mi_app_id m)
           \<and> beyond memory_key (cursor_key after_created_at after_memory_id) m) rows))))"

definition json_filter :: "json \<Rightarrow> string option \<Rightarrow> bool" where
  "json_filter wanted actual = (case wanted of JNull \<Rightarrow> True | JStr s \<Rightarrow> actual = Some s | _ \<Rightarrow> False)"

definition list_export_candidates :: "string \<Rightarrow> json dict \<Rightarrow> memory_index list \<Rightarrow> memory_index list res" where
  "list_export_candidates pid filters rows =
     (let base = (\<lambda>m. mi_project_id m = pid \<and> active m
            \<and> json_filter (jget filters ''user_id'') (mi_user_id m)
            \<and> json_filter (jget filters ''app_id'') (mi_app_id m)
            \<and> json_filter (jget filters ''agent_id'') (mi_agent_id m)
            \<and> json_filter (jget filters ''run_id'') (mi_run_id m));
          listed = (\<lambda>p. sort_key memory_key (filter p rows))
      in case jget filters ''memory_ids'' of
           JNull \<Rightarrow> Inr (listed base)
         | JList ids \<Rightarrow>
             if ids = [] \<or> length ids > 1000
               \<or> list_ex (\<lambda>i. case i of JStr s \<Rightarrow> s = [] | _ \<Rightarrow> True) ids
             then value_error ''memory_ids export filter is invalid''
             else Inr (listed (\<lambda>m. base m \<and> JStr (mi_mem0_memory_id m) \<in> set ids))
         | _ \<Rightarrow> value_error ''memory_ids export filter is invalid'')"

section \<open>Explorer queries\<close>

definition memory_column :: "string \<Rightarrow> memory_index \<Rightarrow> string option" where
  "memory_column field m =
     (if field = ''user_id'' then mi_user_id m else if field = ''agent_id'' then mi_agent_id m
      else if field = ''app_id'' then mi_app_id m else if field = ''run_id'' then mi_run_id m
      else if field = ''memory_id'' then Some (mi_mem0_memory_id m)
      else mi_category m)"

definition entity_column :: "string \<Rightarrow> memory_index \<Rightarrow> string option" where
  "entity_column kind m =
     (if kind = ''user'' then mi_user_id m else if kind = ''agent'' then mi_agent_id m
      else if kind = ''app'' then mi_app_id m else mi_run_id m)"

fun scalar_of :: "filter_value \<Rightarrow> string" where
  "scalar_of (FScalar v) = v" | "scalar_of _ = []"

fun many_of :: "filter_value \<Rightarrow> string list" where
  "many_of (FMany vs) = vs" | "many_of _ = []"

text \<open>SQL conditions have three truth values: a comparison with a null column is neither.\<close>

type_synonym sql_bool = "bool option"

definition sql_and :: "sql_bool list \<Rightarrow> sql_bool" where
  "sql_and bs = (if Some False \<in> set bs then Some False else if None \<in> set bs then None else Some True)"

definition sql_or :: "sql_bool list \<Rightarrow> sql_bool" where
  "sql_or bs = (if Some True \<in> set bs then Some True else if None \<in> set bs then None else Some False)"

definition scalar_filter_expression :: "explorer_filter \<Rightarrow> memory_index \<Rightarrow> sql_bool" where
  "scalar_filter_expression f m =
     (if ef_field f = ''entity_type'' then
        (if ef_operator f = ''in''
         then sql_or (map (\<lambda>v. Some (entity_column v m \<noteq> None)) (many_of (ef_value f)))
         else if ef_operator f = ''equals'' then Some (entity_column (scalar_of (ef_value f)) m \<noteq> None)
         else Some (entity_column (scalar_of (ef_value f)) m = None))
      else if ef_operator f = ''equals''
      then map_option (\<lambda>x. x = scalar_of (ef_value f)) (memory_column (ef_field f) m)
      else if ef_operator f = ''not_equals''
      then map_option (\<lambda>x. x \<noteq> scalar_of (ef_value f)) (memory_column (ef_field f) m)
      else map_option (\<lambda>x. x \<in> set (many_of (ef_value f))) (memory_column (ef_field f) m))"

definition metadata_projection :: "memory_index \<Rightarrow> json dict" where
  "metadata_projection m = (case mi_metadata_projection_json m of Some (JObj d) \<Rightarrow> d | _ \<Rightarrow> [])"

definition matches_filter :: "memory_index \<Rightarrow> explorer_filter \<Rightarrow> bool" where
  "matches_filter m f =
     (if ef_field f = ''metadata'' then
        (case ef_value f of FPair k v \<Rightarrow> jget (metadata_projection m) k = JStr v | _ \<Rightarrow> False)
      else if ef_field f = ''entity_type'' then
        (if ef_operator f = ''in'' then list_ex (\<lambda>v. entity_column v m \<noteq> None) (many_of (ef_value f))
         else let present = entity_column (scalar_of (ef_value f)) m \<noteq> None
              in if ef_operator f = ''equals'' then present else \<not> present)
      else
        (let actual = memory_column (ef_field f) m in
         if ef_operator f = ''equals'' then actual = Some (scalar_of (ef_value f))
         else if ef_operator f = ''not_equals''
         then actual \<noteq> None \<and> actual \<noteq> Some (scalar_of (ef_value f))
         else (case actual of None \<Rightarrow> False | Some x \<Rightarrow> x \<in> set (many_of (ef_value f)))))"

definition matches_query_filters :: "memory_index \<Rightarrow> explorer_query \<Rightarrow> bool" where
  "matches_query_filters m q =
     (if eq_match q = ''all'' then list_all (matches_filter m) (eq_filters q)
      else list_ex (matches_filter m) (eq_filters q))"

definition memory_order_by :: "explorer_query \<Rightarrow> memory_index list \<Rightarrow> memory_index list" where
  "memory_order_by q ms =
     (if eq_sort q = ''created_at_asc'' then sort_key memory_key ms else rev (sort_key memory_key ms))"

record memory_page =
  mp_items :: "memory_index list"
  mp_total :: nat
  mp_scan_count :: nat

definition query_scope :: "string \<Rightarrow> string option \<Rightarrow> explorer_query \<Rightarrow> memory_index \<Rightarrow> bool" where
  "query_scope pid app q m =
     (mi_project_id m = pid \<and> active m \<and> opt_is app (mi_app_id m)
      \<and> (case from_at (eq_date_range q) of None \<Rightarrow> True | Some d \<Rightarrow> mi_created_at m \<ge> instant d)
      \<and> (case to_at (eq_date_range q) of None \<Rightarrow> True | Some d \<Rightarrow> mi_created_at m \<le> instant d))"

definition sql_where :: "explorer_query \<Rightarrow> memory_index \<Rightarrow> bool" where
  "sql_where q m =
     (let exprs = map (\<lambda>f. scalar_filter_expression f m)
            (filter (\<lambda>f. ef_field f \<noteq> ''metadata'') (eq_filters q))
      in exprs = [] \<or> (if eq_match q = ''all'' then sql_and exprs else sql_or exprs) = Some True)"

definition page_slice :: "nat \<Rightarrow> nat \<Rightarrow> 'a list \<Rightarrow> 'a list" where
  "page_slice offset limit xs = take limit (drop offset xs)"

definition query_project_memories ::
    "string \<Rightarrow> string option \<Rightarrow> explorer_query \<Rightarrow> int option \<Rightarrow> int option \<Rightarrow> memory_index list \<Rightarrow>
     memory_page res" where
  "query_project_memories pid app q window_offset window_limit rows =
     (let offset = (case window_offset of None \<Rightarrow> (eq_page q - 1) * eq_page_size q | Some o' \<Rightarrow> o');
          limit = (case window_limit of None \<Rightarrow> eq_page_size q | Some l \<Rightarrow> l)
      in if offset < 0 \<or> limit < 1 then value_error ''memory query window is invalid''
         else if filter (\<lambda>f. ef_field f = ''metadata'') (eq_filters q) = [] then
           let hits = filter (\<lambda>m. query_scope pid app q m \<and> sql_where q m) rows
           in Inr \<lparr>mp_items = page_slice (nat offset) (nat limit) (memory_order_by q hits),
                   mp_total = length hits, mp_scan_count = 0\<rparr>
         else
           let cand = filter (\<lambda>m. query_scope pid app q m \<and> (eq_match q = ''all'' \<longrightarrow> sql_where q m)) rows
           in if int (length cand) > EXPLORER_RECORD_HORIZON
              then value_error ''metadata filter scan exceeds 5000 records''
              else
                let hits = filter (\<lambda>m. matches_query_filters m q) (memory_order_by q cand)
                in Inr \<lparr>mp_items = page_slice (nat offset) (nat limit) hits,
                        mp_total = length hits, mp_scan_count = length cand\<rparr>)"

section \<open>Consolidation bookkeeping\<close>

definition in_app :: "string \<Rightarrow> string \<Rightarrow> memory_index \<Rightarrow> bool" where
  "in_app pid app m = (mi_project_id m = pid \<and> mi_app_id m = Some app)"

definition mark_scope_dirty ::
    "time \<Rightarrow> string \<Rightarrow> string \<Rightarrow> time \<Rightarrow> memory_index list \<Rightarrow> memory_index list" where
  "mark_scope_dirty now pid app observed_at rows =
     update_where (\<lambda>m. in_app pid app m \<and> active m \<and> mi_last_observed_at m = None)
       (\<lambda>m. m\<lparr>mi_last_observed_at := Some observed_at, mi_updated_at := now\<rparr>) rows"

definition needs_scope_markers :: "string \<Rightarrow> string \<Rightarrow> memory_index \<Rightarrow> bool" where
  "needs_scope_markers pid app m = (in_app pid app m \<and> live m \<and> mi_scope_markers_verified m = 0)"

definition list_scope_marker_backfill_candidates ::
    "string \<Rightarrow> string \<Rightarrow> time \<Rightarrow> int \<Rightarrow> memory_index list \<Rightarrow> memory_index list res" where
  "list_scope_marker_backfill_candidates pid app retry_before limit rows =
     (if limit < 1 \<or> limit > 1000
      then value_error ''scope marker backfill limit must be between 1 and 1000''
      else Inr (take (nat limit) (sort_key
        (\<lambda>m. (case mi_scope_marker_backfill_attempted_at m of None \<Rightarrow> (0 :: nat, 0) | Some t \<Rightarrow> (1, t),
           mi_created_at m, mi_mem0_memory_id m))
        (filter (\<lambda>m. needs_scope_markers pid app m
           \<and> (case mi_scope_marker_backfill_attempted_at m of None \<Rightarrow> True | Some t \<Rightarrow> t \<le> retry_before))
          rows))))"

definition count_scope_marker_backfill_required :: "string \<Rightarrow> string \<Rightarrow> memory_index list \<Rightarrow> nat" where
  "count_scope_marker_backfill_required pid app rows = count_where (needs_scope_markers pid app) rows"

definition scope_marker_backfill_counts ::
    "string \<Rightarrow> string \<Rightarrow> memory_index list \<Rightarrow> (string \<times> nat) list" where
  "scope_marker_backfill_counts pid app rows =
     (let pending = filter (needs_scope_markers pid app) rows in
      map (\<lambda>s. (s, count_where (\<lambda>m. mi_scope_marker_backfill_status m = s) pending))
        (dedup (map mi_scope_marker_backfill_status pending)))"

definition mark_scope_markers_verified ::
    "time \<Rightarrow> string \<Rightarrow> string \<Rightarrow> string \<Rightarrow> time option \<Rightarrow> memory_index list \<Rightarrow> bool \<times> memory_index list" where
  "mark_scope_markers_verified now pid app mid verified_at rows =
     (let hit = (\<lambda>m. in_app pid app m \<and> mi_mem0_memory_id m = mid \<and> live m);
          attempted = (case verified_at of None \<Rightarrow> now | Some t \<Rightarrow> t)
      in (count_where hit rows \<noteq> 0,
          update_where hit (\<lambda>m. m\<lparr>mi_scope_markers_verified := 1,
             mi_scope_marker_backfill_status := ''VERIFIED'',
             mi_scope_marker_backfill_attempted_at := Some attempted, mi_updated_at := now\<rparr>) rows))"

definition mark_scope_marker_backfill_outcome ::
    "time \<Rightarrow> string \<Rightarrow> string \<Rightarrow> string \<Rightarrow> string \<Rightarrow> time \<Rightarrow> memory_index list \<Rightarrow>
     (bool \<times> memory_index list) res" where
  "mark_scope_marker_backfill_outcome now pid app mid status attempted_at rows =
     (if status \<notin> set [''CONFLICT'', ''MISSING'']
      then value_error ''invalid scope marker backfill outcome''
      else
        let hit = (\<lambda>m. needs_scope_markers pid app m \<and> mi_mem0_memory_id m = mid) in
        Inr (count_where hit rows \<noteq> 0,
          update_where hit (\<lambda>m. m\<lparr>mi_scope_marker_backfill_status := status,
             mi_scope_marker_backfill_attempted_at := Some attempted_at, mi_updated_at := now\<rparr>) rows))"

definition is_dirty :: "string \<Rightarrow> string \<Rightarrow> memory_index \<Rightarrow> bool" where
  "is_dirty pid app m =
     (in_app pid app m \<and> active m \<and> mi_pinned m = 0 \<and> mi_scope_markers_verified m = 1
      \<and> mi_content_hash m \<noteq> None
      \<and> (case mi_last_observed_at m of None \<Rightarrow> False
         | Some t \<Rightarrow> (case mi_last_consolidation_scan_at m of None \<Rightarrow> True | Some s \<Rightarrow> t > s)))"

definition observed_key :: "memory_index \<Rightarrow> time \<times> string" where
  "observed_key m = (case mi_last_observed_at m of None \<Rightarrow> 0 | Some t \<Rightarrow> t, mi_mem0_memory_id m)"

definition list_dirty_anchors ::
    "string \<Rightarrow> string \<Rightarrow> time option \<Rightarrow> string option \<Rightarrow> int \<Rightarrow> memory_index list \<Rightarrow> memory_index list res" where
  "list_dirty_anchors pid app after_last_observed_at after_memory_id limit rows =
     (if limit < 1 \<or> limit > 1000 then value_error ''dirty anchor limit must be between 1 and 1000''
      else if (after_last_observed_at = None) \<noteq> (after_memory_id = None)
      then value_error ''dirty anchor cursor is incomplete''
      else Inr (take (nat limit) (sort_key observed_key
        (filter (\<lambda>m. is_dirty pid app m
           \<and> beyond observed_key (cursor_key after_last_observed_at after_memory_id) m) rows))))"

definition count_dirty_anchors :: "string \<Rightarrow> string \<Rightarrow> memory_index list \<Rightarrow> nat" where
  "count_dirty_anchors pid app rows = count_where (is_dirty pid app) rows"

definition mark_anchors_scanned ::
    "time \<Rightarrow> string \<Rightarrow> string \<Rightarrow> string list \<Rightarrow> time \<Rightarrow> memory_index list \<Rightarrow> nat \<times> memory_index list" where
  "mark_anchors_scanned now pid app ids scan_cutoff rows =
     (if ids = [] then (0, rows)
      else
        let hit = (\<lambda>m. in_app pid app m \<and> mi_mem0_memory_id m \<in> set ids
              \<and> (case mi_last_observed_at m of None \<Rightarrow> False | Some t \<Rightarrow> t \<le> scan_cutoff))
        in (count_where hit rows,
            update_where hit (\<lambda>m. m\<lparr>mi_last_consolidation_scan_at := Some scan_cutoff,
               mi_updated_at := now\<rparr>) rows))"

definition list_exact_group_peers ::
    "memory_index \<Rightarrow> int \<Rightarrow> memory_index list \<Rightarrow> memory_index list res" where
  "list_exact_group_peers anchor limit rows =
     (if limit < 1 \<or> limit > 100 then value_error ''exact peer limit must be between 1 and 100''
      else if mi_app_id anchor \<in> {None, Some []} \<or> mi_content_hash anchor \<in> {None, Some []} then Inr []
      else Inr (take (nat limit) (sort_key mi_mem0_memory_id
        (filter (\<lambda>m. mi_project_id m = mi_project_id anchor \<and> mi_app_id m = mi_app_id anchor
           \<and> active m \<and> mi_pinned m = 0 \<and> mi_scope_markers_verified m = 1
           \<and> mi_normalized_type m = mi_normalized_type anchor
           \<and> mi_content_hash m = mi_content_hash anchor
           \<and> mi_user_id m = mi_user_id anchor \<and> mi_agent_id m = mi_agent_id anchor) rows))))"

section \<open>Writing projections\<close>

definition mark_stale :: "time \<Rightarrow> string \<Rightarrow> string set \<Rightarrow> memory_index list \<Rightarrow> nat \<times> memory_index list" where
  "mark_stale now pid ids rows =
     (if ids = {} then (0, rows)
      else
        let hit = (\<lambda>m. mi_project_id m = pid \<and> mi_mem0_memory_id m \<in> ids \<and> live m) in
        (count_where hit rows,
         update_where hit (\<lambda>m. m\<lparr>mi_deleted_at := Some now, mi_updated_at := now\<rparr>) rows))"

text \<open>
  The batches of 200 identifiers of the source touch disjoint rows, so they are one update here;
  a missing expected time is a \<open>KeyError\<close> of the batch that needs it.
\<close>

definition mark_stale_if_unchanged ::
    "time \<Rightarrow> string \<Rightarrow> string option \<Rightarrow> string list \<Rightarrow> time \<Rightarrow> time dict option \<Rightarrow> memory_index list \<Rightarrow>
     (nat \<times> memory_index list) res" where
  "mark_stale_if_unchanged now pid app ids updated_at_lte expected rows =
     (case (case expected of None \<Rightarrow> [] | Some d \<Rightarrow> filter (\<lambda>i. dget d i = None) (dedup ids)) of
        missing # _ \<Rightarrow> raise KeyError missing
      | [] \<Rightarrow>
          let hit = (\<lambda>m. mi_project_id m = pid \<and> mi_mem0_memory_id m \<in> set ids \<and> live m
                \<and> mi_updated_at m \<le> updated_at_lte \<and> opt_is app (mi_app_id m)
                \<and> (case expected of None \<Rightarrow> True
                   | Some d \<Rightarrow> dget d (mi_mem0_memory_id m) = Some (mi_updated_at m)))
          in Inr (count_where hit rows,
                  update_where hit (\<lambda>m. m\<lparr>mi_deleted_at := Some now, mi_updated_at := now\<rparr>) rows))"

text \<open>The fields of a projection; \<open>observed_at\<close> is missing when the content was not read.\<close>

record projection =
  pj_user_id :: "string option"
  pj_app_id :: "string option"
  pj_category :: "string option"
  pj_agent_id :: "string option"
  pj_run_id :: "string option"
  pj_metadata :: "json dict"
  pj_content_hash :: "string option"
  pj_content_length :: "int option"
  pj_normalized_type :: "string option"
  pj_source :: "string option"
  pj_pinned :: bool
  pj_expires_at :: "time option"
  pj_scope_markers_verified :: bool
  pj_observed_at :: "time option"

definition int_of_bool :: "bool \<Rightarrow> int" where
  "int_of_bool b = (if b then 1 else 0)"

definition new_memory :: "string \<Rightarrow> time \<Rightarrow> string \<Rightarrow> string \<Rightarrow> memory_index" where
  "new_memory new_id now pid mid =
     \<lparr>mi_id = new_id, mi_project_id = pid, mi_mem0_memory_id = mid, mi_user_id = None,
      mi_agent_id = None, mi_app_id = None, mi_run_id = None, mi_category = None,
      mi_entity_refs_json = Some (JList []), mi_metadata_projection_json = Some (JObj []),
      mi_content_hash = None, mi_content_length = None, mi_normalized_type = None,
      mi_source = None, mi_pinned = 0, mi_expires_at = None, mi_last_observed_at = None,
      mi_access_count = 0, mi_last_accessed_at = None, mi_last_consolidation_scan_at = None,
      mi_scope_markers_verified = 0, mi_scope_marker_backfill_status = ''PENDING'',
      mi_scope_marker_backfill_attempted_at = None, mi_consolidation_state = ''ACTIVE'',
      mi_shadowed_by_proposal_id = None, mi_created_at = now, mi_updated_at = now,
      mi_deleted_at = None\<rparr>"

definition observed_projection_changed :: "bool \<Rightarrow> projection \<Rightarrow> memory_index \<Rightarrow> bool" where
  "observed_projection_changed is_new p m =
     (is_new \<or> mi_deleted_at m \<noteq> None \<or> mi_user_id m \<noteq> pj_user_id p \<or> mi_agent_id m \<noteq> pj_agent_id p
      \<or> mi_app_id m \<noteq> pj_app_id p \<or> mi_run_id m \<noteq> pj_run_id p \<or> mi_category m \<noteq> pj_category p
      \<or> mi_metadata_projection_json m \<noteq> Some (canon_json (JObj (pj_metadata p)))
      \<or> mi_content_hash m \<noteq> pj_content_hash p \<or> mi_content_length m \<noteq> pj_content_length p
      \<or> mi_normalized_type m \<noteq> pj_normalized_type p \<or> mi_source m \<noteq> pj_source p
      \<or> mi_pinned m \<noteq> int_of_bool (pj_pinned p) \<or> mi_expires_at m \<noteq> pj_expires_at p
      \<or> mi_scope_markers_verified m \<noteq> int_of_bool (pj_scope_markers_verified p))"

definition write_identity :: "projection \<Rightarrow> memory_index \<Rightarrow> memory_index" where
  "write_identity p m = m\<lparr>mi_user_id := pj_user_id p, mi_agent_id := pj_agent_id p,
     mi_app_id := pj_app_id p, mi_run_id := pj_run_id p, mi_category := pj_category p,
     mi_metadata_projection_json := Some (canon_json (JObj (pj_metadata p)))\<rparr>"

text \<open>
  The content columns of an observed projection.  A memory that was deleted or whose content
  changed becomes active again; one that was not scoped before starts its backfill over.
\<close>

definition write_observation :: "bool \<Rightarrow> bool \<Rightarrow> projection \<Rightarrow> time \<Rightarrow> memory_index \<Rightarrow> memory_index" where
  "write_observation is_new touch_observed p observed m =
     (let revived = mi_deleted_at m \<noteq> None \<or> mi_content_hash m \<noteq> pj_content_hash p;
          verified = pj_scope_markers_verified p;
          restart = is_new \<or> mi_scope_markers_verified m = 1
      in m\<lparr>mi_consolidation_state := (if revived then ''ACTIVE'' else mi_consolidation_state m),
           mi_shadowed_by_proposal_id := (if revived then None else mi_shadowed_by_proposal_id m),
           mi_content_hash := pj_content_hash p, mi_content_length := pj_content_length p,
           mi_normalized_type := pj_normalized_type p, mi_source := pj_source p,
           mi_pinned := int_of_bool (pj_pinned p), mi_expires_at := pj_expires_at p,
           mi_scope_markers_verified := int_of_bool verified,
           mi_scope_marker_backfill_status :=
             (if verified then ''VERIFIED'' else if restart then ''PENDING''
              else mi_scope_marker_backfill_status m),
           mi_scope_marker_backfill_attempted_at :=
             (if verified then Some observed else if restart then None
              else mi_scope_marker_backfill_attempted_at m),
           mi_last_observed_at := (if touch_observed then Some observed else mi_last_observed_at m)\<rparr>)"

definition upsert_row :: "time \<Rightarrow> bool \<Rightarrow> bool \<Rightarrow> projection \<Rightarrow> memory_index \<Rightarrow> memory_index" where
  "upsert_row now is_new preserve_observed_at_on_noop p m =
     (let touch = \<not> preserve_observed_at_on_noop \<or> observed_projection_changed is_new p m;
          m1 = write_identity p m;
          m2 = (case pj_observed_at p of None \<Rightarrow> m1 | Some t \<Rightarrow> write_observation is_new touch p t m1)
      in m2\<lparr>mi_deleted_at := None, mi_updated_at := now\<rparr>)"

definition memory_row :: "string \<Rightarrow> string \<Rightarrow> memory_index \<Rightarrow> bool" where
  "memory_row pid mid m = (mi_project_id m = pid \<and> mi_mem0_memory_id m = mid)"

definition upsert_memory ::
    "string \<Rightarrow> time \<Rightarrow> string \<Rightarrow> string \<Rightarrow> projection \<Rightarrow> bool \<Rightarrow> memory_index list \<Rightarrow>
     memory_index \<times> memory_index list" where
  "upsert_memory new_id now pid mid p preserve_observed_at_on_noop rows =
     (case List.find (memory_row pid mid) rows of
        None \<Rightarrow>
          let m = upsert_row now True preserve_observed_at_on_noop p (new_memory new_id now pid mid)
          in (m, rows @ [m])
      | Some m \<Rightarrow>
          let m' = upsert_row now False preserve_observed_at_on_noop p m
          in (m', map (\<lambda>r. if memory_row pid mid r then m' else r) rows))"

text \<open>
  Claiming for an application: the row is written only when it is free, that is absent, deleted
  or already of that application.  The columns of the update start from the old row's state when
  the content is the same.
\<close>

datatype claim_result = Claimed memory_index | Conflict

definition claim_row :: "time \<Rightarrow> projection \<Rightarrow> memory_index \<Rightarrow> memory_index" where
  "claim_row now p m =
     (let m1 = write_identity p m;
          m2 = (case pj_observed_at p of
              None \<Rightarrow> m1
            | Some t \<Rightarrow>
                let same_hash = live m \<and> mi_content_hash m = pj_content_hash p
                in m1\<lparr>mi_content_hash := pj_content_hash p, mi_content_length := pj_content_length p,
                     mi_normalized_type := pj_normalized_type p, mi_source := pj_source p,
                     mi_pinned := int_of_bool (pj_pinned p), mi_expires_at := pj_expires_at p,
                     mi_scope_markers_verified := int_of_bool (pj_scope_markers_verified p),
                     mi_scope_marker_backfill_status :=
                       (if pj_scope_markers_verified p then ''VERIFIED'' else ''PENDING''),
                     mi_scope_marker_backfill_attempted_at :=
                       (if pj_scope_markers_verified p then Some t else None),
                     mi_last_observed_at := Some t,
                     mi_consolidation_state := (if same_hash then mi_consolidation_state m else ''ACTIVE''),
                     mi_shadowed_by_proposal_id :=
                       (if same_hash then mi_shadowed_by_proposal_id m else None)\<rparr>)
      in m2\<lparr>mi_deleted_at := None, mi_updated_at := now\<rparr>)"

definition claimable :: "string \<Rightarrow> string \<Rightarrow> string \<Rightarrow> memory_index \<Rightarrow> bool" where
  "claimable pid mid app m = (memory_row pid mid m \<and> (mi_app_id m = Some app \<or> \<not> live m))"

definition claim_memory ::
    "string \<Rightarrow> time \<Rightarrow> string \<Rightarrow> string \<Rightarrow> string \<Rightarrow> projection \<Rightarrow> memory_index list \<Rightarrow>
     (claim_result \<times> memory_index list) res" where
  "claim_memory new_id now pid mid app p rows =
     (let p' = p\<lparr>pj_app_id := Some app\<rparr> in
      if count_where (claimable pid mid app) rows \<noteq> 0 then
        let rows' = update_where (claimable pid mid app) (claim_row now p') rows in
        (case List.find (memory_row pid mid) rows' of
           None \<Rightarrow> raise RuntimeError ''Claimed memory projection could not be loaded''
         | Some m \<Rightarrow> Inr (Claimed m, rows'))
      else if list_ex (memory_row pid mid) rows then Inr (Conflict, rows)
      else
        let m = claim_row now p' (new_memory new_id now pid mid)
        in Inr (Claimed m, rows @ [m]))"

definition delete_memory_row ::
    "time \<Rightarrow> string \<Rightarrow> string \<Rightarrow> memory_index list \<Rightarrow> memory_index option \<times> memory_index list" where
  "delete_memory_row now pid mid rows =
     (case get_memory pid mid None False rows of
        None \<Rightarrow> (None, rows)
      | Some m \<Rightarrow>
          let m' = m\<lparr>mi_deleted_at := Some now, mi_updated_at := now\<rparr>
          in (Some m', map (\<lambda>r. if memory_row pid mid r then m' else r) rows))"

section \<open>Counting the use of search results\<close>

definition ACCESS_CAP :: int where "ACCESS_CAP = 1000000000"

definition count_access :: "time \<Rightarrow> string \<Rightarrow> string \<Rightarrow> string list \<Rightarrow> memory_index list \<Rightarrow> memory_index list" where
  "count_access now pid app ids rows =
     update_where (\<lambda>m. mi_project_id m = pid \<and> mi_app_id m = Some app \<and> live m \<and> mi_mem0_memory_id m \<in> set ids)
       (\<lambda>m. m\<lparr>mi_access_count := (if mi_access_count m < ACCESS_CAP then mi_access_count m + 1 else mi_access_count m),
              mi_last_accessed_at := Some now\<rparr>) rows"

section \<open>Scans visit every row once\<close>

text \<open>The unique constraint of the table.\<close>

definition unique_memories :: "memory_index list \<Rightarrow> bool" where
  "unique_memories rows = distinct (map (\<lambda>m. (mi_project_id m, mi_mem0_memory_id m)) rows)"

lemma unique_memories_eq:
  "unique_memories rows \<Longrightarrow> x \<in> set rows \<Longrightarrow> y \<in> set rows \<Longrightarrow> mi_project_id x = mi_project_id y \<Longrightarrow>
     mi_mem0_memory_id x = mi_mem0_memory_id y \<Longrightarrow> x = y"
  by (auto simp: unique_memories_def distinct_map dest: inj_onD)

lemma sorted_by_key:
  assumes "unique_memories rows" "\<And>m. p m \<Longrightarrow> mi_project_id m = pid" "\<And>m. snd (k m) = mi_mem0_memory_id m"
  shows "sorted_wrt (\<lambda>x y. k x < k y) (sort_key k (filter p rows))"
proof (rule sort_key_strict)
  show "inj_on k (set (filter p rows))"
  proof (rule inj_onI)
    fix x y assume "x \<in> set (filter p rows)" "y \<in> set (filter p rows)" "k x = k y"
    then show "x = y" using assms(2) assms(3) [of x] assms(3) [of y]
      by (intro unique_memories_eq [OF assms(1)]) auto
  qed
  show "distinct (filter p rows)"
    using assms(1) by (simp add: unique_memories_def distinct_map)
qed

definition scan_rows :: "scan_scope \<Rightarrow> memory_key \<Rightarrow> memory_index list \<Rightarrow> memory_index list" where
  "scan_rows sc u rows = sort_key memory_key (filter (\<lambda>m. scan_predicates sc m \<and> memory_key m \<le> u) rows)"

definition scan_page ::
    "scan_scope \<Rightarrow> memory_key \<Rightarrow> nat \<Rightarrow> memory_index list \<Rightarrow> memory_key option \<Rightarrow> memory_index list" where
  "scan_page sc u n rows after = list_scan_candidates sc (Some u) after (int (Suc n)) rows"

interpretation scan: keyset "scan_page sc u n" memory_key "scan_rows sc u" unique_memories "Suc n" for sc u n
proof unfold_locales
  show "unique_memories t \<Longrightarrow> sorted_wrt (\<lambda>x y. memory_key x < memory_key y) (scan_rows sc u t)" for t
    unfolding scan_rows_def
    by (rule sorted_by_key) (auto simp: scan_predicates_def memory_key_def)
  show "scan_page sc u n t after = take (Suc n) (filter (beyond memory_key after) (scan_rows sc u t))" for t after
    by (simp add: scan_page_def list_scan_candidates_def scan_rows_def filter_sort_key filter_filter conj_ac
        nat_add_distrib del: filter_sort)
qed simp

definition bulk_rows ::
    "string \<Rightarrow> string \<Rightarrow> string dict \<Rightarrow> time option \<Rightarrow> memory_index list \<Rightarrow> memory_index list" where
  "bulk_rows pid app filters lte rows = sort_key memory_key (filter (bulk_delete_match pid app filters lte) rows)"

definition bulk_page ::
    "string \<Rightarrow> string \<Rightarrow> string dict \<Rightarrow> time option \<Rightarrow> memory_index list \<Rightarrow> memory_key option \<Rightarrow> memory_index list" where
  "bulk_page pid app filters lte rows after =
     (case list_bulk_delete_candidates pid app filters lte (map_option fst after) (map_option snd after) 200 rows of
        Inr ms \<Rightarrow> ms | Inl _ \<Rightarrow> [])"

lemma cursor_key_split [simp]: "cursor_key (map_option fst k) (map_option snd k) = k"
  by (cases k) (auto simp: cursor_key_def)

interpretation bulk: keyset "bulk_page pid app filters lte" memory_key "bulk_rows pid app filters lte"
    unique_memories 200 for pid app filters lte
proof unfold_locales
  show "unique_memories t \<Longrightarrow> sorted_wrt (\<lambda>x y. memory_key x < memory_key y) (bulk_rows pid app filters lte t)" for t
    unfolding bulk_rows_def
    by (rule sorted_by_key) (auto simp: bulk_delete_match_def memory_key_def)
  show "bulk_page pid app filters lte t after
      = take 200 (filter (beyond memory_key after) (bulk_rows pid app filters lte t))" for t after
    by (simp add: bulk_page_def list_bulk_delete_candidates_def bulk_rows_def filter_sort_key filter_filter conj_ac
        del: filter_sort)
qed simp

definition dirty_page :: "string \<Rightarrow> string \<Rightarrow> memory_index list \<Rightarrow> memory_key option \<Rightarrow> memory_index list" where
  "dirty_page pid app rows after =
     (case list_dirty_anchors pid app (map_option fst after) (map_option snd after) 100 rows of
        Inr ms \<Rightarrow> ms | Inl _ \<Rightarrow> [])"

interpretation dirty: keyset "dirty_page pid app" observed_key
    "\<lambda>rows. sort_key observed_key (filter (is_dirty pid app) rows)" unique_memories 100 for pid app
proof unfold_locales
  show "unique_memories t \<Longrightarrow>
      sorted_wrt (\<lambda>x y. observed_key x < observed_key y) (sort_key observed_key (filter (is_dirty pid app) t))" for t
    by (rule sorted_by_key) (auto simp: is_dirty_def in_app_def observed_key_def)
  show "dirty_page pid app t after
      = take 100 (filter (beyond observed_key after) (sort_key observed_key (filter (is_dirty pid app) t)))" for t after
    by (simp add: dirty_page_def list_dirty_anchors_def filter_sort_key filter_filter conj_ac
        del: filter_sort)
qed simp

text \<open>
  C15: Reading a memory scan page by page, from the start until a page is empty, returns every
  row of the scan's scope up to its upper bound, each exactly once and in order of creation,
  whatever the page size; their number is the count the scan announces, and no page is longer
  than its limit.
\<close>

theorem scan_pages_complete:
  fixes sc :: scan_scope and u :: memory_key and n :: nat
  assumes "unique_memories rows" "length rows < fuel"
  defines "pages \<equiv> read_pages (\<lambda>after. list_scan_candidates sc (Some u) after (int (Suc n)) rows) memory_key fuel None"
  shows "concat pages = sort_key memory_key (filter (\<lambda>m. scan_predicates sc m \<and> memory_key m \<le> u) rows)
    \<and> distinct (concat pages) \<and> length (concat pages) = count_scan_rows sc (Some u) rows
    \<and> (\<forall>after. length (list_scan_candidates sc (Some u) after (int (Suc n)) rows) \<le> Suc n)"
proof -
  have pages: "pages = read_pages (scan_page sc u n rows) memory_key fuel None"
    unfolding pages_def by (intro arg_cong2 [where f = "\<lambda>p q. read_pages p q fuel None"] ext)
      (simp_all add: scan_page_def)
  have "length (scan_rows sc u rows) < fuel"
    unfolding scan_rows_def length_sort
    by (rule le_less_trans [OF length_filter_le assms(2)])
  then have all: "concat pages = scan_rows sc u rows"
    unfolding pages by (rule scan.read_all [OF assms(1)])
  have "distinct (scan_rows sc u rows)"
    using assms(1) by (simp add: scan_rows_def unique_memories_def distinct_map)
  moreover have "length (scan_rows sc u rows) = count_scan_rows sc (Some u) rows"
    by (simp add: scan_rows_def count_scan_rows_def count_where_def)
  ultimately show ?thesis
    unfolding all using scan.page_bounded [of sc u n rows] by (simp add: scan_rows_def scan_page_def)
qed

section \<open>SQL and Python agree on filters\<close>

lemma sql_bools:
  "sql_and bs = Some True \<longleftrightarrow> (\<forall>b \<in> set bs. b = Some True)"
  "sql_or bs = Some True \<longleftrightarrow> (\<exists>b \<in> set bs. b = Some True)"
  by (auto simp: sql_and_def sql_or_def) (metis (full_types) option.exhaust)

lemma scalar_filter_agrees:
  "ef_field f \<noteq> ''metadata'' \<Longrightarrow> scalar_filter_expression f m = Some True \<longleftrightarrow> matches_filter m f"
  by (cases "memory_column (ef_field f) m")
    (auto simp: scalar_filter_expression_def matches_filter_def sql_bools list_ex_iff Let_def)

lemma sql_where_all:
  "eq_match q = ''all'' \<Longrightarrow> sql_where q m \<longleftrightarrow>
     (\<forall>f \<in> set (eq_filters q). ef_field f \<noteq> ''metadata'' \<longrightarrow> matches_filter m f)"
  by (auto simp: sql_where_def sql_bools scalar_filter_agrees Let_def filter_empty_conv)

lemma sql_where_scalar:
  assumes "filter (\<lambda>f. ef_field f = ''metadata'') (eq_filters q) = []"
  shows "sql_where q m \<longleftrightarrow> eq_filters q = [] \<or> matches_query_filters m q"
proof -
  have f: "\<And>f. f \<in> set (eq_filters q) \<Longrightarrow> ef_field f \<noteq> ''metadata''"
    using assms by (auto simp: filter_empty_conv)
  then have id: "filter (\<lambda>f. ef_field f \<noteq> ''metadata'') (eq_filters q) = eq_filters q"
    by (simp add: filter_id_conv)
  have "sql_where q m \<longleftrightarrow> eq_filters q = [] \<or>
      (if eq_match q = ''all'' then \<forall>f \<in> set (eq_filters q). scalar_filter_expression f m = Some True
       else \<exists>f \<in> set (eq_filters q). scalar_filter_expression f m = Some True)"
    unfolding sql_where_def id by (force simp: sql_bools Let_def image_iff)
  also have "\<dots> \<longleftrightarrow> eq_filters q = [] \<or> matches_query_filters m q"
    using f by (auto simp: matches_query_filters_def list_all_iff list_ex_iff scalar_filter_agrees)
  finally show ?thesis .
qed

lemma filter_memory_order: "filter p (memory_order_by q ms) = memory_order_by q (filter p ms)"
  by (simp add: memory_order_by_def filter_sort_key rev_filter [symmetric] del: filter_sort)

text \<open>What a query means: the matching rows of its scope, in its order.\<close>

definition query_result ::
    "string \<Rightarrow> string option \<Rightarrow> explorer_query \<Rightarrow> memory_index list \<Rightarrow> memory_index list" where
  "query_result pid app q rows =
     memory_order_by q (filter (\<lambda>m. query_scope pid app q m
       \<and> (eq_filters q = [] \<or> matches_query_filters m q)) rows)"

text \<open>
  The rows a query with a metadata filter has to scan: those in its scope that pass every other
  filter when all have to hold, and all those in its scope otherwise.
\<close>

definition metadata_scan :: "string \<Rightarrow> string option \<Rightarrow> explorer_query \<Rightarrow> memory_index list \<Rightarrow> memory_index list" where
  "metadata_scan pid app q rows = filter (\<lambda>m. query_scope pid app q m
     \<and> (if eq_match q = ''all''
         then list_all (\<lambda>f. ef_field f = ''metadata'' \<or> matches_filter m f) (eq_filters q) else True)) rows"


section \<open>Scans make progress\<close>

text \<open>
  Marking anchors as scanned removes exactly the scanned ones from the dirty memories of the
  scope: those among the given identifiers that were last observed up to the cutoff.  A memory
  observed after the cutoff stays dirty, and no other memory of the table changes.
\<close>

lemma scanned_anchors_clean:
  assumes "mark_anchors_scanned now pid app ids cutoff rows = (n, rows')"
  defines "scanned \<equiv> \<lambda>m. in_app pid app m \<and> mi_mem0_memory_id m \<in> set ids
     \<and> (case mi_last_observed_at m of None \<Rightarrow> False | Some t \<Rightarrow> t \<le> cutoff)"
  shows "filter (is_dirty pid app) rows' = filter (\<lambda>m. \<not> scanned m) (filter (is_dirty pid app) rows)
    \<and> filter (\<lambda>m. \<not> scanned m) rows' = filter (\<lambda>m. \<not> scanned m) rows
    \<and> map memory_key rows' = map memory_key rows"
proof (cases "ids = []")
  case True
  then have "\<not> scanned m" for m by (simp add: scanned_def)
  with True assms show ?thesis by (simp add: mark_anchors_scanned_def)
next
  case False
  let ?f = "\<lambda>m. m\<lparr>mi_last_consolidation_scan_at := Some cutoff, mi_updated_at := now\<rparr>"
  have rows': "rows' = map (\<lambda>m. if scanned m then ?f m else m) rows"
    using assms(1) False by (simp add: mark_anchors_scanned_def update_where_def scanned_def Let_def)
  have clean: "scanned m \<Longrightarrow> \<not> is_dirty pid app (?f m)" for m
    by (auto simp: scanned_def is_dirty_def split: option.splits)
  have keep: "scanned (?f m) = scanned m" for m
    by (simp add: scanned_def in_app_def)
  show ?thesis unfolding rows'
    by (intro conjI; induction rows) (auto simp: clean keep memory_key_def)
qed

section \<open>The invariant of the index\<close>

definition memory_ok :: "memory_index \<Rightarrow> bool" where
  "memory_ok m =
     (mi_pinned m \<in> {0, 1} \<and> mi_scope_markers_verified m \<in> {0, 1}
      \<and> (mi_scope_markers_verified m = 1 \<longleftrightarrow> mi_scope_marker_backfill_status m = ''VERIFIED'')
      \<and> mi_scope_marker_backfill_status m \<in> set [''VERIFIED'', ''PENDING'', ''CONFLICT'', ''MISSING'']
      \<and> (mi_shadowed_by_proposal_id m = None \<longleftrightarrow> mi_consolidation_state m = ''ACTIVE'')
      \<and> mi_consolidation_state m \<in> set (''ACTIVE'' # INACTIVE_CONSOLIDATION_STATES))"

definition index_ok :: "memory_index list \<Rightarrow> bool" where
  "index_ok rows = (unique_memories rows \<and> (\<forall>m \<in> set rows. memory_ok m))"

lemma index_ok_map:
  assumes "index_ok rows"
    and "\<And>m. m \<in> set rows \<Longrightarrow> memory_ok m \<Longrightarrow> memory_ok (f m) \<and> mi_project_id (f m) = mi_project_id m
      \<and> mi_mem0_memory_id (f m) = mi_mem0_memory_id m"
  shows "index_ok (map f rows)"
proof -
  have ids: "map (\<lambda>m. (mi_project_id m, mi_mem0_memory_id m)) (map f rows)
      = map (\<lambda>m. (mi_project_id m, mi_mem0_memory_id m)) rows"
    using assms by (simp add: index_ok_def)
  show ?thesis unfolding index_ok_def unique_memories_def ids
    using assms by (auto simp: index_ok_def unique_memories_def)
qed

lemma index_ok_update_where:
  assumes "index_ok rows"
    and "\<And>m. p m \<Longrightarrow> memory_ok m \<Longrightarrow> memory_ok (f m) \<and> mi_project_id (f m) = mi_project_id m
      \<and> mi_mem0_memory_id (f m) = mi_mem0_memory_id m"
  shows "index_ok (update_where p f rows)"
  unfolding update_where_def using assms(2) by (intro index_ok_map [OF assms(1)]) auto

lemma index_ok_replace:
  assumes ok: "index_ok rows" and hit: "List.find (memory_row pid mid) rows = Some m"
    and row: "memory_ok m \<Longrightarrow> memory_ok m' \<and> memory_row pid mid m'"
  shows "index_ok (map (\<lambda>r. if memory_row pid mid r then m' else r) rows)"
proof (rule index_ok_map [OF ok])
  have m: "m \<in> set rows" "memory_row pid mid m" using hit by (auto simp: find_Some_iff)
  fix r assume r: "r \<in> set rows" "memory_ok r"
  show "memory_ok (if memory_row pid mid r then m' else r)
      \<and> mi_project_id (if memory_row pid mid r then m' else r) = mi_project_id r
      \<and> mi_mem0_memory_id (if memory_row pid mid r then m' else r) = mi_mem0_memory_id r"
    using m r row ok by (auto simp: memory_row_def index_ok_def)
qed

lemma index_ok_append:
  assumes "index_ok rows" "\<not> list_ex (memory_row pid mid) rows" "memory_ok m" "memory_row pid mid m"
  shows "index_ok (rows @ [m])"
  using assms by (auto simp: index_ok_def unique_memories_def memory_row_def list_ex_iff)

lemma new_memory_ok: "memory_ok (new_memory nid now pid mid)" "memory_row pid mid (new_memory nid now pid mid)"
  by (simp_all add: memory_ok_def new_memory_def memory_row_def INACTIVE_CONSOLIDATION_STATES_def)

lemma upsert_row_ok:
  "memory_ok m \<Longrightarrow> memory_ok (upsert_row now new keep p m)"
  "mi_project_id (upsert_row now new keep p m) = mi_project_id m"
  "mi_mem0_memory_id (upsert_row now new keep p m) = mi_mem0_memory_id m"
  by (cases "pj_observed_at p"; force simp: upsert_row_def memory_ok_def write_identity_def
      write_observation_def int_of_bool_def Let_def)+

lemma claim_row_ok:
  "memory_ok m \<Longrightarrow> memory_ok (claim_row now p m)"
  "mi_project_id (claim_row now p m) = mi_project_id m"
  "mi_mem0_memory_id (claim_row now p m) = mi_mem0_memory_id m"
  by (cases "pj_observed_at p"; force simp: claim_row_def memory_ok_def write_identity_def
      int_of_bool_def Let_def)+

inductive index_step :: "memory_index list \<Rightarrow> memory_index list \<Rightarrow> bool" where
  dirtied: "index_step rows (mark_scope_dirty now pid app t rows)"
| verified: "mark_scope_markers_verified now pid app mid t rows = (b, rows') \<Longrightarrow> index_step rows rows'"
| backfilled: "mark_scope_marker_backfill_outcome now pid app mid s t rows = Inr (b, rows') \<Longrightarrow> index_step rows rows'"
| scanned: "mark_anchors_scanned now pid app ids t rows = (n, rows') \<Longrightarrow> index_step rows rows'"
| staled: "mark_stale now pid ids' rows = (n, rows') \<Longrightarrow> index_step rows rows'"
| reconciled: "mark_stale_if_unchanged now pid a ids lte ex rows = Inr (n, rows') \<Longrightarrow> index_step rows rows'"
| upserted: "upsert_memory nid now pid mid p keep rows = (m, rows') \<Longrightarrow> index_step rows rows'"
| claimed: "claim_memory nid now pid mid app p rows = Inr (r, rows') \<Longrightarrow> index_step rows rows'"
| deleted: "delete_memory_row now pid mid rows = (d, rows') \<Longrightarrow> index_step rows rows'"
| used: "index_step rows (count_access now pid app ids rows)"

inductive reachable_index :: "memory_index list \<Rightarrow> bool" where
  empty_index: "reachable_index []"
| next_index: "reachable_index rows \<Longrightarrow> index_step rows rows' \<Longrightarrow> reachable_index rows'"

lemma upsert_memory_ok:
  assumes run: "upsert_memory nid now pid mid p keep rows = (m, rows')" and ok: "index_ok rows"
  shows "index_ok rows'"
proof (cases "List.find (memory_row pid mid) rows")
  case None
  then have "\<not> list_ex (memory_row pid mid) rows" by (auto simp: find_None_iff list_ex_iff)
  with None run show ?thesis
    using new_memory_ok upsert_row_ok
    by (auto simp: upsert_memory_def Let_def memory_row_def intro!: index_ok_append [OF ok])
next
  case (Some r)
  then have "memory_row pid mid r" by (auto simp: find_Some_iff)
  then have "memory_ok r \<Longrightarrow> memory_ok (upsert_row now False keep p r) \<and> memory_row pid mid (upsert_row now False keep p r)"
    using upsert_row_ok by (simp add: memory_row_def)
  from index_ok_replace [OF ok Some this] Some run show ?thesis
    by (auto simp: upsert_memory_def Let_def)
qed

lemma claim_memory_ok:
  assumes run: "claim_memory nid now pid mid app p rows = Inr (r, rows')" and ok: "index_ok rows"
  shows "index_ok rows'"
proof (cases "count_where (claimable pid mid app) rows = 0")
  case False
  with run have "rows' = update_where (claimable pid mid app) (claim_row now (p\<lparr>pj_app_id := Some app\<rparr>)) rows"
    by (auto simp: claim_memory_def Let_def split: option.splits)
  then show ?thesis using claim_row_ok by (auto intro: index_ok_update_where [OF ok])
next
  case True
  show ?thesis
  proof (cases "list_ex (memory_row pid mid) rows")
    case False
    with True run have "rows' = rows @ [claim_row now (p\<lparr>pj_app_id := Some app\<rparr>) (new_memory nid now pid mid)]"
      by (auto simp: claim_memory_def Let_def)
    then show ?thesis
      using False new_memory_ok claim_row_ok
      by (auto simp: memory_row_def intro!: index_ok_append [OF ok])
  qed (use True run ok in \<open>auto simp: claim_memory_def Let_def\<close>)
qed

lemma delete_memory_row_ok:
  assumes run: "delete_memory_row now pid mid rows = (d, rows')" and ok: "index_ok rows"
  shows "index_ok rows'"
proof (cases "get_memory pid mid None False rows")
  case (Some m)
  then have m: "m \<in> set rows" "memory_row pid mid m"
    by (auto simp: get_memory_def find_Some_iff memory_row_def)
  have "r = m" if "r \<in> set rows" "memory_row pid mid r" for r
    using that m ok by (auto simp: index_ok_def memory_row_def dest: unique_memories_eq)
  then have "rows' = map (\<lambda>r. if memory_row pid mid r then r\<lparr>mi_deleted_at := Some now, mi_updated_at := now\<rparr> else r) rows"
    using run Some by (auto simp: delete_memory_row_def Let_def)
  then show ?thesis by (auto simp: memory_ok_def intro!: index_ok_map [OF ok])
qed (use run ok in \<open>simp add: delete_memory_row_def\<close>)

lemma index_step_ok: "index_step rows rows' \<Longrightarrow> index_ok rows \<Longrightarrow> index_ok rows'"
proof (induction rule: index_step.induct)
  case (dirtied rows now pid app t)
  then show ?case
    unfolding mark_scope_dirty_def by (rule index_ok_update_where) (auto simp: memory_ok_def)
next
  case (verified now pid app mid t rows b rows')
  then show ?case
    by (auto simp: mark_scope_markers_verified_def Let_def memory_ok_def intro!: index_ok_update_where)
next
  case (backfilled now pid app mid s t rows b rows')
  then show ?case
    by (auto simp: mark_scope_marker_backfill_outcome_def Let_def memory_ok_def needs_scope_markers_def
        intro!: index_ok_update_where split: if_splits)
next
  case (scanned now pid app ids t rows n rows')
  then show ?case
    by (auto simp: mark_anchors_scanned_def Let_def memory_ok_def intro!: index_ok_update_where split: if_splits)
next
  case (staled now pid ids' rows n rows')
  then show ?case
    by (auto simp: mark_stale_def Let_def memory_ok_def intro!: index_ok_update_where split: if_splits)
next
  case (reconciled now pid a ids lte ex rows n rows')
  then show ?case
    by (auto simp: mark_stale_if_unchanged_def Let_def memory_ok_def intro!: index_ok_update_where
        split: list.splits)
next
  case (used rows now pid app ids)
  then show ?case
    unfolding count_access_def by (rule index_ok_update_where) (auto simp: memory_ok_def)
qed (blast intro: upsert_memory_ok claim_memory_ok delete_memory_row_ok)+

text \<open>
  In every index the operations can produce, a memory is stored once per project, its scope
  markers are verified exactly when its backfill status says so, and it names the proposal that
  shadows it exactly when it is not active.
\<close>

lemma reachable_index_ok:
  assumes "reachable_index rows"
  shows "index_ok rows"
  using assms
proof (induction rule: reachable_index.induct)
  case empty_index
  show ?case by (simp add: index_ok_def unique_memories_def)
next
  case (next_index rows rows')
  then show ?case by (blast intro: index_step_ok)
qed


section \<open>Witnesses\<close>

definition sample_projection :: projection where
  "sample_projection = \<lparr>pj_user_id = Some ''u'', pj_app_id = Some ''a'', pj_category = None,
     pj_agent_id = None, pj_run_id = None, pj_metadata = [], pj_content_hash = Some ''h'',
     pj_content_length = Some 3, pj_normalized_type = Some ''note'', pj_source = Some ''user'',
     pj_pinned = False, pj_expires_at = None, pj_scope_markers_verified = True,
     pj_observed_at = Some 5\<rparr>"

definition sample_index :: "memory_index list" where
  "sample_index = snd (upsert_memory ''i2'' 7 ''p'' ''m2'' sample_projection False
     (snd (upsert_memory ''i1'' 6 ''p'' ''m1'' sample_projection False [])))"

lemma sample_index_reachable: "reachable_index sample_index"
proof -
  let ?one = "snd (upsert_memory ''i1'' 6 ''p'' ''m1'' sample_projection False [])"
  have "index_step [] ?one" by (rule index_step.upserted) (rule surjective_pairing)
  then have "reachable_index ?one" by (rule reachable_index.next_index [OF reachable_index.empty_index])
  moreover have "index_step ?one sample_index" unfolding sample_index_def
    by (rule index_step.upserted) (rule surjective_pairing)
  ultimately show ?thesis by (rule reachable_index.next_index)
qed

lemma sample_index_rows:
  "map mi_mem0_memory_id sample_index = [''m1'', ''m2''] \<and> map mi_app_id sample_index = [Some ''a'', Some ''a'']
   \<and> map mi_project_id sample_index = [''p'', ''p''] \<and> list_all (is_dirty ''p'' ''a'') sample_index"
  by code_simp

lemma sample_index_unique: "unique_memories sample_index"
  unfolding unique_memories_def sample_index_def by code_simp

lemma reachable_index_ok_witness: "index_ok sample_index \<and> length sample_index = 2"
proof -
  have "length (map mi_mem0_memory_id sample_index) = 2" using sample_index_rows by simp
  then show ?thesis using reachable_index_ok [OF sample_index_reachable] by simp
qed

definition sample_scope :: scan_scope where
  "sample_scope = \<lparr>sc_project_id = ''p'', sc_app_id = Some ''a'', sc_project_wide = False,
     sc_user_id = None, sc_agent_id = None, sc_run_id = None, sc_snapshot_at = 9,
     sc_include_expired = False\<rparr>"

lemma scan_pages_complete_witness:
  "distinct (concat (read_pages (\<lambda>after. list_scan_candidates sample_scope (Some (9, [])) after (int (Suc 0)) sample_index)
      memory_key 3 None))"
proof -
  have "length (map mi_mem0_memory_id sample_index) = 2" using sample_index_rows by simp
  then have "length sample_index < 3" by simp
  from scan_pages_complete [OF sample_index_unique this, of sample_scope "(9, [])" 0]
  show ?thesis by blast
qed

lemma scanned_anchors_clean_witness:
  "filter (is_dirty ''p'' ''a'') (snd (mark_anchors_scanned 10 ''p'' ''a'' [''m1''] 9 sample_index)) \<noteq> []"
proof -
  obtain n rows' where run: "mark_anchors_scanned 10 ''p'' ''a'' [''m1''] 9 sample_index = (n, rows')" by fastforce
  have "list_ex (\<lambda>m. is_dirty ''p'' ''a'' m \<and> mi_mem0_memory_id m \<noteq> ''m1'') sample_index"
    unfolding sample_index_def by code_simp
  then show ?thesis
    using scanned_anchors_clean [OF run] run by (auto simp: filter_empty_conv list_ex_iff)
qed


end
