(* ===== verification/Memory_Records.thy ===== *)
theory Memory_Records
  imports Scope Memory_Store
begin

text \<open>
  Documents exchanged with the upstream memory service (the module functions of
  \<open>core/memory_ops.py\<close>): identifiers and records in responses, the scope markers the sidecar
  writes into metadata, payload rewriting, content fingerprints and the projection of a record
  into the index, request validation, and the filtering of search results by scope.  Parameters:
  the digest \<open>sha256\<close>, the text of a float \<open>fr\<close>, \<open>fromiso\<close> for \<open>datetime.fromisoformat\<close>, \<open>isoformat\<close>
  for its inverse on stored times, and \<open>to_bool\<close> for the library's validation of \<open>infer\<close>.
\<close>

section \<open>Identifiers in responses\<close>

definition append_memory_id :: "string list \<Rightarrow> json \<Rightarrow> string list" where
  "append_memory_id ids candidate =
     (case candidate of JStr s \<Rightarrow> if s \<noteq> [] \<and> s \<notin> set ids then ids @ [s] else ids | _ \<Rightarrow> ids)"

fun item_ids :: "string list \<Rightarrow> json \<Rightarrow> string list" where
  "item_ids ids (JObj item) =
     append_memory_id (append_memory_id ids (jget item ''id'')) (jget item ''memory_id'')"
| "item_ids ids _ = ids"

definition extract_memory_ids :: "json dict \<Rightarrow> string list" where
  "extract_memory_ids response =
     (let ids = item_ids [] (JObj response) in
      case jget response ''results'' of JList items \<Rightarrow> foldl item_ids ids items | _ \<Rightarrow> ids)"

definition extract_memory_id :: "json dict \<Rightarrow> string res" where
  "extract_memory_id response =
     (case extract_memory_ids response of
        i # _ \<Rightarrow> Inr i
      | [] \<Rightarrow> raise ProtocolError ''Could not extract memory id from response'')"

definition result_memory_id :: "json \<Rightarrow> string option" where
  "result_memory_id record =
     (case record of
        JObj d \<Rightarrow>
          (case (if truthy (jget d ''id'') then jget d ''id'' else jget d ''memory_id'') of
             JStr s \<Rightarrow> if s \<noteq> [] then Some s else None
           | _ \<Rightarrow> None)
      | _ \<Rightarrow> None)"

definition search_result_id :: "json \<Rightarrow> string option" where
  "search_result_id record =
     (case record of
        JObj d \<Rightarrow> (case jget d ''memory'' of JObj m \<Rightarrow> result_memory_id (JObj m) | _ \<Rightarrow> result_memory_id record)
      | _ \<Rightarrow> result_memory_id record)"

definition memory_record_from_response :: "json \<Rightarrow> string \<Rightarrow> json dict res" where
  "memory_record_from_response response expected_id =
     (case response of
        JObj d \<Rightarrow>
          if result_memory_id response = Some expected_id then Inr d
          else (case jget d ''results'' of
              JList items \<Rightarrow>
                (case List.find (\<lambda>i. result_memory_id i = Some expected_id) items of
                   Some (JObj m) \<Rightarrow> Inr m
                 | _ \<Rightarrow> raise ProtocolError ''Upstream memory response does not contain the id'')
            | _ \<Rightarrow> raise ProtocolError ''Upstream memory response does not contain the id'')
      | _ \<Rightarrow> raise ProtocolError ''Upstream memory response must be an object'')"

definition validate_get_response :: "string \<Rightarrow> json \<Rightarrow> json dict res" where
  "validate_get_response mid response =
     (case response of
        JObj d \<Rightarrow> if mid \<in> set (extract_memory_ids d) then Inr d else raise KeyError mid
      | _ \<Rightarrow> raise KeyError mid)"

section \<open>Metadata and scope markers\<close>

definition PROJECT_MARKER :: string where "PROJECT_MARKER = ''_mem0_sidecar_project_id''"
definition APP_MARKER :: string where "APP_MARKER = ''_mem0_sidecar_app_id''"
definition MUTATION_MARKER :: string where "MUTATION_MARKER = ''_mem0_sidecar_mutation_id''"

definition sidecar_scope_metadata :: "scope \<Rightarrow> json dict" where
  "sidecar_scope_metadata sc =
     [(PROJECT_MARKER, JStr (scope_project_id sc)), (APP_MARKER, JStr (scope_app_id sc))]"

text \<open>\<open>d.update(e)\<close>.\<close>

definition dupdate :: "'v dict \<Rightarrow> 'v dict \<Rightarrow> 'v dict" where
  "dupdate d e = foldl (\<lambda>d (k, v). dset k v d) d e"

definition with_sidecar_scope :: "json dict \<Rightarrow> scope \<Rightarrow> json dict" where
  "with_sidecar_scope metadata sc = dupdate metadata (sidecar_scope_metadata sc)"

definition object_or_empty :: "json \<Rightarrow> json dict" where
  "object_or_empty j = (case j of JObj d \<Rightarrow> d | _ \<Rightarrow> [])"

definition oss_add_payload :: "(json \<Rightarrow> bool res) \<Rightarrow> json dict \<Rightarrow> scope \<Rightarrow> json dict res" where
  "oss_add_payload to_bool payload sc =
     (let oss = ddel ''app_id'' (ddel ''project_id'' payload) in
      rbind (if jget oss ''infer'' \<noteq> JNull
             then rbind (to_bool (jget oss ''infer'')) (\<lambda>b. Inr (dset ''infer'' (JBool b) oss))
             else Inr oss) (\<lambda>oss.
        Inr (dset ''metadata'' (JObj (with_sidecar_scope (object_or_empty (jget payload ''metadata'')) sc)) oss)))"

definition oss_search_payload :: "json dict \<Rightarrow> scope \<Rightarrow> json dict" where
  "oss_search_payload payload sc =
     (let oss = fold ddel [''project_id'', ''app_id'', ''current_only'', ''event_from'', ''event_to''] payload;
          filters = ddel ''app_id'' (ddel ''project_id'' (object_or_empty (jget payload ''filters'')))
      in dset ''filters'' (JObj (with_sidecar_scope filters sc)) oss)"

definition record_metadata :: "json dict \<Rightarrow> json dict res" where
  "record_metadata record =
     (case jget record ''metadata'' of
        JNull \<Rightarrow> Inr []
      | JObj m \<Rightarrow> Inr m
      | _ \<Rightarrow> raise ProtocolError ''Upstream memory record metadata must be an object or null'')"

definition public_memory_metadata :: "json dict \<Rightarrow> json dict" where
  "public_memory_metadata metadata =
     fold ddel [''_mem0_dual_request_fingerprint'', PROJECT_MARKER, APP_MARKER, MUTATION_MARKER] metadata"

definition append_categories :: "string list \<Rightarrow> json \<Rightarrow> string list" where
  "append_categories categories value =
     foldl append_memory_id categories (case value of JList xs \<Rightarrow> xs | v \<Rightarrow> [v])"

definition record_categories :: "json dict \<Rightarrow> string list res" where
  "record_categories record =
     rbind (record_metadata record) (\<lambda>m. Inr (foldl append_categories []
       [jget record ''categories'', jget m ''categories'', jget m ''category'',
        jget m ''custom_category'', jget m ''type'']))"

section \<open>Fingerprints\<close>

fun json_finite :: "json \<Rightarrow> bool" where
  "json_finite (JFloat f) = isfinite f"
| "json_finite (JList xs) = list_all json_finite xs"
| "json_finite (JObj m) = list_all (\<lambda>(k, v). json_finite v) m"
| "json_finite _ = True"

definition canonical_style :: json_style where
  "canonical_style = \<lparr>js_item_separator = '','', js_key_separator = '':'', js_ensure_ascii = False,
     js_sort_keys = True\<rparr>"

definition canonical_fingerprint :: "(string \<Rightarrow> string) \<Rightarrow> (pyfloat \<Rightarrow> string) \<Rightarrow> json \<Rightarrow> string res" where
  "canonical_fingerprint sha256 fr payload =
     (if json_finite payload then Inr (sha256 (json_dumps fr canonical_style payload))
      else value_error ''Out of range float values are not JSON compliant'')"

definition memory_text :: "json dict \<Rightarrow> string option" where
  "memory_text record =
     (case jget record ''memory'' of
        JStr s \<Rightarrow> Some s
      | _ \<Rightarrow> (case jget record ''data'' of
          JStr s \<Rightarrow> Some s
        | _ \<Rightarrow> (case jget record ''text'' of JStr s \<Rightarrow> Some s | _ \<Rightarrow> None)))"

fun unix_newlines :: "bool \<Rightarrow> string \<Rightarrow> string" where
  "unix_newlines after_cr [] = []"
| "unix_newlines after_cr (c # cs) =
     (if c = CHR 0x0D then CHR 0x0A # unix_newlines True cs
      else if c = CHR 0x0A \<and> after_cr then unix_newlines False cs
      else c # unix_newlines False cs)"

definition normalized_content :: "string \<Rightarrow> string" where
  "normalized_content t = strip (sub_runs is_space '' '' (unix_newlines False (nfkc t)))"

definition memory_content_fingerprint :: "(string \<Rightarrow> string) \<Rightarrow> json dict \<Rightarrow> (string \<times> int) option" where
  "memory_content_fingerprint sha256 record =
     map_option (\<lambda>t. (sha256 (normalized_content t), int (length (normalized_content t)))) (memory_text record)"

text \<open>\<open>re.sub(r"([a-z0-9])([A-Z])", r"\1_\2", s)\<close>\<close>

fun split_camel :: "string \<Rightarrow> string" where
  "split_camel (c # d # cs) =
     (if is_az09 c \<and> is_upper_AZ d then c # CHR ''_'' # split_camel (d # cs) else c # split_camel (d # cs))"
| "split_camel s = s"

definition type_aliases :: "string dict" where
  "type_aliases =
     [(''bugfix'', ''bug_fix''), (''debuggingnote'', ''debugging_note''),
      (''userpreference'', ''user_preference''), (''projectprofile'', ''project_profile''),
      (''sessionstate'', ''session_state''), (''compactsummary'', ''compact_summary''),
      (''autocapture'', ''auto_capture'')]"

definition normalize_memory_type :: "json \<Rightarrow> string" where
  "normalize_memory_type value =
     (case value of
        JStr s \<Rightarrow>
          if strip s = [] then ''unknown''
          else
            let camel = split_camel (strip (nfkc s));
                words = lower (strip_if (\<lambda>c. c = CHR ''_'') (sub_runs (\<lambda>c. \<not> is_ascii_alnum c) ''_'' camel))
            in dget_or type_aliases words (if words = [] then ''unknown'' else words)
      | _ \<Rightarrow> ''unknown'')"

definition parse_projection_datetime :: "(string \<Rightarrow> datetime option) \<Rightarrow> json \<Rightarrow> time option" where
  "parse_projection_datetime fromiso value =
     (case value of
        JStr s \<Rightarrow>
          if strip s = [] then None
          else
            let c = strip s;
                candidate = (if ends_with ''Z'' c then butlast c @ ''+00:00'' else c)
            in map_option instant (fromiso candidate)
      | _ \<Rightarrow> None)"

definition dget_chain :: "json option list \<Rightarrow> json" where
  "dget_chain xs = (case List.map_filter id xs of v # _ \<Rightarrow> v | [] \<Rightarrow> JNull)"

text \<open>
  The content fields of a projection; the columns that identify the owner are filled in by the
  caller.
\<close>

definition memory_projection_fields ::
    "(string \<Rightarrow> string) \<Rightarrow> (string \<Rightarrow> datetime option) \<Rightarrow> json dict \<Rightarrow> time \<Rightarrow> projection res" where
  "memory_projection_fields sha256 fromiso record observed_at =
     rbind (record_metadata record) (\<lambda>metadata.
       let fingerprint = memory_content_fingerprint sha256 record;
           type_value = dget_chain [dget metadata ''type'', dget metadata ''memory_type'',
             dget record ''memory_type'', dget record ''type''];
           text_value = (case memory_text record of None \<Rightarrow> [] | Some t \<Rightarrow> t);
           pinned = (jget metadata ''pinned'' = JBool True
             \<or> starts_with ''[PINNED]'' (dropWhile is_space text_value));
           expiration = dget_chain [dget record ''expiration_date'', dget record ''expires_at'',
             dget metadata ''expiration_date''];
           source = dget_chain [dget metadata ''source'', dget record ''source'']
       in Inr \<lparr>pj_user_id = None, pj_app_id = None, pj_category = None, pj_agent_id = None,
            pj_run_id = None, pj_metadata = [],
            pj_content_hash = map_option fst fingerprint, pj_content_length = map_option snd fingerprint,
            pj_normalized_type = Some (normalize_memory_type type_value),
            pj_source = (case source of JStr s \<Rightarrow> if s \<noteq> [] then Some s else None | _ \<Rightarrow> None),
            pj_pinned = pinned, pj_expires_at = parse_projection_datetime fromiso expiration,
            pj_scope_markers_verified =
              (case (jget metadata PROJECT_MARKER, jget metadata APP_MARKER) of
                 (JStr _, JStr _) \<Rightarrow> True | _ \<Rightarrow> False),
            pj_observed_at = Some observed_at\<rparr>)"

section \<open>Normalised records\<close>

definition response_memory_records :: "json \<Rightarrow> json dict dict" where
  "response_memory_records response =
     (case response of
        JObj d \<Rightarrow>
          let own = (if result_memory_id response \<noteq> None then [d] else []);
              listed = (case jget d ''results'' of
                  JList items \<Rightarrow> List.map_filter (\<lambda>i. case i of JObj m \<Rightarrow> Some m | _ \<Rightarrow> None) items
                | _ \<Rightarrow> [])
          in foldl (\<lambda>acc m. case result_memory_id (JObj m) of None \<Rightarrow> acc | Some i \<Rightarrow> dset i m acc) []
               (own @ listed)
      | _ \<Rightarrow> [])"

definition projected_field :: "string \<Rightarrow> memory_index \<Rightarrow> string option" where
  "projected_field field m =
     (if field = ''user_id'' then mi_user_id m else if field = ''agent_id'' then mi_agent_id m
      else if field = ''app_id'' then mi_app_id m else mi_run_id m)"

definition normalize_memory_record ::
    "(time \<Rightarrow> string) \<Rightarrow> json dict \<Rightarrow> memory_index option \<Rightarrow> json dict res" where
  "normalize_memory_record isoformat record projected =
     (case result_memory_id (JObj record) of
        None \<Rightarrow> raise ProtocolError ''Upstream memory record is missing an id''
      | Some mid \<Rightarrow>
     rbind (record_metadata record) (\<lambda>metadata.
     rbind (record_categories record) (\<lambda>categories.
       let owner = (\<lambda>field.
             let v = jget record field in
             case projected of
               Some m \<Rightarrow> if v = JNull \<or> field = ''app_id'' \<and> v = JStr [] then opt_json (projected_field field m) else v
             | None \<Rightarrow> v);
           stamp = (\<lambda>field column.
             let v = jget record field in
             case projected of Some m \<Rightarrow> if v = JNull then JStr (isoformat (column m)) else v | None \<Rightarrow> v)
       in Inr [(''id'', JStr mid),
            (''memory'', case dget record ''memory'' of Some v \<Rightarrow> v | None \<Rightarrow> jget record ''text''),
            (''metadata'', JObj metadata), (''categories'', JList (map JStr categories)),
            (''user_id'', owner ''user_id''), (''agent_id'', owner ''agent_id''),
            (''app_id'', owner ''app_id''), (''run_id'', owner ''run_id''),
            (''created_at'', stamp ''created_at'' mi_created_at),
            (''updated_at'', stamp ''updated_at'' mi_updated_at),
            (''expiration_date'', jget record ''expiration_date'')])))"

definition valid_marker :: "json \<Rightarrow> string \<Rightarrow> string option" where
  "valid_marker v field = (case validate_scope_id v field True of Inr (Some s) \<Rightarrow> Some s | _ \<Rightarrow> None)"

definition hydrated_record_matches_projection :: "json dict \<Rightarrow> json dict \<Rightarrow> memory_index \<Rightarrow> bool" where
  "hydrated_record_matches_projection raw normalized m =
     (if \<not> list_all (\<lambda>f. jget normalized f = opt_json (projected_field f m))
            [''user_id'', ''agent_id'', ''app_id'', ''run_id''] then False
      else if jget raw ''project_id'' \<noteq> JNull
        \<and> valid_marker (jget raw ''project_id'') ''project_id'' \<noteq> Some (mi_project_id m) then False
      else case jget normalized ''metadata'' of
        JObj metadata \<Rightarrow>
          (case (dget metadata PROJECT_MARKER, dget metadata APP_MARKER) of
             (None, None) \<Rightarrow> True
           | (Some p, Some a) \<Rightarrow>
               (case (valid_marker p ''project_id'', valid_marker a ''app_id'') of
                  (Some pid, Some app) \<Rightarrow> pid = mi_project_id m \<and> Some app = mi_app_id m
                | _ \<Rightarrow> False)
           | _ \<Rightarrow> False)
      | _ \<Rightarrow> False)"

section \<open>Containers in responses\<close>

definition list_container :: "string list \<Rightarrow> string \<Rightarrow> json dict \<Rightarrow> json list res" where
  "list_container keys what d =
     (case List.find (\<lambda>k. dget d k \<noteq> None) keys of
        None \<Rightarrow> raise ProtocolError (''Upstream '' @ what @ '' response has no recognized result container'')
      | Some k \<Rightarrow> (case jget d k of
          JList xs \<Rightarrow> Inr xs
        | _ \<Rightarrow> raise ProtocolError (''Upstream '' @ what @ '' response '' @ quoted k @ '' must be a list'')))"

definition history_results :: "json \<Rightarrow> json list res" where
  "history_results response =
     (case response of
        JList xs \<Rightarrow> Inr xs
      | JObj d \<Rightarrow> list_container [''results'', ''history''] ''history'' d
      | _ \<Rightarrow> raise ProtocolError ''Upstream history response must be an object or list'')"

definition list_results :: "json \<Rightarrow> json list res" where
  "list_results response =
     (case response of
        JObj d \<Rightarrow> list_container [''results'', ''memories''] ''list'' d
      | _ \<Rightarrow> raise ProtocolError ''Upstream list response must be an object'')"

definition bounded_list_results :: "json \<Rightarrow> nat \<Rightarrow> json list res" where
  "bounded_list_results response limit =
     rbind (list_results response) (\<lambda>xs.
       if length xs > limit
       then raise ProtocolError (''Upstream list response exceeds the '' @ nat_str limit @ ''-record scan limit'')
       else Inr xs)"

section \<open>Requests\<close>

definition MEMORY_PATCH_FIELDS :: "string list" where
  "MEMORY_PATCH_FIELDS = [''text'', ''metadata'', ''expiration_date'']"

definition MAX_UPDATE_METADATA_FIELDS :: nat where "MAX_UPDATE_METADATA_FIELDS = 48"

text \<open>
  A calendar day in the form \<open>YYYY-MM-DD\<close>.  The source parses with \<open>date.fromisoformat\<close> and
  requires the text back from \<open>isoformat\<close>, which leaves exactly this form.
\<close>

definition leap_year :: "nat \<Rightarrow> bool" where
  "leap_year y = (y mod 4 = 0 \<and> (y mod 100 \<noteq> 0 \<or> y mod 400 = 0))"

definition month_days :: "nat \<Rightarrow> nat \<Rightarrow> nat" where
  "month_days y m =
     (if m = 2 then (if leap_year y then 29 else 28) else if m \<in> {4, 6, 9, 11} then 30 else 31)"

definition event_date :: "json \<Rightarrow> (nat \<times> nat \<times> nat) res" where
  "event_date value =
     (case value of
        JStr s \<Rightarrow>
          let y = digits_value (take 4 s) 0; m = digits_value (take 2 (drop 5 s)) 0;
              d = digits_value (take 2 (drop 8 s)) 0
          in if length s = 10 \<and> s ! 4 = CHR ''-'' \<and> s ! 7 = CHR ''-''
               \<and> list_all is_digit (take 4 s @ take 2 (drop 5 s) @ take 2 (drop 8 s))
               \<and> 1 \<le> y \<and> 1 \<le> m \<and> m \<le> 12 \<and> 1 \<le> d \<and> d \<le> month_days y m
             then Inr (y, m, d)
             else value_error ''event dates must use YYYY-MM-DD''
      | _ \<Rightarrow> value_error ''event dates must use YYYY-MM-DD'')"

definition validate_memory_patch :: "json dict \<Rightarrow> json dict res" where
  "validate_memory_patch payload =
     (let unknown = sort (filter (\<lambda>k. k \<notin> set MEMORY_PATCH_FIELDS) (dkeys payload)) in
      if payload = [] then value_error ''Memory update payload must not be empty''
      else if unknown \<noteq> []
      then value_error (''Unsupported memory update fields: '' @ join '', '' unknown)
      else if (case dget payload ''text'' of None \<Rightarrow> False | Some (JStr t) \<Rightarrow> strip t = [] | Some _ \<Rightarrow> True)
      then value_error ''text must be a non-empty string''
      else if (case jget payload ''metadata'' of JNull \<Rightarrow> False | JObj _ \<Rightarrow> False | _ \<Rightarrow> True)
      then value_error ''metadata must be an object or null''
      else if length (object_or_empty (jget payload ''metadata'')) > MAX_UPDATE_METADATA_FIELDS
      then value_error (''metadata must contain at most '' @ nat_str MAX_UPDATE_METADATA_FIELDS @ '' fields'')
      else
        rbind (case dget (object_or_empty (jget payload ''metadata'')) ''event_date'' of
                 None \<Rightarrow> Inr ()
               | Some v \<Rightarrow> rbind (event_date v) (\<lambda>_. Inr ())) (\<lambda>_.
          Inr (filter (\<lambda>(k, _). k \<in> set MEMORY_PATCH_FIELDS) payload)))"

definition validate_idempotency_key :: "string option \<Rightarrow> string option res" where
  "validate_idempotency_key value =
     (case value of
        None \<Rightarrow> Inr None
      | Some k \<Rightarrow>
          if \<not> (1 \<le> length k \<and> length k \<le> 128) \<or> list_ex (\<lambda>c. code c < 33 \<or> code c > 126) k
          then value_error ''Idempotency-Key must be a visible ASCII value of 1-128 characters''
          else Inr (Some k))"

definition operation_marker ::
    "(string \<Rightarrow> string) \<Rightarrow> (pyfloat \<Rightarrow> string) \<Rightarrow> string \<Rightarrow> string \<Rightarrow> string \<Rightarrow> string \<Rightarrow> string option \<Rightarrow> string res" where
  "operation_marker sha256 fr token pid app operation idempotency_key =
     canonical_fingerprint sha256 fr (JObj
       [(''project_id'', JStr pid), (''app_id'', JStr app), (''operation'', JStr operation),
        (''logical_key'', JStr (case idempotency_key of Some k \<Rightarrow> if k = [] then token else k | None \<Rightarrow> token))])"

definition validated_bulk_delete_filters :: "json dict \<Rightarrow> string dict res" where
  "validated_bulk_delete_filters filters =
     (let allowed = [''user_id'', ''agent_id'', ''run_id''];
          unknown = sort (filter (\<lambda>k. k \<notin> set allowed) (dkeys filters))
      in if unknown \<noteq> [] then value_error (''Unsupported bulk delete filters: '' @ join '', '' unknown)
         else rbind (rmap (\<lambda>f. rbind (validate_scope_id (jget filters f) f False) (\<lambda>v. Inr (f, v))) allowed)
           (\<lambda>pairs.
             let validated = List.map_filter (\<lambda>(f, v). map_option (Pair f) v) pairs in
             if validated = [] then value_error ''At least one of user_id, agent_id, or run_id is required''
             else Inr validated))"

definition effective_request_app_id :: "project list \<Rightarrow> string \<Rightarrow> string option \<Rightarrow> string" where
  "effective_request_app_id projects pid request_app_id =
     (case request_app_id of
        Some (c # cs) \<Rightarrow> c # cs
      | _ \<Rightarrow> (case row_by prj_id pid projects of
          Some p \<Rightarrow> (case prj_default_app_id p of Some (c # cs) \<Rightarrow> c # cs | _ \<Rightarrow> pid)
        | None \<Rightarrow> pid))"

definition memory_for_request ::
    "project list \<Rightarrow> memory_index list \<Rightarrow> string \<Rightarrow> string \<Rightarrow> string option \<Rightarrow> bool \<Rightarrow>
     (memory_index option \<times> string option) res" where
  "memory_for_request projects rows pid mid request_app_id project_wide =
     (if project_wide then
        (if request_app_id \<noteq> None then value_error ''app_id cannot be combined with project_wide''
         else let m = get_memory pid mid None False rows
              in Inr (m, case m of None \<Rightarrow> None | Some x \<Rightarrow> mi_app_id x))
      else
        let app = effective_request_app_id projects pid request_app_id
        in Inr (get_memory pid mid (Some app) False rows, Some app))"

definition required_projected_app_id :: "memory_index \<Rightarrow> string res" where
  "required_projected_app_id m =
     (case valid_marker (opt_json (mi_app_id m)) ''app_id'' of
        Some a \<Rightarrow> Inr a
      | None \<Rightarrow> raise MutationConflict ''Indexed memory has no valid app scope'')"

definition memory_delete_request ::
    "string \<Rightarrow> string \<Rightarrow> memory_index option \<Rightarrow> string option \<Rightarrow> string dict res" where
  "memory_delete_request pid mid m request_app_id =
     (case m of
        None \<Rightarrow>
          rbind (normalize_scope (JStr pid) JNull (opt_json request_app_id) JNull JNull) (\<lambda>sc.
            Inr (dupdate [(''memory_id'', mid)] (as_filter_dict sc)))
      | Some x \<Rightarrow>
          Inr (List.map_filter (\<lambda>(k, v). case v of Some (c # cs) \<Rightarrow> Some (k, c # cs) | _ \<Rightarrow> None)
            [(''memory_id'', Some (mi_mem0_memory_id x)), (''user_id'', mi_user_id x),
             (''agent_id'', mi_agent_id x), (''app_id'', mi_app_id x), (''run_id'', mi_run_id x)]))"

section \<open>Search results\<close>

definition scoped_ids :: "memory_index list \<Rightarrow> scope \<Rightarrow> bool \<Rightarrow> string list \<Rightarrow> string set" where
  "scoped_ids rows sc current_only ids =
     list_scoped_memory_ids (scope_project_id sc) ids (scope_user_id sc) (Some (scope_app_id sc))
       (scope_agent_id sc) (scope_run_id sc) current_only rows"

definition allowed_results :: "memory_index list \<Rightarrow> scope \<Rightarrow> bool \<Rightarrow> json list \<Rightarrow> json list" where
  "allowed_results rows sc current_only results =
     (let candidates = foldl (\<lambda>ids r. append_memory_id ids (opt_json (search_result_id r))) [] results;
          allowed = scoped_ids rows sc current_only candidates
      in filter (\<lambda>r. case search_result_id r of None \<Rightarrow> False | Some i \<Rightarrow> i \<in> allowed) results)"

definition filter_search_results ::
    "memory_index list \<Rightarrow> scope \<Rightarrow> bool \<Rightarrow> json dict \<Rightarrow> json dict" where
  "filter_search_results rows sc current_only response =
     (case jget response ''results'' of
        JList results \<Rightarrow>
          let kept = allowed_results rows sc current_only results
          in dset ''total'' (JInt (int (length kept))) (dset ''results'' (JList kept) response)
      | _ \<Rightarrow> response)"

definition filter_compatible_results :: "memory_index list \<Rightarrow> scope \<Rightarrow> bool \<Rightarrow> json \<Rightarrow> json" where
  "filter_compatible_results rows sc current_only response =
     (case response of
        JList results \<Rightarrow> JList (allowed_results rows sc current_only results)
      | JObj d \<Rightarrow>
          (case jget d ''results'' of
             JList results \<Rightarrow>
               let kept = allowed_results rows sc current_only results;
                   d' = dset ''results'' (JList kept) d
               in JObj (if dget d' ''total'' \<noteq> None then dset ''total'' (JInt (int (length kept))) d' else d')
           | _ \<Rightarrow> response)
      | _ \<Rightarrow> response)"

section \<open>Records written by others\<close>

datatype write_scope = Accepted string | Foreign | Invalid

definition blank :: "json \<Rightarrow> bool" where
  "blank v = (v = JNull \<or> v = JStr [])"

definition direct_write_app_scope :: "json dict \<Rightarrow> string \<Rightarrow> string \<Rightarrow> write_scope res" where
  "direct_write_app_scope record pid default_app_id =
     rbind (record_metadata record) (\<lambda>metadata.
       case (dget metadata PROJECT_MARKER, dget metadata APP_MARKER) of
         (None, None) \<Rightarrow>
           let raw = jget record ''project_id'' in
           if raw \<noteq> JNull \<and> valid_marker raw ''project_id'' = None then Inr Invalid
           else if raw \<noteq> JNull \<and> valid_marker raw ''project_id'' \<noteq> Some pid then Inr Foreign
           else
             let c1 = jget record ''app_id'';
                 c2 = (if blank c1 then jget metadata ''app_id'' else c1);
                 c3 = (if blank c2 then JStr default_app_id else c2)
             in Inr (case valid_marker c3 ''app_id'' of Some a \<Rightarrow> Accepted a | None \<Rightarrow> Invalid)
       | (Some p, Some a) \<Rightarrow>
           (case (valid_marker p ''project_id'', valid_marker a ''app_id'') of
              (Some marker_pid, Some marker_app) \<Rightarrow>
                Inr (if marker_pid \<noteq> pid then Foreign else Accepted marker_app)
            | _ \<Rightarrow> Inr Invalid)
       | _ \<Rightarrow> Inr Invalid)"

section \<open>Category snapshots\<close>

definition CATEGORY_HASH_CHUNK_SIZE :: nat where "CATEGORY_HASH_CHUNK_SIZE = 32"

definition hashes_fingerprint :: "(string \<Rightarrow> string) \<Rightarrow> string list \<Rightarrow> string" where
  "hashes_fingerprint sha256 hashes =
     sha256 (json_dumps (\<lambda>_. []) canonical_style (JObj [(''hashes'', JList (map JStr hashes))]))"

definition projection_category_hash_snapshot :: "(string \<Rightarrow> string) \<Rightarrow> string list \<Rightarrow> json" where
  "projection_category_hash_snapshot sha256 category_names =
     (let hashes = sort (remdups (map sha256 category_names)) in
      JObj [(''chunks'', JList (map (\<lambda>c. JList (map JStr c)) (chunks CATEGORY_HASH_CHUNK_SIZE hashes))),
            (''count'', JInt (int (length hashes))),
            (''fingerprint'', JStr (hashes_fingerprint sha256 hashes))])"

definition is_hex64 :: "string \<Rightarrow> bool" where
  "is_hex64 s = (length s = 64 \<and> list_all (\<lambda>c. is_digit c \<or> 97 \<le> code c \<and> code c \<le> 102) s)"

abbreviation snapshot_malformed :: "exn + 'a" where
  "snapshot_malformed \<equiv> raise RuntimeError ''Add recovery category snapshot is malformed''"

abbreviation snapshot_incomplete :: "exn + 'a" where
  "snapshot_incomplete \<equiv> raise RuntimeError ''Add recovery category snapshot is incomplete''"

fun snapshot_chunks :: "json list \<Rightarrow> string list res" where
  "snapshot_chunks [] = Inr []"
| "snapshot_chunks (chunk # rest) =
     (case chunk of
        JList values \<Rightarrow>
          if values = [] \<or> length values > CATEGORY_HASH_CHUNK_SIZE then snapshot_malformed
          else if rest \<noteq> [] \<and> length values \<noteq> CATEGORY_HASH_CHUNK_SIZE then snapshot_incomplete
          else rbind (rmap (\<lambda>v. case v of JStr h \<Rightarrow> if is_hex64 h then Inr h else snapshot_malformed
                 | _ \<Rightarrow> snapshot_malformed) values) (\<lambda>hashes.
               rbind (snapshot_chunks rest) (\<lambda>more. Inr (hashes @ more)))
      | _ \<Rightarrow> snapshot_malformed)"

definition projection_category_hashes :: "(string \<Rightarrow> string) \<Rightarrow> json \<Rightarrow> string list res" where
  "projection_category_hashes sha256 snapshot =
     (case snapshot of
        JObj d \<Rightarrow>
          if set (dkeys d) \<noteq> {''chunks'', ''count'', ''fingerprint''} then snapshot_malformed
          else (case (jget d ''chunks'', jget d ''count'', jget d ''fingerprint'') of
              (JList cs, JInt count, JStr fingerprint) \<Rightarrow>
                if count < 0 then snapshot_malformed
                else rbind (snapshot_chunks cs) (\<lambda>hashes.
                  if count \<noteq> int (length hashes) \<or> hashes \<noteq> sort (remdups hashes)
                    \<or> fingerprint \<noteq> hashes_fingerprint sha256 hashes
                  then snapshot_incomplete else Inr hashes)
            | _ \<Rightarrow> snapshot_malformed)
      | _ \<Rightarrow> snapshot_malformed)"

section \<open>Expected effects of an update\<close>

definition value_fingerprint ::
    "(string \<Rightarrow> string) \<Rightarrow> (pyfloat \<Rightarrow> string) \<Rightarrow> json \<Rightarrow> string res" where
  "value_fingerprint sha256 fr v = canonical_fingerprint sha256 fr (JObj [(''value'', v)])"

definition key_fingerprint :: "(string \<Rightarrow> string) \<Rightarrow> string \<Rightarrow> string" where
  "key_fingerprint sha256 k = sha256 (json_dumps (\<lambda>_. []) canonical_style (JObj [(''key'', JStr k)]))"

text \<open>A dict comprehension: later entries replace earlier ones of the same key.\<close>

definition dict_of :: "(string \<times> 'v) list \<Rightarrow> 'v dict" where
  "dict_of kvs = foldl (\<lambda>d (k, v). dset k v d) [] kvs"

definition fingerprints_of ::
    "(string \<Rightarrow> string) \<Rightarrow> (pyfloat \<Rightarrow> string) \<Rightarrow> json dict \<Rightarrow> string dict res" where
  "fingerprints_of sha256 fr m =
     rbind (rmap (\<lambda>(k, v). rbind (value_fingerprint sha256 fr v) (\<lambda>f. Inr (key_fingerprint sha256 k, f))) m)
       (\<lambda>kvs. Inr (dict_of kvs))"

definition expected_update_effect ::
    "(string \<Rightarrow> string) \<Rightarrow> (pyfloat \<Rightarrow> string) \<Rightarrow> json dict \<Rightarrow> json res" where
  "expected_update_effect sha256 fr patch =
     rbind (rmap (\<lambda>(k, v). rbind (value_fingerprint sha256 fr v) (\<lambda>f. Inr (k, JStr f)))
              (sort_key fst (ddel ''metadata'' patch))) (\<lambda>fps.
     rbind (fingerprints_of sha256 fr (sort_key fst (object_or_empty (jget patch ''metadata'')))) (\<lambda>metadata.
       Inr (JObj [(''field_fingerprints'', JObj fps),
                  (''metadata_fingerprints'', JObj (map (\<lambda>(k, v). (k, JStr v)) metadata))])))"

fun fields_match ::
    "(string \<Rightarrow> string) \<Rightarrow> (pyfloat \<Rightarrow> string) \<Rightarrow> json dict \<Rightarrow> json dict \<Rightarrow> bool res" where
  "fields_match sha256 fr record [] = Inr True"
| "fields_match sha256 fr record ((field, expected) # rest) =
     (if field \<notin> set [''text'', ''expiration_date''] then Inr False
      else
        let observed = (if field = ''text''
              then (case dget record ''memory'' of Some v \<Rightarrow> v | None \<Rightarrow> jget record ''text'')
              else jget record ''expiration_date'')
        in (case expected of
              JStr f \<Rightarrow> rbind (value_fingerprint sha256 fr observed) (\<lambda>g.
                if g \<noteq> f then Inr False else fields_match sha256 fr record rest)
            | _ \<Rightarrow> Inr False))"

definition update_effect_matches ::
    "(string \<Rightarrow> string) \<Rightarrow> (pyfloat \<Rightarrow> string) \<Rightarrow> json dict \<Rightarrow> json \<Rightarrow> bool res" where
  "update_effect_matches sha256 fr record expected_effect =
     (case expected_effect of
        JObj e \<Rightarrow>
          (case (jget e ''field_fingerprints'', jget e ''metadata_fingerprints'') of
             (JObj fps, JObj metadata) \<Rightarrow>
               if fps = [] \<and> metadata = [] then Inr False
               else rbind (fields_match sha256 fr record fps) (\<lambda>ok.
                 if \<not> ok then Inr False
                 else if metadata = [] then Inr True
                 else (case jget record ''metadata'' of
                     JObj observed \<Rightarrow>
                       rbind (fingerprints_of sha256 fr observed) (\<lambda>seen.
                         Inr (list_all (\<lambda>(k, v). case v of JStr f \<Rightarrow> dget seen k = Some f | _ \<Rightarrow> False) metadata))
                   | _ \<Rightarrow> Inr False))
           | _ \<Rightarrow> Inr False)
      | _ \<Rightarrow> Inr False)"

section \<open>What a query reveals about its scope\<close>

definition exact_filter_value :: "explorer_filter \<Rightarrow> string option" where
  "exact_filter_value f =
     (case ef_value f of
        FScalar v \<Rightarrow> if ef_operator f = ''equals'' then Some v else None
      | FMany [v] \<Rightarrow> if ef_operator f = ''in'' then Some v else None
      | _ \<Rightarrow> None)"

definition query_trace_entities :: "explorer_query \<Rightarrow> string dict" where
  "query_trace_entities q =
     (if eq_match q \<noteq> ''all'' then []
      else List.map_filter (\<lambda>field.
        case remdups (List.map_filter exact_filter_value (filter (\<lambda>f. ef_field f = field) (eq_filters q))) of
          [v] \<Rightarrow> Some (field, v)
        | _ \<Rightarrow> None) [''user_id'', ''agent_id'', ''run_id''])"

section \<open>Snapshots of category names\<close>

lemma rmap_hex:
  "list_all is_hex64 hs \<Longrightarrow>
   rmap (\<lambda>v. case v of JStr h \<Rightarrow> if is_hex64 h then Inr h else snapshot_malformed
         | _ \<Rightarrow> snapshot_malformed) (map JStr hs) = Inr hs"
  by (induction hs) auto

lemma snapshot_chunks_chunks:
  "list_all is_hex64 hs \<Longrightarrow>
   snapshot_chunks (map (\<lambda>c. JList (map JStr c)) (chunks CATEGORY_HASH_CHUNK_SIZE hs)) = Inr hs"
proof (induction CATEGORY_HASH_CHUNK_SIZE hs rule: chunks.induct)
  case (1 xs)
  let ?n = CATEGORY_HASH_CHUNK_SIZE
  show ?case
  proof (cases "xs = []")
    case True
    then show ?thesis by (simp add: chunks.simps)
  next
    case False
    have pos: "?n \<noteq> 0" by (simp add: CATEGORY_HASH_CHUNK_SIZE_def)
    have hex: "list_all is_hex64 (take ?n xs)" "list_all is_hex64 (drop ?n xs)"
      using 1(2) by (auto simp: list_all_iff dest: in_set_takeD in_set_dropD)
    have full: "chunks ?n (drop ?n xs) \<noteq> [] \<Longrightarrow> length (take ?n xs) = ?n"
      by (auto simp: chunks.simps split: if_splits)
    have IH: "snapshot_chunks (map (\<lambda>c. JList (map JStr c)) (chunks ?n (drop ?n xs))) = Inr (drop ?n xs)"
      using 1(1) False pos hex(2) by simp
    show ?thesis
      using False pos full IH rmap_hex [OF hex(1)]
      by (subst chunks.simps) (auto simp del: rmap.simps)
  qed
qed

text \<open>
  the snapshot of category names that an add leaves for its recovery reads back as the
  sorted hashes of the names, without repetition, whatever their number and order.
\<close>

lemma category_snapshot_roundtrip:
  assumes "\<And>s. is_hex64 (sha256 s)"
  shows "projection_category_hashes sha256 (projection_category_hash_snapshot sha256 names)
    = Inr (sort (remdups (map sha256 names)))"
proof -
  let ?hs = "sort (remdups (map sha256 names))"
  have "list_all is_hex64 ?hs" using assms by (auto simp: list_all_iff)
  note chunks_ok = snapshot_chunks_chunks [OF this]
  have "remdups ?hs = ?hs" by (rule distinct_remdups_id) simp
  then have idem: "sort (remdups ?hs) = ?hs" by (simp add: sorted_sort_id del: distinct_remdups_id)
  show ?thesis
    using chunks_ok idem [symmetric]
    by (simp add: projection_category_hashes_def projection_category_hash_snapshot_def Let_def insert_commute)
qed

lemma category_snapshot_roundtrip_witness:
  "projection_category_hashes (\<lambda>s. replicate 64 (if s = ''work'' then CHR ''b'' else CHR ''a''))
     (projection_category_hash_snapshot (\<lambda>s. replicate 64 (if s = ''work'' then CHR ''b'' else CHR ''a''))
        [''work'', ''home'', ''work''])
   = Inr [replicate 64 CHR ''a'', replicate 64 CHR ''b'']"
proof -
  have hex: "is_hex64 (replicate 64 (if s = ''work'' then CHR ''b'' else CHR ''a''))" for s :: string
    by (simp add: is_hex64_def list_all_iff text_eval is_digit_def)
  have "sort (remdups (map (\<lambda>s. replicate 64 (if s = ''work'' then CHR ''b'' else CHR ''a''))
      [''work'', ''home'', ''work''])) = [replicate 64 CHR ''a'', replicate 64 CHR ''b'']"
    by code_simp
  then show ?thesis
    using category_snapshot_roundtrip [where names = "[''work'', ''home'', ''work'']", OF hex] by simp
qed

section \<open>Bulk deletion filters\<close>

lemma opt_json_Str: "opt_json v = JStr s \<longleftrightarrow> v = Some s"
  by (cases v) auto

lemma sort_key_Nil_iff [simp]: "sort_key f xs = [] \<longleftrightarrow> xs = []"
  by (metis length_0_conv length_sort)

lemma validated_bulk_cases:
  assumes "validated_bulk_delete_filters filters = Inr vs"
  obtains u a r where "set (dkeys filters) \<subseteq> {''user_id'', ''agent_id'', ''run_id''}"
    "jget filters ''user_id'' = opt_json u" "jget filters ''agent_id'' = opt_json a"
    "jget filters ''run_id'' = opt_json r"
    "\<And>s. u = Some s \<Longrightarrow> portable_id 256 s" "\<And>s. a = Some s \<Longrightarrow> portable_id 256 s"
    "\<And>s. r = Some s \<Longrightarrow> portable_id 256 s"
    "vs = List.map_filter (\<lambda>(f, v). map_option (Pair f) v)
       [(''user_id'', u), (''agent_id'', a), (''run_id'', r)]" "vs \<noteq> []"
proof -
  from assms have "filter (\<lambda>k. k \<notin> set [''user_id'', ''agent_id'', ''run_id'']) (dkeys filters) = []"
    by (auto simp: validated_bulk_delete_filters_def Let_def split: if_splits)
  then have keys: "set (dkeys filters) \<subseteq> {''user_id'', ''agent_id'', ''run_id''}"
    by (auto simp: filter_empty_conv)
  from assms show ?thesis
    by (auto simp: validated_bulk_delete_filters_def Let_def res_simps validate_optional
        scope_maximum_def MAX_SCOPE_ID_CHARS_def split: if_splits intro!: that [OF keys])
qed

lemma validated_bulk_error:
  "validated_bulk_delete_filters filters = Inl e \<Longrightarrow> exn_class e = ValueError"
  by (auto simp: validated_bulk_delete_filters_def Let_def res_simps validate_scope_id_Inl
      split: if_splits)

text \<open>
  filters accepted for a bulk deletion are at least one of user, agent and run, each named in
  the request by the same valid identifier, and the request names no other field.
\<close>

lemma bulk_delete_filters_sound:
  "case validated_bulk_delete_filters filters of
     Inl e \<Rightarrow> exn_class e = ValueError
   | Inr vs \<Rightarrow> vs \<noteq> [] \<and> distinct (dkeys vs)
       \<and> set (dkeys filters) \<subseteq> {''user_id'', ''agent_id'', ''run_id''}
       \<and> {(k, v). dget vs k = Some v} =
           {(k, v). k \<in> {''user_id'', ''agent_id'', ''run_id''} \<and> jget filters k = JStr v
              \<and> portable_id 256 v}"
proof (cases "validated_bulk_delete_filters filters")
  case (Inl e)
  then show ?thesis by (simp add: validated_bulk_error)
next
  case (Inr vs)
  note vs = Inr
  show ?thesis
    unfolding Inr sum.case
  proof (rule validated_bulk_cases [OF vs])
    fix u a r
    assume keys: "set (dkeys filters) \<subseteq> {''user_id'', ''agent_id'', ''run_id''}"
      and got: "jget filters ''user_id'' = opt_json u" "jget filters ''agent_id'' = opt_json a"
        "jget filters ''run_id'' = opt_json r"
      and ok: "\<And>s. u = Some s \<Longrightarrow> portable_id 256 s" "\<And>s. a = Some s \<Longrightarrow> portable_id 256 s"
        "\<And>s. r = Some s \<Longrightarrow> portable_id 256 s"
      and eq: "vs = List.map_filter (\<lambda>(f, v). map_option (Pair f) v)
         [(''user_id'', u), (''agent_id'', a), (''run_id'', r)]" "vs \<noteq> []"
    have "set (dkeys vs) \<subseteq> {''user_id'', ''agent_id'', ''run_id''}" "distinct (dkeys vs)"
      unfolding eq(1) by (cases u; cases a; cases r; simp add: List.map_filter_simps)+
    moreover have vs_get: "dget vs k = (if k = ''user_id'' then u else if k = ''agent_id'' then a
        else if k = ''run_id'' then r else None)" for k
      unfolding eq(1) by (cases u; cases a; cases r) (simp_all add: List.map_filter_simps)
    have "dget vs k = Some v \<longleftrightarrow>
        k \<in> {''user_id'', ''agent_id'', ''run_id''} \<and> jget filters k = JStr v \<and> portable_id 256 v" for k v
      unfolding vs_get using got ok opt_json_Str by simp blast
    ultimately show "vs \<noteq> [] \<and> distinct (dkeys vs)
       \<and> set (dkeys filters) \<subseteq> {''user_id'', ''agent_id'', ''run_id''}
       \<and> {(k, v). dget vs k = Some v} =
           {(k, v). k \<in> {''user_id'', ''agent_id'', ''run_id''} \<and> jget filters k = JStr v
              \<and> portable_id 256 v}"
      using keys eq(2) by simp
  qed
qed

section \<open>Filtering of search results\<close>

text \<open>What a search may return: a live memory of the scope, active when only current ones are asked for.\<close>

definition visible_in_scope :: "memory_index list \<Rightarrow> scope \<Rightarrow> bool \<Rightarrow> string \<Rightarrow> bool" where
  "visible_in_scope rows sc current_only mid =
     list_ex (\<lambda>m. mi_mem0_memory_id m = mid \<and> mi_project_id m = scope_project_id sc \<and> live m
       \<and> (if current_only then mi_consolidation_state m = ''ACTIVE'' else True)
       \<and> mi_app_id m = Some (scope_app_id sc) \<and> opt_is (scope_user_id sc) (mi_user_id m)
       \<and> opt_is (scope_agent_id sc) (mi_agent_id m) \<and> opt_is (scope_run_id sc) (mi_run_id m)) rows"

lemma nonempty_text: "(case v of JStr s \<Rightarrow> if s \<noteq> [] then Some s else None | _ \<Rightarrow> None) \<noteq> Some []"
  by (cases v) auto

lemma result_memory_id_nonempty: "result_memory_id r \<noteq> Some []"
  unfolding result_memory_id_def using nonempty_text by (cases r) simp_all

lemma search_result_id_nonempty: "search_result_id r \<noteq> Some []"
proof (cases r)
  case (JObj d)
  then show ?thesis
    unfolding search_result_id_def using result_memory_id_nonempty by (cases "jget d ''memory''") simp_all
qed (simp_all add: search_result_id_def result_memory_id_nonempty)

lemma set_append_memory_id:
  "set (append_memory_id ids (opt_json v)) = set ids \<union> {s. v = Some s \<and> s \<noteq> []}"
  by (cases v) (auto simp: append_memory_id_def)

lemma set_candidate_ids:
  "set (foldl (\<lambda>ids r. append_memory_id ids (opt_json (search_result_id r))) ids results)
   = set ids \<union> {s. \<exists>r \<in> set results. search_result_id r = Some s}"
  using search_result_id_nonempty
  by (induction results arbitrary: ids) (auto simp: set_append_memory_id)

lemma allowed_results_eq:
  "allowed_results rows sc current_only results =
   filter (\<lambda>r. case search_result_id r of None \<Rightarrow> False
     | Some i \<Rightarrow> visible_in_scope rows sc current_only i) results"
proof -
  have "i \<in> scoped_ids rows sc current_only ids \<longleftrightarrow> i \<in> set ids \<and> visible_in_scope rows sc current_only i"
    for i ids
    unfolding scoped_ids_def list_scoped_memory_ids_def visible_in_scope_def list_ex_iff
    by (auto simp: opt_is_def)
  then show ?thesis
    unfolding allowed_results_def Let_def
    by (intro filter_cong [OF refl]) (auto simp: set_candidate_ids split: option.splits)
qed

text \<open>
  C17: of the results of a search exactly those are returned that name a live memory of the
  requested scope (an active one when only current memories are asked for), in the order the
  upstream ranked them; the total is their number and the rest of the response is untouched.
\<close>

theorem search_results_stay_in_scope:
  "case jget response ''results'' of
     JList results \<Rightarrow>
       (let filtered = filter_search_results rows sc current_only response;
            kept = filter (\<lambda>r. case search_result_id r of None \<Rightarrow> False
              | Some i \<Rightarrow> visible_in_scope rows sc current_only i) results
        in jget filtered = (jget response)(''results'' := JList kept, ''total'' := JInt (int (length kept))))
   | _ \<Rightarrow> filter_search_results rows sc current_only response = response"
  by (auto simp: filter_search_results_def allowed_results_eq jget_def fun_eq_iff Let_def split: json.splits)

section \<open>Markers\<close>

lemma with_sidecar_scope_get:
  "dget (with_sidecar_scope md sc) k =
     (if k = APP_MARKER then Some (JStr (scope_app_id sc))
      else if k = PROJECT_MARKER then Some (JStr (scope_project_id sc)) else dget md k)"
  by (auto simp: with_sidecar_scope_def dupdate_def sidecar_scope_metadata_def)

lemma markers_distinct [simp]: "PROJECT_MARKER \<noteq> APP_MARKER"
  by (simp add: PROJECT_MARKER_def APP_MARKER_def)

lemma valid_marker_JStr: "portable_id (scope_maximum f) s \<Longrightarrow> valid_marker (JStr s) f = Some s"
  by (simp add: valid_marker_def validate_scope_id_def)

text \<open>
  a memory stored upstream with the metadata the sidecar sends for a scope is attributed back
  to the application of that scope by the sync of its project, whatever the payload and the
  record claim elsewhere, and is foreign to every other project.
\<close>

lemma sent_markers_attribute_back:
  assumes "normalize_scope p u a g r = Inr sc"
    and "oss_add_payload to_bool payload sc = Inr sent"
    and "jget stored ''metadata'' = jget sent ''metadata''"
  shows "direct_write_app_scope stored pid default_app =
    Inr (if pid = scope_project_id sc then Accepted (scope_app_id sc) else Foreign)"
proof -
  obtain md where "jget sent ''metadata'' = JObj (with_sidecar_scope md sc)"
    using assms(2) by (auto simp: oss_add_payload_def Let_def res_simps jget_def)
  then have "record_metadata stored = Inr (with_sidecar_scope md sc)"
    using assms(3) by (simp add: record_metadata_def)
  moreover have "portable_id 128 (scope_project_id sc)" "portable_id 256 (scope_app_id sc)"
    using assms(1) by (auto simp: normalize_scope_Inr)
  ultimately show ?thesis
    by (auto simp: direct_write_app_scope_def with_sidecar_scope_get valid_marker_JStr scope_maximum_def
        MAX_PROJECT_ID_CHARS_def MAX_SCOPE_ID_CHARS_def)
qed

lemma sent_markers_attribute_back_witness:
  "direct_write_app_scope
     [(''id'', JStr ''m1''), (''project_id'', JStr ''other''),
      (''metadata'', JObj [(''k'', JInt 1), (PROJECT_MARKER, JStr ''proj''), (APP_MARKER, JStr ''app'')])]
     ''proj'' ''fallback'' = Inr (Accepted ''app'')"
proof -
  let ?sc = "\<lparr>scope_project_id = ''proj'', scope_user_id = None, scope_app_id = ''app'',
    scope_agent_id = None, scope_run_id = None\<rparr>"
  let ?payload = "[(''project_id'', JStr ''x''), (''infer'', JBool True),
    (''metadata'', JObj [(''k'', JInt 1), (PROJECT_MARKER, JStr ''forged'')])]"
  let ?sent = "[(''infer'', JBool True),
    (''metadata'', JObj [(''k'', JInt 1), (PROJECT_MARKER, JStr ''proj''), (APP_MARKER, JStr ''app'')])]"
  have n: "normalize_scope (JStr ''proj'') JNull (JStr ''app'') JNull JNull = Inr ?sc"
    by code_simp
  have o: "oss_add_payload (\<lambda>_. Inr True) ?payload ?sc = Inr ?sent"
    by code_simp
  show ?thesis
    using sent_markers_attribute_back [OF n o, where stored = "[(''id'', JStr ''m1''), (''project_id'', JStr ''other''),
      (''metadata'', JObj [(''k'', JInt 1), (PROJECT_MARKER, JStr ''proj''), (APP_MARKER, JStr ''app'')])]"
      and pid = "''proj''" and default_app = "''fallback''"]
    by simp
qed

section \<open>Recognising an update\<close>

lemma dget_dict_of:
  "distinct (map fst kvs) \<Longrightarrow> dget (dict_of kvs) k = map_of kvs k"
proof -
  have "dget (foldl (\<lambda>d (k, v). dset k v d) d kvs) k = (case map_of kvs k of Some v \<Rightarrow> Some v | None \<Rightarrow> dget d k)"
    if "distinct (map fst kvs)" for d
    using that
  proof (induction kvs arbitrary: d)
    case (Cons kv kvs)
    then show ?case
      by (cases kv) (auto split: option.splits simp: map_of_eq_None_iff dest: map_of_SomeD intro: rev_image_eqI)
  qed simp
  then show "distinct (map fst kvs) \<Longrightarrow> ?thesis" by (simp add: dict_of_def split: option.splits)
qed

lemma set_dict_of: "set (dict_of kvs) \<subseteq> set kvs"
proof -
  have dset_sub: "set (dset k v d) \<subseteq> insert (k, v) (set d)" for k :: string and v :: 'a and d
    by (induction d) auto
  have "set (foldl (\<lambda>d (k, v). dset k v d) d kvs) \<subseteq> set d \<union> set kvs" for d
    by (induction kvs arbitrary: d) (use dset_sub in \<open>fastforce+\<close>)
  then show ?thesis by (fastforce simp: dict_of_def)
qed

abbreviation fp_pair where
  "fp_pair sha256 fr kv \<equiv>
     rbind (value_fingerprint sha256 fr (snd kv)) (\<lambda>f. Inr (key_fingerprint sha256 (fst kv), f))"

lemma fingerprints_of_eq:
  "fingerprints_of sha256 fr m = rbind (rmap (fp_pair sha256 fr) m) (\<lambda>kvs. Inr (dict_of kvs))"
  by (simp add: fingerprints_of_def case_prod_unfold)

lemma fp_pairs_keys:
  "rmap (fp_pair sha256 fr) m = Inr kvs \<Longrightarrow> map fst kvs = map (key_fingerprint sha256) (dkeys m)"
  by (induction m arbitrary: kvs) (auto simp: res_simps)

lemma rmap_mem_iff: "rmap f xs = Inr ys \<Longrightarrow> y \<in> set ys \<longleftrightarrow> (\<exists>x \<in> set xs. f x = Inr y)"
  unfolding rmap_all2 by (induction rule: list_all2_induct) (simp, fastforce)

lemma fp_pairs_mem:
  "rmap (fp_pair sha256 fr) m = Inr kvs \<Longrightarrow>
   (h, f) \<in> set kvs \<longleftrightarrow>
     (\<exists>kv \<in> set m. h = key_fingerprint sha256 (fst kv) \<and> value_fingerprint sha256 fr (snd kv) = Inr f)"
  using rmap_mem_iff [of "fp_pair sha256 fr" m kvs "(h, f)"] by (auto simp: res_simps)

lemma dset_nonempty: "dset k v d \<noteq> []"
  by (cases d) auto

lemma dict_of_Nil: "dict_of kvs = [] \<longleftrightarrow> kvs = []"
proof -
  have grow: "d \<noteq> [] \<Longrightarrow> foldl (\<lambda>d (k, v). dset k v d) d kvs \<noteq> []" for d :: "'a dict" and kvs
    by (induction kvs arbitrary: d) (simp_all add: dset_nonempty case_prod_unfold)
  show ?thesis
    by (cases kvs) (simp_all add: dict_of_def case_prod_unfold grow [unfolded case_prod_unfold])
qed

lemma fingerprints_of_mem:
  "fingerprints_of sha256 fr m = Inr d \<Longrightarrow> (h, f) \<in> set d \<Longrightarrow>
   \<exists>kv \<in> set m. h = key_fingerprint sha256 (fst kv) \<and> value_fingerprint sha256 fr (snd kv) = Inr f"
  using set_dict_of fp_pairs_mem by (fastforce simp: fingerprints_of_eq res_simps)

lemma fingerprints_of_get:
  assumes "fingerprints_of sha256 fr m = Inr d" and "inj_on (key_fingerprint sha256) (set (dkeys m))"
    and "distinct (dkeys m)" and "kv \<in> set m" and "value_fingerprint sha256 fr (snd kv) = Inr f"
  shows "dget d (key_fingerprint sha256 (fst kv)) = Some f"
proof -
  obtain kvs where kvs: "rmap (fp_pair sha256 fr) m = Inr kvs" "d = dict_of kvs"
    using assms(1) by (auto simp: fingerprints_of_eq res_simps)
  have "distinct (map fst kvs)"
    unfolding fp_pairs_keys [OF kvs(1)] distinct_map [of _ "dkeys m"] using assms(2,3) by blast
  moreover have "(key_fingerprint sha256 (fst kv), f) \<in> set kvs"
    using fp_pairs_mem [OF kvs(1)] assms(4,5) by blast
  ultimately show ?thesis by (simp add: kvs(2) dget_dict_of)
qed

lemma fingerprints_of_ok:
  "list_all (\<lambda>(k, v). json_finite v) m \<Longrightarrow> \<exists>d. fingerprints_of sha256 fr m = Inr d"
proof -
  assume "list_all (\<lambda>(k, v). json_finite v) m"
  then have "rmap (fp_pair sha256 fr) m
    = Inr (map (\<lambda>kv. (key_fingerprint sha256 (fst kv),
        sha256 (json_dumps fr canonical_style (JObj [(''value'', snd kv)])))) m)"
    by (intro rmap_eqI) (auto simp: list_all_iff value_fingerprint_def canonical_fingerprint_def)
  then show ?thesis by (simp add: fingerprints_of_eq)
qed

lemma fields_match_all:
  "list_all (\<lambda>(k, e). case e of JStr f \<Rightarrow>
      (k = ''text'' \<and> value_fingerprint sha256 fr
          (case dget record ''memory'' of Some v \<Rightarrow> v | None \<Rightarrow> jget record ''text'') = Inr f
       \<or> k = ''expiration_date'' \<and> value_fingerprint sha256 fr (jget record ''expiration_date'') = Inr f)
     | _ \<Rightarrow> False) fps \<Longrightarrow> fields_match sha256 fr record fps = Inr True"
  by (induction fps) (auto simp: Let_def split: json.splits)

text \<open>
  the effect recorded for an update is recognised in every record that carries the new text
  and expiration and all of the new metadata, possibly among other metadata, so that a replayed
  update is not taken for a lost one.  Keys are told apart by their digests.
\<close>

lemma update_effect_recognised:
  fixes stored patch
  defines "md \<equiv> object_or_empty (jget stored ''metadata'')"
  assumes effect: "expected_update_effect sha256 fr patch = Inr effect"
    and keys: "distinct (dkeys patch)" "set (dkeys patch) \<subseteq> set MEMORY_PATCH_FIELDS"
    and some_change: "ddel ''metadata'' patch \<noteq> [] \<or> object_or_empty (jget patch ''metadata'') \<noteq> []"
    and content: "\<And>t. dget patch ''text'' = Some t \<Longrightarrow>
      (case dget stored ''memory'' of Some v \<Rightarrow> v | None \<Rightarrow> jget stored ''text'') = t"
    and expiration: "\<And>x. dget patch ''expiration_date'' = Some x \<Longrightarrow> jget stored ''expiration_date'' = x"
    and md: "distinct (dkeys md)" "list_all (\<lambda>(k, v). json_finite v) md"
      "inj_on (key_fingerprint sha256) (set (dkeys md))"
      "set (object_or_empty (jget patch ''metadata'')) \<subseteq> set md"
  shows "update_effect_matches sha256 fr stored effect = Inr True"
proof -
  let ?pm = "object_or_empty (jget patch ''metadata'')"
  obtain fps ms where fps: "rmap (\<lambda>(k, v). rbind (value_fingerprint sha256 fr v) (\<lambda>f. Inr (k, JStr f)))
        (sort_key fst (ddel ''metadata'' patch)) = Inr fps"
    and ms: "fingerprints_of sha256 fr (sort_key fst ?pm) = Inr ms"
    and eff: "effect = JObj [(''field_fingerprints'', JObj fps),
        (''metadata_fingerprints'', JObj (map (\<lambda>(k, v). (k, JStr v)) ms))]"
    using effect by (auto simp: expected_update_effect_def res_simps)
  have fm: "fields_match sha256 fr stored fps = Inr True"
  proof (rule fields_match_all, unfold list_all_iff, rule ballI)
    fix kv assume "kv \<in> set fps"
    from rmap_mem [OF fps this] obtain k v f where kv: "(k, v) \<in> set (ddel ''metadata'' patch)"
      "value_fingerprint sha256 fr v = Inr f" "kv = (k, JStr f)"
      by (auto simp: res_simps)
    then have mem: "(k, v) \<in> set patch" "k \<noteq> ''metadata''"
      by (auto simp: AList.delete_eq)
    then have get: "dget patch k = Some v" using keys(1) by simp
    have "k = ''text'' \<or> k = ''expiration_date''"
      using mem keys(2) by (force simp: MEMORY_PATCH_FIELDS_def)
    then show "case kv of (k, e) \<Rightarrow> case e of JStr f \<Rightarrow>
        (k = ''text'' \<and> value_fingerprint sha256 fr
            (case dget stored ''memory'' of Some v \<Rightarrow> v | None \<Rightarrow> jget stored ''text'') = Inr f
         \<or> k = ''expiration_date'' \<and> value_fingerprint sha256 fr (jget stored ''expiration_date'') = Inr f)
       | _ \<Rightarrow> False"
      using get kv(2,3) content expiration by auto
  qed
  have fps_Nil: "fps = [] \<longleftrightarrow> ddel ''metadata'' patch = []"
    using rmap_length [OF fps] unfolding length_sort by (simp flip: length_0_conv)
  show ?thesis
  proof (cases "ms = []")
    case True
    then have "?pm = []"
      using ms rmap_length [of "fp_pair sha256 fr" "sort_key fst ?pm"]
      by (auto simp: fingerprints_of_eq res_simps dict_of_Nil)
    then show ?thesis using True eff fm some_change fps_Nil by (simp add: update_effect_matches_def)
  next
    case False
    then have "?pm \<noteq> []"
      using ms by (auto simp: fingerprints_of_eq dict_of_def)
    then have "md \<noteq> []" using md(4) by auto
    then have "jget stored ''metadata'' = JObj md"
      unfolding md_def object_or_empty_def by (cases "jget stored ''metadata''") auto
    moreover obtain seen where seen: "fingerprints_of sha256 fr md = Inr seen"
      using fingerprints_of_ok [OF md(2)] by blast
    moreover have "dget seen h = Some f" if "(h, f) \<in> set ms" for h f
    proof -
      from fingerprints_of_mem [OF ms that] obtain kv where "kv \<in> set md"
        "h = key_fingerprint sha256 (fst kv)" "value_fingerprint sha256 fr (snd kv) = Inr f"
        using md(4) by auto
      then show ?thesis using fingerprints_of_get [OF seen md(3) md(1)] by simp
    qed
    ultimately show ?thesis
      using False eff fm by (auto simp: update_effect_matches_def list_all_iff)
  qed
qed

lemma update_effect_recognised_witness:
  "\<exists>effect. expected_update_effect (\<lambda>s. s) (\<lambda>_. ''0'')
       [(''text'', JStr ''new''), (''metadata'', JObj [(''k'', JInt 1)])] = Inr effect
     \<and> update_effect_matches (\<lambda>s. s) (\<lambda>_. ''0'')
       [(''memory'', JStr ''new''), (''metadata'', JObj [(''a'', JNull), (''k'', JInt 1)])] effect = Inr True"
proof -
  let ?patch = "[(''text'', JStr ''new''), (''metadata'', JObj [(''k'', JInt 1)])]"
  let ?stored = "[(''memory'', JStr ''new''), (''metadata'', JObj [(''a'', JNull), (''k'', JInt 1)])]"
  have "is_ok (expected_update_effect (\<lambda>s. s) (\<lambda>_. ''0'') ?patch)" by code_simp
  then obtain effect where e: "expected_update_effect (\<lambda>s. s) (\<lambda>_. ''0'') ?patch = Inr effect"
    by (auto simp: is_ok_def split: sum.splits)
  have d: "distinct (map (key_fingerprint (\<lambda>s. s)) [''a'', ''k''])" by code_simp
  have "update_effect_matches (\<lambda>s. s) (\<lambda>_. ''0'') ?stored effect = Inr True"
    by (rule update_effect_recognised [OF e])
      (use d in \<open>simp_all add: MEMORY_PATCH_FIELDS_def object_or_empty_def distinct_map\<close>)
  with e show ?thesis by blast
qed

end
