(* ===== verification/Projects.thy ===== *)
theory Projects
  imports Models Scope Py_Text
begin

text \<open>
  Projects, the capabilities bridges report, and the categories a project configures
  (\<open>ProjectRepository\<close>, \<open>ServiceCapabilityRepository\<close> and \<open>CategoryRepository\<close> in
  \<open>store/repositories.py\<close>, \<open>core/projects.py\<close>, \<open>core/categories.py\<close> and
  \<open>core/dashboard_categories.py\<close>).  Parameters: \<open>pystr\<close> for \<open>str\<close> of a value that is not a
  string, \<open>isoformat\<close> and \<open>fromiso\<close> for the text of a time.
\<close>

section \<open>Projects\<close>

text \<open>A flush writes a row only when it changed, and then stamps \<open>updated_at\<close>.\<close>

definition flush_project :: "time \<Rightarrow> project \<Rightarrow> project list \<Rightarrow> project list" where
  "flush_project now p ps =
     (if row_by prj_id (prj_id p) ps = Some p then ps
      else save prj_id (p\<lparr>prj_updated_at := now\<rparr>) ps)"

definition or_default :: "string option \<Rightarrow> string \<Rightarrow> string" where
  "or_default v d = (case v of Some (c # cs) \<Rightarrow> c # cs | _ \<Rightarrow> d)"

definition new_project ::
    "time \<Rightarrow> string \<Rightarrow> string \<Rightarrow> string \<Rightarrow> string option \<Rightarrow> string option \<Rightarrow> string option \<Rightarrow> project" where
  "new_project now pid name url user app agent =
     \<lparr>prj_id = pid, prj_name = name, prj_default_user_id = user,
      prj_default_app_id = Some (or_default app pid), prj_default_agent_id = agent,
      prj_mem0_base_url = url, prj_mem0_api_key_ref = None, prj_settings_json = Some (JObj []),
      prj_created_at = now, prj_updated_at = now\<rparr>"

definition override :: "'a option \<Rightarrow> 'a option \<Rightarrow> 'a option" where
  "override given stored = (if given = None then stored else given)"

definition upsert_default_project ::
    "time \<Rightarrow> string \<Rightarrow> string \<Rightarrow> string \<Rightarrow> string option \<Rightarrow> string option \<Rightarrow> string option \<Rightarrow>
     project list \<Rightarrow> project list" where
  "upsert_default_project now pid name url user agent app ps =
     (case row_by prj_id pid ps of
        None \<Rightarrow> ps @ [new_project now pid name url user app agent]
      | Some p \<Rightarrow>
          flush_project now (p\<lparr>prj_name := name, prj_mem0_base_url := url,
            prj_default_user_id := override user (prj_default_user_id p),
            prj_default_agent_id := override agent (prj_default_agent_id p),
            prj_default_app_id := override app (prj_default_app_id p)\<rparr>) ps)"

definition bootstrap_project ::
    "time \<Rightarrow> string \<Rightarrow> string \<Rightarrow> string \<Rightarrow> string option \<Rightarrow> string option \<Rightarrow> project list \<Rightarrow> project list" where
  "bootstrap_project now pid name url user agent ps =
     upsert_default_project now pid name url user agent None ps"

text \<open>
  The insertion of \<open>ensure_project\<close> does nothing when another session won; the row that is then
  there gets the name and the address.
\<close>

definition ensure_project ::
    "time \<Rightarrow> string \<Rightarrow> string \<Rightarrow> string \<Rightarrow> string option \<Rightarrow> project list \<Rightarrow> project list" where
  "ensure_project now pid name url app ps =
     (case row_by prj_id pid ps of
        Some p \<Rightarrow> flush_project now (p\<lparr>prj_name := name, prj_mem0_base_url := url\<rparr>) ps
      | None \<Rightarrow> ps @ [new_project now pid name url None app None])"

text \<open>The lock itself has no effect on the rows; a missing project is a \<open>KeyError\<close>.\<close>

definition lock_for_mutation :: "string \<Rightarrow> project list \<Rightarrow> project res" where
  "lock_for_mutation pid ps =
     (case row_by prj_id pid ps of Some p \<Rightarrow> Inr p | None \<Rightarrow> raise KeyError pid)"

section \<open>Bridge heartbeats\<close>

definition BRIDGE_KEY :: string where "BRIDGE_KEY = ''bridge_routing''"
definition FRESH_FOR :: int where "FRESH_FOR = 600000000"
definition MAX_INSTANCES :: nat where "MAX_INSTANCES = 32"
definition MINUTE :: int where "MINUTE = 60000000"

definition project_settings :: "project \<Rightarrow> json dict" where
  "project_settings p = (case prj_settings_json p of Some (JObj d) \<Rightarrow> d | _ \<Rightarrow> [])"

definition jobject :: "json \<Rightarrow> json dict" where
  "jobject v = (case v of JObj d \<Rightarrow> d | _ \<Rightarrow> [])"

definition seen_text :: "(json \<Rightarrow> string) \<Rightarrow> json \<Rightarrow> string" where
  "seen_text pystr v =
     (case v of
        JObj d \<Rightarrow> (case dget d ''last_seen_at'' of None \<Rightarrow> [] | Some (JStr s) \<Rightarrow> s | Some w \<Rightarrow> pystr w)
      | _ \<Rightarrow> [])"

text \<open>\<open>sorted(..., reverse=True)\<close> keeps the order of equal elements.\<close>

definition sort_desc :: "('a \<Rightarrow> 'k::linorder) \<Rightarrow> 'a list \<Rightarrow> 'a list" where
  "sort_desc k xs = rev (sort_key k (rev xs))"

definition heartbeat_entry :: "string \<Rightarrow> bool \<Rightarrow> bool \<Rightarrow> string \<Rightarrow> json" where
  "heartbeat_entry version reads writes seen =
     JObj [(''bridge_version'', JStr version), (''routes_reads'', JBool reads),
           (''routes_writes'', JBool writes), (''last_seen_at'', JStr seen)]"

definition bridge_instances :: "json dict \<Rightarrow> json dict" where
  "bridge_instances settings =
     jobject (jget (jobject (jget (jobject (jget settings ''service_capabilities'')) BRIDGE_KEY)) ''instances'')"

definition store_instances :: "json dict \<Rightarrow> json dict \<Rightarrow> json dict" where
  "store_instances instances settings =
     (let capabilities = jobject (jget settings ''service_capabilities'');
          bridge = jobject (jget capabilities BRIDGE_KEY)
      in dset ''service_capabilities''
           (JObj (dset BRIDGE_KEY (JObj (dset ''instances'' (JObj instances) bridge)) capabilities)) settings)"

definition bridge_ready_instance :: "(string \<Rightarrow> datetime option) \<Rightarrow> time \<Rightarrow> json \<Rightarrow> time option" where
  "bridge_ready_instance fromiso now raw =
     (case raw of
        JObj d \<Rightarrow>
          (case jget d ''last_seen_at'' of
             JStr s \<Rightarrow>
               (case fromiso (concat (map (\<lambda>c. if c = CHR ''Z'' then ''+00:00'' else [c]) s)) of
                  None \<Rightarrow> None
                | Some dt \<Rightarrow>
                    let seen = instant dt in
                    if jget d ''routes_reads'' = JBool True \<and> jget d ''routes_writes'' = JBool True
                      \<and> seen \<ge> now - FRESH_FOR \<and> seen \<le> now + MINUTE
                    then Some seen else None)
           | _ \<Rightarrow> None)
      | _ \<Rightarrow> None)"

record bridge_status =
  bs_ready :: bool
  bs_ready_instance_count :: nat
  bs_last_seen_at :: "time option"

definition bridge_routing_status ::
    "(string \<Rightarrow> datetime option) \<Rightarrow> string \<Rightarrow> time \<Rightarrow> project list \<Rightarrow> bridge_status res" where
  "bridge_routing_status fromiso pid now ps =
     (case row_by prj_id pid ps of
        None \<Rightarrow> raise KeyError pid
      | Some p \<Rightarrow>
          let ready = List.map_filter (\<lambda>(_, raw). bridge_ready_instance fromiso now raw)
                (bridge_instances (project_settings p))
          in Inr \<lparr>bs_ready = (ready \<noteq> []), bs_ready_instance_count = length ready,
                  bs_last_seen_at = max_opt ready\<rparr>)"

definition bridge_routing_ready ::
    "(string \<Rightarrow> datetime option) \<Rightarrow> string \<Rightarrow> time \<Rightarrow> project list \<Rightarrow> bool res" where
  "bridge_routing_ready fromiso pid now ps =
     rbind (bridge_routing_status fromiso pid now ps) (\<lambda>s. Inr (bs_ready s))"

definition record_bridge_heartbeat ::
    "(json \<Rightarrow> string) \<Rightarrow> (time \<Rightarrow> string) \<Rightarrow> (string \<Rightarrow> datetime option) \<Rightarrow> time \<Rightarrow> string \<Rightarrow> json \<Rightarrow> json \<Rightarrow>
     json \<Rightarrow> json \<Rightarrow> time \<Rightarrow> project list \<Rightarrow> (bridge_status \<times> project list) res" where
  "record_bridge_heartbeat pystr isoformat fromiso now pid instance_id version reads writes observed_at ps =
     rbind (require_id (validate_scope_id instance_id ''instance_id'' True)) (\<lambda>iid.
     case version of
       JStr v \<Rightarrow>
         if \<not> (1 \<le> length v \<and> length v \<le> 128)
         then value_error ''bridge_version must contain 1-128 characters''
         else (case (reads, writes) of
           (JBool r, JBool w) \<Rightarrow>
             rbind (lock_for_mutation pid ps) (\<lambda>p.
               let settings = project_settings p;
                   instances = dset iid (heartbeat_entry v r w (isoformat observed_at)) (bridge_instances settings);
                   kept = take MAX_INSTANCES (sort_desc (\<lambda>(_, x). seen_text pystr x) instances);
                   p' = p\<lparr>prj_settings_json := Some (canon_json (JObj (store_instances kept settings)))\<rparr>;
                   ps' = flush_project now p' ps
               in rbind (bridge_routing_status fromiso pid observed_at ps') (\<lambda>s. Inr (s, ps')))
         | _ \<Rightarrow> value_error ''bridge routing capabilities must be booleans'')
     | _ \<Rightarrow> value_error ''bridge_version must contain 1-128 characters'')"

section \<open>Categories\<close>

definition py_text :: "(json \<Rightarrow> string) \<Rightarrow> json \<Rightarrow> string" where
  "py_text pystr v = (case v of JStr s \<Rightarrow> s | _ \<Rightarrow> pystr v)"

definition py_text_or :: "(json \<Rightarrow> string) \<Rightarrow> json dict \<Rightarrow> string \<Rightarrow> string \<Rightarrow> string" where
  "py_text_or pystr item k d = (case dget item k of None \<Rightarrow> d | Some v \<Rightarrow> py_text pystr v)"

definition category_name_hash :: "(string \<Rightarrow> string) \<Rightarrow> string \<Rightarrow> string" where
  "category_name_hash sha256 name = sha256 name"

definition extract_category ::
    "(string \<Rightarrow> string) \<Rightarrow> json dict \<Rightarrow> string set \<Rightarrow> string set option \<Rightarrow> string option" where
  "extract_category sha256 metadata configured hashes =
     (let candidates = [jget metadata ''type'', jget metadata ''category'', jget metadata ''custom_category'']
            @ (case jget metadata ''categories'' of JList xs \<Rightarrow> xs | _ \<Rightarrow> []);
          texts = List.map_filter (\<lambda>c. case c of JStr s \<Rightarrow> Some s | _ \<Rightarrow> None) candidates
      in List.find (\<lambda>s. s \<in> configured
           \<or> (case hashes of None \<Rightarrow> False | Some hs \<Rightarrow> category_name_hash sha256 s \<in> hs)) texts)"

text \<open>A validated payload and a validated patch.\<close>

record category_item =
  ci_name :: string
  ci_description :: string
  ci_schema :: json
  ci_enabled :: bool
  ci_strategy :: string

record category_patch =
  cp_name :: "string option"
  cp_description :: "string option"
  cp_schema :: "json option"
  cp_enabled :: "bool option"
  cp_strategy :: "string option"

definition category_schema :: "json \<Rightarrow> json res" where
  "category_schema v =
     (case v of JNull \<Rightarrow> Inr (JObj []) | JObj d \<Rightarrow> Inr (JObj d)
      | _ \<Rightarrow> raise CategoryValidationError ''Category schema must be a JSON object'')"

definition category_name :: "(json \<Rightarrow> string) \<Rightarrow> json \<Rightarrow> string res" where
  "category_name pystr v =
     (let name = strip (py_text pystr v) in
      if name = [] then raise CategoryValidationError ''Category name is required'' else Inr name)"

definition normalize_category_payload :: "(json \<Rightarrow> string) \<Rightarrow> json dict \<Rightarrow> category_item res" where
  "normalize_category_payload pystr item =
     rbind (category_name pystr (case dget item ''name'' of None \<Rightarrow> JStr [] | Some v \<Rightarrow> v)) (\<lambda>name.
     rbind (category_schema (jget item ''schema'')) (\<lambda>schema.
       Inr \<lparr>ci_name = name, ci_description = py_text_or pystr item ''description'' [], ci_schema = schema,
            ci_enabled = (case dget item ''enabled'' of None \<Rightarrow> True | Some v \<Rightarrow> truthy v),
            ci_strategy = py_text_or pystr item ''strategy'' ''metadata''\<rparr>))"

definition normalize_category_patch :: "(json \<Rightarrow> string) \<Rightarrow> json dict \<Rightarrow> category_patch res" where
  "normalize_category_patch pystr item =
     rbind (case dget item ''name'' of None \<Rightarrow> Inr None
            | Some v \<Rightarrow> rbind (category_name pystr v) (\<lambda>n. Inr (Some n))) (\<lambda>name.
     rbind (case dget item ''schema'' of None \<Rightarrow> Inr None
            | Some v \<Rightarrow> rbind (category_schema v) (\<lambda>s. Inr (Some s))) (\<lambda>schema.
       if set (dkeys item) \<inter> {''name'', ''description'', ''schema'', ''enabled'', ''strategy''} = {}
       then raise CategoryValidationError ''At least one category field is required''
       else Inr \<lparr>cp_name = name, cp_description = map_option (py_text pystr) (dget item ''description''),
                 cp_schema = schema, cp_enabled = map_option truthy (dget item ''enabled''),
                 cp_strategy = map_option (py_text pystr) (dget item ''strategy'')\<rparr>))"

definition get_project_category :: "string \<Rightarrow> string \<Rightarrow> category list \<Rightarrow> category res" where
  "get_project_category pid cid cs =
     (case List.find (\<lambda>c. cat_project_id c = pid \<and> cat_id c = cid) cs of
        Some c \<Rightarrow> Inr c | None \<Rightarrow> raise KeyError cid)"

definition find_project_category_by_name :: "string \<Rightarrow> string \<Rightarrow> category list \<Rightarrow> category option" where
  "find_project_category_by_name pid name cs =
     List.find (\<lambda>c. cat_project_id c = pid \<and> cat_name c = name) cs"

definition list_project_categories :: "string \<Rightarrow> category list \<Rightarrow> category list" where
  "list_project_categories pid cs = filter (\<lambda>c. cat_project_id c = pid) cs"

definition new_category :: "string \<Rightarrow> time \<Rightarrow> string \<Rightarrow> category_item \<Rightarrow> category" where
  "new_category new_id now pid item =
     \<lparr>cat_id = new_id, cat_project_id = pid, cat_name = ci_name item,
      cat_description = ci_description item, cat_schema_json = Some (ci_schema item),
      cat_enabled = (if ci_enabled item then 1 else 0), cat_strategy = ci_strategy item,
      cat_version = 1, cat_created_at = now, cat_updated_at = now\<rparr>"

text \<open>The constraints the database checks on a flush.\<close>

definition category_keys_unique :: "category list \<Rightarrow> bool" where
  "category_keys_unique cs =
     (distinct (map cat_id cs) \<and> distinct (map (\<lambda>c. (cat_project_id c, cat_name c)) cs))"

definition flush_categories :: "category list \<Rightarrow> category list res" where
  "flush_categories cs =
     (if category_keys_unique cs then Inr cs else raise IntegrityError ''uq_categories_project_id_name'')"

definition create_project_category ::
    "string \<Rightarrow> time \<Rightarrow> string \<Rightarrow> category_item \<Rightarrow> category list \<Rightarrow> (category \<times> category list) res" where
  "create_project_category new_id now pid item cs =
     (let c = new_category new_id now pid item in
      rbind (flush_categories (cs @ [c])) (\<lambda>cs'. Inr (c, cs')))"

definition patch_category :: "time \<Rightarrow> category_patch \<Rightarrow> category \<Rightarrow> category" where
  "patch_category now u c =
     c\<lparr>cat_name := (case cp_name u of None \<Rightarrow> cat_name c | Some v \<Rightarrow> v),
       cat_description := (case cp_description u of None \<Rightarrow> cat_description c | Some v \<Rightarrow> v),
       cat_schema_json := (case cp_schema u of None \<Rightarrow> cat_schema_json c | Some v \<Rightarrow> Some v),
       cat_enabled := (case cp_enabled u of None \<Rightarrow> cat_enabled c | Some b \<Rightarrow> if b then 1 else 0),
       cat_strategy := (case cp_strategy u of None \<Rightarrow> cat_strategy c | Some v \<Rightarrow> v),
       cat_version := cat_version c + 1, cat_updated_at := now\<rparr>"

definition update_project_category ::
    "time \<Rightarrow> string \<Rightarrow> string \<Rightarrow> category_patch \<Rightarrow> category list \<Rightarrow> (category \<times> category list) res" where
  "update_project_category now pid cid u cs =
     rbind (get_project_category pid cid cs) (\<lambda>c.
       let c' = patch_category now u c in
       rbind (flush_categories (save cat_id c' cs)) (\<lambda>cs'. Inr (c', cs')))"

definition delete_project_category :: "string \<Rightarrow> string \<Rightarrow> category list \<Rightarrow> category list res" where
  "delete_project_category pid cid cs =
     rbind (get_project_category pid cid cs) (\<lambda>c. Inr (filter (\<lambda>x. cat_id x \<noteq> cat_id c) cs))"

definition delete_category :: "string \<Rightarrow> string \<Rightarrow> category list \<Rightarrow> category list res" where
  "delete_category pid cid cs = delete_project_category pid cid cs"

definition replace_project_categories ::
    "string list \<Rightarrow> time \<Rightarrow> string \<Rightarrow> category_item list \<Rightarrow> category list \<Rightarrow>
     (category list \<times> category list) res" where
  "replace_project_categories new_ids now pid items cs =
     (let created = map2 (\<lambda>i item. new_category i now pid item) new_ids items in
      rbind (flush_categories (filter (\<lambda>c. cat_project_id c \<noteq> pid) cs @ created)) (\<lambda>cs'. Inr (created, cs')))"

definition ensure_unique_name ::
    "string \<Rightarrow> string \<Rightarrow> string option \<Rightarrow> category list \<Rightarrow> unit res" where
  "ensure_unique_name pid name cid cs =
     (case find_project_category_by_name pid name cs of
        None \<Rightarrow> Inr ()
      | Some c \<Rightarrow> if cid = Some (cat_id c) then Inr ()
          else raise CategoryValidationError ''Category names must be unique per project'')"

definition create_category ::
    "(json \<Rightarrow> string) \<Rightarrow> string \<Rightarrow> time \<Rightarrow> string \<Rightarrow> json dict \<Rightarrow> category list \<Rightarrow> (category \<times> category list) res" where
  "create_category pystr new_id now pid item cs =
     rbind (normalize_category_payload pystr item) (\<lambda>n.
     rbind (ensure_unique_name pid (ci_name n) None cs) (\<lambda>_.
       create_project_category new_id now pid n cs))"

definition update_category ::
    "(json \<Rightarrow> string) \<Rightarrow> time \<Rightarrow> string \<Rightarrow> string \<Rightarrow> json dict \<Rightarrow> category list \<Rightarrow> (category \<times> category list) res" where
  "update_category pystr now pid cid item cs =
     rbind (normalize_category_patch pystr item) (\<lambda>u.
     rbind (get_project_category pid cid cs) (\<lambda>_.
     rbind (case cp_name u of None \<Rightarrow> Inr () | Some n \<Rightarrow> ensure_unique_name pid n (Some cid) cs) (\<lambda>_.
       update_project_category now pid cid u cs)))"

definition replace_categories ::
    "(json \<Rightarrow> string) \<Rightarrow> string list \<Rightarrow> time \<Rightarrow> string \<Rightarrow> json dict list \<Rightarrow> category list \<Rightarrow>
     (category list \<times> category list) res" where
  "replace_categories pystr new_ids now pid items cs =
     rbind (rmap (normalize_category_payload pystr) items) (\<lambda>ns.
       if \<not> distinct (map ci_name ns)
       then raise CategoryValidationError ''Category names must be unique per project''
       else replace_project_categories new_ids now pid ns cs)"

section \<open>The heartbeat makes a project ready\<close>

lemma length_dset: "k \<notin> set (dkeys d) \<Longrightarrow> length (dset k v d) = Suc (length d)"
  by (induction d) auto

lemma length_dset_le: "length (dset k v d) \<le> Suc (length d)"
  by (induction d) auto

lemma length_sort_desc [simp]: "length (sort_desc k xs) = length xs"
  by (simp add: sort_desc_def)

lemma set_sort_desc [simp]: "set (sort_desc k xs) = set xs"
  by (simp add: sort_desc_def)

lemma bridge_instances_store [simp]: "bridge_instances (store_instances ins settings) = ins"
  by (simp add: bridge_instances_def store_instances_def jobject_def Let_def jget_def)

lemma row_by_flush:
  assumes "row_by prj_id pid ps = Some p" "prj_id p' = pid"
  shows "\<exists>t. row_by prj_id pid (flush_project now p' ps) = Some (p'\<lparr>prj_updated_at := t\<rparr>)"
proof (cases "row_by prj_id pid ps = Some p'")
  case True
  then show ?thesis using assms(2) by (auto simp: flush_project_def intro: exI [of _ "prj_updated_at p'"])
next
  case False
  then have "flush_project now p' ps = save prj_id (p'\<lparr>prj_updated_at := now\<rparr>) ps"
    using assms(2) by (simp add: flush_project_def)
  moreover have "pid \<in> prj_id ` set ps" using assms(1) row_by_Some by fast
  ultimately show ?thesis
    using assms(2) row_by_save_same [of prj_id "p'\<lparr>prj_updated_at := now\<rparr>" ps] by auto
qed

lemma dset_stored: "(k, v) \<in> set (dset k v d)"
  by (induction d) auto

lemma ready_instance_heartbeat:
  assumes "fromiso (concat (map (\<lambda>c. if c = CHR ''Z'' then ''+00:00'' else [c]) (isoformat t))) = Some dt"
    and "instant dt = t"
  shows "bridge_ready_instance fromiso now (heartbeat_entry v r w (isoformat t)) =
    (if r \<and> w \<and> now - FRESH_FOR \<le> t \<and> t \<le> now + MINUTE then Some t else None)"
  using assms by (auto simp: bridge_ready_instance_def heartbeat_entry_def)

lemma mem_map_filterI: "x \<in> set xs \<Longrightarrow> f x = Some y \<Longrightarrow> y \<in> set (List.map_filter f xs)"
  by (induction xs) (auto simp: List.map_filter_simps split: option.splits)

text \<open>The keys of a stored document are sorted; what is read under a key stays what it was.\<close>

lemma map_of_insort: "map_of (insort_key fst (k, v) xs) = (map_of xs)(k \<mapsto> v)"
  by (induction xs) (auto simp: fun_eq_iff)

lemma map_of_sort_key: "map_of (sort_key fst xs) = map_of xs"
  by (induction xs) (auto simp: map_of_insort)

lemma jget_canon: "jget (sort_key fst (map (\<lambda>(k, v). (k, canon_json v)) d)) k = canon_json (jget d k)"
  by (simp add: jget_def map_of_sort_key map_of_map split: option.splits)

lemma jobject_JObj: "jobject (JObj d) = d"
  by (simp add: jobject_def)

lemma canon_scalar_iff [simp]:
  "canon_json j = JStr s \<longleftrightarrow> j = JStr s" "canon_json j = JBool b \<longleftrightarrow> j = JBool b" "canon_json j = JNull \<longleftrightarrow> j = JNull"
  by (cases j; simp)+

lemma bridge_ready_canon: "bridge_ready_instance fromiso now (canon_json raw) = bridge_ready_instance fromiso now raw"
proof (cases raw)
  case (JObj d)
  then show ?thesis
    by (cases "jget d ''last_seen_at''") (simp_all add: bridge_ready_instance_def jget_canon split: option.split)
qed (simp_all add: bridge_ready_instance_def)

lemma stored_instances:
  assumes "prj_settings_json p = Some (canon_json (JObj (store_instances kept settings)))"
  shows "bridge_instances (project_settings p) = sort_key fst (map (\<lambda>(k, v). (k, canon_json v)) kept)"
proof -
  have "jget (dset k v d) k = v" for k v and d :: "json dict" by (simp add: jget_def)
  then show ?thesis
    using assms
    by (simp add: project_settings_def bridge_instances_def store_instances_def Let_def jget_canon jobject_JObj)
qed

text \<open>
  C18: A heartbeat that reports both routes makes its project ready from one minute before to ten
  minutes after the observed time, as long as fewer than 32 instances were known.  However many
  instances were known, a heartbeat leaves at most 32 of them stored.
\<close>

theorem heartbeat_makes_ready:
  assumes beat: "record_bridge_heartbeat pystr isoformat fromiso now pid instance_id (JStr v) (JBool r)
      (JBool w) observed_at ps = Inr (s, ps')"
    and iso: "\<And>t. \<exists>dt. fromiso (concat (map (\<lambda>c. if c = CHR ''Z'' then ''+00:00'' else [c]) (isoformat t)))
        = Some dt \<and> instant dt = t"
    and stored: "row_by prj_id pid ps = Some p"
  shows "(\<exists>p'. row_by prj_id pid ps' = Some p' \<and> length (bridge_instances (project_settings p')) \<le> 32)
    \<and> (r \<and> w \<and> length (bridge_instances (project_settings p)) < 32
         \<and> observed_at - MINUTE \<le> t \<and> t \<le> observed_at + FRESH_FOR \<longrightarrow> bridge_routing_ready fromiso pid t ps' = Inr True)"
proof -
  obtain iid where iid: "instance_id = JStr iid"
    using beat by (auto simp: record_bridge_heartbeat_def res_simps require_id_Inr validate_scope_id_Some)
  define entry where "entry = heartbeat_entry v r w (isoformat observed_at)"
  define ins where "ins = dset iid entry (bridge_instances (project_settings p))"
  define kept where "kept = take MAX_INSTANCES (sort_desc (\<lambda>(_, x). seen_text pystr x) ins)"
  define p' where "p' = p\<lparr>prj_settings_json := Some (canon_json (JObj (store_instances kept (project_settings p))))\<rparr>"
  have pid: "prj_id p = pid" using row_by_Some [OF stored] by simp
  have ps': "ps' = flush_project now p' ps"
    using beat stored iid
    by (auto simp: record_bridge_heartbeat_def res_simps require_id_Inr validate_scope_id_Some
        lock_for_mutation_def Let_def kept_def ins_def entry_def p'_def split: if_splits)
  obtain u where row: "row_by prj_id pid ps' = Some (p'\<lparr>prj_updated_at := u\<rparr>)"
    using row_by_flush [OF stored, of p' now] pid by (auto simp: ps' p'_def)
  have settings: "bridge_instances (project_settings (p'\<lparr>prj_updated_at := u\<rparr>))
      = sort_key fst (map (\<lambda>(k, v). (k, canon_json v)) kept)"
    by (rule stored_instances) (simp add: p'_def)
  have cap: "length (bridge_instances (project_settings (p'\<lparr>prj_updated_at := u\<rparr>))) \<le> 32"
    by (simp add: settings kept_def MAX_INSTANCES_def)
  have "bridge_routing_ready fromiso pid t ps' = Inr True"
    if both: "r" "w" and few: "length (bridge_instances (project_settings p)) < 32"
      and window: "observed_at - MINUTE \<le> t" "t \<le> observed_at + FRESH_FOR"
  proof -
    have "length ins \<le> 32"
      using few length_dset_le [of iid entry "bridge_instances (project_settings p)"] by (simp add: ins_def)
    then have "set kept = set ins" by (simp add: kept_def MAX_INSTANCES_def)
    moreover have "(iid, entry) \<in> set ins" unfolding ins_def by (rule dset_stored)
    ultimately have mem: "(iid, canon_json entry) \<in> set (sort_key fst (map (\<lambda>(k, v). (k, canon_json v)) kept))" by force
    obtain dt where dt: "fromiso (concat (map (\<lambda>c. if c = CHR ''Z'' then ''+00:00'' else [c]) (isoformat observed_at)))
        = Some dt" "instant dt = observed_at"
      using iso by blast
    have "bridge_ready_instance fromiso t (canon_json entry) = Some observed_at"
      unfolding entry_def bridge_ready_canon
      using ready_instance_heartbeat [of fromiso isoformat, OF dt] window both by simp
    then have "List.map_filter (\<lambda>(_, raw). bridge_ready_instance fromiso t raw)
        (bridge_instances (project_settings (p'\<lparr>prj_updated_at := u\<rparr>))) \<noteq> []"
      unfolding settings using mem_map_filterI [OF mem, of "\<lambda>(_, raw). bridge_ready_instance fromiso t raw"] by force
    then show ?thesis using row by (simp add: bridge_routing_ready_def bridge_routing_status_def Let_def)
  qed
  then show ?thesis using row cap by blast
qed

text \<open>A clock of unary texts, for the examples.\<close>

definition toy_iso :: "time \<Rightarrow> string" where
  "toy_iso t = (if t < 0 then ''-'' else ''+'') @ replicate (nat \<bar>t\<bar>) (CHR ''1'')"

definition toy_from :: "string \<Rightarrow> datetime option" where
  "toy_from s = (case s of [] \<Rightarrow> None
     | c # cs \<Rightarrow> Some (Aware (if c = CHR ''-'' then - int (length cs) else int (length cs)) 0))"

lemma toy_clock:
  "\<exists>dt. toy_from (concat (map (\<lambda>c. if c = CHR ''Z'' then ''+00:00'' else [c]) (toy_iso t))) = Some dt
     \<and> instant dt = t"
proof -
  have plain: "concat (map (\<lambda>c. if c = CHR ''Z'' then ''+00:00'' else [c]) (toy_iso t)) = toy_iso t"
    by (simp add: toy_iso_def map_replicate_const concat_replicate_trivial)
  show ?thesis unfolding plain by (simp add: toy_from_def toy_iso_def)
qed

definition sample_project :: project where
  "sample_project = new_project 0 ''p'' ''P'' ''http://mem0'' None None None"

lemma heartbeat_makes_ready_witness:
  "\<exists>s ps'. record_bridge_heartbeat (\<lambda>_. []) toy_iso toy_from 7 ''p'' (JStr ''b1'') (JStr ''1.0'') (JBool True)
       (JBool True) 5 [sample_project] = Inr (s, ps')
     \<and> bridge_routing_ready toy_from ''p'' 9 ps' = Inr True"
proof -
  let ?beat = "record_bridge_heartbeat (\<lambda>_. []) toy_iso toy_from 7 ''p'' (JStr ''b1'') (JStr ''1.0'')
      (JBool True) (JBool True) 5 [sample_project]"
  have "is_ok ?beat" by code_simp
  then obtain s ps' where beat: "?beat = Inr (s, ps')" by (auto simp: is_ok_def split: sum.splits)
  have row: "row_by prj_id ''p'' [sample_project] = Some sample_project"
    by (simp add: sample_project_def new_project_def)
  have none: "length (bridge_instances (project_settings sample_project)) < 32" by code_simp
  show ?thesis
    using beat none heartbeat_makes_ready [OF beat toy_clock row, of 9]
    by (simp add: MINUTE_def FRESH_FOR_def)
qed

section \<open>The names of a project's categories\<close>

definition category_ok :: "category \<Rightarrow> bool" where
  "category_ok c = (cat_name c \<noteq> [] \<and> strip (cat_name c) = cat_name c \<and> 1 \<le> cat_version c
     \<and> cat_enabled c \<in> {0, 1} \<and> (case cat_schema_json c of Some (JObj _) \<Rightarrow> True | _ \<Rightarrow> False))"

definition categories_ok :: "category list \<Rightarrow> bool" where
  "categories_ok cs = (category_keys_unique cs \<and> list_all category_ok cs)"

definition item_ok :: "category_item \<Rightarrow> bool" where
  "item_ok n = (ci_name n \<noteq> [] \<and> strip (ci_name n) = ci_name n
     \<and> (case ci_schema n of JObj _ \<Rightarrow> True | _ \<Rightarrow> False))"

lemma category_name_ok: "category_name pystr v = Inr n \<Longrightarrow> n \<noteq> [] \<and> strip n = n"
  by (auto simp: category_name_def Let_def split: if_splits)

lemma category_schema_ok: "category_schema v = Inr s \<Longrightarrow> \<exists>d. s = JObj d"
  by (auto simp: category_schema_def split: json.splits)

lemma payload_item_ok: "normalize_category_payload pystr item = Inr n \<Longrightarrow> item_ok n"
  using category_name_ok category_schema_ok
  by (fastforce simp: normalize_category_payload_def res_simps item_ok_def)

lemma new_category_ok: "item_ok n \<Longrightarrow> category_ok (new_category i now pid n)"
  by (simp add: item_ok_def category_ok_def new_category_def)

lemma payload_errors: "normalize_category_payload pystr item = Inl e \<Longrightarrow> exn_class e = CategoryValidationError"
  by (auto simp: normalize_category_payload_def res_simps category_name_def category_schema_def Let_def
      split: if_splits json.splits)

lemma rmap_payload_errors:
  "rmap (normalize_category_payload pystr) items = Inl e \<Longrightarrow> exn_class e = CategoryValidationError"
  by (induction items) (auto simp: res_simps dest: payload_errors)

lemma create_category_ok:
  assumes "categories_ok cs" "new_id \<notin> cat_id ` set cs"
  shows "case create_category pystr new_id now pid item cs of
      Inr (c, cs') \<Rightarrow> cs' = cs @ [c] \<and> categories_ok cs'
    | Inl e \<Rightarrow> exn_class e = CategoryValidationError"
proof (cases "normalize_category_payload pystr item")
  case (Inl e)
  then show ?thesis using payload_errors [OF Inl] by (simp add: create_category_def)
next
  case (Inr n)
  let ?c = "new_category new_id now pid n"
  show ?thesis
  proof (cases "find_project_category_by_name pid (ci_name n) cs")
    case None
    then have "(pid, ci_name n) \<notin> (\<lambda>c. (cat_project_id c, cat_name c)) ` set cs"
      by (auto simp: find_project_category_by_name_def find_None_iff)
    then have "categories_ok (cs @ [?c])"
      using assms new_category_ok [OF payload_item_ok [OF Inr]]
      by (auto simp: categories_ok_def category_keys_unique_def new_category_def)
    then show ?thesis
      using Inr None
      by (simp add: create_category_def ensure_unique_name_def create_project_category_def
          flush_categories_def categories_ok_def Let_def)
  qed (use Inr in \<open>simp add: create_category_def ensure_unique_name_def\<close>)
qed

lemma save_distinct:
  "distinct (map key rows) \<Longrightarrow> distinct (map f rows) \<Longrightarrow>
   (\<And>x. x \<in> set rows \<Longrightarrow> key x \<noteq> key r \<Longrightarrow> f x \<noteq> f r) \<Longrightarrow> distinct (map f (save key r rows))"
proof (induction rows)
  case (Cons x rows)
  have rest: "distinct (map f (save key r rows))" using Cons by auto
  show ?case
  proof (cases "key x = key r")
    case True
    have others: "key y \<noteq> key r" if "y \<in> set rows" for y
      using Cons.prems(1) True that by (auto simp: image_iff)
    then have "save key r (x # rows) = r # rows"
      using True by (auto simp: save_def intro: map_idI)
    moreover have "f r \<notin> f ` set rows" using Cons.prems(3) others by force
    ultimately show ?thesis using Cons.prems(2) by simp
  next
    case False
    then have "f x \<notin> f ` set (save key r rows)"
      using Cons.prems by (auto simp: save_def)
    moreover have "save key r (x # rows) = x # save key r rows" using False by (simp add: save_def)
    ultimately show ?thesis using rest by simp
  qed
qed (simp add: save_def)

lemma patch_cases:
  assumes "normalize_category_patch pystr item = Inr u"
  shows "(cp_name u = None \<or> (\<exists>n. cp_name u = Some n \<and> n \<noteq> [] \<and> strip n = n))
    \<and> (cp_schema u = None \<or> (\<exists>d. cp_schema u = Some (JObj d)))"
proof -
  have "(case dget item ''name'' of None \<Rightarrow> Inr None
      | Some v \<Rightarrow> rbind (category_name pystr v) (\<lambda>n. Inr (Some n))) = Inr (cp_name u)"
    "(case dget item ''schema'' of None \<Rightarrow> Inr None
      | Some v \<Rightarrow> rbind (category_schema v) (\<lambda>s. Inr (Some s))) = Inr (cp_schema u)"
    using assms by (auto simp: normalize_category_patch_def res_simps)
  then have "cp_name u = None \<or> (\<exists>v n. cp_name u = Some n \<and> category_name pystr v = Inr n)"
    "cp_schema u = None \<or> (\<exists>v x. cp_schema u = Some x \<and> category_schema v = Inr x)"
    by (cases "dget item ''name''"; cases "dget item ''schema''"; auto simp: res_simps)+
  then show ?thesis using category_name_ok category_schema_ok by metis
qed

lemma patch_ok:
  assumes "normalize_category_patch pystr item = Inr u" "category_ok c"
  shows "category_ok (patch_category now u c)"
  using assms(2) patch_cases [OF assms(1)]
  by (auto simp: category_ok_def patch_category_def split: option.splits)

lemma patch_errors: "normalize_category_patch pystr item = Inl e \<Longrightarrow> exn_class e = CategoryValidationError"
  by (auto simp: normalize_category_patch_def res_simps category_name_def category_schema_def Let_def
      split: if_splits json.splits option.splits)

lemma find_project_category_by_name_Some:
  "find_project_category_by_name pid n cs = Some d \<Longrightarrow> d \<in> set cs \<and> cat_project_id d = pid \<and> cat_name d = n"
  by (auto simp: find_project_category_by_name_def find_Some_iff)

lemma renamed_unique:
  assumes cs: "categories_ok cs" and c: "get_project_category pid cid cs = Inr c"
    and free: "(case cp_name u of None \<Rightarrow> Inr () | Some n \<Rightarrow> ensure_unique_name pid n (Some cid) cs) = Inr ()"
  shows "category_keys_unique (save cat_id (patch_category now u c) cs)"
proof -
  let ?c = "patch_category now u c"
  have mem: "c \<in> set cs" "cat_project_id c = pid" "cat_id c = cid"
    using c by (auto simp: get_project_category_def find_Some_iff split: option.splits)
  have same: "cat_id ?c = cat_id c" "cat_project_id ?c = cat_project_id c"
    by (simp_all add: patch_category_def)
  have uniq: "distinct (map cat_id cs)" "distinct (map (\<lambda>c. (cat_project_id c, cat_name c)) cs)"
    using cs by (simp_all add: categories_ok_def category_keys_unique_def)
  have "(cat_project_id x, cat_name x) \<noteq> (cat_project_id ?c, cat_name ?c)"
    if "x \<in> set cs" "cat_id x \<noteq> cat_id ?c" for x
  proof (cases "cp_name u")
    case None
    then show ?thesis
      using that uniq mem(1) by (auto simp: patch_category_def distinct_map inj_on_def)
  next
    case (Some n)
    show ?thesis
    proof (cases "find_project_category_by_name pid n cs")
      case None
      then show ?thesis
        using that Some mem by (auto simp: find_project_category_by_name_def find_None_iff patch_category_def)
    next
      case (Some d)
      then have "cat_id d = cid" "d \<in> set cs" "cat_project_id d = pid" "cat_name d = n"
        using free Some \<open>cp_name u = Some n\<close> find_project_category_by_name_Some [OF Some]
        by (auto simp: ensure_unique_name_def split: if_splits)
      then show ?thesis
        using that uniq(2) mem \<open>cp_name u = Some n\<close>
        by (auto simp: patch_category_def distinct_map inj_on_def)
    qed
  qed
  then show ?thesis
    using save_distinct [OF uniq(1) uniq(2), of ?c] uniq(1) by (simp add: category_keys_unique_def)
qed

lemma update_category_ok:
  assumes "categories_ok cs"
  shows "case update_category pystr now pid cid item cs of
      Inr (c, cs') \<Rightarrow> cat_id c = cid \<and> cs' = save cat_id c cs \<and> categories_ok cs'
    | Inl e \<Rightarrow> exn_class e \<in> {CategoryValidationError, KeyError}"
proof (cases "normalize_category_patch pystr item")
  case (Inl e)
  then show ?thesis using patch_errors [OF Inl] by (simp add: update_category_def)
next
  case (Inr u)
  note patch = Inr
  show ?thesis
  proof (cases "get_project_category pid cid cs")
    case (Inl e)
    then show ?thesis
      using patch by (auto simp: update_category_def get_project_category_def split: option.splits)
  next
    case (Inr c)
    note got = Inr
    let ?free = "case cp_name u of None \<Rightarrow> Inr () | Some n \<Rightarrow> ensure_unique_name pid n (Some cid) cs"
    show ?thesis
    proof (cases ?free)
      case (Inl e)
      then show ?thesis
        using patch got
        by (auto simp: update_category_def ensure_unique_name_def split: option.splits if_splits)
    next
      case (Inr w)
      then have free: "?free = Inr ()" by simp
      have "c \<in> set cs" "cat_id c = cid"
        using got by (auto simp: get_project_category_def find_Some_iff split: option.splits)
      moreover from this have "category_ok (patch_category now u c)"
        using assms patch_ok [OF patch] by (auto simp: categories_ok_def list_all_iff)
      moreover have "cat_id (patch_category now u c) = cat_id c" by (simp add: patch_category_def)
      ultimately show ?thesis
        using patch got free renamed_unique [OF assms got free] assms set_save
        by (fastforce simp: update_category_def update_project_category_def flush_categories_def
            categories_ok_def list_all_iff Let_def)
    qed
  qed
qed

lemma map2_new_category:
  "length ns = length ids \<Longrightarrow>
   map cat_id (map2 (\<lambda>i item. new_category i now pid item) ids ns) = ids
   \<and> map (\<lambda>c. (cat_project_id c, cat_name c)) (map2 (\<lambda>i item. new_category i now pid item) ids ns)
     = map (\<lambda>n. (pid, ci_name n)) ns"
  by (induction ns ids rule: list_induct2) (simp_all add: new_category_def)

lemma replace_categories_ok:
  assumes "categories_ok cs" "distinct new_ids" "set new_ids \<inter> cat_id ` set cs = {}"
    "length new_ids = length items"
  shows "case replace_categories pystr new_ids now pid items cs of
      Inr (created, cs') \<Rightarrow> cs' = filter (\<lambda>c. cat_project_id c \<noteq> pid) cs @ created
        \<and> length created = length items \<and> categories_ok cs'
    | Inl e \<Rightarrow> exn_class e = CategoryValidationError"
proof (cases "rmap (normalize_category_payload pystr) items")
  case (Inl e)
  then show ?thesis using rmap_payload_errors [OF Inl] by (simp add: replace_categories_def)
next
  case (Inr ns)
  let ?created = "map2 (\<lambda>i item. new_category i now pid item) new_ids ns"
  let ?kept = "filter (\<lambda>c. cat_project_id c \<noteq> pid) cs"
  have len: "length ns = length new_ids" using rmap_length [OF Inr] assms(4) by simp
  show ?thesis
  proof (cases "distinct (map ci_name ns)")
    case True
    have ids: "map cat_id ?created = new_ids"
      and names: "map (\<lambda>c. (cat_project_id c, cat_name c)) ?created = map (\<lambda>n. (pid, ci_name n)) ns"
      using map2_new_category [OF len] by blast+
    have "distinct (map (\<lambda>n. (pid, ci_name n)) ns)"
      using True by (simp add: distinct_map inj_on_def)
    then have "category_keys_unique (?kept @ ?created)"
      unfolding category_keys_unique_def map_append ids names distinct_append
      using assms(1-3)
      by (auto simp: categories_ok_def category_keys_unique_def distinct_map_filter)
    moreover have "category_ok c" if "c \<in> set ?created" for c
    proof -
      from that obtain i n where "c = new_category i now pid n" "n \<in> set ns"
        by (auto dest: set_zip_rightD)
      then show ?thesis using rmap_mem [OF Inr] payload_item_ok new_category_ok by blast
    qed
    then have "list_all category_ok (?kept @ ?created)"
      using assms(1) by (auto simp: categories_ok_def list_all_iff)
    ultimately show ?thesis
      using Inr True len assms(4)
      by (simp add: replace_categories_def replace_project_categories_def flush_categories_def Let_def
          categories_ok_def)
  qed (use Inr in \<open>simp add: replace_categories_def\<close>)
qed

text \<open>
  Alone on well-formed categories, every administrative write (create, update, replace) either
  leaves them well formed, with names unique in each project, or fails with a validation error or an
  unknown category.  (Two writes that race are told apart by the uniqueness constraint, which is not
  modelled: a write is atomic here.)
\<close>

lemma category_admin_ok:
  assumes "categories_ok cs" and "new_id \<notin> cat_id ` set cs" and "distinct new_ids"
    and "set new_ids \<inter> cat_id ` set cs = {}" and "length new_ids = length items"
  shows "(case create_category pystr new_id now pid item cs of
        Inr (c, cs') \<Rightarrow> cs' = cs @ [c] \<and> categories_ok cs'
      | Inl e \<Rightarrow> exn_class e = CategoryValidationError)
    \<and> (case update_category pystr now pid cid item cs of
        Inr (c, cs') \<Rightarrow> cat_id c = cid \<and> cs' = save cat_id c cs \<and> categories_ok cs'
      | Inl e \<Rightarrow> exn_class e \<in> {CategoryValidationError, KeyError})
    \<and> (case replace_categories pystr new_ids now pid items cs of
        Inr (created, cs') \<Rightarrow> cs' = filter (\<lambda>c. cat_project_id c \<noteq> pid) cs @ created
          \<and> length created = length items \<and> categories_ok cs'
      | Inl e \<Rightarrow> exn_class e = CategoryValidationError)"
  using create_category_ok [OF assms(1,2)] update_category_ok [OF assms(1)]
    replace_categories_ok [OF assms(1,3-5)] by blast

definition sample_categories :: "category list" where
  "sample_categories = [new_category ''c1'' 0 ''p''
     \<lparr>ci_name = ''work'', ci_description = [], ci_schema = JObj [], ci_enabled = True,
      ci_strategy = ''metadata''\<rparr>]"

lemma category_admin_ok_witness:
  "categories_ok sample_categories
   \<and> is_ok (create_category (\<lambda>_. []) ''c2'' 1 ''p'' [(''name'', JStr ''home'')] sample_categories)
   \<and> (\<exists>c cs'. update_category (\<lambda>_. []) 1 ''p'' ''c1'' [(''name'', JStr ''home'')] sample_categories = Inr (c, cs')
        \<and> categories_ok cs')"
proof -
  have ok: "categories_ok sample_categories" by code_simp
  have made: "is_ok (create_category (\<lambda>_. []) ''c2'' 1 ''p'' [(''name'', JStr ''home'')] sample_categories)"
    by code_simp
  have "is_ok (update_category (\<lambda>_. []) 1 ''p'' ''c1'' [(''name'', JStr ''home'')] sample_categories)"
    by code_simp
  then obtain c cs' where u: "update_category (\<lambda>_. []) 1 ''p'' ''c1'' [(''name'', JStr ''home'')] sample_categories
      = Inr (c, cs')"
    by (auto simp: is_ok_def split: sum.splits)
  have "''c2'' \<notin> cat_id ` set sample_categories" "set [''c2''] \<inter> cat_id ` set sample_categories = {}"
    by (simp_all add: sample_categories_def new_category_def)
  then have "categories_ok cs'"
    using category_admin_ok [OF ok, of "''c2''" "[''c2'']" "[[]]" "\<lambda>_. []" 1 "''p''"
        "[(''name'', JStr ''home'')]" "''c1''"]
    unfolding u sum.case prod.case by simp blast
  with ok made u show ?thesis by blast
qed

end
