(* ===== verification/Consolidation_Store.thy ===== *)
theory Consolidation_Store
  imports Consolidation_Analysis Memory_Store Projects Jobs
begin

text \<open>
  The tables of consolidation (\<open>ConsolidationPolicyRepository\<close>, \<open>ConsolidationRunRepository\<close>,
  \<open>ConsolidationProposalRepository\<close> and \<open>ConsolidationLineageRepository\<close> in
  \<open>store/repositories.py\<close>), and the record of all tables that consolidation works on.
\<close>

record cons_db =
  cd_projects :: "project list"
  cd_memories :: "memory_index list"
  cd_policies :: "consolidation_policy list"
  cd_runs :: "consolidation_run list"
  cd_proposals :: "consolidation_proposal list"
  cd_lineage :: "consolidation_lineage list"
  cd_jobs :: "job list"

section \<open>Policies\<close>

definition get_policy :: "string \<Rightarrow> string \<Rightarrow> consolidation_policy list \<Rightarrow> consolidation_policy option" where
  "get_policy pid app rows = List.find (\<lambda>p. cpol_project_id p = pid \<and> cpol_app_id p = app) rows"

definition upsert_policy ::
    "string \<Rightarrow> time \<Rightarrow> string \<Rightarrow> string \<Rightarrow> json \<Rightarrow> consolidation_policy list \<Rightarrow>
     (consolidation_policy \<times> consolidation_policy list) res" where
  "upsert_policy new_id now pid app policy rows =
     rbind (from_mapping policy) (\<lambda>spec.
       let write = (\<lambda>p. p\<lparr>cpol_enabled := int_of_bool (pol_enabled spec), cpol_mode := pol_mode spec,
             cpol_version := pol_policy_version spec, cpol_policy_json := Some (to_mapping spec),
             cpol_updated_at := now\<rparr>)
       in case get_policy pid app rows of
            Some p \<Rightarrow> Inr (write p, save cpol_id (write p) rows)
          | None \<Rightarrow>
              let p = write \<lparr>cpol_id = new_id, cpol_project_id = pid, cpol_app_id = app, cpol_enabled = 0,
                    cpol_mode = ''OBSERVE'', cpol_policy_json = Some (JObj []), cpol_version = 1,
                    cpol_created_at = now, cpol_updated_at = now\<rparr>
              in Inr (p, rows @ [p]))"

definition list_enabled_policies :: "consolidation_policy list \<Rightarrow> consolidation_policy list" where
  "list_enabled_policies rows =
     sort_key (\<lambda>p. (cpol_project_id p, cpol_app_id p)) (filter (\<lambda>p. cpol_enabled p = 1) rows)"

definition policy_of_row :: "consolidation_policy \<Rightarrow> policy_spec res" where
  "policy_of_row row =
     (case cpol_policy_json row of
        Some (JObj d) \<Rightarrow> from_mapping (JObj d)
      | _ \<Rightarrow> value_error ''stored consolidation policy is invalid'')"

section \<open>Runs\<close>

definition NONTERMINAL :: "string list" where "NONTERMINAL = [''PENDING'', ''RUNNING'']"

definition run_in_scope :: "string \<Rightarrow> string \<Rightarrow> consolidation_run \<Rightarrow> bool" where
  "run_in_scope pid app r = (run_project_id r = pid \<and> run_app_id r = app)"

definition active_run :: "string \<Rightarrow> string \<Rightarrow> consolidation_run list \<Rightarrow> consolidation_run option" where
  "active_run pid app rows = List.find (\<lambda>r. run_in_scope pid app r \<and> run_status r \<in> set NONTERMINAL) rows"

text \<open>
  \<open>ORDER BY completed_at DESC\<close>: every succeeded run has a completion time, so the place of
  missing ones in the order does not matter.
\<close>

definition last_succeeded :: "string \<Rightarrow> string \<Rightarrow> consolidation_run list \<Rightarrow> consolidation_run option" where
  "last_succeeded pid app rows =
     first_by (\<lambda>r. case run_completed_at r of None \<Rightarrow> 0 | Some t \<Rightarrow> - t)
       (filter (\<lambda>r. run_in_scope pid app r \<and> run_status r = ''SUCCEEDED'') rows)"

text \<open>\<open>ORDER BY created_at DESC, id DESC LIMIT 1\<close>\<close>

definition last_run :: "string \<Rightarrow> string \<Rightarrow> consolidation_run list \<Rightarrow> consolidation_run option" where
  "last_run pid app rows =
     (case sort_key (\<lambda>r. (run_created_at r, run_id r)) (filter (run_in_scope pid app) rows) of
        [] \<Rightarrow> None | rs \<Rightarrow> Some (last rs))"

definition create_run ::
    "string \<Rightarrow> time \<Rightarrow> consolidation_policy \<Rightarrow> consolidation_run list \<Rightarrow>
     consolidation_run \<times> consolidation_run list" where
  "create_run new_id now p rows =
     (let r = \<lparr>run_id = new_id, run_project_id = cpol_project_id p, run_app_id = cpol_app_id p,
           run_policy_id = Some (cpol_id p), run_policy_version = cpol_version p, run_mode = cpol_mode p,
           run_status = ''PENDING'', run_scan_cutoff = None, run_counts_json = Some (JObj []),
           run_error_code = None, run_error_json = Some (JObj []), run_created_at = now,
           run_updated_at = now, run_started_at = None, run_completed_at = None\<rparr>
      in (r, rows @ [r]))"

definition get_run ::
    "string \<Rightarrow> string option \<Rightarrow> string option \<Rightarrow> consolidation_run list \<Rightarrow> consolidation_run res" where
  "get_run rid pid app rows =
     (case List.find (\<lambda>r. run_id r = rid \<and> (pid = None \<or> Some (run_project_id r) = pid)
           \<and> (app = None \<or> Some (run_app_id r) = app)) rows of
        Some r \<Rightarrow> Inr r | None \<Rightarrow> raise KeyError rid)"

definition write_run ::
    "string \<Rightarrow> (consolidation_run \<Rightarrow> consolidation_run) \<Rightarrow> consolidation_run list \<Rightarrow>
     (consolidation_run \<times> consolidation_run list) res" where
  "write_run rid f rows =
     rbind (get_run rid None None rows) (\<lambda>r. Inr (f r, save run_id (f r) rows))"

definition mark_run_running ::
    "string \<Rightarrow> time \<Rightarrow> consolidation_run list \<Rightarrow> (consolidation_run \<times> consolidation_run list) res" where
  "mark_run_running rid scan_cutoff rows =
     write_run rid (\<lambda>r. r\<lparr>run_status := ''RUNNING'', run_scan_cutoff := Some scan_cutoff,
       run_started_at := (if run_started_at r = None then Some scan_cutoff else run_started_at r),
       run_updated_at := scan_cutoff\<rparr>) rows"

definition mark_run_succeeded ::
    "string \<Rightarrow> json \<Rightarrow> time \<Rightarrow> consolidation_run list \<Rightarrow> (consolidation_run \<times> consolidation_run list) res" where
  "mark_run_succeeded rid counts completed_at rows =
     write_run rid (\<lambda>r. r\<lparr>run_status := ''SUCCEEDED'', run_counts_json := Some counts,
       run_error_code := None, run_error_json := Some (JObj []), run_completed_at := Some completed_at,
       run_updated_at := completed_at\<rparr>) rows"

definition mark_run_failed ::
    "string \<Rightarrow> string \<Rightarrow> json \<Rightarrow> time \<Rightarrow> consolidation_run list \<Rightarrow>
     (consolidation_run \<times> consolidation_run list) res" where
  "mark_run_failed rid error_code error completed_at rows =
     write_run rid (\<lambda>r. r\<lparr>run_status := ''FAILED'', run_error_code := Some error_code,
       run_error_json := Some error, run_completed_at := Some completed_at,
       run_updated_at := completed_at\<rparr>) rows"

section \<open>Proposals\<close>

definition create_proposal ::
    "string \<Rightarrow> time \<Rightarrow> consolidation_run \<Rightarrow> proposal_draft \<Rightarrow> string \<Rightarrow> consolidation_proposal list \<Rightarrow>
     consolidation_proposal \<times> consolidation_proposal list" where
  "create_proposal new_id now r d status rows =
     (case List.find (\<lambda>p. prop_run_id p = run_id r \<and> prop_proposal_key p = pd_proposal_key d) rows of
        Some p \<Rightarrow> (p, rows)
      | None \<Rightarrow>
          let p = \<lparr>prop_id = new_id, prop_run_id = run_id r, prop_project_id = run_project_id r,
                prop_app_id = run_app_id r, prop_proposal_key = pd_proposal_key d, prop_kind = pd_kind d,
                prop_status = status, prop_source_ids_json = Some (JList (map JStr (pd_source_ids d))),
                prop_canonical_memory_id = pd_canonical_id d, prop_score = pd_score d,
                prop_evidence_json = Some (JObj (pd_evidence d)), prop_expected_hashes_json = Some (JObj []),
                prop_canonical_content_hash = None, prop_export_job_id = None,
                prop_shadow_attempt_id = None, prop_shadow_attempt_expires_at = None,
                prop_not_before = None, prop_created_at = now, prop_updated_at = now,
                prop_applied_at = None\<rparr>
          in (p, rows @ [p]))"

definition get_proposal :: "string \<Rightarrow> consolidation_proposal list \<Rightarrow> consolidation_proposal res" where
  "get_proposal pid rows =
     (case row_by prop_id pid rows of Some p \<Rightarrow> Inr p | None \<Rightarrow> raise KeyError pid)"

definition proposal_source_ids :: "consolidation_proposal \<Rightarrow> string list res" where
  "proposal_source_ids p =
     (case prop_source_ids_json p of
        Some (JList xs) \<Rightarrow>
          if xs = [] \<or> list_ex (\<lambda>x. case x of JStr s \<Rightarrow> s = [] | _ \<Rightarrow> True) xs
          then value_error ''stored proposal source IDs are invalid''
          else Inr (dedup (map (\<lambda>x. case x of JStr s \<Rightarrow> s | _ \<Rightarrow> []) xs))
      | _ \<Rightarrow> value_error ''stored proposal source IDs are invalid'')"

definition proposal_expected_hashes :: "consolidation_proposal \<Rightarrow> string dict res" where
  "proposal_expected_hashes p =
     (case prop_expected_hashes_json p of
        Some (JObj d) \<Rightarrow>
          rmap (\<lambda>(k, v). case v of JStr s \<Rightarrow> Inr (k, s)
            | _ \<Rightarrow> value_error ''stored proposal hashes are invalid'') d
      | _ \<Rightarrow> value_error ''stored proposal hashes are invalid'')"

definition save_proposal ::
    "consolidation_proposal \<Rightarrow> consolidation_proposal list \<Rightarrow> consolidation_proposal list" where
  "save_proposal p rows = save prop_id p rows"

definition set_status :: "time \<Rightarrow> string \<Rightarrow> consolidation_proposal \<Rightarrow> consolidation_proposal" where
  "set_status now status p = p\<lparr>prop_status := status, prop_updated_at := now\<rparr>"

definition proposal_order :: "consolidation_proposal \<Rightarrow> time \<times> string" where
  "proposal_order p = (prop_created_at p, prop_id p)"

definition list_proposals_for_run ::
    "string \<Rightarrow> string \<Rightarrow> string \<Rightarrow> int \<Rightarrow> int \<Rightarrow> consolidation_proposal list \<Rightarrow>
     consolidation_proposal list res" where
  "list_proposals_for_run pid app rid offset limit rows =
     (if offset < 0 \<or> limit < 1 \<or> limit > 100 then value_error ''proposal page is invalid''
      else Inr (take (nat limit) (drop (nat offset) (sort_key proposal_order
        (filter (\<lambda>p. prop_project_id p = pid \<and> prop_app_id p = app \<and> prop_run_id p = rid) rows)))))"

definition list_actionable_for_run :: "string \<Rightarrow> consolidation_proposal list \<Rightarrow> consolidation_proposal list" where
  "list_actionable_for_run rid rows =
     take 1000 (sort_key proposal_order
       (filter (\<lambda>p. prop_run_id p = rid \<and> prop_status p = ''PENDING'') rows))"

definition count_proposals_for_run :: "string \<Rightarrow> consolidation_proposal list \<Rightarrow> nat" where
  "count_proposals_for_run rid rows = count_where (\<lambda>p. prop_run_id p = rid) rows"

text \<open>\<open>GROUP BY key\<close> with the count of each group, keys in order.\<close>

definition counts_by :: "('r \<Rightarrow> string) \<Rightarrow> 'r list \<Rightarrow> json dict" where
  "counts_by key rows =
     map (\<lambda>k. (k, JInt (int (count_where (\<lambda>r. key r = k) rows)))) (sort (remdups (map key rows)))"

definition summary_for_run :: "string \<Rightarrow> consolidation_proposal list \<Rightarrow> json" where
  "summary_for_run rid rows =
     (let mine = filter (\<lambda>p. prop_run_id p = rid) rows in
      JObj [(''by_kind'', JObj (counts_by prop_kind mine)), (''by_status'', JObj (counts_by prop_status mine)),
            (''total'', JInt (int (length mine)))])"

definition counts_for_scope :: "string \<Rightarrow> string \<Rightarrow> consolidation_proposal list \<Rightarrow> json dict" where
  "counts_for_scope pid app rows =
     counts_by prop_status (filter (\<lambda>p. prop_project_id p = pid \<and> prop_app_id p = app) rows)"

section \<open>Lineage\<close>

definition get_lineage_source ::
    "string \<Rightarrow> string \<Rightarrow> consolidation_lineage list \<Rightarrow> consolidation_lineage option" where
  "get_lineage_source pid mid rows =
     List.find (\<lambda>l. lin_proposal_id l = pid \<and> lin_source_memory_id l = mid) rows"

definition create_lineage ::
    "string \<Rightarrow> time \<Rightarrow> consolidation_proposal \<Rightarrow> string \<Rightarrow> string option \<Rightarrow> string \<Rightarrow> string option \<Rightarrow>
     string option \<Rightarrow> time \<Rightarrow> consolidation_lineage list \<Rightarrow> consolidation_lineage list" where
  "create_lineage new_id now p mid canonical action content_hash export_job_id applied_at rows =
     (case get_lineage_source (prop_id p) mid rows of
        Some _ \<Rightarrow> rows
      | None \<Rightarrow> rows @ [\<lparr>lin_id = new_id, lin_project_id = prop_project_id p, lin_app_id = prop_app_id p,
          lin_run_id = prop_run_id p, lin_proposal_id = prop_id p, lin_source_memory_id = mid,
          lin_canonical_memory_id = canonical, lin_action = action, lin_source_content_hash = content_hash,
          lin_export_job_id = export_job_id, lin_metadata_json = Some (JObj []),
          lin_applied_at = applied_at, lin_created_at = now\<rparr>])"

end
