(* ===== verification/Upstream.thy ===== *)
theory Upstream
  imports Prelude
begin

text \<open>
  What a call of the upstream memory service may come to (\<open>mem0_client/client.py\<close>): a decoded
  reply, or a \<open>Mem0UpstreamError\<close> with the status code, when there was a response, and whether
  the outcome of the call is unknown.
\<close>

datatype upstream = Reply json | Refused (refused_status: "int option") (outcome_unknown: bool)

definition upstream_error :: "exn + 'a" where
  "upstream_error = raise UpstreamError ''Mem0 request failed''"

fun not_found :: "upstream \<Rightarrow> bool" where
  "not_found (Refused status unknown) = (status = Some 404)"
| "not_found (Reply v) = False"

text \<open>Any failure that is not known to have had no effect counts as ambiguous.\<close>

fun ambiguous_failure :: "upstream \<Rightarrow> bool" where
  "ambiguous_failure (Refused status unknown) = unknown"
| "ambiguous_failure (Reply v) = False"

text \<open>\<open>type(exc).__name__\<close>\<close>

fun error_type :: "exn_class \<Rightarrow> string" where
  "error_type ValueError = ''ValueError''"
| "error_type TypeError = ''TypeError''"
| "error_type KeyError = ''KeyError''"
| "error_type RuntimeError = ''RuntimeError''"
| "error_type AssertionError = ''AssertionError''"
| "error_type OverflowError = ''OverflowError''"
| "error_type IntegrityError = ''IntegrityError''"
| "error_type ConsolidationConflict = ''ConsolidationConflictError''"
| "error_type MutationConflict = ''MutationConflictError''"
| "error_type MutationFence = ''MutationIntentFenceError''"
| "error_type UpstreamError = ''Mem0UpstreamError''"
| "error_type ProtocolError = ''MemoryUpstreamProtocolError''"
| "error_type (OtherError name) = name"
| "error_type _ = ''Exception''"

end
