(* ===== verification/Consolidation_Lifecycle.thy ===== *)
theory Consolidation_Lifecycle
  imports Consolidation_Store Mutation_Intents Memory_Records Upstream Leases
begin

text \<open>
  The life of a consolidation proposal (\<open>core/consolidation_service.py\<close>): approval, shadowing of
  its sources behind a leased attempt and an export, rollback, and the final deletion.  A method
  that awaits the upstream commits before it does, so it is a sequence of transactions; what
  happens between two of them (upstream replies, the export, other transactions on the
  database) is an argument.  An operation whose error may follow a commit returns the database
  beside the result; one that returns \<open>res\<close> leaves the database alone when it raises.
\<close>

abbreviation conflict :: "string \<Rightarrow> exn + 'a" where
  "conflict m \<equiv> raise ConsolidationConflict m"

definition put_proposal :: "consolidation_proposal \<Rightarrow> cons_db \<Rightarrow> cons_db" where
  "put_proposal p db = db\<lparr>cd_proposals := save_proposal p (cd_proposals db)\<rparr>"

text \<open>A proposal read under the lock of its project.\<close>

definition locked_proposal :: "string \<Rightarrow> cons_db \<Rightarrow> consolidation_proposal res" where
  "locked_proposal pid db =
     rbind (get_proposal pid (cd_proposals db)) (\<lambda>p.
     rbind (lock_for_mutation (prop_project_id p) (cd_projects db)) (\<lambda>_. Inr p))"

section \<open>Sources\<close>

text \<open>
  A session keeps the rows it holds as it read them first (\<open>expire_on_commit\<close> is off in
  \<open>store/database.py\<close>, and a query does not refresh an object it already has): which rows a
  query finds is decided by the database, but what the code then sees of a held row is what it was.
  \<open>held\<close> are the rows in the session's hands, none for a session that has just been rolled back.
\<close>

definition as_held :: "memory_index list \<Rightarrow> memory_index \<Rightarrow> memory_index" where
  "as_held held m = (case row_by mi_id (mi_id m) held of Some h \<Rightarrow> h | None \<Rightarrow> m)"

definition held_sources ::
    "memory_index list \<Rightarrow> consolidation_proposal \<Rightarrow> string dict \<Rightarrow> string \<Rightarrow> memory_index list \<Rightarrow>
     memory_index list option res" where
  "held_sources held p expected required_state rows =
     rbind (proposal_source_ids p) (\<lambda>ids.
       let ms = map (as_held held)
             (list_memories_by_ids (prop_project_id p) (Some (prop_app_id p)) ids True True rows);
           found = map mi_mem0_memory_id ms
       in Inr (if set (dkeys expected) \<noteq> set ids \<or> set found \<noteq> set ids then None
          else if list_ex (\<lambda>m. \<not> live m \<or> mi_pinned m = 1
                 \<or> mi_content_hash m \<noteq> dget expected (mi_mem0_memory_id m)
                 \<or> mi_consolidation_state m \<noteq> required_state) ms then None
          else if prop_kind p = ''EXACT_DUPLICATE''
            \<and> (case prop_canonical_memory_id p of None \<Rightarrow> True | Some c \<Rightarrow> c \<notin> set found) then None
          else Some ms))"

definition proposal_sources ::
    "consolidation_proposal \<Rightarrow> string dict \<Rightarrow> string \<Rightarrow> memory_index list \<Rightarrow> memory_index list option res" where
  "proposal_sources = held_sources []"

lemma as_held_nothing [simp]: "as_held [] m = m" "map (as_held []) ms = ms"
  by (simp_all add: as_held_def row_by_def map_idI)

definition record_is_pinned :: "json dict \<Rightarrow> bool" where
  "record_is_pinned d =
     ((case jget d ''metadata'' of JObj m \<Rightarrow> jget m ''pinned'' = JBool True | _ \<Rightarrow> False)
      \<or> (case (case dget d ''memory'' of Some v \<Rightarrow> v | None \<Rightarrow> jget d ''text'') of
           JStr s \<Rightarrow> starts_with ''[PINNED]'' (dropWhile is_space s) | _ \<Rightarrow> False))"

definition upstream_source_ok ::
    "(string \<Rightarrow> string) \<Rightarrow> string \<Rightarrow> string \<Rightarrow> string \<Rightarrow> string \<Rightarrow> json \<Rightarrow> bool" where
  "upstream_source_ok sha256 expected pid app mid response =
     (case response of
        JObj d \<Rightarrow> mid \<in> set (extract_memory_ids d)
          \<and> map_option fst (memory_content_fingerprint sha256 d) = Some expected
          \<and> \<not> record_is_pinned d
          \<and> (case jget d ''metadata'' of
               JObj m \<Rightarrow> jget m PROJECT_MARKER = JStr pid \<and> jget m APP_MARKER = JStr app
             | _ \<Rightarrow> False)
      | _ \<Rightarrow> False)"

fun upstream_sources_match ::
    "(string \<Rightarrow> string) \<Rightarrow> (string \<Rightarrow> upstream) \<Rightarrow> string dict \<Rightarrow> string \<Rightarrow> string \<Rightarrow> string list \<Rightarrow> bool res" where
  "upstream_sources_match sha256 get expected pid app [] = Inr True"
| "upstream_sources_match sha256 get expected pid app (mid # rest) =
     (case get mid of
        Refused status unknown \<Rightarrow> if status = Some 404 then Inr False else upstream_error
      | Reply (JObj d) \<Rightarrow>
          if mid \<notin> set (extract_memory_ids d) then Inr False
          else (case dget expected mid of
              None \<Rightarrow> raise KeyError mid
            | Some h \<Rightarrow>
                if upstream_source_ok sha256 h pid app mid (JObj d)
                then upstream_sources_match sha256 get expected pid app rest else Inr False)
      | Reply _ \<Rightarrow> Inr False)"

definition upstream_canonical_matches ::
    "(string \<Rightarrow> string) \<Rightarrow> (string \<Rightarrow> upstream) \<Rightarrow> consolidation_proposal \<Rightarrow> string dict \<Rightarrow> bool res" where
  "upstream_canonical_matches sha256 get p expected =
     (case prop_canonical_memory_id p of
        None \<Rightarrow> Inr True
      | Some c \<Rightarrow>
          (case (case dget expected c of Some h \<Rightarrow> Some h | None \<Rightarrow> prop_canonical_content_hash p) of
             None \<Rightarrow> Inr False
           | Some h \<Rightarrow> upstream_sources_match sha256 get [(c, h)] (prop_project_id p) (prop_app_id p) [c]))"

section \<open>Outcomes\<close>

record outcome_row =
  oc_status :: string
  oc_shadowed_count :: "int option"
  oc_not_before :: "time option"
  oc_deleted_count :: "int option"

definition plain_outcome :: "string \<Rightarrow> outcome_row" where
  "plain_outcome s = \<lparr>oc_status = s, oc_shadowed_count = None, oc_not_before = None, oc_deleted_count = None\<rparr>"

definition mark_proposal_stale :: "time \<Rightarrow> consolidation_proposal \<Rightarrow> cons_db \<Rightarrow> outcome_row \<times> cons_db" where
  "mark_proposal_stale now p db = (plain_outcome ''STALE'', put_proposal (set_status now ''STALE'' p) db)"

definition shadowed_result :: "consolidation_proposal \<Rightarrow> outcome_row res" where
  "shadowed_result p =
     rbind (proposal_source_ids p) (\<lambda>ids. Inr
       \<lparr>oc_status = ''SHADOWED'',
        oc_shadowed_count = Some (int (length ids)
          - (case prop_canonical_memory_id p of Some c \<Rightarrow> if c \<in> set ids then 1 else 0 | None \<Rightarrow> 0)),
        oc_not_before = prop_not_before p, oc_deleted_count = None\<rparr>)"

definition owns_shadow_attempt :: "consolidation_proposal \<Rightarrow> string \<Rightarrow> bool" where
  "owns_shadow_attempt p attempt = (prop_status p = ''EXPORTING'' \<and> prop_shadow_attempt_id p = Some attempt)"

definition clear_shadow_attempt :: "consolidation_proposal \<Rightarrow> consolidation_proposal" where
  "clear_shadow_attempt p = p\<lparr>prop_shadow_attempt_id := None, prop_shadow_attempt_expires_at := None\<rparr>"

section \<open>Approval\<close>

datatype approval = Approve_stale | Approve_as "string option" | Approve_replacement "json dict" "memory_index list"

definition is_semantic :: "consolidation_proposal \<Rightarrow> bool" where
  "is_semantic p = (prop_kind p \<in> {''NEAR_DUPLICATE'', ''CONTRADICTION''})"

text \<open>The decisions an operator may take about a proposal, given the policy of its scope.\<close>

definition approval_refusal ::
    "bool \<Rightarrow> consolidation_proposal \<Rightarrow> string \<Rightarrow> policy_spec \<Rightarrow> string option \<Rightarrow> string option \<Rightarrow> string option" where
  "approval_refusal bridge_ready p expected_status policy canonical_id replacement_text =
     (if \<not> pol_enabled policy \<or> pol_mode policy = ''OBSERVE'' then Some ''policy does not allow approval''
      else if \<not> bridge_ready then Some ''bridge routing is not verified''
      else if is_semantic p then
        (if pol_mode policy \<noteq> ''MANUAL'' \<or> expected_status \<noteq> ''REVIEW_REQUIRED''
         then Some ''semantic proposals require manual review''
         else if (canonical_id = None) = (replacement_text = None)
         then Some ''choose one existing canonical or replacement text'' else None)
      else if prop_kind p \<notin> pol_safe_actions policy then Some ''proposal action is not allow-listed''
      else if replacement_text \<noteq> None
      then Some ''replacement text is only valid for semantic proposals''
      else if canonical_id \<noteq> None \<and> canonical_id \<noteq> prop_canonical_memory_id p
      then Some ''canonical memory does not match proposal'' else None)"

definition string_hashes :: "json dict \<Rightarrow> string dict" where
  "string_hashes d = List.map_filter (\<lambda>(k, v). case v of JStr s \<Rightarrow> Some (k, s) | _ \<Rightarrow> None) d"

definition replacement_payload :: "consolidation_proposal \<Rightarrow> memory_index \<Rightarrow> string \<Rightarrow> json dict" where
  "replacement_payload p source txt =
     [(''text'', JStr txt), (''app_id'', JStr (prop_app_id p)),
      (''metadata'', JObj [(''type'', JStr (or_default (mi_normalized_type source) ''unknown'')),
         (''source'', JStr ''consolidation_replacement''),
         (''consolidation_proposal_id'', JStr (prop_id p))])]
     @ (case mi_user_id source of None \<Rightarrow> [] | Some u \<Rightarrow> [(''user_id'', JStr u)])
     @ (case mi_agent_id source of None \<Rightarrow> [] | Some a \<Rightarrow> [(''agent_id'', JStr a)])"

text \<open>Everything up to the addition of a replacement memory.\<close>

definition approve_check ::
    "bool \<Rightarrow> string \<Rightarrow> string \<Rightarrow> json dict \<Rightarrow> string option \<Rightarrow> string option \<Rightarrow> cons_db \<Rightarrow>
     (consolidation_proposal \<times> approval) res" where
  "approve_check bridge_ready proposal_id expected_status expected_hashes canonical_id replacement_text db =
     rbind (locked_proposal proposal_id db) (\<lambda>p.
       if prop_status p \<noteq> expected_status then conflict ''proposal status changed''
       else case get_policy (prop_project_id p) (prop_app_id p) (cd_policies db) of
         None \<Rightarrow> conflict ''consolidation policy is missing''
       | Some row \<Rightarrow>
     rbind (policy_of_row row) (\<lambda>policy.
       case approval_refusal bridge_ready p expected_status policy canonical_id replacement_text of
         Some reason \<Rightarrow> conflict reason
       | None \<Rightarrow>
     let hashes = string_hashes expected_hashes in
     rbind (if length hashes \<noteq> length expected_hashes then Inr None
            else proposal_sources p hashes ''ACTIVE'' (cd_memories db)) (\<lambda>sources.
       case sources of
         None \<Rightarrow> Inr (p, Approve_stale)
       | Some ms \<Rightarrow>
     rbind (proposal_source_ids p) (\<lambda>ids.
       if canonical_id \<noteq> None \<and> the canonical_id \<notin> set ids
       then conflict ''canonical memory is not a proposal source''
       else case replacement_text of
         None \<Rightarrow> Inr (p, Approve_as canonical_id)
       | Some txt \<Rightarrow>
           if strip txt = [] \<or> length txt > 20000 then conflict ''replacement text is invalid''
           else (case first_by mi_mem0_memory_id ms of
               None \<Rightarrow> value_error ''min() iterable argument is empty''
             | Some source \<Rightarrow> Inr (p, Approve_replacement (replacement_payload p source txt) ms))))))"

definition approved_proposal ::
    "time \<Rightarrow> string dict \<Rightarrow> string option \<Rightarrow> string option \<Rightarrow> bool \<Rightarrow> consolidation_proposal \<Rightarrow> consolidation_proposal" where
  "approved_proposal now hashes canonical_id replacement_hash replaced p =
     (let p1 = p\<lparr>prop_expected_hashes_json := Some (canon_json (JObj (map (\<lambda>(k, v). (k, JStr v)) hashes)))\<rparr>;
          p2 = (if is_semantic p then
              p1\<lparr>prop_canonical_memory_id := canonical_id,
                 prop_evidence_json := Some (canon_json (JObj (dset ''operator_decision''
                   (JStr (if replaced then ''replacement_created'' else ''existing_canonical''))
                   (json_object (prop_evidence_json p)))))\<rparr>
            else p1);
          p3 = (case prop_canonical_memory_id p2 of
              None \<Rightarrow> p2
            | Some c \<Rightarrow> p2\<lparr>prop_canonical_content_hash :=
                (case replacement_hash of Some (x # xs) \<Rightarrow> Some (x # xs) | _ \<Rightarrow> dget hashes c)\<rparr>)
      in set_status now ''APPROVED'' p3)"

text \<open>
  Writing a changed object updates the columns in which it differs from what the session had loaded,
  over whatever the row has become; these are the columns an approval sets.  Proposals are never
  removed.
\<close>

definition flush_proposal ::
    "consolidation_proposal \<Rightarrow> consolidation_proposal \<Rightarrow> cons_db \<Rightarrow> cons_db" where
  "flush_proposal loaded p db =
     db\<lparr>cd_proposals := map (\<lambda>row. if prop_id row \<noteq> prop_id p then row else row\<lparr>
       prop_status := (if prop_status p = prop_status loaded then prop_status row else prop_status p),
       prop_canonical_memory_id := (if prop_canonical_memory_id p = prop_canonical_memory_id loaded
         then prop_canonical_memory_id row else prop_canonical_memory_id p),
       prop_evidence_json := (if prop_evidence_json p = prop_evidence_json loaded
         then prop_evidence_json row else prop_evidence_json p),
       prop_expected_hashes_json := (if prop_expected_hashes_json p = prop_expected_hashes_json loaded
         then prop_expected_hashes_json row else prop_expected_hashes_json p),
       prop_canonical_content_hash := (if prop_canonical_content_hash p = prop_canonical_content_hash loaded
         then prop_canonical_content_hash row else prop_canonical_content_hash p),
       prop_updated_at := (if prop_updated_at p = prop_updated_at loaded
         then prop_updated_at row else prop_updated_at p)\<rparr>) (cd_proposals db)\<rparr>"

text \<open>
  \<open>add_memory\<close> is what adding the replacement (\<open>MemoryService.add_memory\<close>) answers, with the
  database it and the transactions beside it leave.  It works on the session of the approval: when
  it rolls that back (to recover open mutations, or because a request of the same key got ahead of
  it), the approval reads proposal and sources afresh when it looks at them again; otherwise
  (\<open>refreshed\<close> is false) it sees them as it did before it added the memory.
\<close>

definition approve_proposal ::
    "(string \<Rightarrow> string) \<Rightarrow> bool \<Rightarrow> (json dict \<Rightarrow> cons_db \<Rightarrow> json dict res \<times> cons_db) \<Rightarrow> bool \<Rightarrow> time \<Rightarrow> string \<Rightarrow>
     string \<Rightarrow> json dict \<Rightarrow> string option \<Rightarrow> string option \<Rightarrow> cons_db \<Rightarrow> outcome_row res \<times> cons_db" where
  "approve_proposal sha256 bridge_ready add_memory refreshed now proposal_id expected_status expected_hashes
       canonical_id replacement_text db =
     (let hashes = string_hashes expected_hashes
      in case approve_check bridge_ready proposal_id expected_status expected_hashes canonical_id
           replacement_text db of
        Inl e \<Rightarrow> (Inl e, db)
      | Inr (p, Approve_stale) \<Rightarrow> (let (r, db') = mark_proposal_stale now p db in (Inr r, db'))
      | Inr (p, Approve_as canonical) \<Rightarrow>
          (Inr (plain_outcome ''APPROVED''),
           put_proposal (approved_proposal now hashes canonical None False p) db)
      | Inr (p, Approve_replacement payload sources) \<Rightarrow>
          (case add_memory payload db of
             (Inl e, db1) \<Rightarrow> (Inl e, db1)
           | (Inr added, db1) \<Rightarrow>
               (case jget added ''memory'' of
                  JObj memory \<Rightarrow>
                    (case rbind (extract_memory_id memory) (\<lambda>c.
                       case memory_content_fingerprint sha256 memory of
                         None \<Rightarrow> conflict ''replacement memory fingerprint is unavailable''
                       | Some (h, _) \<Rightarrow>
                           rbind (lock_for_mutation (prop_project_id p) (cd_projects db1)) (\<lambda>_.
                           rbind (if refreshed then get_proposal proposal_id (cd_proposals db1) else Inr p) (\<lambda>p1.
                           rbind (held_sources (if refreshed then [] else sources) p1 hashes ''ACTIVE''
                               (cd_memories db1)) (\<lambda>again.
                             Inr (c, h, p1, again))))) of
                       Inl e \<Rightarrow> (Inl e, db1)
                     | Inr (c, h, p1, None) \<Rightarrow>
                         (Inr (plain_outcome ''STALE''), flush_proposal p1 (set_status now ''STALE'' p1) db1)
                     | Inr (c, h, p1, Some _) \<Rightarrow>
                         (Inr (plain_outcome ''APPROVED''),
                          flush_proposal p1 (approved_proposal now hashes (Some c) (Some h) True p1) db1))
                | _ \<Rightarrow> (conflict ''replacement memory add failed'', db1))))"

section \<open>Shadowing\<close>

record export_result =
  ex_id :: string
  ex_status :: string
  ex_total :: int
  ex_exported :: int
  ex_skipped :: int

record shadow_attempt =
  sa_id :: string
  sa_proposal :: consolidation_proposal
  sa_source_ids :: "string list"
  sa_expected :: "string dict"
  sa_grace_days :: int

datatype shadow_start = Shadow_done outcome_row | Shadow_attempt shadow_attempt

definition attempt_held :: "time \<Rightarrow> consolidation_proposal \<Rightarrow> bool" where
  "attempt_held now p =
     (prop_status p = ''EXPORTING'' \<and> prop_shadow_attempt_id p \<noteq> None
      \<and> (case prop_shadow_attempt_expires_at p of None \<Rightarrow> False | Some t \<Rightarrow> now < t))"

definition take_attempt_row ::
    "string \<Rightarrow> time \<Rightarrow> int \<Rightarrow> time \<Rightarrow> consolidation_proposal \<Rightarrow> consolidation_proposal" where
  "take_attempt_row attempt now lease_seconds stamp p =
     set_status stamp ''EXPORTING'' (p\<lparr>prop_shadow_attempt_id := Some attempt,
       prop_shadow_attempt_expires_at := Some (now + lease_seconds * SECOND)\<rparr>)"

text \<open>The first transaction: claim the proposal for an attempt.\<close>

definition shadow_begin ::
    "bool \<Rightarrow> string \<Rightarrow> time \<Rightarrow> int \<Rightarrow> string \<Rightarrow> cons_db \<Rightarrow> (shadow_start \<times> cons_db) res" where
  "shadow_begin bridge_ready attempt now lease_seconds proposal_id db =
     rbind (locked_proposal proposal_id db) (\<lambda>p.
       if prop_status p = ''SHADOWED''
       then rbind (shadowed_result p) (\<lambda>r. Inr (Shadow_done r, db))
       else if prop_status p \<notin> {''APPROVED'', ''EXPORTING''} then conflict ''proposal is not approved''
       else if attempt_held now p then Inr (Shadow_done (plain_outcome (prop_status p)), db)
       else if \<not> bridge_ready then conflict ''bridge routing is not verified''
       else case get_policy (prop_project_id p) (prop_app_id p) (cd_policies db) of
         None \<Rightarrow> conflict ''consolidation policy is missing''
       | Some row \<Rightarrow>
     rbind (policy_of_row row) (\<lambda>policy.
     rbind (proposal_expected_hashes p) (\<lambda>expected.
     rbind (proposal_sources p expected ''ACTIVE'' (cd_memories db)) (\<lambda>sources.
       if sources = None
       then (let (r, db') = mark_proposal_stale now p db in Inr (Shadow_done r, db'))
       else rbind (proposal_source_ids p) (\<lambda>ids.
         let p' = take_attempt_row attempt now lease_seconds now p
         in Inr (Shadow_attempt \<lparr>sa_id = attempt, sa_proposal = p', sa_source_ids = ids,
                   sa_expected = expected, sa_grace_days = pol_shadow_grace_days policy\<rparr>,
                 put_proposal p' db))))))"

text \<open>
  The later transactions start the same way: under the lock again, they give up when another
  attempt has finished or taken over.
\<close>

definition still_owned ::
    "shadow_attempt \<Rightarrow> cons_db \<Rightarrow> (consolidation_proposal \<Rightarrow> (outcome_row \<times> cons_db) res) \<Rightarrow>
     (outcome_row \<times> cons_db) res" where
  "still_owned a db go =
     rbind (lock_for_mutation (prop_project_id (sa_proposal a)) (cd_projects db)) (\<lambda>_.
     rbind (get_proposal (prop_id (sa_proposal a)) (cd_proposals db)) (\<lambda>p.
       if prop_status p = ''SHADOWED'' then rbind (shadowed_result p) (\<lambda>r. Inr (r, db))
       else if \<not> owns_shadow_attempt p (sa_id a) then Inr (plain_outcome (prop_status p), db)
       else go p))"

definition shadow_abort :: "time \<Rightarrow> shadow_attempt \<Rightarrow> cons_db \<Rightarrow> (outcome_row \<times> cons_db) res" where
  "shadow_abort now a db =
     still_owned a db (\<lambda>p. Inr (mark_proposal_stale now (clear_shadow_attempt p) db))"

definition shadow_state :: "string \<Rightarrow> string" where
  "shadow_state kind =
     (if kind = ''EXACT_DUPLICATE'' \<or> kind = ''NEAR_DUPLICATE'' then ''MERGED''
      else if kind = ''CONTRADICTION'' then ''SUPERSEDED'' else ''SHADOWED'')"

definition target_ids :: "consolidation_proposal \<Rightarrow> string list \<Rightarrow> string list" where
  "target_ids p ids = filter (\<lambda>i. Some i \<noteq> prop_canonical_memory_id p) ids"

definition shadow_row :: "time \<Rightarrow> consolidation_proposal \<Rightarrow> memory_index \<Rightarrow> memory_index" where
  "shadow_row now p m = m\<lparr>mi_consolidation_state := shadow_state (prop_kind p),
     mi_shadowed_by_proposal_id := Some (prop_id p), mi_updated_at := now\<rparr>"

text \<open>The rows a query returned, written back.\<close>

definition write_rows ::
    "memory_index list \<Rightarrow> (memory_index \<Rightarrow> memory_index) \<Rightarrow> memory_index list \<Rightarrow> memory_index list" where
  "write_rows found f rows = map (\<lambda>m. if m \<in> set found then f m else m) rows"

definition complete_export :: "export_result \<Rightarrow> nat \<Rightarrow> bool" where
  "complete_export ex n = (ex_status ex = ''SUCCEEDED'' \<and> ex_total ex = int n \<and> ex_exported ex = int n
     \<and> ex_skipped ex = 0)"

definition shadow_finish ::
    "time \<Rightarrow> time \<Rightarrow> shadow_attempt \<Rightarrow> export_result \<Rightarrow> bool \<Rightarrow> cons_db \<Rightarrow> (outcome_row \<times> cons_db) res" where
  "shadow_finish now stamp a ex upstream_match db =
     still_owned a db (\<lambda>p0.
       let p = p0\<lparr>prop_export_job_id := Some (ex_id ex)\<rparr>; ids = sa_source_ids a;
           stop = (\<lambda>status. Inr (plain_outcome status,
             put_proposal (set_status stamp status (clear_shadow_attempt p)) db))
       in if \<not> complete_export ex (length ids)
          then stop (if ex_status ex = ''SUCCEEDED'' then ''STALE'' else ''FAILED'')
          else if \<not> upstream_match then stop ''STALE''
          else rbind (proposal_sources p (sa_expected a) ''ACTIVE'' (cd_memories db)) (\<lambda>sources.
            if sources = None then stop ''STALE''
            else
              let targets = target_ids p ids;
                  found = list_memories_by_ids (prop_project_id p) (Some (prop_app_id p)) targets False True
                    (cd_memories db)
              in if length found \<noteq> length targets
                 then Inr (mark_proposal_stale stamp p db)
                 else
                   let p' = set_status stamp ''SHADOWED'' (clear_shadow_attempt
                         (p\<lparr>prop_not_before := Some (now + sa_grace_days a * DAY)\<rparr>))
                   in rbind (shadowed_result p') (\<lambda>r.
                        Inr (r, (put_proposal p' db)\<lparr>cd_memories :=
                          write_rows found (shadow_row stamp p) (cd_memories db)\<rparr>))))"

text \<open>
  The whole method: the upstream as it answers before and after the export, the transactions
  that run meanwhile, and the export itself.
\<close>

record shadow_world =
  sw_before :: "string \<Rightarrow> upstream"
  sw_others :: "cons_db \<Rightarrow> cons_db"
  sw_export :: "shadow_attempt \<Rightarrow> cons_db \<Rightarrow> export_result res \<times> cons_db"
  sw_after :: "string \<Rightarrow> upstream"

definition with_db :: "cons_db \<Rightarrow> ('a \<times> cons_db) res \<Rightarrow> 'a res \<times> cons_db" where
  "with_db db r = (case r of Inl e \<Rightarrow> (Inl e, db) | Inr (x, db') \<Rightarrow> (Inr x, db'))"

definition shadow_approved ::
    "(string \<Rightarrow> string) \<Rightarrow> shadow_world \<Rightarrow> bool \<Rightarrow> string \<Rightarrow> time \<Rightarrow> int \<Rightarrow> time \<Rightarrow> string \<Rightarrow> cons_db \<Rightarrow>
     outcome_row res \<times> cons_db" where
  "shadow_approved sha256 w bridge_ready attempt now lease_seconds later proposal_id db =
     (case shadow_begin bridge_ready attempt now lease_seconds proposal_id db of
        Inl e \<Rightarrow> (Inl e, db)
      | Inr (Shadow_done r, db1) \<Rightarrow> (Inr r, db1)
      | Inr (Shadow_attempt a, db1) \<Rightarrow>
          let p = sa_proposal a;
              sources_match = (\<lambda>get. upstream_sources_match sha256 get (sa_expected a)
                (prop_project_id p) (prop_app_id p) (sa_source_ids a));
              canonical_matches = (\<lambda>get. upstream_canonical_matches sha256 get p (sa_expected a))
          in case rbind (sources_match (sw_before w)) (\<lambda>ok.
                 if ok then canonical_matches (sw_before w) else Inr False) of
               Inl e \<Rightarrow> (Inl e, sw_others w db1)
             | Inr False \<Rightarrow> with_db (sw_others w db1) (shadow_abort later a (sw_others w db1))
             | Inr True \<Rightarrow>
                 (case sw_export w a (sw_others w db1) of
                    (Inl e, db2) \<Rightarrow> (Inl e, db2)
                  | (Inr ex, db2) \<Rightarrow>
                      (case rbind (sources_match (sw_after w)) (\<lambda>s.
                          rbind (canonical_matches (sw_after w)) (\<lambda>c. Inr (s \<and> c))) of
                         Inl e \<Rightarrow> (Inl e, db2)
                       | Inr ok \<Rightarrow> with_db db2 (shadow_finish later later a ex ok db2))))"

section \<open>Rollback\<close>

definition restorable :: "consolidation_proposal \<Rightarrow> memory_index \<Rightarrow> bool" where
  "restorable p m = (live m \<and> mi_consolidation_state m \<in> set INACTIVE_CONSOLIDATION_STATES
     \<and> mi_shadowed_by_proposal_id m = Some (prop_id p))"

definition restore_row :: "time \<Rightarrow> memory_index \<Rightarrow> memory_index" where
  "restore_row now m = m\<lparr>mi_consolidation_state := ''ACTIVE'', mi_shadowed_by_proposal_id := None,
     mi_last_consolidation_scan_at := None, mi_updated_at := now\<rparr>"

definition rollback_shadowed :: "time \<Rightarrow> string \<Rightarrow> cons_db \<Rightarrow> (nat \<times> cons_db) res" where
  "rollback_shadowed now proposal_id db =
     rbind (locked_proposal proposal_id db) (\<lambda>p.
       if prop_status p \<noteq> ''SHADOWED'' then conflict ''proposal is not shadowed''
       else rbind (proposal_source_ids p) (\<lambda>ids.
         let found = list_memories_by_ids (prop_project_id p) (Some (prop_app_id p)) ids True True
               (cd_memories db);
             restored = filter (restorable p) found
         in Inr (length restored,
              (put_proposal (set_status now ''ROLLED_BACK'' (p\<lparr>prop_not_before := None\<rparr>)) db)
                \<lparr>cd_memories := write_rows restored (restore_row now) (cd_memories db)\<rparr>)))"

section \<open>Finalisation\<close>

text \<open>
  Per target: the upstream before the deletion, the deletion itself
  (\<open>MemoryService.delete_memory\<close>) with the transactions beside it, and the upstream after it.
\<close>

record delete_world =
  dw_before :: "string \<Rightarrow> upstream"
  dw_delete :: "cons_db \<Rightarrow> unit res \<times> cons_db"
  dw_after :: upstream

datatype finalize_check = Recorded | Already_gone | Deletable

definition fail_proposal :: "time \<Rightarrow> string \<Rightarrow> string \<Rightarrow> cons_db \<Rightarrow> 'a res \<times> cons_db" where
  "fail_proposal now proposal_id message db =
     (case get_proposal proposal_id (cd_proposals db) of
        Inl e \<Rightarrow> (Inl e, db)
      | Inr p \<Rightarrow> (conflict message, put_proposal (set_status now ''FAILED'' p) db))"

definition finalize_check ::
    "time \<Rightarrow> consolidation_proposal \<Rightarrow> string dict \<Rightarrow> string \<Rightarrow> cons_db \<Rightarrow> finalize_check res \<times> cons_db" where
  "finalize_check now p expected mid db =
     (if get_lineage_source (prop_id p) mid (cd_lineage db) \<noteq> None then (Inr Recorded, db)
      else case get_memory (prop_project_id p) mid (Some (prop_app_id p)) True (cd_memories db) of
        None \<Rightarrow> fail_proposal now (prop_id p) ''shadowed projection is missing'' db
      | Some m \<Rightarrow>
          if \<not> live m then (Inr Already_gone, db)
          else if mi_consolidation_state m \<notin> set INACTIVE_CONSOLIDATION_STATES
            \<or> mi_shadowed_by_proposal_id m \<noteq> Some (prop_id p)
          then fail_proposal now (prop_id p) ''shadowed source changed'' db
          else case dget expected mid of
            None \<Rightarrow> (raise KeyError mid, db)
          | Some h \<Rightarrow>
              if mi_content_hash m \<noteq> Some h \<or> mi_pinned m = 1
              then fail_proposal now (prop_id p) ''shadowed source changed'' db
              else (Inr Deletable, db))"

definition upstream_still_matches ::
    "(string \<Rightarrow> string) \<Rightarrow> (string \<Rightarrow> upstream) \<Rightarrow> consolidation_proposal \<Rightarrow> string dict \<Rightarrow> string \<Rightarrow> unit res" where
  "upstream_still_matches sha256 get p expected mid =
     rbind (upstream_sources_match sha256 get expected (prop_project_id p) (prop_app_id p) [mid]) (\<lambda>s.
       if \<not> s then conflict ''upstream source changed''
       else rbind (upstream_canonical_matches sha256 get p expected) (\<lambda>c.
         if \<not> c then conflict ''canonical memory changed'' else Inr ()))"

text \<open>The deletion is only recorded when the upstream no longer has the memory.\<close>

definition record_deletion ::
    "string \<Rightarrow> time \<Rightarrow> time \<Rightarrow> consolidation_proposal \<Rightarrow> string dict \<Rightarrow> string \<Rightarrow> upstream \<Rightarrow> cons_db \<Rightarrow>
     unit res \<times> cons_db" where
  "record_deletion new_id stamp now p expected mid after db =
     (case after of
        Reply _ \<Rightarrow> fail_proposal stamp (prop_id p) ''hard-delete verification failed'' db
      | Refused status unknown \<Rightarrow>
          if status \<noteq> Some 404 then (upstream_error, db)
          else (case rbind (lock_for_mutation (prop_project_id p) (cd_projects db)) (\<lambda>_.
                 rbind (get_proposal (prop_id p) (cd_proposals db)) (\<lambda>q.
                 case dget expected mid of
                   None \<Rightarrow> raise KeyError mid
                 | Some h \<Rightarrow> Inr (q, h))) of
              Inl e \<Rightarrow> (Inl e, db)
            | Inr (q, h) \<Rightarrow>
                (Inr (), db\<lparr>cd_lineage := create_lineage new_id stamp q mid (prop_canonical_memory_id q)
                   (prop_kind q @ ''_DELETE'') (Some h) (prop_export_job_id q) now (cd_lineage db)\<rparr>)))"

definition finalize_target ::
    "(string \<Rightarrow> string) \<Rightarrow> string \<Rightarrow> time \<Rightarrow> time \<Rightarrow> consolidation_proposal \<Rightarrow> string dict \<Rightarrow> delete_world \<Rightarrow>
     string \<Rightarrow> cons_db \<Rightarrow> unit res \<times> cons_db" where
  "finalize_target sha256 new_id stamp now p expected w mid db =
     (case finalize_check stamp p expected mid db of
        (Inl e, db1) \<Rightarrow> (Inl e, db1)
      | (Inr Recorded, db1) \<Rightarrow> (Inr (), db1)
      | (Inr Already_gone, db1) \<Rightarrow> record_deletion new_id stamp now p expected mid (dw_after w) db1
      | (Inr Deletable, db1) \<Rightarrow>
          (case upstream_still_matches sha256 (dw_before w) p expected mid of
             Inl e \<Rightarrow> (Inl e, db1)
           | Inr _ \<Rightarrow>
               (case dw_delete w db1 of
                  (Inl e, db2) \<Rightarrow> (Inl e, db2)
                | (Inr _, db2) \<Rightarrow> record_deletion new_id stamp now p expected mid (dw_after w) db2)))"

fun finalize_targets ::
    "(string \<Rightarrow> string) \<Rightarrow> (string \<Rightarrow> string) \<Rightarrow> time \<Rightarrow> time \<Rightarrow> consolidation_proposal \<Rightarrow> string dict \<Rightarrow>
     (string \<Rightarrow> delete_world) \<Rightarrow> string list \<Rightarrow> cons_db \<Rightarrow> unit res \<times> cons_db" where
  "finalize_targets sha256 new_id stamp now p expected w [] db = (Inr (), db)"
| "finalize_targets sha256 new_id stamp now p expected w (mid # rest) db =
     (case finalize_target sha256 (new_id mid) stamp now p expected (w mid) mid db of
        (Inl e, db') \<Rightarrow> (Inl e, db')
      | (Inr _, db') \<Rightarrow> finalize_targets sha256 new_id stamp now p expected w rest db')"

definition finalize_guard ::
    "bool \<Rightarrow> bool \<Rightarrow> time \<Rightarrow> string \<Rightarrow> cons_db \<Rightarrow> (consolidation_proposal \<times> bool) res" where
  "finalize_guard bridge_ready hard_delete now proposal_id db =
     rbind (get_proposal proposal_id (cd_proposals db)) (\<lambda>p.
       if prop_status p \<noteq> ''SHADOWED'' then conflict ''proposal is not shadowed''
       else if (case prop_not_before p of None \<Rightarrow> True | Some t \<Rightarrow> now < t)
       then conflict ''shadow grace period has not elapsed''
       else if \<not> hard_delete then Inr (p, False)
       else if \<not> bridge_ready then conflict ''bridge routing is not verified''
       else if prop_export_job_id p \<in> {None, Some []} then conflict ''export checkpoint is missing''
       else Inr (p, True))"

definition finalize_shadowed ::
    "(string \<Rightarrow> string) \<Rightarrow> (string \<Rightarrow> string) \<Rightarrow> bool \<Rightarrow> bool \<Rightarrow> (string \<Rightarrow> delete_world) \<Rightarrow> time \<Rightarrow> time \<Rightarrow>
     string \<Rightarrow> cons_db \<Rightarrow> outcome_row res \<times> cons_db" where
  "finalize_shadowed sha256 new_id bridge_ready hard_delete w stamp now proposal_id db =
     (case finalize_guard bridge_ready hard_delete now proposal_id db of
        Inl e \<Rightarrow> (Inl e, db)
      | Inr (p, False) \<Rightarrow> (Inr (plain_outcome ''SHADOWED''), db)
      | Inr (p, True) \<Rightarrow>
          (case rbind (proposal_expected_hashes p) (\<lambda>expected.
                 rbind (proposal_source_ids p) (\<lambda>ids. Inr (expected, target_ids p ids))) of
             Inl e \<Rightarrow> (Inl e, db)
           | Inr (expected, targets) \<Rightarrow>
               (case finalize_targets sha256 new_id stamp now p expected w targets db of
                  (Inl e, db1) \<Rightarrow> (Inl e, db1)
                | (Inr _, db1) \<Rightarrow>
                    (case get_proposal proposal_id (cd_proposals db1) of
                       Inl e \<Rightarrow> (Inl e, db1)
                     | Inr q \<Rightarrow> (Inr ((plain_outcome ''APPLIED'')\<lparr>oc_deleted_count := Some (int (length targets))\<rparr>),
                         put_proposal (set_status stamp ''APPLIED'' (q\<lparr>prop_applied_at := Some now\<rparr>)) db1)))))"

end
