(* ===== verification/Consolidation_Safety.thy ===== *)
theory Consolidation_Safety
  imports Consolidation_Lifecycle
begin

text \<open>
  What the life of a proposal guarantees: which memories a shadowing touches, that a rollback
  undoes it, that attempts are a lease apart, what is deleted in the end, and an invariant of
  the whole that holds under any interleaving of the transactions.
\<close>

section \<open>The rows a shadowing or a rollback writes\<close>

lemma set_list_memories_by_ids:
  "set (list_memories_by_ids pid app ids del sh rows) =
     {m \<in> set rows. mi_project_id m = pid \<and> mi_mem0_memory_id m \<in> set ids \<and> opt_is app (mi_app_id m)
        \<and> (del \<or> live m) \<and> (sh \<or> mi_consolidation_state m = ''ACTIVE'')}"
proof -
  have "(\<exists>b \<in> set (chunks 400 (dedup ids)). x \<in> set b) \<longleftrightarrow> x \<in> set ids" for x
    using arg_cong [OF concat_chunks [of 400 "dedup ids"], of set] by auto
  then show ?thesis by (auto simp: list_memories_by_ids_def)
qed

text \<open>The sources of a proposal as the approval saw them.\<close>

definition source_intact :: "consolidation_proposal \<Rightarrow> string dict \<Rightarrow> memory_index \<Rightarrow> bool" where
  "source_intact p expected m =
     (mi_project_id m = prop_project_id p \<and> mi_app_id m = Some (prop_app_id p)
      \<and> active m \<and> mi_pinned m \<noteq> 1 \<and> mi_content_hash m = dget expected (mi_mem0_memory_id m))"

lemma proposal_sources_Some:
  assumes "proposal_sources p expected ''ACTIVE'' rows = Inr (Some ms)" "proposal_source_ids p = Inr ids"
  shows "set (dkeys expected) = set ids" "mi_mem0_memory_id ` set ms = set ids"
    "m \<in> set ms \<Longrightarrow> m \<in> set rows \<and> source_intact p expected m"
    "set ms = {m \<in> set rows. mi_project_id m = prop_project_id p \<and> mi_app_id m = Some (prop_app_id p)
       \<and> mi_mem0_memory_id m \<in> set ids}"
    "prop_kind p = ''EXACT_DUPLICATE'' \<Longrightarrow> \<exists>c \<in> set ids. prop_canonical_memory_id p = Some c"
proof -
  let ?ms = "list_memories_by_ids (prop_project_id p) (Some (prop_app_id p)) ids True True rows"
  from assms have ms: "ms = ?ms" and keys: "set (dkeys expected) = set ids"
    and found: "set (map mi_mem0_memory_id ?ms) = set ids"
    and intact: "\<not> list_ex (\<lambda>m. \<not> live m \<or> mi_pinned m = 1
                 \<or> mi_content_hash m \<noteq> dget expected (mi_mem0_memory_id m)
                 \<or> mi_consolidation_state m \<noteq> ''ACTIVE'') ?ms"
    and exact: "prop_kind p = ''EXACT_DUPLICATE'' \<Longrightarrow>
      \<not> (case prop_canonical_memory_id p of None \<Rightarrow> True | Some c \<Rightarrow> c \<notin> set (map mi_mem0_memory_id ?ms))"
    by (auto simp: proposal_sources_def held_sources_def res_simps Let_def split: if_splits)
  show "set (dkeys expected) = set ids" by (rule keys)
  show "mi_mem0_memory_id ` set ms = set ids" using found ms by simp
  show set_ms: "set ms = {m \<in> set rows. mi_project_id m = prop_project_id p \<and> mi_app_id m = Some (prop_app_id p)
       \<and> mi_mem0_memory_id m \<in> set ids}"
    unfolding ms by (auto simp: set_list_memories_by_ids opt_is_def)
  show "m \<in> set ms \<Longrightarrow> m \<in> set rows \<and> source_intact p expected m"
    using set_ms intact ms by (auto simp: source_intact_def active_def list_ex_iff)
  show "prop_kind p = ''EXACT_DUPLICATE'' \<Longrightarrow> \<exists>c \<in> set ids. prop_canonical_memory_id p = Some c"
    using exact found by (auto split: option.splits)
qed

text \<open>
  How a finished attempt ends: some outcome that leaves every memory alone, or the sources but
  the canonical one shadowed.
\<close>

definition shadows ::
    "time \<Rightarrow> time \<Rightarrow> shadow_attempt \<Rightarrow> export_result \<Rightarrow> consolidation_proposal \<Rightarrow> cons_db \<Rightarrow> cons_db \<Rightarrow> bool" where
  "shadows now stamp a ex p db db' =
     (let p1 = p\<lparr>prop_export_job_id := Some (ex_id ex)\<rparr>;
          p2 = set_status stamp ''SHADOWED'' (clear_shadow_attempt
             (p1\<lparr>prop_not_before := Some (now + sa_grace_days a * DAY)\<rparr>));
          found = list_memories_by_ids (prop_project_id p) (Some (prop_app_id p))
             (target_ids p (sa_source_ids a)) False True (cd_memories db)
      in get_proposal (prop_id (sa_proposal a)) (cd_proposals db) = Inr p \<and> owns_shadow_attempt p (sa_id a)
         \<and> complete_export ex (length (sa_source_ids a))
         \<and> (\<exists>ms. proposal_sources p (sa_expected a) ''ACTIVE'' (cd_memories db) = Inr (Some ms))
         \<and> db' = (put_proposal p2 db)\<lparr>cd_memories := write_rows found (shadow_row stamp p) (cd_memories db)\<rparr>)"

lemma proposal_sources_export:
  "proposal_sources (p\<lparr>prop_export_job_id := e\<rparr>) expected st rows = proposal_sources p expected st rows"
  by (simp add: proposal_sources_def held_sources_def proposal_source_ids_def cong: if_cong)

lemma target_ids_export [simp]: "target_ids (p\<lparr>prop_export_job_id := e\<rparr>) ids = target_ids p ids"
  by (simp add: target_ids_def)

lemma shadow_row_export [simp]: "shadow_row t (p\<lparr>prop_export_job_id := e\<rparr>) = shadow_row t p"
  by (simp add: shadow_row_def fun_eq_iff)

lemma shadow_finish_cases:
  assumes run: "shadow_finish now stamp a ex ok db = Inr (r, db')"
  obtains (unchanged) "cd_memories db' = cd_memories db"
  | (shadowed) p where "shadows now stamp a ex p db db'" "ok" "oc_status r = ''SHADOWED''"
proof -
  from run obtain p where p: "get_proposal (prop_id (sa_proposal a)) (cd_proposals db) = Inr p"
    by (auto simp: shadow_finish_def still_owned_def res_simps)
  let ?p = "p\<lparr>prop_export_job_id := Some (ex_id ex)\<rparr>"
  show thesis
  proof (cases "prop_status p \<noteq> ''SHADOWED'' \<and> owns_shadow_attempt p (sa_id a)
      \<and> complete_export ex (length (sa_source_ids a)) \<and> ok
      \<and> (\<exists>ms. proposal_sources p (sa_expected a) ''ACTIVE'' (cd_memories db) = Inr (Some ms))
      \<and> length (list_memories_by_ids (prop_project_id p) (Some (prop_app_id p))
           (target_ids p (sa_source_ids a)) False True (cd_memories db)) = length (target_ids p (sa_source_ids a))")
    case True
    then have "shadows now stamp a ex p db db'" "oc_status r = ''SHADOWED''"
      using run p
      by (auto simp: shadow_finish_def still_owned_def res_simps shadows_def Let_def
          proposal_sources_export shadowed_result_def)
    then show thesis using True shadowed by blast
  next
    case False
    have "cd_memories db' = cd_memories db"
      using run p False
      by (auto simp: shadow_finish_def still_owned_def res_simps Let_def proposal_sources_export
          mark_proposal_stale_def put_proposal_def split: if_splits)
    then show thesis by (rule unchanged)
  qed
qed

text \<open>
  The proposal row of an attempt keeps its project and sources: no operation writes them.
\<close>

definition attempt_on :: "shadow_attempt \<Rightarrow> cons_db \<Rightarrow> bool" where
  "attempt_on a db =
     (case get_proposal (prop_id (sa_proposal a)) (cd_proposals db) of
        Inr p \<Rightarrow> proposal_source_ids p = Inr (sa_source_ids a)
          \<and> prop_project_id p = prop_project_id (sa_proposal a)
      | Inl _ \<Rightarrow> True)"

text \<open>The rows an attempt is to shadow: the memories of its scope that are sources, but not the canonical one.\<close>

definition shadow_target :: "consolidation_proposal \<Rightarrow> string list \<Rightarrow> memory_index \<Rightarrow> bool" where
  "shadow_target p ids m = (mi_project_id m = prop_project_id p \<and> mi_app_id m = Some (prop_app_id p)
     \<and> mi_mem0_memory_id m \<in> set ids \<and> prop_canonical_memory_id p \<noteq> Some (mi_mem0_memory_id m))"

lemma found_targets:
  assumes ms: "proposal_sources p expected ''ACTIVE'' rows = Inr (Some ms)" and ids: "proposal_source_ids p = Inr ids"
  shows "m \<in> set rows \<Longrightarrow> shadow_target p ids m \<Longrightarrow> source_intact p expected m"
    "m \<in> set (list_memories_by_ids (prop_project_id p) (Some (prop_app_id p)) (target_ids p ids) False True rows)
       \<longleftrightarrow> m \<in> set rows \<and> shadow_target p ids m"
proof -
  note sources = proposal_sources_Some [OF ms ids]
  show intact: "source_intact p expected m" if "m \<in> set rows" "shadow_target p ids m" for m
    using that sources(3) [of m] unfolding sources(4) by (simp add: shadow_target_def)
  have "live m" if "m \<in> set rows" "shadow_target p ids m"
    using intact [OF that] by (simp add: source_intact_def active_def)
  then show "m \<in> set (list_memories_by_ids (prop_project_id p) (Some (prop_app_id p)) (target_ids p ids) False True rows)
       \<longleftrightarrow> m \<in> set rows \<and> shadow_target p ids m"
    by (auto simp: set_list_memories_by_ids shadow_target_def target_ids_def opt_is_def)
qed

lemma shadow_finish_shadowed:
  assumes run: "shadow_finish now stamp a ex ok db = Inr (r, db')" and "oc_status r = ''SHADOWED''"
    and p: "get_proposal (prop_id (sa_proposal a)) (cd_proposals db) = Inr p" "prop_status p \<noteq> ''SHADOWED''"
  shows "shadows now stamp a ex p db db'"
  using assms
  by (auto simp: shadow_finish_def still_owned_def res_simps shadows_def Let_def plain_outcome_def
      mark_proposal_stale_def proposal_sources_export shadowed_result_def split: if_splits)

text \<open>
  C19: when an attempt turns a proposal into a shadowed one, it still owned the proposal, had exported
  every source and found the upstream unchanged; the index has a row for every source, and each of
  those rows but the canonical one is a live, active, unpinned memory with the content that was
  approved and is shadowed in the name of the proposal, which nothing else happens to.  However else
  it ends, it changes no memory at all.
\<close>

theorem shadow_touches_only_approved:
  assumes run: "shadow_finish now stamp a ex ok db = Inr (r, db')"
    and on: "attempt_on a db"
  shows "\<exists>p. get_proposal (prop_id (sa_proposal a)) (cd_proposals db) = Inr p
    \<and> (if prop_status p \<noteq> ''SHADOWED'' \<and> oc_status r = ''SHADOWED''
       then owns_shadow_attempt p (sa_id a) \<and> complete_export ex (length (sa_source_ids a)) \<and> ok
         \<and> (\<forall>i \<in> set (sa_source_ids a). \<exists>m \<in> set (cd_memories db).
              mi_mem0_memory_id m = i \<and> source_intact p (sa_expected a) m)
         \<and> (\<forall>m \<in> set (cd_memories db). shadow_target p (sa_source_ids a) m \<longrightarrow> source_intact p (sa_expected a) m)
         \<and> cd_memories db' = map (\<lambda>m. if shadow_target p (sa_source_ids a) m then shadow_row stamp p m else m)
             (cd_memories db)
       else cd_memories db' = cd_memories db)"
proof -
  let ?ids = "sa_source_ids a"
  obtain p where p: "get_proposal (prop_id (sa_proposal a)) (cd_proposals db) = Inr p"
    using run by (auto simp: shadow_finish_def still_owned_def res_simps)
  have ids: "proposal_source_ids p = Inr ?ids" using on p by (simp add: attempt_on_def)
  show ?thesis
  proof (cases "prop_status p \<noteq> ''SHADOWED'' \<and> oc_status r = ''SHADOWED''")
    case True
    from shadow_finish_shadowed [OF run _ p] True have sh: "shadows now stamp a ex p db db'" by simp
    from run True p have ok
      by (auto simp: shadow_finish_def still_owned_def res_simps Let_def plain_outcome_def split: if_splits)
    from sh obtain ms where ms: "proposal_sources p (sa_expected a) ''ACTIVE'' (cd_memories db) = Inr (Some ms)"
      by (auto simp: shadows_def Let_def)
    note sources = proposal_sources_Some [OF ms ids] and targets = found_targets [OF ms ids]
    have "cd_memories db' = map (\<lambda>m. if shadow_target p ?ids m then shadow_row stamp p m else m) (cd_memories db)"
      using sh targets(2) by (auto simp: shadows_def Let_def write_rows_def)
    moreover have "\<exists>m \<in> set (cd_memories db). mi_mem0_memory_id m = i \<and> source_intact p (sa_expected a) m"
      if "i \<in> set ?ids" for i
      using that sources(3) unfolding sources(2) [symmetric] by blast
    moreover have "owns_shadow_attempt p (sa_id a)" "complete_export ex (length ?ids)"
      using sh by (simp_all add: shadows_def Let_def)
    ultimately show ?thesis
      using True p \<open>ok\<close> targets(1) by (intro exI [of _ p] conjI) simp_all
  next
    case False
    from run have "cd_memories db' = cd_memories db"
    proof (cases rule: shadow_finish_cases)
      case (shadowed q)
      then have "q = p" "owns_shadow_attempt p (sa_id a)" using p by (auto simp: shadows_def Let_def)
      then show ?thesis using shadowed(3) False by (simp add: owns_shadow_attempt_def)
    qed
    then show ?thesis using p False by auto
  qed
qed

section \<open>Rolling back\<close>

lemma get_proposal_Inr: "get_proposal i rows = Inr p \<longleftrightarrow> row_by prop_id i rows = Some p"
  by (simp add: get_proposal_def split: option.splits)

lemma get_proposal_mem: "get_proposal i rows = Inr p \<Longrightarrow> p \<in> set rows \<and> prop_id p = i"
  unfolding get_proposal_Inr by (rule row_by_Some)

lemma get_proposal_put:
  assumes "get_proposal i (cd_proposals db) = Inr p" "prop_id p' = i"
  shows "get_proposal i (cd_proposals (put_proposal p' db)) = Inr p'"
proof -
  have "prop_id p' \<in> prop_id ` set (cd_proposals db)"
    using get_proposal_mem [OF assms(1)] assms(2) by (metis image_eqI)
  then show ?thesis
    using row_by_save_same [of prop_id p'] assms(2) by (simp add: get_proposal_Inr put_proposal_def save_proposal_def)
qed

lemma memory_ok_active: "memory_ok m \<Longrightarrow> active m \<Longrightarrow> mi_shadowed_by_proposal_id m = None"
  by (simp add: memory_ok_def active_def)

lemma shadow_state_inactive: "shadow_state k \<in> set INACTIVE_CONSOLIDATION_STATES"
  by (simp add: shadow_state_def INACTIVE_CONSOLIDATION_STATES_def)

lemma restore_shadow:
  assumes "memory_ok m" "active m"
  shows "restore_row t (shadow_row u p m) = m\<lparr>mi_last_consolidation_scan_at := None, mi_updated_at := t\<rparr>"
  using assms memory_ok_active [OF assms] by (simp add: restore_row_def shadow_row_def active_def)

text \<open>The memories after a shadowing and the restoring of what it shadowed.\<close>

lemma restored_rows:
  assumes ms: "proposal_sources p expected ''ACTIVE'' rows = Inr (Some ms)" and ids: "proposal_source_ids p = Inr ids"
    and ok: "index_ok rows" and q: "prop_id q = prop_id p" "prop_project_id q = prop_project_id p" "prop_app_id q = prop_app_id p"
    and rows1: "rows1 = write_rows (list_memories_by_ids (prop_project_id p) (Some (prop_app_id p))
      (target_ids p ids) False True rows) (shadow_row stamp p) rows"
    and restored: "restored = filter (restorable q)
      (list_memories_by_ids (prop_project_id q) (Some (prop_app_id q)) ids True True rows1)"
  shows "list_all2 (\<lambda>m m2. m2 = m \<or> m2 = m\<lparr>mi_last_consolidation_scan_at := None, mi_updated_at := t\<rparr>)
    rows (write_rows restored (restore_row t) rows1)"
proof -
  let ?found = "list_memories_by_ids (prop_project_id p) (Some (prop_app_id p)) (target_ids p ids) False True rows"
  let ?f = "\<lambda>m. if m \<in> set ?found then shadow_row stamp p m else m"
  note sources = proposal_sources_Some [OF ms ids]
  have rows1': "rows1 = map ?f rows" by (simp add: rows1 write_rows_def)
  have found_in: "m \<in> set ms" if "m \<in> set rows" "mi_project_id m = prop_project_id p"
      "mi_app_id m = Some (prop_app_id p)" "mi_mem0_memory_id m \<in> set ids" for m
    unfolding sources(4) using that by simp
  have "m2 = m \<or> m2 = m\<lparr>mi_last_consolidation_scan_at := None, mi_updated_at := t\<rparr>"
    if m: "m \<in> set rows" and m2: "m2 = (if ?f m \<in> set restored then restore_row t (?f m) else ?f m)"
    for m m2
  proof (cases "m \<in> set ?found")
    case True
    then have at: "mi_project_id m = prop_project_id p" "mi_app_id m = Some (prop_app_id p)"
        "mi_mem0_memory_id m \<in> set ids" "live m"
      by (simp_all add: set_list_memories_by_ids opt_is_def target_ids_def)
    have act: "active m" using sources(3) found_in [OF m at(1-3)] by (simp add: source_intact_def)
    have "shadow_row stamp p m \<in> set rows1" using True m rows1' by force
    moreover have "restorable q (shadow_row stamp p m)"
      using at(4) q(1) by (simp add: restorable_def shadow_row_def live_def shadow_state_inactive)
    ultimately have "shadow_row stamp p m \<in> set restored"
      using at q(2,3) by (simp add: restored set_list_memories_by_ids opt_is_def shadow_row_def)
    then show ?thesis
      using m2 True act ok m restore_shadow by (simp add: index_ok_def)
  next
    case False
    have "m \<notin> set restored"
    proof
      assume "m \<in> set restored"
      then have r: "restorable q m" "m \<in> set ms"
        using q(2,3) m by (auto simp: restored set_list_memories_by_ids opt_is_def intro!: found_in)
      then have "mi_shadowed_by_proposal_id m = None"
        using sources(3) memory_ok_active ok m by (simp add: index_ok_def source_intact_def)
      then show False using r(1) by (simp add: restorable_def)
    qed
    then show ?thesis using m2 False by simp
  qed
  then show ?thesis
    unfolding rows1' write_rows_def by (simp add: list_all2_map2 list_all2_same)
qed

text \<open>
  C20: rolling a proposal back undoes its shadowing: every memory is as it was before the attempt
  finished, except that the restored ones are due for a new scan, and the proposal is rolled
  back.
\<close>

theorem rollback_undoes_shadowing:
  assumes run: "shadow_finish now stamp a ex ok db = Inr (r, db1)"
    and shadowed: "oc_status r = ''SHADOWED''" and on: "attempt_on a db" and ok: "index_ok (cd_memories db)"
    and before: "get_proposal (prop_id (sa_proposal a)) (cd_proposals db) = Inr p" "prop_status p \<noteq> ''SHADOWED''"
  shows "\<exists>n db2 q. rollback_shadowed t (prop_id (sa_proposal a)) db1 = Inr (n, db2)
    \<and> list_all2 (\<lambda>m m2. m2 = m \<or> m2 = m\<lparr>mi_last_consolidation_scan_at := None, mi_updated_at := t\<rparr>)
        (cd_memories db) (cd_memories db2)
    \<and> get_proposal (prop_id (sa_proposal a)) (cd_proposals db2) = Inr q \<and> prop_status q = ''ROLLED_BACK''"
proof -
  let ?pid = "prop_id (sa_proposal a)" and ?ids = "sa_source_ids a"
  let ?found = "list_memories_by_ids (prop_project_id p) (Some (prop_app_id p)) (target_ids p ?ids) False True
    (cd_memories db)"
  define p2 where "p2 = set_status stamp ''SHADOWED'' (clear_shadow_attempt
    (p\<lparr>prop_export_job_id := Some (ex_id ex), prop_not_before := Some (now + sa_grace_days a * DAY)\<rparr>))"
  have ids: "proposal_source_ids p = Inr ?ids" "prop_project_id p = prop_project_id (sa_proposal a)"
    using on before(1) by (simp_all add: attempt_on_def)
  have pid: "prop_id p = ?pid" using get_proposal_mem [OF before(1)] by simp
  from shadow_finish_shadowed [OF run shadowed before] obtain ms
    where ms: "proposal_sources p (sa_expected a) ''ACTIVE'' (cd_memories db) = Inr (Some ms)"
    and db1: "db1 = (put_proposal p2 db)\<lparr>cd_memories := write_rows ?found (shadow_row stamp p) (cd_memories db)\<rparr>"
    by (auto simp: shadows_def Let_def p2_def)
  have p2: "prop_id p2 = ?pid" "prop_project_id p2 = prop_project_id p" "prop_app_id p2 = prop_app_id p"
      "proposal_source_ids p2 = Inr ?ids" "prop_status p2 = ''SHADOWED''"
    using pid ids(1) by (simp_all add: p2_def set_status_def clear_shadow_attempt_def proposal_source_ids_def)
  have get2: "get_proposal ?pid (cd_proposals db1) = Inr p2"
    using get_proposal_put [OF before(1) p2(1)] by (simp add: db1)
  have lock: "\<exists>pr. lock_for_mutation (prop_project_id p2) (cd_projects db1) = Inr pr"
    using run by (auto simp: shadow_finish_def still_owned_def res_simps db1 p2(2) ids(2) put_proposal_def)
  define found1 where "found1 = list_memories_by_ids (prop_project_id p2) (Some (prop_app_id p2)) ?ids True True
    (cd_memories db1)"
  define restored where "restored = filter (restorable p2) found1"
  define q where "q = set_status t ''ROLLED_BACK'' (p2\<lparr>prop_not_before := None\<rparr>)"
  define db2 where "db2 = (put_proposal q db1)\<lparr>cd_memories := write_rows restored (restore_row t) (cd_memories db1)\<rparr>"
  have roll: "rollback_shadowed t ?pid db1 = Inr (length restored, db2)"
    using get2 lock p2(4,5)
    by (auto simp: rollback_shadowed_def locked_proposal_def restored_def found1_def db2_def q_def Let_def)
  have "get_proposal ?pid (cd_proposals db2) = Inr q"
    using get_proposal_put [OF get2, of q] p2(1) by (simp add: db2_def q_def set_status_def)
  moreover have "prop_status q = ''ROLLED_BACK''" by (simp add: q_def set_status_def)
  moreover have "list_all2 (\<lambda>m m2. m2 = m \<or> m2 = m\<lparr>mi_last_consolidation_scan_at := None, mi_updated_at := t\<rparr>)
        (cd_memories db) (cd_memories db2)"
    unfolding db2_def
    by (simp, rule restored_rows [OF ms ids(1) ok, of p2 _ stamp])
      (use p2 pid in \<open>simp_all add: db1 restored_def found1_def\<close>)
  ultimately show ?thesis using roll by blast
qed

section \<open>Attempts are a lease apart\<close>

definition take_shadow ::
    "(time \<Rightarrow> string) \<Rightarrow> nat \<Rightarrow> time \<Rightarrow> consolidation_proposal \<Rightarrow> consolidation_proposal option" where
  "take_shadow attempt lease_seconds now p =
     (if prop_status p \<notin> {''APPROVED'', ''EXPORTING''} \<or> attempt_held now p then None
      else Some (take_attempt_row (attempt now) now (int lease_seconds) now p))"

definition shadow_held_until :: "consolidation_proposal \<Rightarrow> time option" where
  "shadow_held_until p =
     (if prop_status p = ''EXPORTING'' \<and> prop_shadow_attempt_id p \<noteq> None
      then prop_shadow_attempt_expires_at p else None)"

interpretation shadow_lease: leased "take_shadow attempt lease_seconds" shadow_held_until
    "int lease_seconds * SECOND" for attempt lease_seconds
  by unfold_locales
    (auto simp: take_shadow_def shadow_held_until_def attempt_held_def take_attempt_row_def set_status_def
      SECOND_def split: if_splits)

lemma shadow_begin_takes:
  assumes "shadow_begin ready (attempt now) now (int n) pid db = Inr (Shadow_attempt a, db')"
  shows "\<exists>p. get_proposal pid (cd_proposals db) = Inr p \<and> take_shadow attempt n now p = Some (sa_proposal a)
    \<and> sa_id a = attempt now \<and> get_proposal pid (cd_proposals db') = Inr (sa_proposal a)
    \<and> cd_projects db' = cd_projects db \<and> prop_id (sa_proposal a) = pid
    \<and> (\<exists>pr. lock_for_mutation (prop_project_id (sa_proposal a)) (cd_projects db) = Inr pr)"
proof -
  obtain p where p: "get_proposal pid (cd_proposals db) = Inr p"
    and free: "prop_status p \<in> {''APPROVED'', ''EXPORTING''}" "\<not> attempt_held now p"
    and a: "sa_proposal a = take_attempt_row (attempt now) now (int n) now p" "sa_id a = attempt now"
    and db': "db' = put_proposal (take_attempt_row (attempt now) now (int n) now p) db"
    and lock: "\<exists>pr. lock_for_mutation (prop_project_id p) (cd_projects db) = Inr pr"
    using assms
    by (auto simp: shadow_begin_def locked_proposal_def res_simps mark_proposal_stale_def Let_def
        split: if_splits option.splits)
  have "prop_id p = pid" using get_proposal_mem [OF p] by simp
  then show ?thesis
    using p free a db' lock get_proposal_put [OF p, of "take_attempt_row (attempt now) now (int n) now p"]
    by (auto simp: take_shadow_def put_proposal_def take_attempt_row_def set_status_def)
qed

text \<open>
  C21: while nothing else changes the proposal, a second attempt on it begins at least a lease after
  the first, however their clocks relate and whatever happens to the other tables in between; and
  as long as the proposal is as the second attempt left it, the first can no longer change anything:
  finishing it or giving it up only reports that the proposal is being exported.
\<close>

theorem shadow_attempts_fenced:
  assumes first: "shadow_begin ready (attempt t1) t1 (int n) pid db = Inr (Shadow_attempt a1, db1)"
    and kept: "get_proposal pid (cd_proposals db1') = get_proposal pid (cd_proposals db1)"
    and second: "shadow_begin ready' (attempt t2) t2 (int n) pid db1' = Inr (Shadow_attempt a2, db2)"
    and kept': "get_proposal pid (cd_proposals db2') = get_proposal pid (cd_proposals db2)"
      "cd_projects db2' = cd_projects db2"
    and "attempt t1 \<noteq> attempt t2"
  shows "t1 + int n * SECOND \<le> t2
    \<and> shadow_finish now stamp a1 ex ok db2' = Inr (plain_outcome ''EXPORTING'', db2')
    \<and> shadow_abort now a1 db2' = Inr (plain_outcome ''EXPORTING'', db2')"
proof -
  from shadow_begin_takes [where attempt = attempt and now = t1, OF first] have
    take1: "\<exists>p. take_shadow attempt n t1 p = Some (sa_proposal a1)"
    and id1: "sa_id a1 = attempt t1" "get_proposal pid (cd_proposals db1') = Inr (sa_proposal a1)"
      "prop_id (sa_proposal a1) = pid" using kept by auto
  from shadow_begin_takes [where attempt = attempt and now = t2, OF second] id1(2) kept' have
    take2: "take_shadow attempt n t2 (sa_proposal a1) = Some (sa_proposal a2)"
    and id2: "sa_id a2 = attempt t2" "get_proposal pid (cd_proposals db2') = Inr (sa_proposal a2)"
    and lock: "\<exists>pr. lock_for_mutation (prop_project_id (sa_proposal a2)) (cd_projects db2') = Inr pr"
    by auto
  obtain p where p: "take_shadow attempt n t1 p = Some (sa_proposal a1)" using take1 by blast
  have "run_takes (take_shadow attempt n) [t1, t2] p = [(t1, sa_proposal a1), (t2, sa_proposal a2)]"
    using p take2 by simp
  then have apart: "t1 + int n * SECOND \<le> t2"
    using shadow_lease.takes_separated [of n attempt "[t1, t2]" p] by simp
  have "sa_proposal a2 = take_attempt_row (attempt t2) t2 (int n) t2 (sa_proposal a1)"
    using take2 by (auto simp: take_shadow_def split: if_splits)
  then have "prop_project_id (sa_proposal a2) = prop_project_id (sa_proposal a1)"
      "prop_status (sa_proposal a2) = ''EXPORTING''" "prop_shadow_attempt_id (sa_proposal a2) = Some (attempt t2)"
    by (simp_all add: take_attempt_row_def set_status_def)
  then show ?thesis
    using apart lock id1 id2 assms(6)
    by (auto simp: shadow_finish_def shadow_abort_def still_owned_def owns_shadow_attempt_def)
qed

section \<open>Deletions\<close>

text \<open>
  A deletion is permitted when the index still shows the memory as shadowed by this proposal,
  with the approved content and not pinned, and the upstream agrees on it and on the canonical
  memory.
\<close>

definition deletion_permitted ::
    "(string \<Rightarrow> string) \<Rightarrow> consolidation_proposal \<Rightarrow> string dict \<Rightarrow> delete_world \<Rightarrow> string \<Rightarrow> cons_db \<Rightarrow> bool" where
  "deletion_permitted sha256 p expected w mid db =
     (get_lineage_source (prop_id p) mid (cd_lineage db) = None
      \<and> (case get_memory (prop_project_id p) mid (Some (prop_app_id p)) True (cd_memories db) of
           None \<Rightarrow> False
         | Some m \<Rightarrow> live m \<and> mi_consolidation_state m \<in> set INACTIVE_CONSOLIDATION_STATES
             \<and> mi_shadowed_by_proposal_id m = Some (prop_id p)
             \<and> dget expected mid \<noteq> None \<and> mi_content_hash m = dget expected mid \<and> mi_pinned m \<noteq> 1)
      \<and> upstream_sources_match sha256 (dw_before w) expected (prop_project_id p) (prop_app_id p) [mid] = Inr True
      \<and> upstream_canonical_matches sha256 (dw_before w) p expected = Inr True)"

lemma finalize_check_deletable:
  "finalize_check stamp p expected mid db = (Inr Deletable, db') \<Longrightarrow>
   db' = db \<and> get_lineage_source (prop_id p) mid (cd_lineage db) = None
   \<and> (case get_memory (prop_project_id p) mid (Some (prop_app_id p)) True (cd_memories db) of
        None \<Rightarrow> False
      | Some m \<Rightarrow> live m \<and> mi_consolidation_state m \<in> set INACTIVE_CONSOLIDATION_STATES
          \<and> mi_shadowed_by_proposal_id m = Some (prop_id p)
          \<and> dget expected mid \<noteq> None \<and> mi_content_hash m = dget expected mid \<and> mi_pinned m \<noteq> 1)"
  by (auto simp: finalize_check_def fail_proposal_def split: if_splits option.splits sum.splits)

lemma upstream_still_matches_ok:
  "upstream_still_matches sha256 get p expected mid = Inr u \<Longrightarrow>
   upstream_sources_match sha256 get expected (prop_project_id p) (prop_app_id p) [mid] = Inr True
   \<and> upstream_canonical_matches sha256 get p expected = Inr True"
  unfolding upstream_still_matches_def by (auto simp: res_simps simp del: upstream_sources_match.simps)

text \<open>
  C22: finalising a proposal never deletes a memory that is not, at that moment, a live memory
  shadowed by it with the approved content and unpinned, confirmed by the upstream together with
  the canonical memory, or one that it deleted before: the outcome then does not depend on what a
  deletion would do.
\<close>

theorem finalize_deletes_only_shadowed:
  assumes "\<not> deletion_permitted sha256 p expected w mid db"
  shows "finalize_target sha256 i stamp now p expected (w\<lparr>dw_delete := d\<rparr>) mid db
    = finalize_target sha256 i stamp now p expected w mid db"
proof -
  obtain r db1 where c: "finalize_check stamp p expected mid db = (r, db1)" by fastforce
  show ?thesis
  proof (cases "r = Inr Deletable")
    case True
    then have "db1 = db" using finalize_check_deletable c by blast
    moreover have "upstream_still_matches sha256 (dw_before w) p expected mid \<noteq> Inr u" for u
      using assms finalize_check_deletable [of stamp p expected mid db db1] c True
        upstream_still_matches_ok [of sha256 "dw_before w" p expected mid]
      unfolding deletion_permitted_def by blast
    ultimately show ?thesis
      using c True by (cases "upstream_still_matches sha256 (dw_before w) p expected mid")
        (auto simp: finalize_target_def)
  next
    case False
    then show ?thesis
      using c by (auto simp: finalize_target_def split: sum.splits finalize_check.splits)
  qed
qed

lemma get_lineage_iff:
  "get_lineage_source q m rows \<noteq> None \<longleftrightarrow>
     (\<exists>l \<in> set rows. lin_proposal_id l = q \<and> lin_source_memory_id l = m)"
  unfolding get_lineage_source_def find_None_iff by blast

lemma create_lineage_get:
  "get_lineage_source q m (create_lineage i t p mid c a h e u rows) \<noteq> None \<longleftrightarrow>
   get_lineage_source q m rows \<noteq> None \<or> q = prop_id p \<and> m = mid"
proof (cases "get_lineage_source (prop_id p) mid rows")
  case None
  then show ?thesis unfolding get_lineage_iff by (auto simp: create_lineage_def)
next
  case (Some l)
  then show ?thesis by (auto simp: create_lineage_def)
qed

definition recorded :: "consolidation_proposal \<Rightarrow> string \<Rightarrow> cons_db \<Rightarrow> bool" where
  "recorded p mid db = (get_lineage_source (prop_id p) mid (cd_lineage db) \<noteq> None)"

lemma record_deletion_ok:
  assumes "record_deletion i stamp now p expected mid after db = (Inr u, db')"
  shows "not_found after \<and> recorded p mid db' \<and> (\<forall>m. recorded p m db \<longrightarrow> recorded p m db')
    \<and> (\<forall>m. m \<noteq> mid \<longrightarrow> recorded p m db' \<longrightarrow> recorded p m db)"
proof -
  obtain status unknown q h where after: "after = Refused status unknown" "status = Some 404"
    and q: "get_proposal (prop_id p) (cd_proposals db) = Inr q"
    and db': "db' = db\<lparr>cd_lineage := create_lineage i stamp q mid (prop_canonical_memory_id q)
        (prop_kind q @ ''_DELETE'') (Some h) (prop_export_job_id q) now (cd_lineage db)\<rparr>"
    using assms
    by (auto simp: record_deletion_def fail_proposal_def upstream_error_def res_simps split: upstream.splits if_splits sum.splits option.splits)
  have "prop_id q = prop_id p" using get_proposal_mem [OF q] by simp
  then show ?thesis
    unfolding recorded_def db' after(1) using after(2)
    by (simp add: create_lineage_get del: not_None_eq)
qed

lemma fail_not_ok: "fail_proposal now i m db \<noteq> (Inr u, db')"
  by (auto simp: fail_proposal_def split: sum.splits)

lemma finalize_check_same: "finalize_check stamp p expected mid db = (Inr c, db') \<Longrightarrow> db' = db"
  by (auto simp: finalize_check_def fail_not_ok split: if_splits option.splits)

lemma finalize_target_ok:
  assumes run: "finalize_target sha256 i stamp now p expected w mid db = (Inr u, db')"
    and keep: "\<And>d. cd_lineage (snd (dw_delete w d)) = cd_lineage d"
  shows "recorded p mid db' \<and> (recorded p mid db \<or> not_found (dw_after w))
    \<and> (\<forall>m. recorded p m db \<longrightarrow> recorded p m db') \<and> (\<forall>m. m \<noteq> mid \<longrightarrow> recorded p m db' \<longrightarrow> recorded p m db)"
proof -
  obtain c db1 where c: "finalize_check stamp p expected mid db = (c, db1)" by fastforce
  show ?thesis
  proof (cases c)
    case (Inl e)
    then show ?thesis using run c by (simp add: finalize_target_def)
  next
    case (Inr k)
    then have db1: "db1 = db" using finalize_check_same c by blast
    show ?thesis
    proof (cases k)
      case Recorded
      then have "recorded p mid db" using c Inr
        by (auto simp: finalize_check_def recorded_def fail_not_ok split: if_splits option.splits)
      then show ?thesis using run c Inr Recorded db1 by (simp add: finalize_target_def)
    next
      case Already_gone
      then show ?thesis
        using run c Inr db1 record_deletion_ok by (fastforce simp: finalize_target_def)
    next
      case Deletable
      then obtain db2 where d: "dw_delete w db = (Inr (), db2)"
        and rec: "record_deletion i stamp now p expected mid (dw_after w) db2 = (Inr u, db')"
        using run c Inr db1
        by (auto simp: finalize_target_def split: sum.splits prod.splits)
      have "recorded p m db2 = recorded p m db" for m
        using keep [of db] d by (simp add: recorded_def)
      then show ?thesis using record_deletion_ok [OF rec] by metis
    qed
  qed
qed

lemma finalize_targets_ok:
  assumes "finalize_targets sha256 i stamp now p expected w mids db = (Inr u, db')"
    and keep: "\<And>mid d. cd_lineage (snd (dw_delete (w mid) d)) = cd_lineage d" and "distinct mids"
  shows "(\<forall>mid \<in> set mids. recorded p mid db' \<and> (recorded p mid db \<or> not_found (dw_after (w mid))))
    \<and> (\<forall>m. recorded p m db \<longrightarrow> recorded p m db')"
  using assms(1,3)
proof (induction mids arbitrary: db)
  case (Cons mid mids)
  from Cons.prems(1) obtain db1 where t: "finalize_target sha256 (i mid) stamp now p expected (w mid) mid db = (Inr (), db1)"
    and rest: "finalize_targets sha256 i stamp now p expected w mids db1 = (Inr u, db')"
    by (auto split: sum.splits prod.splits)
  note first = finalize_target_ok [OF t keep]
  note IH = Cons.IH [OF rest]
  show ?case using first IH Cons.prems(2) by auto
qed simp

text \<open>
  C23: a finalisation that reports the proposal as applied ran after the grace period with hard
  deletion enabled, verified bridge routing and an export checkpoint, and every source but the
  canonical memory is now recorded as deleted: either it was before, or the upstream confirmed
  that it is gone.
\<close>

theorem applied_means_deleted:
  assumes run: "finalize_shadowed sha256 i bridge_ready hard_delete w stamp now pid db = (Inr r, db')"
    and applied: "oc_status r = ''APPLIED''"
    and keep: "\<And>mid d. cd_lineage (snd (dw_delete (w mid) d)) = cd_lineage d"
  shows "\<exists>p ids. get_proposal pid (cd_proposals db) = Inr p \<and> proposal_source_ids p = Inr ids
    \<and> prop_status p = ''SHADOWED'' \<and> hard_delete \<and> bridge_ready \<and> prop_export_job_id p \<notin> {None, Some []}
    \<and> (case prop_not_before p of None \<Rightarrow> False | Some t \<Rightarrow> t \<le> now)
    \<and> set (target_ids p ids) \<subseteq> {mid. recorded p mid db' \<and> (recorded p mid db \<or> not_found (dw_after (w mid)))}"
proof -
  obtain p expected ids db1 where
    guard: "finalize_guard bridge_ready hard_delete now pid db = Inr (p, True)"
    and ids: "proposal_source_ids p = Inr ids"
    and loop: "finalize_targets sha256 i stamp now p expected w (target_ids p ids) db = (Inr (), db1)"
    and db': "\<exists>q. db' = put_proposal q db1"
    using run applied
    by (auto simp: finalize_shadowed_def plain_outcome_def res_simps split: sum.splits prod.splits bool.splits)
  have "distinct ids"
    using ids by (auto simp: proposal_source_ids_def split: option.splits json.splits if_splits)
  then have "distinct (target_ids p ids)" by (simp add: target_ids_def)
  note all = finalize_targets_ok [OF loop keep this]
  have "recorded p mid db' = recorded p mid db1" for mid
    using db' by (auto simp: recorded_def put_proposal_def)
  moreover have "get_proposal pid (cd_proposals db) = Inr p" "prop_status p = ''SHADOWED''" hard_delete bridge_ready
      "prop_export_job_id p \<notin> {None, Some []}" "case prop_not_before p of None \<Rightarrow> False | Some t \<Rightarrow> t \<le> now"
    using guard by (auto simp: finalize_guard_def res_simps split: if_splits option.splits)
  ultimately show ?thesis using all ids by blast
qed

section \<open>An invariant of every interleaving\<close>

definition covers :: "consolidation_proposal \<Rightarrow> memory_index \<Rightarrow> bool" where
  "covers p m = (prop_project_id p = mi_project_id m \<and> prop_canonical_memory_id p \<noteq> Some (mi_mem0_memory_id m)
     \<and> (case proposal_source_ids p of Inr ids \<Rightarrow> mi_mem0_memory_id m \<in> set ids | Inl _ \<Rightarrow> False))"

definition shadow_justified :: "consolidation_proposal list \<Rightarrow> memory_index \<Rightarrow> bool" where
  "shadow_justified proposals m =
     (case mi_shadowed_by_proposal_id m of
        None \<Rightarrow> True
      | Some s \<Rightarrow> list_ex (\<lambda>p. prop_id p = s \<and> covers p m) proposals)"

definition cons_ok :: "cons_db \<Rightarrow> bool" where
  "cons_ok db = (index_ok (cd_memories db) \<and> distinct (map prop_id (cd_proposals db))
     \<and> list_all (shadow_justified (cd_proposals db)) (cd_memories db))"

inductive cons_step :: "cons_db \<Rightarrow> cons_db \<Rightarrow> bool" where
  elsewhere: "cd_memories db' = cd_memories db \<Longrightarrow> cd_proposals db' = cd_proposals db \<Longrightarrow> cons_step db db'"
| indexed: "index_step (cd_memories db) rows \<Longrightarrow> cons_step db (db\<lparr>cd_memories := rows\<rparr>)"
| proposed: "nid \<notin> prop_id ` set (cd_proposals db) \<Longrightarrow>
    create_proposal nid now r d st (cd_proposals db) = (p, ps) \<Longrightarrow> cons_step db (db\<lparr>cd_proposals := ps\<rparr>)"
| restated: "get_proposal i (cd_proposals db) = Inr p \<Longrightarrow>
    cons_step db (put_proposal (set_status now st (p\<lparr>prop_applied_at := t\<rparr>)) db)"
| approved: "locked_proposal i db = Inr p \<Longrightarrow>
    proposal_sources p hashes ''ACTIVE'' (cd_memories db) = Inr (Some ms) \<Longrightarrow>
    cons_step db (put_proposal (approved_proposal now hashes c h replaced p) db)"
| written_over: "get_proposal i (cd_proposals db) = Inr p \<Longrightarrow> prop_id q = i \<Longrightarrow>
    (\<And>m. m \<in> set (cd_memories db) \<Longrightarrow> mi_mem0_memory_id m = c \<Longrightarrow> mi_shadowed_by_proposal_id m = None) \<Longrightarrow>
    cons_step db (flush_proposal q (approved_proposal now hashes (Some c) h True q) db)"
| stale_over: "get_proposal i (cd_proposals db) = Inr p \<Longrightarrow> prop_id q = i \<Longrightarrow>
    cons_step db (flush_proposal q (set_status now ''STALE'' q) db)"
| begun: "shadow_begin ready i now n pid db = Inr (r, db') \<Longrightarrow> cons_step db db'"
| aborted: "shadow_abort now a db = Inr (r, db') \<Longrightarrow> cons_step db db'"
| finished: "shadow_finish now stamp a ex ok db = Inr (r, db') \<Longrightarrow> attempt_on a db \<Longrightarrow> cons_step db db'"
| rolled_back: "rollback_shadowed now pid db = Inr (n, db') \<Longrightarrow> cons_step db db'"
| checked: "finalize_check now p expected mid db = (r, db') \<Longrightarrow> cons_step db db'"
| deleted: "record_deletion i stamp now p expected mid after db = (r, db') \<Longrightarrow> cons_step db db'"

inductive reachable_cons :: "cons_db \<Rightarrow> bool" where
  start: "cd_memories db = [] \<Longrightarrow> cd_proposals db = [] \<Longrightarrow> reachable_cons db"
| onward: "reachable_cons db \<Longrightarrow> cons_step db db' \<Longrightarrow> reachable_cons db'"

text \<open>Rewriting a proposal without touching its identity, sources and canonical memory.\<close>

definition same_cover :: "consolidation_proposal \<Rightarrow> consolidation_proposal \<Rightarrow> bool" where
  "same_cover p q = (prop_id q = prop_id p \<and> prop_project_id q = prop_project_id p
     \<and> prop_source_ids_json q = prop_source_ids_json p
     \<and> prop_canonical_memory_id q = prop_canonical_memory_id p)"

lemma covers_same: "same_cover p q \<Longrightarrow> covers q m = covers p m"
  by (simp add: same_cover_def covers_def proposal_source_ids_def)

lemma shadow_justified_iff:
  "shadow_justified ps m \<longleftrightarrow>
     (\<forall>s. mi_shadowed_by_proposal_id m = Some s \<longrightarrow> (\<exists>p \<in> set ps. prop_id p = s \<and> covers p m))"
  by (auto simp: shadow_justified_def list_ex_iff split: option.splits)

lemma justified_save:
  assumes "distinct (map prop_id ps)" "p \<in> set ps" "prop_id q = prop_id p"
    and "mi_shadowed_by_proposal_id m = Some (prop_id p) \<Longrightarrow> covers p m \<Longrightarrow> covers q m"
    and "shadow_justified ps m"
  shows "shadow_justified (save_proposal q ps) m"
proof -
  have "\<exists>y \<in> set (save_proposal q ps). prop_id y = prop_id x \<and> covers y m"
    if x: "x \<in> set ps" "covers x m" "mi_shadowed_by_proposal_id m = Some (prop_id x)" for x
  proof (cases "prop_id x = prop_id q")
    case True
    then have "x = p" using assms(1-3) x(1) by (auto simp: distinct_map inj_on_def)
    then have "covers q m" using assms(4) x(2,3) by simp
    moreover have "q \<in> set (save_proposal q ps)"
      using assms(2,3) by (auto simp: save_proposal_def mem_save)
    ultimately show ?thesis using True by (intro bexI [of _ q]) simp_all
  next
    case False
    then have "x \<in> set (save_proposal q ps)" using x(1) by (simp add: save_proposal_def mem_save)
    then show ?thesis using x(2) by blast
  qed
  then show ?thesis using assms(5) unfolding shadow_justified_iff by blast
qed

lemma cons_ok_put:
  assumes ok: "cons_ok db" and get: "get_proposal i (cd_proposals db) = Inr p"
    and id: "prop_id q = prop_id p"
    and keep: "\<And>m. m \<in> set (cd_memories db) \<Longrightarrow> mi_shadowed_by_proposal_id m = Some (prop_id p) \<Longrightarrow>
      covers p m \<Longrightarrow> covers q m"
  shows "cons_ok (put_proposal q db)"
proof -
  have "p \<in> set (cd_proposals db)" using get_proposal_mem [OF get] by simp
  then have "list_all (shadow_justified (save_proposal q (cd_proposals db))) (cd_memories db)"
    using ok id keep justified_save by (auto simp: cons_ok_def list_all_iff)
  then show ?thesis using ok by (simp add: cons_ok_def put_proposal_def save_proposal_def)
qed

lemma cons_ok_put_same:
  assumes "cons_ok db" "get_proposal i (cd_proposals db) = Inr p" and same: "same_cover p q"
  shows "cons_ok (put_proposal q db)"
proof (rule cons_ok_put [OF assms(1,2)])
  show "prop_id q = prop_id p" using same by (simp add: same_cover_def)
  show "covers q m" if "covers p m" for m using that by (simp add: covers_same [OF same])
qed

text \<open>Rewriting memories without a new shadow.\<close>

definition no_new_shadow :: "memory_index \<Rightarrow> memory_index \<Rightarrow> bool" where
  "no_new_shadow m m' = (mi_shadowed_by_proposal_id m' = None
     \<or> mi_shadowed_by_proposal_id m' = mi_shadowed_by_proposal_id m \<and> mi_project_id m' = mi_project_id m
       \<and> mi_mem0_memory_id m' = mi_mem0_memory_id m)"

lemma covers_identity:
  "mi_project_id m' = mi_project_id m \<Longrightarrow> mi_mem0_memory_id m' = mi_mem0_memory_id m \<Longrightarrow> covers p m' = covers p m"
  by (simp add: covers_def split: sum.split)

lemma no_new_shadow_justified:
  assumes "no_new_shadow m m'" "shadow_justified ps m"
  shows "shadow_justified ps m'"
proof (cases "mi_shadowed_by_proposal_id m' = None")
  case False
  then have same: "mi_shadowed_by_proposal_id m' = mi_shadowed_by_proposal_id m"
    using assms(1) unfolding no_new_shadow_def by (elim disjE conjE) simp_all
  have ids: "mi_project_id m' = mi_project_id m" "mi_mem0_memory_id m' = mi_mem0_memory_id m"
    using False assms(1) unfolding no_new_shadow_def by (elim disjE conjE; simp)+
  show ?thesis using assms(2) unfolding shadow_justified_def same covers_identity [OF ids] .
qed (simp add: shadow_justified_def)

lemma no_new_shadow_refl [simp]: "no_new_shadow m m"
  by (simp add: no_new_shadow_def)

lemma upsert_no_new_shadow: "no_new_shadow m (upsert_row now new keep p m)"
  by (cases "pj_observed_at p")
    (simp_all add: no_new_shadow_def upsert_row_def write_identity_def write_observation_def Let_def)

lemma claim_no_new_shadow: "no_new_shadow m (claim_row now p m)"
  by (cases "pj_observed_at p") (simp_all add: no_new_shadow_def claim_row_def write_identity_def Let_def)

lemma new_memory_justified: "shadow_justified ps (new_memory i now pid mid)"
  by (simp add: new_memory_def shadow_justified_def)

lemma all_justified_map:
  assumes "list_all (shadow_justified ps) rows" "\<And>m. m \<in> set rows \<Longrightarrow> no_new_shadow m (f m)"
  shows "list_all (shadow_justified ps) (map f rows)"
  using assms(1) no_new_shadow_justified [OF assms(2)] by (simp add: list_all_iff)

lemma all_justified_update:
  assumes "list_all (shadow_justified ps) rows" "\<And>m. no_new_shadow m (f m)"
  shows "list_all (shadow_justified ps) (update_where q f rows)"
  unfolding update_where_def using assms by (auto intro!: all_justified_map)

lemma justified_replace:
  assumes all: "list_all (shadow_justified ps) rows" and m: "m \<in> set rows" "no_new_shadow m m'"
  shows "list_all (shadow_justified ps) (map (\<lambda>r. if q r then m' else r) rows)"
  using all m no_new_shadow_justified [OF m(2)] by (auto simp: list_all_iff)

lemma index_step_justified:
  "index_step rows rows' \<Longrightarrow> list_all (shadow_justified ps) rows \<Longrightarrow> list_all (shadow_justified ps) rows'"
proof (induction rule: index_step.induct)
  case (dirtied rows now pid app t)
  then show ?case
    unfolding mark_scope_dirty_def by (rule all_justified_update) (simp add: no_new_shadow_def)
next
  case (verified now pid app mid t rows b rows')
  then show ?case
    by (auto simp: mark_scope_markers_verified_def Let_def no_new_shadow_def intro!: all_justified_update)
next
  case (backfilled now pid app mid s t rows b rows')
  then show ?case
    by (auto simp: mark_scope_marker_backfill_outcome_def Let_def no_new_shadow_def
        intro!: all_justified_update split: if_splits)
next
  case (scanned now pid app ids t rows n rows')
  then show ?case
    by (auto simp: mark_anchors_scanned_def Let_def no_new_shadow_def intro!: all_justified_update
        split: if_splits)
next
  case (used rows now pid app ids)
  then show ?case
    unfolding count_access_def by (auto simp: no_new_shadow_def intro!: all_justified_update)
next
  case (staled now pid ids' rows n rows')
  then show ?case
    by (auto simp: mark_stale_def Let_def no_new_shadow_def intro!: all_justified_update split: if_splits)
next
  case (reconciled now pid a ids lte ex rows n rows')
  then show ?case
    by (auto simp: mark_stale_if_unchanged_def Let_def no_new_shadow_def intro!: all_justified_update
        split: list.splits)
next
  case (upserted nid now pid mid p keep rows m rows')
  show ?case
  proof (cases "List.find (memory_row pid mid) rows")
    case None
    then show ?thesis
      using upserted no_new_shadow_justified [OF upsert_no_new_shadow new_memory_justified]
      by (auto simp: upsert_memory_def Let_def)
  next
    case (Some r)
    then have "r \<in> set rows" by (auto simp: find_Some_iff)
    then show ?thesis
      using upserted Some justified_replace [OF upserted(2) _ upsert_no_new_shadow]
      by (auto simp: upsert_memory_def Let_def)
  qed
next
  case (claimed nid now pid mid app p rows r rows')
  show ?case
  proof (cases "count_where (claimable pid mid app) rows \<noteq> 0")
    case True
    then have "rows' = update_where (claimable pid mid app) (claim_row now (p\<lparr>pj_app_id := Some app\<rparr>)) rows"
      using claimed(1) by (auto simp: claim_memory_def Let_def split: option.splits)
    then show ?thesis using claimed(2) claim_no_new_shadow by (simp add: all_justified_update)
  next
    case False
    then show ?thesis
      using claimed no_new_shadow_justified [OF claim_no_new_shadow new_memory_justified]
      by (auto simp: claim_memory_def Let_def split: if_splits)
  qed
next
  case (deleted now pid mid rows d rows')
  show ?case
  proof (cases "get_memory pid mid None False rows")
    case (Some m)
    then have "m \<in> set rows" by (auto simp: get_memory_def find_Some_iff)
    moreover have "no_new_shadow m (m\<lparr>mi_deleted_at := Some now, mi_updated_at := now\<rparr>)"
      by (simp add: no_new_shadow_def)
    ultimately show ?thesis
      using deleted Some justified_replace [OF deleted(2)] by (auto simp: delete_memory_row_def Let_def)
  qed (use deleted in \<open>simp add: delete_memory_row_def\<close>)
qed

lemma cons_ok_memories:
  assumes "cons_ok db" "index_ok rows" "list_all (shadow_justified (cd_proposals db)) rows"
  shows "cons_ok (db\<lparr>cd_memories := rows\<rparr>)"
  using assms by (simp add: cons_ok_def)

lemma locked_proposal_get: "locked_proposal i db = Inr p \<Longrightarrow> get_proposal i (cd_proposals db) = Inr p"
  by (auto simp: locked_proposal_def res_simps)

lemma set_status_same: "same_cover p (set_status t st p)"
  by (simp add: same_cover_def set_status_def)

lemma approve_check_cases:
  assumes "approve_check ready i st hs c txt db = Inr (p, decision)"
  obtains row policy sources where "locked_proposal i db = Inr p" "prop_status p = st"
    "get_policy (prop_project_id p) (prop_app_id p) (cd_policies db) = Some row" "policy_of_row row = Inr policy"
    "approval_refusal ready p st policy c txt = None"
    "(if length (string_hashes hs) \<noteq> length hs then Inr None
      else proposal_sources p (string_hashes hs) ''ACTIVE'' (cd_memories db)) = Inr sources"
    "sources = None \<Longrightarrow> decision = Approve_stale"
    "\<And>ms. sources = Some ms \<Longrightarrow> \<exists>ids. proposal_source_ids p = Inr ids \<and> (c = None \<or> the c \<in> set ids)
       \<and> (txt = None \<and> decision = Approve_as c \<or> (\<exists>t payload ms. txt = Some t \<and> decision = Approve_replacement payload ms))"
proof -
  from assms obtain p' where p': "locked_proposal i db = Inr p'" "prop_status p' = st"
    by (auto simp: approve_check_def res_simps)
  from assms p' obtain row where row: "get_policy (prop_project_id p') (prop_app_id p') (cd_policies db) = Some row"
    by (cases "get_policy (prop_project_id p') (prop_app_id p') (cd_policies db)") (auto simp: approve_check_def)
  from assms p' row obtain policy where policy: "policy_of_row row = Inr policy"
      "approval_refusal ready p' st policy c txt = None"
    by (cases "policy_of_row row"; cases "approval_refusal ready p' st (projr (policy_of_row row)) c txt")
      (auto simp: approve_check_def)
  let ?src = "if length (string_hashes hs) \<noteq> length hs then Inr None
      else proposal_sources p' (string_hashes hs) ''ACTIVE'' (cd_memories db)"
  from assms p' row policy obtain sources where src: "?src = Inr sources"
    by (cases ?src) (simp_all add: approve_check_def Let_def del: if_split)
  show thesis
  proof (cases sources)
    case None
    then have eq: "p' = p" and stale: "decision = Approve_stale"
      using assms p' row policy src by (simp_all add: approve_check_def Let_def)
    note src' = src [unfolded eq]
    show thesis
      by (rule that [of row policy sources]) (use p' row policy src' None stale in \<open>simp_all add: eq\<close>)
  next
    case (Some ms)
    then obtain ids where eq: "p' = p" and ids: "proposal_source_ids p' = Inr ids" "c = None \<or> the c \<in> set ids"
      "txt = None \<and> decision = Approve_as c \<or> (\<exists>t payload ms. txt = Some t \<and> decision = Approve_replacement payload ms)"
      using assms p' row policy src
      by (cases "txt") (auto simp: approve_check_def Let_def res_simps split: if_splits option.splits)
    note src' = src [unfolded eq]
    show thesis
      by (rule that [of row policy sources]) (use p' row policy src' Some ids in \<open>simp_all add: eq\<close>)
  qed
qed

lemma approve_check_go:
  assumes "approve_check ready i st hs c txt db = Inr (p, decision)" "decision \<noteq> Approve_stale"
  obtains ms where "locked_proposal i db = Inr p"
    "proposal_sources p (string_hashes hs) ''ACTIVE'' (cd_memories db) = Inr (Some ms)"
  using assms
  by (elim approve_check_cases) (metis (no_types, lifting) Inr_inject option.exhaust option.simps(3))

lemma proposal_sources_ids: "proposal_sources p hashes st rows = Inr r \<Longrightarrow> \<exists>ids. proposal_source_ids p = Inr ids"
  by (auto simp: proposal_sources_def held_sources_def res_simps)

lemma approved_proposal_same:
  "prop_id (approved_proposal now hs c h replaced p) = prop_id p"
  "prop_project_id (approved_proposal now hs c h replaced p) = prop_project_id p"
  "prop_source_ids_json (approved_proposal now hs c h replaced p) = prop_source_ids_json p"
  by (simp_all add: approved_proposal_def Let_def set_status_def split: option.splits)

lemma cons_ok_approved:
  assumes ok: "cons_ok db" and at: "locked_proposal i db = Inr p"
    and ms: "proposal_sources p hashes ''ACTIVE'' (cd_memories db) = Inr (Some ms)"
  shows "cons_ok (put_proposal (approved_proposal now hashes c h replaced p) db)"
proof -
  let ?q = "approved_proposal now hashes c h replaced p"
  have get: "get_proposal i (cd_proposals db) = Inr p" using at by (rule locked_proposal_get)
  obtain ids where ids: "proposal_source_ids p = Inr ids" using proposal_sources_ids [OF ms] by blast
  note sources = proposal_sources_Some [OF ms ids]
  have none: "\<not> covers p m" if m: "m \<in> set (cd_memories db)" "mi_shadowed_by_proposal_id m = Some (prop_id p)" for m
  proof
    assume cov: "covers p m"
    then have "mi_mem0_memory_id m \<in> mi_mem0_memory_id ` set ms" using ids sources(2) by (simp add: covers_def)
    then obtain m' where m': "m' \<in> set ms" "mi_mem0_memory_id m' = mi_mem0_memory_id m" by auto
    then have "m' \<in> set (cd_memories db)" "source_intact p hashes m'" using sources(3) by blast+
    moreover from this have "m' = m"
      using ok m(1) m'(2) cov unique_memories_eq [of "cd_memories db" m' m]
      by (simp add: cons_ok_def index_ok_def source_intact_def covers_def)
    ultimately have "mi_shadowed_by_proposal_id m = None"
      using ok m(1) memory_ok_active by (simp add: cons_ok_def index_ok_def source_intact_def)
    then show False using m(2) by simp
  qed
  show ?thesis
  proof (rule cons_ok_put [OF ok get])
    show "prop_id ?q = prop_id p" by (rule approved_proposal_same)
  qed (use none in blast)
qed

text \<open>Writing a held proposal over its row is writing the row with some columns changed.\<close>

lemma flush_proposal_put:
  assumes get: "get_proposal i (cd_proposals db) = Inr p" and "prop_id q = i" "distinct (map prop_id (cd_proposals db))"
  shows "\<exists>p'. flush_proposal loaded q db = put_proposal p' db \<and> prop_id p' = prop_id p
    \<and> prop_project_id p' = prop_project_id p \<and> prop_source_ids_json p' = prop_source_ids_json p
    \<and> prop_canonical_memory_id p' = (if prop_canonical_memory_id q = prop_canonical_memory_id loaded
        then prop_canonical_memory_id p else prop_canonical_memory_id q)"
proof -
  have "r = p" if "r \<in> set (cd_proposals db)" "prop_id r = i" for r
    using that assms(3) get_proposal_mem [OF get] by (auto simp: distinct_map inj_on_def)
  then have "flush_proposal loaded q db = put_proposal (p\<lparr>
       prop_status := (if prop_status q = prop_status loaded then prop_status p else prop_status q),
       prop_canonical_memory_id := (if prop_canonical_memory_id q = prop_canonical_memory_id loaded
         then prop_canonical_memory_id p else prop_canonical_memory_id q),
       prop_evidence_json := (if prop_evidence_json q = prop_evidence_json loaded
         then prop_evidence_json p else prop_evidence_json q),
       prop_expected_hashes_json := (if prop_expected_hashes_json q = prop_expected_hashes_json loaded
         then prop_expected_hashes_json p else prop_expected_hashes_json q),
       prop_canonical_content_hash := (if prop_canonical_content_hash q = prop_canonical_content_hash loaded
         then prop_canonical_content_hash p else prop_canonical_content_hash q),
       prop_updated_at := (if prop_updated_at q = prop_updated_at loaded
         then prop_updated_at p else prop_updated_at q)\<rparr>) db" (is "_ = put_proposal ?p db")
    using assms(2) get_proposal_mem [OF get]
    by (simp add: flush_proposal_def put_proposal_def save_proposal_def save_def)
  then show ?thesis by (intro exI [of _ ?p]) simp
qed

lemma approved_canonical:
  "prop_canonical_memory_id (approved_proposal now hs c h replaced p)
   = (if is_semantic p then c else prop_canonical_memory_id p)"
  by (simp add: approved_proposal_def Let_def set_status_def split: option.splits)

lemma cons_ok_written_over:
  assumes ok: "cons_ok db" and get: "get_proposal i (cd_proposals db) = Inr p" and q: "prop_id q = i"
    and free: "\<And>m. m \<in> set (cd_memories db) \<Longrightarrow> mi_mem0_memory_id m = c \<Longrightarrow> mi_shadowed_by_proposal_id m = None"
  shows "cons_ok (flush_proposal q (approved_proposal now hashes (Some c) h True q) db)"
proof -
  have "distinct (map prop_id (cd_proposals db))" using ok by (simp add: cons_ok_def)
  from flush_proposal_put [OF get _ this, where loaded = q and q = "approved_proposal now hashes (Some c) h True q"] obtain p' where
    p': "flush_proposal q (approved_proposal now hashes (Some c) h True q) db = put_proposal p' db"
      "prop_id p' = prop_id p" "prop_project_id p' = prop_project_id p"
      "prop_source_ids_json p' = prop_source_ids_json p"
      "prop_canonical_memory_id p' \<in> {prop_canonical_memory_id p, Some c}"
    using q by (auto simp: approved_proposal_same approved_canonical split: if_splits)
  have "covers p' m" if "m \<in> set (cd_memories db)" "mi_shadowed_by_proposal_id m = Some (prop_id p)" "covers p m" for m
    using that free p'(3-5) by (auto simp: covers_def proposal_source_ids_def)
  then show ?thesis unfolding p'(1) by (rule cons_ok_put [OF ok get p'(2)])
qed

lemma cons_ok_stale_over:
  assumes ok: "cons_ok db" and get: "get_proposal i (cd_proposals db) = Inr p" and q: "prop_id q = i"
  shows "cons_ok (flush_proposal q (set_status now ''STALE'' q) db)"
proof -
  have "distinct (map prop_id (cd_proposals db))" using ok by (simp add: cons_ok_def)
  from flush_proposal_put [OF get _ this, where loaded = q and q = "set_status now ''STALE'' q"] obtain p' where
    p': "flush_proposal q (set_status now ''STALE'' q) db = put_proposal p' db" "same_cover p p'"
    using q by (auto simp: set_status_def same_cover_def split: if_splits)
  show ?thesis unfolding p'(1) by (rule cons_ok_put_same [OF ok get p'(2)])
qed

lemma shadows_ok:
  assumes ok: "cons_ok db" and sh: "shadows now stamp a ex p db db'" and on: "attempt_on a db"
  shows "cons_ok db'"
proof -
  let ?ids = "sa_source_ids a"
  let ?found = "list_memories_by_ids (prop_project_id p) (Some (prop_app_id p)) (target_ids p ?ids) False True
    (cd_memories db)"
  define q where "q = set_status stamp ''SHADOWED'' (clear_shadow_attempt
    (p\<lparr>prop_export_job_id := Some (ex_id ex), prop_not_before := Some (now + sa_grace_days a * DAY)\<rparr>))"
  from sh have get: "get_proposal (prop_id (sa_proposal a)) (cd_proposals db) = Inr p"
    and db': "db' = (put_proposal q db)\<lparr>cd_memories := write_rows ?found (shadow_row stamp p) (cd_memories db)\<rparr>"
    by (auto simp: shadows_def Let_def q_def)
  have same: "same_cover p q" by (simp add: q_def same_cover_def set_status_def clear_shadow_attempt_def)
  have mid: "cons_ok (put_proposal q db)" by (rule cons_ok_put_same [OF ok get same])
  have ids: "proposal_source_ids p = Inr ?ids" using on get by (simp add: attempt_on_def)
  have "prop_id q = prop_id (sa_proposal a)" using get_proposal_mem [OF get] same by (simp add: same_cover_def)
  then have q_in: "q \<in> set (cd_proposals (put_proposal q db))"
    using get_proposal_mem [OF get_proposal_put [OF get]] by blast
  have ok_rows: "index_ok (write_rows ?found (shadow_row stamp p) (cd_memories db))"
    unfolding write_rows_def
  proof (rule index_ok_map)
    show "index_ok (cd_memories db)" using ok by (simp add: cons_ok_def)
    fix m assume "memory_ok m"
    then show "memory_ok (if m \<in> set ?found then shadow_row stamp p m else m)
      \<and> mi_project_id (if m \<in> set ?found then shadow_row stamp p m else m) = mi_project_id m
      \<and> mi_mem0_memory_id (if m \<in> set ?found then shadow_row stamp p m else m) = mi_mem0_memory_id m"
      by (auto simp: memory_ok_def shadow_row_def shadow_state_def INACTIVE_CONSOLIDATION_STATES_def)
  qed
  have "shadow_justified (cd_proposals (put_proposal q db)) (shadow_row stamp p m)" if "m \<in> set ?found" for m
  proof -
    have "covers q (shadow_row stamp p m)"
      unfolding covers_same [OF same]
      using that ids by (simp add: covers_def shadow_row_def set_list_memories_by_ids target_ids_def)
        (metis (mono_tags, lifting))
    moreover have "prop_id q = prop_id p" using same by (simp add: same_cover_def)
    ultimately show ?thesis
      unfolding shadow_justified_iff using q_in by (auto simp: shadow_row_def)
  qed
  then have "list_all (shadow_justified (cd_proposals (put_proposal q db)))
      (write_rows ?found (shadow_row stamp p) (cd_memories db))"
    using mid by (auto simp: cons_ok_def list_all_iff write_rows_def put_proposal_def)
  then show ?thesis unfolding db' by (rule cons_ok_memories [OF mid ok_rows])
qed

lemma rollback_ok:
  assumes ok: "cons_ok db" and run: "rollback_shadowed now pid db = Inr (n, db')"
  shows "cons_ok db'"
proof -
  obtain p found where get: "get_proposal pid (cd_proposals db) = Inr p"
    and db': "db' = (put_proposal (set_status now ''ROLLED_BACK'' (p\<lparr>prop_not_before := None\<rparr>)) db)
      \<lparr>cd_memories := write_rows found (restore_row now) (cd_memories db)\<rparr>"
    using run locked_proposal_get
    by (auto simp: rollback_shadowed_def res_simps Let_def split: if_splits)
  have mid: "cons_ok (put_proposal (set_status now ''ROLLED_BACK'' (p\<lparr>prop_not_before := None\<rparr>)) db)"
    by (rule cons_ok_put_same [OF ok get]) (simp add: same_cover_def set_status_def)
  have "index_ok (write_rows found (restore_row now) (cd_memories db))"
    unfolding write_rows_def using ok
    by (auto simp: cons_ok_def memory_ok_def restore_row_def intro!: index_ok_map)
  moreover have "list_all (shadow_justified (cd_proposals (put_proposal (set_status now ''ROLLED_BACK''
      (p\<lparr>prop_not_before := None\<rparr>)) db))) (write_rows found (restore_row now) (cd_memories db))"
    unfolding write_rows_def using mid
    by (auto simp: cons_ok_def put_proposal_def no_new_shadow_def restore_row_def intro!: all_justified_map)
  ultimately show ?thesis unfolding db' by (rule cons_ok_memories [OF mid])
qed

lemma create_proposal_ok:
  assumes ok: "cons_ok db" and fresh: "nid \<notin> prop_id ` set (cd_proposals db)"
    and run: "create_proposal nid now r d st (cd_proposals db) = (p, ps)"
  shows "cons_ok (db\<lparr>cd_proposals := ps\<rparr>)"
proof -
  have "ps = cd_proposals db \<or> ps = cd_proposals db @ [p] \<and> prop_id p = nid"
    using run by (auto simp: create_proposal_def Let_def split: option.splits)
  then show ?thesis
  proof
    assume "ps = cd_proposals db @ [p] \<and> prop_id p = nid"
    then show ?thesis
      using ok fresh by (auto simp: cons_ok_def list_all_iff shadow_justified_iff)
  qed (use ok in simp)
qed

text \<open>Proposals are never removed, nor given other sources or another project.\<close>

definition sources_kept :: "cons_db \<Rightarrow> cons_db \<Rightarrow> bool" where
  "sources_kept db db' =
     (\<forall>i p. get_proposal i (cd_proposals db) = Inr p \<longrightarrow>
        (\<exists>q. get_proposal i (cd_proposals db') = Inr q \<and> prop_project_id q = prop_project_id p
           \<and> prop_source_ids_json q = prop_source_ids_json p))"

lemma sources_kept_refl [simp]: "sources_kept db db"
  by (simp add: sources_kept_def)

lemma sources_kept_trans: "sources_kept db1 db2 \<Longrightarrow> sources_kept db2 db3 \<Longrightarrow> sources_kept db1 db3"
  unfolding sources_kept_def by metis

lemma sources_kept_same [simp]: "cd_proposals db' = cd_proposals db \<Longrightarrow> sources_kept db db'"
  by (simp add: sources_kept_def)

lemma sources_kept_memories [simp]: "sources_kept db (db'\<lparr>cd_memories := rows\<rparr>) = sources_kept db db'"
  by (simp add: sources_kept_def)

lemma sources_kept_put:
  assumes "get_proposal i (cd_proposals db) = Inr p" "prop_id q = prop_id p"
    "prop_project_id q = prop_project_id p" "prop_source_ids_json q = prop_source_ids_json p"
  shows "sources_kept db (put_proposal q db)"
proof -
  have i: "prop_id p = i" using get_proposal_mem [OF assms(1)] by simp
  have "get_proposal j (cd_proposals (put_proposal q db)) = get_proposal j (cd_proposals db)" if "j \<noteq> i" for j
    using that i assms(2) by (simp add: get_proposal_def put_proposal_def save_proposal_def row_by_save_other)
  then show ?thesis
    using get_proposal_put [OF assms(1), of q] assms i unfolding sources_kept_def by (metis Inr_inject)
qed

lemma row_by_map:
  assumes "\<And>r. prop_id (f r) = prop_id r"
  shows "row_by prop_id i (map f rows) = map_option f (row_by prop_id i rows)"
  using assms by (induction rows) (simp_all add: row_by_def)

lemma sources_kept_flush: "sources_kept db (flush_proposal loaded q db)"
  by (auto simp: sources_kept_def flush_proposal_def get_proposal_Inr row_by_map)

definition keeps :: "cons_db \<Rightarrow> cons_db \<Rightarrow> bool" where
  "keeps db db' = ((cons_ok db \<longrightarrow> cons_ok db') \<and> sources_kept db db')"

lemma keeps_refl [simp]: "keeps db db"
  by (simp add: keeps_def)

lemma keeps_put:
  assumes "get_proposal i (cd_proposals db) = Inr p" "same_cover p q"
  shows "keeps db (put_proposal q db)"
  using cons_ok_put_same [OF _ assms] sources_kept_put [OF assms(1), of q] assms(2)
  by (auto simp: keeps_def same_cover_def)

lemmas restating = same_cover_def set_status_def clear_shadow_attempt_def take_attempt_row_def

lemma keeps_fail: "fail_proposal now i m db = (r, db') \<Longrightarrow> keeps db db'"
  by (auto simp: fail_proposal_def split: sum.splits) (erule keeps_put, simp add: restating)

lemma keeps_begin: "shadow_begin ready i now n pid db = Inr (r, db') \<Longrightarrow> keeps db db'"
  by (auto simp: shadow_begin_def res_simps mark_proposal_stale_def Let_def dest!: locked_proposal_get
      split: if_splits option.splits) (erule keeps_put, simp add: restating)+

lemma keeps_abort: "shadow_abort now a db = Inr (r, db') \<Longrightarrow> keeps db db'"
  by (auto simp: shadow_abort_def still_owned_def res_simps mark_proposal_stale_def split: if_splits)
    (erule keeps_put, simp add: restating)+

lemma shadows_kept: "shadows now stamp a ex p db db' \<Longrightarrow> sources_kept db db'"
  unfolding shadows_def Let_def
  by (elim conjE exE, hypsubst, simp only: sources_kept_memories, erule sources_kept_put)
    (simp_all add: set_status_def clear_shadow_attempt_def)

lemma keeps_finish:
  assumes run: "shadow_finish now stamp a ex ok db = Inr (r, db')" and on: "attempt_on a db"
  shows "keeps db db'"
proof -
  from run obtain p where p: "get_proposal (prop_id (sa_proposal a)) (cd_proposals db) = Inr p"
    by (auto simp: shadow_finish_def still_owned_def res_simps)
  show ?thesis
  proof (cases "shadows now stamp a ex p db db'")
    case True
    then show ?thesis using shadows_ok shadows_kept on by (auto simp: keeps_def)
  next
    case False
    then show ?thesis
      using run p
      by (auto simp: shadow_finish_def still_owned_def res_simps shadows_def Let_def
          mark_proposal_stale_def proposal_sources_export split: if_splits)
        (erule keeps_put, simp add: restating)+
  qed
qed

lemma keeps_check: "finalize_check now p expected mid db = (r, db') \<Longrightarrow> keeps db db'"
  by (auto simp: finalize_check_def dest: keeps_fail split: if_splits option.splits)

lemma keeps_lineage: "keeps db (db\<lparr>cd_lineage := l\<rparr>)"
  by (simp add: keeps_def cons_ok_def)

lemma keeps_record: "record_deletion i stamp now p expected mid after db = (r, db') \<Longrightarrow> keeps db db'"
  by (auto simp: record_deletion_def keeps_lineage dest: keeps_fail
      split: upstream.splits if_splits sum.splits prod.splits)

lemma keeps_rollback: "rollback_shadowed now pid db = Inr (n, db') \<Longrightarrow> keeps db db'"
  using rollback_ok [of db now pid n db']
  by (auto simp: keeps_def rollback_shadowed_def res_simps Let_def dest!: locked_proposal_get split: if_splits)
    (erule sources_kept_put, simp_all add: set_status_def)+

lemma find_append_hit: "List.find P xs = Some x \<Longrightarrow> List.find P (xs @ ys) = Some x"
  by (induction xs) auto

lemma keeps_proposed:
  assumes "nid \<notin> prop_id ` set (cd_proposals db)" "create_proposal nid now r d st (cd_proposals db) = (p, ps)"
  shows "keeps db (db\<lparr>cd_proposals := ps\<rparr>)"
proof -
  have "ps = cd_proposals db \<or> ps = cd_proposals db @ [p]"
    using assms(2) by (auto simp: create_proposal_def Let_def split: option.splits)
  then have "sources_kept db (db\<lparr>cd_proposals := ps\<rparr>)"
    by (auto simp: sources_kept_def get_proposal_Inr row_by_def intro: find_append_hit)
  then show ?thesis using create_proposal_ok [OF _ assms] by (simp add: keeps_def)
qed

lemma keeps_approved:
  assumes "locked_proposal i db = Inr p" "proposal_sources p hashes ''ACTIVE'' (cd_memories db) = Inr (Some ms)"
  shows "keeps db (put_proposal (approved_proposal now hashes c h replaced p) db)"
  using cons_ok_approved [OF _ assms] sources_kept_put [OF locked_proposal_get [OF assms(1)]]
  by (simp add: keeps_def approved_proposal_same)

lemma keeps_written_over:
  assumes "get_proposal i (cd_proposals db) = Inr p" "prop_id q = i"
    "\<And>m. m \<in> set (cd_memories db) \<Longrightarrow> mi_mem0_memory_id m = c \<Longrightarrow> mi_shadowed_by_proposal_id m = None"
  shows "keeps db (flush_proposal q (approved_proposal now hashes (Some c) h True q) db)"
  unfolding keeps_def using cons_ok_written_over [OF _ assms] sources_kept_flush by blast

lemma keeps_stale_over:
  assumes "get_proposal i (cd_proposals db) = Inr p" "prop_id q = i"
  shows "keeps db (flush_proposal q (set_status now ''STALE'' q) db)"
  unfolding keeps_def using cons_ok_stale_over [OF _ assms] sources_kept_flush by blast

lemma cons_step_keeps: "cons_step db db' \<Longrightarrow> keeps db db'"
proof (induction rule: cons_step.induct)
  case (elsewhere db' db)
  then show ?case by (simp add: keeps_def cons_ok_def)
next
  case (indexed db rows)
  then show ?case
    using index_step_ok index_step_justified by (auto simp: keeps_def cons_ok_def)
next
  case (restated i db p now st t)
  then show ?case by (rule keeps_put) (simp add: restating)
qed (blast intro: keeps_written_over keeps_stale_over keeps_begin keeps_abort keeps_finish keeps_check keeps_record
    keeps_rollback keeps_proposed keeps_approved)+

lemma reachable_cons_ok: "reachable_cons db \<Longrightarrow> cons_ok db"
proof (induction rule: reachable_cons.induct)
  case (start db)
  then show ?case by (simp add: cons_ok_def index_ok_def unique_memories_def)
next
  case (onward db db')
  then show ?case using cons_step_keeps by (simp add: keeps_def)
qed

section \<open>The public operations as sequences of steps\<close>

abbreviation cons_steps :: "cons_db \<Rightarrow> cons_db \<Rightarrow> bool" where
  "cons_steps \<equiv> cons_step\<^sup>*\<^sup>*"

lemma steps_step: "cons_steps db db' \<Longrightarrow> cons_step db' db'' \<Longrightarrow> cons_steps db db''"
  by (rule rtranclp.rtrancl_into_rtrancl)

lemma steps_kept: "cons_steps db db' \<Longrightarrow> sources_kept db db'"
  by (induction rule: rtranclp_induct) (use cons_step_keeps sources_kept_trans in \<open>auto simp: keeps_def\<close>)

lemma steps_reachable: "cons_steps db db' \<Longrightarrow> reachable_cons db \<Longrightarrow> reachable_cons db'"
  by (induction rule: rtranclp_induct) (auto intro: reachable_cons.onward)

lemma attempt_on_kept:
  assumes "sources_kept db db'" "attempt_on a db" "get_proposal (prop_id (sa_proposal a)) (cd_proposals db) = Inr p"
  shows "attempt_on a db'"
  using assms unfolding sources_kept_def attempt_on_def proposal_source_ids_def by fastforce

lemma restated_status:
  assumes "get_proposal i (cd_proposals db) = Inr p"
  shows "cons_step db (put_proposal (set_status now st p) db)"
  using cons_step.restated [OF assms, of now st "prop_applied_at p"] by simp

lemma stale_step:
  "locked_proposal i db = Inr p \<Longrightarrow> mark_proposal_stale now p db = (r, db') \<Longrightarrow> cons_step db db'"
  by (auto simp: mark_proposal_stale_def intro: restated_status [OF locked_proposal_get])

lemma approve_check_locked: "approve_check ready i st hs c txt db = Inr (p, decision) \<Longrightarrow> locked_proposal i db = Inr p"
  by (elim approve_check_cases)

text \<open>
  A replacement is a memory of its own: when the addition answers, no memory of its identifier is
  shadowed.
\<close>

definition adds_new_memories :: "(json dict \<Rightarrow> cons_db \<Rightarrow> json dict res \<times> cons_db) \<Rightarrow> bool" where
  "adds_new_memories add_memory =
     (\<forall>payload d added d1 memory c. add_memory payload d = (Inr added, d1) \<longrightarrow>
        jget added ''memory'' = JObj memory \<longrightarrow> extract_memory_id memory = Inr c \<longrightarrow>
        (\<forall>m \<in> set (cd_memories d1). mi_mem0_memory_id m = c \<longrightarrow> mi_shadowed_by_proposal_id m = None))"

lemma approve_replacement_steps:
  assumes add: "\<And>payload d. cons_steps d (snd (add_memory payload d))" and new: "adds_new_memories add_memory"
    and run: "approve_check ready i st hs c txt db = Inr (p, Approve_replacement payload ms)"
  shows "cons_steps db (snd (approve_proposal sha256 ready add_memory refreshed now i st hs c txt db))"
proof -
  let ?run = "approve_proposal sha256 ready add_memory refreshed now i st hs c txt db"
  obtain res db1 where added: "add_memory payload db = (res, db1)" by fastforce
  have reach: "cons_steps db db1" using add [of db payload] added by simp
  have p: "get_proposal i (cd_proposals db) = Inr p" "prop_id p = i"
    using locked_proposal_get [OF approve_check_locked [OF run]] get_proposal_mem by blast+
  then obtain row where row: "get_proposal i (cd_proposals db1) = Inr row"
    using steps_kept [OF reach] unfolding sources_kept_def by blast
  let ?again = "\<lambda>memory. rbind (extract_memory_id memory) (\<lambda>c.
      case memory_content_fingerprint sha256 memory of
        None \<Rightarrow> conflict ''replacement memory fingerprint is unavailable''
      | Some (h, _) \<Rightarrow>
          rbind (lock_for_mutation (prop_project_id p) (cd_projects db1)) (\<lambda>_.
          rbind (if refreshed then get_proposal i (cd_proposals db1) else Inr p) (\<lambda>p1.
          rbind (held_sources (if refreshed then [] else ms) p1 (string_hashes hs) ''ACTIVE'' (cd_memories db1)) (\<lambda>again.
            Inr (c, h, p1, again)))))"
  have again: "extract_memory_id memory = Inr c' \<and> prop_id p1 = i"
    if "?again memory = Inr (c', h, p1, again)" for memory c' h p1 again
    using that p get_proposal_mem [OF row] row by (auto simp: res_simps split: option.splits if_splits)
  show ?thesis
  proof (cases "\<exists>d memory. res = Inr d \<and> jget d ''memory'' = JObj memory")
    case False
    then have "snd ?run = db1"
      using run added by (auto simp: approve_proposal_def Let_def split: sum.splits json.splits)
    then show ?thesis using reach by simp
  next
    case True
    then obtain d memory where d: "res = Inr d" "jget d ''memory'' = JObj memory" by blast
    show ?thesis
    proof (cases "?again memory")
      case (Inl e)
      then have "snd ?run = db1" using run added d by (simp add: approve_proposal_def Let_def)
      then show ?thesis using reach by simp
    next
      case (Inr res')
      obtain c' h p1 sources where r: "res' = (c', h, p1, sources)" by (cases res')
      note second = again [OF Inr [unfolded r]]
      have free: "mi_shadowed_by_proposal_id m = None"
        if "m \<in> set (cd_memories db1)" "mi_mem0_memory_id m = c'" for m
        using new that added d second unfolding adds_new_memories_def by blast
      have "snd ?run = flush_proposal p1 (set_status now ''STALE'' p1) db1
          \<or> snd ?run = flush_proposal p1 (approved_proposal now (string_hashes hs) (Some c') (Some h) True p1) db1"
        using run added d Inr r by (cases sources) (simp_all add: approve_proposal_def Let_def)
      then show ?thesis
        using steps_step [OF reach] cons_step.stale_over [OF row] cons_step.written_over [OF row _ free] second
        by metis
    qed
  qed
qed

lemma approve_steps:
  assumes add: "\<And>payload d. cons_steps d (snd (add_memory payload d))" and new: "adds_new_memories add_memory"
  shows "cons_steps db (snd (approve_proposal sha256 ready add_memory refreshed now i st hs c txt db))"
proof (cases "approve_check ready i st hs c txt db")
  case (Inl e)
  then show ?thesis by (simp add: approve_proposal_def)
next
  case (Inr pd)
  obtain p decision where pd: "pd = (p, decision)" by (cases pd)
  note run = Inr [unfolded pd]
  note at = approve_check_locked [OF run]
  show ?thesis
  proof (cases decision)
    case Approve_stale
    then show ?thesis
      using run stale_step [OF at] by (auto simp: approve_proposal_def split: prod.splits)
  next
    case (Approve_as canonical)
    then obtain ms where "proposal_sources p (string_hashes hs) ''ACTIVE'' (cd_memories db) = Inr (Some ms)"
      using approve_check_go [OF run] by auto
    then show ?thesis
      using run Approve_as cons_step.approved [OF at] by (auto simp: approve_proposal_def Let_def)
  next
    case (Approve_replacement payload ms)
    then show ?thesis using approve_replacement_steps [OF add new] run by simp
  qed
qed

lemma begun_attempt:
  assumes "shadow_begin ready i now n pid db = Inr (Shadow_attempt a, db1)"
  shows "attempt_on a db1 \<and> (\<exists>p. get_proposal (prop_id (sa_proposal a)) (cd_proposals db1) = Inr p)"
proof -
  obtain p ids where p: "get_proposal pid (cd_proposals db) = Inr p" "proposal_source_ids p = Inr ids"
    and a: "sa_proposal a = take_attempt_row i now n now p" "sa_source_ids a = ids"
    and db1: "db1 = put_proposal (take_attempt_row i now n now p) db"
    using assms
    by (auto simp: shadow_begin_def res_simps mark_proposal_stale_def Let_def dest!: locked_proposal_get
        split: if_splits option.splits)
  let ?q = "take_attempt_row i now n now p"
  have q: "prop_id ?q = pid" "proposal_source_ids ?q = Inr ids"
    using get_proposal_mem [OF p(1)] p(2) by (simp_all add: take_attempt_row_def set_status_def proposal_source_ids_def)
  show ?thesis
    using get_proposal_put [OF p(1) q(1)] q(2) a db1 by (simp add: attempt_on_def q(1))
qed

lemma with_db_steps:
  assumes "cons_steps db db1" "\<And>r db2. res = Inr (r, db2) \<Longrightarrow> cons_step db1 db2"
  shows "cons_steps db (snd (with_db db1 res))"
  using assms by (auto simp: with_db_def intro: steps_step split: sum.splits prod.splits)

lemma shadow_steps:
  assumes others: "\<And>d. cons_steps d (sw_others w d)"
    and export: "\<And>a d. cons_steps d (snd (sw_export w a d))"
  shows "cons_steps db (snd (shadow_approved sha256 w ready i now n later pid db))"
proof (cases "\<exists>a db1. shadow_begin ready i now n pid db = Inr (Shadow_attempt a, db1)")
  case False
  then show ?thesis
    by (cases "shadow_begin ready i now n pid db")
      (auto simp: shadow_approved_def intro: cons_step.begun split: shadow_start.splits prod.splits)
next
  case True
  then obtain a db1 where begun: "shadow_begin ready i now n pid db = Inr (Shadow_attempt a, db1)" by blast
  obtain p where on: "attempt_on a db1" "get_proposal (prop_id (sa_proposal a)) (cd_proposals db1) = Inr p"
    using begun_attempt [OF begun] by blast
  let ?db2 = "sw_others w db1"
  have two: "cons_steps db ?db2"
    using cons_step.begun [OF begun] others by (rule converse_rtranclp_into_rtranclp)
  obtain ex db3 where ex: "sw_export w a ?db2 = (ex, db3)" by fastforce
  have three: "cons_steps ?db2 db3" using export [of ?db2 a] ex by simp
  have on3: "attempt_on a db3"
    using attempt_on_kept [OF steps_kept on] others three by (metis rtranclp_trans)
  have "cons_steps db (snd (with_db ?db2 (shadow_abort later a ?db2)))"
    by (rule with_db_steps [OF two]) (rule cons_step.aborted)
  moreover have "cons_steps db (snd (with_db db3 (shadow_finish later later a x ok db3)))" for x ok
    using two three by (intro with_db_steps) (auto intro: cons_step.finished [OF _ on3])
  moreover have "cons_steps db db3" using two three by simp
  ultimately show ?thesis
    using begun ex two
    by (auto simp: shadow_approved_def Let_def split: sum.splits bool.splits)
qed

lemma finalize_target_steps:
  assumes del: "\<And>d. cons_steps d (snd (dw_delete w d))"
  shows "cons_steps db (snd (finalize_target sha256 i stamp now p expected w mid db))"
proof -
  obtain r db1 where c: "finalize_check stamp p expected mid db = (r, db1)" by fastforce
  have one: "cons_steps db db1" using cons_step.checked [OF c] by simp
  have recorded: "cons_steps db (snd (record_deletion i stamp now p expected mid (dw_after w) d))"
    if "cons_steps db d" for d
    using that cons_step.deleted steps_step by (metis surjective_pairing)
  obtain r2 db2 where d: "dw_delete w db1 = (r2, db2)" by fastforce
  have two: "cons_steps db db2" using one del [of db1] d by simp
  show ?thesis
    using c d one two recorded [OF one] recorded [OF two]
    by (auto simp: finalize_target_def split: sum.splits finalize_check.splits)
qed

lemma finalize_targets_steps:
  assumes del: "\<And>mid d. cons_steps d (snd (dw_delete (w mid) d))"
  shows "cons_steps db (snd (finalize_targets sha256 i stamp now p expected w mids db))"
proof (induction mids arbitrary: db)
  case (Cons mid mids)
  have "cons_steps db (snd (finalize_target sha256 (i mid) stamp now p expected (w mid) mid db))"
    by (rule finalize_target_steps [OF del])
  then show ?case
    using Cons.IH by (auto split: prod.splits sum.splits) (metis rtranclp_trans snd_conv)
qed simp

lemma finalize_steps:
  assumes del: "\<And>mid d. cons_steps d (snd (dw_delete (w mid) d))"
  shows "cons_steps db (snd (finalize_shadowed sha256 i ready hard w stamp now pid db))"
proof -
  have loop: "cons_steps db db1"
    if "finalize_targets sha256 i stamp now p expected w mids db = (r, db1)" for p expected mids r db1
    using finalize_targets_steps [of w, OF del] that by (metis snd_conv)
  have applied: "cons_steps db (put_proposal (set_status stamp ''APPLIED'' (q\<lparr>prop_applied_at := Some now\<rparr>)) db1)"
    if "finalize_targets sha256 i stamp now p expected w mids db = (r, db1)"
      "get_proposal pid (cd_proposals db1) = Inr q" for p expected mids r db1 q
    using steps_step [OF loop [OF that(1)] cons_step.restated [OF that(2)]] .
  show ?thesis
    using loop applied
    by (auto simp: finalize_shadowed_def split: sum.splits bool.splits prod.splits)
qed

section \<open>Approvals\<close>

text \<open>
  C24: a proposal is only approved by a call that found the status its operator saw, under an
  enabled policy that allows acting, with verified bridge routing, for an action the policy
  allow-lists or, for a semantic proposal, by a manual decision, and with every source live,
  active, unpinned and carrying the content hash the operator sent.
\<close>

theorem approval_guarded:
  assumes run: "approve_proposal sha256 ready add_memory refreshed now i st hs c txt db = (Inr r, db')"
    and approved: "oc_status r = ''APPROVED''"
  shows "\<exists>p row policy ms. get_proposal i (cd_proposals db) = Inr p \<and> prop_status p = st \<and> ready
    \<and> get_policy (prop_project_id p) (prop_app_id p) (cd_policies db) = Some row
    \<and> policy_of_row row = Inr policy \<and> pol_enabled policy \<and> pol_mode policy \<noteq> ''OBSERVE''
    \<and> (if is_semantic p then pol_mode policy = ''MANUAL'' \<and> st = ''REVIEW_REQUIRED'' \<and> (c = None) \<noteq> (txt = None)
       else prop_kind p \<in> pol_safe_actions policy \<and> txt = None)
    \<and> proposal_sources p (string_hashes hs) ''ACTIVE'' (cd_memories db) = Inr (Some ms)
    \<and> mi_mem0_memory_id ` set ms = set (dkeys (string_hashes hs))
    \<and> list_all (source_intact p (string_hashes hs)) ms"
proof -
  obtain p decision where check: "approve_check ready i st hs c txt db = Inr (p, decision)"
    using run by (cases "approve_check ready i st hs c txt db") (auto simp: approve_proposal_def)
  have go: "decision \<noteq> Approve_stale"
    using run check approved by (auto simp: approve_proposal_def mark_proposal_stale_def plain_outcome_def)
  obtain row policy sources where p: "locked_proposal i db = Inr p" "prop_status p = st"
    and row: "get_policy (prop_project_id p) (prop_app_id p) (cd_policies db) = Some row" "policy_of_row row = Inr policy"
    and allowed: "approval_refusal ready p st policy c txt = None"
    using check by (rule approve_check_cases)
  obtain ms where ms: "proposal_sources p (string_hashes hs) ''ACTIVE'' (cd_memories db) = Inr (Some ms)"
    using approve_check_go [OF check go] p(1) by auto
  obtain ids where ids: "proposal_source_ids p = Inr ids" using proposal_sources_ids [OF ms] by blast
  note sources = proposal_sources_Some [OF ms ids]
  have "list_all (source_intact p (string_hashes hs)) ms" using sources(3) by (simp add: list_all_iff)
  moreover have "ready \<and> pol_enabled policy \<and> pol_mode policy \<noteq> ''OBSERVE''
    \<and> (if is_semantic p then pol_mode policy = ''MANUAL'' \<and> st = ''REVIEW_REQUIRED'' \<and> (c = None) \<noteq> (txt = None)
       else prop_kind p \<in> pol_safe_actions policy \<and> txt = None)"
    using allowed by (auto simp: approval_refusal_def split: if_splits)
  ultimately show ?thesis
    using p row ms sources(1,2) locked_proposal_get [OF p(1)] by (intro exI conjI) auto
qed

section \<open>An example\<close>

text \<open>Two duplicates, proposed for consolidation, the proposal approved, an attempt begun and finished.\<close>

definition sample_draft :: proposal_draft where
  "sample_draft = \<lparr>pd_kind = ''EXACT_DUPLICATE'', pd_source_ids = [''m1'', ''m2''], pd_canonical_id = Some ''m2'',
     pd_score = None, pd_evidence = [], pd_proposal_key = ''k''\<rparr>"

definition sample_policy_row :: consolidation_policy where
  "sample_policy_row = \<lparr>cpol_id = ''c'', cpol_project_id = ''p'', cpol_app_id = ''a'', cpol_enabled = 1,
     cpol_mode = ''MANUAL'', 
     cpol_policy_json = Some (JObj [(''enabled'', JBool True), (''mode'', JStr ''MANUAL'')]), cpol_version = 1,
     cpol_created_at = 1, cpol_updated_at = 1\<rparr>"

definition sample_cons :: "string \<Rightarrow> string \<Rightarrow> cons_db" where
  "sample_cons kind status = \<lparr>cd_projects = [sample_project], cd_memories = sample_index,
     cd_policies = [sample_policy_row], cd_runs = [],
     cd_proposals = snd (create_proposal ''x'' 8 (fst (create_run ''r'' 5 sample_policy_row []))
       (sample_draft\<lparr>pd_kind := kind\<rparr>) status []), cd_lineage = [], cd_jobs = []\<rparr>"

lemma reachable_cons_index:
  assumes "reachable_index rows" "cd_proposals db = []"
  shows "reachable_cons (db\<lparr>cd_memories := rows\<rparr>)"
  using assms(1)
proof (induction rule: reachable_index.induct)
  case empty_index
  show ?case using assms(2) by (intro reachable_cons.start) simp_all
next
  case (next_index rows rows')
  from next_index(2) show ?case
    using reachable_cons.onward [OF next_index(3)] cons_step.indexed [of "db\<lparr>cd_memories := rows\<rparr>" rows'] by simp
qed

lemma sample_cons_reachable: "reachable_cons (sample_cons kind status)"
proof -
  let ?db = "(sample_cons kind status)\<lparr>cd_proposals := []\<rparr>"
  have "reachable_cons (?db\<lparr>cd_memories := sample_index\<rparr>)"
    by (rule reachable_cons_index [OF sample_index_reachable]) simp
  then have "reachable_cons ?db" by (simp add: sample_cons_def)
  moreover have "cons_step ?db (sample_cons kind status)"
    by (cases "create_proposal ''x'' 8 (fst (create_run ''r'' 5 sample_policy_row []))
        (sample_draft\<lparr>pd_kind := kind\<rparr>) status []")
      (use cons_step.proposed [of "''x''" ?db 8] in \<open>simp add: sample_cons_def\<close>)
  ultimately show ?thesis by (rule reachable_cons.onward)
qed

lemma sample_index_ok: "index_ok sample_index"
  using reachable_cons_ok [OF sample_cons_reachable] by (simp add: cons_ok_def sample_cons_def)

definition sample_hashes :: "json dict" where
  "sample_hashes = [(''m1'', JStr ''h''), (''m2'', JStr ''h'')]"

definition sample_sha :: "string \<Rightarrow> string" where
  "sample_sha s = ''h''"

definition no_add :: "json dict \<Rightarrow> cons_db \<Rightarrow> json dict res \<times> cons_db" where
  "no_add payload db = (Inr [], db)"

definition sample_approve :: "string \<Rightarrow> string option \<Rightarrow> cons_db \<Rightarrow> outcome_row res \<times> cons_db" where
  "sample_approve status canonical db =
     approve_proposal sample_sha True no_add False 10 ''x'' status sample_hashes canonical None db"

definition sample_safe :: cons_db where
  "sample_safe = snd (sample_approve ''PENDING'' None (sample_cons ''EXACT_DUPLICATE'' ''PENDING''))"

definition sample_attempt :: "time \<Rightarrow> string" where
  "sample_attempt t = (if t = 0 then ''t0'' else ''t1'')"

definition sample_begin :: "time \<Rightarrow> cons_db \<Rightarrow> shadow_attempt option \<times> cons_db" where
  "sample_begin t db =
     (case shadow_begin True (sample_attempt t) t (int 60) ''x'' db of
        Inr (Shadow_attempt a, db') \<Rightarrow> (Some a, db') | _ \<Rightarrow> (None, db))"

lemma sample_begin_Some:
  "sample_begin t db = (Some a, db') \<Longrightarrow>
   shadow_begin True (sample_attempt t) t (int 60) ''x'' db = Inr (Shadow_attempt a, db')"
  by (auto simp: sample_begin_def split: sum.splits prod.splits shadow_start.splits)

definition sample_export :: export_result where
  "sample_export = \<lparr>ex_id = ''e'', ex_status = ''SUCCEEDED'', ex_total = 2, ex_exported = 2, ex_skipped = 0\<rparr>"

definition sample_finish :: "cons_db \<Rightarrow> string \<times> cons_db" where
  "sample_finish db =
     (case sample_begin 0 db of
        (Some a, db1) \<Rightarrow>
          (case shadow_finish 1 1 a sample_export True db1 of
             Inr (r, db2) \<Rightarrow> (oc_status r, db2) | Inl _ \<Rightarrow> ([], db1))
      | (None, db1) \<Rightarrow> ([], db1))"

lemma sample_attempt_run:
  obtains a db r db' p where "shadow_begin True (sample_attempt 0) 0 (int 60) ''x'' sample_safe = Inr (Shadow_attempt a, db)"
    "shadow_finish 1 1 a sample_export True db = Inr (r, db')" "oc_status r = ''SHADOWED''" "attempt_on a db"
    "get_proposal (prop_id (sa_proposal a)) (cd_proposals db) = Inr p" "prop_status p \<noteq> ''SHADOWED''"
    "index_ok (cd_memories db)"
proof -
  have *: "case sample_begin 0 sample_safe of (Some a, db) \<Rightarrow>
      (case shadow_finish 1 1 a sample_export True db of Inl _ \<Rightarrow> False | Inr (r, db') \<Rightarrow> oc_status r = ''SHADOWED'')
      \<and> (case get_proposal (prop_id (sa_proposal a)) (cd_proposals db) of Inl _ \<Rightarrow> False
         | Inr p \<Rightarrow> prop_status p \<noteq> ''SHADOWED'')
      \<and> cd_memories db = sample_index
    | (None, db) \<Rightarrow> False"
    by code_simp
  obtain a db where b: "sample_begin 0 sample_safe = (Some a, db)"
    using * by (auto split: prod.splits option.splits)
  note run = sample_begin_Some [OF b]
  have "index_ok (cd_memories db)"
    using * b sample_index_ok by simp
  then show thesis
    using that [OF run] conjunct1 [OF begun_attempt [OF run]] * b by (auto split: sum.splits)
qed

lemma shadow_touches_only_approved_witness:
  "\<exists>a db r db' p. shadow_finish 1 1 a sample_export True db = Inr (r, db') \<and> oc_status r = ''SHADOWED''
    \<and> get_proposal (prop_id (sa_proposal a)) (cd_proposals db) = Inr p
    \<and> (\<forall>i \<in> set (sa_source_ids a). \<exists>m \<in> set (cd_memories db).
          mi_mem0_memory_id m = i \<and> source_intact p (sa_expected a) m)
    \<and> cd_memories db' = map (\<lambda>m. if shadow_target p (sa_source_ids a) m then shadow_row 1 p m else m)
        (cd_memories db)"
proof -
  obtain a db0 db r db1 p where run: "shadow_finish 1 1 a sample_export True db = Inr (r, db1)"
    "oc_status r = ''SHADOWED''" "attempt_on a db"
    "get_proposal (prop_id (sa_proposal a)) (cd_proposals db) = Inr p" "prop_status p \<noteq> ''SHADOWED''"
    by (rule sample_attempt_run) blast
  from shadow_touches_only_approved [OF run(1,3)] run(2,4,5) show ?thesis
    using run(1) by (intro exI conjI) auto
qed

lemma rollback_undoes_shadowing_witness:
  "\<exists>a db r db1 n db2 q. shadow_finish 1 1 a sample_export True db = Inr (r, db1) \<and> oc_status r = ''SHADOWED''
    \<and> rollback_shadowed 5 (prop_id (sa_proposal a)) db1 = Inr (n, db2)
    \<and> list_all2 (\<lambda>m m2. m2 = m \<or> m2 = m\<lparr>mi_last_consolidation_scan_at := None, mi_updated_at := 5\<rparr>)
        (cd_memories db) (cd_memories db2)
    \<and> get_proposal (prop_id (sa_proposal a)) (cd_proposals db2) = Inr q \<and> prop_status q = ''ROLLED_BACK''"
proof -
  obtain a db0 db r db1 p where run: "shadow_finish 1 1 a sample_export True db = Inr (r, db1)"
    "oc_status r = ''SHADOWED''" "attempt_on a db" "index_ok (cd_memories db)"
    "get_proposal (prop_id (sa_proposal a)) (cd_proposals db) = Inr p" "prop_status p \<noteq> ''SHADOWED''"
    by (rule sample_attempt_run) blast
  show ?thesis
    using run(1,2) rollback_undoes_shadowing [OF run(1,2,3,4,5,6), of 5] by blast
qed

lemma shadow_attempts_fenced_witness:
  "\<exists>a1 a2 db1 db2. shadow_begin True (sample_attempt 0) 0 (int 60) ''x'' sample_safe = Inr (Shadow_attempt a1, db1)
    \<and> shadow_begin True (sample_attempt (60 * SECOND)) (60 * SECOND) (int 60) ''x'' db1 = Inr (Shadow_attempt a2, db2)
    \<and> shadow_finish 1 1 a1 sample_export True db2 = Inr (plain_outcome ''EXPORTING'', db2)"
proof -
  have *: "case sample_begin 0 sample_safe of (Some a1, db1) \<Rightarrow>
      (case sample_begin (60 * SECOND) db1 of (Some a2, db2) \<Rightarrow> True | (None, db2) \<Rightarrow> False)
    | (None, db1) \<Rightarrow> False"
    by code_simp
  obtain a1 db1 where b1: "sample_begin 0 sample_safe = (Some a1, db1)"
    using * by (auto split: prod.splits option.splits)
  obtain a2 db2 where b2: "sample_begin (60 * SECOND) db1 = (Some a2, db2)"
    using * b1 by (auto split: prod.splits option.splits)
  note runs = sample_begin_Some [OF b1] sample_begin_Some [OF b2]
  have "sample_attempt 0 \<noteq> sample_attempt (60 * SECOND)" by (simp add: sample_attempt_def SECOND_def)
  from shadow_attempts_fenced [OF runs(1) refl runs(2) refl refl this] runs show ?thesis by blast
qed

text \<open>An upstream that has both memories, and one that has lost the deleted one.\<close>

definition sample_reply :: "string \<Rightarrow> upstream" where
  "sample_reply mid = Reply (JObj [(''id'', JStr mid), (''memory'', JStr ''text''),
     (''metadata'', JObj [(PROJECT_MARKER, JStr ''p''), (APP_MARKER, JStr ''a'')])])"

definition sample_delete :: delete_world where
  "sample_delete = \<lparr>dw_before = sample_reply, dw_delete = (\<lambda>db. (Inr (), db)), dw_after = Refused (Some 404) False\<rparr>"

lemma finalize_deletes_only_shadowed_witness:
  "\<exists>p. get_proposal ''x'' (cd_proposals sample_safe) = Inr p
    \<and> finalize_target sample_sha ''l'' 9 9 p [(''m1'', ''h'')]
        (sample_delete\<lparr>dw_delete := \<lambda>db. (Inr (), db\<lparr>cd_memories := []\<rparr>)\<rparr>) ''m1'' sample_safe
      = finalize_target sample_sha ''l'' 9 9 p [(''m1'', ''h'')] sample_delete ''m1'' sample_safe"
proof -
  have *: "case get_proposal ''x'' (cd_proposals sample_safe) of Inl _ \<Rightarrow> False
      | Inr p \<Rightarrow> \<not> deletion_permitted sample_sha p [(''m1'', ''h'')] sample_delete ''m1'' sample_safe"
    by code_simp
  show ?thesis
    using * finalize_deletes_only_shadowed
    by (cases "get_proposal ''x'' (cd_proposals sample_safe)") auto
qed

definition sample_shadowed :: cons_db where
  "sample_shadowed = snd (sample_finish sample_safe)"

lemma applied_means_deleted_witness:
  "\<exists>r db' p. finalize_shadowed sample_sha (\<lambda>i. i) True True (\<lambda>_. sample_delete) 9 (90 * DAY) ''x'' sample_shadowed
      = (Inr r, db') \<and> get_proposal ''x'' (cd_proposals sample_shadowed) = Inr p
    \<and> target_ids p [''m1'', ''m2''] = [''m1''] \<and> recorded p ''m1'' db' \<and> \<not> recorded p ''m1'' sample_shadowed"
proof -
  let ?run = "finalize_shadowed sample_sha (\<lambda>i. i) True True (\<lambda>_. sample_delete) 9 (90 * DAY) ''x'' sample_shadowed"
  have *: "(case ?run of (Inl _, _) \<Rightarrow> False | (Inr r, _) \<Rightarrow> oc_status r = ''APPLIED'')
    \<and> (case get_proposal ''x'' (cd_proposals sample_shadowed) of Inl _ \<Rightarrow> False
       | Inr p \<Rightarrow> proposal_source_ids p = Inr [''m1'', ''m2''] \<and> target_ids p [''m1'', ''m2''] = [''m1'']
           \<and> \<not> recorded p ''m1'' sample_shadowed)"
    by code_simp
  obtain r db' where run: "?run = (Inr r, db')" and applied: "oc_status r = ''APPLIED''"
    using * by (auto split: prod.splits sum.splits)
  have "\<And>mid d. cd_lineage (snd (dw_delete ((\<lambda>_. sample_delete) mid) d)) = cd_lineage d"
    by (simp add: sample_delete_def)
  from applied_means_deleted [OF run applied this] show ?thesis
    using * run by auto
qed

text \<open>A world in which nothing else happens, and one in which the approved attempt goes through.\<close>

definition quiet_world :: shadow_world where
  "quiet_world = \<lparr>sw_before = sample_reply, sw_others = (\<lambda>db. db), sw_export = (\<lambda>a db. (Inr sample_export, db)),
     sw_after = sample_reply\<rparr>"

lemma approval_guarded_witness:
  "\<exists>r db' p ms. sample_approve ''PENDING'' None (sample_cons ''EXACT_DUPLICATE'' ''PENDING'') = (Inr r, db')
    \<and> proposal_sources p (string_hashes sample_hashes) ''ACTIVE'' sample_index = Inr (Some ms)
    \<and> mi_mem0_memory_id ` set ms = {''m1'', ''m2''} \<and> list_all (source_intact p (string_hashes sample_hashes)) ms"
proof -
  let ?db = "sample_cons ''EXACT_DUPLICATE'' ''PENDING''"
  have *: "case sample_approve ''PENDING'' None ?db of (Inl _, _) \<Rightarrow> False | (Inr r, _) \<Rightarrow> oc_status r = ''APPROVED''"
    by code_simp
  obtain r db' where run: "sample_approve ''PENDING'' None ?db = (Inr r, db')" and ok: "oc_status r = ''APPROVED''"
    using * by (auto split: prod.splits sum.splits)
  have keys: "set (dkeys (string_hashes sample_hashes)) = {''m1'', ''m2''}" by code_simp
  have rows: "cd_memories ?db = sample_index" by (simp add: sample_cons_def)
  from approval_guarded [OF run [unfolded sample_approve_def] ok] obtain p ms where
    "proposal_sources p (string_hashes sample_hashes) ''ACTIVE'' sample_index = Inr (Some ms)"
    "mi_mem0_memory_id ` set ms = {''m1'', ''m2''}" "list_all (source_intact p (string_hashes sample_hashes)) ms"
    unfolding keys rows by (elim exE conjE)
  then show ?thesis using run by (intro exI conjI)
qed

end
