(* ===== verification/Consolidation_Scan.thy ===== *)
theory Consolidation_Scan
  imports Consolidation_Safety
begin

text \<open>
  Finding what to consolidate: the semantic search of a scan, the scan itself, the backfill of
  scope markers (\<open>core/consolidation_service.py\<close>), and the scheduler and job handlers that
  drive scans and proposals (\<open>workers/consolidation.py\<close>).
\<close>

fun fold_res :: "('s \<Rightarrow> 'x \<Rightarrow> 's res) \<Rightarrow> 's \<Rightarrow> 'x list \<Rightarrow> 's res" where
  "fold_res f s [] = Inr s"
| "fold_res f s (x # xs) = rbind (f s x) (\<lambda>s'. fold_res f s' xs)"

section \<open>Semantic neighbours\<close>

definition snapshot_header :: "memory_index \<Rightarrow> memory_snapshot" where
  "snapshot_header m = \<lparr>snap_project_id = mi_project_id m, snap_app_id = or_default (mi_app_id m) [],
     snap_memory_id = mi_mem0_memory_id m, snap_user_id = mi_user_id m, snap_agent_id = mi_agent_id m,
     snap_normalized_type = or_default (mi_normalized_type m) ''unknown'',
     snap_content_hash = or_default (mi_content_hash m) [],
     snap_content_length = (case mi_content_length m of None \<Rightarrow> 0 | Some n \<Rightarrow> n), snap_text = []\<rparr>"

definition record_text :: "json dict \<Rightarrow> string option" where
  "record_text d =
     (case List.map_filter (\<lambda>k. case jget d k of JStr s \<Rightarrow> Some s | _ \<Rightarrow> None)
         [''memory'', ''text'', ''content''] of
        [] \<Rightarrow> None | s # _ \<Rightarrow> Some s)"

text \<open>A header with the text the upstream has, when that is still the content of the index.\<close>

definition hydrate ::
    "(string \<Rightarrow> string) \<Rightarrow> (string \<Rightarrow> upstream) \<Rightarrow> memory_snapshot \<Rightarrow> memory_snapshot option res" where
  "hydrate sha256 get h =
     (case get (snap_memory_id h) of
        Refused status unknown \<Rightarrow> if status = Some 404 then Inr None else upstream_error
      | Reply (JObj d) \<Rightarrow>
          if snap_memory_id h \<notin> set (extract_memory_ids d) \<or> record_is_pinned d then Inr None
          else Inr (case (memory_content_fingerprint sha256 d, record_text d) of
              (Some (hash, n), Some s) \<Rightarrow>
                if hash \<noteq> snap_content_hash h then None
                else Some (h\<lparr>snap_content_hash := hash, snap_content_length := n, snap_text := s\<rparr>)
            | _ \<Rightarrow> None)
      | Reply _ \<Rightarrow> Inr None)"

definition neighbor_query :: "policy_spec \<Rightarrow> memory_snapshot \<Rightarrow> json dict" where
  "neighbor_query policy a =
     [(''query'', JStr (snap_text a)), (''top_k'', JInt 10),
      (''threshold'', JFloat (pol_near_duplicate_threshold policy)),
      (''filters'', JObj [(APP_MARKER, JStr (snap_app_id a)), (PROJECT_MARKER, JStr (snap_project_id a))])]
     @ (case snap_user_id a of None \<Rightarrow> [] | Some u \<Rightarrow> [(''user_id'', JStr u)])
     @ (case snap_agent_id a of None \<Rightarrow> [] | Some g \<Rightarrow> [(''agent_id'', JStr g)])"

definition neighbors ::
    "(json dict \<Rightarrow> upstream) \<Rightarrow> policy_spec \<Rightarrow> memory_snapshot \<Rightarrow> (memory_snapshot \<times> json dict list) res" where
  "neighbors search policy a =
     (case search (neighbor_query policy a) of
        Refused status unknown \<Rightarrow> upstream_error
      | Reply (JObj d) \<Rightarrow>
          (case jget d ''results'' of
             JList items \<Rightarrow> Inr (a, List.map_filter (\<lambda>x. case x of JObj m \<Rightarrow> Some m | _ \<Rightarrow> None) items)
           | _ \<Rightarrow> Inr (a, []))
      | Reply _ \<Rightarrow> Inr (a, []))"

type_synonym candidate = "(string \<times> string) \<times> memory_snapshot \<times> string \<times> pyfloat"

definition add_candidate ::
    "pyfloat \<Rightarrow> memory_snapshot \<Rightarrow> candidate list \<Rightarrow> json dict \<Rightarrow> candidate list res" where
  "add_candidate threshold a refs item =
     (case extract_memory_ids item of
        [] \<Rightarrow> Inr refs
      | i # _ \<Rightarrow>
          if i = snap_memory_id a then Inr refs
          else case jget item ''score'' of
            JBool _ \<Rightarrow> Inr refs
          | v \<Rightarrow>
              (case float_of_json v of
                 Inl e \<Rightarrow> if exn_class e \<in> {TypeError, ValueError} then Inr refs else Inl e
               | Inr score \<Rightarrow>
                   if \<not> isfinite score \<or> float_lt score threshold then Inr refs
                   else let pair = (min (snap_memory_id a) i, max (snap_memory_id a) i) in
                     if pair \<in> fst ` set refs then Inr refs else Inr (refs @ [(pair, a, i, score)])))"

text \<open>Pairs are distinct, so they alone decide the order of the sorted candidates.\<close>

definition candidate_refs ::
    "pyfloat \<Rightarrow> (memory_snapshot \<times> json dict list) list \<Rightarrow> candidate list res" where
  "candidate_refs threshold found =
     rbind (fold_res (\<lambda>refs (a, items). fold_res (add_candidate threshold a) refs (take 10 items)) [] found)
       (\<lambda>refs. Inr (sort_key fst refs))"

definition same_subject :: "memory_snapshot \<Rightarrow> memory_snapshot \<Rightarrow> bool" where
  "same_subject h a =
     (snap_project_id h = snap_project_id a \<and> snap_app_id h = snap_app_id a
      \<and> snap_user_id h = snap_user_id a \<and> snap_agent_id h = snap_agent_id a
      \<and> snap_normalized_type h = snap_normalized_type a \<and> snap_content_hash h \<noteq> snap_content_hash a)"

text \<open>
  The candidates are looked up in the session of the scan, which still holds the rows it analysed
  (\<open>held\<close>): a candidate among them is seen as it was then.
\<close>

definition candidate_headers ::
    "memory_snapshot list \<Rightarrow> string list \<Rightarrow> memory_index list \<Rightarrow> memory_index list \<Rightarrow> memory_snapshot dict" where
  "candidate_headers headers ids held rows =
     (let (pid, app) = (case headers of [] \<Rightarrow> ([], []) | h # _ \<Rightarrow> (snap_project_id h, snap_app_id h))
      in map (\<lambda>m. (mi_mem0_memory_id m, snapshot_header m))
        (filter (\<lambda>m. mi_pinned m = 0)
          (map (as_held held) (list_memories_by_ids pid (Some app) ids False False rows))))"

definition valid_refs :: "memory_snapshot dict \<Rightarrow> candidate list \<Rightarrow> candidate list" where
  "valid_refs headers refs =
     filter (\<lambda>(_, a, i, _). case dget headers i of None \<Rightarrow> False | Some h \<Rightarrow> same_subject h a) refs"

definition ref_ids :: "candidate list \<Rightarrow> string list" where
  "ref_ids refs = dedup (map (\<lambda>(_, _, i, _). i) refs)"

definition missing_headers ::
    "memory_snapshot dict \<Rightarrow> memory_snapshot list \<Rightarrow> string list \<Rightarrow> memory_snapshot list" where
  "missing_headers headers anchors ids =
     List.map_filter (dget headers) (filter (\<lambda>i. i \<notin> snap_memory_id ` set anchors) ids)"

definition snapshot_cache :: "memory_snapshot list \<Rightarrow> string \<Rightarrow> memory_snapshot option" where
  "snapshot_cache snapshots = map_of (map (\<lambda>s. (snap_memory_id s, s)) snapshots)"

definition ref_drafts ::
    "(string \<Rightarrow> string) \<Rightarrow> int \<Rightarrow> string list \<Rightarrow> (string \<Rightarrow> memory_snapshot option) \<Rightarrow> candidate list \<Rightarrow>
     proposal_draft list" where
  "ref_drafts sha256 version ids cache refs =
     List.map_filter (\<lambda>(_, a, i, score).
       if i \<notin> set ids then None
       else case cache i of None \<Rightarrow> None | Some c \<Rightarrow> classify_neighbor sha256 a c score version) refs"

definition semantic_drafts ::
    "(string \<Rightarrow> string) \<Rightarrow> policy_spec \<Rightarrow> (string \<Rightarrow> upstream) \<Rightarrow> (json dict \<Rightarrow> upstream) \<Rightarrow>
     (string \<Rightarrow> upstream) \<Rightarrow> memory_index list \<Rightarrow> memory_index list \<Rightarrow> memory_snapshot list \<Rightarrow>
     proposal_draft list res" where
  "semantic_drafts sha256 policy get search get_later held rows headers =
     rbind (rmap (hydrate sha256 get) headers) (\<lambda>hydrated.
     let anchors = List.map_filter id hydrated in
     rbind (rmap (neighbors search policy) anchors) (\<lambda>found.
     rbind (candidate_refs (pol_near_duplicate_threshold policy) found) (\<lambda>refs.
     let headers' = candidate_headers headers (ref_ids refs) held rows;
         valid = valid_refs headers' refs;
         hydration_ids = take 20 (ref_ids valid)
     in rbind (rmap (hydrate sha256 get_later) (missing_headers headers' anchors hydration_ids)) (\<lambda>more.
        Inr (ref_drafts sha256 (pol_policy_version policy) hydration_ids
          (snapshot_cache (List.map_filter id more @ anchors)) valid)))))"

section \<open>A scan\<close>

record scan_result =
  scr_status :: string
  scr_proposal_count :: nat

text \<open>
  The world of a scan: whether there is a client to search with, the replies to it before and
  after the candidates are read, and the transactions of others that fall between the commit and
  that reading, and between it and the final lock.  Without a client nothing is awaited.
\<close>

record scan_world =
  scn_client :: bool
  scn_get :: "string \<Rightarrow> upstream"
  scn_search :: "json dict \<Rightarrow> upstream"
  scn_get_later :: "string \<Rightarrow> upstream"
  scn_others :: "cons_db \<Rightarrow> cons_db"
  scn_others_later :: "cons_db \<Rightarrow> cons_db"

definition save_drafts ::
    "(string \<Rightarrow> string) \<Rightarrow> time \<Rightarrow> consolidation_run \<Rightarrow> (proposal_draft \<Rightarrow> string) \<Rightarrow> proposal_draft list \<Rightarrow>
     consolidation_proposal list \<Rightarrow> consolidation_proposal list" where
  "save_drafts new_id now r status ds rows =
     foldl (\<lambda>ps d. snd (create_proposal (new_id (pd_proposal_key d)) now r d (status d) ps)) rows ds"

definition exact_status :: "proposal_draft \<Rightarrow> string" where
  "exact_status d =
     (if jget (pd_evidence d) ''safe_action'' = JBool True then ''PENDING'' else ''REVIEW_REQUIRED'')"

text \<open>The anchors and all their exact duplicates, each memory once.\<close>

definition expanded_anchors :: "memory_index list \<Rightarrow> memory_index list \<Rightarrow> memory_index list res" where
  "expanded_anchors anchors rows =
     rbind (rmap (\<lambda>a. rbind (list_exact_group_peers a 100 rows) (\<lambda>peers. Inr (a # peers))) anchors)
       (\<lambda>families. Inr (map snd (foldl (\<lambda>d m. dset (mi_mem0_memory_id m) m d) [] (concat families))))"

text \<open>The identifiers of new proposals are drawn anew in each part of the scan.\<close>

record scan_plan =
  sp_policy :: policy_spec
  sp_anchor_ids :: "string list"
  sp_remaining :: int
  sp_held :: "memory_index list"
  sp_headers :: "memory_snapshot list"

text \<open>The first part: duplicates and retention, and what is left for the semantic search.\<close>

definition scan_exact ::
    "(string \<Rightarrow> string) \<Rightarrow> (string \<Rightarrow> string) \<Rightarrow> time \<Rightarrow> time \<Rightarrow> consolidation_run \<Rightarrow> consolidation_policy \<Rightarrow>
     cons_db \<Rightarrow> (scan_plan \<times> cons_db) res" where
  "scan_exact sha256 new_id stamp cutoff r row db =
     rbind (policy_of_row row) (\<lambda>policy.
     rbind (list_dirty_anchors (run_project_id r) (run_app_id r) None None (pol_max_anchors_per_run policy)
        (cd_memories db)) (\<lambda>anchors.
     rbind (expanded_anchors anchors (cd_memories db)) (\<lambda>expanded.
     rbind (analyze_scope sha256 (run_project_id r) (run_app_id r) policy expanded cutoff) (\<lambda>drafts.
     let remaining = max (pol_max_proposals_per_run policy - int (length drafts)) 0;
         covered = concat (map pd_source_ids drafts);
         headers = (if remaining \<noteq> 0 \<and> anchors \<noteq> []
            then map snapshot_header (filter (\<lambda>a. mi_mem0_memory_id a \<notin> set covered) anchors) else [])
     in Inr (\<lparr>sp_policy = policy, sp_anchor_ids = map mi_mem0_memory_id anchors, sp_remaining = remaining,
               sp_held = expanded, sp_headers = headers\<rparr>,
             db\<lparr>cd_proposals := save_drafts new_id stamp r exact_status drafts (cd_proposals db)\<rparr>)))))"

definition scan_complete ::
    "time \<Rightarrow> time \<Rightarrow> time \<Rightarrow> consolidation_run \<Rightarrow> string list \<Rightarrow> cons_db \<Rightarrow> (scan_result \<times> cons_db) res" where
  "scan_complete stamp cutoff finished r anchor_ids db =
     rbind (mark_run_succeeded (run_id r) (summary_for_run (run_id r) (cd_proposals db)) finished (cd_runs db))
       (\<lambda>(_, runs). Inr (\<lparr>scr_status = ''SUCCEEDED'',
            scr_proposal_count = count_proposals_for_run (run_id r) (cd_proposals db)\<rparr>,
          db\<lparr>cd_runs := runs, cd_memories := snd (mark_anchors_scanned stamp (run_project_id r) (run_app_id r)
            anchor_ids cutoff (cd_memories db))\<rparr>))"

text \<open>The second part, under the lock again after the search.\<close>

definition scan_semantic ::
    "(string \<Rightarrow> string) \<Rightarrow> time \<Rightarrow> time \<Rightarrow> time \<Rightarrow> string \<Rightarrow> string \<Rightarrow> scan_plan \<Rightarrow> proposal_draft list \<Rightarrow>
     cons_db \<Rightarrow> (scan_result \<times> cons_db) res" where
  "scan_semantic new_id stamp cutoff finished pid rid plan drafts db =
     rbind (lock_for_mutation pid (cd_projects db)) (\<lambda>_.
     rbind (get_run rid None None (cd_runs db)) (\<lambda>r.
       if run_status r \<noteq> ''RUNNING'' then conflict ''scan run is no longer active''
       else scan_complete stamp cutoff finished r (sp_anchor_ids plan)
         (db\<lparr>cd_proposals := save_drafts new_id stamp r (\<lambda>_. ''REVIEW_REQUIRED'')
            (take (nat (sp_remaining plan)) drafts) (cd_proposals db)\<rparr>)))"

definition fail_run ::
    "string \<Rightarrow> string \<Rightarrow> string \<Rightarrow> time \<Rightarrow> 'a res \<Rightarrow> cons_db \<Rightarrow> 'a res \<times> cons_db" where
  "fail_run rid error_code name finished result db =
     (case mark_run_failed rid error_code (JObj [(''error_type'', JStr name)]) finished (cd_runs db) of
        Inl e \<Rightarrow> (Inl e, db)
      | Inr (_, runs) \<Rightarrow> (result, db\<lparr>cd_runs := runs\<rparr>))"

text \<open>An exception rolls the transaction back, marks the run as failed and goes on.\<close>

definition or_fail_scan ::
    "string \<Rightarrow> time \<Rightarrow> cons_db \<Rightarrow> (scan_result \<times> cons_db) res \<Rightarrow> scan_result res \<times> cons_db" where
  "or_fail_scan rid finished db result =
     (case result of
        Inr (r, db') \<Rightarrow> (Inr r, db')
      | Inl e \<Rightarrow> fail_run rid ''SCAN_FAILED'' (error_type (exn_class e)) finished (Inl e) db)"

definition run_scan ::
    "(string \<Rightarrow> string) \<Rightarrow> scan_world \<Rightarrow> bool \<Rightarrow> (string \<Rightarrow> string) \<Rightarrow> (string \<Rightarrow> string) \<Rightarrow> time \<Rightarrow> time \<Rightarrow>
     string \<Rightarrow> cons_db \<Rightarrow> scan_result res \<times> cons_db" where
  "run_scan sha256 w snapshot_complete new_id new_id' cutoff finished rid db =
     (case get_run rid None None (cd_runs db) of
        Inl e \<Rightarrow> (Inl e, db)
      | Inr r \<Rightarrow>
          if run_status r = ''SUCCEEDED''
          then (Inr \<lparr>scr_status = ''SUCCEEDED'',
                  scr_proposal_count = count_proposals_for_run rid (cd_proposals db)\<rparr>, db)
          else (case mark_run_running rid cutoff (cd_runs db) of
            Inl e \<Rightarrow> (Inl e, db)
          | Inr (r1, runs) \<Rightarrow>
              let db1 = db\<lparr>cd_runs := runs\<rparr>;
                  failed = Inr \<lparr>scr_status = ''FAILED'', scr_proposal_count = 0\<rparr>
              in if \<not> snapshot_complete
                 then fail_run rid ''INCOMPLETE_SOURCE'' ''IncompleteSourceSnapshot'' finished failed db1
                 else (case get_policy (run_project_id r) (run_app_id r) (cd_policies db1) of
                   None \<Rightarrow> fail_run rid ''POLICY_NOT_FOUND'' ''PolicyNotFound'' finished failed db1
                 | Some row \<Rightarrow>
                     (case scan_exact sha256 new_id cutoff cutoff r1 row db1 of
                        Inl e \<Rightarrow> or_fail_scan rid finished db (Inl e)
                      | Inr (plan, db2) \<Rightarrow>
                          if sp_headers plan = []
                          then or_fail_scan rid finished db
                            (scan_complete cutoff cutoff finished r1 (sp_anchor_ids plan) db2)
                          else let db3 = (if scn_client w then scn_others w db2 else db2);
                              db4 = (if scn_client w then scn_others_later w db3 else db3)
                            in or_fail_scan rid finished db4
                              (rbind (if scn_client w
                                 then semantic_drafts sha256 (sp_policy plan) (scn_get w) (scn_search w)
                                   (scn_get_later w) (sp_held plan) (cd_memories db3) (sp_headers plan)
                                 else Inr [])
                               (\<lambda>drafts. scan_semantic new_id' finished cutoff finished (run_project_id r) rid
                                  plan drafts db4))))))"

section \<open>Backfilling scope markers\<close>

datatype marker_state = Unresolved string | Already_scoped | Unscoped "json dict"

definition marker_state_of :: "string \<Rightarrow> string \<Rightarrow> string \<Rightarrow> upstream \<Rightarrow> marker_state res" where
  "marker_state_of pid app mid reply =
     (case reply of
        Refused status unknown \<Rightarrow> if status = Some 404 then Inr (Unresolved ''MISSING'') else upstream_error
      | Reply (JObj d) \<Rightarrow>
          if mid \<notin> set (extract_memory_ids d) then Inr (Unresolved ''CONFLICT'')
          else
            let metadata = (case jget d ''metadata'' of JObj m \<Rightarrow> m | _ \<Rightarrow> []);
                other = (\<lambda>marker v. case dget metadata marker of None \<Rightarrow> False | Some x \<Rightarrow> x \<noteq> JStr v)
            in Inr (if other PROJECT_MARKER pid \<or> other APP_MARKER app then Unresolved ''CONFLICT''
                 else if dget metadata PROJECT_MARKER = Some (JStr pid) \<and> dget metadata APP_MARKER = Some (JStr app)
                 then Already_scoped else Unscoped metadata)
      | Reply _ \<Rightarrow> Inr (Unresolved ''CONFLICT''))"

record backfill_counts =
  bf_backfilled :: nat
  bf_already_scoped :: nat
  bf_conflict :: nat
  bf_missing :: nat

text \<open>\<open>update\<close> is \<open>MemoryService.update_memory\<close> with the metadata of the memory as it is.\<close>

fun backfill_loop ::
    "(string \<Rightarrow> upstream) \<Rightarrow> (string \<Rightarrow> json dict \<Rightarrow> memory_index list \<Rightarrow> unit res \<times> memory_index list) \<Rightarrow>
     string \<Rightarrow> string \<Rightarrow> time \<Rightarrow> string list \<Rightarrow> backfill_counts \<Rightarrow> memory_index list \<Rightarrow>
     backfill_counts res \<times> memory_index list" where
  "backfill_loop get upd pid app attempted [] counts rows = (Inr counts, rows)"
| "backfill_loop get upd pid app attempted (mid # rest) counts rows =
     (case marker_state_of pid app mid (get mid) of
        Inl e \<Rightarrow> (Inl e, rows)
      | Inr (Unresolved status) \<Rightarrow>
          (case mark_scope_marker_backfill_outcome attempted pid app mid status attempted rows of
             Inl e \<Rightarrow> (Inl e, rows)
           | Inr (_, rows') \<Rightarrow> backfill_loop get upd pid app attempted rest
               (if status = ''MISSING'' then counts\<lparr>bf_missing := bf_missing counts + 1\<rparr>
                else counts\<lparr>bf_conflict := bf_conflict counts + 1\<rparr>) rows')
      | Inr Already_scoped \<Rightarrow> backfill_loop get upd pid app attempted rest
          (counts\<lparr>bf_already_scoped := bf_already_scoped counts + 1\<rparr>)
          (snd (mark_scope_markers_verified attempted pid app mid (Some attempted) rows))
      | Inr (Unscoped metadata) \<Rightarrow>
          (case upd mid metadata rows of
             (Inl e, rows') \<Rightarrow> (Inl e, rows')
           | (Inr _, rows') \<Rightarrow> backfill_loop get upd pid app attempted rest
               (counts\<lparr>bf_backfilled := bf_backfilled counts + 1\<rparr>) rows'))"

record backfill_report =
  bfr_scanned :: nat
  bfr_counts :: backfill_counts
  bfr_remaining :: nat
  bfr_unresolved :: "(string \<times> nat) list"

definition backfill_scope_markers ::
    "(string \<Rightarrow> upstream) \<Rightarrow> (string \<Rightarrow> json dict \<Rightarrow> memory_index list \<Rightarrow> unit res \<times> memory_index list) \<Rightarrow>
     bool \<Rightarrow> bool \<Rightarrow> bool \<Rightarrow> time \<Rightarrow> string \<Rightarrow> string \<Rightarrow> int \<Rightarrow> memory_index list \<Rightarrow>
     backfill_report res \<times> memory_index list" where
  "backfill_scope_markers get upd client bridge_ready writes_paused now pid app limit rows =
     (if \<not> client then (conflict ''Mem0 client is unavailable'', rows)
      else if \<not> bridge_ready then (conflict ''bridge routing is not verified'', rows)
      else if \<not> writes_paused then (conflict ''scope marker backfill requires a confirmed write pause'', rows)
      else case list_scope_marker_backfill_candidates pid app (now - 3600 * SECOND) limit rows of
        Inl e \<Rightarrow> (Inl e, rows)
      | Inr found \<Rightarrow>
          (case backfill_loop get upd pid app now (map mi_mem0_memory_id found)
               \<lparr>bf_backfilled = 0, bf_already_scoped = 0, bf_conflict = 0, bf_missing = 0\<rparr> rows of
             (Inl e, rows') \<Rightarrow> (Inl e, rows')
           | (Inr counts, rows') \<Rightarrow>
               (Inr \<lparr>bfr_scanned = length found, bfr_counts = counts,
                  bfr_remaining = count_scope_marker_backfill_required pid app rows',
                  bfr_unresolved = scope_marker_backfill_counts pid app rows'\<rparr>, rows')))"

section \<open>Scheduling\<close>

text \<open>\<open>text_of_int\<close> of a window is its decimal text; ids are given per policy row.\<close>

definition scan_window :: "time \<Rightarrow> policy_spec \<Rightarrow> int" where
  "scan_window now spec = (now div SECOND) div pol_scan_interval_seconds spec"

definition within_interval :: "time \<Rightarrow> policy_spec \<Rightarrow> time \<Rightarrow> bool" where
  "within_interval now spec t = (t > now - pol_scan_interval_seconds spec * SECOND)"

text \<open>Whether a scope is due, as far as its memories and its runs go.\<close>

definition scope_due :: "time \<Rightarrow> consolidation_policy \<Rightarrow> policy_spec \<Rightarrow> cons_db \<Rightarrow> bool res" where
  "scope_due now row spec db =
     (let pid = cpol_project_id row; app = cpol_app_id row in
      if active_run pid app (cd_runs db) \<noteq> None then Inr False
      else rbind (list_dirty_anchors pid app None None (pol_min_new_memories spec) (cd_memories db)) (\<lambda>dirty.
        let interval_due = (case last_succeeded pid app (cd_runs db) of
              None \<Rightarrow> False
            | Some r \<Rightarrow> (case run_completed_at r of None \<Rightarrow> False | Some t \<Rightarrow> \<not> within_interval now spec t))
        in Inr (\<not> (int (length dirty) < pol_min_new_memories spec \<and> \<not> interval_due))))"

definition bridge_blocked ::
    "(string \<Rightarrow> datetime option) \<Rightarrow> bool \<Rightarrow> time \<Rightarrow> consolidation_policy \<Rightarrow> policy_spec \<Rightarrow> cons_db \<Rightarrow> bool res" where
  "bridge_blocked fromiso required now row spec db =
     (if pol_mode spec \<noteq> ''AUTO_SAFE'' \<or> \<not> required then Inr False
      else rbind (bridge_routing_ready fromiso (cpol_project_id row) now (cd_projects db)) (\<lambda>ready. Inr (\<not> ready)))"

definition schedule_scope ::
    "(string \<Rightarrow> datetime option) \<Rightarrow> bool \<Rightarrow> (consolidation_policy \<Rightarrow> string) \<Rightarrow> time \<Rightarrow>
     nat \<times> cons_db \<Rightarrow> consolidation_policy \<Rightarrow> (nat \<times> cons_db) res" where
  "schedule_scope fromiso required new_id now st row =
     (let (n, db) = st; pid = cpol_project_id row; app = cpol_app_id row in
      rbind (policy_of_row row) (\<lambda>spec.
      rbind (scope_due now row spec db) (\<lambda>due.
      if \<not> due then Inr st
      else
        let dedupe_key = app @ '':'' @ int_str (scan_window now spec)
        in rbind (lock_for_mutation pid (cd_projects db)) (\<lambda>_.
           if find_by_dedupe pid ''consolidation.scan'' dedupe_key (cd_jobs db) \<noteq> None then Inr st
           else rbind (bridge_blocked fromiso required now row spec db) (\<lambda>blocked.
             let (r, runs) = create_run (new_id row) now row (cd_runs db) in
             if blocked
             then (if (case last_run pid app (cd_runs db) of
                    None \<Rightarrow> False
                  | Some p \<Rightarrow> run_error_code p = Some ''BRIDGE_ROUTING_REQUIRED''
                      \<and> (case run_completed_at p of None \<Rightarrow> False | Some t \<Rightarrow> within_interval now spec t))
               then Inr st
               else rbind (mark_run_failed (run_id r) ''BRIDGE_ROUTING_REQUIRED''
                   (JObj [(''error_type'', JStr ''BridgeRoutingRequired'')]) now runs) (\<lambda>(_, runs').
                 Inr (n, db\<lparr>cd_runs := runs'\<rparr>)))
             else rbind (enqueue (new_id row) now pid None ''consolidation.scan''
                   (JObj [(''app_id'', JStr app), (''run_id'', JStr (run_id r))]) None 3 (Some dedupe_key)
                   (cd_jobs db)) (\<lambda>(_, jobs).
                 Inr (n + 1, db\<lparr>cd_runs := runs, cd_jobs := jobs\<rparr>)))))))"

text \<open>One transaction: an error for one scope undoes the scheduling of all of them.\<close>

definition enqueue_due_scopes ::
    "(string \<Rightarrow> datetime option) \<Rightarrow> bool \<Rightarrow> (consolidation_policy \<Rightarrow> string) \<Rightarrow> time \<Rightarrow> cons_db \<Rightarrow>
     (nat \<times> cons_db) res" where
  "enqueue_due_scopes fromiso required new_id now db =
     fold_res (schedule_scope fromiso required new_id now) (0, db) (list_enabled_policies (cd_policies db))"

section \<open>Job handlers\<close>

definition job_field :: "json dict \<Rightarrow> string \<Rightarrow> string \<Rightarrow> string res" where
  "job_field payload key message =
     (case jget payload key of JStr (c # cs) \<Rightarrow> Inr (c # cs) | _ \<Rightarrow> value_error message)"

definition handler_bridge_ready ::
    "(string \<Rightarrow> datetime option) \<Rightarrow> bool \<Rightarrow> time \<Rightarrow> string \<Rightarrow> cons_db \<Rightarrow> bool res" where
  "handler_bridge_ready fromiso required now pid db =
     (if \<not> required then Inr True else bridge_routing_ready fromiso pid now (cd_projects db))"

text \<open>
  An automatic approval never asks for a replacement memory, so it adds none.  The listed row is
  an object of the session, so its state is that of the stored row.
\<close>

definition adds_nothing :: "json dict \<Rightarrow> cons_db \<Rightarrow> json dict res \<times> cons_db" where
  "adds_nothing payload db = (Inr [], db)"

definition auto_approve ::
    "(string \<Rightarrow> string) \<Rightarrow> bool \<Rightarrow> (string \<Rightarrow> string) \<Rightarrow> time \<Rightarrow> cons_db \<Rightarrow> consolidation_proposal \<Rightarrow> cons_db res" where
  "auto_approve sha256 bridge_ready new_id now db listed =
     rbind (get_proposal (prop_id listed) (cd_proposals db)) (\<lambda>p.
     rbind (proposal_source_ids p) (\<lambda>ids.
       let sources = list_memories_by_ids (prop_project_id p) (Some (prop_app_id p)) ids False False (cd_memories db);
           hashes = List.map_filter (\<lambda>m. map_option (\<lambda>h. (mi_mem0_memory_id m, JStr h)) (mi_content_hash m)) sources
       in if set (dkeys hashes) \<noteq> set ids then Inr (put_proposal (set_status now ''STALE'' p) db)
       else (case approve_proposal sha256 bridge_ready adds_nothing False now (prop_id p) ''PENDING'' hashes None None db of
          (Inl e, _) \<Rightarrow> Inl e
        | (Inr r, db') \<Rightarrow>
            if oc_status r \<noteq> ''APPROVED'' then Inr db'
            else rbind (enqueue (new_id (prop_id p)) now (prop_project_id p) None ''consolidation.shadow''
                (JObj [(''app_id'', JStr (prop_app_id p)), (''proposal_id'', JStr (prop_id p))]) None 3
                (Some (''shadow:'' @ prop_id p)) (cd_jobs db')) (\<lambda>(_, jobs). Inr (db'\<lparr>cd_jobs := jobs\<rparr>)))))"

definition handle_scan ::
    "(string \<Rightarrow> string) \<Rightarrow> (string \<Rightarrow> datetime option) \<Rightarrow> bool \<Rightarrow> scan_world \<Rightarrow> (string \<Rightarrow> string) \<Rightarrow>
     (string \<Rightarrow> string) \<Rightarrow> time \<Rightarrow> time \<Rightarrow> json dict \<Rightarrow> cons_db \<Rightarrow> scan_result res \<times> cons_db" where
  "handle_scan sha256 fromiso required w new_id new_id' now finished payload db =
     (case rbind (job_field payload ''run_id'' ''consolidation scan job has no run_id'') (\<lambda>rid.
           rbind (get_run rid None None (cd_runs db)) (\<lambda>r.
           rbind (handler_bridge_ready fromiso required now (run_project_id r) db) (\<lambda>ready. Inr (rid, ready)))) of
        Inl e \<Rightarrow> (Inl e, db)
      | Inr (rid, ready) \<Rightarrow>
          (case run_scan sha256 w True new_id new_id' now finished rid db of
             (Inl e, db1) \<Rightarrow> (Inl e, db1)
           | (Inr result, db1) \<Rightarrow>
               (case get_run rid None None (cd_runs db1) of
                  Inl e \<Rightarrow> (Inl e, db1)
                | Inr r \<Rightarrow>
                    if run_mode r \<noteq> ''AUTO_SAFE'' \<or> \<not> ready then (Inr result, db1)
                    else (case fold_res (auto_approve sha256 ready new_id finished) db1
                        (list_actionable_for_run rid (cd_proposals db1)) of
                       Inl e \<Rightarrow> (Inl e, db1)
                     | Inr db2 \<Rightarrow> (Inr result, db2)))))"

definition handle_shadow ::
    "(string \<Rightarrow> string) \<Rightarrow> (string \<Rightarrow> datetime option) \<Rightarrow> bool \<Rightarrow> bool \<Rightarrow> shadow_world \<Rightarrow> string \<Rightarrow> string \<Rightarrow> time \<Rightarrow> int \<Rightarrow>
     time \<Rightarrow> json dict \<Rightarrow> cons_db \<Rightarrow> outcome_row res \<times> cons_db" where
  "handle_shadow sha256 fromiso required hard_delete w new_id attempt now lease_seconds later payload db =
     (case rbind (job_field payload ''proposal_id'' ''consolidation shadow job has no proposal_id'') (\<lambda>i.
           rbind (get_proposal i (cd_proposals db)) (\<lambda>p.
           rbind (handler_bridge_ready fromiso required now (prop_project_id p) db) (\<lambda>ready. Inr (i, ready)))) of
        Inl e \<Rightarrow> (Inl e, db)
      | Inr (i, ready) \<Rightarrow>
          (case shadow_approved sha256 w ready attempt now lease_seconds later i db of
             (Inl e, db1) \<Rightarrow> (Inl e, db1)
           | (Inr result, db1) \<Rightarrow>
               (case rbind (get_proposal i (cd_proposals db1)) (\<lambda>p.
                     rbind (get_run (prop_run_id p) None None (cd_runs db1)) (\<lambda>r.
                     if oc_status result = ''SHADOWED'' \<and> run_mode r = ''AUTO_SAFE'' \<and> hard_delete
                       \<and> prop_not_before p \<noteq> None
                     then rbind (enqueue new_id later (prop_project_id p) None ''consolidation.finalize''
                         (JObj [(''app_id'', JStr (prop_app_id p)), (''proposal_id'', JStr (prop_id p))])
                         (prop_not_before p) 3 (Some (''finalize:'' @ prop_id p)) (cd_jobs db1))
                       (\<lambda>(_, jobs). Inr (db1\<lparr>cd_jobs := jobs\<rparr>))
                     else Inr db1)) of
                  Inl e \<Rightarrow> (Inl e, db1)
                | Inr db2 \<Rightarrow> (Inr result, db2))))"

definition handle_finalize ::
    "(string \<Rightarrow> string) \<Rightarrow> (string \<Rightarrow> datetime option) \<Rightarrow> bool \<Rightarrow> bool \<Rightarrow> (string \<Rightarrow> delete_world) \<Rightarrow>
     (string \<Rightarrow> string) \<Rightarrow> time \<Rightarrow> time \<Rightarrow> json dict \<Rightarrow> cons_db \<Rightarrow> outcome_row res \<times> cons_db" where
  "handle_finalize sha256 fromiso required hard_delete w new_id stamp now payload db =
     (case rbind (job_field payload ''proposal_id'' ''consolidation finalize job has no proposal_id'') (\<lambda>i.
           rbind (get_proposal i (cd_proposals db)) (\<lambda>p.
           rbind (handler_bridge_ready fromiso required now (prop_project_id p) db) (\<lambda>ready. Inr (i, ready)))) of
        Inl e \<Rightarrow> (Inl e, db)
      | Inr (i, ready) \<Rightarrow> finalize_shadowed sha256 new_id ready hard_delete w stamp now i db)"

section \<open>What the semantic search proposes\<close>

lemma map_filter_Inr: "y \<in> set (List.map_filter f xs) \<longleftrightarrow> (\<exists>x \<in> set xs. f x = Some y)"
  by (force simp: List.map_filter_def image_iff)

text \<open>The upstream still has, unpinned, the content the index shows.\<close>

definition upstream_current :: "(string \<Rightarrow> string) \<Rightarrow> (string \<Rightarrow> upstream) \<Rightarrow> memory_snapshot \<Rightarrow> bool" where
  "upstream_current sha256 get h =
     (case get (snap_memory_id h) of
        Reply (JObj d) \<Rightarrow> snap_memory_id h \<in> set (extract_memory_ids d) \<and> \<not> record_is_pinned d
          \<and> map_option fst (memory_content_fingerprint sha256 d) = Some (snap_content_hash h)
          \<and> record_text d = Some (snap_text h)
      | _ \<Rightarrow> False)"

lemma hydrate_Some:
  assumes "hydrate sha256 get h = Inr (Some s)"
  shows "upstream_current sha256 get s \<and> snap_memory_id s = snap_memory_id h
    \<and> snap_content_hash s = snap_content_hash h \<and> snap_project_id s = snap_project_id h
    \<and> snap_app_id s = snap_app_id h \<and> snap_user_id s = snap_user_id h \<and> snap_agent_id s = snap_agent_id h
    \<and> snap_normalized_type s = snap_normalized_type h"
  using assms
  by (auto simp: hydrate_def upstream_error_def upstream_current_def
      split: upstream.splits json.splits if_splits option.splits prod.splits)

lemma neighbors_fst: "neighbors search policy a = Inr (b, items) \<Longrightarrow> b = a"
  by (auto simp: neighbors_def upstream_error_def split: upstream.splits json.splits)

definition ref_ok :: "pyfloat \<Rightarrow> memory_snapshot set \<Rightarrow> candidate \<Rightarrow> bool" where
  "ref_ok threshold anchors r =
     (case r of (pair, a, i, score) \<Rightarrow> a \<in> anchors \<and> i \<noteq> snap_memory_id a \<and> isfinite score \<and> \<not> float_lt score threshold
        \<and> pair = (min (snap_memory_id a) i, max (snap_memory_id a) i))"

lemma add_candidate_ok:
  assumes "add_candidate threshold a refs item = Inr refs'" "a \<in> A"
    and "\<forall>r \<in> set refs. ref_ok threshold A r" "distinct (map fst refs)"
  shows "(\<forall>r \<in> set refs'. ref_ok threshold A r) \<and> distinct (map fst refs')"
  using assms
  by (auto simp: add_candidate_def ref_ok_def Let_def split: list.splits if_splits json.splits sum.splits)

lemma fold_res_inv:
  assumes "fold_res f s xs = Inr s'" "P s"
    and "\<And>x s s'. x \<in> set xs \<Longrightarrow> P s \<Longrightarrow> f s x = Inr s' \<Longrightarrow> P s'"
  shows "P s'"
  using assms
proof (induction xs arbitrary: s)
  case (Cons x xs)
  from Cons.prems(1) obtain s1 where "f s x = Inr s1" "fold_res f s1 xs = Inr s'" by (auto simp: res_simps)
  then show ?case using Cons by auto
qed simp

lemma candidate_refs_ok:
  assumes "candidate_refs threshold found = Inr refs" "r \<in> set refs"
  shows "ref_ok threshold (fst ` set found) r"
proof -
  obtain refs' where run: "fold_res (\<lambda>refs (a, items). fold_res (add_candidate threshold a) refs (take 10 items)) [] found
      = Inr refs'" and refs: "refs = sort_key fst refs'"
    using assms(1) by (auto simp: candidate_refs_def res_simps)
  let ?P = "\<lambda>refs. (\<forall>r \<in> set refs. ref_ok threshold (fst ` set found) r) \<and> distinct (map fst refs)"
  have "?P refs'"
  proof (rule fold_res_inv [where P = ?P, OF run])
    fix x refs1 refs2
    assume x: "x \<in> set found" and P: "?P refs1"
      and step: "(case x of (a, items) \<Rightarrow> fold_res (add_candidate threshold a) refs1 (take 10 items)) = Inr refs2"
    obtain a items where ai: "x = (a, items)" by (cases x)
    then have a: "a \<in> fst ` set found" using x by force
    have "fold_res (add_candidate threshold a) refs1 (take 10 items) = Inr refs2" using step ai by simp
    then show "?P refs2"
      by (rule fold_res_inv [where P = ?P]) (use P add_candidate_ok [OF _ a] in blast)+
  qed simp
  then show ?thesis using assms(2) refs by simp
qed

lemma candidate_headers_mem:
  assumes "dget (candidate_headers headers ids held rows) i = Some h"
  shows "\<exists>m \<in> set rows. h = snapshot_header (as_held held m) \<and> mi_mem0_memory_id (as_held held m) = i
    \<and> active m \<and> live m \<and> mi_pinned (as_held held m) = 0"
  using map_of_SomeD [OF assms]
  by (auto simp: candidate_headers_def set_list_memories_by_ids active_def split: list.splits)

lemma classify_shape:
  assumes "classify_neighbor sha256 a c score v = Some d"
  shows "same_neighborhood a c \<and> isfinite score \<and> pd_kind d \<in> {''CONTRADICTION'', ''NEAR_DUPLICATE''}
    \<and> pd_source_ids d = sort [snap_memory_id a, snap_memory_id c] \<and> pd_canonical_id d = None \<and> pd_score d = Some score"
  using assms by (auto simp: classify_neighbor_def Let_def split: if_splits option.splits)

text \<open>The other memory of a pair: hydrated under its header, unless it is an anchor itself.\<close>

lemma cached_candidate:
  assumes hyd: "rmap (hydrate sha256 get) headers = Inr hydrated"
    and more: "rmap (hydrate sha256 get_later) (missing_headers (candidate_headers headers ids held rows)
      (List.map_filter id hydrated) ids') = Inr extra"
    and head: "dget (candidate_headers headers ids held rows) i = Some head"
    and c: "snapshot_cache (List.map_filter id extra @ List.map_filter id hydrated) i = Some c"
  shows "snap_memory_id c = i
    \<and> (upstream_current sha256 get_later c \<and> snap_content_hash c = snap_content_hash head
       \<or> upstream_current sha256 get c \<and> (\<exists>h' \<in> set headers.
           snap_memory_id h' = snap_memory_id c \<and> snap_content_hash h' = snap_content_hash c))"
proof -
  have ci: "snap_memory_id c = i" and "c \<in> set (List.map_filter id extra) \<union> set (List.map_filter id hydrated)"
    using map_of_SomeD [OF c [unfolded snapshot_cache_def]] by auto
  then consider "Some c \<in> set extra" | "Some c \<in> set hydrated" by (auto simp: map_filter_Inr)
  then show ?thesis
  proof cases
    case 1
    then obtain g where g: "g \<in> set (missing_headers (candidate_headers headers ids held rows)
        (List.map_filter id hydrated) ids')" "hydrate sha256 get_later g = Inr (Some c)"
      using rmap_mem [OF more] by blast
    obtain j where j: "dget (candidate_headers headers ids held rows) j = Some g"
      using g(1) by (auto simp: missing_headers_def map_filter_Inr)
    have "snap_memory_id g = j" using candidate_headers_mem [OF j] by (auto simp: snapshot_header_def)
    then show ?thesis using hydrate_Some [OF g(2)] j head ci by auto
  next
    case 2
    then obtain g where "g \<in> set headers" "hydrate sha256 get g = Inr (Some c)" using rmap_mem [OF hyd] by blast
    then show ?thesis using hydrate_Some [of sha256 get g c] ci by auto
  qed
qed

text \<open>
  C26: every semantic proposal pairs an anchor of the scan with another memory that the index had as
  live and active when the candidates were looked up, and that the session of the scan saw (as it is
  then, or, for a row the scan had already analysed, as it was then) unpinned and of the anchor's
  project, application, user, agent and type with other content.  The two texts compared are ones
  the upstream has, unpinned: the anchor's under the fingerprint the scan read for it, the other
  memory's under the fingerprint the session saw for it, or, where it is an anchor itself, under
  that anchor's.  The score is a finite number not below the policy's threshold, and no canonical
  memory is chosen.
\<close>

theorem semantic_drafts_sound:
  assumes run: "semantic_drafts sha256 policy get search get_later held rows headers = Inr drafts"
    and d: "d \<in> set drafts"
  shows "\<exists>h \<in> set headers. \<exists>m \<in> set rows. \<exists>seen a c score. seen = as_held held m
    \<and> active m \<and> live m \<and> mi_pinned seen = 0 \<and> same_subject (snapshot_header seen) h
    \<and> snap_memory_id a = snap_memory_id h \<and> snap_content_hash a = snap_content_hash h
    \<and> upstream_current sha256 get a
    \<and> snap_memory_id c = mi_mem0_memory_id seen \<and> snap_memory_id c \<noteq> snap_memory_id a
    \<and> (upstream_current sha256 get_later c \<and> snap_content_hash c = or_default (mi_content_hash seen) []
       \<or> upstream_current sha256 get c \<and> (\<exists>h' \<in> set headers.
           snap_memory_id h' = snap_memory_id c \<and> snap_content_hash h' = snap_content_hash c))
    \<and> same_neighborhood a c \<and> isfinite score \<and> \<not> float_lt score (pol_near_duplicate_threshold policy)
    \<and> pd_kind d \<in> {''CONTRADICTION'', ''NEAR_DUPLICATE''} \<and> pd_canonical_id d = None \<and> pd_score d = Some score
    \<and> pd_source_ids d = sort [snap_memory_id h, mi_mem0_memory_id seen]"
proof -
  obtain hydrated found refs more ids ids' where hyd: "rmap (hydrate sha256 get) headers = Inr hydrated"
    and found: "rmap (neighbors search policy) (List.map_filter id hydrated) = Inr found"
    and refs: "candidate_refs (pol_near_duplicate_threshold policy) found = Inr refs"
    and more: "rmap (hydrate sha256 get_later) (missing_headers (candidate_headers headers ids held rows)
      (List.map_filter id hydrated) ids') = Inr more"
    and drafts: "drafts = ref_drafts sha256 (pol_policy_version policy) ids'
      (snapshot_cache (List.map_filter id more @ List.map_filter id hydrated))
      (valid_refs (candidate_headers headers ids held rows) refs)"
    using run unfolding semantic_drafts_def Let_def rbind_Inr_iff by blast
  obtain pair a i score c where r: "(pair, a, i, score) \<in> set (valid_refs (candidate_headers headers ids held rows) refs)"
    and c: "snapshot_cache (List.map_filter id more @ List.map_filter id hydrated) i = Some c"
    and cl: "classify_neighbor sha256 a c score (pol_policy_version policy) = Some d"
    using d unfolding drafts ref_drafts_def map_filter_Inr by (auto split: if_splits option.splits)
  have subj: "case dget (candidate_headers headers ids held rows) i of None \<Rightarrow> False | Some h \<Rightarrow> same_subject h a"
    and r: "(pair, a, i, score) \<in> set refs"
    using r by (simp_all add: valid_refs_def)
  have ok: "ref_ok (pol_near_duplicate_threshold policy) (fst ` set found) (pair, a, i, score)"
    by (rule candidate_refs_ok [OF refs r])
  then obtain items where "(a, items) \<in> set found" by (auto simp: ref_ok_def)
  then have "Some a \<in> set hydrated"
    using rmap_mem [OF found] neighbors_fst by (fastforce simp: map_filter_Inr)
  then obtain h where h: "h \<in> set headers" "hydrate sha256 get h = Inr (Some a)" using rmap_mem [OF hyd] by blast
  note anchor = hydrate_Some [OF h(2)]
  from subj obtain head where head: "dget (candidate_headers headers ids held rows) i = Some head"
    by (auto split: option.splits)
  from candidate_headers_mem [OF head] obtain m where m: "m \<in> set rows" "active m" "live m"
    and seen: "head = snapshot_header (as_held held m)" "mi_mem0_memory_id (as_held held m) = i"
      "mi_pinned (as_held held m) = 0" by blast
  have same: "same_subject (snapshot_header (as_held held m)) a" using subj head seen(1) by simp
  from cached_candidate [OF hyd more head c] seen(1) have ci: "snap_memory_id c = i"
    and origin: "upstream_current sha256 get_later c \<and> snap_content_hash c = or_default (mi_content_hash (as_held held m)) []
       \<or> upstream_current sha256 get c \<and> (\<exists>h' \<in> set headers.
           snap_memory_id h' = snap_memory_id c \<and> snap_content_hash h' = snap_content_hash c)"
    by (auto simp: snapshot_header_def)
  have "i \<noteq> snap_memory_id a" using ok by (simp add: ref_ok_def)
  moreover have "same_subject (snapshot_header (as_held held m)) h" using same anchor by (simp add: same_subject_def)
  ultimately have "active m \<and> live m \<and> mi_pinned (as_held held m) = 0
    \<and> same_subject (snapshot_header (as_held held m)) h
    \<and> snap_memory_id a = snap_memory_id h \<and> snap_content_hash a = snap_content_hash h
    \<and> upstream_current sha256 get a
    \<and> snap_memory_id c = mi_mem0_memory_id (as_held held m) \<and> snap_memory_id c \<noteq> snap_memory_id a
    \<and> same_neighborhood a c \<and> isfinite score \<and> \<not> float_lt score (pol_near_duplicate_threshold policy)
    \<and> pd_kind d \<in> {''CONTRADICTION'', ''NEAR_DUPLICATE''} \<and> pd_canonical_id d = None \<and> pd_score d = Some score
    \<and> pd_source_ids d = sort [snap_memory_id h, mi_mem0_memory_id (as_held held m)]"
    using m seen anchor ci ok classify_shape [OF cl] unfolding ref_ok_def prod.case by (intro conjI) simp_all
  then show ?thesis using h(1) m(1) origin by blast
qed

section \<open>A scan that comes too late\<close>

lemma get_run_mem: "get_run rid None None runs = Inr r \<Longrightarrow> r \<in> set runs \<and> run_id r = rid"
  by (auto simp: get_run_def find_Some_iff split: option.splits)

lemma get_run_row: "get_run rid None None runs = (case row_by run_id rid runs of Some r \<Rightarrow> Inr r | None \<Rightarrow> raise KeyError rid)"
  by (simp add: get_run_def row_by_def)

lemma write_run_get:
  assumes "get_run rid None None runs = Inr r" "run_id (f r) = rid"
  shows "\<exists>runs'. write_run rid f runs = Inr (f r, runs') \<and> get_run rid None None runs' = Inr (f r)"
proof -
  have "run_id (f r) \<in> run_id ` set runs" using get_run_mem [OF assms(1)] assms(2) by (metis image_eqI)
  from row_by_save_same [OF this] have "row_by run_id rid (save run_id (f r) runs) = Some (f r)"
    using assms(2) by simp
  then show ?thesis using assms by (simp add: write_run_def get_run_row)
qed

lemma fail_run_run:
  assumes "get_run rid None None (cd_runs db) = Inr r"
  shows "\<exists>db' r'. fail_run rid ecode name finished result db = (result, db')
    \<and> get_run rid None None (cd_runs db') = Inr r' \<and> run_status r' = ''FAILED''"
proof -
  obtain runs' where "mark_run_failed rid ecode (JObj [(''error_type'', JStr name)]) finished (cd_runs db)
      = Inr (r\<lparr>run_status := ''FAILED'', run_error_code := Some ecode,
        run_error_json := Some (JObj [(''error_type'', JStr name)]), run_completed_at := Some finished,
        run_updated_at := finished\<rparr>, runs')"
    "get_run rid None None runs' = Inr (r\<lparr>run_status := ''FAILED'', run_error_code := Some ecode,
        run_error_json := Some (JObj [(''error_type'', JStr name)]), run_completed_at := Some finished,
        run_updated_at := finished\<rparr>)"
    using write_run_get [OF assms, of "\<lambda>r. r\<lparr>run_status := ''FAILED'', run_error_code := Some ecode,
        run_error_json := Some (JObj [(''error_type'', JStr name)]), run_completed_at := Some finished,
        run_updated_at := finished\<rparr>"] get_run_mem [OF assms]
    unfolding mark_run_failed_def by auto
  then show ?thesis by (simp add: fail_run_def)
qed

text \<open>
  when another worker has completed the same run while a scan was searching, the late scan
  finds that its run is no longer active; the handler for errors then marks the run, which has
  succeeded, as failed.
\<close>

lemma late_scan_fails_succeeded_run:
  assumes start: "get_run rid None None (cd_runs db) = Inr r" "run_status r \<noteq> ''SUCCEEDED''"
    and running: "mark_run_running rid cutoff (cd_runs db) = Inr (r1, runs)"
    and policy: "get_policy (run_project_id r) (run_app_id r) (cd_policies db) = Some row"
    and first: "scan_exact sha256 new_id cutoff cutoff r1 row (db\<lparr>cd_runs := runs\<rparr>) = Inr (plan, db2)"
    and searching: "sp_headers plan \<noteq> []" "scn_client w"
    and late: "get_run rid None None (cd_runs (scn_others_later w (scn_others w db2))) = Inr r4"
      "run_status r4 = ''SUCCEEDED''"
  shows "\<exists>e db' r5. run_scan sha256 w True new_id new_id' cutoff finished rid db = (Inl e, db')
    \<and> get_run rid None None (cd_runs db') = Inr r5 \<and> run_status r5 = ''FAILED''"
proof -
  let ?db4 = "scn_others_later w (scn_others w db2)"
  let ?res = "rbind (if scn_client w
       then semantic_drafts sha256 (sp_policy plan) (scn_get w) (scn_search w) (scn_get_later w) (sp_held plan)
         (cd_memories (scn_others w db2)) (sp_headers plan)
       else Inr [])
     (\<lambda>drafts. scan_semantic new_id' finished cutoff finished (run_project_id r) rid plan drafts ?db4)"
  have "\<exists>e. scan_semantic new_id' finished cutoff finished (run_project_id r) rid plan drafts ?db4 = Inl e" for drafts
    using late by (cases "lock_for_mutation (run_project_id r) (cd_projects ?db4)") (simp_all add: scan_semantic_def)
  then obtain e where e: "?res = Inl e" unfolding rbind_Inl_iff by (metis sum.exhaust)
  have "run_scan sha256 w True new_id new_id' cutoff finished rid db = or_fail_scan rid finished ?db4 ?res"
    using start running policy first searching by (simp add: run_scan_def Let_def)
  also have "\<dots> = fail_run rid ''SCAN_FAILED'' (error_type (exn_class e)) finished (Inl e) ?db4"
    unfolding e by (simp add: or_fail_scan_def)
  finally show ?thesis using fail_run_run [OF late(1)] by metis
qed

section \<open>Scheduling\<close>

lemma find_None_append: "List.find P xs = None \<Longrightarrow> \<not> P x \<Longrightarrow> List.find P (xs @ [x]) = None"
  by (auto simp: find_None_iff)

lemma active_run_failed:
  assumes "active_run pid app runs = None" "mark_run_failed rid ecode err t runs = Inr (r, runs')"
  shows "active_run pid app runs' = None"
  using assms
  by (auto simp: active_run_def find_None_iff mark_run_failed_def write_run_def res_simps mem_save NONTERMINAL_def
      split: if_splits)

lemma schedule_scope_elsewhere:
  assumes run: "schedule_scope fromiso required new_id now (n, db) row = Inr (n', db')"
    and none: "active_run pid app (cd_runs db) = None"
    and other: "(cpol_project_id row, cpol_app_id row) \<noteq> (pid, app)"
  shows "active_run pid app (cd_runs db') = None"
proof -
  obtain r runs where cr: "create_run (new_id row) now row (cd_runs db) = (r, runs)" by fastforce
  have none': "active_run pid app runs = None"
    using cr none other by (auto simp: create_run_def Let_def active_run_def run_in_scope_def intro!: find_None_append)
  show ?thesis
    using run none none' active_run_failed [OF none']
    by (auto simp: schedule_scope_def Let_def res_simps cr split: if_splits)
qed

lemma fold_res_Inl:
  assumes "x \<in> set xs" "P s"
    and keep: "\<And>y s s'. y \<in> set xs \<Longrightarrow> y \<noteq> x \<Longrightarrow> P s \<Longrightarrow> f s y = Inr s' \<Longrightarrow> P s'"
    and fail: "\<And>s. P s \<Longrightarrow> \<exists>e. f s x = Inl e"
  shows "\<exists>e. fold_res f s xs = Inl e"
  using assms(1,2) keep
proof (induction xs arbitrary: s)
  case (Cons y ys)
  show ?case
  proof (cases "y = x")
    case True
    then show ?thesis using fail [OF Cons.prems(2)] by auto
  next
    case False
    note keep = Cons.prems(3)
    show ?thesis
    proof (cases "f s y")
      case (Inr s')
      have "\<exists>e. fold_res f s' ys = Inl e"
        using False Cons.prems(1) keep [OF _ False Cons.prems(2) Inr]
        by (intro Cons.IH) (auto intro: keep)
      then show ?thesis using Inr by simp
    qed simp
  qed
qed simp

text \<open>
  a policy may ask for up to 100000 new memories before a scan, but the scheduler asks the
  index for that many anchors at once, which the index refuses beyond 1000: one enabled policy with
  such a threshold and no scan under way makes every pass of the scheduler raise, so that no scope
  at all is scheduled.
\<close>

lemma oversized_threshold_stops_scheduling:
  assumes row: "row \<in> set (cd_policies db)" "cpol_enabled row = 1"
    and spec: "policy_of_row row = Inr spec" "pol_min_new_memories spec > 1000"
    and idle: "active_run (cpol_project_id row) (cpol_app_id row) (cd_runs db) = None"
    and scopes: "inj_on (\<lambda>p. (cpol_project_id p, cpol_app_id p)) (set (cd_policies db))"
  shows "\<exists>e. enqueue_due_scopes fromiso required new_id now db = Inl e"
proof -
  let ?P = "\<lambda>(n :: nat, d). active_run (cpol_project_id row) (cpol_app_id row) (cd_runs d) = None"
  show ?thesis
    unfolding enqueue_due_scopes_def
  proof (rule fold_res_Inl [where P = ?P and x = row])
    show "row \<in> set (list_enabled_policies (cd_policies db))" using row by (simp add: list_enabled_policies_def)
    show "?P (0, db)" using idle by simp
  next
    fix y s s'
    assume y: "y \<in> set (list_enabled_policies (cd_policies db))" "y \<noteq> row" and P: "?P s"
      and step: "schedule_scope fromiso required new_id now s y = Inr s'"
    have "y \<in> set (cd_policies db)" using y by (simp add: list_enabled_policies_def)
    then have "(cpol_project_id y, cpol_app_id y) \<noteq> (cpol_project_id row, cpol_app_id row)"
      using scopes y(2) row(1) unfolding inj_on_def by blast
    then show "?P s'"
      using P step schedule_scope_elsewhere by (cases s; cases s') auto
  next
    fix s :: "nat \<times> cons_db"
    assume "?P s"
    then show "\<exists>e. schedule_scope fromiso required new_id now s row = Inl e"
      using spec by (cases s) (simp add: schedule_scope_def scope_due_def list_dirty_anchors_def Let_def)
  qed
qed

section \<open>Scheduler and handlers as sequences of steps\<close>

lemma elsewhere_steps:
  "cons_steps db db' \<Longrightarrow> cd_memories db'' = cd_memories db' \<Longrightarrow> cd_proposals db'' = cd_proposals db' \<Longrightarrow>
   cons_steps db db''"
  by (rule steps_step [OF _ cons_step.elsewhere])

lemma save_drafts_Cons:
  "save_drafts new_id now r status (d # ds) rows =
   save_drafts new_id now r status ds (snd (create_proposal (new_id (pd_proposal_key d)) now r d (status d) rows))"
  by (simp add: save_drafts_def)

text \<open>The proposals of a run that carry its identifiers carry them for their key.\<close>

definition drawn_ids :: "(string \<Rightarrow> string) \<Rightarrow> consolidation_run \<Rightarrow> consolidation_proposal list \<Rightarrow> bool" where
  "drawn_ids new_id r rows =
     (\<forall>p \<in> set rows. prop_id p \<in> range new_id \<longrightarrow>
        prop_run_id p = run_id r \<and> new_id (prop_proposal_key p) = prop_id p)"

lemma created_drawn:
  assumes "drawn_ids new_id r rows"
  shows "drawn_ids new_id r (snd (create_proposal (new_id (pd_proposal_key d)) now r d st rows))"
  using assms by (auto simp: drawn_ids_def create_proposal_def Let_def split: option.splits)

lemma created_fresh:
  assumes "drawn_ids new_id r rows" "inj new_id"
    and "List.find (\<lambda>p. prop_run_id p = run_id r \<and> prop_proposal_key p = k) rows = None"
  shows "new_id k \<notin> prop_id ` set rows"
proof
  assume "new_id k \<in> prop_id ` set rows"
  then obtain p where p: "p \<in> set rows" "prop_id p = new_id k" by auto
  then have "prop_run_id p = run_id r" "new_id (prop_proposal_key p) = new_id k"
    using assms(1) unfolding drawn_ids_def by auto
  then show False using assms(2,3) p(1) by (auto simp: find_None_iff inj_eq)
qed

lemma save_drafts_steps:
  assumes "inj new_id" "drawn_ids new_id r (cd_proposals db)"
  shows "cons_steps db (db\<lparr>cd_proposals := save_drafts new_id now r status ds (cd_proposals db)\<rparr>)"
  using assms(2)
proof (induction ds arbitrary: db)
  case Nil
  then show ?case by (simp add: save_drafts_def)
next
  case (Cons d ds)
  let ?rows = "snd (create_proposal (new_id (pd_proposal_key d)) now r d (status d) (cd_proposals db))"
  have "cons_steps db (db\<lparr>cd_proposals := ?rows\<rparr>)"
  proof (cases "List.find (\<lambda>p. prop_run_id p = run_id r \<and> prop_proposal_key p = pd_proposal_key d) (cd_proposals db)")
    case None
    have "cons_step db (db\<lparr>cd_proposals := ?rows\<rparr>)"
      by (rule cons_step.proposed [OF created_fresh [OF Cons.prems assms(1) None]]) (rule surjective_pairing)
    then show ?thesis by simp
  qed (simp add: create_proposal_def)
  moreover have "cons_steps (db\<lparr>cd_proposals := ?rows\<rparr>)
      (db\<lparr>cd_proposals := save_drafts new_id now r status ds ?rows\<rparr>)"
    using Cons.IH [of "db\<lparr>cd_proposals := ?rows\<rparr>"] created_drawn [OF Cons.prems] by simp
  ultimately show ?case unfolding save_drafts_Cons by (rule rtranclp_trans)
qed

lemma subset_Un_trans: "A \<subseteq> B \<union> R \<Longrightarrow> C \<subseteq> A \<union> R \<Longrightarrow> C \<subseteq> B \<union> R"
  by blast

lemma save_drafts_ids: "prop_id ` set (save_drafts new_id now r status ds rows) \<subseteq> prop_id ` set rows \<union> range new_id"
proof (induction ds arbitrary: rows)
  case Nil
  then show ?case by (simp add: save_drafts_def)
next
  case (Cons d ds)
  have step: "prop_id ` set (snd (create_proposal (new_id (pd_proposal_key d)) now r d (status d) rows))
      \<subseteq> prop_id ` set rows \<union> range new_id"
    by (auto simp: create_proposal_def Let_def split: option.splits)
  show ?case unfolding save_drafts_Cons by (rule subset_Un_trans [OF step Cons.IH])
qed

lemma fresh_drawn: "prop_id ` set rows \<inter> range new_id = {} \<Longrightarrow> drawn_ids new_id r rows"
  by (auto simp: drawn_ids_def)

lemma scanned_steps:
  "cons_steps db d \<Longrightarrow> cons_steps db (d\<lparr>cd_memories := snd (mark_anchors_scanned now pid app ids t (cd_memories d))\<rparr>)"
  by (erule steps_step) (rule cons_step.indexed, rule index_step.scanned, rule surjective_pairing)

lemma scan_complete_steps:
  assumes "scan_complete stamp cutoff finished r ids d = Inr (res, d')" "cons_steps db d"
  shows "cons_steps db d'"
proof -
  have "cd_proposals d' = cd_proposals d" "cd_memories d' =
      snd (mark_anchors_scanned stamp (run_project_id r) (run_app_id r) ids cutoff (cd_memories d))"
    using assms(1) by (auto simp: scan_complete_def res_simps)
  then show ?thesis using elsewhere_steps [OF scanned_steps [OF assms(2)]] by simp
qed

lemma fail_run_steps: "cons_steps db d \<Longrightarrow> cons_steps db (snd (fail_run rid ecode name t res d))"
  by (auto simp: fail_run_def intro: elsewhere_steps split: sum.splits prod.splits)

lemma or_fail_scan_steps:
  "cons_steps db d \<Longrightarrow> (\<And>r d'. res = Inr (r, d') \<Longrightarrow> cons_steps db d') \<Longrightarrow>
   cons_steps db (snd (or_fail_scan rid t d res))"
  by (auto simp: or_fail_scan_def fail_run_steps split: sum.splits prod.splits)

text \<open>
  The identifiers a scan draws are its own: no proposal has one yet, and the transactions of others
  take none of those for the second part.
\<close>

definition own_ids :: "(string \<Rightarrow> string) \<Rightarrow> (string \<Rightarrow> string) \<Rightarrow> cons_db \<Rightarrow> bool" where
  "own_ids new_id new_id' db =
     (inj new_id \<and> inj new_id' \<and> range new_id \<inter> range new_id' = {}
      \<and> prop_id ` set (cd_proposals db) \<inter> (range new_id \<union> range new_id') = {})"

definition leaves_ids :: "(string \<Rightarrow> string) \<Rightarrow> (cons_db \<Rightarrow> cons_db) \<Rightarrow> bool" where
  "leaves_ids new_id others =
     (\<forall>d. prop_id ` set (cd_proposals d) \<inter> range new_id = {} \<longrightarrow>
        prop_id ` set (cd_proposals (others d)) \<inter> range new_id = {})"

lemma scan_exact_steps:
  assumes "scan_exact sha256 new_id stamp cutoff r row db = Inr (plan, db2)"
    and "inj new_id" "prop_id ` set (cd_proposals db) \<inter> range new_id = {}"
  shows "cons_steps db db2 \<and> prop_id ` set (cd_proposals db2) \<subseteq> prop_id ` set (cd_proposals db) \<union> range new_id"
proof -
  obtain ds where "db2 = db\<lparr>cd_proposals := save_drafts new_id stamp r exact_status ds (cd_proposals db)\<rparr>"
    using assms(1) unfolding scan_exact_def Let_def rbind_Inr_iff by auto
  then show ?thesis using save_drafts_steps [OF assms(2) fresh_drawn [OF assms(3)]] save_drafts_ids by auto
qed

lemma scan_semantic_steps:
  assumes "scan_semantic new_id stamp cutoff finished pid rid plan drafts d = Inr (res, d')"
    and "inj new_id" "prop_id ` set (cd_proposals d) \<inter> range new_id = {}"
  shows "cons_steps d d'"
  using assms(1) scan_complete_steps save_drafts_steps [OF assms(2) fresh_drawn [OF assms(3)]]
  by (auto simp: scan_semantic_def res_simps split: if_splits)

lemma run_scan_steps:
  assumes ids: "own_ids new_id new_id' db" "leaves_ids new_id' (scn_others w)" "leaves_ids new_id' (scn_others_later w)"
    and others: "\<And>d. cons_steps d (scn_others w d)" "\<And>d. cons_steps d (scn_others_later w d)"
  shows "cons_steps db (snd (run_scan sha256 w whole new_id new_id' cutoff finished rid db))"
proof (cases "\<exists>r r1 runs row plan db2. get_run rid None None (cd_runs db) = Inr r \<and> run_status r \<noteq> ''SUCCEEDED''
    \<and> mark_run_running rid cutoff (cd_runs db) = Inr (r1, runs) \<and> whole
    \<and> get_policy (run_project_id r) (run_app_id r) (cd_policies db) = Some row
    \<and> scan_exact sha256 new_id cutoff cutoff r1 row (db\<lparr>cd_runs := runs\<rparr>) = Inr (plan, db2)")
  case False
  have db1: "cons_steps db (db\<lparr>cd_runs := runs\<rparr>)" for runs by (rule elsewhere_steps) simp_all
  show ?thesis
    using False db1
    by (auto simp: run_scan_def Let_def intro: fail_run_steps or_fail_scan_steps split: sum.splits prod.splits option.splits)
next
  case True
  then obtain r r1 runs row plan db2 where run: "get_run rid None None (cd_runs db) = Inr r" "run_status r \<noteq> ''SUCCEEDED''"
    "mark_run_running rid cutoff (cd_runs db) = Inr (r1, runs)" whole
    "get_policy (run_project_id r) (run_app_id r) (cd_policies db) = Some row"
    and ex: "scan_exact sha256 new_id cutoff cutoff r1 row (db\<lparr>cd_runs := runs\<rparr>) = Inr (plan, db2)" by blast
  note own = ids(1) [unfolded own_ids_def]
  have "prop_id ` set (cd_proposals (db\<lparr>cd_runs := runs\<rparr>)) \<inter> range new_id = {}" using own by auto
  note first = scan_exact_steps [OF ex conjunct1 [OF own] this]
  then have "cons_steps (db\<lparr>cd_runs := runs\<rparr>) db2" by simp
  moreover have fresh2: "prop_id ` set (cd_proposals db2) \<inter> range new_id' = {}"
    using first own by (simp add: disjoint_iff) (metis (no_types, lifting) Un_iff rangeI subsetD)
  moreover have "cons_steps db (db\<lparr>cd_runs := runs\<rparr>)" by (rule elsewhere_steps) simp_all
  ultimately have two: "cons_steps db db2" by simp
  let ?db3 = "if scn_client w then scn_others w db2 else db2"
  let ?db4 = "if scn_client w then scn_others_later w ?db3 else ?db3"
  have later: "cons_steps db (scn_others_later w (scn_others w db2))"
    using rtranclp_trans [OF rtranclp_trans [OF two others(1)] others(2)] .
  then have four: "cons_steps db ?db4" using two by simp
  have "prop_id ` set (cd_proposals ?db4) \<inter> range new_id' = {}"
    using ids(2,3) fresh2 unfolding leaves_ids_def by (cases "scn_client w") simp_all
  then have last: "cons_steps db d'" if "scan_semantic new_id' finished cutoff finished pid rid plan drafts ?db4 = Inr (res, d')"
      for pid drafts res d'
    using scan_semantic_steps [OF that] four ids(1) unfolding own_ids_def by (meson rtranclp_trans)
  have semantic: "cons_steps db (snd (or_fail_scan rid finished ?db4
      (rbind m (\<lambda>drafts. scan_semantic new_id' finished cutoff finished pid rid plan drafts ?db4))))" for m pid
    by (rule or_fail_scan_steps [OF four]) (auto simp: res_simps dest: last)
  have "cons_steps db (snd (or_fail_scan rid finished db (scan_complete cutoff cutoff finished r1 ids' db2)))" for ids'
    by (rule or_fail_scan_steps) (auto dest: scan_complete_steps [OF _ two])
  then show ?thesis
    using run ex semantic by (simp add: run_scan_def Let_def)
qed

lemma auto_approve_steps:
  assumes "auto_approve sha256 ready new_id now d p = Inr d'"
  shows "cons_steps d d'"
proof -
  have approve: "cons_steps d e" if "approve_proposal sha256 ready adds_nothing False now i st hs c t d = (r, e)" for i st hs c t r e
  proof -
    have "cons_steps d (snd (approve_proposal sha256 ready adds_nothing False now i st hs c t d))"
      by (rule approve_steps) (simp_all add: adds_nothing_def adds_new_memories_def)
    then show ?thesis using that by simp
  qed
  show ?thesis
    using assms
    by (auto simp: auto_approve_def res_simps Let_def intro: restated_status elsewhere_steps dest: approve
        split: if_splits sum.splits prod.splits)
qed

lemma handle_scan_steps:
  assumes "own_ids new_id new_id' db" "leaves_ids new_id' (scn_others w)" "leaves_ids new_id' (scn_others_later w)"
    and "\<And>d. cons_steps d (scn_others w d)" "\<And>d. cons_steps d (scn_others_later w d)"
  shows "cons_steps db (snd (handle_scan sha256 fromiso required w new_id new_id' now finished payload db))"
proof -
  have scan: "cons_steps db d" if "run_scan sha256 w True new_id new_id' now finished rid db = (r, d)" for rid r d
    using run_scan_steps [OF assms] that by (metis snd_conv)
  have approve: "cons_steps db d'"
    if "run_scan sha256 w True new_id new_id' now finished rid db = (r, d)"
      "fold_res (auto_approve sha256 ready new_id finished) d ps = Inr d'" for rid r d ready ps d'
    by (rule fold_res_inv [OF that(2), where P = "cons_steps db"])
      (use scan [OF that(1)] auto_approve_steps rtranclp_trans in \<open>metis+\<close>)
  show ?thesis
    using scan approve by (auto simp: handle_scan_def split: sum.splits prod.splits)
qed

lemma handle_shadow_steps:
  assumes "\<And>d. cons_steps d (sw_others w d)" "\<And>a d. cons_steps d (snd (sw_export w a d))"
  shows "cons_steps db (snd (handle_shadow sha256 fromiso required hard w new_id att now lease later payload db))"
proof -
  have shadow: "cons_steps db d" if "shadow_approved sha256 w ready att now lease later i db = (r, d)" for ready i r d
    using shadow_steps [of w, OF assms] that by (metis snd_conv)
  show ?thesis
    by (auto simp: handle_shadow_def res_simps dest: shadow intro: elsewhere_steps [OF shadow]
        split: sum.splits prod.splits if_splits)
qed

lemma handle_finalize_steps:
  assumes "\<And>mid d. cons_steps d (snd (dw_delete (w mid) d))"
  shows "cons_steps db (snd (handle_finalize sha256 fromiso required hard w new_id stamp now payload db))"
  using finalize_steps [of w, OF assms] by (auto simp: handle_finalize_def split: sum.splits)

lemma schedule_steps:
  assumes "enqueue_due_scopes fromiso required new_id now db = Inr (n, db')"
  shows "cons_steps db db'"
proof -
  have step: "cons_steps db (snd s')"
    if "cons_steps db (snd s)" "schedule_scope fromiso required new_id now s row = Inr s'" for s s' row
    using that by (cases s; cases "create_run (new_id row) now row (cd_runs (snd s))")
      (auto simp: schedule_scope_def Let_def res_simps intro: elsewhere_steps split: if_splits)
  have "cons_steps db (snd (n, db'))"
    by (rule fold_res_inv [OF assms [unfolded enqueue_due_scopes_def], where P = "\<lambda>s. cons_steps db (snd s)"])
      (simp, rule step)
  then show ?thesis by simp
qed

text \<open>
  C25: however the transactions of scans, approvals, attempts, rollbacks and finalisations interleave
  with each other and with the writes of the index, a memory is only ever shadowed in the name of an
  existing proposal of its project that lists it among its sources, and never in the name of a
  proposal that keeps it as the canonical memory.  This holds whenever the scheduler, a job handler
  or an operator's approval returns or raises, as long as adding, exporting and deleting memories
  and the work of other processes between its transactions are such interleavings too, and a memory
  added as a replacement is not one that is shadowed.
\<close>

theorem workers_keep_invariant:
  assumes start: "reachable_cons db"
    and ids: "own_ids new_id new_id' db" "leaves_ids new_id' (scn_others scan)" "leaves_ids new_id' (scn_others_later scan)"
    and others: "\<And>d. cons_steps d (scn_others scan d)" "\<And>d. cons_steps d (scn_others_later scan d)"
      "\<And>d. cons_steps d (sw_others sw d)"
    and calls: "\<And>a d. cons_steps d (snd (sw_export sw a d))" "\<And>mid d. cons_steps d (snd (dw_delete (dw mid) d))"
      "\<And>payload d. cons_steps d (snd (add_memory payload d))" "adds_new_memories add_memory"
  shows "cons_ok (snd (handle_scan sha256 fromiso required scan new_id new_id' now finished payload db))
    \<and> cons_ok (snd (handle_shadow sha256 fromiso required hard sw nid att now lease finished payload db))
    \<and> cons_ok (snd (handle_finalize sha256 fromiso required hard dw new_id now finished payload db))
    \<and> cons_ok (snd (approve_proposal sha256 ready add_memory refreshed now i st hs c txt db))
    \<and> (case enqueue_due_scopes fromiso required row_id now db of Inl e \<Rightarrow> True | Inr (n, db') \<Rightarrow> cons_ok db')"
proof -
  have ok: "cons_ok db'" if "cons_steps db db'" for db'
    using steps_reachable [OF that start] reachable_cons_ok by blast
  show ?thesis
    by (intro conjI ok handle_scan_steps handle_shadow_steps handle_finalize_steps approve_steps ids others calls)
      (auto dest: schedule_steps intro: ok split: sum.splits)
qed

section \<open>Examples\<close>

text \<open>Two similar memories, whose fingerprint is their text, and an upstream that still has both.\<close>

definition near_memory :: "string \<Rightarrow> string \<Rightarrow> memory_index" where
  "near_memory mid txt = (sample_memory mid txt ''user'')\<lparr>mi_last_observed_at := Some 3\<rparr>"

definition near_text :: "string \<Rightarrow> string" where
  "near_text mid = (if mid = ''m1'' then ''a b'' else ''b a'')"

definition near_get :: "string \<Rightarrow> upstream" where
  "near_get mid = Reply (JObj [(''id'', JStr mid), (''memory'', JStr (near_text mid))])"

definition near_search :: "json dict \<Rightarrow> upstream" where
  "near_search q = Reply (JObj [(''results'', JList (map (\<lambda>mid.
     JObj [(''id'', JStr mid), (''memory'', JStr (near_text mid)), (''score'', JFloat (Fin 1))]) [''m1'', ''m2'']))])"

definition near_rows :: "memory_index list" where
  "near_rows = [near_memory ''m1'' (near_text ''m1''), near_memory ''m2'' (near_text ''m2'')]"

lemma semantic_drafts_sound_witness:
  "\<exists>drafts. semantic_drafts (\<lambda>t. t) sample_policy near_get near_search near_get (take 1 near_rows) near_rows
       (map snapshot_header [hd near_rows]) = Inr drafts
    \<and> map pd_source_ids drafts = [[''m1'', ''m2'']] \<and> pd_kind (hd drafts) \<in> {''CONTRADICTION'', ''NEAR_DUPLICATE''}"
proof -
  let ?run = "semantic_drafts (\<lambda>t. t) sample_policy near_get near_search near_get (take 1 near_rows) near_rows
       (map snapshot_header [hd near_rows])"
  have *: "case ?run of Inl _ \<Rightarrow> False | Inr ds \<Rightarrow> map pd_source_ids ds = [[''m1'', ''m2'']]"
    by code_simp
  then obtain drafts where run: "?run = Inr drafts" and ids: "map pd_source_ids drafts = [[''m1'', ''m2'']]"
    by (auto split: sum.splits)
  then have "hd drafts \<in> set drafts" by (cases drafts) auto
  from semantic_drafts_sound [OF run this]
  have "pd_kind (hd drafts) \<in> {''CONTRADICTION'', ''NEAR_DUPLICATE''}" by (elim bexE exE conjE)
  then show ?thesis using run ids by (intro exI conjI)
qed

definition scan_cons :: cons_db where
  "scan_cons = (sample_cons ''EXACT_DUPLICATE'' ''PENDING'')\<lparr>cd_memories := [hd near_rows],
     cd_runs := [fst (create_run ''r'' 5 sample_policy_row [])]\<rparr>"

text \<open>Another worker finishes the same run while this one is searching.\<close>

definition overtaken :: scan_world where
  "overtaken = \<lparr>scn_client = True, scn_get = near_get, scn_search = near_search, scn_get_later = near_get,
     scn_others = (\<lambda>db. db), scn_others_later = (\<lambda>db. db\<lparr>cd_runs :=
       map (\<lambda>r. r\<lparr>run_status := ''SUCCEEDED''\<rparr>) (cd_runs db)\<rparr>)\<rparr>"

lemma late_scan_fails_succeeded_run_witness:
  "\<exists>e db' r5. run_scan (\<lambda>t. t) overtaken True (\<lambda>k. k) (\<lambda>k. k) 9 11 ''r'' scan_cons = (Inl e, db')
    \<and> get_run ''r'' None None (cd_runs db') = Inr r5 \<and> run_status r5 = ''FAILED''"
proof -
  let ?sha = "\<lambda>t :: string. t"
  have "case get_run ''r'' None None (cd_runs scan_cons) of Inl _ \<Rightarrow> False | Inr r \<Rightarrow> run_status r \<noteq> ''SUCCEEDED''
      \<and> (case mark_run_running ''r'' 9 (cd_runs scan_cons) of Inl _ \<Rightarrow> False | Inr (r1, runs) \<Rightarrow>
        case get_policy (run_project_id r) (run_app_id r) (cd_policies scan_cons) of None \<Rightarrow> False | Some row \<Rightarrow>
        (case scan_exact ?sha ?sha 9 9 r1 row (scan_cons\<lparr>cd_runs := runs\<rparr>) of Inl _ \<Rightarrow> False | Inr (plan, db2) \<Rightarrow>
          (sp_headers plan \<noteq> [] \<and> scn_client overtaken)
          \<and> (case get_run ''r'' None None (cd_runs (scn_others_later overtaken (scn_others overtaken db2))) of
              Inl _ \<Rightarrow> False | Inr r4 \<Rightarrow> run_status r4 = ''SUCCEEDED'')))"
    by code_simp
  then obtain r r1 runs row plan db2 r4 where run: "get_run ''r'' None None (cd_runs scan_cons) = Inr r"
    "run_status r \<noteq> ''SUCCEEDED''" "mark_run_running ''r'' 9 (cd_runs scan_cons) = Inr (r1, runs)"
    "get_policy (run_project_id r) (run_app_id r) (cd_policies scan_cons) = Some row"
    "scan_exact ?sha ?sha 9 9 r1 row (scan_cons\<lparr>cd_runs := runs\<rparr>) = Inr (plan, db2)" "sp_headers plan \<noteq> []" "scn_client overtaken"
    "get_run ''r'' None None (cd_runs (scn_others_later overtaken (scn_others overtaken db2))) = Inr r4"
    "run_status r4 = ''SUCCEEDED''"
    unfolding case_checks by blast
  from late_scan_fails_succeeded_run [OF run] show ?thesis .
qed

lemma oversized_threshold_stops_scheduling_witness:
  "\<exists>e. enqueue_due_scopes (\<lambda>_. None) False (\<lambda>_. ''r2'') 9 (scan_cons\<lparr>cd_runs := [], cd_policies :=
     [sample_policy_row, sample_policy_row\<lparr>cpol_app_id := ''b'', cpol_policy_json :=
       Some (JObj [(''enabled'', JBool True), (''mode'', JStr ''MANUAL''), (''min_new_memories'', JInt 5000)])\<rparr>]\<rparr>) = Inl e"
proof -
  let ?row = "sample_policy_row\<lparr>cpol_app_id := ''b'', cpol_policy_json :=
       Some (JObj [(''enabled'', JBool True), (''mode'', JStr ''MANUAL''), (''min_new_memories'', JInt 5000)])\<rparr>"
  let ?db = "scan_cons\<lparr>cd_runs := [], cd_policies := [sample_policy_row, ?row]\<rparr>"
  have "case policy_of_row ?row of Inl _ \<Rightarrow> False | Inr spec \<Rightarrow> pol_min_new_memories spec > 1000" by code_simp
  then obtain spec where spec: "policy_of_row ?row = Inr spec" "pol_min_new_memories spec > 1000"
    by (auto split: sum.splits)
  show ?thesis
    by (rule oversized_threshold_stops_scheduling [where row = ?row, OF _ _ spec])
      (simp_all add: sample_policy_row_def active_run_def inj_on_def)
qed

lemma workers_keep_invariant_witness:
  "cons_ok (snd (handle_scan sample_sha (\<lambda>_. None) False (overtaken\<lparr>scn_others_later := \<lambda>db. db\<rparr>) (Cons CHR ''a'')
      (Cons CHR ''b'') 9 11 [(''run_id'', JStr ''r'')] (sample_cons ''EXACT_DUPLICATE'' ''PENDING'')))
    \<and> cons_ok (snd (handle_shadow sample_sha (\<lambda>_. None) False True quiet_world ''j'' ''t0'' 9 60 11
      [(''run_id'', JStr ''r'')] (sample_cons ''EXACT_DUPLICATE'' ''PENDING'')))"
proof -
  let ?w = "overtaken\<lparr>scn_others_later := \<lambda>db. db\<rparr>"
  have ids: "own_ids (Cons CHR ''a'') (Cons CHR ''b'') (sample_cons ''EXACT_DUPLICATE'' ''PENDING'')"
    "leaves_ids (Cons CHR ''b'') (scn_others ?w)" "leaves_ids (Cons CHR ''b'') (scn_others_later ?w)"
    by (auto simp: own_ids_def leaves_ids_def overtaken_def sample_cons_def create_proposal_def Let_def)
  have others: "\<And>d. cons_steps d (scn_others ?w d)" "\<And>d. cons_steps d (scn_others_later ?w d)"
    "\<And>d. cons_steps d (sw_others quiet_world d)" "\<And>a d. cons_steps d (snd (sw_export quiet_world a d))"
    "\<And>mid d. cons_steps d (snd (dw_delete ((\<lambda>_. sample_delete) mid) d))" "\<And>payload d. cons_steps d (snd (no_add payload d))"
    "adds_new_memories no_add"
    by (simp_all add: no_add_def adds_new_memories_def quiet_world_def sample_delete_def overtaken_def)
  show ?thesis
    using workers_keep_invariant [OF sample_cons_reachable ids others, of sample_sha "\<lambda>_. None" False 9 11
      "[(''run_id'', JStr ''r'')]" True "''j''" "''t0''" 60] by blast
qed

end
