(* ===== verification/Entities.thy ===== *)
theory Entities
  imports Memory_Store Projects
begin

text \<open>
  Entities (\<open>EntityRepository\<close> in \<open>store/repositories.py\<close>): the users, agents, applications and
  runs of a scope, with the number of their active memories and when they were last seen.  They
  are rebuilt from the index of memories, or refreshed for the identities a mutation touched.
  Rows are inserted and deleted by key here; their identifiers come from \<open>new_id\<close>, and the
  rows a refresh returns are read from the table.
\<close>

definition ENTITY_REFRESH_IDENTITY_LIMIT :: nat where "ENTITY_REFRESH_IDENTITY_LIMIT = 800"

definition ENTITY_TYPES :: "string list" where "ENTITY_TYPES = [''user'', ''agent'', ''app'', ''run'']"

type_synonym identity = "string \<times> string"

definition check_entity_type :: "string \<Rightarrow> unit res" where
  "check_entity_type kind = raise_if (kind \<notin> set ENTITY_TYPES) (Exn ValueError ''Unsupported entity type'')"

definition entity_key :: "entity \<Rightarrow> identity" where
  "entity_key e = (ent_entity_type e, ent_entity_id e)"

definition entity_in :: "string \<Rightarrow> string \<Rightarrow> entity \<Rightarrow> bool" where
  "entity_in pid app e = (ent_project_id e = pid \<and> ent_app_id e = app)"

definition find_entity :: "string \<Rightarrow> string \<Rightarrow> identity \<Rightarrow> entity list \<Rightarrow> entity option" where
  "find_entity pid app k es = List.find (\<lambda>e. entity_in pid app e \<and> entity_key e = k) es"

definition new_entity :: "(identity \<Rightarrow> string) \<Rightarrow> time \<Rightarrow> string \<Rightarrow> string \<Rightarrow> identity \<Rightarrow> entity" where
  "new_entity new_id now pid app k =
     \<lparr>ent_id = new_id k, ent_project_id = pid, ent_app_id = app, ent_entity_type = fst k, ent_entity_id = snd k,
      ent_display_name = None, ent_metadata_json = Some (JObj []), ent_memory_count = 0,
      ent_last_seen_at = None, ent_created_at = now, ent_updated_at = now\<rparr>"

definition put_entity :: "string \<Rightarrow> string \<Rightarrow> identity \<Rightarrow> (entity \<Rightarrow> entity) \<Rightarrow> entity \<Rightarrow> entity list \<Rightarrow> entity list" where
  "put_entity pid app k write fresh es =
     (if find_entity pid app k es = None then es @ [write fresh]
      else update_where (\<lambda>e. entity_in pid app e \<and> entity_key e = k) write es)"

definition upsert_entity ::
    "(identity \<Rightarrow> string) \<Rightarrow> time \<Rightarrow> string \<Rightarrow> string option \<Rightarrow> string \<Rightarrow> string \<Rightarrow> string option \<Rightarrow> json dict \<Rightarrow>
     entity list \<Rightarrow> entity list res" where
  "upsert_entity new_id now pid app kind eid display_name metadata es =
     rbind (check_entity_type kind) (\<lambda>_.
     rbind (case app of
         Some a \<Rightarrow> Inr a
       | None \<Rightarrow> if kind \<noteq> ''app'' then value_error ''app_id is required'' else Inr eid) (\<lambda>a.
     Inr (put_entity pid a (kind, eid)
       (\<lambda>e. e\<lparr>ent_display_name := display_name, ent_metadata_json := Some (JObj metadata),
          ent_last_seen_at := Some now, ent_updated_at := now\<rparr>)
       (new_entity new_id now pid a (kind, eid)) es)))"

definition get_project_entity :: "string \<Rightarrow> string \<Rightarrow> string \<Rightarrow> string \<Rightarrow> entity list \<Rightarrow> entity res" where
  "get_project_entity pid app kind eid es =
     rbind (check_entity_type kind) (\<lambda>_.
       case find_entity pid app (kind, eid) es of Some e \<Rightarrow> Inr e | None \<Rightarrow> raise KeyError eid)"

section \<open>Aggregates of the index\<close>

definition entity_source :: "string \<Rightarrow> string \<Rightarrow> memory_index \<Rightarrow> bool" where
  "entity_source pid app m = (mi_project_id m = pid \<and> mi_app_id m = Some app \<and> active m)"

text \<open>What the loop over the memories collects: a count and the latest update per identity.\<close>

fun aupdate :: "'k \<Rightarrow> ('v option \<Rightarrow> 'v) \<Rightarrow> ('k \<times> 'v) list \<Rightarrow> ('k \<times> 'v) list" where
  "aupdate k f [] = [(k, f None)]"
| "aupdate k f ((k', v) # d) = (if k' = k then (k, f (Some v)) # d else (k', v) # aupdate k f d)"

definition count_identity :: "time \<Rightarrow> (identity \<times> nat \<times> time) list \<Rightarrow> identity \<Rightarrow> (identity \<times> nat \<times> time) list" where
  "count_identity t aggregates k =
     aupdate k (\<lambda>current. case current of None \<Rightarrow> (1, t) | Some (n, u) \<Rightarrow> (n + 1, max u t)) aggregates"

definition memory_keys :: "memory_index \<Rightarrow> identity list" where
  "memory_keys m = List.map_filter (\<lambda>kind. map_option (Pair kind) (entity_column kind m)) ENTITY_TYPES"

definition collect_aggregates :: "memory_index list \<Rightarrow> (identity \<times> nat \<times> time) list" where
  "collect_aggregates ms = foldl (\<lambda>d m. foldl (count_identity (mi_updated_at m)) d (memory_keys m)) [] ms"

definition built_entity :: "(identity \<Rightarrow> string) \<Rightarrow> time \<Rightarrow> string \<Rightarrow> string \<Rightarrow> identity \<times> nat \<times> time \<Rightarrow> entity" where
  "built_entity new_id now pid app kv = (case kv of (k, n, t) \<Rightarrow> (new_entity new_id now pid app k)
     \<lparr>ent_display_name := Some (snd k), ent_memory_count := int n, ent_last_seen_at := Some t\<rparr>)"

definition rebuild_project_entities ::
    "(identity \<Rightarrow> string) \<Rightarrow> time \<Rightarrow> project list \<Rightarrow> string \<Rightarrow> string \<Rightarrow> memory_index list \<Rightarrow> entity list \<Rightarrow>
     (entity list \<times> entity list) res" where
  "rebuild_project_entities new_id now projects pid app rows es =
     rbind (lock_for_mutation pid projects) (\<lambda>_.
      let memories = take (nat (EXPLORER_RECORD_HORIZON + 1)) (sort_key mi_id (filter (entity_source pid app) rows))
      in if int (length memories) > EXPLORER_RECORD_HORIZON
         then value_error ''entity rebuild exceeds 5000 active memories''
         else
           let built = map (built_entity new_id now pid app) (sort_key fst (collect_aggregates memories))
           in Inr (built, filter (\<lambda>e. \<not> entity_in pid app e) es @ built))"

section \<open>Refreshing what a mutation touched\<close>

text \<open>\<open>SELECT count(id), max(updated_at) ... GROUP BY\<close> for one identity; no group without rows.\<close>

definition identity_aggregate ::
    "string \<Rightarrow> string \<Rightarrow> memory_index list \<Rightarrow> identity \<Rightarrow> (nat \<times> time) option" where
  "identity_aggregate pid app rows k =
     (let ms = filter (\<lambda>m. entity_source pid app m \<and> entity_column (fst k) m = Some (snd k)) rows
      in map_option (\<lambda>t. (length ms, t)) (max_opt (map mi_updated_at ms)))"

text \<open>A refreshed row, whose \<open>updated_at\<close> moves only when a column changed.\<close>

definition refreshed_entity :: "time \<Rightarrow> identity \<Rightarrow> nat \<Rightarrow> time \<Rightarrow> entity \<Rightarrow> entity" where
  "refreshed_entity now k n t e =
     (let e' = e\<lparr>ent_display_name := Some (snd k), ent_metadata_json := Some (JObj []),
          ent_memory_count := int n, ent_last_seen_at := Some t\<rparr>
      in if e' = e then e else e'\<lparr>ent_updated_at := now\<rparr>)"

definition refresh_identity ::
    "(identity \<Rightarrow> string) \<Rightarrow> time \<Rightarrow> string \<Rightarrow> string \<Rightarrow> memory_index list \<Rightarrow> entity list \<Rightarrow> identity \<Rightarrow> entity list" where
  "refresh_identity new_id now pid app rows es k =
     (case identity_aggregate pid app rows k of
        None \<Rightarrow> filter (\<lambda>e. \<not> (entity_in pid app e \<and> entity_key e = k)) es
      | Some (n, t) \<Rightarrow> put_entity pid app k (refreshed_entity now k n t)
          (new_entity new_id now pid app k) es)"

definition check_identity :: "identity \<Rightarrow> unit res" where
  "check_identity k = rbind (check_entity_type (fst k)) (\<lambda>_.
     raise_if (snd k = []) (Exn ValueError ''Entity ID must be a non-empty string''))"

definition refresh_affected_entities ::
    "(identity \<Rightarrow> string) \<Rightarrow> time \<Rightarrow> string \<Rightarrow> string \<Rightarrow> identity list \<Rightarrow> memory_index list \<Rightarrow> entity list \<Rightarrow>
     entity list res" where
  "refresh_affected_entities new_id now pid app identities rows es =
     (let normalized = sort (remdups identities) in
      if length normalized > ENTITY_REFRESH_IDENTITY_LIMIT
      then value_error ''Too many entity identities to refresh''
      else rbind (rmap check_identity normalized) (\<lambda>_.
        Inr (foldl (refresh_identity new_id now pid app rows) es normalized)))"

text \<open>\<open>memory_identities\<close> of a projection of a memory, which carries its four identifiers.\<close>

record projection_ids =
  pi_user_id :: "string option"
  pi_agent_id :: "string option"
  pi_app_id :: "string option"
  pi_run_id :: "string option"

definition ids_of_memory :: "memory_index \<Rightarrow> projection_ids" where
  "ids_of_memory m = \<lparr>pi_user_id = mi_user_id m, pi_agent_id = mi_agent_id m, pi_app_id = mi_app_id m,
     pi_run_id = mi_run_id m\<rparr>"

definition memory_identities :: "projection_ids \<Rightarrow> identity list" where
  "memory_identities p =
     List.map_filter (\<lambda>(kind, v). case v of Some (c # cs) \<Rightarrow> Some (kind, c # cs) | _ \<Rightarrow> None)
       [(''user'', pi_user_id p), (''agent'', pi_agent_id p), (''app'', pi_app_id p), (''run'', pi_run_id p)]"

text \<open>Batches are flushed before they would exceed the limit.\<close>

definition add_identities ::
    "(identity \<Rightarrow> string) \<Rightarrow> time \<Rightarrow> string \<Rightarrow> string \<Rightarrow> memory_index list \<Rightarrow> identity list \<times> entity list \<Rightarrow>
     projection_ids \<Rightarrow> (identity list \<times> entity list) res" where
  "add_identities new_id now pid app rows st p =
     (let (pending, es) = st; ids = memory_identities p in
      if card (set pending \<union> set ids) > ENTITY_REFRESH_IDENTITY_LIMIT
      then rbind (if pending = [] then Inr es else refresh_affected_entities new_id now pid app pending rows es)
        (\<lambda>es'. Inr (remdups ids, es'))
      else Inr (remdups (ids @ pending), es))"

fun add_all_identities ::
    "(identity \<Rightarrow> string) \<Rightarrow> time \<Rightarrow> string \<Rightarrow> string \<Rightarrow> memory_index list \<Rightarrow> identity list \<times> entity list \<Rightarrow>
     projection_ids list \<Rightarrow> (identity list \<times> entity list) res" where
  "add_all_identities new_id now pid app rows st [] = Inr st"
| "add_all_identities new_id now pid app rows st (p # ps) =
     rbind (add_identities new_id now pid app rows st p) (\<lambda>st'. add_all_identities new_id now pid app rows st' ps)"

definition refresh_affected_memories ::
    "(identity \<Rightarrow> string) \<Rightarrow> time \<Rightarrow> string \<Rightarrow> string \<Rightarrow> projection_ids list \<Rightarrow> memory_index list \<Rightarrow> entity list \<Rightarrow>
     entity list res" where
  "refresh_affected_memories new_id now pid app ps rows es =
     rbind (add_all_identities new_id now pid app rows ([], es) ps) (\<lambda>(pending, es').
       if pending = [] then Inr es' else refresh_affected_entities new_id now pid app pending rows es')"

definition list_entity_memory_ids ::
    "string \<Rightarrow> string \<Rightarrow> string \<Rightarrow> string \<Rightarrow> memory_index list \<Rightarrow> string list res" where
  "list_entity_memory_ids pid app kind eid rows =
     rbind (check_entity_type kind) (\<lambda>_.
       let ids = map mi_mem0_memory_id (take 5001 (sort_key (\<lambda>m. (- mi_updated_at m, mi_mem0_memory_id m))
             (filter (\<lambda>m. entity_source pid app m \<and> entity_column kind m = Some eid) rows)))
       in if length ids > 5000 then value_error ''mutation intent exceeds 5000 memory targets'' else Inr ids)"

section \<open>A refresh is as good as a rebuild\<close>

text \<open>What the table says about a scope: count and time per identity.\<close>

type_synonym entity_row = "string option \<times> json_text \<times> int \<times> time option"

definition entity_view :: "string \<Rightarrow> string \<Rightarrow> entity list \<Rightarrow> identity \<Rightarrow> entity_row option" where
  "entity_view pid app es k =
     map_option (\<lambda>e. (ent_display_name e, ent_metadata_json e, ent_memory_count e, ent_last_seen_at e))
       (find_entity pid app k es)"

definition right_view :: "string \<Rightarrow> string \<Rightarrow> memory_index list \<Rightarrow> identity \<Rightarrow> entity_row option" where
  "right_view pid app rows k =
     map_option (\<lambda>(n, t). (Some (snd k), Some (JObj []), int n, Some t)) (identity_aggregate pid app rows k)"

text \<open>An identity an entity row is kept for.\<close>

definition proper_identity :: "identity \<Rightarrow> bool" where
  "proper_identity k = (fst k \<in> set ENTITY_TYPES \<and> snd k \<noteq> [])"

text \<open>
  The index changed in rows whose identities, old and new, are among the given projections: rows
  were rewritten in place and rows were added.
\<close>

definition changed_within :: "projection_ids list \<Rightarrow> memory_index list \<Rightarrow> memory_index list \<Rightarrow> bool" where
  "changed_within ps rows rows' =
     (list_all2 (\<lambda>m m'. m' = m \<or> ids_of_memory m \<in> set ps \<and> ids_of_memory m' \<in> set ps)
        rows (take (length rows) rows')
      \<and> list_all (\<lambda>m. ids_of_memory m \<in> set ps) (drop (length rows) rows'))"

lemma max_opt_set: "max_opt xs = (if xs = [] then None else Some (Max (set xs)))"
  by (cases xs) (simp_all add: max_opt_def Max.set_eq_fold [symmetric] del: Max.set_eq_fold)

lemma max_opt_snoc: "max_opt (xs @ [t]) = Some (case max_opt xs of None \<Rightarrow> t | Some u \<Rightarrow> max u t)"
  by (cases xs) (simp_all add: max_opt_def max.commute)

lemma max_opt_None: "max_opt xs = None \<longleftrightarrow> xs = []"
  by (simp add: max_opt_def)

lemma max_opt_Nil: "max_opt [] = None"
  by (simp add: max_opt_def)

lemma max_opt_perm: "set xs = set ys \<Longrightarrow> max_opt xs = max_opt ys"
  by (auto simp: max_opt_set)

lemma max_opt_single: "max_opt [t] = Some t"
  by (simp add: max_opt_def)

subsection \<open>The loop over the memories\<close>

lemma map_of_aupdate: "map_of (aupdate k f d) k' = (if k' = k then Some (f (map_of d k)) else map_of d k')"
  by (induction k f d rule: aupdate.induct) auto

lemma keys_aupdate: "distinct (map fst d) \<Longrightarrow> distinct (map fst (aupdate k f d))
    \<and> set (map fst (aupdate k f d)) = insert k (set (map fst d))"
  by (induction k f d rule: aupdate.induct) auto

definition bump :: "time \<Rightarrow> (nat \<times> time) option \<Rightarrow> nat \<times> time" where
  "bump t current = (case current of None \<Rightarrow> (1, t) | Some (n, u) \<Rightarrow> (n + 1, max u t))"

lemma count_identity_bump: "count_identity t d k = aupdate k (bump t) d"
proof -
  have "(\<lambda>current. case current of None \<Rightarrow> (1, t) | Some (n, u) \<Rightarrow> (n + 1, max u t)) = bump t"
    by (rule ext) (simp add: bump_def)
  then show ?thesis by (simp only: count_identity_def)
qed

lemma map_of_count_all:
  "distinct ks \<Longrightarrow> map_of (foldl (count_identity t) d ks) k
     = (if k \<in> set ks then Some (bump t (map_of d k)) else map_of d k)"
  by (induction ks arbitrary: d) (auto simp: count_identity_bump map_of_aupdate)

lemma distinct_count_all: "distinct (map fst d) \<Longrightarrow> distinct (map fst (foldl (count_identity t) d ks))"
  by (induction ks arbitrary: d) (auto simp: count_identity_bump keys_aupdate)

lemma memory_keys_iff:
  "fst k \<in> set ENTITY_TYPES \<Longrightarrow> k \<in> set (memory_keys m) \<longleftrightarrow> entity_column (fst k) m = Some (snd k)"
  "fst k \<notin> set ENTITY_TYPES \<Longrightarrow> k \<notin> set (memory_keys m)"
  by (cases k; force simp: memory_keys_def List.map_filter_def)+

lemma distinct_memory_keys: "distinct (memory_keys m)"
  by (cases "entity_column ''user'' m"; cases "entity_column ''agent'' m"; cases "entity_column ''app'' m";
      cases "entity_column ''run'' m") (simp_all add: memory_keys_def List.map_filter_def ENTITY_TYPES_def)

lemma distinct_collect: "distinct (map fst (collect_aggregates ms))"
proof -
  have "distinct (map fst (foldl (\<lambda>d m. foldl (count_identity (mi_updated_at m)) d (memory_keys m)) d ms))"
    if "distinct (map fst d)" for d
    using that by (induction ms arbitrary: d) (auto simp: distinct_count_all)
  then show ?thesis by (simp add: collect_aggregates_def)
qed

lemma collect_aggregates_spec:
  assumes "fst k \<in> set ENTITY_TYPES"
  shows "map_of (collect_aggregates ms) k
    = (let xs = filter (\<lambda>m. entity_column (fst k) m = Some (snd k)) ms
       in map_option (\<lambda>t. (length xs, t)) (max_opt (map mi_updated_at xs)))"
proof (induction ms rule: rev_induct)
  case Nil
  then show ?case by (simp add: collect_aggregates_def max_opt_def)
next
  case (snoc m ms)
  have step: "map_of (collect_aggregates (ms @ [m])) k
      = (if k \<in> set (memory_keys m) then Some (bump (mi_updated_at m) (map_of (collect_aggregates ms) k))
         else map_of (collect_aggregates ms) k)"
    by (simp add: collect_aggregates_def map_of_count_all distinct_memory_keys)
  show ?case
    unfolding step memory_keys_iff(1) [OF assms]
    by (cases "map mi_updated_at (filter (\<lambda>m. entity_column (fst k) m = Some (snd k)) ms) = []")
      (simp_all add: snoc.IH Let_def max_opt_snoc bump_def max_opt_single max_opt_Nil max_opt_None split: option.splits)
qed

lemma collect_aggregates_kind:
  assumes "k \<in> fst ` set (collect_aggregates ms)"
  shows "fst k \<in> set ENTITY_TYPES"
proof (rule ccontr)
  assume not: "fst k \<notin> set ENTITY_TYPES"
  have "map_of (foldl (\<lambda>d m. foldl (count_identity (mi_updated_at m)) d (memory_keys m)) d ms) k = map_of d k" for d
    by (induction ms arbitrary: d) (simp_all add: map_of_count_all distinct_memory_keys memory_keys_iff(2) [OF not])
  then have "map_of (collect_aggregates ms) k = None" by (simp add: collect_aggregates_def)
  then show False using assms by (simp add: map_of_eq_None_iff)
qed

subsection \<open>A rebuild tells the truth\<close>

lemma find_entity_map:
  assumes "distinct (map fst d)"
  shows "find_entity pid app k (map (built_entity new_id now pid app) d)
    = map_option (\<lambda>v. built_entity new_id now pid app (k, v)) (map_of d k)"
  using assms
  by (induction d) (auto simp: find_entity_def built_entity_def new_entity_def entity_in_def entity_key_def split_def)

lemma find_entity_append:
  "find_entity pid app k (xs @ ys) = (case find_entity pid app k xs of None \<Rightarrow> find_entity pid app k ys | Some e \<Rightarrow> Some e)"
  by (induction xs) (auto simp: find_entity_def)

lemma find_entity_None: "find_entity pid app k es = None \<longleftrightarrow> (\<forall>e \<in> set es. entity_in pid app e \<longrightarrow> entity_key e \<noteq> k)"
  by (auto simp: find_entity_def find_None_iff)

lemma map_of_sort_fst:
  "distinct (map fst d) \<Longrightarrow> map_of (sort_key fst d) = map_of d"
  by (subst map_of_inject_set) (simp_all add: distinct_map inj_on_def)

lemma aggregate_of_sorted:
  assumes "fst k \<in> set ENTITY_TYPES"
  shows "map_of (collect_aggregates (sort_key f (filter (entity_source pid app) rows))) k = identity_aggregate pid app rows k"
proof -
  let ?p = "\<lambda>m. entity_column (fst k) m = Some (snd k)"
  have "filter ?p (sort_key f (filter (entity_source pid app) rows))
      = sort_key f (filter (\<lambda>m. entity_source pid app m \<and> ?p m) rows)"
    by (simp add: filter_sort conj_commute)
  moreover have "max_opt (map mi_updated_at (sort_key f xs)) = max_opt (map mi_updated_at xs)" for xs
    by (rule max_opt_perm) simp
  ultimately show ?thesis
    by (simp add: collect_aggregates_spec [OF assms] identity_aggregate_def Let_def)
qed

lemma rebuild_view:
  assumes run: "rebuild_project_entities new_id now projects pid app rows es = Inr (built, es')"
    and kind: "fst k \<in> set ENTITY_TYPES"
  shows "entity_view pid app es' k = right_view pid app rows k"
proof -
  let ?ms = "sort_key mi_id (filter (entity_source pid app) rows)"
  define ms where "ms = take (nat (EXPLORER_RECORD_HORIZON + 1)) ?ms"
  have small: "\<not> int (length ms) > EXPLORER_RECORD_HORIZON"
    using run by (auto simp: rebuild_project_entities_def res_simps ms_def [symmetric] Let_def split: if_splits)
  then have all: "ms = ?ms" by (simp add: ms_def EXPLORER_RECORD_HORIZON_def min_def split: if_splits)
  have es': "es' = filter (\<lambda>e. \<not> entity_in pid app e) es @ map (built_entity new_id now pid app)
      (sort_key fst (collect_aggregates ms))"
    using run small by (auto simp: rebuild_project_entities_def res_simps ms_def [symmetric] Let_def split_def)
  have none: "find_entity pid app k (filter (\<lambda>e. \<not> entity_in pid app e) es) = None"
    by (simp add: find_entity_None)
  have srt: "distinct (map fst (sort_key fst (collect_aggregates ms)))"
    using distinct_collect [of ms] by (simp add: distinct_map)
  show ?thesis
    by (simp add: entity_view_def es' find_entity_append none find_entity_map [OF srt [unfolded all]] map_of_sort_fst
        distinct_collect all aggregate_of_sorted [OF kind] right_view_def option.map_comp comp_def
        built_entity_def new_entity_def split_def)
qed

subsection \<open>A refresh tells the truth of its identities\<close>

lemma find_entity_update:
  assumes "\<And>e. entity_in pid app (w e) = entity_in pid app e" "\<And>e. entity_key (w e) = entity_key e"
  shows "find_entity pid app k' (update_where (\<lambda>e. entity_in pid app e \<and> entity_key e = k) w es)
    = (if k' = k then map_option w (find_entity pid app k es) else find_entity pid app k' es)"
  by (induction es) (auto simp: find_entity_def update_where_def assms)

lemma find_entity_delete:
  "find_entity pid app k' (filter (\<lambda>e. \<not> (entity_in pid app e \<and> entity_key e = k)) es)
    = (if k' = k then None else find_entity pid app k' es)"
  by (induction es) (auto simp: find_entity_def)

lemma refreshed_entity_same [simp]:
  "entity_in pid app (refreshed_entity now k n t e) = entity_in pid app e"
  "entity_key (refreshed_entity now k n t e) = entity_key e"
  "ent_display_name (refreshed_entity now k n t e) = Some (snd k)"
  "ent_metadata_json (refreshed_entity now k n t e) = Some (JObj [])"
  "ent_memory_count (refreshed_entity now k n t e) = int n"
  "ent_last_seen_at (refreshed_entity now k n t e) = Some t"
  by (auto simp: refreshed_entity_def Let_def entity_in_def entity_key_def dest: arg_cong [where f = ent_display_name]
      arg_cong [where f = ent_metadata_json] arg_cong [where f = ent_memory_count] arg_cong [where f = ent_last_seen_at])

lemma new_entity_same [simp]:
  "entity_in pid app (new_entity new_id now pid app k)" "entity_key (new_entity new_id now pid app k) = k"
  by (simp_all add: new_entity_def entity_in_def entity_key_def)

lemma refresh_identity_view:
  "entity_view pid app (refresh_identity new_id now pid app rows es k) k'
     = (if k' = k then right_view pid app rows k else entity_view pid app es k')"
proof (cases "identity_aggregate pid app rows k")
  case None
  then show ?thesis
    by (simp add: refresh_identity_def entity_view_def find_entity_delete right_view_def del: de_Morgan_conj)
next
  case (Some nt)
  then obtain n t where nt: "identity_aggregate pid app rows k = Some (n, t)" by (cases nt) auto
  have single: "find_entity pid app k' [refreshed_entity now k n t (new_entity new_id now pid app k)]
      = (if k' = k then Some (refreshed_entity now k n t (new_entity new_id now pid app k)) else None)" for k'
    by (simp add: find_entity_def)
  show ?thesis
    by (cases "find_entity pid app k es")
      (auto simp: refresh_identity_def nt put_entity_def entity_view_def find_entity_append single
        find_entity_update right_view_def split: option.splits)
qed

lemma refresh_all_view:
  "entity_view pid app (foldl (refresh_identity new_id now pid app rows) es ks) k
     = (if k \<in> set ks then right_view pid app rows k else entity_view pid app es k)"
  by (induction ks arbitrary: es) (auto simp: refresh_identity_view)

lemma check_identity_proper: "proper_identity k \<Longrightarrow> check_identity k = Inr ()"
  by (simp add: check_identity_def check_entity_type_def proper_identity_def)

lemma memory_identities_proper: "k \<in> set (memory_identities p) \<Longrightarrow> proper_identity k"
  by (auto simp: memory_identities_def List.map_filter_def proper_identity_def ENTITY_TYPES_def
      split: option.splits list.splits if_splits)

lemma length_memory_identities: "length (memory_identities p) \<le> 4"
  unfolding memory_identities_def by (auto simp: List.map_filter_def)

lemma refresh_affected_ok:
  assumes "\<And>k. k \<in> set ks \<Longrightarrow> proper_identity k" and "card (set ks) \<le> ENTITY_REFRESH_IDENTITY_LIMIT"
  shows "\<exists>es'. refresh_affected_entities new_id now pid app ks rows es = Inr es'
    \<and> (\<forall>k. entity_view pid app es' k = (if k \<in> set ks then right_view pid app rows k else entity_view pid app es k))"
proof -
  have "rmap check_identity (sort (remdups ks)) = Inr (map (\<lambda>_. ()) (sort (remdups ks)))"
    using assms(1) by (intro rmap_eqI) (simp add: check_identity_proper)
  moreover have "length (sort (remdups ks)) = card (set ks)" by (simp add: length_remdups_card_conv)
  ultimately show ?thesis
    using assms(2) by (auto simp: refresh_affected_entities_def refresh_all_view Let_def)
qed

text \<open>
  The state of the batching loop: identities pending, all proper and within the limit, and the
  identities seen before are already right in the table.
\<close>

definition batch_ok ::
    "string \<Rightarrow> string \<Rightarrow> memory_index list \<Rightarrow> entity list \<Rightarrow> identity set \<Rightarrow> identity list \<times> entity list \<Rightarrow> bool" where
  "batch_ok pid app rows es0 seen st \<longleftrightarrow>
     (\<forall>k \<in> set (fst st). proper_identity k) \<and> card (set (fst st)) \<le> ENTITY_REFRESH_IDENTITY_LIMIT
     \<and> set (fst st) \<subseteq> seen
     \<and> (\<forall>k. k \<notin> set (fst st) \<longrightarrow> entity_view pid app (snd st) k
          = (if k \<in> seen then right_view pid app rows k else entity_view pid app es0 k))"

lemma add_identities_ok:
  assumes "batch_ok pid app rows es0 seen st"
  shows "\<exists>st'. add_identities new_id now pid app rows st p = Inr st'
    \<and> batch_ok pid app rows es0 (seen \<union> set (memory_identities p)) st'"
proof -
  obtain pending es where st: "st = (pending, es)" by (cases st)
  let ?ids = "memory_identities p"
  have four: "card (set ?ids) \<le> 4" by (rule le_trans [OF card_length length_memory_identities])
  have ok: "\<And>k. k \<in> set pending \<Longrightarrow> proper_identity k" "card (set pending) \<le> ENTITY_REFRESH_IDENTITY_LIMIT"
      "set pending \<subseteq> seen"
      "\<And>k. k \<notin> set pending \<Longrightarrow> entity_view pid app es k
         = (if k \<in> seen then right_view pid app rows k else entity_view pid app es0 k)"
    using assms by (auto simp: batch_ok_def st)
  show ?thesis
  proof (cases "card (set pending \<union> set ?ids) > ENTITY_REFRESH_IDENTITY_LIMIT")
    case True
    then have "pending \<noteq> []" using four by (auto simp: ENTITY_REFRESH_IDENTITY_LIMIT_def)
    moreover obtain es' where es': "refresh_affected_entities new_id now pid app pending rows es = Inr es'"
        "\<And>k. entity_view pid app es' k = (if k \<in> set pending then right_view pid app rows k else entity_view pid app es k)"
      using refresh_affected_ok [OF ok(1,2)] by blast
    ultimately have "add_identities new_id now pid app rows st p = Inr (remdups ?ids, es')"
      using True by (simp add: add_identities_def st)
    moreover have "batch_ok pid app rows es0 (seen \<union> set ?ids) (remdups ?ids, es')"
      using four ok(3,4) by (auto simp: batch_ok_def es'(2) memory_identities_proper ENTITY_REFRESH_IDENTITY_LIMIT_def)
    ultimately show ?thesis by blast
  next
    case False
    then have "add_identities new_id now pid app rows st p = Inr (remdups (?ids @ pending), es)"
      by (simp add: add_identities_def st)
    moreover have "batch_ok pid app rows es0 (seen \<union> set ?ids) (remdups (?ids @ pending), es)"
      using False ok by (auto simp: batch_ok_def memory_identities_proper Un_commute)
    ultimately show ?thesis by blast
  qed
qed

lemma add_all_identities_ok:
  assumes "batch_ok pid app rows es0 seen st"
  shows "\<exists>st'. add_all_identities new_id now pid app rows st ps = Inr st'
    \<and> batch_ok pid app rows es0 (seen \<union> (\<Union>p \<in> set ps. set (memory_identities p))) st'"
  using assms
proof (induction ps arbitrary: seen st)
  case (Cons p ps)
  obtain st1 where st1: "add_identities new_id now pid app rows st p = Inr st1"
      "batch_ok pid app rows es0 (seen \<union> set (memory_identities p)) st1"
    using add_identities_ok [OF Cons.prems] by blast
  then show ?case using Cons.IH [OF st1(2)] by (simp add: Un_assoc)
qed simp

lemma refresh_memories_view:
  "\<exists>es'. refresh_affected_memories new_id now pid app ps rows es = Inr es'
    \<and> (\<forall>k. entity_view pid app es' k = (if k \<in> (\<Union>p \<in> set ps. set (memory_identities p))
         then right_view pid app rows k else entity_view pid app es k))"
proof -
  have "batch_ok pid app rows es {} ([], es)" by (simp add: batch_ok_def)
  from add_all_identities_ok [OF this, of new_id now ps] obtain pending es1 where
      run: "add_all_identities new_id now pid app rows ([], es) ps = Inr (pending, es1)"
      and ok: "batch_ok pid app rows es (\<Union>p \<in> set ps. set (memory_identities p)) (pending, es1)"
    by auto
  show ?thesis
  proof (cases "pending = []")
    case True
    then show ?thesis using ok by (simp add: refresh_affected_memories_def run batch_ok_def)
  next
    case False
    have small: "card (set pending) \<le> ENTITY_REFRESH_IDENTITY_LIMIT" and
      proper: "\<And>k. k \<in> set pending \<Longrightarrow> proper_identity k" using ok by (auto simp: batch_ok_def)
    obtain es2 where "refresh_affected_entities new_id now pid app pending rows es1 = Inr es2"
        "\<And>k. entity_view pid app es2 k = (if k \<in> set pending then right_view pid app rows k else entity_view pid app es1 k)"
      using refresh_affected_ok [OF proper small] by blast
    then show ?thesis using ok False by (auto simp: refresh_affected_memories_def run batch_ok_def)
  qed
qed

text \<open>An identity outside the changed rows counts the same memories as before.\<close>

lemma nonempty_case:
  "(case v of Some (c # cs) \<Rightarrow> Some (kind, c # cs) | _ \<Rightarrow> None) = Some k
     \<longleftrightarrow> fst k = kind \<and> v = Some (snd k) \<and> snd k \<noteq> []"
  by (cases k) (auto split: option.splits list.splits)

lemma mem_memory_identities:
  "k \<in> set (memory_identities p) \<longleftrightarrow> snd k \<noteq> [] \<and>
     (fst k = ''user'' \<and> pi_user_id p = Some (snd k) \<or> fst k = ''agent'' \<and> pi_agent_id p = Some (snd k)
      \<or> fst k = ''app'' \<and> pi_app_id p = Some (snd k) \<or> fst k = ''run'' \<and> pi_run_id p = Some (snd k))"
proof -
  have mf: "k \<in> set (List.map_filter f xs) \<longleftrightarrow> (\<exists>x \<in> set xs. f x = Some k)" for f :: "string \<times> string option \<Rightarrow> identity option" and xs
    by (induction xs) (simp_all split: option.splits, auto)
  show ?thesis unfolding memory_identities_def mf by (simp add: nonempty_case) blast
qed

lemma identity_of_row:
  "proper_identity k \<Longrightarrow> entity_column (fst k) m = Some (snd k) \<longleftrightarrow> k \<in> set (memory_identities (ids_of_memory m))"
  by (auto simp: proper_identity_def ENTITY_TYPES_def entity_column_def mem_memory_identities ids_of_memory_def)

lemma right_view_unchanged:
  assumes within: "changed_within ps rows rows'" and proper: "proper_identity k"
    and out: "k \<notin> (\<Union>p \<in> set ps. set (memory_identities p))"
  shows "right_view pid app rows' k = right_view pid app rows k"
proof -
  let ?p = "\<lambda>m. entity_source pid app m \<and> entity_column (fst k) m = Some (snd k)"
  have no: "\<not> ?p m" if "ids_of_memory m \<in> set ps" for m
    using that out by (auto simp: identity_of_row [OF proper])
  have "filter ?p ys = filter ?p xs" if "list_all2 (\<lambda>m m'. m' = m \<or> ids_of_memory m \<in> set ps \<and> ids_of_memory m' \<in> set ps) xs ys" for xs ys
    using that by (induction rule: list_all2_induct) (use no in auto)
  then have "filter ?p (take (length rows) rows') = filter ?p rows"
    using within by (simp add: changed_within_def)
  moreover have "filter ?p (drop (length rows) rows') = []"
    using within no by (auto simp: changed_within_def list_all_iff filter_empty_conv)
  moreover have "filter ?p rows' = filter ?p (take (length rows) rows') @ filter ?p (drop (length rows) rows')"
    by (metis append_take_drop_id filter_append)
  ultimately have "filter ?p rows' = filter ?p rows" by simp
  then show ?thesis by (simp add: right_view_def identity_aggregate_def)
qed

text \<open>C27: Entity rows are refreshed as exactly as they are rebuilt, for every identity with an
  identifier that is not empty.  The rows of a scope are right for these (each has a row exactly
  when active memories carry it, with their number and latest update), the index of memories then
  changes, and the identities of the changed memories, as they were and as they are, are refreshed
  in batches: the refresh never fails, and each of these identities has the same row contents
  that a full rebuild from the index gives.  Empty identifiers are outside this: the refresh skips
  them, while a rebuild counts the memories that carry one.\<close>

theorem refresh_equals_rebuild:
  assumes before: "\<And>k. proper_identity k \<Longrightarrow> entity_view pid app es k = right_view pid app rows k"
    and change: "changed_within ps rows rows'"
    and rebuild: "rebuild_project_entities new_id now projects pid app rows' es = Inr (built, es_full)"
  shows "\<exists>es'. refresh_affected_memories new_id now pid app ps rows' es = Inr es'
    \<and> (\<forall>k. proper_identity k \<longrightarrow> entity_view pid app es' k = entity_view pid app es_full k)"
proof -
  obtain es' where run: "refresh_affected_memories new_id now pid app ps rows' es = Inr es'"
    and view: "\<And>k. entity_view pid app es' k = (if k \<in> (\<Union>p \<in> set ps. set (memory_identities p))
         then right_view pid app rows' k else entity_view pid app es k)"
    using refresh_memories_view by blast
  have "entity_view pid app es' k = entity_view pid app es_full k" if "proper_identity k" for k
    using that rebuild_view [OF rebuild, of k] before [of k] right_view_unchanged [OF change, of k pid app]
    by (simp add: view proper_identity_def)
  then show ?thesis using run by blast
qed

definition sample_entity_rows :: "memory_index list" where
  "sample_entity_rows =
     [(new_memory ''r1'' 5 ''p'' ''m1'')\<lparr>mi_user_id := Some ''u'', mi_app_id := Some ''a''\<rparr>,
      (new_memory ''r2'' 7 ''p'' ''m2'')\<lparr>mi_user_id := Some ''u'', mi_app_id := Some ''a'', mi_agent_id := Some ''g''\<rparr>]"

definition sample_entity_rows_after :: "memory_index list" where
  "sample_entity_rows_after = map (\<lambda>m. if mi_id m = ''r2'' then m\<lparr>mi_deleted_at := Some 9\<rparr> else m) sample_entity_rows"

definition sample_entity_projects :: "project list" where
  "sample_entity_projects = [new_project 0 ''p'' ''p'' ''u'' None None None]"

definition sample_entities :: "entity list" where
  "sample_entities = (case rebuild_project_entities snd 8 sample_entity_projects ''p'' ''a'' sample_entity_rows [] of Inl _ \<Rightarrow> [] | Inr (_, es) \<Rightarrow> es)"

theorem refresh_equals_rebuild_witness:
  "\<exists>es' built es_full.
     refresh_affected_memories snd 9 ''p'' ''a'' (map ids_of_memory (tl sample_entity_rows)) sample_entity_rows_after
       sample_entities = Inr es'
     \<and> rebuild_project_entities snd 9 sample_entity_projects ''p'' ''a'' sample_entity_rows_after sample_entities = Inr (built, es_full)
     \<and> map entity_key built = [(''app'', ''a''), (''user'', ''u'')]
     \<and> entity_view ''p'' ''a'' es' (''user'', ''u'') = entity_view ''p'' ''a'' es_full (''user'', ''u'')"
proof -
  have r0: "case rebuild_project_entities snd 8 sample_entity_projects ''p'' ''a'' sample_entity_rows [] of Inl _ \<Rightarrow> False | Inr (b, es) \<Rightarrow> es = sample_entities"
    by code_simp
  then obtain b0 where r0: "rebuild_project_entities snd 8 sample_entity_projects ''p'' ''a'' sample_entity_rows [] = Inr (b0, sample_entities)"
    by (auto split: sum.splits prod.splits)
  have within: "changed_within (map ids_of_memory (tl sample_entity_rows)) sample_entity_rows sample_entity_rows_after"
    by code_simp
  have "case rebuild_project_entities snd 9 sample_entity_projects ''p'' ''a'' sample_entity_rows_after sample_entities of
      Inl _ \<Rightarrow> False | Inr (b, es) \<Rightarrow> map entity_key b = [(''app'', ''a''), (''user'', ''u'')]"
    by code_simp
  then obtain built es_full where r1: "rebuild_project_entities snd 9 sample_entity_projects ''p'' ''a'' sample_entity_rows_after sample_entities = Inr (built, es_full)"
      and keys: "map entity_key built = [(''app'', ''a''), (''user'', ''u'')]"
    by (auto split: sum.splits prod.splits)
  have "entity_view ''p'' ''a'' sample_entities k = right_view ''p'' ''a'' sample_entity_rows k" if "proper_identity k" for k
    using that by (auto simp: proper_identity_def intro: rebuild_view [OF r0])
  from refresh_equals_rebuild [OF this within r1] r1 keys
  show ?thesis by (fastforce simp: proper_identity_def ENTITY_TYPES_def)
qed

end
