(* ===== verification/Mem0_Client.thy ===== *)
theory Mem0_Client
  imports Upstream
begin

text \<open>
  The client of the upstream memory service (\<open>mem0_client/client.py\<close>, \<open>receipts.py\<close>): the request
  that each operation sends, what a response or a failure of the transport comes to, and the
  classification of a failure as one whose effect is known or not.  The network is a parameter of
  the service: it maps a request to an \<open>http_outcome\<close>.  \<open>quote_path\<close> stands for
  \<open>urllib.parse.quote\<close>, and an outcome carries the texts that the HTTP library supplies.
\<close>

section \<open>Requests\<close>

record http_request =
  rq_method :: string
  rq_path :: string
  rq_payload :: "json dict option"
  rq_params :: "json dict option"

datatype upstream_call =
    Get_Add_Receipt string
  | Add_Memory "json dict"
  | Search_Memories "json dict"
  | Search_Memories_Raw "json dict"
  | List_Memories "json dict"
  | List_Memories_Raw "json dict"
  | Get_Memory_History string
  | Get_Memory_History_Raw string
  | Get_Memory string
  | Update_Memory string "json dict"
  | Delete_Memory string
  | Delete_All_Memories "json dict"

record client_config =
  cl_memories_path :: string
  cl_search_path :: string
  cl_quote :: "string \<Rightarrow> string"

definition memory_item_path :: "client_config \<Rightarrow> string \<Rightarrow> string \<Rightarrow> string" where
  "memory_item_path cfg mid suffix = cl_memories_path cfg @ ''/'' @ cl_quote cfg mid @ suffix"

definition payload_request :: "string \<Rightarrow> string \<Rightarrow> json dict \<Rightarrow> http_request" where
  "payload_request m p d = \<lparr>rq_method = m, rq_path = p, rq_payload = Some d, rq_params = None\<rparr>"

definition params_request :: "string \<Rightarrow> string \<Rightarrow> json dict \<Rightarrow> http_request" where
  "params_request m p d = \<lparr>rq_method = m, rq_path = p, rq_payload = None, rq_params = Some d\<rparr>"

definition plain_request :: "string \<Rightarrow> string \<Rightarrow> http_request" where
  "plain_request m p = \<lparr>rq_method = m, rq_path = p, rq_payload = None, rq_params = None\<rparr>"

text \<open>A memory given as plain text is sent as one message of the user.\<close>

definition with_messages :: "json dict \<Rightarrow> json dict" where
  "with_messages payload =
     (if dget payload ''messages'' \<noteq> None then payload
      else
        let content = (if jget payload ''text'' = JNull then jget payload ''memory'' else jget payload ''text'')
        in if content = JNull then payload
           else dset ''messages'' (JList [JObj [(''role'', JStr ''user''), (''content'', content)]]) payload)"

fun call_request :: "client_config \<Rightarrow> upstream_call \<Rightarrow> http_request" where
  "call_request cfg (Get_Add_Receipt marker) = plain_request ''GET'' (''/internal/mutations/'' @ cl_quote cfg marker)"
| "call_request cfg (Add_Memory payload) = payload_request ''POST'' (cl_memories_path cfg) (with_messages payload)"
| "call_request cfg (Search_Memories payload) = payload_request ''POST'' (cl_search_path cfg) payload"
| "call_request cfg (Search_Memories_Raw payload) = payload_request ''POST'' (cl_search_path cfg) payload"
| "call_request cfg (List_Memories params) = params_request ''GET'' (cl_memories_path cfg) params"
| "call_request cfg (List_Memories_Raw params) = params_request ''GET'' (cl_memories_path cfg) params"
| "call_request cfg (Get_Memory_History mid) = plain_request ''GET'' (memory_item_path cfg mid ''/history'')"
| "call_request cfg (Get_Memory_History_Raw mid) = plain_request ''GET'' (memory_item_path cfg mid ''/history'')"
| "call_request cfg (Get_Memory mid) = plain_request ''GET'' (memory_item_path cfg mid [])"
| "call_request cfg (Update_Memory mid payload) = payload_request ''PUT'' (memory_item_path cfg mid []) payload"
| "call_request cfg (Delete_Memory mid) = plain_request ''DELETE'' (memory_item_path cfg mid [])"
| "call_request cfg (Delete_All_Memories params) = params_request ''DELETE'' (cl_memories_path cfg) params"

fun preserves_shape :: "upstream_call \<Rightarrow> bool" where
  "preserves_shape (Search_Memories_Raw _) = True"
| "preserves_shape (List_Memories_Raw _) = True"
| "preserves_shape (Get_Memory_History_Raw _) = True"
| "preserves_shape _ = False"

section \<open>Outcomes\<close>

text \<open>
  What the HTTP library reports: a response with a success status and its decoded body (\<open>None\<close>
  when it cannot be decoded), one with an error status, a failure before the request could be
  sent (no connection, no free slot in the pool), any other failure of the transport, or the
  cancellation of the task that waits.
\<close>

datatype http_outcome =
    Success nat "json option"
  | Status_Error nat string
  | Not_Sent string
  | Transport_Error string
  | Cancelled_Wait

text \<open>The exceptions a caller may see.\<close>

datatype failure =
    Threw exn
  | Mem0_Error (me_method: string) (me_path: string) (me_status: "nat option") (me_text: "string option")
      (me_unknown: bool) (me_message: string)
  | Interrupted

type_synonym 'a result = "failure + 'a"

definition carries_marker :: "http_request \<Rightarrow> bool" where
  "carries_marker r =
     (case rq_payload r of
        Some p \<Rightarrow> (case jget p ''metadata'' of JObj m \<Rightarrow> truthy (jget m ''_mem0_sidecar_mutation_id'') | _ \<Rightarrow> False)
      | None \<Rightarrow> False)"

definition status_outcome_unknown :: "client_config \<Rightarrow> http_request \<Rightarrow> nat \<Rightarrow> bool" where
  "status_outcome_unknown cfg r status =
     (rq_method r = ''POST'' \<and> rq_path r = cl_memories_path cfg \<and> carries_marker r
      \<and> (status \<ge> 500 \<or> status = 409))"

definition failed :: "http_request \<Rightarrow> nat option \<Rightarrow> string option \<Rightarrow> bool \<Rightarrow> string \<Rightarrow> 'a result" where
  "failed r status t unknown message =
     Inl (Mem0_Error (rq_method r) (rq_path r) status t unknown
       (''Mem0 upstream '' @ rq_method r @ '' '' @ rq_path r @ '' '' @ message))"

definition request_result ::
    "client_config \<Rightarrow> http_request \<Rightarrow> bool \<Rightarrow> http_outcome \<Rightarrow> json result" where
  "request_result cfg r preserve_response_shape outcome =
     (case outcome of
        Status_Error status t \<Rightarrow>
          failed r (Some status) (Some t) (status_outcome_unknown cfg r status)
            (''failed with HTTP '' @ nat_str status @ '': '' @ t)
      | Not_Sent t \<Rightarrow> failed r None None False (''request failed: '' @ t)
      | Transport_Error t \<Rightarrow> failed r None None True (''request failed: '' @ t)
      | Cancelled_Wait \<Rightarrow> Inl Interrupted
      | Success status None \<Rightarrow> failed r (Some status) None True ''returned an undecodable success response''
      | Success status (Some (JObj d)) \<Rightarrow> Inr (JObj d)
      | Success status (Some data) \<Rightarrow>
          Inr (if preserve_response_shape then data else JObj [(''results'', data)]))"

section \<open>What the operations make of a response\<close>

record add_receipt =
  ar_mutation_id :: string
  ar_project_id :: string
  ar_app_id :: string
  ar_status :: string
  ar_result :: "json dict option"

definition hex64 :: "string \<Rightarrow> bool" where
  "hex64 s = (length s = 64 \<and> list_all (\<lambda>c. is_digit c \<or> 97 \<le> code c \<and> code c \<le> 102) s)"

text \<open>The strict validation of a receipt.  Members it does not know are ignored.\<close>

definition validate_receipt :: "json \<Rightarrow> add_receipt option" where
  "validate_receipt v =
     (case v of
        JObj d \<Rightarrow>
          (case (jget d ''mutation_id'', jget d ''project_id'', jget d ''app_id'', jget d ''status'', jget d ''result'') of
             (JStr m, JStr p, JStr a, JStr s, result) \<Rightarrow>
               if hex64 m \<and> p \<noteq> [] \<and> a \<noteq> [] \<and> s \<in> {''RUNNING'', ''SUCCEEDED'', ''FAILED''}
               then (case result of
                   JObj r \<Rightarrow> Some \<lparr>ar_mutation_id = m, ar_project_id = p, ar_app_id = a, ar_status = s, ar_result = Some r\<rparr>
                 | JNull \<Rightarrow> if s = ''SUCCEEDED'' then None
                     else Some \<lparr>ar_mutation_id = m, ar_project_id = p, ar_app_id = a, ar_status = s, ar_result = None\<rparr>
                 | _ \<Rightarrow> None)
               else None
           | _ \<Rightarrow> None)
      | _ \<Rightarrow> None)"

definition receipt_result :: "json result \<Rightarrow> add_receipt option result" where
  "receipt_result r =
     (case r of
        Inl (Mem0_Error m p (Some status) t unknown message) \<Rightarrow>
          if status = 404 then Inr None else Inl (Mem0_Error m p (Some status) t unknown message)
      | Inl e \<Rightarrow> Inl e
      | Inr v \<Rightarrow> (case validate_receipt v of
          Some receipt \<Rightarrow> Inr (Some receipt)
        | None \<Rightarrow> Inl (Threw (Exn (OtherError ''ValidationError'') ''AddReceipt''))))"

text \<open>A result that wraps its memory is replaced by the memory, with the scores of the result.\<close>

definition SCORE_FIELDS :: "string list" where "SCORE_FIELDS = [''score'', ''rerank_score'', ''score_details'']"

definition unwrap_result :: "json \<Rightarrow> json" where
  "unwrap_result item =
     (case item of
        JObj d \<Rightarrow> (case jget d ''memory'' of
            JObj m \<Rightarrow> JObj (foldl (\<lambda>r k. case dget d k of Some v \<Rightarrow> dset k v r | None \<Rightarrow> r) m SCORE_FIELDS)
          | _ \<Rightarrow> item)
      | _ \<Rightarrow> item)"

definition wraps_memory :: "json \<Rightarrow> bool" where
  "wraps_memory item =
     (case item of JObj d \<Rightarrow> (case jget d ''memory'' of JObj _ \<Rightarrow> True | _ \<Rightarrow> False) | _ \<Rightarrow> False)"

definition normalize_search_response :: "json dict \<Rightarrow> json dict" where
  "normalize_search_response response =
     (case jget response ''results'' of
        JList results \<Rightarrow>
          if \<not> list_ex wraps_memory results then response
          else
            let r = dset ''results'' (JList (map unwrap_result results)) response
            in if dget r ''total'' = None then dset ''total'' (JInt (int (length results))) r else r
      | _ \<Rightarrow> response)"

definition memory_response :: "client_config \<Rightarrow> string \<Rightarrow> json \<Rightarrow> json result" where
  "memory_response cfg mid response =
     (if response = JObj [(''results'', JNull)]
      then failed (call_request cfg (Get_Memory mid)) (Some 404) None False ''returned no memory''
      else Inr response)"

fun call_result :: "client_config \<Rightarrow> upstream_call \<Rightarrow> http_outcome \<Rightarrow> json result" where
  "call_result cfg (Get_Memory mid) outcome =
     (case request_result cfg (call_request cfg (Get_Memory mid)) False outcome of
        Inl e \<Rightarrow> Inl e
      | Inr v \<Rightarrow> memory_response cfg mid v)"
| "call_result cfg (Search_Memories payload) outcome =
     (case request_result cfg (call_request cfg (Search_Memories payload)) False outcome of
        Inl e \<Rightarrow> Inl e
      | Inr v \<Rightarrow> Inr (case v of JObj d \<Rightarrow> JObj (normalize_search_response d) | _ \<Rightarrow> v))"
| "call_result cfg c outcome = request_result cfg (call_request cfg c) (preserves_shape c) outcome"

section \<open>What is known of a failure\<close>

fun is_ambiguous :: "failure \<Rightarrow> bool" where
  "is_ambiguous (Mem0_Error m p status t unknown message) = unknown"
| "is_ambiguous (Threw e) = True"
| "is_ambiguous Interrupted = True"

fun is_not_found :: "failure \<Rightarrow> bool" where
  "is_not_found (Mem0_Error m p status t unknown message) = (status = Some 404)"
| "is_not_found (Threw e) = False"
| "is_not_found Interrupted = False"

text \<open>\<open>isinstance(exc, Exception)\<close>: a cancellation is none.\<close>

definition is_exception :: "failure \<Rightarrow> bool" where
  "is_exception e = (e \<noteq> Interrupted)"

lemma call_result_object:
  assumes "call_result cfg c outcome = Inr v" "\<not> preserves_shape c"
  obtains d where "v = JObj d"
  using assms
  by (cases c) (auto simp: request_result_def failed_def memory_response_def split: http_outcome.splits json.splits option.splits if_splits sum.splits)

text \<open>
  C35: A marked addition that fails is only reported as having had no effect when the upstream
  cannot have carried it out: the request was never sent, or the service refused it with a
  status other than a conflict or a server error.
\<close>

theorem addition_failure_classified:
  assumes "carries_marker (call_request cfg (Add_Memory payload))"
    and "call_result cfg (Add_Memory payload) outcome = Inl e"
  shows "\<not> is_ambiguous e \<longleftrightarrow>
    (\<exists>t. outcome = Not_Sent t) \<or> (\<exists>status t. outcome = Status_Error status t \<and> status < 500 \<and> status \<noteq> 409)"
  using assms
  by (auto simp: request_result_def failed_def status_outcome_unknown_def payload_request_def split: http_outcome.splits json.splits option.splits)

definition sample_config :: client_config where
  "sample_config = \<lparr>cl_memories_path = ''/memories'', cl_search_path = ''/search'', cl_quote = (\<lambda>s. s)\<rparr>"

lemma addition_failure_classified_witness:
  "\<exists>e. call_result sample_config (Add_Memory [(''metadata'', JObj [(''_mem0_sidecar_mutation_id'', JStr ''m'')])])
      (Status_Error 503 []) = Inl e \<and> is_ambiguous e"
proof -
  let ?payload = "[(''metadata'', JObj [(''_mem0_sidecar_mutation_id'', JStr ''m'')])]"
  obtain e where e: "call_result sample_config (Add_Memory ?payload) (Status_Error 503 []) = Inl e"
    by (simp add: request_result_def failed_def)
  moreover have "carries_marker (call_request sample_config (Add_Memory ?payload))"
    by (simp add: carries_marker_def payload_request_def with_messages_def jget_def)
  ultimately have "is_ambiguous e" using addition_failure_classified [of sample_config ?payload "Status_Error 503 []" e] by auto
  with e show ?thesis by blast
qed

end
