(* ===== verification/Extraction_Policy.thy ===== *)
theory Extraction_Policy
  imports Projects Scope
begin

text \<open>
  The extraction policy of a project or of one of its applications (\<open>core/extraction_policy.py\<close>):
  how it is stored in the settings of the project, the optimistic update guarded by a version,
  and what it makes of the payload of an addition.  The settings are validated by a library;
  \<open>to_int\<close> stands for its lenient reading of the version number.
\<close>

section \<open>Settings\<close>

definition MAX_INSTRUCTIONS :: nat where "MAX_INSTRUCTIONS = 8192"
definition MAX_TEMPORARY_TYPES :: nat where "MAX_TEMPORARY_TYPES = 64"

record extraction_settings =
  es_enabled :: bool
  es_allow_request_profiles :: bool
  es_dual_extraction_enabled :: bool
  es_user_instructions :: string
  es_agent_instructions :: string
  es_temporary_types :: "int dict"

record extraction_policy =
  ep_version :: int
  ep_settings :: extraction_settings

definition default_settings :: extraction_settings where
  "default_settings = \<lparr>es_enabled = False, es_allow_request_profiles = False,
     es_dual_extraction_enabled = False, es_user_instructions = [], es_agent_instructions = [],
     es_temporary_types = []\<rparr>"

definition validation_error :: "'a res" where
  "validation_error = raise (OtherError ''ValidationError'') ''ExtractionPolicyView''"

definition strict_bool :: "json dict \<Rightarrow> string \<Rightarrow> bool res" where
  "strict_bool d k =
     (case dget d k of None \<Rightarrow> Inr False | Some (JBool b) \<Rightarrow> Inr b | Some _ \<Rightarrow> validation_error)"

definition bounded_text :: "json dict \<Rightarrow> string \<Rightarrow> string res" where
  "bounded_text d k =
     (case dget d k of
        None \<Rightarrow> Inr []
      | Some (JStr s) \<Rightarrow> if length s \<le> MAX_INSTRUCTIONS then Inr s else validation_error
      | Some _ \<Rightarrow> validation_error)"

definition ttl_of :: "string \<times> json \<Rightarrow> (string \<times> int) res" where
  "ttl_of kv =
     (case kv of
        (k, JInt n) \<Rightarrow> if 1 \<le> n \<and> n \<le> 3650 then Inr (k, n) else validation_error
      | _ \<Rightarrow> validation_error)"

definition temporary_types :: "json dict \<Rightarrow> int dict res" where
  "temporary_types d =
     (case dget d ''temporary_types'' of
        None \<Rightarrow> Inr []
      | Some (JObj m) \<Rightarrow> if length m \<le> MAX_TEMPORARY_TYPES then rmap ttl_of m else validation_error
      | Some _ \<Rightarrow> validation_error)"

definition SETTINGS_FIELDS :: "string list" where
  "SETTINGS_FIELDS = [''enabled'', ''allow_request_profiles'', ''dual_extraction_enabled'',
     ''user_instructions'', ''agent_instructions'', ''temporary_types'']"

definition validate_settings :: "json \<Rightarrow> extraction_settings res" where
  "validate_settings v =
     (case v of
        JObj d \<Rightarrow>
          rbind (raise_if (\<not> set (dkeys d) \<subseteq> set SETTINGS_FIELDS)
            (Exn (OtherError ''ValidationError'') ''ExtractionPolicyView'')) (\<lambda>_.
          rbind (strict_bool d ''enabled'') (\<lambda>enabled.
          rbind (strict_bool d ''allow_request_profiles'') (\<lambda>profiles.
          rbind (strict_bool d ''dual_extraction_enabled'') (\<lambda>dual.
          rbind (bounded_text d ''user_instructions'') (\<lambda>user.
          rbind (bounded_text d ''agent_instructions'') (\<lambda>agent.
          rbind (temporary_types d) (\<lambda>types.
            Inr \<lparr>es_enabled = enabled, es_allow_request_profiles = profiles,
              es_dual_extraction_enabled = dual, es_user_instructions = user,
              es_agent_instructions = agent, es_temporary_types = types\<rparr>)))))))
      | _ \<Rightarrow> validation_error)"

definition validate_policy :: "(json \<Rightarrow> int option) \<Rightarrow> json \<Rightarrow> extraction_policy res" where
  "validate_policy to_int v =
     (case v of
        JObj d \<Rightarrow>
          if \<not> set (dkeys d) \<subseteq> {''version'', ''settings''} then validation_error
          else rbind (case dget d ''version'' of
              None \<Rightarrow> Inr 0
            | Some j \<Rightarrow> (case to_int j of Some n \<Rightarrow> if n \<ge> 0 then Inr n else validation_error | None \<Rightarrow> validation_error)) (\<lambda>version.
          rbind (case dget d ''settings'' of None \<Rightarrow> Inr default_settings | Some j \<Rightarrow> validate_settings j) (\<lambda>settings.
            Inr \<lparr>ep_version = version, ep_settings = settings\<rparr>))
      | _ \<Rightarrow> validation_error)"

text \<open>\<open>model_dump\<close>\<close>

definition dump_settings :: "extraction_settings \<Rightarrow> json" where
  "dump_settings s = JObj
     [(''enabled'', JBool (es_enabled s)), (''allow_request_profiles'', JBool (es_allow_request_profiles s)),
      (''dual_extraction_enabled'', JBool (es_dual_extraction_enabled s)),
      (''user_instructions'', JStr (es_user_instructions s)), (''agent_instructions'', JStr (es_agent_instructions s)),
      (''temporary_types'', JObj (map (\<lambda>(k, n). (k, JInt n)) (es_temporary_types s)))]"

definition dump_policy :: "extraction_policy \<Rightarrow> json" where
  "dump_policy p = JObj [(''version'', JInt (ep_version p)), (''settings'', dump_settings (ep_settings p))]"

section \<open>Reading and writing the policy\<close>

text \<open>\<open>value.get(key, default)\<close>, which a value that is no dictionary does not have.\<close>

definition member_or :: "json \<Rightarrow> string \<Rightarrow> json \<Rightarrow> json res" where
  "member_or v k d =
     (case v of JObj m \<Rightarrow> Inr (dget_or m k d) | _ \<Rightarrow> raise (OtherError ''AttributeError'') ''get'')"

definition settings_document :: "project \<Rightarrow> json res" where
  "settings_document p =
     (case prj_settings_json p of Some v \<Rightarrow> Inr v | None \<Rightarrow> raise (OtherError ''JSONDecodeError'') [])"

definition policy_record :: "string option \<Rightarrow> json \<Rightarrow> json res" where
  "policy_record app settings =
     rbind (member_or settings ''extraction_policies'' (JObj [])) (\<lambda>policies.
     rbind (member_or policies ''apps'' (JObj [])) (\<lambda>apps.
     rbind (case app of None \<Rightarrow> rbind (member_or apps [] JNull) (\<lambda>_. Inr JNull) | Some a \<Rightarrow> member_or apps a JNull) (\<lambda>record.
       if record = JNull then member_or policies ''project'' (JObj []) else Inr record)))"

definition get_extraction_policy ::
    "(json \<Rightarrow> int option) \<Rightarrow> project list \<Rightarrow> string \<Rightarrow> string option \<Rightarrow> extraction_policy res" where
  "get_extraction_policy to_int projects pid app =
     (case row_by prj_id pid projects of
        None \<Rightarrow> raise KeyError pid
      | Some p \<Rightarrow>
          rbind (settings_document p) (\<lambda>settings.
          rbind (policy_record app settings) (validate_policy to_int)))"

definition put_policy :: "string option \<Rightarrow> json \<Rightarrow> json dict \<Rightarrow> json dict" where
  "put_policy app v document =
     (let policies = jobject (dget_or document ''extraction_policies'' (JObj []));
          policies' = (case app of
              None \<Rightarrow> dset ''project'' v policies
            | Some a \<Rightarrow> dset ''apps'' (JObj (dset a v (jobject (dget_or policies ''apps'' (JObj []))))) policies)
      in dset ''extraction_policies'' (JObj policies') document)"

definition set_extraction_policy ::
    "(json \<Rightarrow> int option) \<Rightarrow> time \<Rightarrow> string \<Rightarrow> string option \<Rightarrow> int \<Rightarrow> extraction_settings \<Rightarrow> project list \<Rightarrow>
     (extraction_policy \<times> project list) res" where
  "set_extraction_policy to_int now pid app expected_version settings projects =
     rbind (lock_for_mutation pid projects) (\<lambda>p.
     rbind (get_extraction_policy to_int projects pid app) (\<lambda>current.
       if ep_version current \<noteq> expected_version
       then raise PolicyConflict ''Extraction policy version changed''
       else
         let updated = \<lparr>ep_version = ep_version current + 1, ep_settings = settings\<rparr>
         in Inr (updated, flush_project now
              (p\<lparr>prj_settings_json := Some (JObj (put_policy app (dump_policy updated) (project_settings p)))\<rparr>) projects)))"

section \<open>Applying it to an addition\<close>

definition PLUGIN_FIELDS :: "string list" where
  "PLUGIN_FIELDS = [''custom_instructions'', ''agent_custom_instructions'', ''custom_categories'', ''extraction_track'']"

definition request_category :: "json \<Rightarrow> (string \<times> string) option" where
  "request_category item =
     (case item of
        JStr s \<Rightarrow> Some (s, s)
      | JObj [(name, JStr description)] \<Rightarrow> Some (name, description)
      | _ \<Rightarrow> None)"

definition is_pair_or_name :: "json \<Rightarrow> bool" where
  "is_pair_or_name item = (case item of JStr _ \<Rightarrow> True | JObj d \<Rightarrow> length d = 1 | _ \<Rightarrow> False)"

definition category_document :: "string \<Rightarrow> string \<Rightarrow> json \<Rightarrow> json" where
  "category_document name description ttl =
     JObj [(''name'', JStr name), (''description'', JStr description), (''ttl_days'', ttl)]"

fun read_categories :: "string list \<Rightarrow> json list \<Rightarrow> json list res" where
  "read_categories names [] = Inr []"
| "read_categories names (item # items) =
     (if \<not> is_pair_or_name item
      then value_error ''Each custom category must be a name or single name/description pair''
      else case request_category item of
        Some (name, description) \<Rightarrow>
          if strip name = [] \<or> length name > 128 \<or> strip description = [] \<or> length description > 4096
             \<or> name \<in> set names
          then value_error ''Custom categories require unique bounded names and descriptions''
          else rbind (read_categories (name # names) items) (\<lambda>rest.
            Inr (category_document name description JNull # rest))
      | None \<Rightarrow> value_error ''Custom categories require unique bounded names and descriptions'')"

definition request_categories :: "json \<Rightarrow> json list res" where
  "request_categories v =
     (case v of
        JNull \<Rightarrow> Inr []
      | JList items \<Rightarrow>
          if length items > 64 then value_error ''custom_categories must be a list of at most 64 categories''
          else read_categories [] items
      | _ \<Rightarrow> value_error ''custom_categories must be a list of at most 64 categories'')"

definition instructions_ok :: "json \<Rightarrow> bool" where
  "instructions_ok v = (case v of JNull \<Rightarrow> True | JStr s \<Rightarrow> length s \<le> MAX_INSTRUCTIONS | _ \<Rightarrow> False)"

definition given_id :: "string option \<Rightarrow> bool" where
  "given_id v = (case v of Some (_ # _) \<Rightarrow> True | _ \<Rightarrow> False)"

definition check_track :: "scope \<Rightarrow> json \<Rightarrow> unit res" where
  "check_track sc track =
     (if track = JNull then Inr ()
      else if track = JStr ''personal'' then
        raise_if (\<not> given_id (scope_user_id sc) \<or> given_id (scope_agent_id sc))
          (Exn ValueError ''personal extraction requires only a user scope'')
      else if track = JStr ''project'' then
        raise_if (\<not> given_id (scope_agent_id sc) \<or> given_id (scope_user_id sc))
          (Exn ValueError ''project extraction requires only an agent scope'')
      else value_error ''extraction_track must be personal or project'')"

definition effective_categories ::
    "extraction_settings \<Rightarrow> category list \<Rightarrow> json list \<Rightarrow> category list \<Rightarrow> json list" where
  "effective_categories s enabled requested configured =
     (if es_allow_request_profiles s \<and> configured = [] then requested
      else map (\<lambda>c. category_document (cat_name c)
          (if cat_description c = [] then cat_name c else cat_description c)
          (case dget (es_temporary_types s) (cat_name c) of None \<Rightarrow> JNull | Some n \<Rightarrow> JInt n)) enabled)"

definition prompted :: "extraction_settings \<Rightarrow> bool \<Rightarrow> bool \<Rightarrow> json dict \<Rightarrow> json dict \<Rightarrow> json dict" where
  "prompted s agent_scoped has_profile payload cleaned =
     (let instructions = (if agent_scoped then es_agent_instructions s else es_user_instructions s) in
      if has_profile then
        let chosen = (if instructions = [] \<and> es_allow_request_profiles s
              then jget payload (if agent_scoped then ''agent_custom_instructions'' else ''custom_instructions'')
              else JStr instructions)
        in if truthy chosen then dset ''prompt'' chosen cleaned
           else if jget payload ''extraction_track'' \<noteq> JNull then ddel ''prompt'' cleaned
           else cleaned
      else if dget payload ''prompt'' = None \<and> instructions \<noteq> [] then dset ''prompt'' (JStr instructions) cleaned
      else cleaned)"

definition apply_extraction_policy ::
    "(json \<Rightarrow> int option) \<Rightarrow> project list \<Rightarrow> category list \<Rightarrow> scope \<Rightarrow> json dict \<Rightarrow> category list \<Rightarrow> json dict res" where
  "apply_extraction_policy to_int projects all_categories sc payload categories =
     (let has_profile = list_ex (\<lambda>k. k \<in> set PLUGIN_FIELDS) (dkeys payload);
          track = jget payload ''extraction_track'';
          no_inference = (jget payload ''infer'' = JBool False)
      in rbind (request_categories (jget payload ''custom_categories'')) (\<lambda>requested.
      rbind (raise_if (\<not> instructions_ok (jget payload ''custom_instructions''))
        (Exn ValueError ''custom_instructions must be a string of at most 8192 characters'')) (\<lambda>_.
      rbind (raise_if (\<not> instructions_ok (jget payload ''agent_custom_instructions''))
        (Exn ValueError ''agent_custom_instructions must be a string of at most 8192 characters'')) (\<lambda>_.
      rbind (check_track sc track) (\<lambda>_.
      rbind (get_extraction_policy to_int projects (scope_project_id sc) (Some (scope_app_id sc))) (\<lambda>policy.
      let s = ep_settings policy; cleaned = filter (\<lambda>(k, _). k \<notin> set PLUGIN_FIELDS) payload in
      if track \<noteq> JNull \<and> (\<not> es_enabled s \<or> \<not> es_dual_extraction_enabled s \<or> no_inference)
      then value_error ''Dual extraction requires an enabled operator dual policy and infer=true''
      else if \<not> es_enabled s \<or> no_inference then Inr cleaned
      else
        let agent_scoped = (given_id (scope_agent_id sc) \<and> \<not> given_id (scope_user_id sc));
            configured = list_project_categories (scope_project_id sc) all_categories
        in Inr (dset ''extraction_policy'' (JObj
             [(''version'', JInt (ep_version policy)),
              (''fact_kind'', JStr (if agent_scoped then ''agent_experience'' else ''user_fact'')),
              (''categories'', JList (effective_categories s categories requested configured))])
             (prompted s agent_scoped has_profile payload cleaned))))))))"

section \<open>What the policy guarantees\<close>

text \<open>Settings as the validation leaves them.\<close>

definition settings_ok :: "extraction_settings \<Rightarrow> bool" where
  "settings_ok s =
     (length (es_user_instructions s) \<le> MAX_INSTRUCTIONS \<and> length (es_agent_instructions s) \<le> MAX_INSTRUCTIONS
      \<and> length (es_temporary_types s) \<le> MAX_TEMPORARY_TYPES
      \<and> list_all (\<lambda>(k, n). 1 \<le> n \<and> n \<le> 3650) (es_temporary_types s))"

lemma rmap_ttl:
  "list_all (\<lambda>(k, n). 1 \<le> n \<and> n \<le> 3650) ts \<Longrightarrow> rmap ttl_of (map (\<lambda>(k, n). (k, JInt n)) ts) = Inr ts"
  by (induction ts) (auto simp: ttl_of_def res_simps)

lemma rmap_ttl_ok: "rmap ttl_of m = Inr ts \<Longrightarrow> length ts = length m \<and> list_all (\<lambda>(k, n). 1 \<le> n \<and> n \<le> 3650) ts"
  by (induction m arbitrary: ts)
    (auto simp: ttl_of_def rbind_def validation_error_def split: sum.splits prod.splits json.splits if_splits)

lemma validate_dump_settings: "settings_ok s \<Longrightarrow> validate_settings (dump_settings s) = Inr s"
  by (cases s) (simp add: validate_settings_def dump_settings_def SETTINGS_FIELDS_def strict_bool_def
    bounded_text_def temporary_types_def settings_ok_def rmap_ttl raise_if_def rbind_def)

lemma validate_settings_ok: "validate_settings v = Inr s \<Longrightarrow> settings_ok s"
  by (auto simp: validate_settings_def settings_ok_def bounded_text_def temporary_types_def validation_error_def
    raise_if_def rbind_def dest: rmap_ttl_ok split: json.splits sum.splits option.splits if_splits)

lemma validate_dump_policy:
  "settings_ok s \<Longrightarrow> v \<ge> 0 \<Longrightarrow> to_int (JInt v) = Some v \<Longrightarrow>
     validate_policy to_int (dump_policy \<lparr>ep_version = v, ep_settings = s\<rparr>) = Inr \<lparr>ep_version = v, ep_settings = s\<rparr>"
  by (simp add: validate_policy_def dump_policy_def validate_dump_settings res_simps)

lemma validate_policy_version: "validate_policy to_int j = Inr p \<Longrightarrow> ep_version p \<ge> 0"
  by (auto simp: validate_policy_def validation_error_def rbind_def split: json.splits sum.splits option.splits if_splits)

text \<open>The settings of a project whose policy can be read.\<close>

lemma policy_record_object:
  assumes "policy_record app settings = Inr r"
  obtains d p a where "settings = JObj d" "dget_or d ''extraction_policies'' (JObj []) = JObj p"
    "dget_or p ''apps'' (JObj []) = JObj a"
  using assms by (auto simp: policy_record_def member_or_def rbind_def split: json.splits sum.splits option.splits)

lemma policy_record_put:
  assumes "policy_record app (JObj d) = Inr r" "v \<noteq> JNull"
  shows "policy_record other (JObj (put_policy app v d)) =
    (if other = app \<or> app = None \<and> (\<exists>a. other = Some a \<and> policy_record other (JObj d) = policy_record None (JObj d)
       \<and> dget_or (jobject (dget_or (jobject (dget_or d ''extraction_policies'' (JObj []))) ''apps'' (JObj []))) a JNull = JNull)
     then Inr v else policy_record other (JObj d))"
proof -
  obtain p a where "dget_or d ''extraction_policies'' (JObj []) = JObj p" "dget_or p ''apps'' (JObj []) = JObj a"
    using assms(1) by (rule policy_record_object) auto
  then show ?thesis
    using assms(2)
    by (cases app; cases other)
      (auto simp: policy_record_def put_policy_def member_or_def jobject_def dget_or_def update_conv' rbind_def
        split: option.splits)
qed

lemma settings_after_flush:
  assumes "row_by prj_id pid ps = Some p" "prj_id q = prj_id p"
  shows "\<exists>q'. row_by prj_id pid (flush_project now q ps) = Some q' \<and> prj_settings_json q' = prj_settings_json q"
proof -
  have "prj_id p = pid" using assms(1) by (simp add: row_by_def find_Some_iff) force
  show ?thesis
  proof (cases "row_by prj_id (prj_id q) ps = Some q")
    case True
    then show ?thesis using assms \<open>prj_id p = pid\<close> by (simp add: flush_project_def)
  next
    case False
    then show ?thesis
      using assms \<open>prj_id p = pid\<close>
      by (simp add: flush_project_def save_def row_by_def) (induction ps; force split: if_splits)
  qed
qed

lemma set_extraction_policyE:
  assumes "set_extraction_policy to_int now pid app expected settings ps = Inr (v, ps')"
  obtains p d r where "row_by prj_id pid ps = Some p" "prj_settings_json p = Some (JObj d)"
    "policy_record app (JObj d) = Inr r" "v = \<lparr>ep_version = expected + 1, ep_settings = settings\<rparr>"
    "0 \<le> expected" "ps' = flush_project now (p\<lparr>prj_settings_json := Some (JObj (put_policy app (dump_policy v) d))\<rparr>) ps"
    "\<exists>current. get_extraction_policy to_int ps pid app = Inr current \<and> ep_version current = expected"
proof -
  from assms obtain p where p: "row_by prj_id pid ps = Some p"
    by (auto simp: set_extraction_policy_def lock_for_mutation_def rbind_def split: option.splits)
  with assms obtain j r c where j: "prj_settings_json p = Some j" "policy_record app j = Inr r"
    "validate_policy to_int r = Inr c" "ep_version c = expected"
    "v = \<lparr>ep_version = ep_version c + 1, ep_settings = settings\<rparr>"
    "ps' = flush_project now (p\<lparr>prj_settings_json := Some (JObj (put_policy app (dump_policy v) (project_settings p)))\<rparr>) ps"
    by (auto simp: set_extraction_policy_def lock_for_mutation_def get_extraction_policy_def settings_document_def
      Let_def rbind_def split: option.splits sum.splits if_splits)
  from j(2) obtain d where "j = JObj d" by (rule policy_record_object)
  with p j validate_policy_version [OF j(3)] show ?thesis
    by (intro that [of p d r]) (auto simp: project_settings_def get_extraction_policy_def settings_document_def)
qed


lemma prompted_keys: "set (dkeys (prompted s ag hp payload cleaned)) \<subseteq> insert ''prompt'' (set (dkeys cleaned))"
  unfolding prompted_def Let_def by (auto simp del: set_map simp add: dkeys_dset dkeys_ddel split del: if_split split: if_split_asm)

lemma apply_extraction_policyE:
  assumes "apply_extraction_policy to_int ps cs sc payload enabled = Inr r"
  obtains policy x s ag hp where
    "get_extraction_policy to_int ps (scope_project_id sc) (Some (scope_app_id sc)) = Inr policy"
    "r = (let clean = filter (\<lambda>(k, _). k \<notin> set PLUGIN_FIELDS) payload in
       if \<not> es_enabled (ep_settings policy) \<or> jget payload ''infer'' = JBool False then clean
       else dset ''extraction_policy'' x (prompted s ag hp payload clean))"
proof -
  obtain requested policy where
    "get_extraction_policy to_int ps (scope_project_id sc) (Some (scope_app_id sc)) = Inr policy"
    "request_categories (jget payload ''custom_categories'') = Inr requested"
    using assms unfolding apply_extraction_policy_def Let_def by (auto simp: rbind_Inr_iff)
  then show ?thesis
    using assms unfolding apply_extraction_policy_def Let_def
    by (cases "\<not> es_enabled (ep_settings policy) \<or> jget payload ''infer'' = JBool False")
      (auto simp: rbind_Inr_iff Let_def split: if_split_asm intro!: that)
qed

text \<open>
  The fields that carry the profile of a plugin never reach the upstream service, and a policy
  that is switched off, or an addition without inference, is passed on without instructions or
  categories of the operator.
\<close>

lemma plugin_fields_stripped:
  assumes "apply_extraction_policy to_int ps cs sc payload enabled = Inr r"
  shows "set (dkeys r) \<inter> set PLUGIN_FIELDS = {}
    \<and> (\<forall>policy. get_extraction_policy to_int ps (scope_project_id sc) (Some (scope_app_id sc)) = Inr policy \<longrightarrow>
         \<not> es_enabled (ep_settings policy) \<or> jget payload ''infer'' = JBool False \<longrightarrow>
         r = filter (\<lambda>(k, _). k \<notin> set PLUGIN_FIELDS) payload)"
proof -
  let ?clean = "filter (\<lambda>(k, _). k \<notin> set PLUGIN_FIELDS) payload"
  have clean: "set (dkeys ?clean) \<inter> set PLUGIN_FIELDS = {}" by auto
  have new: "''prompt'' \<notin> set PLUGIN_FIELDS" "''extraction_policy'' \<notin> set PLUGIN_FIELDS"
    by (simp_all add: PLUGIN_FIELDS_def)
  have full: "set (dkeys (dset ''extraction_policy'' x (prompted s ag hp payload ?clean))) \<inter> set PLUGIN_FIELDS = {}" for x s ag hp
    unfolding dkeys_dset using prompted_keys [of s ag hp payload ?clean] clean new by blast
  obtain policy x s ag hp where
    p: "get_extraction_policy to_int ps (scope_project_id sc) (Some (scope_app_id sc)) = Inr policy"
    and r: "r = (if \<not> es_enabled (ep_settings policy) \<or> jget payload ''infer'' = JBool False then ?clean
       else dset ''extraction_policy'' x (prompted s ag hp payload ?clean))"
    using assms by (auto elim: apply_extraction_policyE simp: Let_def)
  have "set (dkeys r) \<inter> set PLUGIN_FIELDS = {}" unfolding r using clean full by simp
  with p r show ?thesis by simp
qed

section \<open>Witness\<close>

definition sample_settings :: extraction_settings where
  "sample_settings = default_settings\<lparr>es_enabled := True, es_temporary_types := [(''note'', 30)]\<rparr>"

definition read_int :: "json \<Rightarrow> int option" where
  "read_int v = (case v of JInt n \<Rightarrow> Some n | _ \<Rightarrow> None)"

definition policy_projects :: "project list" where
  "policy_projects = [new_project 0 ''p'' ''n'' ''u'' None None None]"

definition policy_updated :: "extraction_policy \<times> project list" where
  "policy_updated = (case set_extraction_policy read_int 1 ''p'' (Some ''a'') 0 sample_settings policy_projects of
     Inr r \<Rightarrow> r | Inl _ \<Rightarrow> (\<lparr>ep_version = 0, ep_settings = default_settings\<rparr>, []))"

lemma policy_updated_ok:
  "set_extraction_policy read_int 1 ''p'' (Some ''a'') 0 sample_settings policy_projects = Inr policy_updated"
  by code_simp


end
