(* ===== verification/Trace_Payloads.thy ===== *)
theory Trace_Payloads
  imports Py_Text
begin

text \<open>
  Traces of requests and responses (\<open>core/trace_payloads.py\<close>): a document is cut down to a
  bounded size and the values of credential fields are replaced before it is stored.  The
  documents are decoded JSON; Python objects that JSON does not have (bytes, cyclic or
  misbehaving containers, keys that are not strings) are not modelled.  The text of a float
  is a parameter.
\<close>

section \<open>Limits and markers\<close>

definition MAX_STRING_BYTES :: nat where "MAX_STRING_BYTES = 4096"
definition MAX_SECRET_KEY_CHARS :: nat where "MAX_SECRET_KEY_CHARS = 256"
definition MAX_ARRAY_ITEMS :: nat where "MAX_ARRAY_ITEMS = 50"
definition MAX_OBJECT_FIELDS :: nat where "MAX_OBJECT_FIELDS = 50"
definition MAX_MAPPING_SCAN_ITEMS :: nat where "MAX_MAPPING_SCAN_ITEMS = 64"
definition MAX_DEPTH :: nat where "MAX_DEPTH = 8"
definition MAX_TRAVERSAL_NODES :: nat where "MAX_TRAVERSAL_NODES = 512"
definition MAX_INT_BITS :: nat where "MAX_INT_BITS = 4096"
definition MAX_SCORE_INT_BITS :: nat where "MAX_SCORE_INT_BITS = 53"
definition MAX_TOTAL_INT_BITS :: nat where "MAX_TOTAL_INT_BITS = 63"
definition MAX_PREVIEWS :: nat where "MAX_PREVIEWS = 20"
definition MAX_PREVIEW_SCAN_ITEMS :: nat where "MAX_PREVIEW_SCAN_ITEMS = 100"

definition TRUNCATION_MARKER :: string where "TRUNCATION_MARKER = ''...[TRUNCATED]''"
definition REDACTED :: string where "REDACTED = ''[REDACTED]''"
definition MAX_DEPTH_MARKER :: string where "MAX_DEPTH_MARKER = ''[MAX_DEPTH]''"
definition NODE_LIMIT_MARKER :: string where "NODE_LIMIT_MARKER = ''[NODE_LIMIT]''"

section \<open>Credential keys\<close>

definition NON_CREDENTIAL_KEY_TOKENS :: "string list" where
  "NON_CREDENTIAL_KEY_TOKENS = [''favorite'', ''has'', ''is'', ''require'', ''requires'']"

definition NON_CREDENTIAL_TRAILING_TOKENS :: "string list" where
  "NON_CREDENTIAL_TRAILING_TOKENS =
     [''configured'', ''count'', ''counts'', ''enabled'', ''present'', ''required'', ''status'']"

definition NON_CREDENTIAL_NORMALIZED_KEYS :: "string list" where
  "NON_CREDENTIAL_NORMALIZED_KEYS = [''favoritecookie'', ''haspassword'', ''issecret'', ''requiresauthorization'']"

definition CREDENTIAL_NORMALIZED_SUFFIXES :: "string list" where
  "CREDENTIAL_NORMALIZED_SUFFIXES =
     [''accesskey'', ''accesskeyid'', ''accesskeyids'', ''accesskeys'', ''apikey'', ''apikeys'',
      ''authorization'', ''authorizations'', ''authorizationcode'', ''authorizationcodes'',
      ''codeverifier'', ''codeverifiers'', ''cookie'', ''cookies'', ''credential'', ''credentials'',
      ''encryptionkey'', ''encryptionkeys'', ''passphrase'', ''passphrases'', ''passwd'', ''passwds'',
      ''password'', ''passwords'', ''privatekey'', ''privatekeys'', ''secret'', ''secretaccesskey'',
      ''secretaccesskeys'', ''secretkey'', ''secretkeys'', ''secrets'', ''sessionid'', ''sessionids'',
      ''signingkey'', ''signingkeys'', ''token'', ''tokens'']"

text \<open>
  \<open>([A-Z]+)([A-Z][a-z])\<close> and \<open>([a-z0-9])([A-Z])\<close>, each replaced by \<open>\1_\2\<close>: the second
  group has a known length, so the replacement puts the underscore before the last characters
  of the match.
\<close>

definition camel_acronym :: rx where
  "camel_acronym = Seq (Plus is_upper_AZ) (Seq (Cls is_upper_AZ) (Cls is_lower_az))"

definition camel_word :: rx where
  "camel_word = Seq (Cls is_az09) (Cls is_upper_AZ)"

definition split_before_last :: "nat \<Rightarrow> rx \<Rightarrow> string \<Rightarrow> string" where
  "split_before_last n r s = concat (map (case_sum (\<lambda>c. [c])
     (\<lambda>m. take (length m - n) m @ ''_'' @ drop (length m - n) m)) (rx_pieces r (None, s)))"

definition key_tail :: "string \<Rightarrow> string" where
  "key_tail key = drop (length key - MAX_SECRET_KEY_CHARS) key"

definition key_tokens :: "string \<Rightarrow> string list" where
  "key_tokens key =
     map lower (find_runs is_ascii_alnum
       (split_before_last 1 camel_word (split_before_last 2 camel_acronym (key_tail key))))"

definition ends_with_any :: "string list \<Rightarrow> string \<Rightarrow> bool" where
  "ends_with_any suffixes s = list_ex (\<lambda>x. ends_with x s) suffixes"

definition is_secret_key :: "string \<Rightarrow> bool" where
  "is_secret_key key =
     (let tokens = key_tokens key; normalized = concat tokens in
      tokens \<noteq> [] \<and> normalized \<notin> set NON_CREDENTIAL_NORMALIZED_KEYS
      \<and> last tokens \<notin> set NON_CREDENTIAL_TRAILING_TOKENS
      \<and> \<not> ends_with_any NON_CREDENTIAL_TRAILING_TOKENS normalized
      \<and> \<not> list_ex (\<lambda>t. t \<in> set NON_CREDENTIAL_KEY_TOKENS) (butlast tokens)
      \<and> ends_with_any CREDENTIAL_NORMALIZED_SUFFIXES normalized)"

section \<open>Sanitising\<close>

text \<open>The characters of a text whose encoding fits (a character cut in half is dropped).\<close>

fun utf8_take :: "nat \<Rightarrow> string \<Rightarrow> string" where
  "utf8_take n [] = []"
| "utf8_take n (c # cs) =
     (if utf8_len [c] \<le> n then c # utf8_take (n - utf8_len [c]) cs else [])"

definition bounded_string :: "string \<Rightarrow> string" where
  "bounded_string s =
     (if length s \<le> MAX_STRING_BYTES \<and> utf8_len s \<le> MAX_STRING_BYTES then s
      else utf8_take (MAX_STRING_BYTES - utf8_len TRUNCATION_MARKER) (take (MAX_STRING_BYTES + 1) s) @ TRUNCATION_MARKER)"

fun bit_length :: "nat \<Rightarrow> nat" where
  "bit_length n = (if n = 0 then 0 else Suc (bit_length (n div 2)))"

declare bit_length.simps [simp del]

definition safe_integer :: "int \<Rightarrow> json" where
  "safe_integer i =
     (let bits = bit_length (nat \<bar>i\<bar>) in
      if bits > MAX_INT_BITS then JStr (''[INTEGER_TOO_LARGE:'' @ nat_str bits @ ''_BITS]'') else JInt i)"

definition safe_float :: "pyfloat \<Rightarrow> json" where
  "safe_float f = (if isfinite f then JFloat f else JNull)"

text \<open>A loop that threads the traversal budget.\<close>

fun thread :: "('a \<Rightarrow> 's \<Rightarrow> 'b \<times> 's) \<Rightarrow> 'a list \<Rightarrow> 's \<Rightarrow> 'b list \<times> 's" where
  "thread f [] s = ([], s)"
| "thread f (x # xs) s = (case f x s of (y, s') \<Rightarrow> case thread f xs s' of (ys, s'') \<Rightarrow> (y # ys, s''))"

definition sanitize_member ::
    "(json \<Rightarrow> nat \<Rightarrow> json \<times> nat) \<Rightarrow> json dict \<Rightarrow> string \<Rightarrow> nat \<Rightarrow> (string \<times> json) \<times> nat" where
  "sanitize_member f m output_key budget =
     (case filter (\<lambda>(k, _). bounded_string k = output_key) m of
        [(raw_key, item)] \<Rightarrow>
          if is_secret_key raw_key then ((output_key, JStr REDACTED), budget)
          else (case f item budget of (j, budget') \<Rightarrow> ((output_key, j), budget'))
      | matches \<Rightarrow> ((output_key, JObj [(''_trace_key_collision'', JInt (int (length matches)))]), budget))"

definition output_keys :: "json dict \<Rightarrow> string list" where
  "output_keys m = take MAX_OBJECT_FIELDS (sort (remdups (map bounded_string (dkeys m))))"

definition note_truncated_fields :: "nat \<Rightarrow> json dict \<Rightarrow> json dict" where
  "note_truncated_fields n members =
     (if n > MAX_OBJECT_FIELDS then dset ''_trace_truncated_fields'' (JInt (int n - int MAX_OBJECT_FIELDS)) members
      else members)"

definition sanitize_mapping :: "(json \<Rightarrow> nat \<Rightarrow> json \<times> nat) \<Rightarrow> json dict \<Rightarrow> nat \<Rightarrow> json \<times> nat" where
  "sanitize_mapping f m budget =
     (if length m > MAX_MAPPING_SCAN_ITEMS
      then (JObj [(''_trace_truncated'', JBool True), (''original_fields'', JInt (int (length m)))], budget)
      else case thread (sanitize_member f m) (output_keys m) budget of
        (members, budget') \<Rightarrow> (JObj (note_truncated_fields (length m) members), budget'))"

definition truncated_items :: "nat \<Rightarrow> json list" where
  "truncated_items n =
     (if n > MAX_ARRAY_ITEMS then [JObj [(''_trace_truncated_items'', JInt (int n - int MAX_ARRAY_ITEMS))]] else [])"

definition sanitize_sequence :: "(json \<Rightarrow> nat \<Rightarrow> json \<times> nat) \<Rightarrow> json list \<Rightarrow> nat \<Rightarrow> json \<times> nat" where
  "sanitize_sequence f xs budget =
     (case thread f (take MAX_ARRAY_ITEMS xs) budget of
        (items, budget') \<Rightarrow> (JList (items @ truncated_items (length xs)), budget'))"

text \<open>\<open>_sanitize\<close> at \<open>room = _MAX_DEPTH + 1 - depth\<close>; the budget is the number of nodes left.\<close>

fun sanitize :: "nat \<Rightarrow> json \<Rightarrow> nat \<Rightarrow> json \<times> nat" where
  "sanitize 0 v budget = (JStr MAX_DEPTH_MARKER, budget)"
| "sanitize (Suc room) v budget =
     (if budget = 0 then (JStr NODE_LIMIT_MARKER, 0)
      else case v of
        JNull \<Rightarrow> (JNull, budget - 1)
      | JBool b \<Rightarrow> (JBool b, budget - 1)
      | JInt i \<Rightarrow> (safe_integer i, budget - 1)
      | JFloat x \<Rightarrow> (safe_float x, budget - 1)
      | JStr s \<Rightarrow> (JStr (bounded_string s), budget - 1)
      | JObj m \<Rightarrow> sanitize_mapping (sanitize room) m (budget - 1)
      | JList xs \<Rightarrow> sanitize_sequence (sanitize room) xs (budget - 1))"

definition sanitize_trace_payload :: "json \<Rightarrow> json" where
  "sanitize_trace_payload v = fst (sanitize (MAX_DEPTH + 1) v MAX_TRAVERSAL_NODES)"

section \<open>Documents of bounded size\<close>

definition compact_style :: json_style where
  "compact_style = \<lparr>js_item_separator = '','', js_key_separator = '':'', js_ensure_ascii = False, js_sort_keys = True\<rparr>"

definition compact_bytes :: "(pyfloat \<Rightarrow> string) \<Rightarrow> json \<Rightarrow> nat" where
  "compact_bytes fr j = utf8_len (json_dumps fr compact_style j)"

definition truncated_marker :: "nat \<Rightarrow> json dict" where
  "truncated_marker n = [(''_trace_truncated'', JBool True), (''original_bytes'', JInt (int n))]"

fun shrink :: "(pyfloat \<Rightarrow> string) \<Rightarrow> nat \<Rightarrow> (string \<times> nat) list \<Rightarrow> json dict \<Rightarrow> json dict option" where
  "shrink fr max_bytes [] document = None"
| "shrink fr max_bytes ((key, bytes) # candidates) document =
     (let document' = dset key (JObj (truncated_marker bytes)) document in
      if compact_bytes fr (JObj document') \<le> max_bytes then Some document'
      else shrink fr max_bytes candidates document')"

definition bounded_trace_document :: "(pyfloat \<Rightarrow> string) \<Rightarrow> int \<Rightarrow> json \<Rightarrow> json dict res" where
  "bounded_trace_document fr max_bytes v =
     (if max_bytes < 2 then value_error ''max_bytes must be at least 2 bytes for a JSON object''
      else
        let sanitized = sanitize_trace_payload v;
            document = (case sanitized of JObj m \<Rightarrow> m | _ \<Rightarrow> [(''value'', sanitized)]);
            original = compact_bytes fr (JObj document);
            n = nat max_bytes;
            candidates = sort_key (\<lambda>(k, b). (- int b, k)) (map (\<lambda>(k, j). (k, compact_bytes fr j)) document);
            fallback = truncated_marker original
        in if original \<le> n then Inr document
           else case shrink fr n candidates document of
             Some d \<Rightarrow> Inr d
           | None \<Rightarrow> if compact_bytes fr (JObj fallback) \<le> n then Inr fallback else Inr [])"

section \<open>Previews of results\<close>

definition PREVIEW_STRING_FIELDS :: "string list" where
  "PREVIEW_STRING_FIELDS = [''agent_id'', ''app_id'', ''created_at'', ''expiration_date'', ''id'', ''memory'',
     ''memory_id'', ''run_id'', ''updated_at'', ''user_id'']"

definition preview_categories :: "json option \<Rightarrow> json option" where
  "preview_categories v =
     (case v of
        Some (JList xs) \<Rightarrow>
          let categories = filter (\<lambda>j. case j of JStr _ \<Rightarrow> True | _ \<Rightarrow> False) (take MAX_ARRAY_ITEMS xs)
          in if categories = [] then None else Some (JList categories)
      | _ \<Rightarrow> None)"

definition preview_score :: "json option \<Rightarrow> json option" where
  "preview_score v =
     (case v of
        Some (JInt i) \<Rightarrow> if bit_length (nat \<bar>i\<bar>) \<le> MAX_SCORE_INT_BITS then Some (JInt i) else None
      | Some (JFloat f) \<Rightarrow> if isfinite f then Some (JFloat f) else None
      | _ \<Rightarrow> None)"

definition preview_strings :: "json dict \<Rightarrow> json dict" where
  "preview_strings item =
     List.map_filter (\<lambda>k. case dget item k of Some (JStr s) \<Rightarrow> Some (k, JStr s) | _ \<Rightarrow> None) PREVIEW_STRING_FIELDS"

definition opt_member :: "string \<Rightarrow> json option \<Rightarrow> json dict" where
  "opt_member k v = (case v of None \<Rightarrow> [] | Some j \<Rightarrow> [(k, j)])"

definition preview_item :: "json \<Rightarrow> json option" where
  "preview_item item =
     (case item of
        JObj m \<Rightarrow>
          let preview = preview_strings m @ opt_member ''categories'' (preview_categories (dget m ''categories''))
                @ opt_member ''score'' (preview_score (dget m ''score''))
          in if preview = [] then None
             else (case sanitize_trace_payload (JObj preview) of JObj d \<Rightarrow> Some (JObj d) | _ \<Rightarrow> None)
      | _ \<Rightarrow> None)"

definition trusted_total :: "json option \<Rightarrow> nat \<Rightarrow> int option" where
  "trusted_total v result_count =
     (case v of
        Some (JInt i) \<Rightarrow>
          if bit_length (nat \<bar>i\<bar>) \<le> MAX_TOTAL_INT_BITS \<and> i \<ge> int result_count then Some i else None
      | _ \<Rightarrow> None)"

definition trace_result_summary :: "json dict \<Rightarrow> int \<times> json list" where
  "trace_result_summary response =
     (let results = (case dget response ''results'' of Some (JList xs) \<Rightarrow> xs | _ \<Rightarrow> []);
          count = length results;
          previews = take MAX_PREVIEWS (List.map_filter preview_item (take MAX_PREVIEW_SCAN_ITEMS results))
      in (case trusted_total (dget response ''total'') count of Some t \<Rightarrow> t | None \<Rightarrow> int count, previews))"

section \<open>Credentials do not reach the trace\<close>

text \<open>The document with the values of all credential keys blanked.\<close>

fun blank_secrets :: "json \<Rightarrow> json" where
  "blank_secrets (JList xs) = JList (map blank_secrets xs)"
| "blank_secrets (JObj m) = JObj (map (\<lambda>(k, v). (k, if is_secret_key k then JNull else blank_secrets v)) m)"
| "blank_secrets v = v"

lemma thread_map: "(\<And>x s. f (g x) s = f x s) \<Longrightarrow> thread f (map g xs) s = thread f xs s"
  by (induction xs arbitrary: s) simp_all

lemma thread_cong: "(\<And>x s. x \<in> set xs \<Longrightarrow> f x s = g x s) \<Longrightarrow> thread f xs s = thread g xs s"
  by (induction xs arbitrary: s) (simp_all split: prod.splits)

lemma sanitize_member_blank:
  assumes "\<And>v b. f (blank_secrets v) b = f v b"
  shows "sanitize_member f (map (\<lambda>(k, v). (k, if is_secret_key k then JNull else blank_secrets v)) m) key b
    = sanitize_member f m key b"
proof -
  let ?h = "\<lambda>(k, v). (k, if is_secret_key k then JNull else blank_secrets v)"
  have "filter (\<lambda>(k, _). bounded_string k = key) (map ?h m) = map ?h (filter (\<lambda>(k, _). bounded_string k = key) m)"
    by (simp add: filter_map comp_def split_def)
  then show ?thesis
    by (simp add: sanitize_member_def assms split: list.splits prod.splits)
qed

lemma sanitize_blank: "sanitize room (blank_secrets v) b = sanitize room v b"
proof (induction room arbitrary: v b)
  case (Suc room)
  show ?case
  proof (cases v)
    case (JList xs)
    then show ?thesis
      by (simp add: sanitize_sequence_def take_map thread_map [of "sanitize room" blank_secrets] Suc.IH)
  next
    case (JObj m)
    have keys: "output_keys (map (\<lambda>(k, v). (k, if is_secret_key k then JNull else blank_secrets v)) m) = output_keys m"
      by (simp add: output_keys_def comp_def split_def)
    have "sanitize_member (sanitize room) (map (\<lambda>(k, v). (k, if is_secret_key k then JNull else blank_secrets v)) m)
        = sanitize_member (sanitize room) m"
      by (intro ext sanitize_member_blank Suc.IH)
    then show ?thesis
      by (simp add: JObj sanitize_mapping_def keys)
  qed simp_all
qed simp

text \<open>No credential reaches a trace: the stored document does not depend on the values that the
  received document has under credential keys, at any depth.\<close>

lemma trace_document_blank:
  "bounded_trace_document fr n (blank_secrets v) = bounded_trace_document fr n v"
  by (simp add: bounded_trace_document_def sanitize_trace_payload_def sanitize_blank)

section \<open>Bounds\<close>

text \<open>
  A stored document: strings and keys of at most 4096 bytes (the note on an integer that is too
  large apart, whose length depends on the integer), finite numbers (so that it can be
  written), at most 51 entries in a container, distinct keys, and containers nested at most so deep.
\<close>

definition integer_marker :: "nat \<Rightarrow> string" where
  "integer_marker bits = ''[INTEGER_TOO_LARGE:'' @ nat_str bits @ ''_BITS]''"

definition scalar_ok :: "json \<Rightarrow> bool" where
  "scalar_ok j = (case j of
       JFloat f \<Rightarrow> isfinite f
     | JStr s \<Rightarrow> utf8_len s \<le> MAX_STRING_BYTES \<or> (\<exists>bits > MAX_INT_BITS. s = integer_marker bits)
     | JList _ \<Rightarrow> False | JObj _ \<Rightarrow> False | _ \<Rightarrow> True)"

fun trace_ok :: "nat \<Rightarrow> json \<Rightarrow> bool" where
  "trace_ok 0 j = scalar_ok j"
| "trace_ok (Suc n) j = (case j of
      JList xs \<Rightarrow> length xs \<le> MAX_ARRAY_ITEMS + 1 \<and> list_all (trace_ok n) xs
    | JObj m \<Rightarrow> length m \<le> MAX_OBJECT_FIELDS + 1 \<and> distinct (dkeys m)
        \<and> list_all (\<lambda>(k, v). utf8_len k \<le> MAX_STRING_BYTES \<and> trace_ok n v) m
    | _ \<Rightarrow> scalar_ok j)"

lemma trace_ok_simps [simp]:
  "trace_ok (Suc n) (JList xs) \<longleftrightarrow> length xs \<le> MAX_ARRAY_ITEMS + 1 \<and> list_all (trace_ok n) xs"
  "trace_ok (Suc n) (JObj m) \<longleftrightarrow> length m \<le> MAX_OBJECT_FIELDS + 1 \<and> distinct (dkeys m)
     \<and> list_all (\<lambda>(k, v). utf8_len k \<le> MAX_STRING_BYTES \<and> trace_ok n v) m"
  by simp_all

lemma safe_integer_ok: "scalar_ok (safe_integer i)"
  by (auto simp: scalar_ok_def safe_integer_def integer_marker_def Let_def)

lemma trace_ok_scalar: "scalar_ok j \<Longrightarrow> trace_ok n j"
  by (cases n; cases j) (auto simp: scalar_ok_def)

lemma trace_ok_Suc: "trace_ok n j \<Longrightarrow> trace_ok (Suc n) j"
proof (induction n arbitrary: j)
  case 0
  then show ?case by (cases j) (auto simp: scalar_ok_def)
next
  case (Suc n)
  then show ?case by (cases j) (auto simp: list_all_iff)
qed

declare trace_ok.simps(2) [simp del]

lemma utf8_take_len: "utf8_len (utf8_take n s) \<le> n"
  by (induction n s rule: utf8_take.induct) (auto simp: utf8_len_def split: if_splits)

lemma bounded_string_len: "utf8_len (bounded_string s) \<le> MAX_STRING_BYTES"
proof -
  have "utf8_len TRUNCATION_MARKER = 14" by code_simp
  then show ?thesis
    using utf8_take_len [of "MAX_STRING_BYTES - 14" "take (MAX_STRING_BYTES + 1) s"]
    by (auto simp: bounded_string_def MAX_STRING_BYTES_def)
qed

lemma markers_len [simp]:
  "utf8_len MAX_DEPTH_MARKER \<le> MAX_STRING_BYTES" "utf8_len NODE_LIMIT_MARKER \<le> MAX_STRING_BYTES"
  "utf8_len REDACTED \<le> MAX_STRING_BYTES" "utf8_len ''_trace_truncated_fields'' \<le> MAX_STRING_BYTES"
  "utf8_len ''_trace_truncated_items'' \<le> MAX_STRING_BYTES" "utf8_len ''_trace_key_collision'' \<le> MAX_STRING_BYTES"
  "utf8_len ''_trace_truncated'' \<le> MAX_STRING_BYTES" "utf8_len ''original_fields'' \<le> MAX_STRING_BYTES"
  "utf8_len ''original_bytes'' \<le> MAX_STRING_BYTES" "utf8_len ''value'' \<le> MAX_STRING_BYTES"
  by code_simp+

lemma thread_all:
  assumes "\<And>x s. x \<in> set xs \<Longrightarrow> P (fst (f x s))"
  shows "list_all P (fst (thread f xs s))"
  using assms by (induction xs arbitrary: s) (simp_all add: split_def)

lemma length_thread [simp]: "length (fst (thread f xs s)) = length xs"
  by (induction xs arbitrary: s) (simp_all add: split_def)

lemma member_key: "fst (fst (sanitize_member f m k b)) = k"
  by (simp add: sanitize_member_def split: list.splits prod.splits)

lemma thread_keys: "dkeys (fst (thread (sanitize_member f m) ks b)) = ks"
  by (induction ks arbitrary: b) (simp_all add: split_def member_key)

lemma length_dset_bound: "length (dset k v d) \<le> Suc (length d)"
  by (induction d) auto

lemma note_fields_ok:
  assumes "list_all (\<lambda>(k, v). utf8_len k \<le> MAX_STRING_BYTES \<and> trace_ok n v) d"
    and "length d \<le> MAX_OBJECT_FIELDS" "distinct (dkeys d)"
  shows "trace_ok (Suc n) (JObj (note_truncated_fields l d))"
proof -
  have "list_all (\<lambda>(k, v). utf8_len k \<le> MAX_STRING_BYTES \<and> trace_ok n v) (dset k (JInt i) d)"
    if "utf8_len k \<le> MAX_STRING_BYTES" for k i
    using assms(1) that by (induction d) (auto simp: trace_ok_scalar scalar_ok_def)
  then show ?thesis
    using assms le_trans [OF length_dset_bound [of "''_trace_truncated_fields''" _ d], of "Suc MAX_OBJECT_FIELDS"]
    by (simp add: note_truncated_fields_def distinct_dset)
qed

lemma sanitize_ok: "trace_ok (Suc room) (fst (sanitize room v b))"
proof (induction room arbitrary: v b)
  case 0
  then show ?case by (simp add: trace_ok_scalar scalar_ok_def)
next
  case (Suc room)
  show ?case
  proof (cases "b = 0")
    case True
    then show ?thesis by (simp add: trace_ok_scalar scalar_ok_def)
  next
    case False
    show ?thesis
    proof (cases v)
      case (JList xs)
      have "list_all (trace_ok (Suc room)) (fst (thread (sanitize room) (take MAX_ARRAY_ITEMS xs) (b - 1)))"
        by (rule thread_all) (rule Suc.IH)
      moreover have "list_all (trace_ok (Suc room)) (truncated_items (length xs))"
        by (simp add: truncated_items_def trace_ok_scalar scalar_ok_def)
      ultimately show ?thesis
        using False by (simp add: JList sanitize_sequence_def split_def truncated_items_def)
    next
      case (JObj m)
      let ?t = "thread (sanitize_member (sanitize room) m) (output_keys m) (b - 1)"
      have "utf8_len k \<le> MAX_STRING_BYTES" if "k \<in> set (output_keys m)" for k
        using that in_set_takeD unfolding output_keys_def by (fastforce simp: bounded_string_len)
      moreover have "trace_ok (Suc room) (snd (fst (sanitize_member (sanitize room) m k b')))" for k b'
        using Suc.IH [of _ b']
        by (auto simp: sanitize_member_def split_def scalar_ok_def trace_ok_scalar split: list.splits prod.splits)
      ultimately have all: "list_all (\<lambda>(k, v). utf8_len k \<le> MAX_STRING_BYTES \<and> trace_ok (Suc room) v) (fst ?t)"
        by (intro thread_all) (simp add: split_def member_key)
      have keys: "dkeys (fst ?t) = output_keys m" "distinct (output_keys m)" "length (output_keys m) \<le> MAX_OBJECT_FIELDS"
        by (simp_all add: thread_keys output_keys_def)
      show ?thesis
        using False all keys note_fields_ok [OF all, of "length m"] length_thread [of "sanitize_member (sanitize room) m" "output_keys m" "b - 1"]
        by (simp add: JObj sanitize_mapping_def split_def scalar_ok_def trace_ok_scalar MAX_OBJECT_FIELDS_def)
    qed (use False trace_ok_scalar [OF safe_integer_ok] in
      \<open>simp_all add: trace_ok_scalar scalar_ok_def safe_float_def bounded_string_len\<close>)
  qed
qed

lemma dset_present: "k \<in> set (dkeys d) \<Longrightarrow> dkeys (dset k v d) = dkeys d"
  by (induction d) auto

lemma dset_ok:
  assumes "trace_ok (Suc n) (JObj d)" "k \<in> set (dkeys d)" "trace_ok n v"
  shows "trace_ok (Suc n) (JObj (dset k v d))"
proof -
  have "list_all (\<lambda>(k, v). utf8_len k \<le> MAX_STRING_BYTES \<and> trace_ok n v) (dset k v d)"
    if "list_all (\<lambda>(k, v). utf8_len k \<le> MAX_STRING_BYTES \<and> trace_ok n v) d" "k \<in> set (dkeys d)"
    using that assms(3) by (induction d) auto
  moreover have "length (dset k v d) = length d"
    using dset_present [OF assms(2), of v] by (metis length_map)
  ultimately show ?thesis using assms by (simp add: dset_present distinct_dset)
qed

lemma shrink_ok:
  assumes "shrink fr n candidates d = Some d'" "trace_ok (Suc (Suc k)) (JObj d)" "fst ` set candidates \<subseteq> set (dkeys d)"
  shows "trace_ok (Suc (Suc k)) (JObj d') \<and> compact_bytes fr (JObj d') \<le> n \<and> dkeys d' = dkeys d"
  using assms
proof (induction fr n candidates d rule: shrink.induct)
  case (2 fr n key bytes cs d)
  let ?d = "dset key (JObj (truncated_marker bytes)) d"
  have keys: "dkeys ?d = dkeys d" using "2.prems"(3) by (intro dset_present) auto
  have "trace_ok (Suc (Suc k)) (JObj ?d)"
    using "2.prems"(2,3) by (intro dset_ok) (auto simp: truncated_marker_def trace_ok_scalar scalar_ok_def MAX_OBJECT_FIELDS_def)
  then show ?case using 2 keys by (auto simp: Let_def split: if_splits)
qed simp

lemma document_ok:
  "trace_ok 11 (JObj (case sanitize_trace_payload v of JObj m \<Rightarrow> m | _ \<Rightarrow> [(''value'', sanitize_trace_payload v)]))"
proof -
  have s: "trace_ok 10 (sanitize_trace_payload v)"
    using sanitize_ok [of 9 v 512] by (simp add: sanitize_trace_payload_def MAX_DEPTH_def MAX_TRAVERSAL_NODES_def eval_nat_numeral)
  moreover have "trace_ok 11 (sanitize_trace_payload v)" using trace_ok_Suc [OF s] by simp
  ultimately show ?thesis
    using trace_ok_simps(2) [of 10 "[(''value'', sanitize_trace_payload v)]"]
    by (auto simp: MAX_OBJECT_FIELDS_def split: json.splits)
qed

text \<open>C28: A stored document is bounded.  Whatever is received, a limit of at least two bytes gives a
  document whose compact JSON fits the limit, nested at most eleven deep, with at most 51 entries in
  each container, keys of at most 4096 bytes, finite floats, and
  strings of at most 4096 bytes; the one exception is the marker that stands for an integer of
  more than 4096 bits, whose text is the number of its bits between fixed words.\<close>

theorem trace_documents_bounded:
  assumes "max_bytes \<ge> 2"
  shows "\<exists>d. bounded_trace_document fr max_bytes v = Inr d \<and> trace_ok 11 (JObj d)
    \<and> int (compact_bytes fr (JObj d)) \<le> max_bytes"
proof -
  define d where "d = (case sanitize_trace_payload v of JObj m \<Rightarrow> m | _ \<Rightarrow> [(''value'', sanitize_trace_payload v)])"
  have d: "trace_ok 11 (JObj d)" unfolding d_def by (rule document_ok)
  define cs where "cs = sort_key (\<lambda>(k, b). (- int b, k)) (map (\<lambda>(k, j). (k, compact_bytes fr j)) d)"
  have cs: "fst ` set cs \<subseteq> set (dkeys d)" by (force simp: cs_def)
  have shrunk: "trace_ok 11 (JObj d') \<and> compact_bytes fr (JObj d') \<le> nat max_bytes" if "shrink fr (nat max_bytes) cs d = Some d'" for d'
    using shrink_ok [OF that, of 9] d cs by simp
  have marker: "trace_ok 11 (JObj (truncated_marker k))" for k
    by (simp add: truncated_marker_def trace_ok_scalar scalar_ok_def MAX_OBJECT_FIELDS_def eval_nat_numeral)
  have empty: "trace_ok 11 (JObj [])" "compact_bytes fr (JObj []) = 2"
    by (simp_all add: eval_nat_numeral compact_bytes_def utf8_len_def code_def compact_style_def)
  have run: "bounded_trace_document fr max_bytes v
      = (if compact_bytes fr (JObj d) \<le> nat max_bytes then Inr d
         else case shrink fr (nat max_bytes) cs d of
             Some d \<Rightarrow> Inr d
           | None \<Rightarrow> if compact_bytes fr (JObj (truncated_marker (compact_bytes fr (JObj d)))) \<le> nat max_bytes
               then Inr (truncated_marker (compact_bytes fr (JObj d))) else Inr [])"
    unfolding bounded_trace_document_def Let_def cs_def d_def using assms by simp
  show ?thesis
    using assms d shrunk marker empty by (auto simp: run split: option.splits)
qed

theorem trace_documents_bounded_witness:
  "\<exists>d. bounded_trace_document (\<lambda>_. []) 60 (JObj [(''api_key'', JStr ''x''), (''note'', JStr (replicate 60 CHR ''n''))]) = Inr d
     \<and> int (compact_bytes (\<lambda>_. []) (JObj d)) \<le> 60"
  using trace_documents_bounded [of 60 "\<lambda>_. []" "JObj [(''api_key'', JStr ''x''), (''note'', JStr (replicate 60 CHR ''n''))]"]
  by auto

section \<open>Previews\<close>

lemma allowlist_bounded:
  "k \<in> {''categories'', ''score''} \<union> set PREVIEW_STRING_FIELDS \<Longrightarrow> bounded_string k = k"
proof -
  have "list_all (\<lambda>k. bounded_string k = k) (''categories'' # ''score'' # PREVIEW_STRING_FIELDS)" by code_simp
  then show "k \<in> {''categories'', ''score''} \<union> set PREVIEW_STRING_FIELDS \<Longrightarrow> bounded_string k = k"
    unfolding list_all_iff by auto
qed

lemma preview_strings_keys:
  "set (dkeys (preview_strings m)) \<subseteq> set PREVIEW_STRING_FIELDS \<and> length (preview_strings m) \<le> 10"
proof -
  have "set (dkeys (List.map_filter (\<lambda>k. case dget m k of Some (JStr s) \<Rightarrow> Some (k, JStr s) | _ \<Rightarrow> None) ks)) \<subseteq> set ks
    \<and> length (List.map_filter (\<lambda>k. case dget m k of Some (JStr s) \<Rightarrow> Some (k, JStr s) | _ \<Rightarrow> None) ks) \<le> length ks" for ks
    by (induction ks) (auto split: option.splits json.splits)
  from this [of PREVIEW_STRING_FIELDS] show ?thesis
    by (simp add: preview_strings_def PREVIEW_STRING_FIELDS_def)
qed

lemma sort_Nil_iff: "sort xs = [] \<longleftrightarrow> xs = []"
  by (metis set_empty set_sort)

lemma sanitize_payload_obj: "sanitize_trace_payload (JObj m) = fst (sanitize_mapping (sanitize 8) m 511)"
proof -
  have "sanitize (Suc 8) (JObj m) 512 = sanitize_mapping (sanitize 8) m 511" by (simp only: sanitize.simps) simp
  then show ?thesis by (simp add: sanitize_trace_payload_def MAX_DEPTH_def MAX_TRAVERSAL_NODES_def)
qed

lemma preview_item_fields:
  assumes "preview_item item = Some p"
  shows "\<exists>d. p = JObj d \<and> d \<noteq> [] \<and> set (dkeys d) \<subseteq> {''categories'', ''score''} \<union> set PREVIEW_STRING_FIELDS"
proof -
  obtain m where m: "item = JObj m" using assms by (auto simp: preview_item_def split: json.splits)
  define q where "q = preview_strings m @ opt_member ''categories'' (preview_categories (dget m ''categories''))
    @ opt_member ''score'' (preview_score (dget m ''score''))"
  have q: "q \<noteq> []" "sanitize_trace_payload (JObj q) = p"
    using assms by (auto simp: preview_item_def m q_def [symmetric] Let_def split: if_splits json.splits)
  have small: "length q \<le> 12" and keys: "set (dkeys q) \<subseteq> {''categories'', ''score''} \<union> set PREVIEW_STRING_FIELDS"
    using preview_strings_keys [of m] by (auto simp: q_def opt_member_def split: option.splits)
  have out: "set (output_keys q) \<subseteq> set (dkeys q)" "output_keys q \<noteq> []"
  proof -
    have "map bounded_string (dkeys q) = dkeys q" using keys by (intro map_idI allowlist_bounded) auto
    then have o: "output_keys q = take MAX_OBJECT_FIELDS (sort (remdups (dkeys q)))"
      by (simp only: output_keys_def)
    show "set (output_keys q) \<subseteq> set (dkeys q)" using set_take_subset [of MAX_OBJECT_FIELDS "sort (remdups (dkeys q))"] by (simp add: o)
    show "output_keys q \<noteq> []" using q(1) by (simp add: o MAX_OBJECT_FIELDS_def sort_Nil_iff)
  qed
  let ?t = "thread (sanitize_member (sanitize 8) q) (output_keys q) 511"
  have "p = JObj (fst ?t)"
    using q(2) small
    by (simp add: sanitize_payload_obj sanitize_mapping_def MAX_MAPPING_SCAN_ITEMS_def note_truncated_fields_def
        MAX_OBJECT_FIELDS_def split_def)
  moreover have "dkeys (fst ?t) = output_keys q" by (rule thread_keys)
  moreover from this have "fst ?t \<noteq> []" using out(2) by (cases "fst ?t") auto
  ultimately show ?thesis using subset_trans [OF out(1) keys] by (intro exI [of _ "fst ?t"]) simp
qed

lemma length_map_filter_le: "length (List.map_filter f xs) \<le> length xs"
  by (induction xs) (auto split: option.splits)

lemma trusted_total_ge: "trusted_total v n = Some t \<Longrightarrow> t \<ge> int n"
  by (auto simp: trusted_total_def split: option.splits json.splits if_splits)

lemma mem_map_filter: "y \<in> set (List.map_filter f xs) \<Longrightarrow> \<exists>x. f x = Some y"
  by (induction xs) (auto split: option.splits)

text \<open>A summary of results gives away no more than it should: at most twenty previews, no more
  than there are results among the first hundred, each with only the listed fields of a memory; and
  the count it reports is at least the number of previews.\<close>

lemma previews_allowlisted:
  "(case trace_result_summary response of (count, previews) \<Rightarrow>
      length previews \<le> MAX_PREVIEWS \<and> int (length previews) \<le> count
      \<and> list_all (\<lambda>p. \<exists>d. p = JObj d \<and> d \<noteq> []
           \<and> set (dkeys d) \<subseteq> {''categories'', ''score''} \<union> set PREVIEW_STRING_FIELDS) previews)"
proof -
  define results where "results = (case dget response ''results'' of Some (JList xs) \<Rightarrow> xs | _ \<Rightarrow> [])"
  define all where "all = List.map_filter preview_item (take MAX_PREVIEW_SCAN_ITEMS results)"
  have "length all \<le> length results"
    using length_map_filter_le [of preview_item "take MAX_PREVIEW_SCAN_ITEMS results"] by (simp add: all_def)
  moreover have "\<exists>d. p = JObj d \<and> d \<noteq> [] \<and> set (dkeys d) \<subseteq> {''categories'', ''score''} \<union> set PREVIEW_STRING_FIELDS"
    if "p \<in> set (take MAX_PREVIEWS all)" for p
    using that preview_item_fields mem_map_filter unfolding all_def by (metis in_set_takeD)
  moreover have "trace_result_summary response
      = (case trusted_total (dget response ''total'') (length results) of Some t \<Rightarrow> t | None \<Rightarrow> int (length results), take MAX_PREVIEWS all)"
    unfolding trace_result_summary_def results_def all_def Let_def by simp
  ultimately show ?thesis
    by (auto simp: list_all_iff dest: trusted_total_ge split: option.splits)
qed

end
