(* ===== verification/Attribution.thy ===== *)
theory Attribution
  imports Prelude
begin

text \<open>
  Who a request is attributed to (\<open>request_attribution.py\<close>, \<open>request_attribution_codec.py\<close>):
  a transport, a kind of credential and, for a client key, its identity.  Parameters:
  \<open>valid_uuid\<close> for what \<open>uuid.UUID\<close> accepts, and \<open>decode_payload\<close> for the base64, UTF-8 and
  JSON decoding of the internal header: a document, nothing when it fails in a way the code
  catches, or the exception it does not catch (JSON nested too deeply).  The context variable of the current request is the
  attribution the operations receive.
\<close>

definition HEADER_KEYS :: "string list" where
  "HEADER_KEYS = [''v'', ''transport'', ''credential_kind'', ''credential_id'', ''label'', ''key_prefix'']"

definition CORE_DESCRIPTOR_KEYS :: "string list" where
  "CORE_DESCRIPTOR_KEYS = [''kind'', ''id'', ''label'', ''key_prefix'']"

definition MAX_HEADER_BYTES :: nat where "MAX_HEADER_BYTES = 2048"

definition TRANSPORT_VALUES :: "string list" where
  "TRANSPORT_VALUES = [''mcp'', ''rest'', ''system'', ''unknown'']"

definition CREDENTIAL_VALUES :: "string list" where
  "CREDENTIAL_VALUES = [''core_api_key'', ''legacy_static'', ''operator_static'', ''session'', ''disabled'', ''unknown'']"

text \<open>\<open>DecodedAttribution\<close> and \<open>RequestAttribution\<close> have the same fields.\<close>

record attribution =
  at_transport :: string
  at_kind :: string
  at_id :: "string option"
  at_label :: "string option"
  at_prefix :: "string option"

definition rejected :: "'a res" where
  "rejected = raise AttributionRejected ''Invalid caller attribution.''"

section \<open>Decoding\<close>

definition optional_string :: "json \<Rightarrow> string option res" where
  "optional_string v = (case v of JNull \<Rightarrow> Inr None | JStr s \<Rightarrow> Inr (Some s) | _ \<Rightarrow> rejected)"

definition parse_transport :: "string option \<Rightarrow> string res" where
  "parse_transport v = (case v of None \<Rightarrow> rejected | Some s \<Rightarrow> if s \<in> set TRANSPORT_VALUES then Inr s else rejected)"

definition parse_credential_kind :: "string option \<Rightarrow> string res" where
  "parse_credential_kind v = (case v of None \<Rightarrow> rejected | Some s \<Rightarrow> if s \<in> set CREDENTIAL_VALUES then Inr s else rejected)"

definition base64url_char :: "char \<Rightarrow> bool" where
  "base64url_char c = (is_ascii_alnum c \<or> c = CHR ''_'' \<or> c = CHR ''-'')"

text \<open>Python's \<open>== 1\<close> on a decoded value.\<close>

definition equals_one :: "json \<Rightarrow> bool" where
  "equals_one v = (case v of JInt i \<Rightarrow> i = 1 | JBool b \<Rightarrow> b | JFloat f \<Rightarrow> f = Fin 1 | _ \<Rightarrow> False)"

text \<open>Membership in a set hashes the value: a list or an object is a \<open>TypeError\<close>.\<close>

definition kind_in :: "json \<Rightarrow> string list \<Rightarrow> bool res" where
  "kind_in v kinds =
     (case v of JList _ \<Rightarrow> raise TypeError ''unhashable type'' | JObj _ \<Rightarrow> raise TypeError ''unhashable type''
      | JStr s \<Rightarrow> Inr (s \<in> set kinds) | _ \<Rightarrow> Inr False)"

definition text_of :: "json \<Rightarrow> string" where
  "text_of v = (case v of JStr s \<Rightarrow> s | _ \<Rightarrow> [])"

definition decoded_fields :: "string \<Rightarrow> string \<Rightarrow> json \<Rightarrow> json \<Rightarrow> json \<Rightarrow> attribution res" where
  "decoded_fields transport kind i label prefix =
     rbind (optional_string i) (\<lambda>i.
     rbind (optional_string label) (\<lambda>label.
     rbind (optional_string prefix) (\<lambda>prefix.
     Inr \<lparr>at_transport = transport, at_kind = kind, at_id = i, at_label = label, at_prefix = prefix\<rparr>)))"

definition decode_internal_header :: "(string \<Rightarrow> json option res) \<Rightarrow> string \<Rightarrow> attribution res" where
  "decode_internal_header decode_payload value =
     (if list_ex (\<lambda>c. code c \<ge> 128) value \<or> value = [] \<or> length value > MAX_HEADER_BYTES
         \<or> \<not> list_all base64url_char value
      then rejected
      else rbind (decode_payload value) (\<lambda>decoded. case decoded of
        Some (JObj payload) \<Rightarrow>
          if set (dkeys payload) \<noteq> set HEADER_KEYS then rejected
          else if \<not> equals_one (jget payload ''v'') \<or> jget payload ''transport'' \<noteq> JStr ''mcp'' then rejected
          else rbind (kind_in (jget payload ''credential_kind'') [''core_api_key'', ''legacy_static'', ''disabled'']) (\<lambda>known.
            if \<not> known then rejected
            else decoded_fields ''mcp'' (text_of (jget payload ''credential_kind''))
              (jget payload ''credential_id'') (jget payload ''label'') (jget payload ''key_prefix''))
      | _ \<Rightarrow> rejected))"

definition decode_core_descriptor :: "json dict \<Rightarrow> attribution res" where
  "decode_core_descriptor d =
     (if set (dkeys d) \<noteq> set CORE_DESCRIPTOR_KEYS then rejected
      else case jget d ''kind'' of
        JStr kind \<Rightarrow>
          rbind (parse_credential_kind (Some kind)) (\<lambda>kind.
          if kind \<notin> {''core_api_key'', ''operator_static'', ''session'', ''disabled''} then rejected
          else decoded_fields ''rest'' kind (jget d ''id'') (jget d ''label'') (jget d ''key_prefix''))
      | _ \<Rightarrow> rejected)"

section \<open>Attributions\<close>

definition no_key_fields :: "attribution \<Rightarrow> bool" where
  "no_key_fields a = (at_id a = None \<and> at_prefix a = None)"

definition default_label :: "string \<Rightarrow> string" where
  "default_label prefix = ''Legacy client key ('' @ prefix @ ''...)''"

definition core_key_attribution :: "(string \<Rightarrow> bool) \<Rightarrow> attribution \<Rightarrow> attribution res" where
  "core_key_attribution valid_uuid a =
     (case (at_id a, at_label a, at_prefix a) of
        (Some i, Some label, Some prefix) \<Rightarrow>
          if at_transport a \<notin> {''mcp'', ''rest''} \<or> \<not> valid_uuid i \<or> \<not> (1 \<le> length prefix \<and> length prefix \<le> 12)
          then rejected
          else let label = (if strip label = [] then default_label prefix else strip label) in
            if length label > 255 then rejected else Inr (a\<lparr>at_label := Some label\<rparr>)
      | _ \<Rightarrow> rejected)"

text \<open>\<open>RequestAttribution(...)\<close> with its \<open>__post_init__\<close>.\<close>

definition RequestAttribution :: "(string \<Rightarrow> bool) \<Rightarrow> attribution \<Rightarrow> attribution res" where
  "RequestAttribution valid_uuid a =
     (let checked = (\<lambda>ok. if no_key_fields a \<and> ok then Inr a else rejected) in
      if at_kind a = ''core_api_key'' then core_key_attribution valid_uuid a
      else if at_kind a = ''legacy_static'' then
        checked (at_transport a = ''mcp'' \<and> at_label a = Some ''Legacy shared MCP key'')
      else if at_kind a = ''operator_static'' then
        checked (at_transport a = ''rest'' \<and> at_label a = Some ''Legacy admin API key'')
      else if at_kind a = ''session'' then checked (at_transport a = ''rest'' \<and> at_label a = None)
      else if at_kind a = ''disabled'' then checked (at_transport a \<in> {''mcp'', ''rest''} \<and> at_label a = None)
      else if at_kind a = ''unknown'' then checked (at_transport a \<in> {''system'', ''unknown''} \<and> at_label a = None)
      else raise AssertionError ''unreachable'')"

definition system_attribution :: attribution where
  "system_attribution = \<lparr>at_transport = ''system'', at_kind = ''unknown'', at_id = None, at_label = None, at_prefix = None\<rparr>"

definition historical :: attribution where
  "historical = \<lparr>at_transport = ''unknown'', at_kind = ''unknown'', at_id = None, at_label = None, at_prefix = None\<rparr>"

definition from_internal_header :: "(string \<Rightarrow> bool) \<Rightarrow> (string \<Rightarrow> json option res) \<Rightarrow> string \<Rightarrow> attribution res" where
  "from_internal_header valid_uuid decode_payload value =
     rbind (decode_internal_header decode_payload value) (RequestAttribution valid_uuid)"

definition from_core_descriptor :: "(string \<Rightarrow> bool) \<Rightarrow> json dict \<Rightarrow> attribution res" where
  "from_core_descriptor valid_uuid d = rbind (decode_core_descriptor d) (RequestAttribution valid_uuid)"

text \<open>The five columns of an event that hold its attribution.\<close>

record stored_attribution =
  st_transport :: "string option"
  st_kind :: "string option"
  st_id :: "string option"
  st_label :: "string option"
  st_prefix :: "string option"

definition stored_of :: "attribution \<Rightarrow> stored_attribution" where
  "stored_of a = \<lparr>st_transport = Some (at_transport a), st_kind = Some (at_kind a), st_id = at_id a,
     st_label = at_label a, st_prefix = at_prefix a\<rparr>"

definition from_stored :: "(string \<Rightarrow> bool) \<Rightarrow> stored_attribution \<Rightarrow> attribution" where
  "from_stored valid_uuid s =
     (if st_transport s = None \<and> st_kind s = None then historical
      else case rbind (parse_transport (st_transport s)) (\<lambda>t.
             rbind (parse_credential_kind (st_kind s)) (\<lambda>k.
               RequestAttribution valid_uuid \<lparr>at_transport = t, at_kind = k, at_id = st_id s,
                 at_label = st_label s, at_prefix = st_prefix s\<rparr>)) of
        Inl _ \<Rightarrow> historical
      | Inr a \<Rightarrow> a)"

definition channel_label :: "attribution \<Rightarrow> string" where
  "channel_label a =
     (if at_kind a \<in> {''core_api_key'', ''legacy_static'', ''operator_static''}
      then (case at_label a of Some (c # cs) \<Rightarrow> c # cs | _ \<Rightarrow> ''Unknown'')
      else if at_kind a = ''session'' then ''Authenticated session''
      else if at_kind a = ''disabled'' then ''Authentication disabled''
      else if at_transport a = ''system'' then ''System'' else ''Unknown (pre-attribution)'')"

definition to_channel_dict :: "attribution \<Rightarrow> json dict" where
  "to_channel_dict a =
     [(''transport'', JStr (at_transport a)), (''credential_kind'', JStr (at_kind a)),
      (''credential_id'', opt_json (at_id a)), (''label'', JStr (channel_label a)),
      (''key_prefix'', opt_json (at_prefix a))]"

section \<open>What is stored reads back\<close>

lemma default_label_strip: "strip (default_label prefix) = default_label prefix" "default_label prefix \<noteq> []"
proof -
  have "\<not> is_space CHR ''L''" "\<not> is_space CHR '')''" by code_simp+
  then show "strip (default_label prefix) = default_label prefix"
    unfolding strip_def by (intro strip_if_fix) (simp add: default_label_def)
qed (simp add: default_label_def)

lemma RequestAttribution_idem:
  assumes "RequestAttribution valid_uuid a = Inr b"
  shows "RequestAttribution valid_uuid b = Inr b \<and> at_transport b \<in> set TRANSPORT_VALUES
    \<and> at_kind b \<in> set CREDENTIAL_VALUES"
proof (cases "at_kind a = ''core_api_key''")
  case True
  then have core: "core_key_attribution valid_uuid a = Inr b" using assms by (simp add: RequestAttribution_def)
  then obtain l where b: "b = a\<lparr>at_label := Some l\<rparr>" and l: "strip l = l" "l \<noteq> []" "length l \<le> 255"
    and a: "at_transport a \<in> {''mcp'', ''rest''}"
    by (auto simp: core_key_attribution_def Let_def default_label_strip rejected_def split: option.splits if_splits)
  have "core_key_attribution valid_uuid b = Inr b"
    using core l b by (auto simp: core_key_attribution_def Let_def rejected_def split: option.splits if_splits)
  then show ?thesis
    using a True by (auto simp: RequestAttribution_def b TRANSPORT_VALUES_def CREDENTIAL_VALUES_def)
next
  case False
  then have "b = a"
    using assms by (simp add: RequestAttribution_def rejected_def Let_def split: if_splits)
  moreover have "at_transport a \<in> set TRANSPORT_VALUES" "at_kind a \<in> set CREDENTIAL_VALUES"
    using assms False
    by (auto simp: RequestAttribution_def rejected_def Let_def TRANSPORT_VALUES_def CREDENTIAL_VALUES_def split: if_splits)
  ultimately show ?thesis using assms by simp
qed

text \<open>C29: An attribution survives storage: whatever a request was attributed to, from the internal
  header, from the description of a credential or by the service itself, is what its event shows when
  it is read back, a label that was normalised included.\<close>

theorem attribution_survives_storage:
  assumes "RequestAttribution valid_uuid a = Inr b"
  shows "from_stored valid_uuid (stored_of b) = b"
  using RequestAttribution_idem [OF assms]
  by (cases b) (simp add: from_stored_def stored_of_def parse_transport_def parse_credential_kind_def)

theorem attribution_survives_storage_witness:
  "let b = \<lparr>at_transport = ''mcp'', at_kind = ''core_api_key'', at_id = Some ''i'',
      at_label = Some ''Legacy client key (m0_...)'', at_prefix = Some ''m0_''\<rparr>
   in RequestAttribution (\<lambda>_. True) (b\<lparr>at_label := Some '' ''\<rparr>) = Inr b \<and> from_stored (\<lambda>_. True) (stored_of b) = b"
proof -
  let ?b = "\<lparr>at_transport = ''mcp'', at_kind = ''core_api_key'', at_id = Some ''i'',
      at_label = Some ''Legacy client key (m0_...)'', at_prefix = Some ''m0_''\<rparr>"
  have "RequestAttribution (\<lambda>_. True) (?b\<lparr>at_label := Some '' ''\<rparr>) = Inr ?b" by code_simp
  then show ?thesis using attribution_survives_storage [of "\<lambda>_. True" _ ?b] by (simp add: Let_def)
qed

end
