(* ===== verification/Events.thy ===== *)
theory Events
  imports Models Scope Trace_Payloads Attribution Projects
begin

text \<open>
  Events, the log of requests (\<open>EventRepository\<close> in \<open>store/repositories.py\<close>,
  \<open>core/events.py\<close>).  The requests and responses they store go through the trace sanitiser and
  then through a scrubber of texts.  Parameters, collected in \<open>trace_env\<close>: the text of a float,
  \<open>json.loads\<close>, the digest, the UUID syntax, the host of a URL, and \<open>te_scrub\<close>, which stands
  for the rewriting of URLs and credentials inside a text (\<open>_scrub_url_string\<close>,
  \<open>_scrub_credential_string\<close>).
\<close>

record trace_env =
  te_float_text :: "pyfloat \<Rightarrow> string"
  te_loads :: "string \<Rightarrow> json option"
  te_sha256 :: "string \<Rightarrow> string"
  te_valid_uuid :: "string \<Rightarrow> bool"
  te_host :: "string \<Rightarrow> string option"
  te_scrub :: "string list \<Rightarrow> string \<Rightarrow> string"

definition MAX_TRACE_BYTES :: nat where "MAX_TRACE_BYTES = 65536"
definition MAX_RESPONSE_SCAN_FIELDS :: nat where "MAX_RESPONSE_SCAN_FIELDS = 64"
definition MAX_RESPONSE_ENVELOPE_FIELDS :: nat where "MAX_RESPONSE_ENVELOPE_FIELDS = 40"
definition MAX_CORRELATION_ID_CHARS :: nat where "MAX_CORRELATION_ID_CHARS = 256"
definition EVENT_SCAN_LIMIT :: nat where "EVENT_SCAN_LIMIT = 5000"
definition EVENT_CHANNEL_FACET_LIMIT :: nat where "EVENT_CHANNEL_FACET_LIMIT = 100"

definition RESPONSE_STRING_FIELDS :: "string list" where
  "RESPONSE_STRING_FIELDS = [''id'', ''memory'', ''memory_id'', ''message'', ''status'']"

definition RESPONSE_INTEGER_FIELDS :: "string list" where
  "RESPONSE_INTEGER_FIELDS = [''count'', ''total'']"

definition RESPONSE_BOOLEAN_FIELDS :: "string list" where
  "RESPONSE_BOOLEAN_FIELDS = [''created'', ''deleted'', ''ok'', ''success'', ''updated'']"

section \<open>What is stored of a document\<close>

definition trace_json :: "trace_env \<Rightarrow> json \<Rightarrow> string" where
  "trace_json env j = json_dumps (te_float_text env) compact_style j"

fun scrub_trace_strings :: "(string \<Rightarrow> string) \<Rightarrow> json \<Rightarrow> json" where
  "scrub_trace_strings f (JStr s) = JStr (f s)"
| "scrub_trace_strings f (JList xs) = JList (map (scrub_trace_strings f) xs)"
| "scrub_trace_strings f (JObj m) =
     JObj (foldl (\<lambda>d (k, j). if dget d (f k) \<noteq> None then dset (f k) (JObj [(''_trace_key_collision'', JInt 2)]) d
                    else dset (f k) j d) []
       (map (\<lambda>(k, j). (k, scrub_trace_strings f j)) m))"
| "scrub_trace_strings f j = j"

definition looks_like_json :: "string \<Rightarrow> bool" where
  "looks_like_json s = (s \<noteq> [] \<and> hd s \<in> {CHR ''{'', CHR ''[''} \<and> last s \<in> {CHR ''}'', CHR '']''})"

definition is_container :: "json \<Rightarrow> bool" where
  "is_container j = (case j of JObj _ \<Rightarrow> True | JList _ \<Rightarrow> True | _ \<Rightarrow> False)"

text \<open>
  A text that is itself a JSON document is sanitised and scrubbed as one.  The first argument
  bounds the nesting of documents in texts; a text nested in another is shorter than it, so the
  length of the outermost one is enough.
\<close>

fun scrub_trace_string_upto :: "nat \<Rightarrow> trace_env \<Rightarrow> string list \<Rightarrow> string \<Rightarrow> string" where
  "scrub_trace_string_upto 0 env hosts s = te_scrub env hosts s"
| "scrub_trace_string_upto (Suc n) env hosts s =
     (let stripped = strip s;
          parsed = (case if looks_like_json stripped then te_loads env stripped else None of
              None \<Rightarrow> JNull | Some j \<Rightarrow> j)
      in if is_container parsed
         then trace_json env (scrub_trace_strings (scrub_trace_string_upto n env hosts) (sanitize_trace_payload parsed))
         else te_scrub env hosts s)"

definition scrub_trace_string :: "trace_env \<Rightarrow> string list \<Rightarrow> string \<Rightarrow> string" where
  "scrub_trace_string env hosts s = scrub_trace_string_upto (length s) env hosts s"

definition safe_trace_document :: "trace_env \<Rightarrow> string list \<Rightarrow> json \<Rightarrow> json dict res" where
  "safe_trace_document env hosts v =
     rbind (bounded_trace_document (te_float_text env) (int MAX_TRACE_BYTES) v) (\<lambda>document.
       case scrub_trace_strings (scrub_trace_string env hosts) (JObj document) of
         JObj scrubbed \<Rightarrow>
           let bytes = compact_bytes (te_float_text env) (JObj scrubbed) in
           if bytes \<le> MAX_TRACE_BYTES then Inr scrubbed else Inr (truncated_marker bytes)
       | _ \<Rightarrow> Inr [])"

definition bounded_correlation_id :: "trace_env \<Rightarrow> string list \<Rightarrow> string option \<Rightarrow> string option" where
  "bounded_correlation_id env hosts v =
     (case v of
        None \<Rightarrow> None
      | Some s \<Rightarrow>
          if length s \<le> MAX_CORRELATION_ID_CHARS \<and> CHR 0x00 \<notin> set s \<and> scrub_trace_string env hosts s = s
          then Some s else Some (''[SHA256:'' @ te_sha256 env s @ '']''))"

definition envelope_field :: "json dict \<Rightarrow> string \<Rightarrow> (string \<times> json) option" where
  "envelope_field response k =
     (case dget response k of
        Some (JStr s) \<Rightarrow> if k \<in> set RESPONSE_STRING_FIELDS then Some (k, JStr s) else None
      | Some (JInt i) \<Rightarrow> if k \<in> set RESPONSE_INTEGER_FIELDS then Some (k, JInt i) else None
      | Some (JBool b) \<Rightarrow> if k \<in> set RESPONSE_BOOLEAN_FIELDS then Some (k, JBool b) else None
      | _ \<Rightarrow> None)"

definition bounded_response_envelope :: "json dict \<Rightarrow> json dict" where
  "bounded_response_envelope response =
     (if length response > MAX_RESPONSE_SCAN_FIELDS then [(''_trace_response_envelope_truncated'', JBool True)]
      else List.map_filter (envelope_field response)
        (take MAX_RESPONSE_ENVELOPE_FIELDS (sort (filter
          (\<lambda>k. k \<in> set (RESPONSE_STRING_FIELDS @ RESPONSE_INTEGER_FIELDS @ RESPONSE_BOOLEAN_FIELDS)) (dkeys response)))))"

definition preview_omission_details :: "json dict \<Rightarrow> json list \<Rightarrow> nat \<times> bool" where
  "preview_omission_details response previews =
     (case jget response ''results'' of
        JList xs \<Rightarrow> (length xs - length previews, length xs > MAX_PREVIEW_SCAN_ITEMS)
      | _ \<Rightarrow> (0, False))"

definition project_internal_hosts :: "trace_env \<Rightarrow> project list \<Rightarrow> string \<Rightarrow> string list" where
  "project_internal_hosts env projects pid =
     (case row_by prj_id pid projects of
        None \<Rightarrow> []
      | Some p \<Rightarrow> (case te_host env (prj_mem0_base_url p) of None \<Rightarrow> [] | Some h \<Rightarrow> [h]))"

section \<open>The scope of an event\<close>

definition APP_MARKER_KEY :: string where "APP_MARKER_KEY = ''_mem0_sidecar_app_id''"

definition app_values :: "json dict \<Rightarrow> json list" where
  "app_values request =
     List.map_filter (dget request) [''app_id'', APP_MARKER_KEY]
     @ (case jget request ''metadata'' of JObj m \<Rightarrow> List.map_filter (dget m) [APP_MARKER_KEY] | _ \<Rightarrow> [])"

text \<open>All values given must be valid and agree.\<close>

definition one_scope :: "string \<Rightarrow> string \<Rightarrow> string \<Rightarrow> json list \<Rightarrow> string option res" where
  "one_scope field invalid conflict vs =
     (if vs = [] then Inr None
      else case rmap (\<lambda>v. require_id (validate_scope_id v field True)) vs of
        Inl _ \<Rightarrow> value_error invalid
      | Inr ids \<Rightarrow> if list_ex (\<lambda>i. i \<noteq> hd ids) (tl ids) then value_error conflict else Inr (Some (hd ids)))"

definition request_app_id :: "json dict \<Rightarrow> string option" where
  "request_app_id request =
     (case one_scope ''app_id'' [] [] (app_values request) of Inl _ \<Rightarrow> None | Inr v \<Rightarrow> v)"

definition given :: "string option \<Rightarrow> json list" where
  "given v = (case v of None \<Rightarrow> [] | Some s \<Rightarrow> [JStr s])"

definition raw_canonical_event_app_id :: "json dict \<Rightarrow> string option \<Rightarrow> string option res" where
  "raw_canonical_event_app_id request explicit =
     one_scope ''app_id'' ''canonical event app scope is invalid'' ''canonical event app scope markers conflict''
       (app_values request @ given explicit)"

definition raw_canonical_event_entity_id :: "json dict \<Rightarrow> string option \<Rightarrow> string \<Rightarrow> string option res" where
  "raw_canonical_event_entity_id request explicit field =
     (let name = take (length field - 3) field in
      one_scope field (''canonical event '' @ name @ '' scope is invalid'')
        (''canonical event '' @ name @ '' scope markers conflict'')
        (List.map_filter (dget request) [field] @ given explicit))"

definition legacy_request_entity_id :: "json dict \<Rightarrow> string \<Rightarrow> string option" where
  "legacy_request_entity_id request field =
     (case dget request field of
        None \<Rightarrow> None
      | Some v \<Rightarrow> (case require_id (validate_scope_id v field True) of Inl _ \<Rightarrow> None | Inr s \<Rightarrow> Some s))"

section \<open>Writing events\<close>

record event_args =
  ea_app_id :: "string option"
  ea_user_id :: "string option"
  ea_agent_id :: "string option"
  ea_run_id :: "string option"
  ea_operation :: string
  ea_request :: "json dict"
  ea_subject_type :: "string option"
  ea_subject_id :: "string option"
  ea_correlation_id :: "string option"
  ea_allow_project_scope :: bool

definition create_event ::
    "trace_env \<Rightarrow> attribution \<Rightarrow> string \<Rightarrow> time \<Rightarrow> project list \<Rightarrow> string \<Rightarrow> event_args \<Rightarrow> event list \<Rightarrow>
     (event \<times> event list) res" where
  "create_event env who new_id now projects pid a events =
     (let hosts = project_internal_hosts env projects pid; request = ea_request a in
      rbind (raw_canonical_event_app_id request (ea_app_id a)) (\<lambda>app.
      rbind (raise_if (app = None \<and> \<not> ea_allow_project_scope a) (Exn ValueError ''canonical event app scope is required'')) (\<lambda>_.
      rbind (raw_canonical_event_entity_id request (ea_user_id a) ''user_id'') (\<lambda>user.
      rbind (raw_canonical_event_entity_id request (ea_agent_id a) ''agent_id'') (\<lambda>agent.
      rbind (raw_canonical_event_entity_id request (ea_run_id a) ''run_id'') (\<lambda>run.
      rbind (safe_trace_document env hosts (JObj request)) (\<lambda>document.
      let e = \<lparr>ev_id = new_id, ev_project_id = pid, ev_app_id = app, ev_user_id = user, ev_agent_id = agent,
          ev_run_id = run, ev_operation = ea_operation a, ev_status = EV_PENDING,
          ev_subject_type = ea_subject_type a, ev_subject_id = ea_subject_id a,
          ev_request_json = Some (canon_json (JObj document)), ev_response_json = Some (JObj []),
          ev_error_json = Some (JObj []),
          ev_correlation_id = bounded_correlation_id env hosts (ea_correlation_id a),
          ev_request_transport = Some (at_transport who), ev_credential_kind = Some (at_kind who),
          ev_credential_id = at_id who, ev_credential_label = at_label who, ev_credential_prefix = at_prefix who,
          ev_latency_ms = None, ev_result_count = 0, ev_has_results = 0, ev_created_at = now,
          ev_started_at = Some now, ev_completed_at = None\<rparr>
      in Inr (e, events @ [e]))))))))"

definition get_event :: "string \<Rightarrow> event list \<Rightarrow> event res" where
  "get_event i events = (case row_by ev_id i events of Some e \<Rightarrow> Inr e | None \<Rightarrow> raise KeyError i)"

definition save_event :: "event \<Rightarrow> event list \<Rightarrow> event list" where
  "save_event e events = save ev_id e events"

definition complete_event :: "time \<Rightarrow> event \<Rightarrow> event" where
  "complete_event now e =
     (let origin = (case ev_started_at e of Some t \<Rightarrow> t | None \<Rightarrow> ev_created_at e) in
      e\<lparr>ev_completed_at := Some now, ev_latency_ms := Some (Fin (max (of_int (now - origin) / 1000) 0))\<rparr>)"

definition response_document :: "json dict \<Rightarrow> json list \<Rightarrow> json dict" where
  "response_document response previews =
     (let summary = [(''results'', jget response ''results''), (''total'', jget response ''total'')];
          (omitted, scan_truncated) = preview_omission_details summary previews
      in bounded_response_envelope response
         @ (if previews = [] then [] else [(''result_previews'', JList previews)])
         @ (if omitted = 0 then [] else [(''result_previews_omitted'', JInt (int omitted))])
         @ (if scan_truncated then [(''result_previews_scan_truncated'', JBool True)] else []))"

definition event_mark_succeeded ::
    "trace_env \<Rightarrow> time \<Rightarrow> project list \<Rightarrow> string \<Rightarrow> json dict \<Rightarrow> event list \<Rightarrow> (event \<times> event list) res" where
  "event_mark_succeeded env now projects i response events =
     rbind (get_event i events) (\<lambda>e.
     let summary = [(''results'', jget response ''results''), (''total'', jget response ''total'')];
         (count, previews) = trace_result_summary summary
     in rbind (safe_trace_document env (project_internal_hosts env projects (ev_project_id e))
          (JObj (response_document response previews))) (\<lambda>document.
        let e' = complete_event now (e\<lparr>ev_status := EV_SUCCEEDED, ev_error_json := Some (JObj []),
              ev_response_json := Some (canon_json (JObj document)), ev_result_count := count,
              ev_has_results := (if count = 0 then 0 else 1)\<rparr>)
        in Inr (e', save_event e' events)))"

definition event_mark_failed ::
    "trace_env \<Rightarrow> time \<Rightarrow> project list \<Rightarrow> string \<Rightarrow> json dict \<Rightarrow> event list \<Rightarrow> (event \<times> event list) res" where
  "event_mark_failed env now projects i err events =
     rbind (get_event i events) (\<lambda>e.
     rbind (safe_trace_document env (project_internal_hosts env projects (ev_project_id e)) (JObj err)) (\<lambda>document.
        let e' = complete_event now (e\<lparr>ev_status := EV_FAILED, ev_error_json := Some (canon_json (JObj document)),
              ev_result_count := 0, ev_has_results := 0\<rparr>)
        in Inr (e', save_event e' events)))"

section \<open>Reading events\<close>

definition list_project_events :: "string \<Rightarrow> event list \<Rightarrow> event list res" where
  "list_project_events pid events =
     (let es = take (EVENT_SCAN_LIMIT + 1) (sort_key (\<lambda>e. (ev_created_at e, ev_id e)) (filter (\<lambda>e. ev_project_id e = pid) events))
      in if length es > EVENT_SCAN_LIMIT then value_error ''event list exceeds 5000 records; use POST /v1/events/query''
         else Inr es)"

text \<open>
  A stored request is the document its text decodes to; what the sidecar stored itself is within
  the limits \<open>_event_request\<close> checks first.
\<close>

definition event_request :: "json_text \<Rightarrow> json dict option" where
  "event_request t = (case t of Some (JObj d) \<Rightarrow> Some d | _ \<Rightarrow> None)"

definition canonical_entity :: "event \<Rightarrow> string \<Rightarrow> string option" where
  "canonical_entity e field =
     (if field = ''user_id'' then ev_user_id e else if field = ''agent_id'' then ev_agent_id e else ev_run_id e)"

text \<open>The application an event counts for; \<open>None\<close> outside when the request cannot be read.\<close>

definition effective_app :: "string option \<Rightarrow> string dict \<Rightarrow> event \<Rightarrow> string option option" where
  "effective_app app filters e =
     (if ev_app_id e = None \<and> (app \<noteq> None \<or> dget filters ''app_id'' \<noteq> None)
      then map_option request_app_id (event_request (ev_request_json e))
      else Some (ev_app_id e))"

definition entity_filter_holds :: "string option \<Rightarrow> event \<Rightarrow> string \<times> string \<Rightarrow> bool" where
  "entity_filter_holds app e f =
     (case f of (field, expected) \<Rightarrow>
        if field = ''app_id'' then app = Some expected
        else if field \<in> {''user_id'', ''agent_id'', ''run_id''} then
          (case canonical_entity e field of
             Some v \<Rightarrow> v = expected
           | None \<Rightarrow> (case event_request (ev_request_json e) of
                 None \<Rightarrow> False
               | Some request \<Rightarrow> legacy_request_entity_id request field = Some expected))
        else False)"

definition matches_event_scope :: "string option \<Rightarrow> string dict \<Rightarrow> event \<Rightarrow> bool" where
  "matches_event_scope app filters e =
     (case effective_app app filters e of
        None \<Rightarrow> False
      | Some eff \<Rightarrow> (app = None \<or> eff = app) \<and> list_all (entity_filter_holds eff e) filters)"

definition get_project_event :: "string \<Rightarrow> string option \<Rightarrow> string \<Rightarrow> event list \<Rightarrow> event res" where
  "get_project_event pid app i events =
     rbind (case app of None \<Rightarrow> Inr None | Some a \<Rightarrow> validate_scope_id (JStr a) ''app_id'' True) (\<lambda>app.
       case List.find (\<lambda>e. ev_project_id e = pid \<and> ev_id e = i
              \<and> (app = None \<or> ev_app_id e = app \<or> ev_app_id e = None)) events of
         None \<Rightarrow> raise KeyError i
       | Some e \<Rightarrow> if app \<noteq> None \<and> \<not> matches_event_scope app [] e then raise KeyError i else Inr e)"

section \<open>Queries\<close>

record channel_filter =
  cf_transport :: string
  cf_kind :: string
  cf_id :: "string option"

definition kind_transports :: "string \<Rightarrow> string list option" where
  "kind_transports kind = map_of
     [(''core_api_key'', [''mcp'', ''rest'']), (''legacy_static'', [''mcp'']), (''operator_static'', [''rest'']),
      (''session'', [''rest'']), (''disabled'', [''mcp'', ''rest'']), (''unknown'', [''system'', ''unknown''])] kind"

definition make_channel_filter :: "(string \<Rightarrow> bool) \<Rightarrow> channel_filter \<Rightarrow> channel_filter res" where
  "make_channel_filter valid_uuid c =
     (case kind_transports (cf_kind c) of
        None \<Rightarrow> raise KeyError (cf_kind c)
      | Some ts \<Rightarrow>
          if cf_transport c \<notin> set ts then value_error ''channel transport and credential_kind are incompatible''
          else if cf_kind c = ''core_api_key'' then
            (case cf_id c of
               None \<Rightarrow> value_error ''core_api_key channel requires credential_id''
             | Some i \<Rightarrow> if valid_uuid i then Inr c else value_error ''channel credential_id must be a UUID'')
          else if cf_id c \<noteq> None then value_error ''channel credential_id is only valid for core_api_key''
          else Inr c)"

record event_query =
  eq_operation :: "string option"
  eq_statuses :: "event_status list"
  eq_has_results :: "bool option"
  eq_from_at :: "time option"
  eq_to_at :: "time option"
  eq_entity_filters :: "string dict"
  eq_channel :: "channel_filter option"
  eq_page :: nat
  eq_page_size :: nat

record event_page =
  ep_items :: "event list"
  ep_total :: nat
  ep_buckets :: "(time \<times> nat) list"
  ep_channels :: "(json dict \<times> nat) list"

definition stored_channel :: "event \<Rightarrow> stored_attribution" where
  "stored_channel e = \<lparr>st_transport = ev_request_transport e, st_kind = ev_credential_kind e, st_id = ev_credential_id e,
     st_label = ev_credential_label e, st_prefix = ev_credential_prefix e\<rparr>"

definition validate_entity_filters :: "string dict \<Rightarrow> string dict res" where
  "validate_entity_filters filters =
     rmap (\<lambda>(field, expected).
       if field \<in> {''app_id'', ''user_id'', ''agent_id'', ''run_id''}
       then rbind (require_id (validate_scope_id (JStr expected) field True)) (\<lambda>v. Inr (field, v))
       else Inr (field, expected)) filters"

definition column_condition :: "string option \<Rightarrow> event \<Rightarrow> string \<times> string \<Rightarrow> bool" where
  "column_condition app e f =
     (case f of (field, v) \<Rightarrow>
        if field = ''app_id'' then app \<noteq> None \<or> ev_app_id e = Some v \<or> ev_app_id e = None
        else if field \<in> {''user_id'', ''agent_id'', ''run_id''}
        then canonical_entity e field = Some v \<or> canonical_entity e field = None
        else True)"

definition facet_condition :: "string \<Rightarrow> string option \<Rightarrow> event_query \<Rightarrow> string dict \<Rightarrow> event \<Rightarrow> bool" where
  "facet_condition pid app q filters e =
     (ev_project_id e = pid \<and> (app = None \<or> ev_app_id e = app \<or> ev_app_id e = None)
      \<and> list_all (column_condition app e) filters
      \<and> (eq_operation q = None \<or> eq_operation q = Some (ev_operation e))
      \<and> (eq_statuses q = [] \<or> ev_status e \<in> set (eq_statuses q))
      \<and> (case eq_has_results q of None \<Rightarrow> True | Some b \<Rightarrow> ev_has_results e = (if b then 1 else 0))
      \<and> (case eq_from_at q of None \<Rightarrow> True | Some t \<Rightarrow> ev_created_at e \<ge> t)
      \<and> (case eq_to_at q of None \<Rightarrow> True | Some t \<Rightarrow> ev_created_at e \<le> t))"

definition legacy_condition :: "string option \<Rightarrow> string dict \<Rightarrow> event \<Rightarrow> bool" where
  "legacy_condition app filters e =
     ((app \<noteq> None \<or> dget filters ''app_id'' \<noteq> None) \<and> ev_app_id e = None
      \<or> list_ex (\<lambda>(field, _). field \<in> {''user_id'', ''agent_id'', ''run_id''} \<and> canonical_entity e field = None) filters)"

definition channel_condition :: "channel_filter option \<Rightarrow> event \<Rightarrow> bool" where
  "channel_condition c e =
     (case c of
        None \<Rightarrow> True
      | Some c \<Rightarrow>
          if cf_transport c = ''unknown'' \<and> cf_kind c = ''unknown''
          then ev_request_transport e = None \<and> ev_credential_kind e = None \<and> ev_credential_id e = None
          else ev_request_transport e = Some (cf_transport c) \<and> ev_credential_kind e = Some (cf_kind c)
            \<and> ev_credential_id e = cf_id c)"

definition matches_event_channel :: "(string \<Rightarrow> bool) \<Rightarrow> channel_filter option \<Rightarrow> event \<Rightarrow> bool" where
  "matches_event_channel valid_uuid c e =
     (case c of
        None \<Rightarrow> True
      | Some c \<Rightarrow> let a = from_stored valid_uuid (stored_channel e) in
          at_transport a = cf_transport c \<and> at_kind a = cf_kind c \<and> at_id a = cf_id c)"

definition newest_first :: "event list \<Rightarrow> event list" where
  "newest_first es = rev (sort_key (\<lambda>e. (ev_created_at e, ev_id e)) es)"

text \<open>Channel facets: the rows are counted per stored channel, then per attribution they show as.\<close>

definition opt_key :: "string option \<Rightarrow> bool \<times> string" where
  "opt_key v = (case v of None \<Rightarrow> (False, []) | Some s \<Rightarrow> (True, s))"

definition channel_order :: "stored_attribution \<times> nat \<Rightarrow> int \<times> (bool \<times> string) \<times> (bool \<times> string) \<times> (bool \<times> string) \<times> (bool \<times> string) \<times> bool \<times> string" where
  "channel_order x = (case x of (c, n) \<Rightarrow>
     (- int n, opt_key (st_transport c), opt_key (st_kind c), opt_key (st_id c), opt_key (st_label c), opt_key (st_prefix c)))"

definition count_channels :: "event list \<Rightarrow> (stored_attribution \<times> nat) list" where
  "count_channels es = (let cs = map stored_channel es in map (\<lambda>c. (c, count_list cs c)) (remdups cs))"

definition grouped_channels :: "(string \<Rightarrow> bool) \<Rightarrow> event list \<Rightarrow> (attribution \<times> nat) list" where
  "grouped_channels valid_uuid es =
     foldl (\<lambda>d (c, n). AList.update (from_stored valid_uuid c) n d) []
       (take EVENT_CHANNEL_FACET_LIMIT (sort_key channel_order (count_channels es)))"

definition channel_facet_payload :: "(attribution \<times> nat) list \<Rightarrow> (json dict \<times> nat) list" where
  "channel_facet_payload g =
     map (\<lambda>(a, n). (to_channel_dict a, n))
       (take EVENT_CHANNEL_FACET_LIMIT (sort_key (\<lambda>(a, n). (- int n, lower (channel_label a),
          case at_id a of None \<Rightarrow> [] | Some i \<Rightarrow> i)) g))"

definition HOUR :: int where "HOUR = 3600 * 1000000"

definition event_timeline_buckets :: "time list \<Rightarrow> event_query \<Rightarrow> (time \<times> nat) list" where
  "event_timeline_buckets created q =
     (case (min_opt created, max_opt created) of
        (Some lo, Some hi) \<Rightarrow>
          let range_start = (case eq_from_at q of Some t \<Rightarrow> t | None \<Rightarrow> lo);
              range_end = (case eq_to_at q of Some t \<Rightarrow> t | None \<Rightarrow> hi);
              width = (if range_end - range_start > 48 * HOUR then 24 * HOUR else HOUR);
              bs = map (\<lambda>t. t - t mod width) created
          in map (\<lambda>b. (b, count_list bs b)) (sort (remdups bs))
      | _ \<Rightarrow> [])"

text \<open>
  The rows that pass the SQL conditions, \<open>facets\<close> without the one on the channel; both reads see
  the same table, so the page that is loaded is the one that was selected.
\<close>

definition snapshot_page ::
    "(string \<Rightarrow> bool) \<Rightarrow> event_query \<Rightarrow> (json dict \<times> nat) list \<Rightarrow> event list \<Rightarrow> event_page" where
  "snapshot_page valid_uuid q channels scope_matches =
     (let found = filter (matches_event_channel valid_uuid (eq_channel q)) scope_matches in
      \<lparr>ep_items = take (eq_page_size q) (drop ((eq_page q - 1) * eq_page_size q) found), ep_total = length found,
       ep_buckets = event_timeline_buckets (map ev_created_at found) q, ep_channels = channels\<rparr>)"

definition query_snapshot ::
    "(string \<Rightarrow> bool) \<Rightarrow> string option \<Rightarrow> event_query \<Rightarrow> string dict \<Rightarrow> event list \<Rightarrow> event list \<Rightarrow> event_page res" where
  "query_snapshot valid_uuid app q filters facets rows =
     (let recent = filter (matches_event_scope app filters) (take EVENT_SCAN_LIMIT (newest_first facets)) in
      if app \<noteq> None \<and> length (filter (legacy_condition app filters) facets) > EVENT_SCAN_LIMIT
      then value_error ''legacy event scope facet scan exceeds 5000 records''
      else if app \<noteq> None \<and> length rows > EVENT_SCAN_LIMIT
      then value_error ''entity filter scan exceeds 5000 records''
      else Inr (snapshot_page valid_uuid q (channel_facet_payload (grouped_channels valid_uuid recent))
        (if app = None then recent else filter (matches_event_scope app filters) (newest_first rows))))"

definition query_project_events ::
    "(string \<Rightarrow> bool) \<Rightarrow> string \<Rightarrow> string option \<Rightarrow> event_query \<Rightarrow> event list \<Rightarrow> event_page res" where
  "query_project_events valid_uuid pid app q events =
     rbind (case app of None \<Rightarrow> Inr None | Some a \<Rightarrow> validate_scope_id (JStr a) ''app_id'' True) (\<lambda>app.
     rbind (validate_entity_filters (eq_entity_filters q)) (\<lambda>filters.
       let facets = filter (facet_condition pid app q filters) events
       in query_snapshot valid_uuid app q filters facets (filter (channel_condition (eq_channel q)) facets)))"

section \<open>The public form\<close>

definition MAX_LEGACY_JSON_BYTES :: nat where "MAX_LEGACY_JSON_BYTES = 65536"

definition DISPLAY_OPERATION :: "string dict" where
  "DISPLAY_OPERATION = [(''memory.add'', ''ADD''), (''memory.search'', ''SEARCH''), (''memory.list'', ''GET ALL''),
     (''memory.update'', ''UPDATE''), (''memory.delete'', ''DELETE'')]"

definition ENTITY_FIELDS :: "(string \<times> string) list" where
  "ENTITY_FIELDS = [(''user_id'', ''user''), (''agent_id'', ''agent''), (''app_id'', ''app''), (''run_id'', ''run'')]"

definition TOP_LEVEL_SCOPE_KEYS :: "string list" where
  "TOP_LEVEL_SCOPE_KEYS = [''projectid'', ''appid'', ''userid'', ''agentid'', ''runid'']"

definition INTERNAL_KEYS :: "string list" where
  "INTERNAL_KEYS = [''mem0sidecarprojectid'', ''mem0sidecarappid'', ''internalurl'', ''upstreamurl'', ''configuredurl'']"

definition normalized_key :: "string \<Rightarrow> string" where
  "normalized_key k = filter is_alnum (lower k)"

fun public_request_value :: "bool \<Rightarrow> json \<Rightarrow> json" where
  "public_request_value outer (JObj m) =
     JObj (map (\<lambda>(k, j). (k, public_request_value False j))
       (filter (\<lambda>(k, _). normalized_key k \<notin> set INTERNAL_KEYS
          \<and> \<not> (outer \<and> normalized_key k \<in> set TOP_LEVEL_SCOPE_KEYS)) m))"
| "public_request_value outer (JList xs) = JList (map (public_request_value False) xs)"
| "public_request_value outer j = j"

text \<open>A stored document, as the reader sees it.\<close>

definition safe_json_document :: "trace_env \<Rightarrow> json_text \<Rightarrow> json dict res" where
  "safe_json_document env t =
     (case t of
        None \<Rightarrow> Inr [(''_trace_invalid_json'', JBool True)]
      | Some j \<Rightarrow> safe_trace_document env [] j)"

definition public_request :: "trace_env \<Rightarrow> json dict \<Rightarrow> json dict res" where
  "public_request env d = bounded_trace_document (te_float_text env) 65536 (public_request_value True (JObj d))"

definition legacy_scope_value :: "json dict \<Rightarrow> string \<Rightarrow> json" where
  "legacy_scope_value request field =
     (if jget request field \<noteq> JNull then jget request field
      else if field \<noteq> ''app_id'' then JNull
      else
        let found = filter (\<lambda>j. j \<noteq> JNull)
          (map (\<lambda>c. case jget request c of JObj m \<Rightarrow> jget m APP_MARKER_KEY | _ \<Rightarrow> JNull) [''metadata'', ''filters''])
        in (case found of [] \<Rightarrow> JNull | j # _ \<Rightarrow> j))"

definition event_column :: "event \<Rightarrow> string \<Rightarrow> string option" where
  "event_column e field = (if field = ''app_id'' then ev_app_id e else canonical_entity e field)"

definition event_entities :: "event \<Rightarrow> json dict \<Rightarrow> json list" where
  "event_entities e request =
     List.map_filter (\<lambda>(field, kind).
       let candidate = (case event_column e field of Some s \<Rightarrow> JStr s | None \<Rightarrow> legacy_scope_value request field) in
       case validate_scope_id candidate field False of
         Inr (Some i) \<Rightarrow> Some (JObj [(''type'', JStr kind), (''id'', JStr i)])
       | _ \<Rightarrow> None) ENTITY_FIELDS"

definition INT64_MAX :: int where "INT64_MAX = 2 ^ 63 - 1"

definition safe_nonnegative_int :: "int \<Rightarrow> json \<Rightarrow> int" where
  "safe_nonnegative_int fallback v =
     (case v of JInt i \<Rightarrow> if 0 \<le> i \<and> i \<le> INT64_MAX then i else fallback | _ \<Rightarrow> fallback)"

definition preview_source_count :: "json list \<Rightarrow> int" where
  "preview_source_count previews =
     (case (if previews = [] then JNull else last previews) of
        JObj [(k, v)] \<Rightarrow>
          if k = ''_trace_truncated_items'' \<and> safe_nonnegative_int 0 v \<noteq> 0
          then min (int (length previews) - 1 + safe_nonnegative_int 0 v) INT64_MAX
          else int (length previews)
      | _ \<Rightarrow> int (length previews))"

definition safe_latency :: "pyfloat option \<Rightarrow> pyfloat option" where
  "safe_latency v =
     (case v of Some (Fin r) \<Rightarrow> if r \<ge> 0 then Some (Fin r) else None | _ \<Rightarrow> None)"

record event_trace =
  tr_id :: string
  tr_correlation_id :: "string option"
  tr_operation :: string
  tr_display_operation :: string
  tr_status :: event_status
  tr_channel :: "json dict"
  tr_entities :: "json list"
  tr_request :: "json dict"
  tr_response :: "json dict"
  tr_error :: "json dict"
  tr_result_count :: int
  tr_has_results :: bool
  tr_latency_ms :: "pyfloat option"
  tr_requested_at :: time
  tr_completed_at :: "time option"
  tr_result_previews :: "json list"
  tr_result_previews_omitted :: int
  tr_result_previews_scan_truncated :: bool

definition event_to_trace_dict :: "trace_env \<Rightarrow> event \<Rightarrow> event_trace res" where
  "event_to_trace_dict env e =
     rbind (safe_json_document env (ev_request_json e)) (\<lambda>request.
     rbind (safe_json_document env (ev_response_json e)) (\<lambda>response.
     rbind (safe_json_document env (ev_error_json e)) (\<lambda>err.
     let raw_previews = dget_or response ''result_previews'' (JList []);
         omitted0 = safe_nonnegative_int 0 (dget_or response ''result_previews_omitted'' (JInt 0));
         scan_truncated = (dget_or response ''result_previews_scan_truncated'' (JBool False) = JBool True);
         response' = ddel ''result_previews_scan_truncated'' (ddel ''result_previews_omitted''
            (ddel ''result_previews'' response));
         (previews, omitted) = (case raw_previews of
            JList xs \<Rightarrow>
              let ps = snd (trace_result_summary [(''results'', JList xs)])
              in (ps, min (omitted0 + max (preview_source_count xs - int (length ps)) 0) INT64_MAX)
          | _ \<Rightarrow> ([], omitted0));
         count = safe_nonnegative_int
           (safe_nonnegative_int (int (length previews)) (jget response' ''total'')) (JInt (ev_result_count e))
     in rbind (public_request env request) (\<lambda>shown_request.
        rbind (bounded_trace_document (te_float_text env) 65536 (JObj response')) (\<lambda>shown_response.
        rbind (bounded_trace_document (te_float_text env) 65536 (JObj err)) (\<lambda>shown_error.
        Inr \<lparr>tr_id = ev_id e, tr_correlation_id = ev_correlation_id e, tr_operation = ev_operation e,
          tr_display_operation = dget_or DISPLAY_OPERATION (ev_operation e) ''OTHER'', tr_status = ev_status e,
          tr_channel = to_channel_dict (from_stored (te_valid_uuid env) (stored_channel e)),
          tr_entities = event_entities e request, tr_request = shown_request, tr_response = shown_response,
          tr_error = shown_error, tr_result_count = count, tr_has_results = (count > 0),
          tr_latency_ms = safe_latency (ev_latency_ms e),
          tr_requested_at = (case ev_started_at e of Some t \<Rightarrow> t | None \<Rightarrow> ev_created_at e),
          tr_completed_at = ev_completed_at e, tr_result_previews = previews, tr_result_previews_omitted = omitted,
          tr_result_previews_scan_truncated = scan_truncated\<rparr>))))))"

definition record_successful_mutation ::
    "trace_env \<Rightarrow> attribution \<Rightarrow> string \<Rightarrow> time \<Rightarrow> time \<Rightarrow> project list \<Rightarrow> string \<Rightarrow> string \<Rightarrow> string \<Rightarrow> string \<Rightarrow>
     json dict \<Rightarrow> json dict \<Rightarrow> event list \<Rightarrow> (event \<times> event list) res" where
  "record_successful_mutation env who new_id t1 t2 projects pid operation subject_type subject_id request response events =
     rbind (create_event env who new_id t1 projects pid
       \<lparr>ea_app_id = None, ea_user_id = None, ea_agent_id = None, ea_run_id = None, ea_operation = operation,
        ea_request = request, ea_subject_type = Some subject_type, ea_subject_id = Some subject_id,
        ea_correlation_id = None, ea_allow_project_scope = True\<rparr> events) (\<lambda>(e, events').
       event_mark_succeeded env t2 projects (ev_id e) response events')"

section \<open>What queries return\<close>

lemma newest_first_set [simp]: "set (newest_first es) = set es"
  by (simp add: newest_first_def)

text \<open>The events a query is about.\<close>

definition wanted_event :: "(string \<Rightarrow> bool) \<Rightarrow> string \<Rightarrow> string option \<Rightarrow> event_query \<Rightarrow> event \<Rightarrow> bool" where
  "wanted_event valid_uuid pid app q e =
     (facet_condition pid app q (eq_entity_filters q) e \<and> matches_event_scope app (eq_entity_filters q) e
      \<and> matches_event_channel valid_uuid (eq_channel q) e)"

lemma validate_filters_same: "validate_entity_filters filters = Inr fs \<Longrightarrow> fs = filters"
proof -
  assume run: "validate_entity_filters filters = Inr fs"
  have "rmap (\<lambda>(field, expected).
       if field \<in> {''app_id'', ''user_id'', ''agent_id'', ''run_id''}
       then rbind (require_id (validate_scope_id (JStr expected) field True)) (\<lambda>v. Inr (field, v))
       else Inr (field, expected)) xs = Inr ys \<Longrightarrow> ys = xs" for xs ys
    by (induction xs arbitrary: ys)
      (auto simp: res_simps require_id_Inr validate_scope_id_Some split: if_splits)
  then show "fs = filters" using run unfolding validate_entity_filters_def by blast
qed

lemma validate_text_app: "validate_scope_id (JStr s) field r = Inr v \<Longrightarrow> v = Some s"
  by (auto simp: validate_scope_id_def Let_def split: if_splits)

lemma wanted_event_meaning:
  assumes "wanted_event valid_uuid pid app q e"
  shows "ev_project_id e = pid"
    "app = Some a \<Longrightarrow> ev_app_id e = Some a
         \<or> ev_app_id e = None \<and> (\<exists>d. ev_request_json e = Some (JObj d) \<and> request_app_id d = Some a)"
    "(field, v) \<in> set (eq_entity_filters q) \<Longrightarrow> field \<in> {''user_id'', ''agent_id'', ''run_id''} \<Longrightarrow>
         canonical_entity e field = Some v \<or> canonical_entity e field = None
           \<and> (\<exists>d. ev_request_json e = Some (JObj d) \<and> legacy_request_entity_id d field = Some v)"
    "eq_operation q = Some operation \<Longrightarrow> ev_operation e = operation"
    "eq_statuses q \<noteq> [] \<Longrightarrow> ev_status e \<in> set (eq_statuses q)"
    "eq_has_results q = Some b \<Longrightarrow> ev_has_results e = (if b then 1 else 0)"
    "eq_from_at q = Some t \<Longrightarrow> t \<le> ev_created_at e" "eq_to_at q = Some t \<Longrightarrow> ev_created_at e \<le> t"
    "eq_channel q = Some c \<Longrightarrow> (let a = from_stored valid_uuid (stored_channel e) in
         at_transport a = cf_transport c \<and> at_kind a = cf_kind c \<and> at_id a = cf_id c)"
proof -
  have facet: "facet_condition pid app q (eq_entity_filters q) e" and scope: "matches_event_scope app (eq_entity_filters q) e"
    and channel: "matches_event_channel valid_uuid (eq_channel q) e"
    using assms by (simp_all add: wanted_event_def)
  have request: "event_request t = Some d \<longleftrightarrow> t = Some (JObj d)" for t d
    by (auto simp: event_request_def split: option.splits json.splits)
  show "ev_project_id e = pid" using facet by (simp add: facet_condition_def)
  show "ev_app_id e = Some a
         \<or> ev_app_id e = None \<and> (\<exists>d. ev_request_json e = Some (JObj d) \<and> request_app_id d = Some a)" if "app = Some a"
    using scope that by (auto simp: matches_event_scope_def effective_app_def request split: option.splits if_splits)
  show "canonical_entity e field = Some v \<or> canonical_entity e field = None
           \<and> (\<exists>d. ev_request_json e = Some (JObj d) \<and> legacy_request_entity_id d field = Some v)"
    if "(field, v) \<in> set (eq_entity_filters q)" "field \<in> {''user_id'', ''agent_id'', ''run_id''}"
  proof -
    from scope that(1) obtain eff where "entity_filter_holds eff e (field, v)"
      by (auto simp: matches_event_scope_def list_all_iff split: option.splits)
    with that(2) show ?thesis by (auto simp: entity_filter_holds_def request split: option.splits)
  qed
  show "eq_operation q = Some operation \<Longrightarrow> ev_operation e = operation"
    "eq_statuses q \<noteq> [] \<Longrightarrow> ev_status e \<in> set (eq_statuses q)"
    "eq_has_results q = Some b \<Longrightarrow> ev_has_results e = (if b then 1 else 0)"
    "eq_from_at q = Some t \<Longrightarrow> t \<le> ev_created_at e" "eq_to_at q = Some t \<Longrightarrow> ev_created_at e \<le> t"
    using facet by (auto simp: facet_condition_def)
  show "eq_channel q = Some c \<Longrightarrow> (let a = from_stored valid_uuid (stored_channel e) in
         at_transport a = cf_transport c \<and> at_kind a = cf_kind c \<and> at_id a = cf_id c)"
    using channel by (simp add: matches_event_channel_def)
qed

text \<open>C33: What an event query returns belongs to the tenant that asked.  Every item is an event of
  the project; when an application is given, its column is that application, or it has none and the
  request it stores names that application; it passes the filters on operation, status, results
  and time; for each filter on a user, an agent or a run its column is the one asked for, or it
  has none and the stored request names it; and it shows under the channel asked for.  The total
  is never less than the number of items, which is at most the page size.\<close>

theorem event_queries_stay_in_scope:
  assumes run: "query_project_events valid_uuid pid app q events = Inr page"
  shows "(\<forall>e \<in> set (ep_items page). e \<in> set events \<and> ev_project_id e = pid
    \<and> (\<forall>a. app = Some a \<longrightarrow> ev_app_id e = Some a
         \<or> ev_app_id e = None \<and> (\<exists>d. ev_request_json e = Some (JObj d) \<and> request_app_id d = Some a))
    \<and> (\<forall>field v. (field, v) \<in> set (eq_entity_filters q) \<and> field \<in> {''user_id'', ''agent_id'', ''run_id''} \<longrightarrow>
         canonical_entity e field = Some v \<or> canonical_entity e field = None
           \<and> (\<exists>d. ev_request_json e = Some (JObj d) \<and> legacy_request_entity_id d field = Some v))
    \<and> (\<forall>operation. eq_operation q = Some operation \<longrightarrow> ev_operation e = operation)
    \<and> (eq_statuses q \<noteq> [] \<longrightarrow> ev_status e \<in> set (eq_statuses q))
    \<and> (\<forall>b. eq_has_results q = Some b \<longrightarrow> ev_has_results e = (if b then 1 else 0))
    \<and> (\<forall>t. eq_from_at q = Some t \<longrightarrow> t \<le> ev_created_at e) \<and> (\<forall>t. eq_to_at q = Some t \<longrightarrow> ev_created_at e \<le> t)
    \<and> (\<forall>c. eq_channel q = Some c \<longrightarrow> (let a = from_stored valid_uuid (stored_channel e) in
         at_transport a = cf_transport c \<and> at_kind a = cf_kind c \<and> at_id a = cf_id c)))
    \<and> length (ep_items page) \<le> min (eq_page_size q) (ep_total page)"
proof -
  define filters where "filters = eq_entity_filters q"
  define candidates where "candidates = filter (facet_condition pid app q filters) events"
  define found where "found = filter (matches_event_channel valid_uuid (eq_channel q))
    (filter (matches_event_scope app filters)
      (if app = None then take EVENT_SCAN_LIMIT (newest_first candidates)
       else newest_first (filter (channel_condition (eq_channel q)) candidates)))"
  have page: "ep_items page = take (eq_page_size q) (drop ((eq_page q - 1) * eq_page_size q) found)" "ep_total page = length found"
    using run
    by (auto simp: query_project_events_def query_snapshot_def snapshot_page_def rbind_Inr_iff Let_def filters_def candidates_def found_def
        dest!: validate_filters_same validate_text_app split: option.splits if_splits)
  have "set found \<subseteq> {e \<in> set events. wanted_event valid_uuid pid app q e}"
    by (auto simp: found_def candidates_def filters_def wanted_event_def dest: in_set_takeD split: if_splits)
  then have "set (ep_items page) \<subseteq> {e \<in> set events. wanted_event valid_uuid pid app q e}"
    unfolding page(1) by (meson set_drop_subset set_take_subset subset_trans)
  then have wanted: "e \<in> set events" "wanted_event valid_uuid pid app q e" if "e \<in> set (ep_items page)" for e
    using that by blast+
  note wants = wanted_event_meaning [OF wanted(2)]
  have few: "length (ep_items page) \<le> min (eq_page_size q) (ep_total page)" by (simp add: page)
  show ?thesis
    by (intro conjI ballI allI impI; (elim conjE)?; (rule few | rule wanted(1) wants; assumption+))
qed

definition sample_event :: "string \<Rightarrow> string option \<Rightarrow> string option \<Rightarrow> event" where
  "sample_event i transport kind = \<lparr>ev_id = i, ev_project_id = ''p'', ev_app_id = Some ''a'', ev_user_id = None,
     ev_agent_id = None, ev_run_id = None, ev_operation = ''memory.add'', ev_status = EV_SUCCEEDED,
     ev_subject_type = None, ev_subject_id = None, ev_request_json = Some (JObj []), ev_response_json = Some (JObj []),
     ev_error_json = Some (JObj []), ev_correlation_id = None, ev_request_transport = transport,
     ev_credential_kind = kind, ev_credential_id = None, ev_credential_label = None, ev_credential_prefix = None,
     ev_latency_ms = None, ev_result_count = 0, ev_has_results = 0, ev_created_at = 0, ev_started_at = None,
     ev_completed_at = None\<rparr>"

definition sample_events :: "event list" where
  "sample_events = [sample_event ''1'' None None, sample_event ''2'' None None, sample_event ''3'' (Some ''fax'') None]"

definition sample_event_query :: event_query where
  "sample_event_query = \<lparr>eq_operation = None, eq_statuses = [], eq_has_results = None, eq_from_at = None,
     eq_to_at = None, eq_entity_filters = [], eq_channel = None, eq_page = 1, eq_page_size = 50\<rparr>"

theorem event_queries_stay_in_scope_witness:
  "\<exists>page. query_project_events (\<lambda>_. True) ''p'' (Some ''a'') sample_event_query sample_events = Inr page
     \<and> ep_items page \<noteq> [] \<and> (\<forall>e \<in> set (ep_items page). ev_project_id e = ''p'' \<and> ev_app_id e \<in> {Some ''a'', None})"
proof -
  have "case query_project_events (\<lambda>_. True) ''p'' (Some ''a'') sample_event_query sample_events of
      Inl _ \<Rightarrow> False | Inr page \<Rightarrow> ep_items page \<noteq> []"
    by code_simp
  then obtain page where run: "query_project_events (\<lambda>_. True) ''p'' (Some ''a'') sample_event_query sample_events = Inr page"
    and items: "ep_items page \<noteq> []"
    unfolding case_checks by blast
  have "ev_project_id e = ''p'' \<and> ev_app_id e \<in> {Some ''a'', None}" if "e \<in> set (ep_items page)" for e
    using bspec [OF conjunct1 [OF event_queries_stay_in_scope [OF run]] that] by blast
  with run items show ?thesis by blast
qed

section \<open>Credentials do not reach events\<close>

definition blank_members :: "json dict \<Rightarrow> json dict" where
  "blank_members m = map (\<lambda>(k, v). (k, if is_secret_key k then JNull else blank_secrets v)) m"

lemma blank_obj: "blank_secrets (JObj m) = JObj (blank_members m)"
  by (simp add: blank_members_def)

lemma safe_document_blank: "safe_trace_document env hosts (JObj (blank_members m)) = safe_trace_document env hosts (JObj m)"
  unfolding safe_trace_document_def blank_obj [symmetric] trace_document_blank by (rule refl)

lemma dget_blank: "\<not> is_secret_key k \<Longrightarrow> dget (blank_members m) k = map_option blank_secrets (dget m k)"
  by (induction m) (auto simp: blank_members_def)

lemma scope_keys_public:
  "\<not> is_secret_key ''app_id''" "\<not> is_secret_key ''user_id''" "\<not> is_secret_key ''agent_id''" "\<not> is_secret_key ''run_id''"
  "\<not> is_secret_key ''metadata''" "\<not> is_secret_key APP_MARKER_KEY"
  by code_simp+

lemma validate_blank: "validate_scope_id (blank_secrets v) f r = validate_scope_id v f r"
  by (cases v) (simp_all add: validate_scope_id_def)

lemma one_scope_blank: "one_scope f i c (map blank_secrets vs) = one_scope f i c vs"
  by (simp add: one_scope_def rmap_map validate_blank)

lemma jget_blank: "\<not> is_secret_key k \<Longrightarrow> jget (blank_members m) k = blank_secrets (jget m k)"
  by (simp add: jget_def dget_blank split: option.split)

lemma map_filter_dget_blank:
  "list_all (\<lambda>k. \<not> is_secret_key k) ks \<Longrightarrow>
     List.map_filter (dget (blank_members m)) ks = map blank_secrets (List.map_filter (dget m) ks)"
  by (induction ks) (auto simp: dget_blank split: option.split)

lemma app_values_blank: "app_values (blank_members m) = map blank_secrets (app_values m)"
proof (cases "jget m ''metadata''")
  case (JObj d)
  then show ?thesis
    by (simp add: app_values_def jget_blank scope_keys_public map_filter_dget_blank blank_obj del: blank_secrets.simps map_filter_simps)
qed (simp_all add: app_values_def jget_blank scope_keys_public map_filter_dget_blank del: map_filter_simps)

lemma given_blank: "map blank_secrets (given v) = given v"
  by (simp add: given_def split: option.split)

lemma one_scope_given: "one_scope f i c (map blank_secrets xs @ given v) = one_scope f i c (xs @ given v)"
  using one_scope_blank [of f i c "xs @ given v"] by (simp only: map_append given_blank)

lemma canonical_blank:
  "raw_canonical_event_app_id (blank_members m) v = raw_canonical_event_app_id m v"
  "\<not> is_secret_key f \<Longrightarrow> raw_canonical_event_entity_id (blank_members m) v f = raw_canonical_event_entity_id m v f"
  unfolding raw_canonical_event_app_id_def raw_canonical_event_entity_id_def Let_def
  by (simp_all add: app_values_blank map_filter_dget_blank one_scope_given del: map_filter_simps)

text \<open>C32: No credential reaches an event: the row written for a request, and the one a failure is
  recorded in, do not depend on the values the request or the error has under credential keys, at any
  depth.\<close>

theorem secrets_do_not_reach_events:
  "create_event env who i now projects pid (a\<lparr>ea_request := blank_members (ea_request a)\<rparr>) events
     = create_event env who i now projects pid a events
   \<and> event_mark_failed env now projects i (blank_members err) events = event_mark_failed env now projects i err events"
  by (simp add: create_event_def event_mark_failed_def canonical_blank scope_keys_public safe_document_blank Let_def)

end
