(* ===== verification/Service.thy ===== *)
theory Service
  imports Mem0_Client Extraction_Policy Events Entities Memory_Records Mutation_Intents Consolidation_Store
begin

text \<open>
  What the operations of the memory service (\<open>MemoryService\<close> in \<open>core/memory_ops.py\<close>) are made of:
  the tables they work on, transactions, calls of the upstream service, and the helpers that
  write errors, events and projections.

  A transaction is a function of the tables: when it raises, nothing of it is kept.  An operation
  runs in a world of the tables and of the calls sent so far; while it waits for the upstream
  service, other clients work on that world, which is what \<open>se_others\<close> stands for.  The network is
  the parameter \<open>se_network\<close>: it answers a request, knowing all calls before it.  The clock and the
  new identifiers, \<open>se_moment\<close>, may change with every call; between two calls time stands still.
\<close>

section \<open>State and environment\<close>

record svc_db =
  sd_projects :: "project list"
  sd_categories :: "category list"
  sd_memories :: "memory_index list"
  sd_events :: "event list"
  sd_entities :: "entity list"
  sd_intents :: intent_store
  sd_proposals :: "consolidation_proposal list"

record world =
  w_db :: svc_db
  w_calls :: "upstream_call list"

datatype id_purpose =
    Event_Id | Intent_Id | Operation_Token | Target_Id string nat | Memory_Row string | Entity_Row string string string

record moment =
  mo_now :: time
  mo_id :: "id_purpose \<Rightarrow> string"

record service_env =
  se_trace :: trace_env
  se_client :: client_config
  se_caller :: attribution
  se_request_id :: "string option"
  se_has_receipts :: bool
  se_network :: "upstream_call list \<Rightarrow> http_request \<Rightarrow> http_outcome"
  se_others :: "world \<Rightarrow> world"
  se_moment :: "upstream_call list \<Rightarrow> moment"
  se_fromiso :: "string \<Rightarrow> datetime option"
  se_isoformat :: "time \<Rightarrow> string"
  se_isodatetime :: "datetime \<Rightarrow> string"
  se_pow2 :: "rat \<Rightarrow> pyfloat"
  se_repr :: "string \<Rightarrow> string"
  se_to_bool :: "json \<Rightarrow> bool res"
  se_to_int :: "json \<Rightarrow> int option"

abbreviation se_sha256 :: "service_env \<Rightarrow> string \<Rightarrow> string" where
  "se_sha256 env \<equiv> te_sha256 (se_trace env)"

abbreviation se_float_text :: "service_env \<Rightarrow> pyfloat \<Rightarrow> string" where
  "se_float_text env \<equiv> te_float_text (se_trace env)"

section \<open>Transactions\<close>

type_synonym 'a txn = "svc_db \<Rightarrow> ('a \<times> svc_db) res"

definition tx_return :: "'a \<Rightarrow> 'a txn" where
  "tx_return x db = Inr (x, db)"

definition tx_raise :: "exn_class \<Rightarrow> string \<Rightarrow> 'a txn" where
  "tx_raise c m db = raise c m"

definition tx_bind :: "'a txn \<Rightarrow> ('a \<Rightarrow> 'b txn) \<Rightarrow> 'b txn" where
  "tx_bind t f db = (case t db of Inl e \<Rightarrow> Inl e | Inr (x, db') \<Rightarrow> f x db')"

definition tx_then :: "'a txn \<Rightarrow> 'b txn \<Rightarrow> 'b txn" where
  "tx_then t u = tx_bind t (\<lambda>_. u)"

definition tx_query :: "(svc_db \<Rightarrow> 'a res) \<Rightarrow> 'a txn" where
  "tx_query q db = (case q db of Inl e \<Rightarrow> Inl e | Inr x \<Rightarrow> Inr (x, db))"

definition tx_res :: "'a res \<Rightarrow> 'a txn" where
  "tx_res r db = (case r of Inl e \<Rightarrow> Inl e | Inr x \<Rightarrow> Inr (x, db))"

fun tx_each :: "('x \<Rightarrow> 'a txn) \<Rightarrow> 'x list \<Rightarrow> 'a list txn" where
  "tx_each f [] = tx_return []"
| "tx_each f (x # xs) = tx_bind (f x) (\<lambda>y. tx_bind (tx_each f xs) (\<lambda>ys. tx_return (y # ys)))"

text \<open>One transaction on one table.\<close>

definition tx_intents :: "(intent_store \<Rightarrow> ('a \<times> intent_store) res) \<Rightarrow> 'a txn" where
  "tx_intents f db = (case f (sd_intents db) of Inl e \<Rightarrow> Inl e | Inr (x, st) \<Rightarrow> Inr (x, db\<lparr>sd_intents := st\<rparr>))"

definition tx_events :: "(event list \<Rightarrow> ('a \<times> event list) res) \<Rightarrow> 'a txn" where
  "tx_events f db = (case f (sd_events db) of Inl e \<Rightarrow> Inl e | Inr (x, es) \<Rightarrow> Inr (x, db\<lparr>sd_events := es\<rparr>))"

definition tx_memories :: "(memory_index list \<Rightarrow> 'a \<times> memory_index list) \<Rightarrow> 'a txn" where
  "tx_memories f db = (case f (sd_memories db) of (x, ms) \<Rightarrow> Inr (x, db\<lparr>sd_memories := ms\<rparr>))"

definition tx_entities :: "(svc_db \<Rightarrow> entity list \<Rightarrow> entity list res) \<Rightarrow> unit txn" where
  "tx_entities f db = (case f db (sd_entities db) of Inl e \<Rightarrow> Inl e | Inr es \<Rightarrow> Inr ((), db\<lparr>sd_entities := es\<rparr>))"

section \<open>Operations in the world\<close>

type_synonym 'a act = "world \<Rightarrow> 'a result \<times> world"

definition act_return :: "'a \<Rightarrow> 'a act" where
  "act_return x w = (Inr x, w)"

definition act_raise :: "exn_class \<Rightarrow> string \<Rightarrow> 'a act" where
  "act_raise c m w = (Inl (Threw (Exn c m)), w)"

definition act_bind :: "'a act \<Rightarrow> ('a \<Rightarrow> 'b act) \<Rightarrow> 'b act" where
  "act_bind m f w = (case m w of (Inl e, w') \<Rightarrow> (Inl e, w') | (Inr x, w') \<Rightarrow> f x w')"

definition act_then :: "'a act \<Rightarrow> 'b act \<Rightarrow> 'b act" where
  "act_then m n = act_bind m (\<lambda>_. n)"

definition act_catch :: "'a act \<Rightarrow> (failure \<Rightarrow> 'a act) \<Rightarrow> 'a act" where
  "act_catch m h w = (case m w of (Inl e, w') \<Rightarrow> h e w' | (Inr x, w') \<Rightarrow> (Inr x, w'))"

definition act_fail :: "failure \<Rightarrow> 'a act" where
  "act_fail e w = (Inl e, w)"

definition act_res :: "'a res \<Rightarrow> 'a act" where
  "act_res r w = (case r of Inl e \<Rightarrow> (Inl (Threw e), w) | Inr x \<Rightarrow> (Inr x, w))"

definition act_result :: "'a result \<Rightarrow> 'a act" where
  "act_result r w = (r, w)"

definition inspect :: "(svc_db \<Rightarrow> 'a res) \<Rightarrow> 'a act" where
  "inspect q w = (case q (w_db w) of Inl e \<Rightarrow> (Inl (Threw e), w) | Inr x \<Rightarrow> (Inr x, w))"

definition moment_of :: "service_env \<Rightarrow> world \<Rightarrow> moment" where
  "moment_of env w = se_moment env (w_calls w)"

text \<open>Run to the commit, or roll back.\<close>

definition transact :: "service_env \<Rightarrow> (moment \<Rightarrow> 'a txn) \<Rightarrow> 'a act" where
  "transact env t w =
     (case t (moment_of env w) (w_db w) of
        Inl e \<Rightarrow> (Inl (Threw e), w)
      | Inr (x, db) \<Rightarrow> (Inr x, w\<lparr>w_db := db\<rparr>))"

text \<open>A call is sent, others work while it is under way, and then its result is there.\<close>

definition ask :: "service_env \<Rightarrow> upstream_call \<Rightarrow> json act" where
  "ask env c w =
     (call_result (se_client env) c (se_network env (w_calls w) (call_request (se_client env) c)),
      se_others env (w\<lparr>w_calls := w_calls w @ [c]\<rparr>))"

section \<open>Sanitised documents, errors and events\<close>

definition sanitize_payload :: "service_env \<Rightarrow> svc_db \<Rightarrow> string \<Rightarrow> json dict \<Rightarrow> json dict" where
  "sanitize_payload env db pid payload =
     (case safe_trace_document (se_trace env) (project_internal_hosts (se_trace env) (sd_projects db) pid) (JObj payload) of
        Inr d \<Rightarrow> d | Inl _ \<Rightarrow> [])"

text \<open>An operation on the intents of a project.\<close>

definition intent_op :: "service_env \<Rightarrow> string \<Rightarrow>
    ((json dict \<Rightarrow> json) \<Rightarrow> intent_store \<Rightarrow> ('a \<times> intent_store) res) \<Rightarrow> 'a txn" where
  "intent_op env pid f db = tx_intents (f (\<lambda>d. JObj (sanitize_payload env db pid d))) db"

definition failure_type :: "failure \<Rightarrow> string" where
  "failure_type e = (case e of Threw x \<Rightarrow> error_type (exn_class x) | Interrupted \<Rightarrow> ''CancelledError''
     | _ \<Rightarrow> ''Mem0UpstreamError'')"

definition failure_text :: "service_env \<Rightarrow> failure \<Rightarrow> string" where
  "failure_text env e =
     (case e of
        Threw (Exn KeyError m) \<Rightarrow> se_repr env m
      | Threw (Exn c m) \<Rightarrow> m
      | Interrupted \<Rightarrow> []
      | Mem0_Error mth p status t unknown message \<Rightarrow> message)"

definition error_payload :: "service_env \<Rightarrow> failure \<Rightarrow> json dict" where
  "error_payload env e =
     [(''error_type'', JStr (failure_type e)), (''message'', JStr (failure_text env e))]
     @ (case se_request_id env of Some (c # cs) \<Rightarrow> [(''request_id'', JStr (c # cs))] | _ \<Rightarrow> [])
     @ (case e of
          Mem0_Error mth p status t unknown message \<Rightarrow>
            [(''upstream_method'', JStr mth), (''upstream_path'', JStr p),
             (''upstream_status_code'', case status of None \<Rightarrow> JNull | Some n \<Rightarrow> JInt (int n))]
            @ (case t of None \<Rightarrow> [] | Some s \<Rightarrow> [(''upstream_response_text'', JStr (take 1000 s))])
        | _ \<Rightarrow> [])"

definition status_text :: "event_status \<Rightarrow> string" where
  "status_text s = (case s of EV_PENDING \<Rightarrow> ''PENDING'' | EV_RUNNING \<Rightarrow> ''RUNNING'' | EV_SUCCEEDED \<Rightarrow> ''SUCCEEDED''
     | EV_FAILED \<Rightarrow> ''FAILED'' | EV_CANCELLED \<Rightarrow> ''CANCELLED'')"

definition event_payload :: "event \<Rightarrow> json" where
  "event_payload e = JObj
     [(''id'', JStr (ev_id e)), (''operation'', JStr (ev_operation e)), (''status'', JStr (status_text (ev_status e))),
      (''subject_type'', opt_json (ev_subject_type e)), (''subject_id'', opt_json (ev_subject_id e))]"

definition svc_create_event :: "service_env \<Rightarrow> moment \<Rightarrow> string \<Rightarrow> event_args \<Rightarrow> event txn" where
  "svc_create_event env m pid a db =
     tx_events (create_event (se_trace env) (se_caller env) (mo_id m Event_Id) (mo_now m) (sd_projects db) pid a) db"

definition svc_event_failed :: "service_env \<Rightarrow> moment \<Rightarrow> string \<Rightarrow> json dict \<Rightarrow> event txn" where
  "svc_event_failed env m eid err db =
     tx_events (event_mark_failed (se_trace env) (mo_now m) (sd_projects db) eid err) db"

definition svc_event_succeeded :: "service_env \<Rightarrow> moment \<Rightarrow> string \<Rightarrow> json dict \<Rightarrow> event txn" where
  "svc_event_succeeded env m eid response db =
     tx_events (event_mark_succeeded (se_trace env) (mo_now m) (sd_projects db) eid response) db"

definition svc_set_subject :: "string \<Rightarrow> string option \<Rightarrow> unit txn" where
  "svc_set_subject eid subject = tx_events (\<lambda>es. rbind (get_event eid es) (\<lambda>e.
     Inr ((), save_event (e\<lparr>ev_subject_id := subject\<rparr>) es)))"

definition svc_lock :: "string \<Rightarrow> unit txn" where
  "svc_lock pid = tx_query (\<lambda>db. rbind (lock_for_mutation pid (sd_projects db)) (\<lambda>_. Inr ()))"

definition svc_get_intent :: "string \<Rightarrow> mutation_intent txn" where
  "svc_get_intent iid = tx_query (\<lambda>db. get_intent iid (sd_intents db))"

definition svc_require :: "string \<Rightarrow> int \<Rightarrow> time option \<Rightarrow> mutation_intent txn" where
  "svc_require iid attempt claimed_at =
     tx_query (\<lambda>db. require_active_attempt iid attempt claimed_at (sd_intents db))"

text \<open>The lock and the fence that every settling transaction starts with.\<close>

definition svc_owned :: "string \<Rightarrow> string \<Rightarrow> int \<Rightarrow> time option \<Rightarrow> (mutation_intent \<Rightarrow> 'a txn) \<Rightarrow> 'a txn" where
  "svc_owned pid iid attempt claimed_at f = tx_then (svc_lock pid) (tx_bind (svc_require iid attempt claimed_at) f)"

definition svc_mark_target :: "moment \<Rightarrow> string \<Rightarrow> unit txn" where
  "svc_mark_target m tid = tx_intents (\<lambda>st. Inr ((), mark_target_succeeded (mo_now m) tid st))"

definition svc_mark_unresolved :: "service_env \<Rightarrow> moment \<Rightarrow> string \<Rightarrow> string \<Rightarrow> json dict \<Rightarrow> mutation_intent txn" where
  "svc_mark_unresolved env m pid iid err = intent_op env pid (\<lambda>safe. mark_unresolved safe (mo_now m) iid (Some err))"

definition svc_fail :: "service_env \<Rightarrow> moment \<Rightarrow> string \<Rightarrow> string \<Rightarrow> json dict \<Rightarrow> mutation_intent txn" where
  "svc_fail env m pid iid err = intent_op env pid (\<lambda>safe. fail_intent safe (mo_now m) iid err ''FAILED'' None)"

definition svc_complete :: "service_env \<Rightarrow> moment \<Rightarrow> string \<Rightarrow> string \<Rightarrow> json dict \<Rightarrow> mutation_intent txn" where
  "svc_complete env m pid iid r = intent_op env pid (\<lambda>safe. complete_intent safe (mo_now m) iid r)"

definition svc_sanitize :: "service_env \<Rightarrow> string \<Rightarrow> json dict \<Rightarrow> json dict txn" where
  "svc_sanitize env pid d = tx_query (\<lambda>db. Inr (sanitize_payload env db pid d))"

section \<open>Projections\<close>

record projection_snapshot =
  ps_row_id :: string
  ps_project_id :: string
  ps_memory_id :: string
  ps_user_id :: "string option"
  ps_agent_id :: "string option"
  ps_app_id :: "string option"
  ps_run_id :: "string option"
  ps_category :: "string option"
  ps_entity_refs_json :: json_text
  ps_metadata_projection_json :: json_text
  ps_consolidation_state :: string
  ps_shadowed_by_proposal_id :: "string option"
  ps_created_at :: time
  ps_updated_at :: time

definition snapshot_memory_projection :: "memory_index \<Rightarrow> projection_snapshot" where
  "snapshot_memory_projection m =
     \<lparr>ps_row_id = mi_id m, ps_project_id = mi_project_id m, ps_memory_id = mi_mem0_memory_id m,
      ps_user_id = mi_user_id m, ps_agent_id = mi_agent_id m, ps_app_id = mi_app_id m, ps_run_id = mi_run_id m,
      ps_category = mi_category m, ps_entity_refs_json = mi_entity_refs_json m,
      ps_metadata_projection_json = mi_metadata_projection_json m,
      ps_consolidation_state = mi_consolidation_state m,
      ps_shadowed_by_proposal_id = mi_shadowed_by_proposal_id m, ps_created_at = mi_created_at m,
      ps_updated_at = mi_updated_at m\<rparr>"

definition ids_of_snapshot :: "projection_snapshot \<Rightarrow> projection_ids" where
  "ids_of_snapshot s = \<lparr>pi_user_id = ps_user_id s, pi_agent_id = ps_agent_id s, pi_app_id = ps_app_id s,
     pi_run_id = ps_run_id s\<rparr>"

definition projection_matches_snapshot :: "memory_index \<Rightarrow> projection_snapshot \<Rightarrow> bool" where
  "projection_matches_snapshot m s = (live m \<and> snapshot_memory_projection m = s)"

definition require_unchanged_memory_projection ::
    "projection_snapshot \<Rightarrow> string option \<Rightarrow> memory_index list \<Rightarrow> unit res" where
  "require_unchanged_memory_projection s app rows =
     (case get_memory (ps_project_id s) (ps_memory_id s) app False rows of
        None \<Rightarrow> raise KeyError (ps_memory_id s)
      | Some m \<Rightarrow>
          if projection_matches_snapshot m s then Inr ()
          else raise MutationConflict ''Memory projection changed during upstream read'')"

text \<open>The affected projections grouped by application, in the order the applications first occur.\<close>

definition append_affected_projection ::
    "projection_snapshot list dict \<Rightarrow> projection_snapshot \<Rightarrow> projection_snapshot list dict" where
  "append_affected_projection by_app s =
     (case ps_app_id s of
        Some (c # cs) \<Rightarrow> dset (c # cs) (dget_or by_app (c # cs) [] @ [s]) by_app
      | _ \<Rightarrow> by_app)"

definition svc_refresh :: "moment \<Rightarrow> string \<Rightarrow> string \<Rightarrow> projection_snapshot list \<Rightarrow> unit txn" where
  "svc_refresh m pid app ps = tx_entities (\<lambda>db.
     refresh_affected_memories (\<lambda>(kind, i). mo_id m (Entity_Row app kind i)) (mo_now m) pid app
       (map ids_of_snapshot ps) (sd_memories db))"

definition svc_refresh_affected_projections :: "moment \<Rightarrow> string \<Rightarrow> projection_snapshot list \<Rightarrow> unit txn" where
  "svc_refresh_affected_projections m pid ps =
     tx_then (tx_each (\<lambda>(app, group). svc_refresh m pid app group) (foldl append_affected_projection [] ps)) (tx_return ())"

definition svc_find_memory :: "string \<Rightarrow> string \<Rightarrow> string option \<Rightarrow> bool \<Rightarrow> memory_index option txn" where
  "svc_find_memory pid mid app include_deleted =
     tx_query (\<lambda>db. Inr (get_memory pid mid app include_deleted (sd_memories db)))"

definition svc_upsert :: "moment \<Rightarrow> string \<Rightarrow> string \<Rightarrow> projection \<Rightarrow> memory_index txn" where
  "svc_upsert m pid mid p = tx_memories (upsert_memory (mo_id m (Memory_Row mid)) (mo_now m) pid mid p False)"

definition svc_delete_row :: "moment \<Rightarrow> string \<Rightarrow> string \<Rightarrow> unit txn" where
  "svc_delete_row m pid mid = tx_memories (\<lambda>ms. ((), snd (delete_memory_row (mo_now m) pid mid ms)))"

text \<open>A column of text takes text or null.\<close>

definition column_text :: "json \<Rightarrow> string option res" where
  "column_text v = (case v of JNull \<Rightarrow> Inr None | JStr s \<Rightarrow> Inr (Some s) | _ \<Rightarrow> raise (OtherError ''StatementError'') [])"

definition owned_projection ::
    "projection \<Rightarrow> string option \<Rightarrow> string option \<Rightarrow> string \<Rightarrow> string option \<Rightarrow> string option \<Rightarrow> json dict \<Rightarrow> projection" where
  "owned_projection p user agent app run category metadata =
     p\<lparr>pj_user_id := user, pj_agent_id := agent, pj_app_id := Some app, pj_run_id := run,
       pj_category := category, pj_metadata := metadata\<rparr>"

text \<open>The projection of a normalised record, whose owner comes from the record.\<close>

definition record_projection ::
    "service_env \<Rightarrow> time \<Rightarrow> json dict \<Rightarrow> string \<Rightarrow> string option \<Rightarrow> json dict \<Rightarrow> projection res" where
  "record_projection env observed_at item app category metadata =
     rbind (memory_projection_fields (se_sha256 env) (se_fromiso env) item observed_at) (\<lambda>p.
     rbind (column_text (jget item ''user_id'')) (\<lambda>user.
     rbind (column_text (jget item ''agent_id'')) (\<lambda>agent.
     rbind (column_text (jget item ''run_id'')) (\<lambda>run.
       Inr (owned_projection p user agent app run category metadata)))))"

definition first_category :: "json dict \<Rightarrow> string option" where
  "first_category item = (case jget item ''categories'' of JList (JStr c # _) \<Rightarrow> Some c | _ \<Rightarrow> None)"

end
