(* ===== verification/Recovery.thy ===== *)
theory Recovery
  imports Service
begin

text \<open>
  Recovery of interrupted mutations (\<open>MemoryService.recover_pending_mutations\<close> and the
  \<open>_recover_*_intent\<close> methods of \<open>core/memory_ops.py\<close>).  Before a mutation begins in a scope, every
  intent of that scope whose outcome is open is claimed and settled by observation: recovery
  reads from the upstream service and never sends a mutation again.
\<close>

definition MUTATION_MARKER_LOOKUP_LIMIT :: nat where "MUTATION_MARKER_LOOKUP_LIMIT = 1000"
definition RECOVERY_READ_BATCH :: nat where "RECOVERY_READ_BATCH = 50"

definition RECOVERABLE_STATUSES :: "string list" where
  "RECOVERABLE_STATUSES = [''ACTIVE'', ''UNKNOWN'', ''PENDING'', ''EXHAUSTED'']"

section \<open>Additions\<close>

text \<open>What the intent of an addition and its event say.\<close>

record add_recovery =
  rv_payload :: "json dict"
  rv_project_id :: string
  rv_app_id :: string
  rv_event_id :: string
  rv_entity_filters :: "json dict"

definition entity_filters :: "event \<Rightarrow> json dict" where
  "entity_filters e =
     List.map_filter (\<lambda>(k, v). case v of Some (c # cs) \<Rightarrow> Some (k, JStr (c # cs)) | _ \<Rightarrow> None)
       [(''user_id'', ev_user_id e), (''agent_id'', ev_agent_id e), (''run_id'', ev_run_id e)]"

definition read_add_intent :: "string \<Rightarrow> svc_db \<Rightarrow> add_recovery res" where
  "read_add_intent iid db =
     rbind (get_intent iid (sd_intents db)) (\<lambda>i.
     rbind (get_event (int_event_id i) (sd_events db)) (\<lambda>e.
       Inr \<lparr>rv_payload = intent_payload i, rv_project_id = int_project_id i, rv_app_id = int_app_id i,
         rv_event_id = int_event_id i, rv_entity_filters = entity_filters e\<rparr>))"

text \<open>The receipt must be that of this addition; a finished one tells how it ended.\<close>

definition check_receipt :: "add_recovery \<Rightarrow> string \<Rightarrow> add_receipt \<Rightarrow> unit act" where
  "check_receipt rv marker receipt =
     (if (ar_project_id receipt, ar_app_id receipt, ar_mutation_id receipt) \<noteq> (rv_project_id rv, rv_app_id rv, marker)
      then act_raise ProtocolError ''Add receipt identity mismatch''
      else if ar_status receipt = ''RUNNING''
      then act_raise MutationConflict ''Core add is still running; no replay issued''
      else act_return ())"

definition receipt_is_noop :: "add_receipt \<Rightarrow> bool" where
  "receipt_is_noop receipt =
     (case ar_result receipt of Some r \<Rightarrow> dget r ''results'' = Some (JList []) | None \<Rightarrow> False)"

definition settle_failed_add ::
    "service_env \<Rightarrow> string \<Rightarrow> int \<Rightarrow> time option \<Rightarrow> string \<Rightarrow> moment \<Rightarrow> unit txn" where
  "settle_failed_add env iid attempt claimed_at pid m =
     svc_owned pid iid attempt claimed_at (\<lambda>i.
       let err = [(''message'', JStr ''Core confirmed add execution failed; no replay issued'')] in
       tx_then (svc_event_failed env m (int_event_id i) err)
       (tx_then (svc_fail env m pid iid err) (tx_return ())))"

text \<open>An addition that stored nothing.\<close>

definition settle_noop_add ::
    "service_env \<Rightarrow> string \<Rightarrow> int \<Rightarrow> time option \<Rightarrow> string \<Rightarrow> moment \<Rightarrow> unit txn" where
  "settle_noop_add env iid attempt claimed_at pid m =
     svc_owned pid iid attempt claimed_at (\<lambda>i.
       tx_then (svc_set_subject (int_event_id i) None)
       (tx_bind (svc_event_succeeded env m (int_event_id i) [(''results'', JList [])]) (\<lambda>e.
       tx_bind (svc_sanitize env pid [(''memory'', JObj [(''results'', JList [])]), (''event'', event_payload e)]) (\<lambda>r.
       tx_then (svc_complete env m pid iid r) (tx_return ())))))"

definition marker_total_ok :: "json dict \<Rightarrow> nat \<Rightarrow> unit res" where
  "marker_total_ok response n =
     (case dget response ''total'' of
        Some (JInt t) \<Rightarrow>
          if t < int n then raise ProtocolError ''Upstream exact-marker response total is invalid''
          else if t > int n then raise ProtocolError ''Upstream exact-marker response is truncated''
          else Inr ()
      | None \<Rightarrow>
          if n = MUTATION_MARKER_LOOKUP_LIMIT then raise ProtocolError ''Upstream exact-marker response is truncated''
          else Inr ()
      | Some _ \<Rightarrow> raise ProtocolError ''Upstream exact-marker response total is invalid'')"

definition carries_scope :: "string \<Rightarrow> string \<Rightarrow> string \<Rightarrow> json dict \<Rightarrow> bool" where
  "carries_scope marker pid app item =
     (case jget item ''metadata'' of
        JObj metadata \<Rightarrow> jget metadata MUTATION_MARKER = JStr marker \<and> jget metadata PROJECT_MARKER = JStr pid
          \<and> jget metadata APP_MARKER = JStr app
      | _ \<Rightarrow> False)"

definition marked_records :: "string \<Rightarrow> add_recovery \<Rightarrow> json \<Rightarrow> json dict list res" where
  "marked_records marker rv response =
     rbind (bounded_list_results response MUTATION_MARKER_LOOKUP_LIMIT) (\<lambda>items.
     rbind (marker_total_ok (jobject response) (length items)) (\<lambda>_.
       Inr (List.map_filter (\<lambda>item. case item of
           JObj d \<Rightarrow> if carries_scope marker (rv_project_id rv) (rv_app_id rv) d then Some d else None
         | _ \<Rightarrow> None) items)))"

definition observation_params :: "string \<Rightarrow> add_recovery \<Rightarrow> json dict" where
  "observation_params marker rv =
     dupdate [(''top_k'', JInt (int MUTATION_MARKER_LOOKUP_LIMIT)), (''show_expired'', JBool True),
       (MUTATION_MARKER, JStr marker)] (rv_entity_filters rv)"

text \<open>The names a category may have: those frozen with the intent, or those of the project.\<close>

definition frozen_names :: "json dict \<Rightarrow> string list" where
  "frozen_names payload =
     (case jget (jobject (jget (jobject (jget payload ''upstream_payload'')) ''extraction_policy'')) ''categories'' of
        JList items \<Rightarrow> List.map_filter (\<lambda>item. case item of
            JObj d \<Rightarrow> (case jget d ''name'' of JStr s \<Rightarrow> Some s | _ \<Rightarrow> None)
          | _ \<Rightarrow> None) items
      | _ \<Rightarrow> [])"

definition enabled_categories :: "string \<Rightarrow> svc_db \<Rightarrow> category list" where
  "enabled_categories pid db = filter (\<lambda>c. cat_enabled c \<noteq> 0) (list_project_categories pid (sd_categories db))"

definition CATEGORY_SNAPSHOT_KEY :: string where "CATEGORY_SNAPSHOT_KEY = ''projection_category_hash_snapshot''"

definition recovery_categories ::
    "service_env \<Rightarrow> add_recovery \<Rightarrow> svc_db \<Rightarrow> (string set \<times> string set option) res" where
  "recovery_categories env rv db =
     (case dget (rv_payload rv) CATEGORY_SNAPSHOT_KEY of
        Some snapshot \<Rightarrow> rbind (projection_category_hashes (se_sha256 env) snapshot) (\<lambda>hashes. Inr ({}, Some (set hashes)))
      | None \<Rightarrow> Inr (set (map cat_name (enabled_categories (rv_project_id rv) db)) \<union> set (frozen_names (rv_payload rv)), None))"

text \<open>One observed memory is written to the index; the snapshots before and after come back.\<close>

definition index_recovered ::
    "service_env \<Rightarrow> moment \<Rightarrow> string \<Rightarrow> string \<Rightarrow> string set \<times> string set option \<Rightarrow> json dict \<Rightarrow>
     projection_snapshot list txn" where
  "index_recovered env m pid app names item =
     (let mid = (case jget item ''id'' of JStr s \<Rightarrow> s | _ \<Rightarrow> []);
          metadata = fold ddel [PROJECT_MARKER, APP_MARKER, MUTATION_MARKER] (jobject (jget item ''metadata''));
          category = extract_category (se_sha256 env) metadata (fst names) (snd names)
      in tx_bind (svc_find_memory pid mid (Some app) True) (\<lambda>existing.
         tx_bind (tx_res (record_projection env (mo_now m) item app category metadata)) (\<lambda>p.
         tx_bind (svc_upsert m pid mid p) (\<lambda>row.
           tx_return ((case existing of None \<Rightarrow> [] | Some x \<Rightarrow> [snapshot_memory_projection x])
             @ [snapshot_memory_projection row])))))"

definition record_ids :: "json dict list \<Rightarrow> string list" where
  "record_ids items = map (\<lambda>d. case jget d ''id'' of JStr s \<Rightarrow> s | _ \<Rightarrow> []) items"

definition add_result_document :: "json dict list \<Rightarrow> json dict" where
  "add_result_document items = (case items of [d] \<Rightarrow> d | _ \<Rightarrow> [(''results'', JList (map JObj items))])"

definition svc_add_targets :: "moment \<Rightarrow> string \<Rightarrow> string list \<Rightarrow> mutation_intent_target list txn" where
  "svc_add_targets m iid ids = tx_intents (add_targets (\<lambda>n. mo_id m (Target_Id iid n)) (mo_now m) iid ids)"

definition svc_targets :: "string \<Rightarrow> mutation_intent_target list txn" where
  "svc_targets iid = tx_query (\<lambda>db. Inr (intent_targets iid (sd_intents db)))"

definition settle_observed_add ::
    "service_env \<Rightarrow> string \<Rightarrow> int \<Rightarrow> time option \<Rightarrow> add_recovery \<Rightarrow> string set \<times> string set option \<Rightarrow>
     json dict list \<Rightarrow> moment \<Rightarrow> unit txn" where
  "settle_observed_add env iid attempt claimed_at rv names items m =
     (let pid = rv_project_id rv; app = rv_app_id rv; response = add_result_document items in
      svc_owned pid iid attempt claimed_at (\<lambda>i.
       tx_bind (tx_each (index_recovered env m pid app names) items) (\<lambda>affected.
       tx_then (svc_add_targets m iid (record_ids items))
       (tx_bind (svc_targets iid) (\<lambda>targets.
       tx_then (tx_each (\<lambda>t. svc_mark_target m (tgt_id t)) targets)
       (tx_then (svc_refresh m pid app (concat affected))
       (tx_then (svc_set_subject (int_event_id i) (Some (hd (record_ids items))))
       (tx_bind (svc_event_succeeded env m (int_event_id i) response) (\<lambda>e.
       tx_bind (svc_sanitize env pid [(''memory'', JObj response), (''event'', event_payload e)]) (\<lambda>r.
       tx_then (svc_complete env m pid iid r) (tx_return ()))))))))))) "

definition normalize_records :: "service_env \<Rightarrow> json dict list \<Rightarrow> json dict list res" where
  "normalize_records env records =
     rbind (rmap (\<lambda>d. normalize_memory_record (se_isoformat env) d None) records) (\<lambda>items.
       Inr (sort_key (\<lambda>d. case jget d ''id'' of JStr s \<Rightarrow> s | _ \<Rightarrow> []) items))"

text \<open>The addition is looked up by its marker; what carries it is what was added.\<close>

definition observe_add ::
    "service_env \<Rightarrow> string \<Rightarrow> int \<Rightarrow> time option \<Rightarrow> add_recovery \<Rightarrow> string \<Rightarrow> add_receipt option \<Rightarrow> unit act" where
  "observe_add env iid attempt claimed_at rv marker receipt =
     act_bind (ask env (List_Memories (observation_params marker rv))) (\<lambda>response.
     act_bind (act_res (marked_records marker rv response)) (\<lambda>records.
       if (case receipt of None \<Rightarrow> False | Some rc \<Rightarrow>
            let expected = (case ar_result rc of None \<Rightarrow> [] | Some r \<Rightarrow> extract_memory_ids r) in
            expected = [] \<or> \<not> JStr ` set expected \<subseteq> (\<lambda>d. jget d ''id'') ` set records)
       then act_raise ProtocolError ''Add receipt records are incomplete''
       else if records = []
       then act_raise MutationConflict
         ''Add outcome remains unknown; retry with the original Idempotency-Key after recovery''
       else
         act_bind (act_res (normalize_records env records)) (\<lambda>items.
         act_bind (inspect (recovery_categories env rv)) (\<lambda>names.
           transact env (settle_observed_add env iid attempt claimed_at rv names items)))))"

definition ask_receipt :: "service_env \<Rightarrow> string \<Rightarrow> add_receipt option act" where
  "ask_receipt env marker w = (case ask env (Get_Add_Receipt marker) w of (r, w') \<Rightarrow> (receipt_result r, w'))"

definition recover_add_intent :: "service_env \<Rightarrow> string \<Rightarrow> int \<Rightarrow> time option \<Rightarrow> unit act" where
  "recover_add_intent env iid attempt claimed_at =
     act_bind (inspect (read_add_intent iid)) (\<lambda>rv.
     let pid = rv_project_id rv;
         settle_noop = transact env (settle_noop_add env iid attempt claimed_at pid)
     in if jget (rv_payload rv) ''observed_noop'' = JBool True then settle_noop
        else case jget (rv_payload rv) ''mutation_id'' of
          JStr (c # cs) \<Rightarrow>
            act_bind (if se_has_receipts env then ask_receipt env (c # cs) else act_return None) (\<lambda>receipt.
              case receipt of
                None \<Rightarrow> observe_add env iid attempt claimed_at rv (c # cs) None
              | Some rc \<Rightarrow> act_then (check_receipt rv (c # cs) rc)
                  (if ar_status rc = ''FAILED'' then transact env (settle_failed_add env iid attempt claimed_at pid)
                   else if receipt_is_noop rc then settle_noop
                   else observe_add env iid attempt claimed_at rv (c # cs) (Some rc)))
        | _ \<Rightarrow> act_raise RuntimeError ''Add recovery marker is unavailable'')"

section \<open>Updates\<close>

definition retry_error :: "string \<Rightarrow> json dict" where
  "retry_error message = [(''message'', JStr message), (''retry_required'', JBool True)]"

definition leave_unresolved ::
    "service_env \<Rightarrow> moment \<Rightarrow> string \<Rightarrow> mutation_intent \<Rightarrow> json dict \<Rightarrow> unit txn" where
  "leave_unresolved env m pid i err =
     tx_then (svc_event_failed env m (int_event_id i) err)
     (tx_then (svc_mark_unresolved env m pid (int_id i) err) (tx_return ()))"

definition settle_recovered ::
    "service_env \<Rightarrow> moment \<Rightarrow> string \<Rightarrow> mutation_intent \<Rightarrow> json dict \<Rightarrow> unit txn" where
  "settle_recovered env m pid i r =
     tx_then (svc_event_succeeded env m (int_event_id i) r)
     (tx_then (svc_complete env m pid (int_id i) r) (tx_return ()))"

text \<open>The memory an update left behind is written to the index.\<close>

definition index_updated ::
    "service_env \<Rightarrow> moment \<Rightarrow> string \<Rightarrow> string \<Rightarrow> string \<Rightarrow> json dict \<Rightarrow>
     projection_snapshot txn" where
  "index_updated env m pid app mid normalized =
     tx_bind (tx_res (record_projection env (mo_now m) normalized app (first_category normalized)
         (public_memory_metadata (jobject (jget normalized ''metadata''))))) (\<lambda>p.
     tx_bind (svc_upsert m pid mid p) (\<lambda>row. tx_return (snapshot_memory_projection row)))"

definition settle_update ::
    "service_env \<Rightarrow> string \<Rightarrow> int \<Rightarrow> string \<Rightarrow> string \<Rightarrow> string \<Rightarrow> json \<Rightarrow> json dict \<Rightarrow> moment \<Rightarrow> unit txn" where
  "settle_update env iid attempt pid app mid expected_effect found m =
     svc_owned pid iid attempt None (\<lambda>i.
     tx_bind (tx_res (update_effect_matches (se_sha256 env) (se_float_text env) found expected_effect)) (\<lambda>ok.
       if \<not> ok then leave_unresolved env m pid i (retry_error ''Observed memory does not match requested update'')
       else
         tx_bind (svc_find_memory pid mid (Some app) False) (\<lambda>projected.
         tx_bind (tx_res (normalize_memory_record (se_isoformat env) found projected)) (\<lambda>normalized.
         tx_bind (index_updated env m pid app mid normalized) (\<lambda>after.
         tx_bind (svc_targets iid) (\<lambda>targets.
         tx_then (svc_mark_target m (tgt_id (hd targets)))
         (tx_then (svc_refresh m pid app
            ((case projected of None \<Rightarrow> [] | Some x \<Rightarrow> [snapshot_memory_projection x]) @ [after]))
         (settle_recovered env m pid i [(''id'', JStr mid), (''recovered'', JBool True)]))))))))"

definition settle_absent_update :: "service_env \<Rightarrow> string \<Rightarrow> int \<Rightarrow> string \<Rightarrow> moment \<Rightarrow> unit txn" where
  "settle_absent_update env iid attempt pid m =
     svc_owned pid iid attempt None (\<lambda>i.
       leave_unresolved env m pid i (retry_error ''Updated memory is absent; outcome remains unknown''))"

definition recover_update_intent :: "service_env \<Rightarrow> string \<Rightarrow> int \<Rightarrow> unit act" where
  "recover_update_intent env iid attempt =
     act_bind (inspect (\<lambda>db. get_intent iid (sd_intents db))) (\<lambda>i.
     act_bind (inspect (\<lambda>db. Inr (intent_targets iid (sd_intents db)))) (\<lambda>targets.
     case targets of
       [t] \<Rightarrow>
         let mid = tgt_memory_id t; pid = int_project_id i in
         act_bind (act_catch
             (act_bind (ask env (Get_Memory mid)) (\<lambda>response.
              act_bind (act_res (memory_record_from_response response mid)) (\<lambda>found. act_return (Some found))))
             (\<lambda>e. if is_not_found e then act_return None else act_fail e)) (\<lambda>found.
           case found of
             None \<Rightarrow> transact env (settle_absent_update env iid attempt pid)
           | Some d \<Rightarrow> transact env (settle_update env iid attempt pid (int_app_id i) mid
               (jget (intent_payload i) ''expected_effect'') d))
     | _ \<Rightarrow> act_raise RuntimeError ''Update recovery target is invalid''))"

section \<open>Deletions\<close>

text \<open>\<open>True\<close> when the upstream service still has the memory.\<close>

definition still_present :: "service_env \<Rightarrow> string \<Rightarrow> bool act" where
  "still_present env mid =
     act_catch
       (act_bind (ask env (Get_Memory mid)) (\<lambda>response.
        act_bind (act_res (memory_record_from_response response mid)) (\<lambda>_. act_return True)))
       (\<lambda>e. if is_not_found e then act_return False else act_fail e)"

fun observe_batch :: "service_env \<Rightarrow> string list \<Rightarrow> (string \<times> bool) list act" where
  "observe_batch env [] = act_return []"
| "observe_batch env (mid # mids) =
     act_bind (still_present env mid) (\<lambda>present.
     act_bind (observe_batch env mids) (\<lambda>rest. act_return ((mid, present) # rest)))"

definition renew_lease :: "string \<Rightarrow> string \<Rightarrow> int \<Rightarrow> moment \<Rightarrow> unit txn" where
  "renew_lease pid iid attempt m =
     tx_then (svc_lock pid) (tx_then (tx_intents (renew_active_attempt (mo_now m) iid attempt)) (tx_return ()))"

text \<open>The lease is renewed after every batch of reads.\<close>

fun observe_batches :: "service_env \<Rightarrow> string \<Rightarrow> string \<Rightarrow> int \<Rightarrow> string list list \<Rightarrow> (string \<times> bool) list act" where
  "observe_batches env pid iid attempt [] = act_return []"
| "observe_batches env pid iid attempt (batch # batches) =
     act_bind (observe_batch env batch) (\<lambda>seen.
     act_then (transact env (renew_lease pid iid attempt))
     (act_bind (observe_batches env pid iid attempt batches) (\<lambda>rest. act_return (seen @ rest))))"

definition unindex_missing ::
    "moment \<Rightarrow> string \<Rightarrow> string \<Rightarrow> mutation_intent_target list \<Rightarrow> string \<Rightarrow> projection_snapshot list txn" where
  "unindex_missing m pid app targets mid =
     tx_bind (svc_find_memory pid mid (Some app) False) (\<lambda>row.
     tx_then (svc_delete_row m pid mid)
     (case List.find (\<lambda>t. tgt_memory_id t = mid) (rev targets) of
        None \<Rightarrow> tx_raise KeyError mid
      | Some t \<Rightarrow> tx_then (svc_mark_target m (tgt_id t))
          (tx_return (case row of None \<Rightarrow> [] | Some x \<Rightarrow> [snapshot_memory_projection x]))))"

definition partial_document :: "string \<Rightarrow> nat \<Rightarrow> nat \<Rightarrow> nat \<Rightarrow> json dict" where
  "partial_document status requested deleted failures =
     [(''status'', JStr status), (''requested_count'', JInt (int requested)), (''deleted_count'', JInt (int deleted)),
      (''failed_count'', JInt (int failures)), (''retry_required'', JBool True)]"

definition settle_delete ::
    "service_env \<Rightarrow> string \<Rightarrow> int \<Rightarrow> string \<Rightarrow> string \<Rightarrow> string \<Rightarrow> nat \<Rightarrow> (string \<times> bool) list \<Rightarrow> moment \<Rightarrow> unit txn" where
  "settle_delete env iid attempt pid app operation total_targets seen m =
     svc_owned pid iid attempt None (\<lambda>i.
     tx_bind (svc_targets iid) (\<lambda>targets.
     tx_bind (tx_each (unindex_missing m pid app targets) (map fst (filter (\<lambda>(_, present). \<not> present) seen))) (\<lambda>affected.
     tx_then (svc_refresh m pid app (concat affected))
     (tx_bind (svc_targets iid) (\<lambda>settled.
       let successful = count_where (\<lambda>t. tgt_status t = ''COMPLETED'') settled;
           failures = count_where (\<lambda>t. tgt_status t = ''FAILED'') settled
       in if list_ex snd seen then leave_unresolved env m pid i (retry_error ''Delete target still exists upstream'')
          else if operation = ''entity.delete'' \<and> failures \<noteq> 0 then
            let status = (if successful \<noteq> 0 then ''PARTIAL'' else ''FAILED'');
                r = partial_document status total_targets successful failures
            in tx_then (svc_event_failed env m (int_event_id i) r)
               (tx_then (intent_op env pid (\<lambda>safe. fail_intent safe (mo_now m) iid r status (Some r))) (tx_return ()))
          else settle_recovered env m pid i
            [(''recovered'', JBool True), (''count'', JInt (int successful)), (''success'', JBool True)])))))"

definition recover_delete_intent :: "service_env \<Rightarrow> string \<Rightarrow> int \<Rightarrow> unit act" where
  "recover_delete_intent env iid attempt =
     act_bind (inspect (\<lambda>db. get_intent iid (sd_intents db))) (\<lambda>i.
     act_bind (inspect (\<lambda>db. Inr (intent_targets iid (sd_intents db)))) (\<lambda>targets.
     let pending = map tgt_memory_id (filter (\<lambda>t. tgt_status t = ''PENDING'') targets) in
     act_bind (observe_batches env (int_project_id i) iid attempt (chunks RECOVERY_READ_BATCH pending)) (\<lambda>seen.
       transact env (settle_delete env iid attempt (int_project_id i) (int_app_id i) (int_operation i)
         (length targets) seen))))"

section \<open>The recovery of a scope\<close>

record claim =
  ck_won :: bool
  ck_attempt :: int
  ck_operation :: string
  ck_claimed_at :: "time option"

text \<open>\<open>None\<close> when the intent was settled in the meantime.\<close>

definition claim_intent :: "service_env \<Rightarrow> string \<Rightarrow> string \<Rightarrow> moment \<Rightarrow> claim option txn" where
  "claim_intent env pid iid m =
     tx_then (svc_lock pid)
     (tx_bind (svc_get_intent iid) (\<lambda>i.
       if int_status i \<notin> set RECOVERABLE_STATUSES then tx_return None
       else
         tx_bind (intent_op env pid (\<lambda>safe. claim_recovery safe (mo_now m) i)) (\<lambda>won.
         tx_bind (svc_get_intent iid) (\<lambda>i'.
           tx_return (Some \<lparr>ck_won = won, ck_attempt = int_attempt_count i', ck_operation = int_operation i',
             ck_claimed_at = (if int_operation i' = ''memory.add'' then Some (int_updated_at i') else None)\<rparr>)))))"

definition settle_reconcile :: "service_env \<Rightarrow> string \<Rightarrow> int \<Rightarrow> string \<Rightarrow> moment \<Rightarrow> unit txn" where
  "settle_reconcile env iid attempt pid m =
     svc_owned pid iid attempt None (\<lambda>i.
       let err = [(''message'', JStr ''Interrupted reconciliation must be started again'')] in
       tx_then (svc_event_failed env m (int_event_id i) err) (tx_then (svc_fail env m pid iid err) (tx_return ())))"

definition recover_operation :: "service_env \<Rightarrow> string \<Rightarrow> string \<Rightarrow> claim \<Rightarrow> unit act" where
  "recover_operation env pid iid c =
     (if ck_operation c = ''memory.add'' then recover_add_intent env iid (ck_attempt c) (ck_claimed_at c)
      else if ck_operation c = ''memory.update'' then recover_update_intent env iid (ck_attempt c)
      else if ck_operation c \<in> {''memory.delete'', ''entity.delete''} then recover_delete_intent env iid (ck_attempt c)
      else if ck_operation c = ''memory.reconcile'' then transact env (settle_reconcile env iid (ck_attempt c) pid)
      else act_raise RuntimeError ''Unsupported durable mutation intent'')"

definition note_unresolved ::
    "service_env \<Rightarrow> string \<Rightarrow> string \<Rightarrow> claim \<Rightarrow> failure \<Rightarrow> moment \<Rightarrow> unit txn" where
  "note_unresolved env pid iid c e m =
     svc_owned pid iid (ck_attempt c) (ck_claimed_at c) (\<lambda>_.
     tx_bind (svc_mark_unresolved env m pid iid
         (if is_exception e then error_payload env e
          else [(''message'', JStr ''Mutation observation interrupted; recovery remains unresolved'')])) (\<lambda>i.
     tx_then (svc_event_failed env m (int_event_id i)
         [(''message'', JStr ''Mutation observation failed; recovery remains unresolved'')]) (tx_return ())))"

definition is_fence :: "failure \<Rightarrow> bool" where
  "is_fence e = (case e of Threw (Exn MutationFence _) \<Rightarrow> True | _ \<Rightarrow> False)"

definition is_value_error :: "failure \<Rightarrow> bool" where
  "is_value_error e = (case e of Threw (Exn ValueError _) \<Rightarrow> True | _ \<Rightarrow> False)"

text \<open>Errors of the transaction itself are swallowed.\<close>

definition try_transact :: "service_env \<Rightarrow> (moment \<Rightarrow> unit txn) \<Rightarrow> unit act" where
  "try_transact env t = act_catch (transact env t) (\<lambda>_. act_return ())"

text \<open>How many intents were recovered and how many failed: one of them, or none.\<close>

definition recover_one :: "service_env \<Rightarrow> string \<Rightarrow> string \<Rightarrow> (nat \<times> nat) act" where
  "recover_one env pid iid =
     act_bind (act_catch (transact env (claim_intent env pid iid))
       (\<lambda>e. act_return (Some \<lparr>ck_won = False, ck_attempt = 0, ck_operation = [], ck_claimed_at = None\<rparr>))) (\<lambda>claimed.
     case claimed of
       None \<Rightarrow> act_return (0, 0)
     | Some c \<Rightarrow>
         if \<not> ck_won c then act_return (0, 1)
         else act_catch
           (act_then (recover_operation env pid iid c)
            (act_bind (inspect (\<lambda>db. get_intent iid (sd_intents db))) (\<lambda>i.
              act_return (if int_status i = ''COMPLETED'' then (1, 0)
                else if int_status i \<in> {''FAILED'', ''PARTIAL'', ''EXHAUSTED''} then (0, 1) else (0, 0)))))
           (\<lambda>e. act_then (if is_fence e then act_return () else try_transact env (note_unresolved env pid iid c e))
             (if is_exception e then act_return (0, 1) else act_fail e)))"

fun recover_each :: "service_env \<Rightarrow> string \<Rightarrow> string list \<Rightarrow> (nat \<times> nat) act" where
  "recover_each env pid [] = act_return (0, 0)"
| "recover_each env pid (iid # iids) =
     act_bind (recover_one env pid iid) (\<lambda>(r, f).
     act_bind (recover_each env pid iids) (\<lambda>(rs, fs). act_return (r + rs, f + fs)))"

definition check_blockers :: "mutation_intent list \<Rightarrow> unit res" where
  "check_blockers blockers =
     (if blockers = [] then Inr ()
      else if list_ex (\<lambda>i. int_status i = ''EXHAUSTED'') blockers
      then raise MutationConflict ''Scoped mutation recovery is exhausted and remains unresolved''
      else if list_ex (\<lambda>i. int_status i = ''ACTIVE'') blockers
      then raise MutationConflict ''Scoped mutation recovery is already in progress''
      else raise MutationConflict ''Scoped mutation recovery remains unresolved'')"

definition blockers_gone :: "string \<Rightarrow> string \<Rightarrow> svc_db \<Rightarrow> unit res" where
  "blockers_gone pid app db =
     rbind (lock_for_mutation pid (sd_projects db)) (\<lambda>_. check_blockers (list_blocking pid app (sd_intents db)))"

definition open_intents :: "time \<Rightarrow> string \<Rightarrow> string \<Rightarrow> bool \<Rightarrow> svc_db \<Rightarrow> string list res" where
  "open_intents now pid app add_only db =
     rbind (lock_for_mutation pid (sd_projects db)) (\<lambda>_.
       Inr (map int_id (list_recoverable now pid app (if add_only then Some ''memory.add'' else None) (sd_intents db))))"

definition recover_pending_mutations ::
    "service_env \<Rightarrow> string \<Rightarrow> string \<Rightarrow> bool \<Rightarrow> (nat \<times> nat) act" where
  "recover_pending_mutations env pid app add_only w =
     act_bind (inspect (open_intents (mo_now (moment_of env w)) pid app add_only)) (\<lambda>iids.
     act_bind (recover_each env pid iids) (\<lambda>counts.
     act_bind (inspect (blockers_gone pid app)) (\<lambda>_. act_return counts))) w"

end
