(* ===== verification/Memory_Service.thy ===== *)
theory Memory_Service
  imports Recovery
begin

text \<open>
  The operations of the memory service on one memory (\<open>MemoryService\<close> in \<open>core/memory_ops.py\<close>):
  adding, updating, deleting and reading it.  A mutation records an event and an intent, commits,
  calls the upstream service once, and settles the intent in a transaction of its own; whatever
  goes wrong after the call leaves the intent to recovery.
\<close>

section \<open>Reusing an addition\<close>

definition stored_result :: "mutation_intent \<Rightarrow> json dict option" where
  "stored_result i = (if int_status i = ''COMPLETED'' \<and> intent_result i \<noteq> [] then Some (intent_result i) else None)"

definition reuse_add_intent :: "service_env \<Rightarrow> mutation_intent \<Rightarrow> string \<Rightarrow> json dict act" where
  "reuse_add_intent env i fingerprint w =
     (if jget (intent_payload i) ''request_fingerprint'' \<noteq> JStr fingerprint
      then act_raise MutationConflict ''Idempotency-Key was already used with a different request''
      else case stored_result i of
        Some r \<Rightarrow> act_return r
      | None \<Rightarrow>
          if (case int_lease_expires_at i of None \<Rightarrow> False | Some t \<Rightarrow> t > mo_now (moment_of env w))
          then act_raise MutationConflict ''Idempotent add is already in progress; no second add was issued''
          else
            act_then (recover_pending_mutations env (int_project_id i) (int_app_id i) False)
            (act_bind (inspect (\<lambda>db. get_intent (int_id i) (sd_intents db))) (\<lambda>i'.
              case stored_result i' of
                Some r \<Rightarrow> act_return r
              | None \<Rightarrow> act_raise MutationConflict ''Idempotent add outcome remains unresolved; no second add was issued''))) w"

section \<open>Failures\<close>

definition record_intent_failure ::
    "service_env \<Rightarrow> string \<Rightarrow> string \<Rightarrow> int \<Rightarrow> failure \<Rightarrow> bool \<Rightarrow> moment \<Rightarrow> unit txn" where
  "record_intent_failure env pid iid attempt e unknown m =
     svc_owned pid iid attempt None (\<lambda>i.
       let err = (if is_exception e then error_payload env e
             else [(''message'', JStr ''Mutation interrupted; recovery required'')])
       in tx_then (if unknown then svc_mark_unresolved env m pid iid err else svc_fail env m pid iid err)
         (if is_exception e then tx_then (svc_event_failed env m (int_event_id i) err) (tx_return ())
          else tx_return ()))"

definition conclude_failure ::
    "service_env \<Rightarrow> string \<Rightarrow> string \<Rightarrow> int \<Rightarrow> bool \<Rightarrow> failure \<Rightarrow> 'a act" where
  "conclude_failure env pid iid attempt unknown e =
     act_then (try_transact env (record_intent_failure env pid iid attempt e unknown))
       (if is_fence e then act_raise MutationConflict ''Durable mutation attempt was superseded'' else act_fail e)"

section \<open>Adding\<close>

record add_plan =
  ap_scope :: scope
  ap_category :: "string option"
  ap_categories :: "category list"
  ap_payload :: "json dict"
  ap_fingerprint :: string
  ap_mutation_id :: string
  ap_key :: "string option"

definition request_metadata :: "json dict \<Rightarrow> json dict res" where
  "request_metadata payload =
     (case jget payload ''metadata'' of
        JObj d \<Rightarrow> Inr d
      | v \<Rightarrow> if truthy v then raise TypeError ''metadata'' else Inr [])"

definition owner_fields :: "scope \<Rightarrow> json dict" where
  "owner_fields sc =
     List.map_filter (\<lambda>(k, v). case v of Some (c # cs) \<Rightarrow> Some (k, JStr (c # cs)) | _ \<Rightarrow> None)
       [(''user_id'', scope_user_id sc), (''agent_id'', scope_agent_id sc), (''run_id'', scope_run_id sc)]"

text \<open>Everything that is decided before an intent of the same key is looked for.\<close>

definition plan_add ::
    "service_env \<Rightarrow> string \<Rightarrow> string \<Rightarrow> json dict \<Rightarrow> string option \<Rightarrow> svc_db \<Rightarrow> add_plan res" where
  "plan_add env token pid payload idempotency_key db =
     rbind (validate_idempotency_key idempotency_key) (\<lambda>key.
     rbind (normalize_scope (JStr pid) (jget payload ''user_id'') (jget payload ''app_id'')
         (jget payload ''agent_id'') (jget payload ''run_id'')) (\<lambda>sc.
     rbind (request_metadata payload) (\<lambda>metadata.
     rbind (case dget metadata ''event_date'' of None \<Rightarrow> Inr () | Some v \<Rightarrow> rbind (event_date v) (\<lambda>_. Inr ())) (\<lambda>_.
     let categories = enabled_categories pid db;
         category = extract_category (se_sha256 env) metadata (set (map cat_name categories)) None
     in rbind (oss_add_payload (se_to_bool env) payload sc) (\<lambda>oss.
     let oss = dupdate oss (owner_fields sc) in
     rbind (canonical_fingerprint (se_sha256 env) (se_float_text env) (JObj oss)) (\<lambda>fingerprint.
     rbind (operation_marker (se_sha256 env) (se_float_text env) token pid (scope_app_id sc) ''memory.add'' key) (\<lambda>marker.
       Inr \<lparr>ap_scope = sc, ap_category = category, ap_categories = categories, ap_payload = oss,
         ap_fingerprint = fingerprint, ap_mutation_id = marker, ap_key = key\<rparr>)))))))"

definition find_add_intent :: "string \<Rightarrow> add_plan \<Rightarrow> svc_db \<Rightarrow> mutation_intent option" where
  "find_add_intent pid p db =
     find_by_operation_key pid (scope_app_id (ap_scope p)) ''memory.add'' (ap_mutation_id p) (sd_intents db)"

text \<open>The names of the categories the policy put into the payload.\<close>

definition policy_names :: "json dict \<Rightarrow> string list res" where
  "policy_names payload =
     rbind (member_or (dget_or payload ''extraction_policy'' (JObj [])) ''categories'' (JList [])) (\<lambda>categories.
       case categories of
         JList items \<Rightarrow> rmap (\<lambda>item. case item of
             JObj d \<Rightarrow> (case dget d ''name'' of Some (JStr s) \<Rightarrow> Inr s | None \<Rightarrow> raise KeyError ''name'' | _ \<Rightarrow> raise TypeError ''name'')
           | _ \<Rightarrow> raise TypeError ''category'') items
       | _ \<Rightarrow> raise TypeError ''categories'')"

record add_start =
  as_payload :: "json dict"
  as_names :: "string list"
  as_event_request :: "json dict"

definition start_add :: "service_env \<Rightarrow> string \<Rightarrow> add_plan \<Rightarrow> svc_db \<Rightarrow> add_start res" where
  "start_add env pid p db =
     rbind (apply_extraction_policy (se_to_int env) (sd_projects db) (sd_categories db) (ap_scope p) (ap_payload p)
        (ap_categories p)) (\<lambda>oss.
     rbind (policy_names oss) (\<lambda>names.
       let metadata = jobject (jget oss ''metadata'') in
       Inr \<lparr>as_payload = dset ''metadata'' (JObj (dset MUTATION_MARKER (JStr (ap_mutation_id p)) metadata)) oss,
         as_names = map cat_name (ap_categories p) @ names, as_event_request = oss\<rparr>))"

definition add_event_args :: "service_env \<Rightarrow> add_plan \<Rightarrow> add_start \<Rightarrow> event_args" where
  "add_event_args env p a =
     (let sc = ap_scope p in
      \<lparr>ea_app_id = Some (scope_app_id sc), ea_user_id = scope_user_id sc, ea_agent_id = scope_agent_id sc,
       ea_run_id = scope_run_id sc, ea_operation = ''memory.add'', ea_request = as_event_request a,
       ea_subject_type = Some ''memory'', ea_subject_id = None, ea_correlation_id = se_request_id env,
       ea_allow_project_scope = False\<rparr>)"

definition add_intent_payload :: "service_env \<Rightarrow> add_plan \<Rightarrow> add_start \<Rightarrow> json dict" where
  "add_intent_payload env p a =
     [(CATEGORY_SNAPSHOT_KEY, projection_category_hash_snapshot (se_sha256 env) (as_names a)),
      (''mutation_id'', JStr (ap_mutation_id p)), (''request_fingerprint'', JStr (ap_fingerprint p)),
      (''upstream_payload'', JObj (as_payload a)), (''category'', opt_json (ap_category p))]"

definition same_json :: "json \<Rightarrow> json \<Rightarrow> bool" where
  "same_json a b = (canon_json a = canon_json b)"

definition svc_create_intent ::
    "service_env \<Rightarrow> moment \<Rightarrow> string \<Rightarrow> string \<Rightarrow> string \<Rightarrow> string \<Rightarrow> json dict \<Rightarrow> string list \<Rightarrow> string option \<Rightarrow>
     mutation_intent txn" where
  "svc_create_intent env m pid app eid operation payload memory_ids key =
     intent_op env pid (\<lambda>safe. create_intent safe (mo_id m Intent_Id) (\<lambda>n. mo_id m (Target_Id (mo_id m Intent_Id) n))
       (mo_id m Operation_Token) (mo_now m) pid app eid operation payload memory_ids key)"

text \<open>The event and the intent of an addition, committed before the upstream service is called.\<close>

definition begin_add :: "service_env \<Rightarrow> string \<Rightarrow> add_plan \<Rightarrow> add_start \<Rightarrow> moment \<Rightarrow> mutation_intent txn" where
  "begin_add env pid p a m =
     (let payload = add_intent_payload env p a in
      tx_bind (svc_create_event env m pid (add_event_args env p a)) (\<lambda>e.
      tx_bind (svc_sanitize env pid payload) (\<lambda>sanitized.
        if \<not> same_json (jget sanitized CATEGORY_SNAPSHOT_KEY) (jget payload CATEGORY_SNAPSHOT_KEY)
        then tx_raise RuntimeError ''Mutation intent category snapshot was not preserved; refusing upstream add''
        else
          let replay_safe = (same_json (jget sanitized ''upstream_payload'') (JObj (as_payload a))
                \<and> same_json (jget sanitized ''category'') (opt_json (ap_category p)))
          in svc_create_intent env m pid (scope_app_id (ap_scope p)) (ev_id e) ''memory.add''
               (payload @ [(''replay_safe'', JBool replay_safe)]) [] (Some (ap_mutation_id p)))))"

definition with_metadata_fallback :: "json dict \<Rightarrow> json dict \<Rightarrow> json dict res" where
  "with_metadata_fallback found fallback =
     rbind (record_metadata found) (\<lambda>metadata. Inr (dset ''metadata'' (JObj (dupdate fallback metadata)) found))"

text \<open>
  Records that the response does not carry are read, one after the other here; the reads of the
  code overlap, eight at a time.
\<close>

fun hydrate_memory_records :: "service_env \<Rightarrow> bool \<Rightarrow> json dict dict \<Rightarrow> string list \<Rightarrow> json dict dict act" where
  "hydrate_memory_records env fetch_details embedded [] = act_return []"
| "hydrate_memory_records env fetch_details embedded (mid # mids) =
     act_bind (case dget embedded mid of
         Some d \<Rightarrow> if \<not> fetch_details \<and> memory_text d \<noteq> None then act_return d
           else act_bind (ask env (Get_Memory mid)) (\<lambda>v. act_res (memory_record_from_response v mid))
       | None \<Rightarrow> act_bind (ask env (Get_Memory mid)) (\<lambda>v. act_res (memory_record_from_response v mid))) (\<lambda>d.
     act_bind (hydrate_memory_records env fetch_details embedded mids) (\<lambda>rest. act_return ((mid, d) # rest)))"

definition index_added ::
    "service_env \<Rightarrow> moment \<Rightarrow> time \<Rightarrow> string \<Rightarrow> add_plan \<Rightarrow> add_start \<Rightarrow> string \<times> json dict \<Rightarrow>
     projection_snapshot list txn" where
  "index_added env m observed_at pid p a found =
     (let sc = ap_scope p; app = scope_app_id sc; mid = fst found in
      tx_bind (svc_find_memory pid mid (Some app) True) (\<lambda>existing.
      tx_bind (tx_res (with_metadata_fallback (snd found) (jobject (jget (as_payload a) ''metadata'')))) (\<lambda>d.
      tx_bind (tx_res (record_metadata d)) (\<lambda>metadata.
      tx_bind (tx_res (memory_projection_fields (se_sha256 env) (se_fromiso env) d observed_at)) (\<lambda>fields.
      tx_bind (svc_upsert m pid mid (owned_projection fields (scope_user_id sc) (scope_agent_id sc) app (scope_run_id sc)
          (extract_category (se_sha256 env) metadata (set (as_names a)) None) (public_memory_metadata metadata))) (\<lambda>row.
        tx_return ((case existing of None \<Rightarrow> [] | Some x \<Rightarrow> [snapshot_memory_projection x])
          @ [snapshot_memory_projection row])))))))"

definition settle_add ::
    "service_env \<Rightarrow> string \<Rightarrow> int \<Rightarrow> time \<Rightarrow> string \<Rightarrow> add_plan \<Rightarrow> add_start \<Rightarrow> json dict \<Rightarrow> json dict dict \<Rightarrow> moment \<Rightarrow>
     json dict txn" where
  "settle_add env iid attempt observed_at pid p a response records m =
     (let ids = map fst records in
      svc_owned pid iid attempt None (\<lambda>i.
      tx_bind (tx_each (index_added env m observed_at pid p a) records) (\<lambda>affected.
      tx_bind (svc_add_targets m iid ids) (\<lambda>targets.
      tx_then (tx_each (\<lambda>t. svc_mark_target m (tgt_id t)) targets)
      (tx_then (svc_refresh m pid (scope_app_id (ap_scope p)) (concat affected))
      (tx_then (svc_set_subject (int_event_id i) (case ids of [] \<Rightarrow> None | mid # _ \<Rightarrow> Some mid))
      (tx_bind (svc_event_succeeded env m (int_event_id i) response) (\<lambda>e.
      tx_bind (svc_sanitize env pid [(''memory'', JObj response), (''event'', event_payload e)]) (\<lambda>r.
      tx_then (svc_complete env m pid iid r) (tx_return r))))))))))"

text \<open>That nothing was stored is noted before the intent is settled.\<close>

definition note_noop :: "service_env \<Rightarrow> string \<Rightarrow> int \<Rightarrow> string \<Rightarrow> add_plan \<Rightarrow> moment \<Rightarrow> unit txn" where
  "note_noop env iid attempt pid p m =
     svc_owned pid iid attempt None (\<lambda>_.
     tx_then (intent_op env pid (\<lambda>safe. update_payload safe (mo_now m) iid
        [(''mutation_id'', JStr (ap_mutation_id p)), (''request_fingerprint'', JStr (ap_fingerprint p)),
         (''observed_noop'', JBool True)] [CATEGORY_SNAPSHOT_KEY])) (tx_return ()))"

definition finish_add ::
    "service_env \<Rightarrow> string \<Rightarrow> int \<Rightarrow> string \<Rightarrow> add_plan \<Rightarrow> add_start \<Rightarrow> json dict \<Rightarrow> json dict act" where
  "finish_add env iid attempt pid p a response w =
     (let ids = extract_memory_ids response; observed_at = mo_now (moment_of env w) in
      if ids = [] \<and> (jget response ''results'' \<noteq> JList [] \<or> jget (as_payload a) ''infer'' = JBool False)
      then act_raise ProtocolError ''Could not extract memory id from response''
      else
        act_then (if ids \<noteq> [] then act_return ()
          else act_catch (transact env (note_noop env iid attempt pid p))
            (\<lambda>e. act_then (transact env (settle_noop_add env iid attempt None pid)) (act_fail e)))
        (act_bind (hydrate_memory_records env (dget (as_payload a) ''extraction_policy'' \<noteq> None)
            (response_memory_records (JObj response)) ids) (\<lambda>records.
          transact env (settle_add env iid attempt observed_at pid p a response records)))) w"

text \<open>From the committed intent on: the one call, and what follows it.\<close>

definition send_add ::
    "service_env \<Rightarrow> string \<Rightarrow> int \<Rightarrow> string \<Rightarrow> add_plan \<Rightarrow> add_start \<Rightarrow> json dict act" where
  "send_add env iid attempt pid p a w =
     (case ask env (Add_Memory (as_payload a)) w of
        (Inl e, w') \<Rightarrow> conclude_failure env pid iid attempt (is_ambiguous e) e w'
      | (Inr response, w') \<Rightarrow>
          act_catch (finish_add env iid attempt pid p a (jobject response))
            (conclude_failure env pid iid attempt True) w')"

definition is_integrity_error :: "failure \<Rightarrow> bool" where
  "is_integrity_error e = (case e of Threw (Exn IntegrityError _) \<Rightarrow> True | _ \<Rightarrow> False)"

text \<open>Another client may have created the intent first.\<close>

definition lost_race :: "service_env \<Rightarrow> string \<Rightarrow> add_plan \<Rightarrow> json dict act" where
  "lost_race env pid p =
     act_bind (inspect (\<lambda>db. Inr (find_add_intent pid p db))) (\<lambda>existing.
       case existing of
         None \<Rightarrow> act_raise MutationConflict ''Idempotent add is already in progress; no second add was issued''
       | Some i \<Rightarrow> reuse_add_intent env i (ap_fingerprint p))"

definition new_add :: "service_env \<Rightarrow> string \<Rightarrow> add_plan \<Rightarrow> json dict act" where
  "new_add env pid p =
     act_bind (inspect (start_add env pid p)) (\<lambda>a.
     act_then (recover_pending_mutations env pid (scope_app_id (ap_scope p)) False)
     (act_bind (act_catch (act_bind (transact env (begin_add env pid p a)) (\<lambda>i. act_return (Some i)))
         (\<lambda>e. if is_integrity_error e then act_return None else act_fail e)) (\<lambda>created.
       case created of
         None \<Rightarrow> lost_race env pid p
       | Some i \<Rightarrow> send_add env (int_id i) (int_attempt_count i) pid p a)))"

definition add_memory ::
    "service_env \<Rightarrow> string \<Rightarrow> json dict \<Rightarrow> string option \<Rightarrow> json dict act" where
  "add_memory env pid payload idempotency_key w =
     act_bind (inspect (plan_add env (mo_id (moment_of env w) Operation_Token) pid payload idempotency_key)) (\<lambda>p.
     act_bind (inspect (\<lambda>db. Inr (if ap_key p = None then None else find_add_intent pid p db))) (\<lambda>existing.
       case existing of
         Some i \<Rightarrow> reuse_add_intent env i (ap_fingerprint p)
       | None \<Rightarrow> new_add env pid p)) w"

section \<open>Updating\<close>

text \<open>The memory the settling transaction must find unchanged.\<close>

definition svc_unchanged :: "string \<Rightarrow> string \<Rightarrow> string \<Rightarrow> projection_snapshot \<Rightarrow> string \<Rightarrow> unit txn" where
  "svc_unchanged pid mid app prior message =
     tx_bind (svc_find_memory pid mid (Some app) False) (\<lambda>current.
       case current of
         Some x \<Rightarrow> if projection_matches_snapshot x prior then tx_return () else tx_raise MutationConflict message
       | None \<Rightarrow> tx_raise MutationConflict message)"

definition UPDATE_CHANGED :: string where "UPDATE_CHANGED = ''Memory projection changed during upstream update''"
definition DELETE_CHANGED :: string where "DELETE_CHANGED = ''Memory projection changed during upstream delete''"

definition scoped_patch :: "string \<Rightarrow> memory_index \<Rightarrow> json dict \<Rightarrow> json dict res" where
  "scoped_patch pid x patch =
     (case dget patch ''metadata'' of
        None \<Rightarrow> Inr patch
      | Some v \<Rightarrow>
          rbind (normalize_scope (JStr pid) (opt_json (mi_user_id x)) (opt_json (mi_app_id x))
              (opt_json (mi_agent_id x)) (opt_json (mi_run_id x))) (\<lambda>sc.
            Inr (dset ''metadata'' (JObj (with_sidecar_scope (object_or_empty v) sc)) patch)))"

definition memory_event_args ::
    "service_env \<Rightarrow> string \<Rightarrow> memory_index \<Rightarrow> string \<Rightarrow> string \<Rightarrow> json dict \<Rightarrow> event_args" where
  "memory_event_args env app x operation mid request =
     \<lparr>ea_app_id = Some app, ea_user_id = mi_user_id x, ea_agent_id = mi_agent_id x, ea_run_id = mi_run_id x,
      ea_operation = operation, ea_request = request, ea_subject_type = Some ''memory'', ea_subject_id = Some mid,
      ea_correlation_id = se_request_id env, ea_allow_project_scope = False\<rparr>"

definition begin_update ::
    "service_env \<Rightarrow> string \<Rightarrow> string \<Rightarrow> string \<Rightarrow> memory_index \<Rightarrow> json dict \<Rightarrow> moment \<Rightarrow> mutation_intent txn" where
  "begin_update env pid app mid x patch m =
     tx_bind (svc_create_event env m pid (memory_event_args env app x ''memory.update'' mid patch)) (\<lambda>e.
     tx_bind (tx_res (expected_update_effect (se_sha256 env) (se_float_text env) patch)) (\<lambda>effect.
       svc_create_intent env m pid app (ev_id e) ''memory.update''
         [(''memory_id'', JStr mid), (''expected_effect'', effect)] [mid] None))"

definition first_target :: "string \<Rightarrow> mutation_intent_target txn" where
  "first_target iid = tx_bind (svc_targets iid) (\<lambda>ts. case ts of t # _ \<Rightarrow> tx_return t | [] \<Rightarrow> tx_raise (OtherError ''IndexError'') [])"

definition finish_update ::
    "service_env \<Rightarrow> string \<Rightarrow> int \<Rightarrow> string \<Rightarrow> string \<Rightarrow> string \<Rightarrow> projection_snapshot \<Rightarrow> json dict \<Rightarrow> json dict \<Rightarrow> moment \<Rightarrow>
     json dict txn" where
  "finish_update env iid attempt pid app mid prior response normalized m =
     svc_owned pid iid attempt None (\<lambda>i.
     tx_then (svc_unchanged pid mid app prior UPDATE_CHANGED)
     (tx_bind (index_updated env m pid app mid normalized) (\<lambda>after.
     tx_then (svc_refresh m pid app [prior, after])
     (tx_bind (svc_event_succeeded env m (int_event_id i) response) (\<lambda>e.
     tx_bind (first_target iid) (\<lambda>t.
     tx_then (svc_mark_target m (tgt_id t))
     (let r = [(''memory'', JObj normalized), (''event'', event_payload e)] in
      tx_then (svc_complete env m pid iid r) (tx_return r))))))))"

text \<open>The memory is gone upstream: the index forgets it and the mutation has failed.\<close>

definition svc_mark_stale :: "moment \<Rightarrow> string \<Rightarrow> string \<Rightarrow> unit txn" where
  "svc_mark_stale m pid mid = tx_memories (\<lambda>ms. ((), snd (mark_stale (mo_now m) pid {mid} ms)))"

definition settle_gone_update ::
    "service_env \<Rightarrow> string \<Rightarrow> int \<Rightarrow> string \<Rightarrow> string \<Rightarrow> string \<Rightarrow> projection_snapshot \<Rightarrow> failure \<Rightarrow> moment \<Rightarrow> unit txn" where
  "settle_gone_update env iid attempt pid app mid prior e m =
     (let err = error_payload env e in
      svc_owned pid iid attempt None (\<lambda>i.
      tx_then (svc_unchanged pid mid app prior UPDATE_CHANGED)
      (tx_then (svc_mark_stale m pid mid)
      (tx_then (svc_refresh m pid app [prior])
      (tx_then (svc_event_failed env m (int_event_id i) err)
      (tx_bind (first_target iid) (\<lambda>t.
      tx_then (intent_op env pid (\<lambda>safe st. rbind (mark_target_failed safe (mo_now m) t err st) (\<lambda>st'. Inr ((), st'))))
      (tx_then (svc_fail env m pid iid err) (tx_return ())))))))))"

definition after_update ::
    "service_env \<Rightarrow> string \<Rightarrow> int \<Rightarrow> string \<Rightarrow> string \<Rightarrow> string \<Rightarrow> memory_index \<Rightarrow> json \<Rightarrow> bool \<Rightarrow> json dict act" where
  "after_update env iid attempt pid app mid x response return_upstream_response =
     act_then (transact env (renew_lease pid iid attempt))
     (act_bind (ask env (Get_Memory mid)) (\<lambda>refreshed.
      act_bind (act_res (memory_record_from_response refreshed mid)) (\<lambda>d.
      act_bind (act_res (normalize_memory_record (se_isoformat env) d (Some x))) (\<lambda>normalized.
      act_bind (transact env (finish_update env iid attempt pid app mid (snapshot_memory_projection x)
          (jobject response) normalized)) (\<lambda>r.
        act_return (if return_upstream_response then jobject response else r))))))"

definition send_update ::
    "service_env \<Rightarrow> string \<Rightarrow> int \<Rightarrow> string \<Rightarrow> string \<Rightarrow> string \<Rightarrow> memory_index \<Rightarrow> json dict \<Rightarrow> bool \<Rightarrow> json dict act" where
  "send_update env iid attempt pid app mid x patch return_upstream_response w =
     (case ask env (Update_Memory mid patch) w of
        (Inl e, w') \<Rightarrow>
          (if is_not_found e
           then act_then (transact env (settle_gone_update env iid attempt pid app mid (snapshot_memory_projection x) e))
             (act_raise KeyError mid)
           else conclude_failure env pid iid attempt (is_ambiguous e) e) w'
      | (Inr response, w') \<Rightarrow>
          act_catch (after_update env iid attempt pid app mid x response return_upstream_response)
            (conclude_failure env pid iid attempt True) w')"

definition update_memory ::
    "service_env \<Rightarrow> string \<Rightarrow> string \<Rightarrow> string option \<Rightarrow> bool \<Rightarrow> json dict \<Rightarrow> bool \<Rightarrow> json dict act" where
  "update_memory env pid mid req_app project_wide payload return_upstream_response =
     act_bind (act_res (validate_memory_patch payload)) (\<lambda>patch.
     act_bind (inspect (\<lambda>db. memory_for_request (sd_projects db) (sd_memories db) pid mid req_app project_wide)) (\<lambda>(found, _).
     case found of
       None \<Rightarrow> act_raise KeyError mid
     | Some x0 \<Rightarrow>
         act_bind (act_res (required_projected_app_id x0)) (\<lambda>app.
         act_then (recover_pending_mutations env pid app False)
         (act_bind (inspect (\<lambda>db. Inr (get_memory pid mid (Some app) False (sd_memories db)))) (\<lambda>current.
         case current of
           None \<Rightarrow> act_raise KeyError mid
         | Some x \<Rightarrow>
             act_bind (act_res (scoped_patch pid x patch)) (\<lambda>patch.
             act_bind (transact env (begin_update env pid app mid x patch)) (\<lambda>i.
               send_update env (int_id i) (int_attempt_count i) pid app mid x patch return_upstream_response)))))))"

section \<open>Deleting\<close>

definition delete_event_args ::
    "service_env \<Rightarrow> string \<Rightarrow> memory_index option \<Rightarrow> string \<Rightarrow> string dict \<Rightarrow> event_args" where
  "delete_event_args env app found mid request =
     \<lparr>ea_app_id = Some app, ea_user_id = Option.bind found mi_user_id, ea_agent_id = Option.bind found mi_agent_id,
      ea_run_id = Option.bind found mi_run_id, ea_operation = ''memory.delete'',
      ea_request = map (\<lambda>(k, v). (k, JStr v)) request, ea_subject_type = Some ''memory'', ea_subject_id = Some mid,
      ea_correlation_id = se_request_id env, ea_allow_project_scope = False\<rparr>"

definition trace_missing :: "service_env \<Rightarrow> string \<Rightarrow> string \<Rightarrow> string \<Rightarrow> moment \<Rightarrow> unit txn" where
  "trace_missing env pid app mid m =
     tx_bind (tx_res (memory_delete_request pid mid None (Some app))) (\<lambda>request.
     tx_bind (svc_create_event env m pid (delete_event_args env app None mid request)) (\<lambda>e.
     tx_then (svc_event_failed env m (ev_id e)
        [(''message'', JStr (''Memory '' @ se_repr env mid @ '' not found for project '' @ se_repr env pid))])
       (tx_return ())))"

definition begin_delete ::
    "service_env \<Rightarrow> string \<Rightarrow> string \<Rightarrow> string \<Rightarrow> memory_index \<Rightarrow> moment \<Rightarrow> mutation_intent txn" where
  "begin_delete env pid app mid x m =
     tx_bind (tx_res (memory_delete_request pid mid (Some x) None)) (\<lambda>request.
     tx_bind (svc_create_event env m pid (delete_event_args env app (Some x) mid request)) (\<lambda>e.
       svc_create_intent env m pid app (ev_id e) ''memory.delete'' [(''memory_id'', JStr mid)] [mid] None))"

definition finish_delete ::
    "service_env \<Rightarrow> string \<Rightarrow> int \<Rightarrow> string \<Rightarrow> string \<Rightarrow> string \<Rightarrow> projection_snapshot \<Rightarrow> json dict \<Rightarrow> moment \<Rightarrow> json dict txn" where
  "finish_delete env iid attempt pid app mid prior response m =
     svc_owned pid iid attempt None (\<lambda>i.
     tx_then (svc_unchanged pid mid app prior DELETE_CHANGED)
     (tx_then (svc_delete_row m pid mid)
     (tx_then (svc_refresh m pid app [prior])
     (tx_bind (svc_event_succeeded env m (int_event_id i) response) (\<lambda>e.
     tx_bind (first_target iid) (\<lambda>t.
     tx_then (svc_mark_target m (tgt_id t))
     (let r = [(''memory'', JObj response), (''event'', event_payload e)] in
      tx_then (svc_complete env m pid iid r) (tx_return r))))))))"

definition settle_gone_delete ::
    "service_env \<Rightarrow> string \<Rightarrow> int \<Rightarrow> string \<Rightarrow> string \<Rightarrow> string \<Rightarrow> projection_snapshot \<Rightarrow> failure \<Rightarrow> moment \<Rightarrow> unit txn" where
  "settle_gone_delete env iid attempt pid app mid prior e m =
     svc_owned pid iid attempt None (\<lambda>i.
     tx_then (svc_unchanged pid mid app prior DELETE_CHANGED)
     (tx_then (svc_delete_row m pid mid)
     (tx_then (svc_refresh m pid app [prior])
     (tx_then (svc_event_failed env m (int_event_id i) (error_payload env e))
     (tx_bind (first_target iid) (\<lambda>t.
     tx_then (svc_mark_target m (tgt_id t))
     (tx_then (svc_complete env m pid iid [(''missing'', JBool True)]) (tx_return ()))))))))"

definition send_delete ::
    "service_env \<Rightarrow> string \<Rightarrow> int \<Rightarrow> string \<Rightarrow> string \<Rightarrow> string \<Rightarrow> memory_index \<Rightarrow> json dict act" where
  "send_delete env iid attempt pid app mid x w =
     (let prior = snapshot_memory_projection x in
      case ask env (Delete_Memory mid) w of
        (Inl e, w') \<Rightarrow>
          (if is_not_found e
           then act_then (transact env (settle_gone_delete env iid attempt pid app mid prior e)) (act_raise KeyError mid)
           else conclude_failure env pid iid attempt (is_ambiguous e) e) w'
      | (Inr response, w') \<Rightarrow>
          act_catch (transact env (finish_delete env iid attempt pid app mid prior (jobject response)))
            (conclude_failure env pid iid attempt True) w')"

definition delete_memory ::
    "service_env \<Rightarrow> string \<Rightarrow> string \<Rightarrow> string option \<Rightarrow> bool \<Rightarrow> json dict act" where
  "delete_memory env pid mid req_app project_wide =
     act_bind (inspect (\<lambda>db. memory_for_request (sd_projects db) (sd_memories db) pid mid req_app project_wide)) (\<lambda>(found, app0).
     act_bind (case found of
         Some x \<Rightarrow> act_res (required_projected_app_id x)
       | None \<Rightarrow> (case app0 of
           Some a \<Rightarrow> act_return a
         | None \<Rightarrow> inspect (\<lambda>db. Inr (effective_request_app_id (sd_projects db) pid req_app)))) (\<lambda>app.
     act_then (recover_pending_mutations env pid app False)
     (act_bind (inspect (\<lambda>db. Inr (get_memory pid mid (Some app) False (sd_memories db)))) (\<lambda>current.
     case current of
       None \<Rightarrow> act_then (transact env (trace_missing env pid app mid)) (act_raise KeyError mid)
     | Some x \<Rightarrow> act_bind (transact env (begin_delete env pid app mid x)) (\<lambda>i.
         send_delete env (int_id i) (int_attempt_count i) pid app mid x)))))"

section \<open>Reading\<close>

definition consolidation_details :: "memory_index \<Rightarrow> consolidation_proposal list \<Rightarrow> json res" where
  "consolidation_details x proposals =
     (case List.find (\<lambda>p. Some (prop_id p) = mi_shadowed_by_proposal_id x) proposals of
        Some p \<Rightarrow>
          if prop_project_id p \<noteq> mi_project_id x \<or> Some (prop_app_id p) \<noteq> mi_app_id x
          then Inr (JObj [(''state'', JStr (mi_consolidation_state x))])
          else (case prop_source_ids_json p of
              None \<Rightarrow> raise (OtherError ''JSONDecodeError'') []
            | Some ids \<Rightarrow> Inr (JObj [(''state'', JStr (mi_consolidation_state x)), (''proposal_id'', JStr (prop_id p)),
                (''kind'', JStr (prop_kind p)), (''canonical_id'', opt_json (prop_canonical_memory_id p)),
                (''source_ids'', ids)]))
      | None \<Rightarrow> Inr (JObj [(''state'', JStr (mi_consolidation_state x))]))"

definition get_request :: "string \<Rightarrow> memory_index \<Rightarrow> json dict" where
  "get_request mid x =
     List.map_filter (\<lambda>(k, v). case v of Some (c # cs) \<Rightarrow> Some (k, JStr (c # cs)) | _ \<Rightarrow> None)
       [(''memory_id'', Some mid), (''user_id'', mi_user_id x), (''agent_id'', mi_agent_id x),
        (''app_id'', mi_app_id x), (''run_id'', mi_run_id x)]"

definition get_event_args :: "service_env \<Rightarrow> string option \<Rightarrow> string \<Rightarrow> memory_index \<Rightarrow> event_args" where
  "get_event_args env app mid x =
     \<lparr>ea_app_id = app, ea_user_id = mi_user_id x, ea_agent_id = mi_agent_id x, ea_run_id = mi_run_id x,
      ea_operation = ''memory.get'', ea_request = get_request mid x, ea_subject_type = Some ''memory'',
      ea_subject_id = Some mid, ea_correlation_id = se_request_id env, ea_allow_project_scope = False\<rparr>"

definition trace_failure :: "service_env \<Rightarrow> string option \<Rightarrow> failure \<Rightarrow> 'a act" where
  "trace_failure env eid e =
     act_then (case eid of
         Some i \<Rightarrow> if is_exception e
           then transact env (\<lambda>m. tx_then (svc_event_failed env m i (error_payload env e)) (tx_return ()))
           else act_return ()
       | None \<Rightarrow> act_return ()) (act_fail e)"

definition checked_response ::
    "string \<Rightarrow> json \<Rightarrow> memory_index \<Rightarrow> string option \<Rightarrow> json option \<Rightarrow> svc_db \<Rightarrow> json dict res" where
  "checked_response mid response x app consolidation db =
     rbind (validate_get_response mid response) (\<lambda>d.
     rbind (require_unchanged_memory_projection (snapshot_memory_projection x) app (sd_memories db)) (\<lambda>_.
       Inr (case consolidation of None \<Rightarrow> d | Some c \<Rightarrow> dset ''consolidation'' c d)))"

definition read_memory ::
    "service_env \<Rightarrow> string \<Rightarrow> string \<Rightarrow> string option \<Rightarrow> bool \<Rightarrow> bool \<Rightarrow> json dict act" where
  "read_memory env pid mid req_app project_wide trace_event =
     act_bind (inspect (\<lambda>db. memory_for_request (sd_projects db) (sd_memories db) pid mid req_app project_wide)) (\<lambda>(found, app).
     case found of
       None \<Rightarrow> act_raise KeyError mid
     | Some x \<Rightarrow>
         act_bind (inspect (\<lambda>db. if given_id (mi_shadowed_by_proposal_id x)
             then rbind (consolidation_details x (sd_proposals db)) (\<lambda>c. Inr (Some c)) else Inr None)) (\<lambda>consolidation.
         act_bind (if trace_event
             then transact env (\<lambda>m. tx_bind (svc_create_event env m pid (get_event_args env app mid x)) (\<lambda>e. tx_return (Some (ev_id e))))
             else act_return None) (\<lambda>eid.
         act_bind (act_catch (ask env (Get_Memory mid))
             (\<lambda>e. trace_failure env eid (if is_not_found e then Threw (Exn KeyError mid) else e))) (\<lambda>response.
         act_bind (act_catch (inspect (checked_response mid response x app consolidation)) (trace_failure env eid)) (\<lambda>d.
         act_then (case eid of
             Some i \<Rightarrow> transact env (\<lambda>m. tx_then (svc_event_succeeded env m i d) (tx_return ()))
           | None \<Rightarrow> act_return ()) (act_return d))))))"

end
