(* ===== verification/Float64.thy ===== *)
theory Float64
  imports Prelude
begin

text \<open>
  Double precision arithmetic, as far as the ranking of search results uses it: a finite result
  is rounded to the nearest multiple of the spacing of doubles at its magnitude, ties to even,
  and becomes an infinity beyond the largest double.  The sign of zero is not kept.
\<close>

text \<open>The largest \<open>k\<close> with \<open>2 ^ k\<close> below a positive rational, counted from its numerator and denominator.\<close>

function bit_count :: "int \<Rightarrow> nat" where
  "bit_count n = (if n \<le> 0 then 0 else Suc (bit_count (n div 2)))"
  by auto
termination by (relation "measure nat") auto

declare bit_count.simps [simp del]

definition ilog2 :: "rat \<Rightarrow> int" where
  "ilog2 x =
     (case quotient_of x of (p, q) \<Rightarrow>
        let k = int (bit_count p) - int (bit_count q) in if 2 powi k \<le> x then k else k - 1)"

definition round_even :: "rat \<Rightarrow> int" where
  "round_even y =
     (let n = \<lfloor>y\<rfloor>; f = y - of_int n in
      if f < 1 / 2 then n else if f > 1 / 2 then n + 1 else if even n then n else n + 1)"

definition spacing :: "rat \<Rightarrow> int" where
  "spacing x = max (- 1074) (ilog2 x - 52)"

definition round64 :: "rat \<Rightarrow> rat" where
  "round64 x = (if x = 0 then 0 else of_int (round_even (x / 2 powi spacing \<bar>x\<bar>)) * 2 powi spacing \<bar>x\<bar>)"

definition float64 :: "rat \<Rightarrow> pyfloat" where
  "float64 x =
     (let y = round64 x in if y \<ge> 2 ^ 1024 then PosInf else if y \<le> - (2 ^ 1024) then NegInf else Fin y)"

section \<open>Operations\<close>

fun fneg :: "pyfloat \<Rightarrow> pyfloat" where
  "fneg (Fin a) = Fin (- a)"
| "fneg PosInf = NegInf"
| "fneg NegInf = PosInf"
| "fneg NaN = NaN"

fun fabs :: "pyfloat \<Rightarrow> pyfloat" where
  "fabs (Fin a) = Fin \<bar>a\<bar>"
| "fabs NaN = NaN"
| "fabs _ = PosInf"

fun fadd :: "pyfloat \<Rightarrow> pyfloat \<Rightarrow> pyfloat" where
  "fadd (Fin a) (Fin b) = float64 (a + b)"
| "fadd NaN _ = NaN"
| "fadd _ NaN = NaN"
| "fadd PosInf NegInf = NaN"
| "fadd NegInf PosInf = NaN"
| "fadd PosInf _ = PosInf"
| "fadd _ PosInf = PosInf"
| "fadd NegInf _ = NegInf"
| "fadd _ NegInf = NegInf"

definition fsub :: "pyfloat \<Rightarrow> pyfloat \<Rightarrow> pyfloat" where
  "fsub a b = fadd a (fneg b)"

definition signed_inf :: "bool \<Rightarrow> pyfloat" where
  "signed_inf negative = (if negative then NegInf else PosInf)"

fun negative :: "pyfloat \<Rightarrow> bool" where
  "negative (Fin a) = (a < 0)"
| "negative NegInf = True"
| "negative _ = False"

fun fmul :: "pyfloat \<Rightarrow> pyfloat \<Rightarrow> pyfloat" where
  "fmul (Fin a) (Fin b) = float64 (a * b)"
| "fmul a b =
     (if a = NaN \<or> b = NaN \<or> a = Fin 0 \<or> b = Fin 0 then NaN else signed_inf (negative a \<noteq> negative b))"

text \<open>Division by a finite number, which raises for zero.\<close>

fun fdiv :: "pyfloat \<Rightarrow> rat \<Rightarrow> pyfloat res" where
  "fdiv a b = (if b = 0 then raise (OtherError ''ZeroDivisionError'') ''float division by zero''
     else Inr (case a of Fin r \<Rightarrow> float64 (r / b) | NaN \<Rightarrow> NaN
       | _ \<Rightarrow> signed_inf (negative a \<noteq> (b < 0))))"

section \<open>Rounding\<close>

lemma pow2_pos [simp]: "(0::rat) < 2 powi k"
  by (rule zero_less_power_int) simp

lemma pow2_add: "(2::rat) powi j * 2 powi k = 2 powi (j + k)"
  by (simp add: power_int_add)

lemma pow2_mono: "j \<le> k \<Longrightarrow> (2::rat) powi j \<le> 2 powi k"
  by (rule power_int_increasing) auto

lemma bit_count_bounds: "0 < n \<Longrightarrow> 2 ^ (bit_count n - 1) \<le> n \<and> n < 2 ^ bit_count n \<and> bit_count n > 0"
proof (induction n rule: bit_count.induct)
  case (1 n)
  show ?case
  proof (cases "n = 1")
    case True
    then show ?thesis by (simp add: bit_count.simps [of 1] bit_count.simps [of 0])
  next
    case False
    with 1 have pos: "0 < n div 2" by simp
    then have IH: "2 ^ (bit_count (n div 2) - 1) \<le> n div 2 \<and> n div 2 < 2 ^ bit_count (n div 2) \<and> bit_count (n div 2) > 0"
      using 1 by auto
    then obtain k where k: "bit_count (n div 2) = Suc k" by (cases "bit_count (n div 2)") auto
    have "bit_count n = Suc (Suc k)" using 1 k by (simp add: bit_count.simps [of n])
    moreover have "2 ^ k \<le> n div 2" "n div 2 < 2 * 2 ^ k" using IH k by auto
    then have "2 * 2 ^ k \<le> n" "n < 4 * 2 ^ k" by linarith+
    ultimately show ?thesis by simp
  qed
qed

lemma pow2_nat: "(2::rat) powi int n = 2 ^ n"
  by (simp add: power_int_of_nat)

lemma ilog2_bounds:
  assumes "0 < x"
  shows "2 powi ilog2 x \<le> x" and "x < 2 powi (ilog2 x + 1)"
proof -
  obtain p q where pq: "quotient_of x = (p, q)" by fastforce
  have q: "q > 0" and x: "x = of_int p / of_int q" using quotient_of_denom_pos [OF pq] quotient_of_div [OF pq] by auto
  have p: "p > 0" using assms q unfolding x by (simp add: zero_less_divide_iff)
  let ?a = "bit_count p" and ?b = "bit_count q"
  let ?k = "int ?a - int ?b"
  have bp: "2 ^ (?a - 1) \<le> p" "p < 2 ^ ?a" "?a > 0" using bit_count_bounds [OF p] by auto
  have bq: "2 ^ (?b - 1) \<le> q" "q < 2 ^ ?b" "?b > 0" using bit_count_bounds [OF q] by auto
  have rp: "(2::rat) powi (int ?a - 1) \<le> of_int p" "of_int p < (2::rat) powi int ?a"
    using bp by (metis One_nat_def Suc_leI of_int_le_iff of_int_numeral of_int_power of_nat_1 of_nat_diff pow2_nat,
      metis of_int_less_iff of_int_numeral of_int_power pow2_nat)
  have rq: "(2::rat) powi (int ?b - 1) \<le> of_int q" "of_int q < (2::rat) powi int ?b"
    using bq by (metis One_nat_def Suc_leI of_int_le_iff of_int_numeral of_int_power of_nat_1 of_nat_diff pow2_nat,
      metis of_int_less_iff of_int_numeral of_int_power pow2_nat)
  have q0: "(0::rat) < of_int q" using q by simp
  have low: "2 powi (?k - 1) \<le> x"
  proof -
    have "2 powi (?k - 1) * of_int q \<le> 2 powi (?k - 1) * (2::rat) powi int ?b"
      using rq(2) by (simp add: mult_left_mono)
    also have "\<dots> = 2 powi (int ?a - 1)" unfolding pow2_add by (rule arg_cong [of _ _ "power_int 2"]) simp
    finally show ?thesis using rp(1) q0 unfolding x by (simp add: pos_le_divide_eq)
  qed
  have high: "x < 2 powi (?k + 1)"
  proof -
    have "2 powi (?k + 1) * of_int q \<ge> 2 powi (?k + 1) * (2::rat) powi (int ?b - 1)"
      using rq(1) by (simp add: mult_left_mono)
    also have "2 powi (?k + 1) * (2::rat) powi (int ?b - 1) = 2 powi int ?a" unfolding pow2_add by (rule arg_cong [of _ _ "power_int 2"]) simp
    finally have "2 powi int ?a \<le> 2 powi (?k + 1) * (of_int q :: rat)" .
    then show ?thesis unfolding x pos_divide_less_eq [OF q0] by (rule less_le_trans [OF rp(2)])
  qed
  show "2 powi ilog2 x \<le> x" and "x < 2 powi (ilog2 x + 1)"
    using low high unfolding ilog2_def pq by (auto simp: Let_def algebra_simps)
qed

lemma round_even_mono: "x \<le> y \<Longrightarrow> round_even x \<le> round_even y"
proof -
  assume xy: "x \<le> y"
  have bounds: "\<lfloor>z\<rfloor> \<le> round_even z \<and> round_even z \<le> \<lfloor>z\<rfloor> + 1" for z by (simp add: round_even_def Let_def)
  show ?thesis
  proof (cases "\<lfloor>x\<rfloor> = \<lfloor>y\<rfloor>")
    case True
    then show ?thesis using xy unfolding round_even_def Let_def by auto
  next
    case False
    then have "\<lfloor>x\<rfloor> + 1 \<le> \<lfloor>y\<rfloor>" using floor_mono [OF xy] by linarith
    then show ?thesis using bounds [of x] bounds [of y] by linarith
  qed
qed

lemma round_even_int [simp]: "round_even (of_int n) = n"
  by (simp add: round_even_def)

end
