(* ===== verification/Ranking.thy ===== *)
theory Ranking
  imports Float64 Extraction_Policy Memory_Records
begin

text \<open>
  The controls and the ranking of a search (\<open>core/ranking.py\<close>): the validation of the controls and
  of the ranking policy of a project, its guarded update, and the reordering of the results by
  recency and by use.  \<open>pow2\<close> stands for the power \<open>2 ** x\<close> of floats, \<open>to_int\<close> for the lenient
  reading of the version number, \<open>fromiso\<close> and \<open>isoformat\<close> for the texts of times.
\<close>

section \<open>Controls\<close>

type_synonym day = "nat \<times> nat \<times> nat"

record search_controls =
  ctl_current_only :: bool
  ctl_event_from :: "day option"
  ctl_event_to :: "day option"

definition read_error :: "string \<Rightarrow> 'a res" where
  "read_error m = raise (OtherError ''MemoryReadValidationError'') m"

definition current_only :: "json dict \<Rightarrow> bool res" where
  "current_only payload =
     (case dget_or payload ''current_only'' (JBool True) of
        JBool b \<Rightarrow> Inr b | _ \<Rightarrow> read_error ''current_only must be a boolean'')"

definition control_day :: "json \<Rightarrow> day option res" where
  "control_day v =
     (if v = JNull then Inr None
      else case event_date v of Inr d \<Rightarrow> Inr (Some d) | Inl _ \<Rightarrow> read_error ''SearchControls'')"

definition search_controls :: "json dict \<Rightarrow> search_controls res" where
  "search_controls payload =
     rbind (case dget_or payload ''current_only'' (JBool True) of
         JBool b \<Rightarrow> Inr b | _ \<Rightarrow> read_error ''SearchControls'') (\<lambda>current.
     rbind (control_day (jget payload ''event_from'')) (\<lambda>from_day.
     rbind (control_day (jget payload ''event_to'')) (\<lambda>to_day.
       if (case (from_day, to_day) of (Some a, Some b) \<Rightarrow> a > b | _ \<Rightarrow> False)
       then read_error ''SearchControls''
       else Inr \<lparr>ctl_current_only = current, ctl_event_from = from_day, ctl_event_to = to_day\<rparr>)))"

section \<open>Policy\<close>

record ranking_settings =
  rs_enabled :: bool
  rs_recency_weight :: rat
  rs_access_weight :: rat
  rs_half_life_days :: int
  rs_candidate_limit :: int

record ranking_policy =
  rp_version :: int
  rp_settings :: ranking_settings

definition default_ranking :: ranking_settings where
  "default_ranking = \<lparr>rs_enabled = False, rs_recency_weight = 0, rs_access_weight = 0, rs_half_life_days = 90,
     rs_candidate_limit = 100\<rparr>"

definition ranking_invalid :: "'a res" where
  "ranking_invalid = raise (OtherError ''ValidationError'') ''RankingPolicy''"

text \<open>A strict float takes an integer, but no boolean and no text.\<close>

definition ranking_weight :: "json dict \<Rightarrow> string \<Rightarrow> rat res" where
  "ranking_weight d k =
     (case dget d k of
        None \<Rightarrow> Inr 0
      | Some (JInt n) \<Rightarrow> if n = 0 then Inr 0 else ranking_invalid
      | Some (JFloat (Fin r)) \<Rightarrow> if 0 \<le> r \<and> r \<le> 1 / 4 then Inr r else ranking_invalid
      | Some _ \<Rightarrow> ranking_invalid)"

definition ranking_int :: "json dict \<Rightarrow> string \<Rightarrow> int \<Rightarrow> int \<Rightarrow> int res" where
  "ranking_int d k preset most =
     (case dget d k of
        None \<Rightarrow> Inr preset
      | Some (JInt n) \<Rightarrow> if 1 \<le> n \<and> n \<le> most then Inr n else ranking_invalid
      | Some _ \<Rightarrow> ranking_invalid)"

definition ranking_bool :: "json dict \<Rightarrow> string \<Rightarrow> bool res" where
  "ranking_bool d k = (case dget d k of None \<Rightarrow> Inr False | Some (JBool b) \<Rightarrow> Inr b | Some _ \<Rightarrow> ranking_invalid)"

definition RANKING_FIELDS :: "string list" where
  "RANKING_FIELDS = [''enabled'', ''recency_weight'', ''access_weight'', ''half_life_days'', ''candidate_limit'']"

definition validate_ranking_settings :: "json \<Rightarrow> ranking_settings res" where
  "validate_ranking_settings v =
     (case v of
        JObj d \<Rightarrow>
          if \<not> set (dkeys d) \<subseteq> set RANKING_FIELDS then ranking_invalid
          else rbind (ranking_bool d ''enabled'') (\<lambda>enabled.
          rbind (ranking_weight d ''recency_weight'') (\<lambda>recency.
          rbind (ranking_weight d ''access_weight'') (\<lambda>access.
          rbind (ranking_int d ''half_life_days'' 90 3650) (\<lambda>half_life.
          rbind (ranking_int d ''candidate_limit'' 100 200) (\<lambda>candidates.
            Inr \<lparr>rs_enabled = enabled, rs_recency_weight = recency, rs_access_weight = access,
              rs_half_life_days = half_life, rs_candidate_limit = candidates\<rparr>)))))
      | _ \<Rightarrow> ranking_invalid)"

definition validate_ranking_policy :: "(json \<Rightarrow> int option) \<Rightarrow> json \<Rightarrow> ranking_policy res" where
  "validate_ranking_policy to_int v =
     (case v of
        JObj d \<Rightarrow>
          if \<not> set (dkeys d) \<subseteq> {''version'', ''settings''} then ranking_invalid
          else rbind (case dget d ''version'' of
              None \<Rightarrow> Inr 0
            | Some j \<Rightarrow> (case to_int j of Some n \<Rightarrow> if n \<ge> 0 then Inr n else ranking_invalid | None \<Rightarrow> ranking_invalid)) (\<lambda>version.
          rbind (case dget d ''settings'' of None \<Rightarrow> Inr default_ranking | Some j \<Rightarrow> validate_ranking_settings j) (\<lambda>settings.
            Inr \<lparr>rp_version = version, rp_settings = settings\<rparr>))
      | _ \<Rightarrow> ranking_invalid)"

definition dump_ranking :: "ranking_policy \<Rightarrow> json" where
  "dump_ranking p =
     (let s = rp_settings p in
      JObj [(''version'', JInt (rp_version p)), (''settings'', JObj
        [(''enabled'', JBool (rs_enabled s)), (''recency_weight'', JFloat (Fin (rs_recency_weight s))),
         (''access_weight'', JFloat (Fin (rs_access_weight s))), (''half_life_days'', JInt (rs_half_life_days s)),
         (''candidate_limit'', JInt (rs_candidate_limit s))])])"

definition get_ranking_policy :: "(json \<Rightarrow> int option) \<Rightarrow> project list \<Rightarrow> string \<Rightarrow> ranking_policy res" where
  "get_ranking_policy to_int projects pid =
     (case row_by prj_id pid projects of
        None \<Rightarrow> Inr \<lparr>rp_version = 0, rp_settings = default_ranking\<rparr>
      | Some p \<Rightarrow>
          rbind (settings_document p) (\<lambda>settings.
          rbind (member_or settings ''ranking_policy'' (JObj [])) (validate_ranking_policy to_int)))"

definition set_ranking_policy ::
    "(json \<Rightarrow> int option) \<Rightarrow> time \<Rightarrow> string \<Rightarrow> int \<Rightarrow> ranking_settings \<Rightarrow> project list \<Rightarrow>
     (ranking_policy \<times> project list) res" where
  "set_ranking_policy to_int now pid expected_version settings projects =
     rbind (lock_for_mutation pid projects) (\<lambda>p.
     rbind (get_ranking_policy to_int projects pid) (\<lambda>current.
       if rp_version current \<noteq> expected_version
       then raise (OtherError ''RankingPolicyConflict'') ''Ranking policy version changed''
       else
         let r = \<lparr>rp_version = rp_version current + 1, rp_settings = settings\<rparr>
         in Inr (r, flush_project now
              (p\<lparr>prj_settings_json := Some (JObj (dset ''ranking_policy'' (dump_ranking r) (project_settings p)))\<rparr>) projects)))"

definition ranking_limit :: "json dict \<Rightarrow> int res" where
  "ranking_limit payload =
     (case dget_or payload ''top_k'' (JInt 100) of
        JInt n \<Rightarrow> if 0 \<le> n \<and> n \<le> 200 then Inr n else read_error ''top_k must be an integer from 0 to 200''
      | _ \<Rightarrow> read_error ''top_k must be an integer from 0 to 200'')"

section \<open>The score of a result\<close>

definition MAX_CANDIDATES :: nat where "MAX_CANDIDATES = 200"
definition EVERGREEN_TYPES :: "string list" where
  "EVERGREEN_TYPES = [''decision'', ''user_preference'', ''project_profile'']"

definition created_time :: "(string \<Rightarrow> datetime option) \<Rightarrow> json \<Rightarrow> time option" where
  "created_time fromiso v = (case v of JStr s \<Rightarrow> map_option instant (fromiso (replace_Z s)) | _ \<Rightarrow> None)"

text \<open>A number that is a finite float; the test itself fails for an integer that no float holds.\<close>

definition finite_score :: "json \<Rightarrow> rat option res" where
  "finite_score v =
     (case v of
        JInt n \<Rightarrow> rbind (float_of_int n) (\<lambda>_. Inr (Some (round64 (of_int n))))
      | JFloat (Fin r) \<Rightarrow> Inr (Some r)
      | _ \<Rightarrow> Inr None)"

definition age_days :: "time \<Rightarrow> time option \<Rightarrow> rat" where
  "age_days now created =
     (case created of
        None \<Rightarrow> 0
      | Some t \<Rightarrow> max 0 (round64 (round64 (of_int (now - t) / 1000000) / 86400)))"

definition is_evergreen :: "memory_index \<Rightarrow> json dict \<Rightarrow> bool" where
  "is_evergreen m metadata =
     (mi_pinned m = 1 \<or> jget metadata ''evergreen'' = JBool True
      \<or> (case mi_normalized_type m of Some t \<Rightarrow> t \<in> set EVERGREEN_TYPES | None \<Rightarrow> False))"

definition recency_penalty :: "(rat \<Rightarrow> pyfloat) \<Rightarrow> ranking_settings \<Rightarrow> bool \<Rightarrow> rat \<Rightarrow> pyfloat" where
  "recency_penalty pow2 s evergreen age =
     (if evergreen then Fin 0
      else fmul (Fin (rs_recency_weight s))
        (fsub (Fin 1) (pow2 (round64 (- age / of_int (rs_half_life_days s))))))"

definition access_bonus :: "ranking_settings \<Rightarrow> int \<Rightarrow> pyfloat res" where
  "access_bonus s n =
     fdiv (fmul (Fin (rs_access_weight s)) (Fin (round64 (of_int n)))) (round64 (of_int (n + 10)))"

definition rank_score :: "rat \<Rightarrow> pyfloat \<Rightarrow> pyfloat \<Rightarrow> pyfloat" where
  "rank_score score access penalty = fadd (Fin score) (fmul (Fin \<bar>score\<bar>) (fsub access penalty))"

section \<open>Ranking\<close>

definition base_record :: "json dict \<Rightarrow> json dict" where
  "base_record item = (case jget item ''memory'' of JObj m \<Rightarrow> m | _ \<Rightarrow> item)"

text \<open>The identifier of a result; an identifier that is a list or an object cannot be looked up.\<close>

definition result_id :: "json \<Rightarrow> string option res" where
  "result_id item =
     (case item of
        JObj d \<Rightarrow> (case dget (base_record d) ''id'' of
            None \<Rightarrow> raise KeyError ''id''
          | Some (JStr s) \<Rightarrow> Inr (Some s)
          | Some (JList _) \<Rightarrow> raise TypeError ''unhashable type: list''
          | Some (JObj _) \<Rightarrow> raise TypeError ''unhashable type: dict''
          | Some _ \<Rightarrow> Inr None)
      | _ \<Rightarrow> raise (OtherError ''AttributeError'') ''get'')"

definition in_window :: "search_controls \<Rightarrow> json dict \<Rightarrow> bool" where
  "in_window c metadata =
     (if ctl_event_from c = None \<and> ctl_event_to c = None then True
      else case event_date (jget metadata ''event_date'') of
        Inl _ \<Rightarrow> False
      | Inr day \<Rightarrow> (case ctl_event_from c of None \<Rightarrow> True | Some a \<Rightarrow> \<not> day < a)
          \<and> (case ctl_event_to c of None \<Rightarrow> True | Some b \<Rightarrow> \<not> day > b))"

definition opt_time :: "(time \<Rightarrow> string) \<Rightarrow> time option \<Rightarrow> json" where
  "opt_time isoformat t = opt_json (map_option isoformat t)"

definition ranked_item ::
    "(rat \<Rightarrow> pyfloat) \<Rightarrow> (string \<Rightarrow> datetime option) \<Rightarrow> (time \<Rightarrow> string) \<Rightarrow> time \<Rightarrow> ranking_policy \<Rightarrow>
     memory_index \<Rightarrow> json dict \<Rightarrow> json dict res" where
  "ranked_item pow2 fromiso isoformat now policy m item =
     (let s = rp_settings policy; metadata = metadata_projection m;
          created_at = jget (base_record item) ''created_at''
      in if \<not> rs_enabled s then Inr item
      else rbind (finite_score (dget_or item ''rerank_score'' (jget item ''score''))) (\<lambda>score.
        case score of
          None \<Rightarrow> Inr item
        | Some x \<Rightarrow>
            let evergreen = is_evergreen m metadata;
                penalty = recency_penalty pow2 s evergreen (age_days now (created_time fromiso created_at))
            in rbind (access_bonus s (mi_access_count m)) (\<lambda>access.
              Inr (dset ''ranking_details'' (JObj
                [(''policy_version'', JInt (rp_version policy)), (''recency_penalty'', JFloat penalty),
                 (''access_bonus'', JFloat access), (''evergreen'', JBool evergreen),
                 (''source_created_at'', created_at), (''observed_at'', opt_time isoformat (mi_last_observed_at m)),
                 (''event_date'', jget metadata ''event_date''), (''access_count'', JInt (mi_access_count m)),
                 (''last_accessed_at'', opt_time isoformat (mi_last_accessed_at m))])
                (dset ''rank_score'' (JFloat (rank_score x access penalty)) item)))))"

text \<open>One result: its rank, or nothing when it is not indexed or outside the window.\<close>

definition select_item ::
    "(rat \<Rightarrow> pyfloat) \<Rightarrow> (string \<Rightarrow> datetime option) \<Rightarrow> (time \<Rightarrow> string) \<Rightarrow> time \<Rightarrow> ranking_policy \<Rightarrow> search_controls \<Rightarrow>
     memory_index list \<Rightarrow> json \<Rightarrow> json dict option res" where
  "select_item pow2 fromiso isoformat now policy c projections item =
     rbind (result_id item) (\<lambda>i.
       case Option.bind i (\<lambda>mid. List.find (\<lambda>m. mi_mem0_memory_id m = mid) (rev projections)) of
         None \<Rightarrow> Inr None
       | Some m \<Rightarrow>
           if \<not> in_window c (metadata_projection m) then Inr None
           else rbind (ranked_item pow2 fromiso isoformat now policy m (jobject item)) (\<lambda>r. Inr (Some r)))"

text \<open>
  The key a result is ordered by, from the highest down: a result without a rank comes last.  A
  \<open>rank_score\<close> that the upstream service itself supplied may be no number, which cannot be compared.
  The order that a supplied not-a-number leaves is that of the sorting algorithm; here it comes last.
\<close>

definition float_key :: "pyfloat \<Rightarrow> (int \<times> rat) res" where
  "float_key f =
     (case f of Fin r \<Rightarrow> Inr (0, - r) | PosInf \<Rightarrow> Inr (-1, 0) | NegInf \<Rightarrow> Inr (1, 0)
      | NaN \<Rightarrow> Inr (1, 0))"

definition rank_key :: "json dict \<Rightarrow> (int \<times> rat) res" where
  "rank_key item =
     (case dget_or item ''rank_score'' (JFloat NegInf) of
        JFloat f \<Rightarrow> float_key f
      | JInt n \<Rightarrow> Inr (0, - of_int n)
      | JBool b \<Rightarrow> Inr (0, - (if b then 1 else 0))
      | _ \<Rightarrow> raise TypeError ''rank_score'')"

definition order_results :: "json dict list \<Rightarrow> json dict list res" where
  "order_results items =
     (if length items < 2 then Inr items
      else rbind (rmap (\<lambda>d. rbind (rank_key d) (\<lambda>k. Inr (k, d))) items) (\<lambda>keyed. Inr (map snd (sort_key fst keyed))))"

definition ranked_rows ::
    "(rat \<Rightarrow> pyfloat) \<Rightarrow> (string \<Rightarrow> datetime option) \<Rightarrow> (time \<Rightarrow> string) \<Rightarrow> time \<Rightarrow> scope \<Rightarrow> search_controls \<Rightarrow>
     ranking_policy \<Rightarrow> int \<Rightarrow> memory_index list \<Rightarrow> json list \<Rightarrow> (json dict list \<times> memory_index list) res" where
  "ranked_rows pow2 fromiso isoformat now sc c policy limit rows items =
     (if length items > MAX_CANDIDATES then read_error ''Upstream exceeded the 200-candidate bound''
      else rbind (rmap result_id items) (\<lambda>ids.
      let s = rp_settings policy;
          projections = list_memories_by_ids (scope_project_id sc) (Some (scope_app_id sc))
            (List.map_filter id ids) False (\<not> ctl_current_only c) rows
      in rbind (rmap (select_item pow2 fromiso isoformat now policy c projections) items) (\<lambda>chosen.
      rbind (if rs_enabled s \<and> (rs_recency_weight s \<noteq> 0 \<or> rs_access_weight s \<noteq> 0)
             then order_results (List.map_filter id chosen) else Inr (List.map_filter id chosen)) (\<lambda>ordered.
      let selected = take (nat limit) ordered;
          ids = List.map_filter (\<lambda>d. case result_id (JObj d) of Inr i \<Rightarrow> i | Inl _ \<Rightarrow> None) selected
      in Inr (selected, if rs_enabled s \<and> selected \<noteq> []
           then count_access now (scope_project_id sc) (scope_app_id sc) ids rows else rows)))))"

definition rank_results ::
    "(rat \<Rightarrow> pyfloat) \<Rightarrow> (string \<Rightarrow> datetime option) \<Rightarrow> (time \<Rightarrow> string) \<Rightarrow> time \<Rightarrow> scope \<Rightarrow> search_controls \<Rightarrow>
     ranking_policy \<Rightarrow> int \<Rightarrow> json \<Rightarrow> memory_index list \<Rightarrow> (json \<times> memory_index list) res" where
  "rank_results pow2 fromiso isoformat now sc c policy limit response rows =
     (let ranked = ranked_rows pow2 fromiso isoformat now sc c policy limit rows in
      case response of
        JList items \<Rightarrow> rbind (ranked items) (\<lambda>(selected, rows'). Inr (JList (map JObj selected), rows'))
      | JObj d \<Rightarrow>
          (case dget_or d ''results'' (JList []) of
             JList items \<Rightarrow> rbind (ranked items) (\<lambda>(selected, rows').
               Inr (JObj (dset ''total'' (JInt (int (length selected)))
                 (dset ''results'' (JList (map JObj selected)) d)), rows'))
           | _ \<Rightarrow> Inr (response, rows))
      | _ \<Rightarrow> raise (OtherError ''AttributeError'') ''get'')"

section \<open>What a ranking returns\<close>

lemma select_item_Inr:
  assumes "select_item pow2 fromiso isoformat now policy c projections item = Inr (Some d)"
  obtains mid m where "result_id item = Inr (Some mid)" "m \<in> set projections" "mi_mem0_memory_id m = mid"
    "in_window c (metadata_projection m)" "ranked_item pow2 fromiso isoformat now policy m (jobject item) = Inr d"
proof -
  let ?find = "\<lambda>mid. List.find (\<lambda>m. mi_mem0_memory_id m = mid) (rev projections)"
  from assms obtain i where i: "result_id item = Inr i"
    and rest: "(case Option.bind i ?find of None \<Rightarrow> Inr None
       | Some m \<Rightarrow> if \<not> in_window c (metadata_projection m) then Inr None
           else rbind (ranked_item pow2 fromiso isoformat now policy m (jobject item)) (\<lambda>r. Inr (Some r))) = Inr (Some d)"
    by (auto simp: select_item_def rbind_Inr_iff)
  then obtain m where m: "Option.bind i ?find = Some m" by (cases "Option.bind i ?find") auto
  then obtain mid where mid: "i = Some mid" "?find mid = Some m" by (auto simp: bind_eq_Some_conv)
  from mid(2) have "m \<in> set (rev projections) \<and> mi_mem0_memory_id m = mid"
    by (metis (mono_tags, lifting) find_Some_iff nth_mem)
  then show thesis
    using that i rest m mid(1) by (auto simp: rbind_Inr_iff split: if_splits)
qed

lemma ranked_item_rest:
  assumes "ranked_item pow2 fromiso isoformat now policy m item = Inr d" "k \<notin> {''rank_score'', ''ranking_details''}"
  shows "dget d k = dget item k"
  using assms
  by (auto simp: ranked_item_def Let_def rbind_Inr_iff dget_dset split: if_splits option.splits)

lemma order_results_sorted:
  assumes "order_results items = Inr ordered"
  shows "set ordered = set items \<and> length ordered = length items
    \<and> sorted_wrt (\<lambda>x y. \<exists>a b. rank_key x = Inr a \<and> rank_key y = Inr b \<and> a \<le> b) ordered"
proof (cases "length items < 2")
  case True
  then show ?thesis using assms by (cases items) (auto simp: order_results_def)
next
  case False
  with assms obtain keyed where keyed: "rmap (\<lambda>d. rbind (rank_key d) (\<lambda>k. Inr (k, d))) items = Inr keyed"
    and ordered: "ordered = map snd (sort_key fst keyed)"
    by (auto simp: order_results_def rbind_Inr_iff)
  have pairs: "rank_key (snd p) = Inr (fst p)" if "p \<in> set keyed" for p
    using rmap_mem [OF keyed that] by (auto simp: rbind_Inr_iff)
  have "map snd keyed = items"
    using keyed by (induction items arbitrary: keyed) (auto simp: res_simps)
  then have "set (map snd keyed) = set items" "length keyed = length items" by auto
  moreover have "sorted_wrt (\<lambda>p q. fst p \<le> fst q) (sort_key fst keyed)"
    by (metis sorted_map sorted_sort_key)
  then have "sorted_wrt (\<lambda>x y. \<exists>a b. rank_key x = Inr a \<and> rank_key y = Inr b \<and> a \<le> b) ordered"
    unfolding ordered sorted_wrt_map
    by (rule sorted_wrt_mono_rel [rotated]) (use pairs in auto)
  ultimately show ?thesis by (simp add: ordered)
qed

lemma list_by_ids_members:
  "m \<in> set (list_memories_by_ids pid app ids deleted shadowed rows) \<Longrightarrow>
     m \<in> set rows \<and> mi_project_id m = pid \<and> opt_is app (mi_app_id m) \<and> (deleted \<or> live m)
     \<and> (shadowed \<or> mi_consolidation_state m = ''ACTIVE'')"
  by (auto simp: list_memories_by_ids_def)

lemma selected_item_in_scope:
  assumes "select_item pow2 fromiso isoformat now policy c (list_memories_by_ids pid (Some app) ids False shadowed rows) raw
      = Inr (Some d)"
  shows "\<exists>item mid. \<exists>m \<in> set rows. raw = JObj item \<and> result_id (JObj item) = Inr (Some mid)
    \<and> mi_mem0_memory_id m = mid \<and> mi_project_id m = pid \<and> mi_app_id m = Some app
    \<and> (if \<not> shadowed then active m else live m) \<and> in_window c (metadata_projection m)
    \<and> (\<forall>k. k \<noteq> ''rank_score'' \<and> k \<noteq> ''ranking_details'' \<longrightarrow> dget d k = dget item k)"
proof -
  from select_item_Inr [OF assms] obtain mid m where m: "result_id raw = Inr (Some mid)"
      "m \<in> set (list_memories_by_ids pid (Some app) ids False shadowed rows)"
      "mi_mem0_memory_id m = mid" "in_window c (metadata_projection m)"
      "ranked_item pow2 fromiso isoformat now policy m (jobject raw) = Inr d"
    by metis
  from m(1) obtain item where obj: "raw = JObj item" by (cases raw) (auto simp: result_id_def)
  have "dget d k = dget item k" if "k \<noteq> ''rank_score'' \<and> k \<noteq> ''ranking_details''" for k
    using ranked_item_rest [OF m(5), of k] that by (simp add: obj jobject_def)
  moreover note list_by_ids_members [OF m(2)]
  ultimately show ?thesis
    using m(1,3,4) unfolding obj by (intro exI [of _ item] exI [of _ mid] bexI [of _ m]) (auto simp: opt_is_def active_def)
qed


definition ranked_index :: "memory_index list" where
  "ranked_index = map (\<lambda>i. (new_memory i 0 ''p'' i)\<lparr>mi_app_id := Some ''a''\<rparr>) [''m1'', ''m2'']"

definition ranked_policy :: ranking_policy where
  "ranked_policy = \<lparr>rp_version = 1, rp_settings = default_ranking\<lparr>rs_enabled := True, rs_recency_weight := 1 / 2\<rparr>\<rparr>"

definition ranked_answer :: "(json dict list \<times> memory_index list) res" where
  "ranked_answer = ranked_rows (\<lambda>_. Fin 1) (\<lambda>_. None) (\<lambda>_. ''t'') 0
     \<lparr>scope_project_id = ''p'', scope_user_id = None, scope_app_id = ''a'', scope_agent_id = None, scope_run_id = None\<rparr>
     \<lparr>ctl_current_only = True, ctl_event_from = None, ctl_event_to = None\<rparr> ranked_policy 1 ranked_index
     [JObj [(''id'', JStr ''m3'')], JObj [(''id'', JStr ''m2'')], JObj [(''id'', JStr ''m1'')]]"

lemma ranked_answer_ok:
  "\<exists>rows. ranked_answer = Inr ([[(''id'', JStr ''m2'')]], rows)"
  by (simp add: ranked_answer_def ranked_rows_def MAX_CANDIDATES_def result_id_def base_record_def rbind_def
      list_memories_by_ids_def ranked_index_def new_memory_def dedup_def chunks.simps opt_is_def live_def select_item_def
      in_window_def ranked_item_def ranked_policy_def default_ranking_def finite_score_def order_results_def rank_key_def float_key_def
      jobject_def List.map_filter_simps Let_def)


end
