(* ===== verification/Memory_Reads.thy ===== *)
theory Memory_Reads
  imports Memory_Service Ranking
begin

text \<open>
  Reading memories (\<open>MemoryService\<close> in \<open>core/memory_ops.py\<close>): listing and searching through the
  upstream service, whose results are filtered by the index; the history of one memory; and the
  query of the index, which hydrates its candidates page by page and answers only when the order
  it read has not changed in the meantime.
\<close>

section \<open>Listing and searching\<close>

definition scope_event_args :: "service_env \<Rightarrow> scope \<Rightarrow> string \<Rightarrow> json dict \<Rightarrow> event_args" where
  "scope_event_args env sc operation request =
     \<lparr>ea_app_id = Some (scope_app_id sc), ea_user_id = scope_user_id sc, ea_agent_id = scope_agent_id sc,
      ea_run_id = scope_run_id sc, ea_operation = operation, ea_request = request,
      ea_subject_type = Some ''memory'', ea_subject_id = None, ea_correlation_id = se_request_id env,
      ea_allow_project_scope = False\<rparr>"

definition payload_scope :: "string \<Rightarrow> json dict \<Rightarrow> scope res" where
  "payload_scope pid payload =
     normalize_scope (JStr pid) (jget payload ''user_id'') (jget payload ''app_id'')
       (jget payload ''agent_id'') (jget payload ''run_id'')"

definition trace_response :: "json \<Rightarrow> json dict" where
  "trace_response v = (case v of JObj d \<Rightarrow> d | _ \<Rightarrow> [(''results'', v)])"

text \<open>The event of a read, committed before the upstream service is asked.\<close>

definition open_trace :: "service_env \<Rightarrow> string \<Rightarrow> event_args \<Rightarrow> string act" where
  "open_trace env pid a =
     transact env (\<lambda>m. tx_bind (svc_create_event env m pid a) (\<lambda>e. tx_return (ev_id e)))"

text \<open>The results the index allows, as the caller wants them.\<close>

definition filtered_response :: "bool \<Rightarrow> scope \<Rightarrow> bool \<Rightarrow> json \<Rightarrow> svc_db \<Rightarrow> json" where
  "filtered_response preserve sc current response db =
     (if preserve then filter_compatible_results (sd_memories db) sc current response
      else JObj (filter_search_results (sd_memories db) sc current (jobject response)))"

definition finish_list :: "service_env \<Rightarrow> bool \<Rightarrow> scope \<Rightarrow> bool \<Rightarrow> string \<Rightarrow> json \<Rightarrow> moment \<Rightarrow> json txn" where
  "finish_list env preserve sc current eid response m =
     tx_bind (tx_query (\<lambda>db. Inr (filtered_response preserve sc current response db))) (\<lambda>v.
     tx_then (svc_event_succeeded env m eid (trace_response v)) (tx_return v))"

definition list_params :: "json dict \<Rightarrow> json dict" where
  "list_params payload = filter (\<lambda>(k, _). k \<notin> {''project_id'', ''app_id'', ''current_only''}) payload"

definition list_memories :: "service_env \<Rightarrow> string \<Rightarrow> json dict \<Rightarrow> bool \<Rightarrow> json act" where
  "list_memories env pid payload preserve =
     act_bind (act_res (current_only payload)) (\<lambda>current.
     act_bind (act_res (payload_scope pid payload)) (\<lambda>sc.
     let params = list_params payload in
     act_bind (open_trace env pid (scope_event_args env sc ''memory.list''
         (dset ''app_id'' (JStr (scope_app_id sc)) params))) (\<lambda>eid.
     act_catch
       (act_bind (ask env (if preserve then List_Memories_Raw params else List_Memories params)) (\<lambda>response.
         transact env (finish_list env preserve sc current eid response)))
       (trace_failure env (Some eid)))))"

record search_plan =
  sp_controls :: search_controls
  sp_scope :: scope
  sp_policy :: ranking_policy
  sp_ranked :: bool
  sp_limit :: int
  sp_payload :: "json dict"

definition plan_search :: "service_env \<Rightarrow> string \<Rightarrow> json dict \<Rightarrow> svc_db \<Rightarrow> search_plan res" where
  "plan_search env pid payload db =
     rbind (search_controls payload) (\<lambda>controls.
     rbind (payload_scope pid payload) (\<lambda>sc.
     let oss = oss_search_payload payload sc in
     rbind (get_ranking_policy (se_to_int env) (sd_projects db) pid) (\<lambda>policy.
     let ranked = (rs_enabled (rp_settings policy) \<or> ctl_event_from controls \<noteq> None \<or> ctl_event_to controls \<noteq> None) in
     rbind (if ranked then ranking_limit payload else Inr 0) (\<lambda>limit.
     let oss = (if ranked then dset ''top_k'' (JInt (max limit (rs_candidate_limit (rp_settings policy)))) oss else oss)
     in Inr \<lparr>sp_controls = controls, sp_scope = sc, sp_policy = policy, sp_ranked = ranked, sp_limit = limit,
          sp_payload = dupdate oss (owner_fields sc)\<rparr>))))"

definition svc_rank :: "service_env \<Rightarrow> moment \<Rightarrow> search_plan \<Rightarrow> json \<Rightarrow> json txn" where
  "svc_rank env m p response db =
     (case rank_results (se_pow2 env) (se_fromiso env) (se_isoformat env) (mo_now m) (sp_scope p) (sp_controls p)
         (sp_policy p) (sp_limit p) response (sd_memories db) of
        Inl e \<Rightarrow> Inl e
      | Inr (v, rows) \<Rightarrow> Inr (v, db\<lparr>sd_memories := rows\<rparr>))"

definition finish_search :: "service_env \<Rightarrow> bool \<Rightarrow> search_plan \<Rightarrow> string \<Rightarrow> json \<Rightarrow> moment \<Rightarrow> json txn" where
  "finish_search env preserve p eid response m =
     tx_bind (tx_query (\<lambda>db. Inr (filtered_response preserve (sp_scope p) (ctl_current_only (sp_controls p)) response db))) (\<lambda>found.
     tx_bind (if sp_ranked p then svc_rank env m p found else tx_return found) (\<lambda>v.
     tx_then (svc_event_succeeded env m eid (trace_response v)) (tx_return v)))"

definition search_memories :: "service_env \<Rightarrow> string \<Rightarrow> json dict \<Rightarrow> bool \<Rightarrow> json act" where
  "search_memories env pid payload preserve =
     act_bind (inspect (plan_search env pid payload)) (\<lambda>p.
     act_bind (open_trace env pid (scope_event_args env (sp_scope p) ''memory.search'' (sp_payload p))) (\<lambda>eid.
     act_catch
       (act_bind (ask env (if preserve then Search_Memories_Raw (sp_payload p) else Search_Memories (sp_payload p)))
         (\<lambda>response. transact env (finish_search env preserve p eid response)))
       (trace_failure env (Some eid))))"

section \<open>The history of a memory\<close>

definition history_result :: "bool \<Rightarrow> json \<Rightarrow> json res" where
  "history_result preserve response =
     rbind (history_results response) (\<lambda>results.
       Inr (if preserve then (case response of JObj d \<Rightarrow> response | _ \<Rightarrow> JList results)
            else JObj [(''results'', JList results)]))"

definition checked_history :: "bool \<Rightarrow> json \<Rightarrow> memory_index \<Rightarrow> string option \<Rightarrow> svc_db \<Rightarrow> json res" where
  "checked_history preserve response x app db =
     rbind (history_result preserve response) (\<lambda>r.
     rbind (require_unchanged_memory_projection (snapshot_memory_projection x) app (sd_memories db)) (\<lambda>_. Inr r))"

definition get_memory_history ::
    "service_env \<Rightarrow> string \<Rightarrow> string \<Rightarrow> string option \<Rightarrow> bool \<Rightarrow> bool \<Rightarrow> bool \<Rightarrow> json act" where
  "get_memory_history env pid mid req_app project_wide trace_event preserve =
     act_bind (inspect (\<lambda>db. memory_for_request (sd_projects db) (sd_memories db) pid mid req_app project_wide)) (\<lambda>(found, app).
     case found of
       None \<Rightarrow> act_raise KeyError mid
     | Some x \<Rightarrow>
         act_bind (if trace_event
             then act_bind (open_trace env pid ((get_event_args env app mid x)\<lparr>ea_operation := ''memory.history''\<rparr>)) (\<lambda>i. act_return (Some i))
             else act_return None) (\<lambda>eid.
         act_bind (act_catch
             (act_bind (act_catch (ask env (if preserve then Get_Memory_History_Raw mid else Get_Memory_History mid))
                 (\<lambda>e. if is_value_error e
                    then act_raise ProtocolError ''Upstream memory history response could not be decoded''
                    else if is_not_found e then act_raise KeyError mid else act_fail e))
               (\<lambda>response. inspect (checked_history preserve response x app)))
             (trace_failure env eid)) (\<lambda>r.
         act_then (case eid of
             Some i \<Rightarrow> transact env (\<lambda>m. tx_then (svc_event_succeeded env m i (trace_response r)) (tx_return ()))
           | None \<Rightarrow> act_return ()) (act_return r))))"

section \<open>Querying the index\<close>

definition HYDRATION_BUFFER :: nat where "HYDRATION_BUFFER = 20"
definition HORIZON :: nat where "HORIZON = nat EXPLORER_RECORD_HORIZON"

definition query_trace_request :: "(datetime \<Rightarrow> string) \<Rightarrow> explorer_query \<Rightarrow> json dict" where
  "query_trace_request isodate q =
     [(''match'', JStr (eq_match q)), (''filters'', JList (map filter_json (eq_filters q))),
      (''date_range'', JObj [(''from'', date_json isodate (from_at (eq_date_range q))),
         (''to'', date_json isodate (to_at (eq_date_range q)))]),
      (''page'', JInt (eq_page q)), (''page_size'', JInt (eq_page_size q)), (''sort'', JStr (eq_sort q))]"

definition query_event_args :: "service_env \<Rightarrow> string option \<Rightarrow> bool \<Rightarrow> explorer_query \<Rightarrow> event_args" where
  "query_event_args env app project_wide q =
     (let entities = query_trace_entities q in
      \<lparr>ea_app_id = app, ea_user_id = dget entities ''user_id'', ea_agent_id = dget entities ''agent_id'',
       ea_run_id = dget entities ''run_id'', ea_operation = ''memory.list'',
       ea_request = query_trace_request (se_isodatetime env) q, ea_subject_type = Some ''memory'', ea_subject_id = None,
       ea_correlation_id = se_request_id env, ea_allow_project_scope = project_wide\<rparr>)"

text \<open>
  What a query knows of the index: the rows it has seen first, those whose record it has read, and
  those that the upstream service no longer has.  Rows stand for their snapshots.
\<close>

record query_state =
  qs_window :: nat
  qs_fetched :: "string list"
  qs_observed :: "projection_snapshot dict"
  qs_hydrated :: "(projection_snapshot \<times> json dict) dict"
  qs_stale :: "projection_snapshot dict"
  qs_changed :: bool

definition batch_size :: "explorer_query \<Rightarrow> nat" where
  "batch_size q = min (nat (eq_page_size q) + HYDRATION_BUFFER) HORIZON"

definition query_start :: "explorer_query \<Rightarrow> query_state" where
  "query_start q = \<lparr>qs_window = batch_size q, qs_fetched = [], qs_observed = [], qs_hydrated = [], qs_stale = [],
     qs_changed = False\<rparr>"

definition observe :: "query_state \<Rightarrow> memory_index \<Rightarrow> query_state" where
  "observe st x =
     (let s = snapshot_memory_projection x in
      case dget (qs_observed st) (ps_memory_id s) of
        None \<Rightarrow> st\<lparr>qs_observed := dset (ps_memory_id s) s (qs_observed st)\<rparr>
      | Some previous \<Rightarrow> if previous = s then st else st\<lparr>qs_changed := True\<rparr>)"

definition candidate_page :: "string \<Rightarrow> string option \<Rightarrow> explorer_query \<Rightarrow> nat \<Rightarrow> svc_db \<Rightarrow> memory_page res" where
  "candidate_page pid app q window db =
     query_project_memories pid app q (Some 0) (Some (int window)) (sd_memories db)"

definition unreadable :: "failure \<Rightarrow> bool" where
  "unreadable e =
     (is_not_found e \<or> (case e of Threw x \<Rightarrow> exn_class x \<in> {KeyError, ProtocolError, TypeError, ValueError} | _ \<Rightarrow> False))"

text \<open>The record of a row, or nothing when it is gone or no longer that of the row.\<close>

definition hydrate_row :: "service_env \<Rightarrow> memory_index \<Rightarrow> json dict option act" where
  "hydrate_row env x =
     act_catch
       (act_bind (ask env (Get_Memory (mi_mem0_memory_id x))) (\<lambda>response.
        act_bind (act_res (memory_record_from_response response (mi_mem0_memory_id x))) (\<lambda>d.
        act_bind (act_res (normalize_memory_record (se_isoformat env) d (Some x))) (\<lambda>normalized.
          act_return (if hydrated_record_matches_projection d normalized x then Some normalized else None)))))
       (\<lambda>e. if unreadable e then act_return None else act_fail e)"

fun hydrate_batch :: "service_env \<Rightarrow> memory_index list \<Rightarrow> (memory_index \<times> json dict option) list act" where
  "hydrate_batch env [] = act_return []"
| "hydrate_batch env (x # xs) =
     act_bind (hydrate_row env x) (\<lambda>r.
     act_bind (hydrate_batch env xs) (\<lambda>rest. act_return ((x, r) # rest)))"

definition note_hydrated :: "query_state \<Rightarrow> memory_index \<times> json dict option \<Rightarrow> query_state" where
  "note_hydrated st found =
     (let s = snapshot_memory_projection (fst found) in
      case snd found of
        None \<Rightarrow> st\<lparr>qs_stale := dset (ps_memory_id s) s (qs_stale st)\<rparr>
      | Some d \<Rightarrow> st\<lparr>qs_hydrated := dset (ps_memory_id s) (s, d) (qs_hydrated st)\<rparr>)"

definition ORDER_CHANGED :: string where
  "ORDER_CHANGED = ''Memory projection order changed during hydration; retry the query''"
definition HYDRATION_CHANGED :: string where
  "HYDRATION_CHANGED = ''Memory projection changed during hydration; retry the query''"
definition HORIZON_REACHED :: string where
  "HORIZON_REACHED = ''Memory hydration horizon reached; retry the query''"

text \<open>Every row of the given snapshots is still as it was.\<close>

definition row_of_snapshot :: "string \<Rightarrow> string option \<Rightarrow> svc_db \<Rightarrow> string \<Rightarrow> memory_index option" where
  "row_of_snapshot pid app db mid =
     List.find (\<lambda>m. mi_mem0_memory_id m = mid) (rev (list_memories_by_ids pid app [mid] True False (sd_memories db)))"

definition snapshot_holds :: "string \<Rightarrow> string option \<Rightarrow> svc_db \<Rightarrow> string \<times> projection_snapshot \<Rightarrow> bool" where
  "snapshot_holds pid app db entry =
     (case row_of_snapshot pid app db (fst entry) of
        None \<Rightarrow> False | Some m \<Rightarrow> projection_matches_snapshot m (snd entry))"

text \<open>
  Rows whose record is gone are marked stale, unless they changed; what is returned is how many
  were marked, and a conflict when not all were.
\<close>

definition svc_mark_stale_if_unchanged ::
    "moment \<Rightarrow> string \<Rightarrow> string option \<Rightarrow> string list \<Rightarrow> time \<Rightarrow> time dict \<Rightarrow> nat txn" where
  "svc_mark_stale_if_unchanged m pid app ids updated_at_lte expected db =
     (case mark_stale_if_unchanged (mo_now m) pid app ids updated_at_lte (Some expected) (sd_memories db) of
        Inl e \<Rightarrow> Inl e
      | Inr (n, rows) \<Rightarrow> Inr (n, db\<lparr>sd_memories := rows\<rparr>))"

definition latest_version :: "projection_snapshot list \<Rightarrow> time" where
  "latest_version ss = (case map ps_updated_at ss of [] \<Rightarrow> 0 | t # ts \<Rightarrow> foldl max t ts)"

definition settle_stale ::
    "string \<Rightarrow> string option \<Rightarrow> query_state \<Rightarrow> moment \<Rightarrow> (nat \<times> string option) txn" where
  "settle_stale pid app st m =
     (if qs_stale st = [] then tx_return (0, None)
      else tx_bind (tx_query (\<lambda>db. Inr (filter (snapshot_holds pid app db) (qs_stale st)))) (\<lambda>unchanged.
        let conflict = (if length unchanged \<noteq> length (qs_stale st) then Some HYDRATION_CHANGED else None) in
        if unchanged = [] then tx_return (0, conflict)
        else tx_bind (svc_mark_stale_if_unchanged m pid app (map fst unchanged) (latest_version (map snd unchanged))
            (map (\<lambda>(i, s). (i, ps_updated_at s)) unchanged)) (\<lambda>marked.
          tx_then (if marked \<noteq> 0 then svc_refresh_affected_projections m pid (map snd unchanged) else tx_return ())
            (tx_return (marked, if marked \<noteq> length unchanged then Some HYDRATION_CHANGED else conflict)))))"

definition logical_offset :: "explorer_query \<Rightarrow> nat" where
  "logical_offset q = nat ((eq_page q - 1) * eq_page_size q)"

definition logical_end :: "explorer_query \<Rightarrow> nat" where
  "logical_end q = nat ((eq_page q - 1) * eq_page_size q + eq_page_size q)"

definition is_hydrated :: "query_state \<Rightarrow> memory_index \<Rightarrow> bool" where
  "is_hydrated st x = (map_option fst (dget (qs_hydrated st) (mi_mem0_memory_id x)) = Some (snapshot_memory_projection x))"

text \<open>The last conflict that is found is the one that is reported.\<close>

definition query_conflict ::
    "string \<Rightarrow> string option \<Rightarrow> explorer_query \<Rightarrow> query_state \<Rightarrow> memory_index list \<Rightarrow> string option \<Rightarrow> svc_db \<Rightarrow>
     string option" where
  "query_conflict pid app q st items earlier db =
     (if qs_changed st \<or> \<not> list_all (is_hydrated st) (take (logical_end q) items) then Some ORDER_CHANGED
      else if \<not> list_all (\<lambda>(i, s, d). snapshot_holds pid app db (i, s)) (qs_hydrated st) then Some HYDRATION_CHANGED
      else earlier)"

definition query_response :: "explorer_query \<Rightarrow> query_state \<Rightarrow> memory_page \<Rightarrow> nat \<Rightarrow> json dict" where
  "query_response q st page stale_marked =
     (let ordered = List.map_filter (\<lambda>x. map_option snd (dget (qs_hydrated st) (mi_mem0_memory_id x))) (mp_items page) in
      [(''results'', JList (map JObj (drop (logical_offset q) (take (logical_end q) ordered)))),
       (''total'', JInt (int (mp_total page))), (''page'', JInt (eq_page q)), (''page_size'', JInt (eq_page_size q)),
       (''scan_count'', JInt (int (mp_scan_count page))), (''stale_skipped'', JInt (int stale_marked))])"

definition conflict_error :: "bool \<Rightarrow> string \<Rightarrow> exn" where
  "conflict_error forced message =
     (if forced then Exn MutationConflict message else Exn (OtherError ''MemoryProjectionConflictError'') message)"

text \<open>
  The end of a query, one transaction: a conflict is written to the event and committed with the
  rows that were marked stale.
\<close>

definition finalize_query ::
    "service_env \<Rightarrow> string \<Rightarrow> string option \<Rightarrow> explorer_query \<Rightarrow> string \<Rightarrow> query_state \<Rightarrow> string option \<Rightarrow> moment \<Rightarrow>
     json dict res txn" where
  "finalize_query env pid app q eid st forced m =
     tx_then (svc_lock pid)
     (tx_bind (settle_stale pid app st m) (\<lambda>(marked, stale_conflict).
      tx_bind (tx_query (candidate_page pid app q (qs_window st))) (\<lambda>page.
      tx_bind (tx_query (\<lambda>db. Inr (query_conflict pid app q st (mp_items page)
          (if stale_conflict = None then forced else stale_conflict) db))) (\<lambda>conflict.
        case conflict of
          Some message \<Rightarrow>
            let e = conflict_error (forced \<noteq> None) message in
            tx_then (svc_event_failed env m eid (error_payload env (Threw e))) (tx_return (Inl e))
        | None \<Rightarrow>
            let r = query_response q st page marked in
            tx_then (svc_event_succeeded env m eid r) (tx_return (Inr r))))))"

text \<open>
  What a round does with the candidates it sees: it ends the query, widens the window, or reads
  the records of the next batch.
\<close>

datatype query_decision = Finish "string option" | Widen | Fetch "memory_index list"

definition query_decision :: "explorer_query \<Rightarrow> query_state \<Rightarrow> memory_page \<Rightarrow> query_decision" where
  "query_decision q st page =
     (let items = mp_items page;
         stale = (\<lambda>x. dget (qs_stale st) (mi_mem0_memory_id x) \<noteq> None);
         hydrated = (\<lambda>x. dget (qs_hydrated st) (mi_mem0_memory_id x) \<noteq> None);
         logical = filter (\<lambda>x. \<not> stale x) items;
         unseen = filter (\<lambda>x. mi_mem0_memory_id x \<notin> set (qs_fetched st)) items
      in if (length logical \<ge> logical_end q \<and> list_all hydrated (take (logical_end q) logical))
            \<or> (mp_total page \<le> length items \<and> list_all (\<lambda>x. hydrated x \<or> stale x) items)
         then Finish None
         else if length (qs_fetched st) \<ge> HORIZON then Finish (Some HORIZON_REACHED)
         else if unseen = [] then (if qs_window st \<ge> HORIZON then Finish (Some HORIZON_REACHED) else Widen)
         else Fetch (take (min (batch_size q) (HORIZON - length (qs_fetched st))) unseen))"

datatype query_next = Answer "json dict res" | Again query_state

definition query_step ::
    "service_env \<Rightarrow> string \<Rightarrow> string option \<Rightarrow> explorer_query \<Rightarrow> string \<Rightarrow> query_state \<Rightarrow> query_next act" where
  "query_step env pid app q eid st0 =
     act_bind (inspect (candidate_page pid app q (qs_window st0))) (\<lambda>page.
     let st = foldl observe st0 (mp_items page) in
     case query_decision q st page of
       Finish forced \<Rightarrow>
         act_bind (transact env (finalize_query env pid app q eid st forced)) (\<lambda>r. act_return (Answer r))
     | Widen \<Rightarrow> act_return (Again (st\<lparr>qs_window := min (qs_window st + batch_size q) HORIZON\<rparr>))
     | Fetch batch \<Rightarrow>
         act_bind (hydrate_batch env batch) (\<lambda>found.
           act_return (Again (foldl note_hydrated
             (st\<lparr>qs_fetched := qs_fetched st @ dedup (map mi_mem0_memory_id batch)\<rparr>) found))))"

text \<open>
  Every round fetches a record it has not fetched before or widens the window, and both are
  bounded by the horizon, so the loop ends.
\<close>

definition query_measure :: "query_state \<Rightarrow> nat" where
  "query_measure st = (HORIZON - length (qs_fetched st)) + (HORIZON - qs_window st)"

lemma act_bind_Inr_iff:
  "act_bind m f w = (Inr x, w') \<longleftrightarrow> (\<exists>y w1. m w = (Inr y, w1) \<and> f y w1 = (Inr x, w'))"
  by (auto simp: act_bind_def split: prod.splits sum.splits)

lemma act_return_iff: "act_return x w = (Inr y, w') \<longleftrightarrow> x = y \<and> w = w'"
  by (auto simp: act_return_def)

lemma inspect_Inr_iff: "inspect q w = (Inr x, w') \<longleftrightarrow> q (w_db w) = Inr x \<and> w' = w"
  by (auto simp: inspect_def split: sum.splits)

lemma observe_frame [simp]:
  "qs_fetched (foldl observe st xs) = qs_fetched st" "qs_window (foldl observe st xs) = qs_window st"
  "qs_hydrated (foldl observe st xs) = qs_hydrated st" "qs_stale (foldl observe st xs) = qs_stale st"
  by (induction xs arbitrary: st) (auto simp: observe_def Let_def split: option.splits)

lemma note_hydrated_frame [simp]:
  "qs_fetched (foldl note_hydrated st xs) = qs_fetched st" "qs_window (foldl note_hydrated st xs) = qs_window st"
  by (induction xs arbitrary: st) (auto simp: note_hydrated_def Let_def split: option.splits)

lemma batch_size_pos: "0 < batch_size q"
  by (simp add: batch_size_def HYDRATION_BUFFER_def HORIZON_def EXPLORER_RECORD_HORIZON_def)

lemma dedup_Nil_iff: "dedup xs = [] \<longleftrightarrow> xs = []"
  by (metis list.set_intros(1) neq_Nil_conv set_dedup empty_iff empty_set)

lemma query_decision_progress:
  "query_decision q st page = Widen \<Longrightarrow> qs_window st < HORIZON"
  "query_decision q st page = Fetch batch \<Longrightarrow> length (qs_fetched st) < HORIZON \<and> batch \<noteq> []"
  using batch_size_pos [of q] by (auto simp: query_decision_def Let_def split: if_splits)

lemma query_step_decreases:
  assumes "query_step env pid app q eid st w = (Inr (Again st'), w')"
  shows "query_measure st' < query_measure st"
proof -
  obtain page where step: "(let s = foldl observe st (mp_items page) in
     case query_decision q s page of
       Finish forced \<Rightarrow>
         act_bind (transact env (finalize_query env pid app q eid s forced)) (\<lambda>r. act_return (Answer r))
     | Widen \<Rightarrow> act_return (Again (s\<lparr>qs_window := min (qs_window s + batch_size q) HORIZON\<rparr>))
     | Fetch batch \<Rightarrow>
         act_bind (hydrate_batch env batch) (\<lambda>found.
           act_return (Again (foldl note_hydrated
             (s\<lparr>qs_fetched := qs_fetched s @ dedup (map mi_mem0_memory_id batch)\<rparr>) found)))) w
     = (Inr (Again st'), w')"
    using assms unfolding query_step_def by (auto simp: act_bind_Inr_iff inspect_Inr_iff)
  let ?s = "foldl observe st (mp_items page)"
  show ?thesis
  proof (cases "query_decision q ?s page")
    case (Finish forced)
    with step show ?thesis by (auto simp: Let_def act_bind_Inr_iff act_return_iff)
  next
    case Widen
    with step query_decision_progress(1) [OF Widen] batch_size_pos [of q] show ?thesis
      by (auto simp: Let_def act_return_iff query_measure_def min_def)
  next
    case (Fetch batch)
    then obtain i rest where ids: "dedup (map mi_mem0_memory_id batch) = i # rest"
      using query_decision_progress(2) [OF Fetch] by (cases "dedup (map mi_mem0_memory_id batch)") (auto simp: dedup_Nil_iff)
    from Fetch step have "query_measure st' = (HORIZON - (length (qs_fetched st) + Suc (length rest))) + (HORIZON - qs_window st)"
      by (auto simp: Let_def act_bind_Inr_iff act_return_iff query_measure_def ids)
    moreover have "length (qs_fetched st) < HORIZON" using query_decision_progress(2) [OF Fetch] by simp
    ultimately show ?thesis unfolding query_measure_def by arith
  qed
qed

function query_loop ::
    "service_env \<Rightarrow> string \<Rightarrow> string option \<Rightarrow> explorer_query \<Rightarrow> string \<Rightarrow> query_state \<Rightarrow> world \<Rightarrow>
     (json dict res) result \<times> world" where
  "query_loop env pid app q eid st w =
     (case query_step env pid app q eid st w of
        (Inl e, w') \<Rightarrow> (Inl e, w')
      | (Inr (Answer r), w') \<Rightarrow> (Inr r, w')
      | (Inr (Again st'), w') \<Rightarrow> query_loop env pid app q eid st' w')"
  by pat_completeness auto
termination
  by (relation "measure (\<lambda>(env, pid, app, q, eid, st, w). query_measure st)") (auto dest: query_step_decreases [OF sym])

declare query_loop.simps [simp del]

definition query_memories ::
    "service_env \<Rightarrow> string \<Rightarrow> string option \<Rightarrow> bool \<Rightarrow> explorer_query \<Rightarrow> json dict act" where
  "query_memories env pid app project_wide q =
     act_bind (act_res (if project_wide then
         raise_if (app \<noteq> None) (Exn ValueError ''app_id cannot be combined with project_wide'')
       else raise_if (app = None) (Exn ValueError ''app_id is required unless project_wide is enabled''))) (\<lambda>_.
     act_bind (open_trace env pid (query_event_args env app project_wide q)) (\<lambda>eid.
     act_bind (act_catch (query_loop env pid app q eid (query_start q)) (trace_failure env (Some eid))) (\<lambda>r.
       act_res r)))"

end
