(* ===== verification/Memory_Sync.thy ===== *)
theory Memory_Sync
  imports Memory_Service
begin

text \<open>
  Bringing the index in line with the upstream service (\<open>MemoryService.mirror_direct_writes\<close> and
  \<open>MemoryService.reconcile_memories\<close> in \<open>core/memory_ops.py\<close>).  Both list the records of the
  service once, write those of their scope to the index in batches, and then sweep the index:
  rows that the listing does not name and that have not changed since it was asked for are marked
  stale, page by page, unless the listing may have been cut short.
\<close>

section \<open>The listing\<close>

definition RECONCILE_SCAN_LIMIT :: nat where "RECONCILE_SCAN_LIMIT = 5000"
definition SYNC_BATCH :: nat where "SYNC_BATCH = 200"

definition ask_listing :: "service_env \<Rightarrow> nat \<Rightarrow> json act" where
  "ask_listing env limit =
     act_catch (ask env (List_Memories [(''top_k'', JInt (int limit)), (''show_expired'', JBool True)]))
       (\<lambda>e. if is_value_error e
          then act_raise ProtocolError ''Upstream memory list response could not be decoded'' else act_fail e)"

text \<open>The records of a listing and the total it announces.\<close>

definition read_listing :: "nat \<Rightarrow> json \<Rightarrow> (json list \<times> int option) res" where
  "read_listing limit response =
     rbind (bounded_list_results response limit) (\<lambda>records.
       case dget (jobject response) ''total'' of
         None \<Rightarrow> Inr (records, None)
       | Some (JInt t) \<Rightarrow>
           if t < int (length records) then raise ProtocolError ''Upstream list response total is invalid''
           else Inr (records, Some t)
       | Some _ \<Rightarrow> raise ProtocolError ''Upstream list response total is invalid'')"

definition total_exceeds :: "int option \<Rightarrow> nat \<Rightarrow> bool" where
  "total_exceeds announced n = (case announced of Some t \<Rightarrow> t > int n | None \<Rightarrow> False)"

text \<open>Each record as it came and normalised; one that is malformed fails the whole listing.\<close>

fun checked_records :: "service_env \<Rightarrow> nat \<Rightarrow> json list \<Rightarrow> (json dict \<times> json dict) list res" where
  "checked_records env n [] = Inr []"
| "checked_records env n (v # vs) =
     (case v of
        JObj d \<Rightarrow>
          (case normalize_memory_record (se_isoformat env) d None of
             Inl e \<Rightarrow>
               if exn_class e \<in> {ProtocolError, TypeError, ValueError}
               then raise ProtocolError (''Upstream memory record '' @ nat_str n @ '' is malformed'') else Inl e
           | Inr r \<Rightarrow> rbind (checked_records env (Suc n) vs) (\<lambda>rs. Inr ((d, r) # rs)))
      | _ \<Rightarrow> raise ProtocolError (''Upstream memory record '' @ nat_str n @ '' must be an object''))"

definition record_id :: "json dict \<Rightarrow> string" where
  "record_id r = (case jget r ''id'' of JStr s \<Rightarrow> s | _ \<Rightarrow> [])"

fun act_each :: "('x \<Rightarrow> 'a act) \<Rightarrow> 'x list \<Rightarrow> 'a list act" where
  "act_each f [] = act_return []"
| "act_each f (x # xs) = act_bind (f x) (\<lambda>y. act_bind (act_each f xs) (\<lambda>ys. act_return (y # ys)))"

section \<open>Equality of documents\<close>

text \<open>
  Python's \<open>==\<close> on documents: numbers and truth values compare by value, objects without regard to
  the order of their members.
\<close>

definition same_number :: "pyfloat option \<Rightarrow> pyfloat option \<Rightarrow> bool" where
  "same_number x y = (x = y \<and> x \<noteq> None \<and> x \<noteq> Some NaN)"

definition number_of_json :: "json \<Rightarrow> pyfloat option" where
  "number_of_json v = (case v of JBool b \<Rightarrow> Some (Fin (if b then 1 else 0)) | JInt n \<Rightarrow> Some (Fin (of_int n))
     | JFloat x \<Rightarrow> Some x | _ \<Rightarrow> None)"

lemma size_zip: "(a, b) \<in> set (zip xs ys) \<Longrightarrow> size a \<le> size_list size xs"
  by (auto dest!: set_zip_leftD intro: size_list_estimation')

lemma size_member: "(k, v) \<in> set d \<Longrightarrow> size v \<le> size_list (size_prod (\<lambda>_. 0) size) d"
  by (rule order_trans [OF _ size_list_estimation' [OF _ order_refl]]) auto

function py_equal :: "json \<Rightarrow> json \<Rightarrow> bool" where
  "py_equal (JStr s) b = (b = JStr s)"
| "py_equal JNull b = (b = JNull)"
| "py_equal (JList xs) b =
     (case b of
        JList ys \<Rightarrow> length xs = length ys \<and> list_all (\<lambda>(x, y). py_equal x y) (zip xs ys)
      | _ \<Rightarrow> False)"
| "py_equal (JObj d) b =
     (case b of
        JObj e \<Rightarrow> length d = length e
          \<and> list_all (\<lambda>(k, v). case dget e k of None \<Rightarrow> False | Some w \<Rightarrow> py_equal v w) d
      | _ \<Rightarrow> False)"
| "py_equal (JBool x) b = same_number (number_of_json (JBool x)) (number_of_json b)"
| "py_equal (JInt x) b = same_number (number_of_json (JInt x)) (number_of_json b)"
| "py_equal (JFloat x) b = same_number (number_of_json (JFloat x)) (number_of_json b)"
  by pat_completeness auto
termination
  by (relation "measure (\<lambda>(a, b). size a)")
    (auto intro: size_zip size_member simp: less_Suc_eq_le)

section \<open>Mirroring direct writes\<close>

text \<open>The records of the project that have a valid scope, and those that are merely kept.\<close>

record mirror_plan =
  mp_records :: "(json dict \<times> string) list"
  mp_kept :: "string list"
  mp_foreign :: nat
  mp_invalid :: nat

definition owner_ids :: "json dict \<Rightarrow> json dict res" where
  "owner_ids r =
     rbind (rmap (\<lambda>f. rbind (validate_scope_id (jget r f) f False) (\<lambda>v. Inr (f, opt_json v)))
       [''user_id'', ''agent_id'', ''run_id'']) (\<lambda>owners. Inr (dupdate r owners))"

definition keep_invalid :: "mirror_plan \<Rightarrow> json dict \<Rightarrow> mirror_plan" where
  "keep_invalid p r = p\<lparr>mp_invalid := mp_invalid p + 1, mp_kept := mp_kept p @ [record_id r]\<rparr>"

fun classify_records ::
    "string \<Rightarrow> string \<Rightarrow> mirror_plan \<Rightarrow> (json dict \<times> json dict) list \<Rightarrow> mirror_plan res" where
  "classify_records pid default_app p [] = Inr p"
| "classify_records pid default_app p ((d, r) # rest) =
     rbind (direct_write_app_scope d pid default_app) (\<lambda>status.
       case status of
         Foreign \<Rightarrow> classify_records pid default_app (p\<lparr>mp_foreign := mp_foreign p + 1\<rparr>) rest
       | Invalid \<Rightarrow> classify_records pid default_app (keep_invalid p r) rest
       | Accepted app \<Rightarrow>
           (case owner_ids r of
              Inl _ \<Rightarrow> classify_records pid default_app (keep_invalid p r) rest
            | Inr r' \<Rightarrow> classify_records pid default_app (p\<lparr>mp_records := mp_records p @ [(r', app)]\<rparr>) rest))"

text \<open>The row already says what the record says.\<close>

definition direct_write_projection_matches ::
    "service_env \<Rightarrow> time \<Rightarrow> memory_index \<Rightarrow> json dict \<Rightarrow> string \<Rightarrow> bool res" where
  "direct_write_projection_matches env now x r app =
     (if \<not> live x then Inr False
      else case mi_metadata_projection_json x of
        Some (JObj metadata) \<Rightarrow>
          rbind (memory_projection_fields (se_sha256 env) (se_fromiso env) r now) (\<lambda>p.
            Inr (mi_expires_at x = pj_expires_at p
              \<and> opt_json (mi_user_id x) = jget r ''user_id'' \<and> opt_json (mi_agent_id x) = jget r ''agent_id''
              \<and> mi_app_id x = Some app \<and> opt_json (mi_run_id x) = jget r ''run_id''
              \<and> mi_category x = first_category r
              \<and> py_equal (JObj metadata) (JObj (public_memory_metadata (jobject (jget r ''metadata''))))
              \<and> mi_content_hash x = pj_content_hash p \<and> mi_content_length x = pj_content_length p
              \<and> mi_normalized_type x = pj_normalized_type p \<and> mi_source x = pj_source p
              \<and> (mi_pinned x \<noteq> 0) = pj_pinned p
              \<and> (mi_scope_markers_verified x \<noteq> 0) = pj_scope_markers_verified p))
      | _ \<Rightarrow> Inr False)"

datatype mirrored = Created | Updated | Unchanged

text \<open>A row that changed after the listing was asked for is left alone.\<close>

definition svc_mirror :: "moment \<Rightarrow> string \<Rightarrow> string \<Rightarrow> projection \<Rightarrow> memory_index txn" where
  "svc_mirror m pid mid p = tx_memories (upsert_memory (mo_id m (Memory_Row mid)) (mo_now m) pid mid p True)"

definition mirror_record ::
    "service_env \<Rightarrow> moment \<Rightarrow> time \<Rightarrow> string \<Rightarrow> json dict \<times> string \<Rightarrow> (mirrored \<times> projection_snapshot list) txn" where
  "mirror_record env m cutoff pid entry =
     (let r = fst entry; app = snd entry; mid = record_id r in
      tx_bind (svc_find_memory pid mid None True) (\<lambda>existing.
      tx_bind (tx_res (case existing of
          None \<Rightarrow> Inr False
        | Some x \<Rightarrow> if mi_updated_at x > cutoff then Inr True
            else direct_write_projection_matches env (mo_now m) x r app)) (\<lambda>written.
        if written then tx_return (Unchanged, [])
        else
          tx_bind (tx_res (record_projection env cutoff r app (first_category r)
              (public_memory_metadata (jobject (jget r ''metadata''))))) (\<lambda>p.
          tx_bind (svc_mirror m pid mid p) (\<lambda>row.
            tx_return (if existing = None then Created else Updated,
              (case existing of None \<Rightarrow> [] | Some x \<Rightarrow> [snapshot_memory_projection x])
                @ [snapshot_memory_projection row]))))))"

definition mirror_batch ::
    "service_env \<Rightarrow> string \<Rightarrow> time \<Rightarrow> (json dict \<times> string) list \<Rightarrow> moment \<Rightarrow> mirrored list txn" where
  "mirror_batch env pid cutoff batch m =
     tx_then (svc_lock pid)
     (tx_bind (tx_each (mirror_record env m cutoff pid) batch) (\<lambda>written.
      tx_then (svc_refresh_affected_projections m pid (concat (map snd written)))
        (tx_return (map fst written))))"

section \<open>Sweeping\<close>

text \<open>
  What a sweep is about: the scope, the time the listing was asked for, the identifiers that are
  still there, and, for a reconciliation, the intent that must still be held.
\<close>

record sweep =
  sw_project_id :: string
  sw_app_id :: "string option"
  sw_cutoff :: time
  sw_accepted :: "string list"
  sw_attempt :: "(string \<times> int) option"

definition sweep_fence :: "sweep \<Rightarrow> unit txn" where
  "sweep_fence sw =
     (case sw_attempt sw of
        None \<Rightarrow> tx_return ()
      | Some a \<Rightarrow> tx_then (svc_require (fst a) (snd a) None) (tx_return ()))"

definition sweep_renew :: "moment \<Rightarrow> sweep \<Rightarrow> unit txn" where
  "sweep_renew m sw =
     (case sw_attempt sw of
        None \<Rightarrow> tx_return ()
      | Some a \<Rightarrow> tx_then (tx_intents (renew_active_attempt (mo_now m) (fst a) (snd a))) (tx_return ()))"

definition sweep_refresh :: "moment \<Rightarrow> sweep \<Rightarrow> projection_snapshot list \<Rightarrow> unit txn" where
  "sweep_refresh m sw snapshots =
     (case sw_app_id sw of
        None \<Rightarrow> svc_refresh_affected_projections m (sw_project_id sw) snapshots
      | Some app \<Rightarrow> svc_refresh m (sw_project_id sw) app snapshots)"

definition sweep_candidates :: "sweep \<Rightarrow> memory_key option \<Rightarrow> memory_index list \<Rightarrow> memory_index list res" where
  "sweep_candidates sw after rows =
     list_reconcile_stale_candidates (sw_project_id sw) (sw_app_id sw) (sw_cutoff sw)
       (map_option fst after) (map_option snd after) 200 rows"

definition svc_mark_unlisted :: "moment \<Rightarrow> sweep \<Rightarrow> memory_index list \<Rightarrow> nat txn" where
  "svc_mark_unlisted m sw stale db =
     (case mark_stale_if_unchanged (mo_now m) (sw_project_id sw) (sw_app_id sw) (map mi_mem0_memory_id stale) (sw_cutoff sw)
         (Some (map (\<lambda>x. (mi_mem0_memory_id x, mi_updated_at x)) stale)) (sd_memories db) of
        Inl e \<Rightarrow> Inl e
      | Inr (n, rows) \<Rightarrow> Inr (n, db\<lparr>sd_memories := rows\<rparr>))"

text \<open>One page, one transaction; \<open>None\<close> when there are no more rows.\<close>

definition sweep_page :: "sweep \<Rightarrow> memory_key option \<Rightarrow> moment \<Rightarrow> (nat \<times> memory_key) option txn" where
  "sweep_page sw after m =
     tx_then (svc_lock (sw_project_id sw))
     (tx_then (sweep_fence sw)
     (tx_bind (tx_query (\<lambda>db. sweep_candidates sw after (sd_memories db))) (\<lambda>candidates.
        if candidates = [] then tx_return None
        else
          let stale = filter (\<lambda>x. mi_mem0_memory_id x \<notin> set (sw_accepted sw)) candidates in
          tx_bind (svc_mark_unlisted m sw stale) (\<lambda>n.
          tx_then (sweep_refresh m sw (map snapshot_memory_projection stale))
          (tx_then (sweep_renew m sw) (tx_return (Some (n, memory_key (last candidates)))))))))"

text \<open>The rows keep their keys, so a cursor only moves forward.\<close>

definition keys_kept :: "'a txn \<Rightarrow> bool" where
  "keys_kept t = (\<forall>db x db'. t db = Inr (x, db') \<longrightarrow>
     map memory_key (sd_memories db') = map memory_key (sd_memories db))"

lemma keys_keptD: "keys_kept t \<Longrightarrow> t db = Inr (x, db') \<Longrightarrow> map memory_key (sd_memories db') = map memory_key (sd_memories db)"
  unfolding keys_kept_def by blast

lemma tx_bind_Inr_iff: "tx_bind t f db = Inr (x, db') \<longleftrightarrow> (\<exists>y db1. t db = Inr (y, db1) \<and> f y db1 = Inr (x, db'))"
  by (auto simp: tx_bind_def split: sum.splits prod.splits)

lemma tx_then_Inr_iff: "tx_then t u db = Inr (x, db') \<longleftrightarrow> (\<exists>y db1. t db = Inr (y, db1) \<and> u db1 = Inr (x, db'))"
  by (auto simp: tx_then_def tx_bind_Inr_iff)

lemma tx_query_Inr_iff: "tx_query q db = Inr (x, db') \<longleftrightarrow> q db = Inr x \<and> db' = db"
  by (auto simp: tx_query_def split: sum.splits)

lemma tx_return_Inr_iff: "tx_return x db = Inr (y, db') \<longleftrightarrow> x = y \<and> db' = db"
  by (auto simp: tx_return_def)

lemmas tx_iffs = tx_bind_Inr_iff tx_then_Inr_iff tx_query_Inr_iff tx_return_Inr_iff

text \<open>Transactions that do not touch the index.\<close>

definition index_kept :: "'a txn \<Rightarrow> bool" where
  "index_kept t = (\<forall>db x db'. t db = Inr (x, db') \<longrightarrow> sd_memories db' = sd_memories db)"

lemma index_keptD: "index_kept t \<Longrightarrow> t db = Inr (x, db') \<Longrightarrow> sd_memories db' = sd_memories db"
  unfolding index_kept_def by blast

named_theorems frames \<open>transactions that do not touch the index\<close>

lemma index_kept_basic [frames]:
  "index_kept (tx_return x)" "index_kept (tx_raise c s)" "index_kept (tx_query q)" "index_kept (tx_res r)"
  "index_kept (tx_intents f)" "index_kept (tx_events g)" "index_kept (tx_entities h)"
  by (auto simp: index_kept_def tx_return_def tx_raise_def tx_query_def tx_res_def tx_intents_def tx_events_def
      tx_entities_def split: sum.splits)

lemma index_kept_bind [frames]: "index_kept t \<Longrightarrow> (\<And>x. index_kept (f x)) \<Longrightarrow> index_kept (tx_bind t f)"
  unfolding index_kept_def tx_bind_Inr_iff by metis

lemma index_kept_then [frames]: "index_kept t \<Longrightarrow> index_kept u \<Longrightarrow> index_kept (tx_then t u)"
  by (simp add: tx_then_def index_kept_bind)

lemma index_kept_each [frames]: "(\<And>x. index_kept (f x)) \<Longrightarrow> index_kept (tx_each f xs)"
  by (induction xs) (auto intro!: frames)

lemma index_kept_option [frames]:
  "(x = None \<Longrightarrow> index_kept t) \<Longrightarrow> (\<And>y. x = Some y \<Longrightarrow> index_kept (f y)) \<Longrightarrow>
     index_kept (case x of None \<Rightarrow> t | Some y \<Rightarrow> f y)"
  by (cases x) simp_all

lemma index_kept_prod [frames]: "(\<And>a b. index_kept (f a b)) \<Longrightarrow> index_kept (case p of (a, b) \<Rightarrow> f a b)"
  by (cases p) simp

lemma index_kept_sweep [frames]:
  "index_kept (svc_lock pid)" "index_kept (svc_require iid n t)" "index_kept (svc_refresh m pid app ps)"
  "index_kept (svc_refresh_affected_projections m pid ps)"
  "index_kept (sweep_fence sw)" "index_kept (sweep_renew m sw)" "index_kept (sweep_refresh m sw ps)"
  unfolding svc_lock_def svc_require_def svc_refresh_def svc_refresh_affected_projections_def sweep_fence_def
    sweep_renew_def sweep_refresh_def
  by (intro frames)+

lemma mark_unlisted_rows:
  assumes "svc_mark_unlisted m sw stale db = Inr (n, db')"
  shows "mark_stale_if_unchanged (mo_now m) (sw_project_id sw) (sw_app_id sw) (map mi_mem0_memory_id stale) (sw_cutoff sw)
         (Some (map (\<lambda>x. (mi_mem0_memory_id x, mi_updated_at x)) stale)) (sd_memories db) = Inr (n, sd_memories db')"
  using assms by (auto simp: svc_mark_unlisted_def split: sum.splits)

lemma sweep_page_rows:
  assumes "sweep_page sw after m db = Inr (r, db')"
  obtains candidates where "sweep_candidates sw after (sd_memories db) = Inr candidates"
    "candidates = [] \<Longrightarrow> r = None \<and> sd_memories db' = sd_memories db"
    "candidates \<noteq> [] \<Longrightarrow> \<exists>n. r = Some (n, memory_key (last candidates))
       \<and> mark_stale_if_unchanged (mo_now m) (sw_project_id sw) (sw_app_id sw)
            (map mi_mem0_memory_id (filter (\<lambda>x. mi_mem0_memory_id x \<notin> set (sw_accepted sw)) candidates)) (sw_cutoff sw)
            (Some (map (\<lambda>x. (mi_mem0_memory_id x, mi_updated_at x))
               (filter (\<lambda>x. mi_mem0_memory_id x \<notin> set (sw_accepted sw)) candidates)))
            (sd_memories db) = Inr (n, sd_memories db')"
proof -
  from assms obtain u v db1 db2 candidates where
      lock: "svc_lock (sw_project_id sw) db = Inr (u, db1)" and fence: "sweep_fence sw db1 = Inr (v, db2)"
      and cand: "sweep_candidates sw after (sd_memories db2) = Inr candidates"
      and rest: "(if candidates = [] then tx_return None
        else
          let stale = filter (\<lambda>x. mi_mem0_memory_id x \<notin> set (sw_accepted sw)) candidates in
          tx_bind (svc_mark_unlisted m sw stale) (\<lambda>n.
          tx_then (sweep_refresh m sw (map snapshot_memory_projection stale))
          (tx_then (sweep_renew m sw) (tx_return (Some (n, memory_key (last candidates))))))) db2 = Inr (r, db')"
    unfolding sweep_page_def tx_iffs by blast
  have same: "sd_memories db2 = sd_memories db"
    using index_keptD [OF index_kept_sweep(1) lock] index_keptD [OF index_kept_sweep(5) fence] by simp
  show thesis
  proof (rule that [of candidates])
    show "sweep_candidates sw after (sd_memories db) = Inr candidates" using cand same by simp
    show "r = None \<and> sd_memories db' = sd_memories db" if "candidates = []"
      using rest that same by (simp add: tx_return_Inr_iff)
    assume some: "candidates \<noteq> []"
    let ?stale = "filter (\<lambda>x. mi_mem0_memory_id x \<notin> set (sw_accepted sw)) candidates"
    from rest some obtain n db3 x db4 y where
        mark: "svc_mark_unlisted m sw ?stale db2 = Inr (n, db3)"
        and refresh: "sweep_refresh m sw (map snapshot_memory_projection ?stale) db3 = Inr (x, db4)"
        and renew: "sweep_renew m sw db4 = Inr (y, db')" and r: "r = Some (n, memory_key (last candidates))"
      unfolding Let_def if_not_P [OF some] tx_iffs by blast
    have "sd_memories db' = sd_memories db3"
      using index_keptD [OF index_kept_sweep(7) refresh] index_keptD [OF index_kept_sweep(6) renew] by simp
    with mark_unlisted_rows [OF mark] r same show "\<exists>n. r = Some (n, memory_key (last candidates))
       \<and> mark_stale_if_unchanged (mo_now m) (sw_project_id sw) (sw_app_id sw)
            (map mi_mem0_memory_id ?stale) (sw_cutoff sw)
            (Some (map (\<lambda>x. (mi_mem0_memory_id x, mi_updated_at x)) ?stale))
            (sd_memories db) = Inr (n, sd_memories db')"
      by simp
  qed
qed

lemma marked_rows_keys:
  assumes "mark_stale_if_unchanged now pid app ids lte ex rows = Inr (n, rows')"
  shows "map memory_key rows' = map memory_key rows"
  using assms by (auto simp: mark_stale_if_unchanged_def update_where_def memory_key_def Let_def split: list.splits)

definition rows_beyond :: "memory_key option \<Rightarrow> memory_index list \<Rightarrow> nat" where
  "rows_beyond after rows = length (filter (beyond id after) (map memory_key rows))"

lemma sweep_page_cursor:
  assumes "sweep_page sw after m db = Inr (Some (n, k), db')"
  shows "k \<in> memory_key ` set (sd_memories db)" "beyond id after k"
    "map memory_key (sd_memories db') = map memory_key (sd_memories db)"
proof -
  obtain candidates where cand: "sweep_candidates sw after (sd_memories db) = Inr candidates" and some: "candidates \<noteq> []"
    and k: "k = memory_key (last candidates)"
    and keys: "map memory_key (sd_memories db') = map memory_key (sd_memories db)"
    by (rule sweep_page_rows [OF assms]) (auto dest: marked_rows_keys)
  have "set candidates \<subseteq> {x \<in> set (sd_memories db). beyond memory_key after x}"
    using cand by (auto simp: sweep_candidates_def list_reconcile_stale_candidates_def dest: in_set_takeD split: if_splits)
  then show "k \<in> memory_key ` set (sd_memories db)" "beyond id after k"
    using last_in_set [OF some] unfolding k by (auto simp: beyond_def split: option.splits)
  show "map memory_key (sd_memories db') = map memory_key (sd_memories db)" by (rule keys)
qed

lemma beyond_trans: "beyond id after k \<Longrightarrow> k < key x \<Longrightarrow> beyond key after x"
  unfolding beyond_def by (cases after) (auto dest: less_trans)

lemma rows_beyond_less:
  assumes "k \<in> memory_key ` set rows" "beyond id after k"
  shows "rows_beyond (Some k) rows < rows_beyond after rows"
proof -
  have "filter (beyond id (Some k)) (map memory_key rows)
      = filter (beyond id (Some k)) (filter (beyond id after) (map memory_key rows))"
    unfolding filter_filter using beyond_trans [OF assms(2), of id] by (intro filter_cong) (auto simp: beyond_def)
  also have "length \<dots> < length (filter (beyond id after) (map memory_key rows))"
    by (rule length_filter_less [of k]) (use assms in \<open>auto simp: beyond_def\<close>)
  finally show ?thesis unfolding rows_beyond_def .
qed

lemma sweep_page_decreases:
  assumes "sweep_page sw after m db = Inr (Some (n, k), db')"
  shows "rows_beyond (Some k) (sd_memories db') < rows_beyond after (sd_memories db)"
  using rows_beyond_less [OF sweep_page_cursor(1,2) [OF assms]] sweep_page_cursor(3) [OF assms]
  unfolding rows_beyond_def by simp

function sweep_loop :: "service_env \<Rightarrow> sweep \<Rightarrow> memory_key option \<Rightarrow> world \<Rightarrow> nat result \<times> world" where
  "sweep_loop env sw after w =
     (case transact env (sweep_page sw after) w of
        (Inl e, w') \<Rightarrow> (Inl e, w')
      | (Inr None, w') \<Rightarrow> (Inr 0, w')
      | (Inr (Some (n, k)), w') \<Rightarrow>
          (case sweep_loop env sw (Some k) w' of
             (Inl e, w'') \<Rightarrow> (Inl e, w'')
           | (Inr marked, w'') \<Rightarrow> (Inr (n + marked), w'')))"
  by pat_completeness auto
termination
  by (relation "measure (\<lambda>(env, sw, after, w). rows_beyond after (sd_memories (w_db w)))")
    (auto simp: transact_def split: sum.splits prod.splits dest: sweep_page_decreases)

declare sweep_loop.simps [simp del]

section \<open>The mirror\<close>

definition mirror_limits :: "int \<Rightarrow> int \<Rightarrow> unit res" where
  "mirror_limits scan_limit legacy_cap =
     rbind (raise_if (scan_limit < 1 \<or> scan_limit > int RECONCILE_SCAN_LIMIT)
         (Exn ValueError ''scan_limit must be between 1 and 5000'')) (\<lambda>_.
       raise_if (legacy_cap < 0 \<or> legacy_cap > int RECONCILE_SCAN_LIMIT)
         (Exn ValueError ''legacy_cap must be between 0 and 5000''))"

text \<open>A listing that may have been cut short does not say what is gone.\<close>

definition mirror_truncated :: "nat \<Rightarrow> nat \<Rightarrow> int option \<Rightarrow> nat \<Rightarrow> bool" where
  "mirror_truncated limit cap announced n =
     (n \<ge> limit \<or> total_exceeds announced n \<or> announced = None \<and> 0 < cap \<and> cap < limit \<and> n = cap)"

definition mirror_result :: "nat \<Rightarrow> mirror_plan \<Rightarrow> mirrored list \<Rightarrow> nat \<Rightarrow> bool \<Rightarrow> json dict" where
  "mirror_result scanned p written stale truncated =
     [(''scanned'', JInt (int scanned)), (''indexed'', JInt (int (length written))),
      (''created'', JInt (int (count_where (\<lambda>x. x = Created) written))),
      (''updated'', JInt (int (count_where (\<lambda>x. x = Updated) written))),
      (''unchanged'', JInt (int (count_where (\<lambda>x. x = Unchanged) written))),
      (''skipped_foreign'', JInt (int (mp_foreign p))), (''skipped_invalid'', JInt (int (mp_invalid p))),
      (''stale_marked'', JInt (int stale)), (''truncated'', JBool truncated)]"

definition mirror_listing :: "service_env \<Rightarrow> string \<Rightarrow> string \<Rightarrow> nat \<Rightarrow> nat \<Rightarrow> time \<Rightarrow> json dict act" where
  "mirror_listing env pid default_app limit cap cutoff =
     act_bind (ask_listing env limit) (\<lambda>response.
     act_bind (act_res (read_listing limit response)) (\<lambda>(records, announced).
     act_bind (act_res (rbind (checked_records env 0 records) (classify_records pid default_app
         \<lparr>mp_records = [], mp_kept = [], mp_foreign = 0, mp_invalid = 0\<rparr>))) (\<lambda>p.
     act_bind (act_each (\<lambda>batch. transact env (mirror_batch env pid cutoff batch)) (chunks SYNC_BATCH (mp_records p))) (\<lambda>written.
     let truncated = mirror_truncated limit cap announced (length records);
         sw = \<lparr>sw_project_id = pid, sw_app_id = None, sw_cutoff = cutoff,
           sw_accepted = mp_kept p @ map (record_id \<circ> fst) (mp_records p), sw_attempt = None\<rparr>
     in act_bind (if truncated then act_return 0 else sweep_loop env sw None) (\<lambda>stale.
       act_return (mirror_result (length records) p (concat written) stale truncated))))))"

definition mirror_direct_writes ::
    "service_env \<Rightarrow> string \<Rightarrow> string \<Rightarrow> int \<Rightarrow> int \<Rightarrow> json dict act" where
  "mirror_direct_writes env project_id default_app scan_limit legacy_cap w =
     act_bind (act_res (rbind (require_id (validate_scope_id (JStr project_id) ''project_id'' True)) (\<lambda>pid.
         rbind (require_id (validate_scope_id (JStr default_app) ''app_id'' True)) (\<lambda>app.
         rbind (mirror_limits scan_limit legacy_cap) (\<lambda>_. Inr (pid, app)))))) (\<lambda>(pid, app).
       mirror_listing env pid app (nat scan_limit) (nat legacy_cap) (mo_now (moment_of env w))) w"

section \<open>Reconciliation\<close>

datatype reconciled = Indexed | Unscoped | Other_Scope

definition svc_claim :: "moment \<Rightarrow> string \<Rightarrow> string \<Rightarrow> string \<Rightarrow> projection \<Rightarrow> claim_result txn" where
  "svc_claim m pid mid app p db =
     (case claim_memory (mo_id m (Memory_Row mid)) (mo_now m) pid mid app p (sd_memories db) of
        Inl e \<Rightarrow> Inl e
      | Inr (r, rows) \<Rightarrow> Inr (r, db\<lparr>sd_memories := rows\<rparr>))"

definition is_text :: "json \<Rightarrow> bool" where
  "is_text v = (case v of JStr _ \<Rightarrow> True | _ \<Rightarrow> False)"

definition record_scope :: "string \<Rightarrow> string \<Rightarrow> bool \<Rightarrow> json dict \<Rightarrow> reconciled" where
  "record_scope pid app adopt r =
     (let metadata = jobject (jget r ''metadata'');
          p = jget metadata PROJECT_MARKER; a = jget metadata APP_MARKER
      in if \<not> is_text p \<and> \<not> is_text a then (if adopt then Indexed else Unscoped)
         else if p = JStr pid \<and> a = JStr app then Indexed else Other_Scope)"

definition is_unscoped :: "json dict \<Rightarrow> bool" where
  "is_unscoped r =
     (let metadata = jobject (jget r ''metadata'')
      in \<not> is_text (jget metadata PROJECT_MARKER) \<and> \<not> is_text (jget metadata APP_MARKER))"

text \<open>An unscoped record is claimed for the application, which another one may hold.\<close>

definition reconcile_record ::
    "service_env \<Rightarrow> moment \<Rightarrow> time \<Rightarrow> string \<Rightarrow> string \<Rightarrow> bool \<Rightarrow> json dict \<Rightarrow>
     ((string \<times> reconciled) \<times> projection_snapshot list) txn" where
  "reconcile_record env m cutoff pid app adopt r =
     (let mid = record_id r; scope = record_scope pid app adopt r in
      if scope \<noteq> Indexed then tx_return ((mid, scope), [])
      else
        tx_bind (svc_find_memory pid mid None True) (\<lambda>existing.
        if (case existing of None \<Rightarrow> False | Some x \<Rightarrow> mi_updated_at x > cutoff) then tx_return ((mid, Indexed), [])
        else
          let before = (case existing of None \<Rightarrow> [] | Some x \<Rightarrow> [snapshot_memory_projection x]) in
          tx_bind (tx_res (record_projection env cutoff r app (first_category r)
              (public_memory_metadata (jobject (jget r ''metadata''))))) (\<lambda>p.
          if is_unscoped r then
            tx_bind (svc_claim m pid mid app p) (\<lambda>claim.
              case claim of
                Conflict \<Rightarrow> tx_return ((mid, Other_Scope), [])
              | Claimed row \<Rightarrow> tx_return ((mid, Indexed), before @ [snapshot_memory_projection row]))
          else
            tx_bind (svc_upsert m pid mid p) (\<lambda>row.
              tx_return ((mid, Indexed), before @ [snapshot_memory_projection row])))))"

definition reconcile_batch ::
    "service_env \<Rightarrow> string \<Rightarrow> int \<Rightarrow> string \<Rightarrow> string \<Rightarrow> bool \<Rightarrow> time \<Rightarrow> json dict list \<Rightarrow> moment \<Rightarrow>
     (string \<times> reconciled) list txn" where
  "reconcile_batch env iid attempt pid app adopt cutoff batch m =
     svc_owned pid iid attempt None (\<lambda>_.
     tx_bind (tx_each (reconcile_record env m cutoff pid app adopt) batch) (\<lambda>written.
     tx_then (svc_refresh_affected_projections m pid (concat (map snd written)))
     (tx_then (tx_intents (renew_active_attempt (mo_now m) iid attempt)) (tx_return (map fst written)))))"

definition reconcile_result :: "nat \<Rightarrow> (string \<times> reconciled) list \<Rightarrow> nat \<Rightarrow> json dict" where
  "reconcile_result scanned written stale =
     [(''scanned'', JInt (int scanned)),
      (''indexed'', JInt (int (count_where (\<lambda>x. snd x = Indexed) written))),
      (''skipped_unscoped'', JInt (int (count_where (\<lambda>x. snd x = Unscoped) written))),
      (''skipped_other_scope'', JInt (int (count_where (\<lambda>x. snd x = Other_Scope) written))),
      (''stale_marked'', JInt (int stale))]"

definition finish_reconcile ::
    "service_env \<Rightarrow> string \<Rightarrow> int \<Rightarrow> string \<Rightarrow> json dict \<Rightarrow> moment \<Rightarrow> json dict txn" where
  "finish_reconcile env iid attempt pid r m =
     svc_owned pid iid attempt None (\<lambda>i.
     tx_then (svc_event_succeeded env m (int_event_id i) r)
     (tx_then (svc_complete env m pid iid r) (tx_return r)))"

definition reconcile_listing ::
    "service_env \<Rightarrow> string \<Rightarrow> int \<Rightarrow> string \<Rightarrow> string \<Rightarrow> bool \<Rightarrow> time \<Rightarrow> json dict act" where
  "reconcile_listing env iid attempt pid app adopt cutoff =
     act_bind (ask_listing env RECONCILE_SCAN_LIMIT) (\<lambda>response.
     act_bind (act_res (read_listing RECONCILE_SCAN_LIMIT response)) (\<lambda>(records, announced).
     act_bind (act_res (checked_records env 0 records)) (\<lambda>checked.
     act_bind (act_each (\<lambda>batch. transact env (reconcile_batch env iid attempt pid app adopt cutoff batch))
         (chunks SYNC_BATCH (map snd checked))) (\<lambda>batches.
     let written = concat batches;
         truncated = (length records \<ge> RECONCILE_SCAN_LIMIT \<or> total_exceeds announced (length records));
         sw = \<lparr>sw_project_id = pid, sw_app_id = Some app, sw_cutoff = cutoff,
           sw_accepted = map fst (filter (\<lambda>x. snd x = Indexed) written), sw_attempt = Some (iid, attempt)\<rparr>
     in act_bind (if truncated then act_return 0 else sweep_loop env sw None) (\<lambda>stale.
       transact env (finish_reconcile env iid attempt pid (reconcile_result (length records) written stale)))))))"

text \<open>Whatever goes wrong ends the intent and its event: nothing was sent that could be repeated.\<close>

definition record_marked_failure ::
    "service_env \<Rightarrow> string \<Rightarrow> string \<Rightarrow> int \<Rightarrow> failure \<Rightarrow> bool \<Rightarrow> moment \<Rightarrow> unit txn" where
  "record_marked_failure env pid iid attempt e unknown m =
     svc_owned pid iid attempt None (\<lambda>i.
       let err = (if is_exception e then error_payload env e
             else [(''message'', JStr ''Mutation interrupted; recovery required'')])
       in tx_then (if unknown then svc_mark_unresolved env m pid iid err else svc_fail env m pid iid err)
         (tx_then (svc_event_failed env m (int_event_id i) err) (tx_return ())))"

definition superseded :: "string \<Rightarrow> failure \<Rightarrow> 'a act" where
  "superseded message e = (if is_fence e then act_raise MutationConflict message else act_fail e)"

definition conclude_reconcile :: "service_env \<Rightarrow> string \<Rightarrow> string \<Rightarrow> int \<Rightarrow> failure \<Rightarrow> 'a act" where
  "conclude_reconcile env pid iid attempt e =
     act_then (try_transact env (record_marked_failure env pid iid attempt e False))
       (superseded ''Durable reconciliation attempt was superseded'' e)"

definition reconcile_event_args :: "string \<Rightarrow> bool \<Rightarrow> event_args" where
  "reconcile_event_args app adopt =
     \<lparr>ea_app_id = Some app, ea_user_id = None, ea_agent_id = None, ea_run_id = None,
      ea_operation = ''memory.reconcile'',
      ea_request = [(''app_id'', JStr app), (''adopt_unscoped'', JBool adopt)],
      ea_subject_type = Some ''memory'', ea_subject_id = None, ea_correlation_id = None,
      ea_allow_project_scope = False\<rparr>"

definition begin_reconcile :: "service_env \<Rightarrow> string \<Rightarrow> string \<Rightarrow> bool \<Rightarrow> moment \<Rightarrow> mutation_intent txn" where
  "begin_reconcile env pid app adopt m =
     tx_bind (svc_create_event env m pid (reconcile_event_args app adopt)) (\<lambda>e.
       svc_create_intent env m pid app (ev_id e) ''memory.reconcile'' [(''adopt_unscoped'', JBool adopt)] [] None)"

definition run_reconcile ::
    "service_env \<Rightarrow> string \<Rightarrow> int \<Rightarrow> string \<Rightarrow> string \<Rightarrow> bool \<Rightarrow> json dict act" where
  "run_reconcile env iid attempt pid app adopt w =
     act_catch (reconcile_listing env iid attempt pid app adopt (mo_now (moment_of env w)))
       (conclude_reconcile env pid iid attempt) w"

definition reconcile_memories ::
    "service_env \<Rightarrow> string \<Rightarrow> string \<Rightarrow> bool \<Rightarrow> bool \<Rightarrow> string \<Rightarrow> json dict act" where
  "reconcile_memories env pid app adopt allow_adopt default_project =
     act_bind (act_res (raise_if (adopt \<and> \<not> allow_adopt)
         (Exn ValueError ''Unscoped memory adoption is disabled at runtime''))) (\<lambda>_.
     act_bind (act_res (raise_if (adopt \<and> pid \<noteq> default_project)
         (Exn ValueError ''Unscoped memories may only be adopted by the default project''))) (\<lambda>_.
     act_then (recover_pending_mutations env pid app False)
     (act_bind (transact env (begin_reconcile env pid app adopt)) (\<lambda>i.
       run_reconcile env (int_id i) (int_attempt_count i) pid app adopt))))"

section \<open>A sweep is one update\<close>

definition unlisted :: "sweep \<Rightarrow> memory_index \<Rightarrow> bool" where
  "unlisted sw x =
     (mi_project_id x = sw_project_id sw \<and> live x \<and> mi_updated_at x \<le> sw_cutoff sw
      \<and> opt_is (sw_app_id sw) (mi_app_id x) \<and> mi_mem0_memory_id x \<notin> set (sw_accepted sw))"

definition gone :: "time \<Rightarrow> memory_index \<Rightarrow> memory_index" where
  "gone now x = x\<lparr>mi_deleted_at := Some now, mi_updated_at := now\<rparr>"

lemma gone_key [simp]: "memory_key (gone now x) = memory_key x"
  by (simp add: gone_def memory_key_def)

lemma unique_gone: "unique_memories (update_where q (gone now) rows) = unique_memories rows"
  by (simp add: unique_memories_def update_where_def gone_def comp_def if_distrib cong: if_cong)

lemma update_where_twice:
  assumes "\<And>x. x \<in> set rows \<Longrightarrow> p x \<Longrightarrow> \<not> q (f x)"
  shows "update_where q f (update_where p f rows) = update_where (\<lambda>x. p x \<or> q x) f rows"
  using assms by (auto simp: update_where_def)

lemma count_where_twice:
  assumes "\<And>x. x \<in> set rows \<Longrightarrow> p x \<Longrightarrow> \<not> q (f x)" "\<And>x. x \<in> set rows \<Longrightarrow> p x \<Longrightarrow> \<not> q x"
  shows "count_where p rows + count_where q (update_where p f rows) = count_where (\<lambda>x. p x \<or> q x) rows"
  using assms by (induction rows) (auto simp: count_where_def update_where_def)

lemma update_where_same: "(\<And>x. x \<in> set rows \<Longrightarrow> p x = q x) \<Longrightarrow> update_where p f rows = update_where q f rows"
  by (auto simp: update_where_def)

lemma count_where_same: "(\<And>x. x \<in> set rows \<Longrightarrow> p x = q x) \<Longrightarrow> count_where p rows = count_where q rows"
  unfolding count_where_def by (metis (no_types, lifting) filter_cong)

text \<open>The candidates of a page are the rows of the sweep up to the last of them.\<close>

lemma page_members:
  assumes "unique_memories rows" "sweep_candidates sw after rows = Inr candidates"
  defines "all_rows \<equiv> {x \<in> set rows. mi_project_id x = sw_project_id sw \<and> live x \<and> mi_updated_at x \<le> sw_cutoff sw
     \<and> opt_is (sw_app_id sw) (mi_app_id x) \<and> beyond memory_key after x}"
  shows "candidates = [] \<Longrightarrow> all_rows = {}"
    and "candidates \<noteq> [] \<Longrightarrow> set candidates = {x \<in> all_rows. memory_key x \<le> memory_key (last candidates)}"
proof -
  let ?q = "\<lambda>x. mi_project_id x = sw_project_id sw \<and> live x \<and> mi_updated_at x \<le> sw_cutoff sw
     \<and> opt_is (sw_app_id sw) (mi_app_id x) \<and> beyond memory_key after x"
  let ?L = "sort_key memory_key (filter ?q rows)"
  have cand: "candidates = take 200 ?L"
    using assms(2) by (simp add: sweep_candidates_def list_reconcile_stale_candidates_def split: if_splits)
  have all: "all_rows = set ?L" by (auto simp: all_rows_def)
  show "all_rows = {}" if "candidates = []" using that cand all by auto
  assume some: "candidates \<noteq> []"
  have strict: "sorted_wrt (\<lambda>x y. memory_key x < memory_key y) ?L"
    by (rule sorted_by_key [OF assms(1)]) (auto simp: memory_key_def)
  have split: "candidates @ drop 200 ?L = ?L" unfolding cand by simp
  obtain xs l where xs: "candidates = xs @ [l]" using some by (cases candidates rule: rev_cases) auto
  have "sorted_wrt (\<lambda>x y. memory_key x < memory_key y) (candidates @ drop 200 ?L)"
    unfolding split by (rule strict)
  then have early: "\<forall>x \<in> set candidates. memory_key x \<le> memory_key (last candidates)"
    and late: "\<forall>y \<in> set (drop 200 ?L). memory_key (last candidates) < memory_key y"
    unfolding xs by (auto simp: sorted_wrt_append intro: less_imp_le)
  have "set ?L = set candidates \<union> set (drop 200 ?L)" using split by (metis set_append)
  with early late show "set candidates = {x \<in> all_rows. memory_key x \<le> memory_key (last candidates)}"
    unfolding all by (auto dest: leD)
qed

lemma sweep_page_marks:
  assumes unique: "unique_memories (sd_memories db)" and page: "sweep_page sw after m db = Inr (r, db')"
  shows "case r of
      None \<Rightarrow> sd_memories db' = sd_memories db \<and> (\<forall>x \<in> set (sd_memories db). \<not> (unlisted sw x \<and> beyond memory_key after x))
    | Some (n, k) \<Rightarrow>
        (let hit = (\<lambda>x. unlisted sw x \<and> beyond memory_key after x \<and> memory_key x \<le> k) in
         sd_memories db' = update_where hit (gone (mo_now m)) (sd_memories db)
         \<and> n = count_where hit (sd_memories db))"
proof (rule sweep_page_rows [OF page])
  fix candidates :: "memory_index list"
  let ?stale = "filter (\<lambda>x. mi_mem0_memory_id x \<notin> set (sw_accepted sw)) candidates"
  let ?marked = "\<lambda>n. mark_stale_if_unchanged (mo_now m) (sw_project_id sw) (sw_app_id sw)
            (map mi_mem0_memory_id ?stale) (sw_cutoff sw)
            (Some (map (\<lambda>x. (mi_mem0_memory_id x, mi_updated_at x)) ?stale))
            (sd_memories db) = Inr (n, sd_memories db')"
  assume cand: "sweep_candidates sw after (sd_memories db) = Inr candidates"
    and empty: "candidates = [] \<Longrightarrow> r = None \<and> sd_memories db' = sd_memories db"
    and full: "candidates \<noteq> [] \<Longrightarrow> \<exists>n. r = Some (n, memory_key (last candidates)) \<and> ?marked n"
  note members = page_members [OF unique cand]
  show ?thesis
  proof (cases "candidates = []")
    case True
    with empty members(1) show ?thesis by (auto simp: unlisted_def)
  next
    case False
    with full obtain n where r: "r = Some (n, memory_key (last candidates))" and mark: "?marked n" by blast
    let ?hit = "\<lambda>x. unlisted sw x \<and> beyond memory_key after x \<and> memory_key x \<le> memory_key (last candidates)"
    let ?old = "\<lambda>x. mi_project_id x = sw_project_id sw \<and> mi_mem0_memory_id x \<in> set (map mi_mem0_memory_id ?stale) \<and> live x
        \<and> mi_updated_at x \<le> sw_cutoff sw \<and> opt_is (sw_app_id sw) (mi_app_id x)
        \<and> dget (map (\<lambda>x. (mi_mem0_memory_id x, mi_updated_at x)) ?stale) (mi_mem0_memory_id x) = Some (mi_updated_at x)"
    have stale: "x \<in> set ?stale \<longleftrightarrow> x \<in> set (sd_memories db) \<and> ?hit x" for x
      using members(2) [OF False] by (auto simp: unlisted_def)
    have same: "x = y" if "x \<in> set (sd_memories db)" "y \<in> set ?stale" "mi_project_id x = sw_project_id sw"
        "mi_mem0_memory_id x = mi_mem0_memory_id y" for x y
      using that stale [of y] by (intro unique_memories_eq [OF unique]) (auto simp: unlisted_def)
    have old: "?old x = ?hit x" if x: "x \<in> set (sd_memories db)" for x
    proof
      assume o: "?old x"
      then obtain y where y: "y \<in> set ?stale" "mi_mem0_memory_id x = mi_mem0_memory_id y" by auto
      with same [OF x y(1)] o have "x = y" by blast
      with y stale show "?hit x" by blast
    next
      assume h: "?hit x"
      then have s: "x \<in> set ?stale" using x stale by blast
      have d: "dget (map (\<lambda>x. (mi_mem0_memory_id x, mi_updated_at x)) ys) (mi_mem0_memory_id x) = Some (mi_updated_at x)"
        if "x \<in> set ys" "\<And>y. y \<in> set ys \<Longrightarrow> mi_mem0_memory_id x = mi_mem0_memory_id y \<Longrightarrow> x = y" for ys
        using that by (induction ys) auto
      have "dget (map (\<lambda>x. (mi_mem0_memory_id x, mi_updated_at x)) ?stale) (mi_mem0_memory_id x) = Some (mi_updated_at x)"
        by (rule d [OF s]) (rule same [OF x], use h in \<open>auto simp: unlisted_def\<close>)
      with h s show "?old x" by (auto simp: unlisted_def)
    qed
    from mark have "n = count_where ?old (sd_memories db)"
        "sd_memories db' = update_where ?old (gone (mo_now m)) (sd_memories db)"
      by (auto simp: mark_stale_if_unchanged_def Let_def gone_def [abs_def] split: list.splits)
    then have "sd_memories db' = update_where ?hit (gone (mo_now m)) (sd_memories db) \<and> n = count_where ?hit (sd_memories db)"
      using update_where_same [of "sd_memories db" ?old ?hit] count_where_same [of "sd_memories db" ?old ?hit] old by simp
    then show ?thesis unfolding r option.case prod.case Let_def .
  qed
qed

lemma sweep_from:
  assumes "sweep_loop env sw after w = (r, w')" "unique_memories (sd_memories (w_db w))"
  shows "\<exists>q. sd_memories (w_db w')
        = update_where (\<lambda>x. unlisted sw x \<and> beyond memory_key after x \<and> q x) (gone (mo_now (moment_of env w))) (sd_memories (w_db w))
      \<and> (\<forall>n. r = Inr n \<longrightarrow> q = (\<lambda>_. True)
           \<and> n = count_where (\<lambda>x. unlisted sw x \<and> beyond memory_key after x) (sd_memories (w_db w)))"
  using assms
proof (induction env sw after w arbitrary: r w' rule: sweep_loop.induct)
  case (1 env sw after w)
  let ?rows = "sd_memories (w_db w)" and ?now = "mo_now (moment_of env w)"
  obtain t w1 where t: "transact env (sweep_page sw after) w = (t, w1)" by fastforce
  show ?case
  proof (cases t)
    case (Inl e)
    with t have "w1 = w" by (auto simp: transact_def split: sum.splits)
    with 1(2) t Inl have "r = Inl e" "w' = w" by (auto simp: sweep_loop.simps [of env sw after w])
    then show ?thesis by (intro exI [of _ "\<lambda>_. False"]) (simp add: update_where_def)
  next
    case (Inr opt)
    with t obtain db where page: "sweep_page sw after (moment_of env w) (w_db w) = Inr (opt, db)" and w1: "w1 = w\<lparr>w_db := db\<rparr>"
      by (auto simp: transact_def split: sum.splits)
    note marks = sweep_page_marks [OF 1(3) page]
    show ?thesis
    proof (cases opt)
      case None
      with 1(2) t Inr have end': "r = Inr 0" "w' = w1" by (auto simp: sweep_loop.simps [of env sw after w])
      have no: "\<not> (unlisted sw x \<and> beyond memory_key after x)" if "x \<in> set ?rows" for x
        using marks that by (simp add: None)
      have "update_where (\<lambda>x. unlisted sw x \<and> beyond memory_key after x \<and> True) (gone ?now) ?rows = ?rows"
        using no by (auto simp: update_where_def intro!: map_idI)
      moreover have "count_where (\<lambda>x. unlisted sw x \<and> beyond memory_key after x) ?rows = 0"
        using no by (auto simp: count_where_def filter_empty_conv)
      ultimately show ?thesis using marks end' w1 by (intro exI [of _ "\<lambda>_. True"]) (simp add: None)
    next
      case (Some p)
      obtain n k where p: "p = (n, k)" by (cases p)
      let ?hit = "\<lambda>x. unlisted sw x \<and> beyond memory_key after x \<and> memory_key x \<le> k"
      from marks have rows1: "sd_memories (w_db w1) = update_where ?hit (gone ?now) ?rows" and n: "n = count_where ?hit ?rows"
        by (simp_all add: Some p w1 Let_def)
      obtain t2 w2 where rest: "sweep_loop env sw (Some k) w1 = (t2, w2)" by fastforce
      have unique1: "unique_memories (sd_memories (w_db w1))" using 1(3) by (simp add: rows1 unique_gone)
      have later: "beyond memory_key after x" if "beyond memory_key (Some k) x" for x
        using beyond_trans [OF sweep_page_cursor(2) [OF page [unfolded Some p]], of memory_key x] that by (simp add: beyond_def)
      have now1: "mo_now (moment_of env w1) = ?now" by (simp add: w1 moment_of_def)
      from 1(1) [OF t [symmetric] Inr Some p [symmetric] rest unique1]
      obtain q where q: "sd_memories (w_db w2) = update_where (\<lambda>x. unlisted sw x \<and> beyond memory_key (Some k) x \<and> q x)
            (gone ?now) (sd_memories (w_db w1))"
          "\<forall>n. t2 = Inr n \<longrightarrow> q = (\<lambda>_. True)
             \<and> n = count_where (\<lambda>x. unlisted sw x \<and> beyond memory_key (Some k) x) (sd_memories (w_db w1))"
        unfolding now1 by (elim exE conjE) (rule that)
      have off: "\<not> (unlisted sw (gone ?now x) \<and> P x)" for x P by (simp add: unlisted_def gone_def live_def)
      have w': "w' = w2" and r: "r = (case t2 of Inl e \<Rightarrow> Inl e | Inr marked \<Rightarrow> Inr (n + marked))"
        using 1(2) t Inr Some p rest by (auto simp: sweep_loop.simps [of env sw after w] split: sum.splits)
      have both: "update_where (\<lambda>x. unlisted sw x \<and> beyond memory_key (Some k) x \<and> q x) (gone ?now)
            (update_where ?hit (gone ?now) ?rows)
          = update_where (\<lambda>x. ?hit x \<or> unlisted sw x \<and> beyond memory_key (Some k) x \<and> q x) (gone ?now) ?rows"
        by (rule update_where_twice) (use off in blast)
      have "sd_memories (w_db w') = update_where (\<lambda>x. unlisted sw x \<and> beyond memory_key after x \<and> (memory_key x \<le> k \<or> q x))
          (gone ?now) ?rows"
        unfolding w' q(1) rows1 both using later
        by (intro update_where_same) (auto simp: beyond_def not_le)
      moreover have "q = (\<lambda>_. True) \<Longrightarrow> (\<lambda>x. memory_key x \<le> k \<or> q x) = (\<lambda>_. True)" by simp
      moreover have "m = count_where (\<lambda>x. unlisted sw x \<and> beyond memory_key after x) ?rows" if "r = Inr m" for m
      proof -
        from that r obtain marked where marked: "t2 = Inr marked" "m = n + marked" by (cases t2) auto
        with q(2) rows1 have "marked = count_where (\<lambda>x. unlisted sw x \<and> beyond memory_key (Some k) x)
            (update_where ?hit (gone ?now) ?rows)" by simp
        then have "m = count_where (\<lambda>x. ?hit x \<or> unlisted sw x \<and> beyond memory_key (Some k) x) ?rows"
          using count_where_twice [of ?rows ?hit "\<lambda>x. unlisted sw x \<and> beyond memory_key (Some k) x" "gone ?now"]
          unfolding marked(2) n by (force simp: off beyond_def)
        also have "\<dots> = count_where (\<lambda>x. unlisted sw x \<and> beyond memory_key after x) ?rows"
          using later by (intro count_where_same) (auto simp: beyond_def not_le)
        finally show ?thesis .
      qed
      moreover have "q = (\<lambda>_. True)" if "r = Inr m" for m using that r q(2) by (cases t2) auto
      ultimately show ?thesis by (intro exI [of _ "\<lambda>x. memory_key x \<le> k \<or> q x"]) auto
    qed
  qed
qed

text \<open>
  C39: The sweep at the end of a mirror or a reconciliation, although it goes through the index in
  pages of 200 rows and a transaction each, has the effect of one update: it marks stale exactly
  the live rows of its scope that the listing does not name and that have not changed since the
  listing was asked for, each at the time of the sweep, and returns how many there were.  When it
  fails half way, only such rows have been touched.
\<close>

theorem sweep_marks_unlisted:
  assumes "unique_memories (sd_memories (w_db w))" "sweep_loop env sw None w = (r, w')"
  defines "doomed \<equiv> \<lambda>x. mi_project_id x = sw_project_id sw \<and> live x \<and> mi_updated_at x \<le> sw_cutoff sw
      \<and> (sw_app_id sw = None \<or> mi_app_id x = sw_app_id sw) \<and> mi_mem0_memory_id x \<notin> set (sw_accepted sw)"
    and "stale \<equiv> \<lambda>x. x\<lparr>mi_deleted_at := Some (mo_now (moment_of env w)), mi_updated_at := mo_now (moment_of env w)\<rparr>"
  shows "(\<forall>n. r = Inr n \<longrightarrow> sd_memories (w_db w') = update_where doomed stale (sd_memories (w_db w))
            \<and> n = count_where doomed (sd_memories (w_db w)))
    \<and> (\<exists>q. sd_memories (w_db w') = update_where (\<lambda>x. doomed x \<and> q x) stale (sd_memories (w_db w)))"
proof -
  have d: "doomed = unlisted sw" by (auto simp: doomed_def unlisted_def opt_is_def fun_eq_iff)
  have s: "stale = gone (mo_now (moment_of env w))" by (simp add: stale_def gone_def fun_eq_iff)
  have b: "beyond memory_key None x" for x by (simp add: beyond_def)
  from sweep_from [OF assms(2,1)] obtain q where q: "sd_memories (w_db w') = update_where (\<lambda>x. doomed x \<and> q x) stale (sd_memories (w_db w))"
    "\<And>n. r = Inr n \<Longrightarrow> q = (\<lambda>_. True) \<and> n = count_where doomed (sd_memories (w_db w))"
    unfolding d s by (simp add: b) metis
  then show ?thesis by auto
qed

end
