(* ===== verification/Memory_Bulk.thy ===== *)
theory Memory_Bulk
  imports Memory_Sync
begin

text \<open>
  Deleting many memories (\<open>MemoryService.bulk_delete_memories\<close> in \<open>core/memory_ops.py\<close>).  The
  memories of the request are fixed first, as the targets of one intent, up to the time of the
  request; then they are deleted one by one, each settled in a transaction of its own.  A request
  that was interrupted is taken up again by the next one with the same fingerprint.
\<close>

section \<open>Admission\<close>

record bulk_request =
  br_project_id :: string
  br_app_id :: string
  br_filters :: "string dict"
  br_fingerprint :: string

record bulk_run =
  bk_intent_id :: string
  bk_attempt :: int
  bk_event_id :: string
  bk_started_at :: time
  bk_cutoff :: time
  bk_resuming :: bool

definition text_dict :: "string dict \<Rightarrow> json dict" where
  "text_dict d = map (\<lambda>(k, v). (k, JStr v)) d"

definition plan_bulk_delete :: "service_env \<Rightarrow> string \<Rightarrow> string \<Rightarrow> json dict \<Rightarrow> bulk_request res" where
  "plan_bulk_delete env project_id app_id filters =
     rbind (require_id (validate_scope_id (JStr project_id) ''project_id'' True)) (\<lambda>pid.
     rbind (require_id (validate_scope_id (JStr app_id) ''app_id'' True)) (\<lambda>app.
     rbind (validated_bulk_delete_filters filters) (\<lambda>validated.
     rbind (canonical_fingerprint (se_sha256 env) (se_float_text env)
         (JObj [(''project_id'', JStr pid), (''app_id'', JStr app), (''filters'', JObj (text_dict validated))])) (\<lambda>fp.
       Inr \<lparr>br_project_id = pid, br_app_id = app, br_filters = validated, br_fingerprint = fp\<rparr>))))"

definition snapshot_cutoff :: "service_env \<Rightarrow> moment \<Rightarrow> mutation_intent option \<Rightarrow> time" where
  "snapshot_cutoff env m found =
     (case found of
        None \<Rightarrow> mo_now m
      | Some i \<Rightarrow> (case parse_projection_datetime (se_fromiso env) (jget (intent_payload i) ''snapshot_cutoff'') of
          Some t \<Rightarrow> t | None \<Rightarrow> int_created_at i))"

text \<open>A new request must not be too large; one that is under way is left to whoever holds its lease.\<close>

definition admit_bulk :: "service_env \<Rightarrow> bulk_request \<Rightarrow> moment \<Rightarrow> mutation_intent option \<Rightarrow> svc_db \<Rightarrow> unit res" where
  "admit_bulk env q m found db =
     (case found of
        None \<Rightarrow> raise_if (count_bulk_delete_candidates (br_project_id q) (br_app_id q) (br_filters q)
            (Some (snapshot_cutoff env m None)) (sd_memories db) > MAX_TARGETS)
          (Exn ValueError ''bulk delete exceeds 5000 memory targets'')
      | Some i \<Rightarrow> raise_if (lease_held (mo_now m) i)
          (Exn MutationConflict (''Bulk delete '' @ int_id i @ '' is already in progress; retry later'')))"

definition bulk_event_args :: "service_env \<Rightarrow> bulk_request \<Rightarrow> event_args" where
  "bulk_event_args env q =
     \<lparr>ea_app_id = Some (br_app_id q), ea_user_id = dget (br_filters q) ''user_id'',
      ea_agent_id = dget (br_filters q) ''agent_id'', ea_run_id = dget (br_filters q) ''run_id'',
      ea_operation = ''memory.bulk_delete'',
      ea_request = dupdate [(''app_id'', JStr (br_app_id q))] (text_dict (br_filters q)),
      ea_subject_type = Some ''memory'', ea_subject_id = None, ea_correlation_id = se_request_id env,
      ea_allow_project_scope = False\<rparr>"

definition bulk_intent_payload :: "service_env \<Rightarrow> bulk_request \<Rightarrow> time \<Rightarrow> json dict" where
  "bulk_intent_payload env q cutoff =
     [(''request_fingerprint'', JStr (br_fingerprint q)), (''filters'', JObj (text_dict (br_filters q))),
      (''snapshot_cutoff'', JStr (se_isodatetime env (Aware cutoff 0))), (''snapshot_complete'', JBool False)]"

definition bulk_run_of :: "string \<Rightarrow> time \<Rightarrow> bool \<Rightarrow> mutation_intent \<Rightarrow> bulk_run" where
  "bulk_run_of eid cutoff resuming i =
     \<lparr>bk_intent_id = int_id i, bk_attempt = int_attempt_count i, bk_event_id = eid,
      bk_started_at = int_created_at i, bk_cutoff = cutoff, bk_resuming = resuming\<rparr>"

definition svc_point_to_event :: "string \<Rightarrow> string \<Rightarrow> mutation_intent txn" where
  "svc_point_to_event iid eid = tx_intents (point_to_event iid eid)"

text \<open>
  An interrupted request is claimed again and traced by the new event; when its attempts are used
  up, that is written to the event and committed before it is reported.
\<close>

definition resume_bulk :: "service_env \<Rightarrow> string \<Rightarrow> mutation_intent \<Rightarrow> string \<Rightarrow> moment \<Rightarrow> (exn + mutation_intent) txn" where
  "resume_bulk env pid i eid m =
     tx_bind (svc_point_to_event (int_id i) eid) (\<lambda>i'.
     tx_bind (intent_op env pid (\<lambda>safe. claim_recovery safe (mo_now m) i')) (\<lambda>won.
       if won then tx_bind (svc_get_intent (int_id i)) (\<lambda>claimed. tx_return (Inr claimed))
       else tx_then (svc_event_failed env m eid
           [(''message'', JStr ''Bulk delete recovery attempts exhausted''), (''retry_required'', JBool True),
            (''operation_id'', JStr (int_id i))])
         (tx_return (Inl (Exn MutationConflict (''Bulk delete '' @ int_id i @ '' recovery attempts exhausted''))))))"

definition begin_bulk_delete :: "service_env \<Rightarrow> bulk_request \<Rightarrow> moment \<Rightarrow> bulk_run res txn" where
  "begin_bulk_delete env q m =
     (let pid = br_project_id q; app = br_app_id q in
      tx_then (svc_lock pid)
      (tx_bind (tx_query (\<lambda>db. Inr (find_resumable_by_fingerprint pid app ''memory.bulk_delete''
          (br_fingerprint q) (sd_intents db)))) (\<lambda>found.
       let cutoff = snapshot_cutoff env m found in
       tx_then (tx_query (admit_bulk env q m found))
       (tx_bind (svc_create_event env m pid (bulk_event_args env q)) (\<lambda>e.
        case found of
          None \<Rightarrow>
            tx_bind (svc_create_intent env m pid app (ev_id e) ''memory.bulk_delete''
                (bulk_intent_payload env q cutoff) [] None) (\<lambda>i.
              tx_return (Inr (bulk_run_of (ev_id e) cutoff False i)))
        | Some i \<Rightarrow>
            tx_bind (resume_bulk env pid i (ev_id e) m) (\<lambda>r.
              tx_return (case r of Inl x \<Rightarrow> Inl x | Inr i' \<Rightarrow> Inr (bulk_run_of (ev_id e) cutoff True i'))))))))"

section \<open>The snapshot of the targets\<close>

definition svc_add_target_batch :: "moment \<Rightarrow> string \<Rightarrow> string list \<Rightarrow> mutation_intent_target list txn" where
  "svc_add_target_batch m iid ids = tx_intents (add_target_batch (\<lambda>n. mo_id m (Target_Id iid n)) (mo_now m) iid ids)"

definition svc_renew :: "moment \<Rightarrow> string \<Rightarrow> int \<Rightarrow> unit txn" where
  "svc_renew m iid attempt = tx_then (tx_intents (renew_active_attempt (mo_now m) iid attempt)) (tx_return ())"

definition bulk_candidates :: "bulk_request \<Rightarrow> time \<Rightarrow> memory_key option \<Rightarrow> memory_index list \<Rightarrow> memory_index list res" where
  "bulk_candidates q cutoff after rows =
     list_bulk_delete_candidates (br_project_id q) (br_app_id q) (br_filters q) (Some cutoff)
       (map_option fst after) (map_option snd after) 200 rows"

definition bulk_snapshot_page :: "bulk_request \<Rightarrow> bulk_run \<Rightarrow> memory_key option \<Rightarrow> moment \<Rightarrow> memory_key option txn" where
  "bulk_snapshot_page q b after m =
     tx_bind (tx_query (\<lambda>db. bulk_candidates q (bk_cutoff b) after (sd_memories db))) (\<lambda>candidates.
       if candidates = [] then tx_return None
       else
         tx_then (svc_require (bk_intent_id b) (bk_attempt b) None)
         (tx_then (svc_add_target_batch m (bk_intent_id b) (map mi_mem0_memory_id candidates))
         (tx_then (svc_renew m (bk_intent_id b) (bk_attempt b))
           (tx_return (Some (memory_key (last candidates)))))))"

lemma index_kept_bulk [frames]:
  "index_kept (svc_add_target_batch m iid ids)" "index_kept (svc_renew m iid n)"
  unfolding svc_add_target_batch_def svc_renew_def by (intro frames)+

lemma snapshot_page_decreases:
  assumes "bulk_snapshot_page q b after m db = Inr (Some k, db')"
  shows "rows_beyond (Some k) (sd_memories db') < rows_beyond after (sd_memories db)"
proof -
  from assms obtain candidates where cand: "bulk_candidates q (bk_cutoff b) after (sd_memories db) = Inr candidates"
      and some: "candidates \<noteq> []" and k: "k = memory_key (last candidates)"
    by (auto simp: bulk_snapshot_page_def tx_iffs split: if_splits)
  have "index_kept (bulk_snapshot_page q b after m)"
    unfolding bulk_snapshot_page_def by (intro frames) (auto intro!: frames)
  with assms have rows: "sd_memories db' = sd_memories db" by (rule index_keptD [rotated])
  have "set candidates \<subseteq> {x \<in> set (sd_memories db). beyond memory_key after x}"
    using cand by (auto simp: bulk_candidates_def list_bulk_delete_candidates_def dest: in_set_takeD split: if_splits)
  then have last: "k \<in> memory_key ` set (sd_memories db)" "beyond id after k"
    using last_in_set [OF some] unfolding k by (auto simp: beyond_def split: option.splits)
  then show ?thesis unfolding rows by (rule rows_beyond_less)
qed

function snapshot_loop :: "service_env \<Rightarrow> bulk_request \<Rightarrow> bulk_run \<Rightarrow> memory_key option \<Rightarrow> world \<Rightarrow> unit result \<times> world" where
  "snapshot_loop env q b after w =
     (case transact env (bulk_snapshot_page q b after) w of
        (Inl e, w') \<Rightarrow> (Inl e, w')
      | (Inr None, w') \<Rightarrow> (Inr (), w')
      | (Inr (Some k), w') \<Rightarrow> snapshot_loop env q b (Some k) w')"
  by pat_completeness auto
termination
  by (relation "measure (\<lambda>(env, q, b, after, w). rows_beyond after (sd_memories (w_db w)))")
    (auto simp: transact_def split: sum.splits prod.splits dest: snapshot_page_decreases)

declare snapshot_loop.simps [simp del]

definition finish_snapshot :: "service_env \<Rightarrow> bulk_request \<Rightarrow> bulk_run \<Rightarrow> moment \<Rightarrow> unit txn" where
  "finish_snapshot env q b m =
     svc_owned (br_project_id q) (bk_intent_id b) (bk_attempt b) None (\<lambda>_.
     tx_bind (svc_get_intent (bk_intent_id b)) (\<lambda>i.
     tx_bind (tx_query (\<lambda>db. Inr (count_targets (bk_intent_id b) None (sd_intents db)))) (\<lambda>n.
     let payload = dset ''target_count'' (JInt (int n)) (dset ''snapshot_complete'' (JBool True) (intent_payload i)) in
     tx_then (intent_op env (br_project_id q) (\<lambda>safe. update_payload safe (mo_now m) (bk_intent_id b) payload []))
       (tx_return ()))))"

definition snapshot_targets :: "service_env \<Rightarrow> bulk_request \<Rightarrow> bulk_run \<Rightarrow> unit act" where
  "snapshot_targets env q b =
     act_bind (inspect (\<lambda>db. get_intent (bk_intent_id b) (sd_intents db))) (\<lambda>i.
       if truthy (jget (intent_payload i) ''snapshot_complete'') then act_return ()
       else act_then (snapshot_loop env q b None) (transact env (finish_snapshot env q b)))"

section \<open>One target\<close>

text \<open>What was done so far is recorded as it fails; losing the attempt is a conflict.\<close>

definition conclude_bulk :: "service_env \<Rightarrow> bulk_request \<Rightarrow> bulk_run \<Rightarrow> bool \<Rightarrow> failure \<Rightarrow> 'a act" where
  "conclude_bulk env q b unknown e =
     act_then (try_transact env
         (record_intent_failure env (br_project_id q) (bk_intent_id b) (bk_attempt b) e unknown))
       (superseded ''Durable bulk delete attempt was superseded'' e)"

definition svc_get_target :: "string \<Rightarrow> mutation_intent_target txn" where
  "svc_get_target tid = tx_query (\<lambda>db. get_target tid (sd_intents db))"

definition settle_target :: "bulk_run \<Rightarrow> string \<Rightarrow> moment \<Rightarrow> unit txn" where
  "settle_target b tid m =
     tx_bind (svc_get_target tid) (\<lambda>t.
     tx_then (svc_mark_target m (tgt_id t)) (svc_renew m (bk_intent_id b) (bk_attempt b)))"

definition settle_absent_target :: "bulk_request \<Rightarrow> bulk_run \<Rightarrow> string \<Rightarrow> moment \<Rightarrow> unit txn" where
  "settle_absent_target q b tid m =
     svc_owned (br_project_id q) (bk_intent_id b) (bk_attempt b) None (\<lambda>_. settle_target b tid m)"

definition svc_fail_target :: "service_env \<Rightarrow> moment \<Rightarrow> string \<Rightarrow> mutation_intent_target \<Rightarrow> json dict \<Rightarrow> unit txn" where
  "svc_fail_target env m pid t err =
     intent_op env pid (\<lambda>safe st. rbind (mark_target_failed safe (mo_now m) t err st) (\<lambda>st'. Inr ((), st')))"

definition svc_completed_targets :: "string \<Rightarrow> nat txn" where
  "svc_completed_targets iid = tx_query (\<lambda>db. Inr (count_targets iid (Some ''COMPLETED'') (sd_intents db)))"

definition svc_fail_bulk :: "service_env \<Rightarrow> moment \<Rightarrow> string \<Rightarrow> string \<Rightarrow> nat \<Rightarrow> json dict \<Rightarrow> unit txn" where
  "svc_fail_bulk env m pid iid completed err =
     tx_then (intent_op env pid (\<lambda>safe. fail_intent safe (mo_now m) iid err
        (if completed \<noteq> 0 then ''PARTIAL'' else ''FAILED'') None)) (tx_return ())"

definition target_error :: "bulk_run \<Rightarrow> string \<Rightarrow> string \<Rightarrow> json dict" where
  "target_error b mid message =
     [(''message'', JStr message), (''memory_id'', JStr mid), (''retry_required'', JBool True),
      (''operation_id'', JStr (bk_intent_id b))]"

text \<open>A memory that changed after the request was made is not deleted.\<close>

definition fail_changed_target :: "service_env \<Rightarrow> bulk_request \<Rightarrow> bulk_run \<Rightarrow> string \<Rightarrow> string \<Rightarrow> moment \<Rightarrow> unit txn" where
  "fail_changed_target env q b tid mid m =
     (let err = target_error b mid ''Memory projection changed during bulk delete'';
          pid = br_project_id q; iid = bk_intent_id b
      in svc_owned pid iid (bk_attempt b) None (\<lambda>_.
         tx_bind (svc_get_target tid) (\<lambda>t.
         tx_then (svc_fail_target env m pid t err)
         (tx_bind (svc_completed_targets iid) (\<lambda>n.
         tx_then (svc_event_failed env m (bk_event_id b) err) (svc_fail_bulk env m pid iid n err))))))"

definition fail_target :: "service_env \<Rightarrow> bulk_request \<Rightarrow> bulk_run \<Rightarrow> string \<Rightarrow> string \<Rightarrow> failure \<Rightarrow> moment \<Rightarrow> unit txn" where
  "fail_target env q b tid mid e m =
     (let err = dupdate (target_error b mid ''Bulk delete target failed; retry the operation'') (error_payload env e);
          pid = br_project_id q; iid = bk_intent_id b
      in svc_owned pid iid (bk_attempt b) None (\<lambda>_.
         tx_bind (svc_get_target tid) (\<lambda>t.
         tx_bind (svc_completed_targets iid) (\<lambda>n.
         tx_then (svc_event_failed env m (bk_event_id b) err)
         (if is_ambiguous e then tx_then (svc_mark_unresolved env m pid iid err) (tx_return ())
          else tx_then (svc_fail_target env m pid t err) (svc_fail_bulk env m pid iid n err))))))"

definition BULK_CHANGED :: string where "BULK_CHANGED = ''Memory projection changed during bulk delete''"
definition BULK_RECOVERY_CHANGED :: string where
  "BULK_RECOVERY_CHANGED = ''Memory projection changed during bulk delete recovery''"

text \<open>The row of a memory that is gone upstream is deleted, if it is still as it was.\<close>

definition unindex_target ::
    "bulk_request \<Rightarrow> bulk_run \<Rightarrow> string \<Rightarrow> string \<Rightarrow> projection_snapshot \<Rightarrow> moment \<Rightarrow> unit txn" where
  "unindex_target q b tid mid prior m =
     tx_then (svc_delete_row m (br_project_id q) mid)
     (tx_then (svc_refresh m (br_project_id q) (br_app_id q) [prior]) (settle_target b tid m))"

definition settle_gone_target ::
    "bulk_request \<Rightarrow> bulk_run \<Rightarrow> string \<Rightarrow> string \<Rightarrow> projection_snapshot \<Rightarrow> moment \<Rightarrow> unit txn" where
  "settle_gone_target q b tid mid prior m =
     svc_owned (br_project_id q) (bk_intent_id b) (bk_attempt b) None (\<lambda>_.
     tx_bind (svc_find_memory (br_project_id q) mid (Some (br_app_id q)) False) (\<lambda>current.
       if (case current of None \<Rightarrow> False | Some x \<Rightarrow> \<not> projection_matches_snapshot x prior)
       then tx_raise MutationConflict BULK_RECOVERY_CHANGED
       else unindex_target q b tid mid prior m))"

definition settle_deleted_target ::
    "bulk_request \<Rightarrow> bulk_run \<Rightarrow> string \<Rightarrow> string \<Rightarrow> projection_snapshot \<Rightarrow> moment \<Rightarrow> unit txn" where
  "settle_deleted_target q b tid mid prior m =
     svc_owned (br_project_id q) (bk_intent_id b) (bk_attempt b) None (\<lambda>_.
     tx_then (svc_unchanged (br_project_id q) mid (br_app_id q) prior BULK_CHANGED)
       (unindex_target q b tid mid prior m))"

text \<open>A request that is taken up again first looks whether the memory is still there.\<close>

definition already_gone ::
    "service_env \<Rightarrow> bulk_request \<Rightarrow> bulk_run \<Rightarrow> string \<Rightarrow> string \<Rightarrow> projection_snapshot \<Rightarrow> bool act" where
  "already_gone env q b tid mid prior w =
     (case ask env (Get_Memory mid) w of
        (Inr _, w') \<Rightarrow> (Inr False, w')
      | (Inl e, w') \<Rightarrow>
          (if \<not> is_exception e then act_fail e
           else if \<not> is_not_found e
           then act_then (try_transact env
               (record_intent_failure env (br_project_id q) (bk_intent_id b) (bk_attempt b) e (is_ambiguous e)))
             (act_fail e)
           else act_catch (act_then (transact env (settle_gone_target q b tid mid prior)) (act_return True))
             (conclude_bulk env q b True)) w')"

definition bulk_failed :: "bulk_run \<Rightarrow> 'a act" where
  "bulk_failed b = act_raise MutationConflict (''Bulk delete '' @ bk_intent_id b @ '' failed; retry required'')"

definition send_target_delete ::
    "service_env \<Rightarrow> bulk_request \<Rightarrow> bulk_run \<Rightarrow> string \<Rightarrow> string \<Rightarrow> projection_snapshot \<Rightarrow> unit act" where
  "send_target_delete env q b tid mid prior w =
     (case ask env (Delete_Memory mid) w of
        (Inl e, w') \<Rightarrow>
          (if \<not> is_exception e then act_fail e
           else act_then (transact env (fail_target env q b tid mid e)) (bulk_failed b)) w'
      | (Inr _, w') \<Rightarrow>
          act_catch (transact env (settle_deleted_target q b tid mid prior)) (conclude_bulk env q b True) w')"

definition delete_target :: "service_env \<Rightarrow> bulk_request \<Rightarrow> bulk_run \<Rightarrow> string \<times> string \<Rightarrow> unit act" where
  "delete_target env q b target =
     (let tid = fst target; mid = snd target in
      act_bind (inspect (\<lambda>db. Inr (get_memory (br_project_id q) mid (Some (br_app_id q)) False (sd_memories db)))) (\<lambda>found.
      case found of
        None \<Rightarrow> transact env (settle_absent_target q b tid)
      | Some x \<Rightarrow>
          if mi_updated_at x > bk_started_at b
          then act_then (transact env (fail_changed_target env q b tid mid)) (bulk_failed b)
          else
            act_bind (if bk_resuming b then already_gone env q b tid mid (snapshot_memory_projection x)
                else act_return False) (\<lambda>settled.
              if settled then act_return ()
              else send_target_delete env q b tid mid (snapshot_memory_projection x))))"

section \<open>All targets\<close>

text \<open>
  Up to 200 targets are read and worked off at a time, until none is left.  Every round settles
  the targets it read or fails, and an intent has at most 5000, so \<open>MAX_TARGETS + 1\<close> rounds are
  enough unless others undo what is settled; when they run out the operation counts as
  interrupted, which leaves the intent to recovery.
\<close>

definition bulk_targets :: "bulk_run \<Rightarrow> svc_db \<Rightarrow> (string \<times> string) list res" where
  "bulk_targets b db =
     rbind (incomplete_targets (bk_intent_id b) 200 (sd_intents db)) (\<lambda>ts.
       Inr (map (\<lambda>t. (tgt_id t, tgt_memory_id t)) ts))"

fun delete_rounds :: "service_env \<Rightarrow> bulk_request \<Rightarrow> bulk_run \<Rightarrow> nat \<Rightarrow> unit act" where
  "delete_rounds env q b 0 = act_fail Interrupted"
| "delete_rounds env q b (Suc n) =
     act_bind (inspect (bulk_targets b)) (\<lambda>targets.
       if targets = [] then act_return ()
       else act_then (act_each (delete_target env q b) targets) (delete_rounds env q b n))"

definition finish_bulk_delete :: "service_env \<Rightarrow> bulk_request \<Rightarrow> bulk_run \<Rightarrow> moment \<Rightarrow> json dict txn" where
  "finish_bulk_delete env q b m =
     svc_owned (br_project_id q) (bk_intent_id b) (bk_attempt b) None (\<lambda>_.
       let r = [(''message'', JStr ''All relevant memories deleted'')] in
       tx_then (svc_event_succeeded env m (bk_event_id b) r)
       (tx_then (svc_complete env m (br_project_id q) (bk_intent_id b) r) (tx_return r)))"

definition run_bulk_delete :: "service_env \<Rightarrow> bulk_request \<Rightarrow> bulk_run \<Rightarrow> json dict act" where
  "run_bulk_delete env q b =
     act_then (act_catch (snapshot_targets env q b) (conclude_bulk env q b False))
     (act_then (delete_rounds env q b (Suc MAX_TARGETS))
       (act_catch (transact env (finish_bulk_delete env q b)) (conclude_bulk env q b True)))"

definition bulk_delete_memories :: "service_env \<Rightarrow> string \<Rightarrow> string \<Rightarrow> json dict \<Rightarrow> json dict act" where
  "bulk_delete_memories env project_id app_id filters =
     act_bind (act_res (plan_bulk_delete env project_id app_id filters)) (\<lambda>q.
     act_bind (transact env (begin_bulk_delete env q)) (\<lambda>started.
     act_bind (act_res started) (\<lambda>b. run_bulk_delete env q b)))"

end
