(* ===== verification/Entity_Service.thy ===== *)
theory Entity_Service
  imports Memory_Bulk
begin

text \<open>
  The service of entities (\<open>core/entities.py\<close>): the parsing of queries over the entity table, the
  query itself, reading and rebuilding entities, and the deletion of an entity, which deletes its
  memories one after the other and settles them in batches of 50.
\<close>

section \<open>Queries\<close>

definition FILTER_ENTITY_TYPES :: "string dict" where
  "FILTER_ENTITY_TYPES = [(''user_id'', ''user''), (''agent_id'', ''agent''), (''app_id'', ''app''), (''run_id'', ''run'')]"

definition ENTITY_FILTER_FIELDS :: "string list" where
  "ENTITY_FILTER_FIELDS = [''entity_type'', ''user_id'', ''agent_id'', ''app_id'', ''run_id'']"

record entity_query =
  nq_match :: string
  nq_filters :: "explorer_filter list"
  nq_date_range :: explorer_date_range
  nq_page :: int
  nq_page_size :: int
  nq_entity_type :: string

definition normalize_entity_type :: "json \<Rightarrow> string res" where
  "normalize_entity_type v =
     (case v of
        JStr s \<Rightarrow> if s \<noteq> strip s \<or> lower s \<notin> set ENTITY_TYPES then value_error ''Unsupported entity type'' else Inr (lower s)
      | _ \<Rightarrow> value_error ''Unsupported entity type'')"

definition entity_portable_id :: "json \<Rightarrow> string \<Rightarrow> string res" where
  "entity_portable_id v field_name =
     rbind (validate_scope_id v field_name True) (\<lambda>s.
       case s of Some t \<Rightarrow> Inr t | None \<Rightarrow> value_error (field_name @ '' is required''))"

definition validate_entity_identity :: "json \<Rightarrow> json \<Rightarrow> (string \<times> string) res" where
  "validate_entity_identity kind eid =
     rbind (normalize_entity_type kind) (\<lambda>k. rbind (entity_portable_id eid (k @ ''_id'')) (\<lambda>i. Inr (k, i)))"

text \<open>A value, or each value of a list.\<close>

definition normalize_values :: "(json \<Rightarrow> string res) \<Rightarrow> json \<Rightarrow> json res" where
  "normalize_values f v =
     (case v of
        JList xs \<Rightarrow> rbind (rmap f xs) (\<lambda>ss. Inr (JList (map JStr ss)))
      | _ \<Rightarrow> rbind (f v) (\<lambda>s. Inr (JStr s)))"

definition normalize_entity_filter :: "nat \<times> json \<Rightarrow> json res" where
  "normalize_entity_filter entry =
     (case snd entry of
        JObj d \<Rightarrow>
          (case jget d ''field'' of
             JStr field \<Rightarrow>
               if field = ''entity_type''
               then rbind (normalize_values normalize_entity_type (jget d ''value'')) (\<lambda>v. Inr (JObj (dset ''value'' v d)))
               else if dget FILTER_ENTITY_TYPES field \<noteq> None
               then rbind (normalize_values (\<lambda>x. entity_portable_id x field) (jget d ''value'')) (\<lambda>v. Inr (JObj (dset ''value'' v d)))
               else Inr (JObj d)
           | _ \<Rightarrow> value_error (''filters['' @ nat_str (fst entry) @ ''].field is not allowed''))
      | v \<Rightarrow> Inr v)"

definition parse_entity_query :: "(string \<Rightarrow> datetime option) \<Rightarrow> json \<Rightarrow> entity_query res" where
  "parse_entity_query fromiso query =
     (case query of
        JObj payload \<Rightarrow>
          rbind (normalize_entity_type (dget_or payload ''entity_type'' (JStr ''user''))) (\<lambda>kind.
          let rest = ddel ''entity_type'' payload in
          rbind (case dget_or rest ''filters'' (JList []) of
              JList raw \<Rightarrow> rbind (rmap normalize_entity_filter (enumerate 0 raw)) (\<lambda>fs. Inr (dset ''filters'' (JList fs) rest))
            | _ \<Rightarrow> Inr rest) (\<lambda>normalized.
          rbind (parse_explorer_query fromiso ENTITY_FILTER_FIELDS normalized) (\<lambda>q.
            Inr \<lparr>nq_match = eq_match q, nq_filters = eq_filters q, nq_date_range = eq_date_range q,
              nq_page = eq_page q, nq_page_size = eq_page_size q, nq_entity_type = kind\<rparr>)))
      | _ \<Rightarrow> value_error ''query must be an object'')"

definition entity_query_json :: "(datetime \<Rightarrow> string) \<Rightarrow> entity_query \<Rightarrow> json" where
  "entity_query_json isodate q =
     JObj [(''entity_type'', JStr (nq_entity_type q)), (''match'', JStr (nq_match q)),
       (''filters'', JList (map filter_json (nq_filters q))),
       (''date_range'', JObj [(''from'', date_json isodate (from_at (nq_date_range q))),
          (''to'', date_json isodate (to_at (nq_date_range q)))]),
       (''page'', JInt (nq_page q)), (''page_size'', JInt (nq_page_size q))]"

definition validated_query ::
    "(string \<Rightarrow> datetime option) \<Rightarrow> (datetime \<Rightarrow> string) \<Rightarrow> entity_query \<Rightarrow> entity_query res" where
  "validated_query fromiso isodate q = parse_entity_query fromiso (entity_query_json isodate q)"

definition value_predicate :: "string \<Rightarrow> explorer_filter \<Rightarrow> bool res" where
  "value_predicate column f =
     (if ef_operator f = ''equals'' then Inr (ef_value f = FScalar column)
      else if ef_operator f = ''not_equals'' then Inr (ef_value f \<noteq> FScalar column)
      else if ef_operator f = ''in'' then Inr (case ef_value f of FMany vs \<Rightarrow> column \<in> set vs | _ \<Rightarrow> False)
      else value_error (''Unsupported entity filter operator: '' @ ef_operator f))"

definition filter_predicate :: "explorer_filter \<Rightarrow> entity \<Rightarrow> bool res" where
  "filter_predicate f e =
     (if ef_field f = ''entity_type'' then value_predicate (ent_entity_type e) f
      else case dget FILTER_ENTITY_TYPES (ef_field f) of
        None \<Rightarrow> value_error (''Unsupported entity filter field: '' @ ef_field f)
      | Some kind \<Rightarrow> rbind (value_predicate (ent_entity_id e) f) (\<lambda>b. Inr (ent_entity_type e = kind \<and> b)))"

text \<open>An entity that was never seen is in no range.\<close>

definition seen_in :: "explorer_date_range \<Rightarrow> entity \<Rightarrow> bool" where
  "seen_in r e =
     ((case from_at r of None \<Rightarrow> True | Some d \<Rightarrow> (case ent_last_seen_at e of None \<Rightarrow> False | Some t \<Rightarrow> t \<ge> instant d))
      \<and> (case to_at r of None \<Rightarrow> True | Some d \<Rightarrow> (case ent_last_seen_at e of None \<Rightarrow> False | Some t \<Rightarrow> t \<le> instant d)))"

definition entity_matches :: "string \<Rightarrow> string \<Rightarrow> entity_query \<Rightarrow> entity \<Rightarrow> bool res" where
  "entity_matches pid app q e =
     rbind (rmap (\<lambda>f. filter_predicate f e) (nq_filters q)) (\<lambda>bs.
       Inr (entity_in pid app e \<and> ent_entity_type e = nq_entity_type q \<and> seen_in (nq_date_range q) e
         \<and> (bs = [] \<or> (if nq_match q = ''all'' then list_all id bs else list_ex id bs))))"

definition entity_order :: "entity \<Rightarrow> bool \<times> int \<times> string \<times> string" where
  "entity_order e = (ent_last_seen_at e = None, (case ent_last_seen_at e of None \<Rightarrow> 0 | Some t \<Rightarrow> - t), ent_entity_id e, ent_id e)"

definition utc_text :: "(datetime \<Rightarrow> string) \<Rightarrow> time option \<Rightarrow> json" where
  "utc_text isodate t = opt_json (map_option (\<lambda>u. isodate (Aware u 0)) t)"

definition entity_payload :: "(datetime \<Rightarrow> string) \<Rightarrow> entity \<Rightarrow> json" where
  "entity_payload isodate e = JObj
     [(''id'', JStr (ent_id e)), (''type'', JStr (ent_entity_type e)), (''entity_id'', JStr (ent_entity_id e)),
      (''display_name'', opt_json (ent_display_name e)), (''memory_count'', JInt (ent_memory_count e)),
      (''last_seen_at'', utc_text isodate (ent_last_seen_at e)), (''updated_at'', utc_text isodate (Some (ent_updated_at e)))]"

definition entities_of_query :: "string \<Rightarrow> string \<Rightarrow> entity_query \<Rightarrow> entity list \<Rightarrow> entity list res" where
  "entities_of_query pid app q es =
     rbind (rmap (\<lambda>e. rbind (entity_matches pid app q e) (\<lambda>b. Inr (e, b))) es) (\<lambda>pairs.
       Inr (sort_key entity_order (map fst (filter snd pairs))))"

definition query_entities :: "service_env \<Rightarrow> string \<Rightarrow> string \<Rightarrow> entity_query \<Rightarrow> svc_db \<Rightarrow> json dict res" where
  "query_entities env project_id app_id query db =
     rbind (entity_portable_id (JStr project_id) ''project_id'') (\<lambda>pid.
     rbind (entity_portable_id (JStr app_id) ''app_id'') (\<lambda>app.
     rbind (validated_query (se_fromiso env) (se_isodatetime env) query) (\<lambda>q.
     rbind (entities_of_query pid app q (sd_entities db)) (\<lambda>found.
       let page = take (nat (nq_page_size q)) (drop (nat ((nq_page q - 1) * nq_page_size q)) found) in
       Inr [(''results'', JList (map (entity_payload (se_isodatetime env)) page)), (''page'', JInt (nq_page q)),
         (''page_size'', JInt (nq_page_size q)), (''total'', JInt (int (length found)))]))))"

definition get_entity :: "service_env \<Rightarrow> string \<Rightarrow> string \<Rightarrow> string \<Rightarrow> string \<Rightarrow> svc_db \<Rightarrow> json res" where
  "get_entity env project_id app_id kind eid db =
     rbind (validate_entity_identity (JStr kind) (JStr eid)) (\<lambda>(k, i).
     rbind (entity_portable_id (JStr project_id) ''project_id'') (\<lambda>pid.
     rbind (entity_portable_id (JStr app_id) ''app_id'') (\<lambda>app.
     rbind (get_project_entity pid app k i (sd_entities db)) (\<lambda>e. Inr (entity_payload (se_isodatetime env) e)))))"

definition rebuild_entities :: "string \<Rightarrow> string \<Rightarrow> moment \<Rightarrow> json dict txn" where
  "rebuild_entities project_id app_id m db =
     (case rbind (entity_portable_id (JStr project_id) ''project_id'') (\<lambda>pid.
         rbind (entity_portable_id (JStr app_id) ''app_id'') (\<lambda>app.
           rebuild_project_entities (\<lambda>(kind, i). mo_id m (Entity_Row app kind i)) (mo_now m) (sd_projects db) pid app
             (sd_memories db) (sd_entities db))) of
        Inl e \<Rightarrow> Inl e
      | Inr (built, es) \<Rightarrow> Inr ([(''entities'', JInt (int (length built)))], db\<lparr>sd_entities := es\<rparr>))"

section \<open>Deleting an entity\<close>

definition ENTITY_DELETE_BATCH :: nat where "ENTITY_DELETE_BATCH = 50"

definition safe_upstream_status_code :: "failure \<Rightarrow> nat option" where
  "safe_upstream_status_code e =
     (case e of Mem0_Error mth p (Some n) t unknown message \<Rightarrow> if 100 \<le> n \<and> n \<le> 599 then Some n else None | _ \<Rightarrow> None)"

definition safe_delete_error :: "failure \<Rightarrow> json dict" where
  "safe_delete_error e =
     [(''error_type'', JStr (case e of Mem0_Error mth p status t unknown message \<Rightarrow> ''Mem0UpstreamError''
         | _ \<Rightarrow> ''UpstreamDeleteError'')),
      (''message'', JStr ''Upstream memory deletion failed'')]
     @ (case safe_upstream_status_code e of None \<Rightarrow> [] | Some n \<Rightarrow> [(''upstream_status_code'', JInt (int n))])"

record entity_deletion =
  ed_project_id :: string
  ed_app_id :: string
  ed_intent_id :: string
  ed_attempt :: int
  ed_event_id :: string
  ed_memory_ids :: "string list"
  ed_expected :: "time dict"

definition entity_event_args :: "service_env \<Rightarrow> string \<Rightarrow> string \<Rightarrow> string \<Rightarrow> entity \<Rightarrow> event_args" where
  "entity_event_args env app kind eid e =
     \<lparr>ea_app_id = Some app, ea_user_id = (if kind = ''user'' then Some eid else None),
      ea_agent_id = (if kind = ''agent'' then Some eid else None), ea_run_id = (if kind = ''run'' then Some eid else None),
      ea_operation = ''entity.delete'',
      ea_request = [(''app_id'', JStr app), (''entity_type'', JStr kind), (''entity_id'', JStr eid),
        (''projected_count'', JInt (ent_memory_count e))],
      ea_subject_type = Some ''entity'', ea_subject_id = Some eid, ea_correlation_id = se_request_id env,
      ea_allow_project_scope = False\<rparr>"

definition begin_delete_entity ::
    "service_env \<Rightarrow> string \<Rightarrow> string \<Rightarrow> string \<Rightarrow> string \<Rightarrow> moment \<Rightarrow> entity_deletion txn" where
  "begin_delete_entity env pid app kind eid m =
     tx_then (svc_lock pid)
     (tx_bind (tx_query (\<lambda>db. get_project_entity pid app kind eid (sd_entities db))) (\<lambda>entity.
      tx_bind (tx_query (\<lambda>db. list_entity_memory_ids pid app kind eid (sd_memories db))) (\<lambda>ids.
      tx_bind (svc_create_event env m pid (entity_event_args env app kind eid entity)) (\<lambda>e.
      tx_bind (svc_create_intent env m pid app (ev_id e) ''entity.delete''
          [(''entity_type'', JStr kind), (''entity_id'', JStr eid)] ids None) (\<lambda>i.
      tx_bind (tx_query (\<lambda>db. Inr (map (\<lambda>x. (mi_mem0_memory_id x, mi_updated_at x))
          (rev (list_memories_by_ids pid (Some app) ids False False (sd_memories db)))))) (\<lambda>expected.
        tx_return \<lparr>ed_project_id = pid, ed_app_id = app, ed_intent_id = int_id i, ed_attempt = int_attempt_count i,
          ed_event_id = ev_id e, ed_memory_ids = ids, ed_expected = expected\<rparr>))))))"

text \<open>How far a deletion has come.\<close>

datatype deletion = Deleted | Kept "json dict"

record deletion_progress =
  dp_failed :: "json list"
  dp_deleted :: nat
  dp_attempted :: bool
  dp_effect :: bool

text \<open>
  The calls of a batch: a memory that is not there counts as deleted, a refusal is noted, and the
  batch stops at the first failure whose outcome is not known.
\<close>

fun send_deletions :: "service_env \<Rightarrow> string list \<Rightarrow> ((string \<times> deletion) list \<times> failure option) act" where
  "send_deletions env [] w = (Inr ([], None), w)"
| "send_deletions env (mid # mids) w =
     (case ask env (Delete_Memory mid) w of
        (Inr _, w') \<Rightarrow> act_bind (send_deletions env mids) (\<lambda>(ds, stop). act_return ((mid, Deleted) # ds, stop)) w'
      | (Inl e, w') \<Rightarrow>
          if \<not> is_exception e \<or> is_ambiguous e then (Inr ([], Some e), w')
          else act_bind (send_deletions env mids) (\<lambda>(ds, stop). act_return
            ((mid, if safe_upstream_status_code e = Some 404 then Deleted else Kept (safe_delete_error e)) # ds, stop)) w')"

definition ENTITY_CHANGED :: string where "ENTITY_CHANGED = ''Entity memory projection changed during delete''"

definition settle_deletion ::
    "service_env \<Rightarrow> entity_deletion \<Rightarrow> moment \<Rightarrow> mutation_intent_target list \<Rightarrow> string \<times> deletion \<Rightarrow>
     projection_snapshot list txn" where
  "settle_deletion env d m targets entry =
     (let mid = fst entry; pid = ed_project_id d in
      case List.find (\<lambda>t. tgt_memory_id t = mid) (rev targets) of
        None \<Rightarrow> tx_raise KeyError mid
      | Some t \<Rightarrow>
          (case snd entry of
             Kept err \<Rightarrow> tx_then (svc_fail_target env m pid t err) (tx_return [])
           | Deleted \<Rightarrow>
               tx_bind (svc_find_memory pid mid (Some (ed_app_id d)) False) (\<lambda>current.
               case current of
                 None \<Rightarrow> tx_raise MutationConflict ENTITY_CHANGED
               | Some x \<Rightarrow>
                   if dget (ed_expected d) mid \<noteq> Some (mi_updated_at x) then tx_raise MutationConflict ENTITY_CHANGED
                   else tx_then (svc_delete_row m pid mid)
                     (tx_then (svc_mark_target m (tgt_id t)) (tx_return [snapshot_memory_projection x])))))"

definition settle_deletions :: "service_env \<Rightarrow> entity_deletion \<Rightarrow> (string \<times> deletion) list \<Rightarrow> moment \<Rightarrow> unit txn" where
  "settle_deletions env d outcomes m =
     svc_owned (ed_project_id d) (ed_intent_id d) (ed_attempt d) None (\<lambda>_.
     tx_bind (svc_targets (ed_intent_id d)) (\<lambda>targets.
     tx_bind (tx_each (settle_deletion env d m targets) outcomes) (\<lambda>affected.
     tx_then (svc_refresh m (ed_project_id d) (ed_app_id d) (concat affected))
       (svc_renew m (ed_intent_id d) (ed_attempt d)))))"

definition failed_item :: "string \<times> deletion \<Rightarrow> json option" where
  "failed_item entry =
     (case snd entry of Deleted \<Rightarrow> None | Kept err \<Rightarrow> Some (JObj [(''id'', JStr (fst entry)), (''error'', JObj err)]))"

definition note_outcomes :: "deletion_progress \<Rightarrow> (string \<times> deletion) list \<Rightarrow> deletion_progress" where
  "note_outcomes p outcomes = p\<lparr>dp_failed := dp_failed p @ List.map_filter failed_item outcomes,
     dp_deleted := dp_deleted p + count_where (\<lambda>x. snd x = Deleted) outcomes\<rparr>"

text \<open>The batches, until one fails; what is known of the calls survives the failure.\<close>

fun delete_batches ::
    "service_env \<Rightarrow> entity_deletion \<Rightarrow> deletion_progress \<Rightarrow> string list list \<Rightarrow> (deletion_progress \<times> failure option) act" where
  "delete_batches env d p [] w = (Inr (p, None), w)"
| "delete_batches env d p (batch # batches) w =
     (case send_deletions env batch w of
        (Inl e, w1) \<Rightarrow> (Inr (p, Some e), w1)
      | (Inr (outcomes, stop), w1) \<Rightarrow>
          let p1 = p\<lparr>dp_attempted := True, dp_effect := (dp_effect p \<or> list_ex (\<lambda>x. snd x = Deleted) outcomes)\<rparr> in
          (case (if outcomes = [] then (Inr (), w1) else transact env (settle_deletions env d outcomes) w1) of
             (Inl e, w2) \<Rightarrow> (Inr (p1, Some e), w2)
           | (Inr _, w2) \<Rightarrow>
               (case stop of
                  Some e \<Rightarrow> (Inr (note_outcomes p1 outcomes, Some e), w2)
                | None \<Rightarrow> delete_batches env d (note_outcomes p1 outcomes) batches w2)))"

definition entity_result :: "entity_deletion \<Rightarrow> deletion_progress \<Rightarrow> string \<Rightarrow> json dict" where
  "entity_result d p status =
     [(''status'', JStr status), (''requested_count'', JInt (int (length (ed_memory_ids d)))),
      (''deleted_count'', JInt (int (dp_deleted p))), (''failed_count'', JInt (int (length (dp_failed p)))),
      (''failed'', JList (dp_failed p))]"

definition finish_delete_entity :: "service_env \<Rightarrow> entity_deletion \<Rightarrow> deletion_progress \<Rightarrow> moment \<Rightarrow> json dict txn" where
  "finish_delete_entity env d p m =
     (let pid = ed_project_id d; iid = ed_intent_id d;
          status = (if dp_failed p = [] then ''SUCCEEDED'' else if dp_deleted p \<noteq> 0 then ''PARTIAL'' else ''FAILED'');
          r = entity_result d p status @ [(''event_id'', JStr (ed_event_id d))]
      in svc_owned pid iid (ed_attempt d) None (\<lambda>_.
         if dp_failed p = [] then
           tx_then (svc_event_succeeded env m (ed_event_id d)
             [(''status'', JStr status), (''total'', JInt (int (length (ed_memory_ids d)))),
              (''count'', JInt (int (dp_deleted p))), (''success'', JBool True)])
           (tx_then (svc_complete env m pid iid r) (tx_return r))
         else
           tx_then (svc_event_failed env m (ed_event_id d) (entity_result d p status))
           (tx_then (intent_op env pid (\<lambda>safe. fail_intent safe (mo_now m) iid r status (Some r))) (tx_return r))))"

text \<open>Once a deletion took effect, or may have, what is left is for recovery to find out.\<close>

definition entity_outcome_unknown :: "deletion_progress \<Rightarrow> failure \<Rightarrow> bool" where
  "entity_outcome_unknown p e = (\<not> is_exception e \<or> dp_effect p \<or> dp_attempted p \<and> is_ambiguous e)"

definition conclude_entity :: "service_env \<Rightarrow> entity_deletion \<Rightarrow> bool \<Rightarrow> failure \<Rightarrow> 'a act" where
  "conclude_entity env d unknown e =
     act_then (try_transact env
         (record_intent_failure env (ed_project_id d) (ed_intent_id d) (ed_attempt d) e unknown))
       (superseded ''Durable entity deletion attempt was superseded'' e)"

definition run_delete_entity :: "service_env \<Rightarrow> entity_deletion \<Rightarrow> json dict act" where
  "run_delete_entity env d =
     act_bind (delete_batches env d \<lparr>dp_failed = [], dp_deleted = 0, dp_attempted = False, dp_effect = False\<rparr>
         (chunks ENTITY_DELETE_BATCH (ed_memory_ids d))) (\<lambda>(p, stop).
     case stop of
       Some e \<Rightarrow> conclude_entity env d (entity_outcome_unknown p e) e
     | None \<Rightarrow> act_catch (transact env (finish_delete_entity env d p)) (conclude_entity env d True))"

definition delete_entity :: "service_env \<Rightarrow> string \<Rightarrow> string \<Rightarrow> string \<Rightarrow> string \<Rightarrow> json dict act" where
  "delete_entity env project_id app_id kind eid =
     act_bind (act_res (rbind (validate_entity_identity (JStr kind) (JStr eid)) (\<lambda>(k, i).
         rbind (entity_portable_id (JStr project_id) ''project_id'') (\<lambda>pid.
         rbind (entity_portable_id (JStr app_id) ''app_id'') (\<lambda>app. Inr (pid, app, k, i)))))) (\<lambda>(pid, app, k, i).
     act_then (recover_pending_mutations env pid app False)
     (act_bind (transact env (begin_delete_entity env pid app k i)) (run_delete_entity env)))"

end
