(* ===== verification/Mutation_Admin.thy ===== *)
theory Mutation_Admin
  imports Memory_Sync
begin

text \<open>
  The operator's side of mutations (\<open>core/mutation_admin.py\<close>): listing the intents that block a
  scope, and giving up one whose outcome is unknown.  And the workers that drive the service in
  the background (\<open>workers/add_recovery.py\<close>, \<open>workers/direct_write_sync.py\<close>).
\<close>

section \<open>Blocking intents\<close>

definition MARKER_SCAN_LIMIT :: nat where "MARKER_SCAN_LIMIT = 1000"
definition MAX_RESOLUTION_REASON_CHARS :: nat where "MAX_RESOLUTION_REASON_CHARS = 512"
definition RESOLVABLE_STATUSES :: "string list" where "RESOLVABLE_STATUSES = [''UNKNOWN'', ''EXHAUSTED'']"

abbreviation admin_error :: "string \<Rightarrow> 'a res" where
  "admin_error m \<equiv> raise MutationAdminError m"

definition safe_intent :: "(time \<Rightarrow> string) \<Rightarrow> mutation_intent \<Rightarrow> json" where
  "safe_intent isoformat i = JObj
     [(''id'', JStr (int_id i)), (''operation'', JStr (int_operation i)), (''status'', JStr (int_status i)),
      (''attempt_count'', JInt (int_attempt_count i)),
      (''lease_expires_at'', opt_json (map_option isoformat (int_lease_expires_at i)))]"

definition validate_reason :: "json \<Rightarrow> string res" where
  "validate_reason v =
     (case v of
        JStr s \<Rightarrow>
          let normalized = strip s in
          if normalized = [] \<or> length normalized > MAX_RESOLUTION_REASON_CHARS
            \<or> list_ex (\<lambda>c. code c < 32 \<or> code c = 127) normalized
          then admin_error ''resolution reason must be 1-512 printable characters'' else Inr normalized
      | _ \<Rightarrow> admin_error ''resolution reason must be a string'')"

definition lease_is_live :: "time \<Rightarrow> mutation_intent \<Rightarrow> bool" where
  "lease_is_live now i = (case int_lease_expires_at i of None \<Rightarrow> False | Some t \<Rightarrow> t > now)"

definition list_blocking_intents :: "service_env \<Rightarrow> string \<Rightarrow> string \<Rightarrow> svc_db \<Rightarrow> json dict res" where
  "list_blocking_intents env project_id app_id db =
     rbind (require_id (validate_scope_id (JStr project_id) ''project_id'' True)) (\<lambda>pid.
     rbind (require_id (validate_scope_id (JStr app_id) ''app_id'' True)) (\<lambda>app.
     rbind (raise_if (row_by prj_id pid (sd_projects db) = None)
         (Exn MutationAdminError ''project scope does not exist'')) (\<lambda>_.
       let intents = map (safe_intent (se_isoformat env)) (list_blocking pid app (sd_intents db))
       in Inr [(''count'', JInt (int (length intents))), (''intents'', JList intents)])))"

section \<open>Resolving an intent\<close>

text \<open>What the operator says: which intent in which state, and that its outcome is given up.\<close>

record resolution =
  rs_project_id :: string
  rs_app_id :: string
  rs_intent_id :: string
  rs_status :: string
  rs_attempts :: int
  rs_reason :: string

definition read_resolution ::
    "string \<Rightarrow> string \<Rightarrow> string \<Rightarrow> string \<Rightarrow> string \<Rightarrow> json \<Rightarrow> json \<Rightarrow> bool \<Rightarrow> resolution res" where
  "read_resolution project_id app_id intent_id confirmation status attempts reason accept =
     rbind (require_id (validate_scope_id (JStr project_id) ''project_id'' True)) (\<lambda>pid.
     rbind (require_id (validate_scope_id (JStr app_id) ''app_id'' True)) (\<lambda>app.
     rbind (require_id (validate_scope_id (JStr intent_id) ''intent_id'' True)) (\<lambda>iid.
     rbind (require_id (validate_scope_id (JStr confirmation) ''intent_id'' True)) (\<lambda>confirmed.
     rbind (validate_reason reason) (\<lambda>why.
     rbind (raise_if (iid \<noteq> confirmed) (Exn MutationAdminError ''intent confirmation does not match'')) (\<lambda>_.
     rbind (raise_if (\<not> accept) (Exn MutationAdminError ''unknown upstream outcome was not acknowledged'')) (\<lambda>_.
     case attempts of
       JInt n \<Rightarrow>
         if n < 0 then admin_error ''expected attempt count is invalid''
         else Inr \<lparr>rs_project_id = pid, rs_app_id = app, rs_intent_id = iid, rs_status = status, rs_attempts = n,
           rs_reason = why\<rparr>
     | _ \<Rightarrow> admin_error ''expected attempt count is invalid'')))))))"

definition resolvable_intent :: "time \<Rightarrow> resolution \<Rightarrow> svc_db \<Rightarrow> mutation_intent res" where
  "resolvable_intent now rs db =
     rbind (lock_for_mutation (rs_project_id rs) (sd_projects db)) (\<lambda>_.
     case List.find (\<lambda>i. int_id i = rs_intent_id rs \<and> int_project_id i = rs_project_id rs \<and> int_app_id i = rs_app_id rs)
         (is_intents (sd_intents db)) of
       None \<Rightarrow> admin_error ''intent does not exist in the exact scope''
     | Some i \<Rightarrow>
         if int_status i \<notin> set RESOLVABLE_STATUSES \<or> lease_is_live now i
         then admin_error ''intent state cannot be resolved''
         else if int_status i \<noteq> rs_status rs \<or> int_attempt_count i \<noteq> rs_attempts rs
         then admin_error ''intent status or attempt count changed''
         else Inr i)"

text \<open>An addition is looked for once more, by its marker.\<close>

definition observation_of :: "mutation_intent \<Rightarrow> svc_db \<Rightarrow> (string \<times> json dict) option res" where
  "observation_of i db =
     (if int_operation i \<noteq> ''memory.add'' then Inr None
      else case jget (intent_payload i) ''mutation_id'' of
        JStr (c # cs) \<Rightarrow> rbind (get_event (int_event_id i) (sd_events db)) (\<lambda>e. Inr (Some (c # cs, entity_filters e)))
      | _ \<Rightarrow> admin_error ''add intent marker is unavailable'')"

definition first_look :: "time \<Rightarrow> resolution \<Rightarrow> svc_db \<Rightarrow> (string \<times> (string \<times> json dict) option) res" where
  "first_look now rs db =
     rbind (resolvable_intent now rs db) (\<lambda>i. rbind (observation_of i db) (\<lambda>ob. Inr (int_operation i, ob)))"

definition marker_results :: "json \<Rightarrow> json list res" where
  "marker_results response =
     (case response of
        JObj d \<Rightarrow> (case jget d ''results'' of
            JList xs \<Rightarrow> if length xs > MARKER_SCAN_LIMIT then admin_error ''add marker observation is incomplete'' else Inr xs
          | _ \<Rightarrow> admin_error ''add marker observation is unavailable'')
      | _ \<Rightarrow> admin_error ''add marker observation is unavailable'')"

definition refuse_observed_marker :: "service_env \<Rightarrow> resolution \<Rightarrow> string \<times> json dict \<Rightarrow> unit act" where
  "refuse_observed_marker env rs ob =
     act_bind (ask env (List_Memories (dset MUTATION_MARKER (JStr (fst ob))
         (dupdate [(''top_k'', JInt (int MARKER_SCAN_LIMIT)), (''show_expired'', JBool True)] (snd ob))))) (\<lambda>response.
     act_bind (act_res (marker_results response)) (\<lambda>items.
       act_res (raise_if (list_ex (\<lambda>item. case item of
           JObj d \<Rightarrow> carries_scope (fst ob) (rs_project_id rs) (rs_app_id rs) d | _ \<Rightarrow> False) items)
         (Exn MutationAdminError ''add marker was observed; intent cannot be resolved''))))"

definition resolution_event_args :: "resolution \<Rightarrow> event_args" where
  "resolution_event_args rs =
     \<lparr>ea_app_id = Some (rs_app_id rs), ea_user_id = None, ea_agent_id = None, ea_run_id = None,
      ea_operation = ''mutation.resolve'',
      ea_request = [(''intent_id'', JStr (rs_intent_id rs)), (''expected_status'', JStr (rs_status rs)),
        (''expected_attempt_count'', JInt (rs_attempts rs)), (''accept_unknown_outcome'', JBool True),
        (''reason'', JStr (rs_reason rs))],
      ea_subject_type = Some ''mutation_intent'', ea_subject_id = Some (rs_intent_id rs), ea_correlation_id = None,
      ea_allow_project_scope = False\<rparr>"

definition settle_resolution ::
    "service_env \<Rightarrow> resolution \<Rightarrow> string \<Rightarrow> (string \<times> json dict) option \<Rightarrow> moment \<Rightarrow> json dict txn" where
  "settle_resolution env rs operation ob m =
     tx_bind (tx_query (resolvable_intent (mo_now m) rs)) (\<lambda>i.
       if int_operation i \<noteq> operation
         \<or> (case ob of None \<Rightarrow> False | Some (marker, _) \<Rightarrow> jget (intent_payload i) ''mutation_id'' \<noteq> JStr marker)
       then tx_raise MutationAdminError ''intent status or attempt count changed''
       else
         let pid = rs_project_id rs;
             err = [(''message'', JStr ''Operator accepted an unknown upstream mutation outcome''),
               (''reason'', JStr (rs_reason rs))]
         in tx_bind (svc_create_event env m pid (resolution_event_args rs)) (\<lambda>audit.
            tx_then (svc_event_failed env m (int_event_id i) err)
            (tx_bind (svc_fail env m pid (int_id i) err) (\<lambda>i'.
            tx_then (svc_event_succeeded env m (ev_id audit)
              [(''id'', JStr (int_id i)), (''status'', JStr ''FAILED'')])
            (tx_return [(''intent'', safe_intent (se_isoformat env) i'), (''audit_event_id'', JStr (ev_id audit))])))))"

definition resolve_intent ::
    "service_env \<Rightarrow> string \<Rightarrow> string \<Rightarrow> string \<Rightarrow> string \<Rightarrow> string \<Rightarrow> json \<Rightarrow> json \<Rightarrow> bool \<Rightarrow> json dict act" where
  "resolve_intent env pid app iid confirmation status attempts reason accept w =
     act_bind (act_res (read_resolution pid app iid confirmation status attempts reason accept)) (\<lambda>rs.
     act_bind (inspect (first_look (mo_now (moment_of env w)) rs)) (\<lambda>(operation, ob).
     act_then (case ob of None \<Rightarrow> act_return () | Some o' \<Rightarrow> refuse_observed_marker env rs o')
       (transact env (settle_resolution env rs operation ob)))) w"

section \<open>Workers\<close>

text \<open>The scopes with additions to recover, those that have waited longest first.\<close>

definition RECOVERY_SCOPES :: nat where "RECOVERY_SCOPES = 20"

definition awaits_recovery :: "time \<Rightarrow> mutation_intent \<Rightarrow> bool" where
  "awaits_recovery now i =
     (int_operation i = ''memory.add'' \<and> int_status i \<in> {''UNKNOWN'', ''EXHAUSTED'', ''PENDING'', ''ACTIVE''}
      \<and> (int_status i \<noteq> ''ACTIVE'' \<or> \<not> lease_is_live now i))"

definition intent_scope :: "mutation_intent \<Rightarrow> string \<times> string" where
  "intent_scope i = (int_project_id i, int_app_id i)"

definition scope_waits_since :: "mutation_intent list \<Rightarrow> string \<times> string \<Rightarrow> time" where
  "scope_waits_since is' scope = foldr (\<lambda>i t. if intent_scope i = scope then min (int_updated_at i) t else t) is'
     (case filter (\<lambda>i. intent_scope i = scope) is' of [] \<Rightarrow> 0 | i # _ \<Rightarrow> int_updated_at i)"

definition recovery_scopes :: "time \<Rightarrow> svc_db \<Rightarrow> (string \<times> string) list" where
  "recovery_scopes now db =
     (let waiting = filter (awaits_recovery now) (is_intents (sd_intents db)) in
      take RECOVERY_SCOPES (sort_key (\<lambda>s. (scope_waits_since waiting s, s)) (dedup (map intent_scope waiting))))"

text \<open>A scope whose additions are still open is left for the next round; any other failure ends this one.\<close>

definition is_conflict :: "failure \<Rightarrow> bool" where
  "is_conflict e = (case e of Threw (Exn MutationConflict _) \<Rightarrow> True
     | Threw (Exn (OtherError c) _) \<Rightarrow> c = ''MemoryProjectionConflictError'' | _ \<Rightarrow> False)"

definition recover_scope :: "service_env \<Rightarrow> string \<times> string \<Rightarrow> unit act" where
  "recover_scope env scope =
     act_catch (act_then (recover_pending_mutations env (fst scope) (snd scope) True) (act_return ()))
       (\<lambda>e. if is_conflict e then act_return () else act_fail e)"

definition add_recovery_run_once :: "service_env \<Rightarrow> nat act" where
  "add_recovery_run_once env w =
     act_bind (inspect (\<lambda>db. Inr (recovery_scopes (mo_now (moment_of env w)) db))) (\<lambda>scopes.
     act_then (act_each (recover_scope env) scopes) (act_return (length scopes))) w"

record sync_settings =
  sy_project_id :: string
  sy_app_id :: string
  sy_scan_limit :: int
  sy_legacy_cap :: int

definition direct_write_sync_run_once :: "service_env \<Rightarrow> sync_settings \<Rightarrow> json dict act" where
  "direct_write_sync_run_once env s =
     mirror_direct_writes env (sy_project_id s) (sy_app_id s) (sy_scan_limit s) (sy_legacy_cap s)"

end
