(* ===== verification/Service_Steps.thy ===== *)
theory Service_Steps
  imports Memory_Reads Entity_Service Mutation_Admin
begin

text \<open>
  What an operation of the memory service can do to the world, stated once and used by every
  property of it.  A transaction is a sequence of steps of the tables' own operations.  An
  operation, while others work on the same world, is a sequence of committed transactions, of
  calls, and of the work of others; the locales below say which relations on worlds such a
  sequence respects, with one locale for recovery and reading, one for updates and deletions, and
  one for additions.
\<close>

section \<open>Transactions\<close>

inductive table_step :: "svc_db \<Rightarrow> svc_db \<Rightarrow> bool" where
  intents_step: "intent_step (sd_intents db) st \<Longrightarrow> table_step db (db\<lparr>sd_intents := st\<rparr>)"
| memories_step: "index_step (sd_memories db) ms \<Longrightarrow> table_step db (db\<lparr>sd_memories := ms\<rparr>)"
| events_step: "table_step db (db\<lparr>sd_events := es\<rparr>)"
| entities_step: "table_step db (db\<lparr>sd_entities := ns\<rparr>)"

abbreviation table_steps :: "svc_db \<Rightarrow> svc_db \<Rightarrow> bool" where
  "table_steps \<equiv> table_step\<^sup>*\<^sup>*"

definition tx_steps :: "'a txn \<Rightarrow> bool" where
  "tx_steps t = (\<forall>db x db'. t db = Inr (x, db') \<longrightarrow> table_steps db db')"

named_theorems steps \<open>rules that take a transaction apart into steps of the tables\<close>

lemma tx_stepsI: "(\<And>db x db'. t db = Inr (x, db') \<Longrightarrow> table_steps db db') \<Longrightarrow> tx_steps t"
  by (auto simp: tx_steps_def)

lemma tx_stepsD: "tx_steps t \<Longrightarrow> t db = Inr (x, db') \<Longrightarrow> table_steps db db'"
  by (auto simp: tx_steps_def)

lemma steps_return [steps]: "tx_steps (tx_return x)"
  by (auto simp: tx_return_def intro!: tx_stepsI)

lemma steps_raise [steps]: "tx_steps (tx_raise c m)"
  by (auto simp: tx_raise_def intro!: tx_stepsI)

lemma steps_query [steps]: "tx_steps (tx_query q)"
  by (auto simp: tx_query_def intro!: tx_stepsI split: sum.splits)

lemma steps_res [steps]: "tx_steps (tx_res r)"
  by (auto simp: tx_res_def intro!: tx_stepsI split: sum.splits)

lemma steps_bind [steps]: "tx_steps t \<Longrightarrow> (\<And>x. tx_steps (f x)) \<Longrightarrow> tx_steps (tx_bind t f)"
  by (rule tx_stepsI, auto simp: tx_bind_def split: sum.splits prod.splits)
    (meson rtranclp_trans tx_stepsD)

lemma steps_then [steps]: "tx_steps t \<Longrightarrow> tx_steps u \<Longrightarrow> tx_steps (tx_then t u)"
  by (simp add: tx_then_def steps_bind)

lemma steps_each [steps]: "(\<And>x. tx_steps (f x)) \<Longrightarrow> tx_steps (tx_each f xs)"
  by (induction xs) (auto intro!: steps)

lemma steps_if [steps]: "(b \<Longrightarrow> tx_steps t) \<Longrightarrow> (\<not> b \<Longrightarrow> tx_steps u) \<Longrightarrow> tx_steps (if b then t else u)"
  by simp

lemma steps_option [steps]:
  "(x = None \<Longrightarrow> tx_steps t) \<Longrightarrow> (\<And>y. x = Some y \<Longrightarrow> tx_steps (f y)) \<Longrightarrow> tx_steps (case x of None \<Rightarrow> t | Some y \<Rightarrow> f y)"
  by (cases x) simp_all

lemma steps_list [steps]:
  "tx_steps t \<Longrightarrow> (\<And>y ys. tx_steps (f y ys)) \<Longrightarrow> tx_steps (case xs of [] \<Rightarrow> t | y # ys \<Rightarrow> f y ys)"
  by (cases xs) simp_all

lemma steps_prod [steps]: "(\<And>a b. tx_steps (f a b)) \<Longrightarrow> tx_steps (case p of (a, b) \<Rightarrow> f a b)"
  by (cases p) simp

lemma steps_events [steps]: "tx_steps (tx_events f)"
  by (auto simp: tx_events_def intro!: tx_stepsI split: sum.splits prod.splits) (rule r_into_rtranclp, rule events_step)

lemma steps_entities [steps]: "tx_steps (tx_entities f)"
  by (auto simp: tx_entities_def intro!: tx_stepsI split: sum.splits prod.splits) (rule r_into_rtranclp, rule entities_step)

lemma steps_intents:
  assumes "\<And>st x st'. f st = Inr (x, st') \<Longrightarrow> intent_step st st'"
  shows "tx_steps (tx_intents f)"
  using assms
  by (auto simp: tx_intents_def intro!: tx_stepsI r_into_rtranclp intents_step split: sum.splits prod.splits)

lemma steps_memories:
  assumes "\<And>ms. index_step ms (snd (f ms))"
  shows "tx_steps (tx_memories f)"
proof (rule tx_stepsI)
  fix db x db' assume "tx_memories f db = Inr (x, db')"
  then show "table_steps db db'"
    using assms [of "sd_memories db"]
    by (auto simp: tx_memories_def split: prod.splits intro!: r_into_rtranclp memories_step)
qed

lemma steps_intent_op:
  assumes "\<And>safe st x st'. f safe st = Inr (x, st') \<Longrightarrow> intent_step st st'"
  shows "tx_steps (intent_op env pid f)"
proof (rule tx_stepsI)
  fix db x db' assume "intent_op env pid f db = Inr (x, db')"
  then have "tx_intents (f (\<lambda>d. JObj (sanitize_payload env db pid d))) db = Inr (x, db')"
    by (simp add: intent_op_def)
  then show "table_steps db db'" by (rule tx_stepsD [OF steps_intents, rotated]) (rule assms)
qed

lemma steps_svc [steps]:
  "tx_steps (svc_create_event env m pid a)" "tx_steps (svc_event_failed env m eid err)"
  "tx_steps (svc_event_succeeded env m eid d)" "tx_steps (svc_set_subject eid s)" "tx_steps (svc_lock pid)"
  "tx_steps (svc_get_intent iid)" "tx_steps (svc_require iid n t)" "tx_steps (svc_sanitize env pid d)"
  "tx_steps (svc_refresh m pid app ps)" "tx_steps (svc_find_memory pid mid ap b)" "tx_steps (svc_targets iid)"
  unfolding svc_set_subject_def svc_lock_def svc_get_intent_def svc_require_def svc_sanitize_def svc_refresh_def
    svc_find_memory_def svc_targets_def
  by (auto intro!: steps)
    (auto simp: svc_create_event_def svc_event_failed_def svc_event_succeeded_def intro!: tx_stepsI
      dest: tx_stepsD [OF steps_events])

lemma steps_svc_intents [steps]:
  "tx_steps (svc_mark_target m tid)" "tx_steps (svc_mark_unresolved env m pid iid d)"
  "tx_steps (svc_fail env m pid iid d)" "tx_steps (svc_complete env m pid iid d)"
  "tx_steps (svc_add_targets m iid ids)" "tx_steps (svc_create_intent env m pid app eid op d ids key)"
  "tx_steps (intent_op env pid (\<lambda>safe. claim_recovery safe n i))"
  "tx_steps (intent_op env pid (\<lambda>safe. update_payload safe n iid d ks))"
  "tx_steps (intent_op env pid (\<lambda>safe. fail_intent safe n iid d s r))"
  "tx_steps (intent_op env pid (\<lambda>safe st. rbind (mark_target_failed safe n t d st) (\<lambda>st'. Inr ((), st'))))"
  "tx_steps (tx_intents (renew_active_attempt n iid a))"
  unfolding svc_mark_target_def svc_mark_unresolved_def svc_fail_def svc_complete_def svc_add_targets_def svc_create_intent_def
  by (rule steps_intents steps_intent_op, auto simp: res_simps intro: intent_step.intros)+

lemma steps_svc_memories [steps]:
  "tx_steps (svc_upsert m pid mid p)" "tx_steps (svc_delete_row m pid mid)" "tx_steps (svc_mark_stale m pid mid)"
  unfolding svc_upsert_def svc_delete_row_def svc_mark_stale_def
  by (rule steps_memories, auto intro: index_step.intros simp: prod_eq_iff)+

lemma steps_owned [steps]: "(\<And>i. tx_steps (f i)) \<Longrightarrow> tx_steps (svc_owned pid iid n t f)"
  by (auto simp: svc_owned_def intro!: steps)

text \<open>Every transaction of the service.\<close>

lemma steps_recovery [steps]:
  "tx_steps (settle_failed_add env iid n t pid m)" "tx_steps (settle_noop_add env iid n t pid m)"
  "tx_steps (settle_observed_add env iid n t rv names items m)"
  "tx_steps (settle_update env iid n pid app mid eff d m)" "tx_steps (settle_absent_update env iid n pid m)"
  "tx_steps (renew_lease pid iid n m)" "tx_steps (settle_delete env iid n pid app op k seen m)"
  "tx_steps (claim_intent env pid iid m)" "tx_steps (settle_reconcile env iid n pid m)"
  "tx_steps (note_unresolved env pid iid c e m)"
  unfolding settle_failed_add_def settle_noop_add_def settle_observed_add_def settle_update_def
    settle_absent_update_def renew_lease_def settle_delete_def claim_intent_def settle_reconcile_def
    note_unresolved_def leave_unresolved_def settle_recovered_def index_recovered_def index_updated_def
    unindex_missing_def Let_def
  by (intro steps)+

lemma steps_service [steps]:
  "tx_steps (record_intent_failure env pid iid n e u m)" "tx_steps (begin_add env pid p a m)"
  "tx_steps (settle_add env iid n ob pid p a d ds m)" "tx_steps (note_noop env iid n pid p m)"
  "tx_steps (begin_update env pid app mid x d m)" "tx_steps (finish_update env iid n pid app mid s d d' m)"
  "tx_steps (settle_gone_update env iid n pid app mid s e m)" "tx_steps (trace_missing env pid app mid m)"
  "tx_steps (begin_delete env pid app mid x m)" "tx_steps (finish_delete env iid n pid app mid s d m)"
  "tx_steps (settle_gone_delete env iid n pid app mid s e m)"
  unfolding record_intent_failure_def begin_add_def settle_add_def note_noop_def begin_update_def finish_update_def
    settle_gone_update_def trace_missing_def begin_delete_def finish_delete_def settle_gone_delete_def
    index_added_def index_updated_def svc_unchanged_def first_target_def Let_def
  by (intro steps)+

lemma steps_memory_op:
  assumes "\<And>db x db'. t db = Inr (x, db') \<Longrightarrow> \<exists>rows. db' = db\<lparr>sd_memories := rows\<rparr> \<and> (rows = sd_memories db \<or> index_step (sd_memories db) rows)"
  shows "tx_steps t"
proof (rule tx_stepsI)
  fix db x db' assume "t db = Inr (x, db')"
  from assms [OF this] obtain rows where rows: "db' = db\<lparr>sd_memories := rows\<rparr>"
    "rows = sd_memories db \<or> index_step (sd_memories db) rows" by blast
  then show "table_steps db db'"
    by (elim disjE) (auto intro: memories_step)
qed

lemma rank_results_rows:
  "rank_results pow2 fi fmt now sc c p limit v rows = Inr (x, rows') \<Longrightarrow>
     rows' = rows \<or> (\<exists>pid app ids. rows' = count_access now pid app ids rows)"
  by (auto simp: rank_results_def ranked_rows_def read_error_def rbind_Inr_iff Let_def split: json.splits if_splits)

lemma steps_svc_reads [steps]: "tx_steps (svc_rank env m p v)"
  by (rule steps_memory_op)
    (auto simp: svc_rank_def split: sum.splits dest!: rank_results_rows intro: index_step.used)

lemma steps_svc_stale [steps]:
  "tx_steps (svc_mark_stale_if_unchanged m pid app ids t ex)" "tx_steps (svc_mark_unlisted m sw stale)"
  by (rule steps_memory_op;
      auto simp: svc_mark_stale_if_unchanged_def svc_mark_unlisted_def split: sum.splits intro: index_step.reconciled)+

lemma steps_svc_mirror [steps]: "tx_steps (svc_mirror m pid mid p)" "tx_steps (svc_claim m pid mid app p)"
  unfolding svc_mirror_def
   apply (rule steps_memories, auto intro: index_step.intros simp: prod_eq_iff)[1]
  by (rule steps_memory_op) (auto simp: svc_claim_def split: sum.splits intro: index_step.claimed)

lemma steps_svc_bulk [steps]: "tx_steps (svc_point_to_event iid eid)" "tx_steps (svc_add_target_batch m iid ids)"
  unfolding svc_point_to_event_def svc_add_target_batch_def
  by (rule steps_intents, auto intro: intent_step.intros)+

lemma steps_refresh_affected [steps]: "tx_steps (svc_refresh_affected_projections m pid ps)"
  unfolding svc_refresh_affected_projections_def by (intro steps)

lemma steps_claim [steps]:
  "tx_steps t \<Longrightarrow> (\<And>row. tx_steps (f row)) \<Longrightarrow> tx_steps (case c of Claimed row \<Rightarrow> f row | Conflict \<Rightarrow> t)"
  by (cases c) simp_all

lemma steps_sum [steps]:
  "(\<And>e. tx_steps (f e)) \<Longrightarrow> (\<And>x. tx_steps (g x)) \<Longrightarrow> tx_steps (case r of Inl e \<Rightarrow> f e | Inr x \<Rightarrow> g x)"
  by (cases r) simp_all

lemma steps_reads [steps]:
  "tx_steps (finish_list env pr sc cur eid v m)" "tx_steps (finish_search env pr p eid v m)"
  "tx_steps (settle_stale pid app st m)" "tx_steps (finalize_query env pid app q eid st forced m)"
  unfolding finish_list_def finish_search_def settle_stale_def finalize_query_def Let_def
  by (intro steps)+

lemma steps_sync [steps]:
  "tx_steps (mirror_batch env pid t batch m)" "tx_steps (sweep_page sw after m)"
  "tx_steps (reconcile_batch env iid n pid app b t recs m)" "tx_steps (finish_reconcile env iid n pid r m)"
  "tx_steps (record_marked_failure env pid iid n e u m)" "tx_steps (begin_reconcile env pid app b m)"
  unfolding mirror_batch_def mirror_record_def sweep_page_def sweep_fence_def sweep_renew_def sweep_refresh_def
    reconcile_batch_def reconcile_record_def finish_reconcile_def record_marked_failure_def begin_reconcile_def Let_def
  by (intro steps)+

lemma steps_bulk [steps]:
  "tx_steps (begin_bulk_delete env q m)" "tx_steps (bulk_snapshot_page q b after m)" "tx_steps (finish_snapshot env q b m)"
  "tx_steps (settle_absent_target q b tid m)" "tx_steps (fail_changed_target env q b tid mid m)"
  "tx_steps (fail_target env q b tid mid e m)" "tx_steps (settle_gone_target q b tid mid prior m)"
  "tx_steps (settle_deleted_target q b tid mid prior m)" "tx_steps (finish_bulk_delete env q b m)"
  unfolding begin_bulk_delete_def resume_bulk_def bulk_snapshot_page_def finish_snapshot_def settle_absent_target_def
    fail_changed_target_def fail_target_def settle_gone_target_def settle_deleted_target_def finish_bulk_delete_def
    settle_target_def svc_renew_def svc_get_target_def svc_fail_target_def svc_completed_targets_def svc_fail_bulk_def
    unindex_target_def svc_unchanged_def Let_def
  by (intro steps)+

lemma steps_deletion [steps]:
  "tx_steps t \<Longrightarrow> (\<And>e. tx_steps (f e)) \<Longrightarrow> tx_steps (case d of Deleted \<Rightarrow> t | Kept e \<Rightarrow> f e)"
  by (cases d) simp_all

lemma steps_rebuild [steps]: "tx_steps (rebuild_entities pid app m)"
  by (rule tx_stepsI)
    (auto simp: rebuild_entities_def intro!: r_into_rtranclp entities_step split: sum.splits)

lemma steps_entity [steps]:
  "tx_steps (begin_delete_entity env pid app k i m)" "tx_steps (settle_deletions env d outcomes m)"
  "tx_steps (finish_delete_entity env d p m)"
  unfolding begin_delete_entity_def settle_deletions_def settle_deletion_def finish_delete_entity_def
    svc_fail_target_def svc_renew_def Let_def
  by (intro steps)+

lemma steps_resolution [steps]: "tx_steps (settle_resolution env rs op ob m)"
  unfolding settle_resolution_def Let_def by (intro steps)

section \<open>Operations among others\<close>

definition act_keeps :: "(world \<Rightarrow> world \<Rightarrow> bool) \<Rightarrow> 'a act \<Rightarrow> bool" where
  "act_keeps R m = (\<forall>w r w'. m w = (r, w') \<longrightarrow> R w w')"

lemma act_keepsI: "(\<And>w r w'. m w = (r, w') \<Longrightarrow> R w w') \<Longrightarrow> act_keeps R m"
  by (auto simp: act_keeps_def)

lemma act_keepsD: "act_keeps R m \<Longrightarrow> m w = (r, w') \<Longrightarrow> R w w'"
  by (auto simp: act_keeps_def)

lemma keep_if: "(b \<Longrightarrow> act_keeps R m) \<Longrightarrow> (\<not> b \<Longrightarrow> act_keeps R n) \<Longrightarrow> act_keeps R (if b then m else n)"
  by simp

lemma keep_option:
  "act_keeps R m \<Longrightarrow> (\<And>y. act_keeps R (f y)) \<Longrightarrow> act_keeps R (case x of None \<Rightarrow> m | Some y \<Rightarrow> f y)"
  by (cases x) simp_all

lemma keep_prod: "(\<And>a b. act_keeps R (f a b)) \<Longrightarrow> act_keeps R (case p of (a, b) \<Rightarrow> f a b)"
  by (cases p) simp

lemma keep_list:
  "act_keeps R m \<Longrightarrow> (\<And>y ys. act_keeps R (f y ys)) \<Longrightarrow> act_keeps R (case xs of [] \<Rightarrow> m | y # ys \<Rightarrow> f y ys)"
  by (cases xs) simp_all

text \<open>An operation that looks at the world it starts in.\<close>

lemma keep_here: "(\<And>w. m w = f w w) \<Longrightarrow> (\<And>w. act_keeps R (f w)) \<Longrightarrow> act_keeps R m"
  by (auto simp: act_keeps_def)

fun is_read :: "upstream_call \<Rightarrow> bool" where
  "is_read (Add_Memory d) = False"
| "is_read (Update_Memory mid d) = False"
| "is_read (Delete_Memory mid) = False"
| "is_read (Delete_All_Memories d) = False"
| "is_read c = True"

fun is_addition :: "upstream_call \<Rightarrow> bool" where
  "is_addition (Add_Memory d) = True"
| "is_addition c = False"

text \<open>What a client may ask the service for.\<close>

datatype request =
    Add string "json dict" "string option"
  | Update string string "string option" bool "json dict" bool
  | Delete string string "string option" bool
  | Read string string "string option" bool bool
  | Recover string string bool
  | List_All string "json dict" bool
  | Search string "json dict" bool
  | Query_Index string "string option" bool explorer_query
  | History string string "string option" bool bool bool
  | Mirror string string int int
  | Reconcile string string bool bool string
  | Bulk_Delete string string "json dict"
  | Delete_Entity string string string string
  | Rebuild_Entities string string
  | Resolve string string string string string json json bool
  | Recover_Additions

fun perform :: "service_env \<Rightarrow> request \<Rightarrow> world \<Rightarrow> world" where
  "perform env (Add pid payload key) w = snd (add_memory env pid payload key w)"
| "perform env (Update pid mid app wide payload raw) w = snd (update_memory env pid mid app wide payload raw w)"
| "perform env (Delete pid mid app wide) w = snd (delete_memory env pid mid app wide w)"
| "perform env (Read pid mid app wide trace) w = snd (read_memory env pid mid app wide trace w)"
| "perform env (Recover pid app add_only) w = snd (recover_pending_mutations env pid app add_only w)"
| "perform env (List_All pid payload raw) w = snd (list_memories env pid payload raw w)"
| "perform env (Search pid payload raw) w = snd (search_memories env pid payload raw w)"
| "perform env (Query_Index pid app wide q) w = snd (query_memories env pid app wide q w)"
| "perform env (History pid mid app wide trace raw) w = snd (get_memory_history env pid mid app wide trace raw w)"
| "perform env (Mirror pid app limit cap) w = snd (mirror_direct_writes env pid app limit cap w)"
| "perform env (Reconcile pid app adopt allow project) w = snd (reconcile_memories env pid app adopt allow project w)"
| "perform env (Bulk_Delete pid app filters) w = snd (bulk_delete_memories env pid app filters w)"
| "perform env (Delete_Entity pid app kind eid) w = snd (delete_entity env pid app kind eid w)"
| "perform env (Rebuild_Entities pid app) w = snd (transact env (rebuild_entities pid app) w)"
| "perform env (Resolve pid app iid confirmed status attempts reason accept) w =
     snd (resolve_intent env pid app iid confirmed status attempts reason accept w)"
| "perform env Recover_Additions w = snd (add_recovery_run_once env w)"

definition called :: "service_env \<Rightarrow> upstream_call \<Rightarrow> world \<Rightarrow> world" where
  "called env c w = se_others env (w\<lparr>w_calls := w_calls w @ [c]\<rparr>)"

lemma ask_called: "ask env c w = (call_result (se_client env) c (se_network env (w_calls w) (call_request (se_client env) c)), called env c w)"
  by (simp add: ask_def called_def)

text \<open>What recovery and reading may do: commit transactions and send reads.\<close>

locale reading_contract =
  fixes env :: service_env and R :: "world \<Rightarrow> world \<Rightarrow> bool"
  assumes R_refl: "R w w"
    and R_trans: "R u v \<Longrightarrow> R v w \<Longrightarrow> R u w"
    and R_commit: "table_steps (w_db w) db \<Longrightarrow> R w (w\<lparr>w_db := db\<rparr>)"
    and R_read: "is_read c \<Longrightarrow> R w (called env c w)"
begin

lemma keep_pure:
  "act_keeps R (act_return x)" "act_keeps R (act_raise c t)" "act_keeps R (act_fail e)" "act_keeps R (act_res r)"
  "act_keeps R (act_result q)" "act_keeps R (inspect f)"
  by (auto simp: act_keeps_def act_return_def act_raise_def act_fail_def act_res_def act_result_def inspect_def
    R_refl split: sum.splits)

lemma keep_bind: "act_keeps R m \<Longrightarrow> (\<And>x. act_keeps R (f x)) \<Longrightarrow> act_keeps R (act_bind m f)"
  by (rule act_keepsI, auto simp: act_bind_def split: prod.splits sum.splits) (meson R_trans act_keepsD)+

lemma keep_then: "act_keeps R m \<Longrightarrow> act_keeps R n \<Longrightarrow> act_keeps R (act_then m n)"
  by (simp add: act_then_def keep_bind)

lemma keep_catch: "act_keeps R m \<Longrightarrow> (\<And>e. act_keeps R (h e)) \<Longrightarrow> act_keeps R (act_catch m h)"
  by (rule act_keepsI, auto simp: act_catch_def split: prod.splits sum.splits) (meson R_trans act_keepsD)+

lemma keep_transact: "(\<And>m. tx_steps (t m)) \<Longrightarrow> act_keeps R (transact env t)"
  by (rule act_keepsI) (auto simp: transact_def R_refl split: sum.splits dest: tx_stepsD intro!: R_commit)

lemma keep_ask: "is_read c \<Longrightarrow> act_keeps R (ask env c)"
  by (rule act_keepsI) (auto simp: ask_called R_read)

lemma keep_ask_receipt: "act_keeps R (ask_receipt env marker)"
  by (rule act_keepsI) (auto simp: ask_receipt_def ask_called R_read)

lemmas keeps = keep_pure keep_bind keep_then keep_catch keep_transact keep_ask keep_ask_receipt keep_if keep_option
  keep_prod keep_list steps is_read.simps TrueI

lemma keep_try: "(\<And>m. tx_steps (t m)) \<Longrightarrow> act_keeps R (try_transact env t)"
  unfolding try_transact_def by (intro keeps) auto

lemma keep_recover_add: "act_keeps R (recover_add_intent env iid n t)"
  unfolding recover_add_intent_def observe_add_def check_receipt_def Let_def
  by (intro keeps; (simp split: json.split list.split)?; (intro conjI allI impI)?; intro keeps) simp_all

lemma keep_recover_update: "act_keeps R (recover_update_intent env iid n)"
  unfolding recover_update_intent_def Let_def by (intro keeps) simp_all

lemma keep_observe: "act_keeps R (observe_batch env mids)"
  by (induction mids) (auto simp: still_present_def intro!: keeps)

lemma keep_observes: "act_keeps R (observe_batches env pid iid n batches)"
  by (induction batches) (auto intro!: keeps keep_observe)

lemma keep_recover_delete: "act_keeps R (recover_delete_intent env iid n)"
  unfolding recover_delete_intent_def Let_def by (intro keeps keep_observes)

lemma keep_recover_one: "act_keeps R (recover_one env pid iid)"
  unfolding recover_one_def recover_operation_def
  by (intro keeps keep_try keep_recover_add keep_recover_update keep_recover_delete)

lemma keep_recover_each: "act_keeps R (recover_each env pid iids)"
  by (induction iids) (auto intro!: keeps keep_recover_one)

lemma keep_recovery: "act_keeps R (recover_pending_mutations env pid app add_only)"
  by (rule keep_here, rule recover_pending_mutations_def) (intro keeps keep_recover_each)

lemma keep_reuse: "act_keeps R (reuse_add_intent env i fingerprint)"
  by (rule keep_here, rule reuse_add_intent_def) (intro keeps keep_recovery)

lemma keep_conclude: "act_keeps R (conclude_failure env pid iid n unknown e)"
  unfolding conclude_failure_def by (intro keeps keep_try)

lemma keep_hydrate: "act_keeps R (hydrate_memory_records env b embedded mids)"
  by (induction mids) (auto intro!: keeps)

lemma keep_finish_add: "act_keeps R (finish_add env iid n pid p a response)"
  by (rule keep_here, rule finish_add_def, unfold Let_def) (intro keeps keep_hydrate)

lemma keep_lost_race: "act_keeps R (lost_race env pid p)"
  unfolding lost_race_def by (intro keeps keep_reuse)

lemma keep_trace_failure: "act_keeps R (trace_failure env eid e)"
  unfolding trace_failure_def by (intro keeps)

lemma keep_read_memory: "act_keeps R (read_memory env pid mid app b1 b2)"
  unfolding read_memory_def by (intro keeps keep_trace_failure) simp_all

lemma keep_open_trace: "act_keeps R (open_trace env pid a)"
  unfolding open_trace_def by (intro keeps)

lemma keep_list_memories: "act_keeps R (list_memories env pid payload raw)"
  unfolding list_memories_def Let_def by (intro keeps keep_open_trace keep_trace_failure) simp_all

lemma keep_search_memories: "act_keeps R (search_memories env pid payload raw)"
  unfolding search_memories_def by (intro keeps keep_open_trace keep_trace_failure) simp_all

lemma keep_history: "act_keeps R (get_memory_history env pid mid app b1 b2 b3)"
  unfolding get_memory_history_def by (intro keeps keep_open_trace keep_trace_failure) simp_all

lemma keep_hydrate_batch: "act_keeps R (hydrate_batch env xs)"
  by (induction xs) (auto simp: hydrate_row_def intro!: keeps)

lemma keep_decision:
  "(\<And>c. act_keeps R (f c)) \<Longrightarrow> act_keeps R m \<Longrightarrow> (\<And>xs. act_keeps R (g xs)) \<Longrightarrow>
     act_keeps R (case d of Finish c \<Rightarrow> f c | Widen \<Rightarrow> m | Fetch xs \<Rightarrow> g xs)"
  by (cases d) simp_all

lemma keep_query_step: "act_keeps R (query_step env pid app q eid st)"
  unfolding query_step_def Let_def by (intro keeps keep_decision keep_hydrate_batch)

lemma keep_query_loop: "query_loop env pid app q eid st w = (r, w') \<Longrightarrow> R w w'"
proof (induction "query_measure st" arbitrary: st w rule: less_induct)
  case less
  obtain t w1 where t: "query_step env pid app q eid st w = (t, w1)" by fastforce
  have first: "R w w1" by (rule act_keepsD [OF keep_query_step t])
  show ?case
  proof (cases "\<exists>st'. t = Inr (Again st')")
    case True
    then obtain st' where st': "t = Inr (Again st')" by blast
    with less(2) t have "query_loop env pid app q eid st' w1 = (r, w')"
      by (subst (asm) query_loop.simps) simp
    with less(1) [OF query_step_decreases [OF t [unfolded st']]] first show ?thesis by (blast intro: R_trans)
  next
    case False
    with less(2) t have "w' = w1" by (subst (asm) query_loop.simps) (auto split: sum.splits query_next.splits)
    with first show ?thesis by simp
  qed
qed

lemma keep_query_memories: "act_keeps R (query_memories env pid app wide q)"
  unfolding query_memories_def
  by (intro keeps keep_open_trace keep_trace_failure act_keepsI) (rule keep_query_loop)

lemma keep_each: "(\<And>x. act_keeps R (f x)) \<Longrightarrow> act_keeps R (act_each f xs)"
  by (induction xs) (auto intro!: keeps)

lemma keep_listing: "act_keeps R (ask_listing env n)"
  unfolding ask_listing_def by (intro keeps) simp_all

lemma keep_sweep: "sweep_loop env sw after w = (r, w') \<Longrightarrow> R w w'"
proof (induction "rows_beyond after (sd_memories (w_db w))" arbitrary: after w r w' rule: less_induct)
  case less
  obtain t w1 where t: "transact env (sweep_page sw after) w = (t, w1)" by fastforce
  have first: "R w w1" by (rule act_keepsD [OF keep_transact t]) (intro steps)
  show ?case
  proof (cases "\<exists>n k. t = Inr (Some (n, k))")
    case True
    then obtain n k where nk: "t = Inr (Some (n, k))" by blast
    then have dec: "rows_beyond (Some k) (sd_memories (w_db w1)) < rows_beyond after (sd_memories (w_db w))"
      using t by (auto simp: transact_def split: sum.splits dest: sweep_page_decreases)
    obtain r2 w2 where rest: "sweep_loop env sw (Some k) w1 = (r2, w2)" by fastforce
    with less(2) t nk have "w' = w2" by (subst (asm) sweep_loop.simps) (auto split: sum.splits)
    with less(1) [OF dec rest] first show ?thesis by (blast intro: R_trans)
  next
    case False
    with less(2) t have "w' = w1" by (subst (asm) sweep_loop.simps) (auto split: sum.splits option.splits)
    with first show ?thesis by simp
  qed
qed

lemma keep_sweep_act: "act_keeps R (sweep_loop env sw after)"
  by (rule act_keepsI) (rule keep_sweep)

lemma keep_mirror: "act_keeps R (mirror_direct_writes env pid app n k)"
  by (rule keep_here, rule mirror_direct_writes_def, unfold mirror_listing_def Let_def)
    (intro keeps keep_listing keep_each keep_sweep_act)

lemma keep_run_reconcile: "act_keeps R (run_reconcile env iid n pid app adopt)"
  by (rule keep_here, rule run_reconcile_def,
      unfold reconcile_listing_def conclude_reconcile_def superseded_def Let_def)
    (intro keeps keep_listing keep_each keep_sweep_act keep_try)

lemma keep_reconcile: "act_keeps R (reconcile_memories env pid app b1 b2 project)"
  unfolding reconcile_memories_def by (intro keeps keep_recovery keep_run_reconcile)

lemma keep_snapshot: "snapshot_loop env q b after w = (r, w') \<Longrightarrow> R w w'"
proof (induction "rows_beyond after (sd_memories (w_db w))" arbitrary: after w rule: less_induct)
  case less
  obtain t w1 where t: "transact env (bulk_snapshot_page q b after) w = (t, w1)" by fastforce
  have first: "R w w1" by (rule act_keepsD [OF keep_transact t]) (intro steps)
  show ?case
  proof (cases "\<exists>k. t = Inr (Some k)")
    case True
    then obtain k where k: "t = Inr (Some k)" by blast
    then have dec: "rows_beyond (Some k) (sd_memories (w_db w1)) < rows_beyond after (sd_memories (w_db w))"
      using t by (auto simp: transact_def split: sum.splits dest: snapshot_page_decreases)
    with less(2) t k have "snapshot_loop env q b (Some k) w1 = (r, w')" by (subst (asm) snapshot_loop.simps) simp
    with less(1) [OF dec] first show ?thesis by (blast intro: R_trans)
  next
    case False
    with less(2) t have "w' = w1" by (subst (asm) snapshot_loop.simps) (auto split: sum.splits option.splits)
    with first show ?thesis by simp
  qed
qed

lemma keep_snapshot_targets: "act_keeps R (snapshot_targets env q b)"
  unfolding snapshot_targets_def by (intro keeps act_keepsI [of "snapshot_loop env q b None"] keep_snapshot)

lemma keep_conclude_bulk: "act_keeps R (conclude_bulk env q b u e)"
  unfolding conclude_bulk_def superseded_def by (intro keeps keep_try)

lemma keep_already_gone: "act_keeps R (already_gone env q b tid mid prior)"
proof (rule act_keepsI)
  fix w r w'
  assume run: "already_gone env q b tid mid prior w = (r, w')"
  let ?w = "called env (Get_Memory mid) w"
  have "R w ?w" by (rule R_read) simp
  moreover have "R ?w w'"
    using run
    by (auto simp: already_gone_def ask_called R_refl split: sum.splits if_splits
      elim!: act_keepsD [rotated] intro!: keeps keep_conclude_bulk keep_try)
  ultimately show "R w w'" by (rule R_trans)
qed

lemma keep_rebuild: "act_keeps R (transact env (rebuild_entities pid app))"
  by (intro keeps)

lemma keep_resolve: "act_keeps R (resolve_intent env pid app iid c s n r b)"
  by (rule keep_here, rule resolve_intent_def, unfold refuse_observed_marker_def Let_def) (intro keeps; simp)

lemma keep_add_recovery: "act_keeps R (add_recovery_run_once env)"
  by (rule keep_here, rule add_recovery_run_once_def, unfold recover_scope_def)
    (intro keeps keep_each keep_recovery)

lemma keep_conclude_entity: "act_keeps R (conclude_entity env d u e)"
  unfolding conclude_entity_def superseded_def by (intro keeps keep_try)

end

text \<open>What updating and deleting may do besides: send one write to a memory that exists.\<close>

locale writing_contract = reading_contract +
  assumes R_write: "\<not> is_addition c \<Longrightarrow> R w (called env c w)"
begin

lemma keep_send_update: "act_keeps R (send_update env iid n pid app mid x patch b)"
proof (rule act_keepsI)
  fix w r w'
  assume run: "send_update env iid n pid app mid x patch b w = (r, w')"
  let ?w = "called env (Update_Memory mid patch) w"
  have "R w ?w" by (rule R_write) simp
  moreover have "act_keeps R (after_update env iid n pid app mid x v b)" for v
    unfolding after_update_def by (intro keeps) simp_all
  then have "R ?w w'"
    using run
    by (auto simp: send_update_def ask_called split: sum.splits if_splits
      elim!: act_keepsD [rotated] intro!: keeps keep_conclude)
  ultimately show "R w w'" by (rule R_trans)
qed

lemma keep_send_delete: "act_keeps R (send_delete env iid n pid app mid x)"
proof (rule act_keepsI)
  fix w r w'
  assume run: "send_delete env iid n pid app mid x w = (r, w')"
  let ?w = "called env (Delete_Memory mid) w"
  have "R w ?w" by (rule R_write) simp
  moreover have "R ?w w'"
    using run
    by (auto simp: send_delete_def ask_called Let_def split: sum.splits if_splits
      elim!: act_keepsD [rotated] intro!: keeps keep_conclude)
  ultimately show "R w w'" by (rule R_trans)
qed

lemma keep_send_target_delete: "act_keeps R (send_target_delete env q b tid mid prior)"
proof (rule act_keepsI)
  fix w r w'
  assume run: "send_target_delete env q b tid mid prior w = (r, w')"
  let ?w = "called env (Delete_Memory mid) w"
  have "R w ?w" by (rule R_write) simp
  moreover have "R ?w w'"
    using run
    by (auto simp: send_target_delete_def ask_called bulk_failed_def R_refl split: sum.splits if_splits
      elim!: act_keepsD [rotated] intro!: keeps keep_conclude_bulk)
  ultimately show "R w w'" by (rule R_trans)
qed

lemma keep_delete_target: "act_keeps R (delete_target env q b t)"
  unfolding delete_target_def bulk_failed_def Let_def
  by (intro keeps keep_already_gone keep_send_target_delete)

lemma keep_delete_rounds: "act_keeps R (delete_rounds env q b n)"
  by (induction n) (auto intro!: keeps keep_each keep_delete_target)

lemma keep_bulk_delete: "act_keeps R (bulk_delete_memories env pid app filters)"
  unfolding bulk_delete_memories_def run_bulk_delete_def
  by (intro keeps keep_snapshot_targets keep_conclude_bulk keep_delete_rounds)

lemma keep_send_deletions: "act_keeps R (send_deletions env mids)"
proof (induction mids)
  case Nil
  show ?case by (rule act_keepsI) (simp add: R_refl)
next
  case (Cons mid mids)
  have rest: "act_keeps R (act_bind (send_deletions env mids) (\<lambda>(ds, stop). act_return (f ds stop)))" for f
    by (intro keeps Cons)
  show ?case
  proof (rule act_keepsI)
    fix w r w'
    assume run: "send_deletions env (mid # mids) w = (r, w')"
    let ?w = "called env (Delete_Memory mid) w"
    have "R w ?w" by (rule R_write) simp
    moreover have "R ?w w'"
      using run by (auto simp: ask_called R_refl split: sum.splits if_splits elim!: act_keepsD [OF rest])
    ultimately show "R w w'" by (rule R_trans)
  qed
qed

lemma keep_delete_batches: "act_keeps R (delete_batches env d p batches)"
proof (induction batches arbitrary: p)
  case Nil
  show ?case by (rule act_keepsI) (simp add: R_refl)
next
  case (Cons batch batches)
  show ?case
  proof (rule act_keepsI)
    fix w r w'
    assume run: "delete_batches env d p (batch # batches) w = (r, w')"
    obtain x w1 where x: "send_deletions env batch w = (x, w1)" by fastforce
    have first: "R w w1" by (rule act_keepsD [OF keep_send_deletions x])
    show "R w w'"
    proof (cases x)
      case (Inl e)
      with run x first show ?thesis by simp
    next
      case (Inr os)
      obtain outcomes stop where os: "os = (outcomes, stop)" by (cases os)
      obtain y w2 where y: "(if outcomes = [] then (Inr (), w1) else transact env (settle_deletions env d outcomes) w1) = (y, w2)"
        by fastforce
      have "R w1 w2"
        using y by (auto simp: R_refl split: if_splits elim!: act_keepsD [rotated] intro!: keeps)
      with first have second: "R w w2" by (rule R_trans)
      show ?thesis
        using run x Inr os y second Cons
        by (auto simp: Let_def split: sum.splits option.splits intro: R_trans dest: act_keepsD [OF Cons])
    qed
  qed
qed

lemma keep_delete_entity: "act_keeps R (delete_entity env pid app kind eid)"
  unfolding delete_entity_def run_delete_entity_def
  by (intro keeps keep_recovery keep_delete_batches keep_conclude_entity)

lemma keep_update_memory: "act_keeps R (update_memory env pid mid app b payload c)"
  unfolding update_memory_def by (intro keeps keep_recovery keep_send_update)

lemma keep_delete_memory: "act_keeps R (delete_memory env pid mid app b)"
  unfolding delete_memory_def by (intro keeps keep_recovery keep_send_delete)

end

text \<open>
  What adding may do: commit the intent of the addition and send it, in one go as far as the tables
  are concerned, since nothing is read in between.
\<close>

locale adding_contract = writing_contract +
  assumes R_add: "plan_add env token pid d key db1 = Inr p \<Longrightarrow> start_add env pid p db2 = Inr a \<Longrightarrow>
    begin_add env pid p a m (w_db w) = Inr (i, db) \<Longrightarrow> R w (called env (Add_Memory (as_payload a)) (w\<lparr>w_db := db\<rparr>))"
begin

lemma sent_add:
  assumes "plan_add env token pid d key db1 = Inr p" "start_add env pid p db2 = Inr a"
    and "transact env (begin_add env pid p a) w = (Inr i, w1)"
    and "send_add env iid n pid p a w1 = (r, w')"
  shows "R w w'"
proof -
  from assms(3) obtain db where db: "begin_add env pid p a (moment_of env w) (w_db w) = Inr (i, db)" "w1 = w\<lparr>w_db := db\<rparr>"
    by (auto simp: transact_def split: sum.splits)
  let ?w = "called env (Add_Memory (as_payload a)) w1"
  have "R w ?w" unfolding db(2) by (rule R_add [OF assms(1,2) db(1)])
  moreover have "R ?w w'"
    using assms(4)
    by (auto simp: send_add_def ask_called split: sum.splits
      elim!: act_keepsD [rotated] intro!: keeps keep_conclude keep_finish_add)
  ultimately show ?thesis by (rule R_trans)
qed

lemma keep_begin_and_send:
  assumes "plan_add env token pid d key db1 = Inr p" "start_add env pid p db2 = Inr a"
  shows "act_keeps R (act_bind (act_catch (act_bind (transact env (begin_add env pid p a)) (\<lambda>i. act_return (Some i)))
         (\<lambda>e. if is_integrity_error e then act_return None else act_fail e)) (\<lambda>created.
       case created of
         None \<Rightarrow> lost_race env pid p
       | Some i \<Rightarrow> send_add env (int_id i) (int_attempt_count i) pid p a))"
proof (rule act_keepsI)
  fix w r w'
  assume run: "act_bind (act_catch (act_bind (transact env (begin_add env pid p a)) (\<lambda>i. act_return (Some i)))
         (\<lambda>e. if is_integrity_error e then act_return None else act_fail e)) (\<lambda>created.
       case created of
         None \<Rightarrow> lost_race env pid p
       | Some i \<Rightarrow> send_add env (int_id i) (int_attempt_count i) pid p a) w = (r, w')"
  obtain x w1 where t: "transact env (begin_add env pid p a) w = (x, w1)" by fastforce
  show "R w w'"
  proof (cases x)
    case (Inl e)
    with t have "w1 = w" by (auto simp: transact_def split: sum.splits)
    with run t Inl show ?thesis
      by (auto simp: act_bind_def act_catch_def act_return_def act_fail_def R_refl split: if_splits
        elim!: act_keepsD [OF keep_lost_race])
  next
    case (Inr i)
    with run t have "send_add env (int_id i) (int_attempt_count i) pid p a w1 = (r, w')"
      by (simp add: act_bind_def act_catch_def act_return_def)
    with assms t Inr show ?thesis by (auto intro: sent_add)
  qed
qed

lemma keep_inspect_bind:
  assumes "\<And>db x. q db = Inr x \<Longrightarrow> act_keeps R (f x)"
  shows "act_keeps R (act_bind (inspect q) f)"
proof (rule act_keepsI)
  fix w r w' assume "act_bind (inspect q) f w = (r, w')"
  then show "R w w'"
    by (auto simp: act_bind_def inspect_def R_refl split: sum.splits elim!: act_keepsD [OF assms])
qed

lemma keep_new_add:
  assumes "plan_add env token pid d key db1 = Inr p"
  shows "act_keeps R (new_add env pid p)"
  unfolding new_add_def
  by (rule keep_inspect_bind) (intro keep_then keep_recovery keep_begin_and_send [OF assms])

lemma keep_add_memory: "act_keeps R (add_memory env pid d key)"
  by (rule keep_here, rule add_memory_def)
    (intro keep_inspect_bind keep_bind keep_option keep_pure keep_reuse keep_new_add)

lemma keep_perform: "R w (perform env q w)"
proof -
  note ops = keep_add_memory keep_update_memory keep_delete_memory keep_read_memory keep_recovery
    keep_list_memories keep_search_memories keep_query_memories keep_history keep_mirror keep_reconcile keep_bulk_delete
    keep_delete_entity keep_rebuild keep_resolve keep_add_recovery
  show ?thesis
    by (cases q) (simp_all add: ops [THEN act_keepsD, OF surjective_pairing])
qed

end

end
