(* ===== verification/Service_Safety.thy ===== *)
theory Service_Safety
  imports Service_Steps
begin

text \<open>
  What the memory service guarantees while any number of clients use it: no addition is sent
  twice, recovery sends no mutation, one mutation at a time in a scope, and tables that stay well
  formed.  The first three rest on abstract relations that the contracts of \<open>Service_Steps\<close> show
  every operation to respect.
\<close>

section \<open>The protocol of additions\<close>

type_synonym operation_key = "string \<times> string \<times> string \<times> string"

definition text_of :: "json \<Rightarrow> string" where
  "text_of v = (case v of JStr s \<Rightarrow> s | _ \<Rightarrow> [])"

definition addition_key :: "json dict \<Rightarrow> operation_key" where
  "addition_key payload =
     (let metadata = jobject (jget payload ''metadata'') in
      (text_of (jget metadata PROJECT_MARKER), text_of (jget metadata APP_MARKER), ''memory.add'',
       text_of (jget metadata MUTATION_MARKER)))"

fun call_key :: "upstream_call \<Rightarrow> operation_key option" where
  "call_key (Add_Memory payload) = Some (addition_key payload)"
| "call_key c = None"

text \<open>The additions sent, in order, by the markers they carry.\<close>

definition sent_additions :: "upstream_call list \<Rightarrow> operation_key list" where
  "sent_additions calls = List.map_filter call_key calls"

definition intent_keys :: "intent_store \<Rightarrow> operation_key list" where
  "intent_keys st = map intent_key (is_intents st)"

text \<open>
  The specification: an operation enters its key, which must be new; an addition is sent in the
  step that enters its key.
\<close>

type_synonym protocol = "operation_key list \<times> operation_key list"

inductive protocol_step :: "protocol \<Rightarrow> protocol \<Rightarrow> bool" where
  enter: "k \<notin> set ks \<Longrightarrow> protocol_step (ks, sent) (ks @ [k], sent)"
| send: "k \<notin> set ks \<Longrightarrow> protocol_step (ks, sent) (ks @ [k], sent @ [k])"

abbreviation protocol_steps :: "protocol \<Rightarrow> protocol \<Rightarrow> bool" where
  "protocol_steps \<equiv> protocol_step\<^sup>*\<^sup>*"

inductive_cases protocol_stepE: "protocol_step p q"

definition protocol_ok :: "protocol \<Rightarrow> bool" where
  "protocol_ok p = (distinct (fst p) \<and> distinct (snd p) \<and> set (snd p) \<subseteq> set (fst p))"

lemma protocol_step_ok: "protocol_step p q \<Longrightarrow> protocol_ok p \<Longrightarrow> protocol_ok q"
  by (auto simp: protocol_ok_def elim!: protocol_stepE)

lemma protocol_steps_ok: "protocol_steps p q \<Longrightarrow> protocol_ok p \<Longrightarrow> protocol_ok q"
  by (induction rule: rtranclp_induct) (auto intro: protocol_step_ok)

definition protocol_of :: "world \<Rightarrow> protocol" where
  "protocol_of w = (intent_keys (sd_intents (w_db w)), sent_additions (w_calls w))"

definition distinct_ids :: "intent_store \<Rightarrow> bool" where
  "distinct_ids st = distinct (map int_id (is_intents st))"

subsection \<open>What the operations on intents do to the keys\<close>

text \<open>The same rows by identifier and key.\<close>

definition same_rows :: "intent_store \<Rightarrow> intent_store \<Rightarrow> bool" where
  "same_rows st st' = (map int_id (is_intents st') = map int_id (is_intents st) \<and> intent_keys st' = intent_keys st)"

lemma same_rows_refl: "same_rows st st"
  by (simp add: same_rows_def)

lemma same_rows_targets: "is_intents st' = is_intents st \<Longrightarrow> same_rows st st'"
  by (simp add: same_rows_def intent_keys_def)

lemma same_rows_save:
  assumes "distinct_ids st" "row_by int_id iid (is_intents st) = Some i" "int_id i' = int_id i" "intent_key i' = intent_key i"
  shows "same_rows st (save_intent i' st)"
proof -
  have i: "i \<in> set (is_intents st)" using row_by_Some [OF assms(2)] by simp
  have "j = i" if "j \<in> set (is_intents st)" "int_id j = int_id i" for j
    using that i assms(1) by (metis distinct_ids_def distinct_map inj_onD)
  then show ?thesis
    using assms(3,4) by (auto simp: same_rows_def intent_keys_def save_intent_def save_def)
qed

lemma same_rows_reclaim:
  "same_rows st (st\<lparr>is_intents := update_where m (reclaim now snap) (is_intents st)\<rparr>)"
  by (auto simp: same_rows_def intent_keys_def update_where_def reclaim_def intent_key_def)

lemma same_rows_unresolved:
  "mark_unresolved safe now iid e st = Inr (i, st') \<Longrightarrow> distinct_ids st \<Longrightarrow> same_rows st st'"
  by (auto simp: mark_unresolved_def res_simps Let_def intent_key_def intro!: same_rows_save)

lemma same_rows_saved:
  "update_payload safe now iid d ks st = Inr (i, st') \<Longrightarrow> distinct_ids st \<Longrightarrow> same_rows st st'"
  "fail_intent safe now iid d s r st = Inr (i, st') \<Longrightarrow> distinct_ids st \<Longrightarrow> same_rows st st'"
  "complete_intent safe now iid d st = Inr (i, st') \<Longrightarrow> distinct_ids st \<Longrightarrow> same_rows st st'"
  "point_to_event iid eid st = Inr (i, st') \<Longrightarrow> distinct_ids st \<Longrightarrow> same_rows st st'"
  by (auto simp: point_to_event_def update_payload_def fail_intent_def complete_intent_def res_simps Let_def intent_key_def
      intro!: same_rows_save split: if_splits)

lemma same_rows_targeted:
  "add_targets tid now iid ms st = Inr (rows, st') \<Longrightarrow> same_rows st st'"
  "add_target_batch tid now iid ms st = Inr (rows, st') \<Longrightarrow> same_rows st st'"
  "same_rows st (mark_target_succeeded now tid' st)"
  "mark_target_failed safe now t d st = Inr st' \<Longrightarrow> same_rows st st'"
  by (auto simp: add_targets_def add_target_batch_def insert_targets_def mark_target_succeeded_def
      mark_target_failed_def res_simps Let_def intro!: same_rows_targets split: if_splits)

lemma same_rows_claim:
  assumes "claim_recovery safe now snap st = Inr (b, st')" "distinct_ids st"
  shows "same_rows st st'"
  using assms unfolding claim_recovery_def
  by (auto simp: Let_def res_simps same_rows_refl same_rows_reclaim dest: same_rows_unresolved split: if_splits prod.splits)

lemma row_by_own:
  "distinct_ids st \<Longrightarrow> i \<in> set (is_intents st) \<Longrightarrow> row_by int_id (int_id i) (is_intents st) = Some i"
  by (rule row_by_mem) (auto simp: distinct_ids_def)

lemma create_intent_keys:
  assumes "create_intent safe nid tid tok now pid app ev op payload ms key st = Inr (i, st')"
  defines "k \<equiv> (pid, app, op, case key of None \<Rightarrow> tok | Some k \<Rightarrow> if k = [] then tok else k)"
  shows "k \<notin> set (intent_keys st)" "intent_keys st' = intent_keys st @ [k]" "distinct_ids st \<Longrightarrow> distinct_ids st'"
    "is_intents st' = is_intents st @ [i]" "int_status i = ''ACTIVE''"
  using assms(1) unfolding k_def
  by (auto simp: create_intent_def Let_def res_simps intent_keys_def intent_key_def new_intent_def
      find_by_operation_key_def find_None_iff add_targets_def insert_targets_def distinct_ids_def
      split: if_splits prod.splits)

lemma intent_step_keys:
  assumes "intent_step st st'" "distinct_ids st"
  shows "same_rows st st' \<or> distinct_ids st' \<and> (\<exists>k. k \<notin> set (intent_keys st) \<and> intent_keys st' = intent_keys st @ [k])"
  using assms
proof (induction rule: intent_step.induct)
  case (created safe nid tid tok now pid app ev op payload ms key st i st')
  then show ?case using create_intent_keys(1-3) [OF created(1)] by blast
next
  case (claimed safe now snap st b st')
  then show ?case using same_rows_claim by blast
next
  case (renewed now iid n st i st')
  then obtain j where j: "require_active_attempt iid n None st = Inr j"
    and st': "st' = save_intent (j\<lparr>int_lease_expires_at := Some (now + LEASE), int_updated_at := now\<rparr>) st"
    by (auto simp: renew_active_attempt_def res_simps Let_def)
  from j have "j \<in> set (is_intents st)" by (auto dest: require_active_attempt_Inr)
  with renewed(2) st' show ?case
    by (intro disjI1) (auto simp: intent_key_def intro!: same_rows_save [OF renewed(2) row_by_own])
qed (blast intro: same_rows_saved same_rows_targeted same_rows_unresolved)+

lemma table_step_protocol:
  assumes "table_step db db'" "distinct_ids (sd_intents db)"
  shows "distinct_ids (sd_intents db') \<and> protocol_steps (intent_keys (sd_intents db), sent) (intent_keys (sd_intents db'), sent)"
  using assms
proof (induction rule: table_step.induct)
  case (intents_step db st)
  from intent_step_keys [OF this] show ?case
  proof
    assume "same_rows (sd_intents db) st"
    then show ?thesis using intents_step(2) by (simp add: same_rows_def distinct_ids_def)
  next
    assume new: "distinct_ids st \<and> (\<exists>k. k \<notin> set (intent_keys (sd_intents db)) \<and> intent_keys st = intent_keys (sd_intents db) @ [k])"
    then obtain k where "k \<notin> set (intent_keys (sd_intents db))" "intent_keys st = intent_keys (sd_intents db) @ [k]" by blast
    then have "protocol_step (intent_keys (sd_intents db), sent) (intent_keys st, sent)" by (simp add: enter)
    with new show ?thesis by auto
  qed
qed auto

lemma table_steps_protocol:
  assumes "table_steps db db'" "distinct_ids (sd_intents db)"
  shows "distinct_ids (sd_intents db') \<and> protocol_steps (intent_keys (sd_intents db), sent) (intent_keys (sd_intents db'), sent)"
  using assms
proof (induction rule: rtranclp_induct)
  case (step y z)
  then show ?case using table_step_protocol [OF step(2), of sent] by (meson rtranclp_trans)
qed simp

subsection \<open>Additions carry the key they enter\<close>

lemma dget_filter: "dget (filter (\<lambda>(k, _). k \<notin> S) d) k = (if k \<in> S then None else dget d k)"
  by (induction d) auto

lemma dget_dupdate: "dget (dupdate d e) k = (case dget (rev e) k of None \<Rightarrow> dget d k | Some v \<Rightarrow> Some v)"
  unfolding dupdate_def by (induction e arbitrary: d) (auto simp: map_add_def split: option.splits)

lemma prompted_metadata: "dget (prompted s ag hp payload clean) ''metadata'' = dget clean ''metadata''"
  by (simp add: prompted_def Let_def)

lemma policy_keeps_metadata:
  assumes "apply_extraction_policy to_int ps cs sc payload enabled = Inr r"
  shows "dget r ''metadata'' = dget payload ''metadata''"
proof -
  have not_plugin: "''metadata'' \<notin> set PLUGIN_FIELDS" by (simp add: PLUGIN_FIELDS_def)
  show ?thesis
    by (rule apply_extraction_policyE [OF assms]) (simp add: Let_def dget_filter prompted_metadata not_plugin)
qed

lemma owner_fields_metadata: "dget (rev (owner_fields sc)) ''metadata'' = None"
  by (simp add: owner_fields_def List.map_filter_simps split: option.splits list.splits)

lemma dget_sidecar:
  "jget (with_sidecar_scope m sc) PROJECT_MARKER = JStr (scope_project_id sc)"
  "jget (with_sidecar_scope m sc) APP_MARKER = JStr (scope_app_id sc)"
  by (simp_all add: with_sidecar_scope_def dupdate_def sidecar_scope_metadata_def PROJECT_MARKER_def APP_MARKER_def jget_def)

lemma plan_addE:
  assumes "plan_add env token pid d key db = Inr p"
  obtains oss where "scope_project_id (ap_scope p) = pid"
    "oss_add_payload (se_to_bool env) d (ap_scope p) = Inr oss" "ap_payload p = dupdate oss (owner_fields (ap_scope p))"
    "operation_marker (se_sha256 env) (se_float_text env) token pid (scope_app_id (ap_scope p)) ''memory.add'' (ap_key p)
      = Inr (ap_mutation_id p)"
proof -
  from assms obtain sc oss where "normalize_scope (JStr pid) (jget d ''user_id'') (jget d ''app_id'')
         (jget d ''agent_id'') (jget d ''run_id'') = Inr sc"
    "oss_add_payload (se_to_bool env) d sc = Inr oss" "ap_scope p = sc" "ap_payload p = dupdate oss (owner_fields sc)"
    "operation_marker (se_sha256 env) (se_float_text env) token pid (scope_app_id sc) ''memory.add'' (ap_key p)
      = Inr (ap_mutation_id p)"
    unfolding plan_add_def Let_def by (auto simp: rbind_Inr_iff)
  then show ?thesis using that by (auto simp: normalize_scope_Inr)
qed

lemma planned_metadata:
  assumes "plan_add env token pid d key db = Inr p"
  shows "\<exists>m. jget (ap_payload p) ''metadata'' = JObj (with_sidecar_scope m (ap_scope p))"
proof -
  obtain oss where "oss_add_payload (se_to_bool env) d (ap_scope p) = Inr oss" "ap_payload p = dupdate oss (owner_fields (ap_scope p))"
    using assms by (rule plan_addE)
  then show ?thesis
    by (auto simp: oss_add_payload_def Let_def rbind_Inr_iff jget_def dget_dupdate owner_fields_metadata)
qed

lemma started_key:
  assumes p: "plan_add env token pid d key db1 = Inr p" and a: "start_add env pid p db2 = Inr a"
  shows "addition_key (as_payload a) = (pid, scope_app_id (ap_scope p), ''memory.add'', ap_mutation_id p)"
proof -
  obtain m where m: "jget (ap_payload p) ''metadata'' = JObj (with_sidecar_scope m (ap_scope p))"
    using planned_metadata [OF p] by blast
  obtain oss where "apply_extraction_policy (se_to_int env) (sd_projects db2) (sd_categories db2) (ap_scope p) (ap_payload p)
      (ap_categories p) = Inr oss"
    "as_payload a = dset ''metadata'' (JObj (dset MUTATION_MARKER (JStr (ap_mutation_id p)) (jobject (jget oss ''metadata'')))) oss"
    using a unfolding start_add_def Let_def by (auto simp: rbind_Inr_iff)
  with policy_keeps_metadata m have
    "jget (as_payload a) ''metadata'' = JObj (dset MUTATION_MARKER (JStr (ap_mutation_id p)) (with_sidecar_scope m (ap_scope p)))"
    by (simp add: jget_def jobject_def)
  moreover have "scope_project_id (ap_scope p) = pid" using p by (rule plan_addE)
  moreover have "jget (dset MUTATION_MARKER v e) PROJECT_MARKER = jget e PROJECT_MARKER"
    "jget (dset MUTATION_MARKER v e) APP_MARKER = jget e APP_MARKER" "jget (dset MUTATION_MARKER v e) MUTATION_MARKER = v" for v e
    by (simp_all add: jget_def MUTATION_MARKER_def PROJECT_MARKER_def APP_MARKER_def)
  ultimately show ?thesis
    using dget_sidecar by (simp add: addition_key_def Let_def jobject_def text_of_def)
qed

text \<open>The digest of a text is not empty.\<close>

definition digests :: "service_env \<Rightarrow> bool" where
  "digests env = (\<forall>s. se_sha256 env s \<noteq> [])"

lemma marker_nonempty:
  assumes "digests env" "plan_add env token pid d key db = Inr p"
  shows "ap_mutation_id p \<noteq> []"
  using assms(2) by (rule plan_addE)
    (use assms(1) in \<open>auto simp: operation_marker_def canonical_fingerprint_def digests_def split: if_splits\<close>)

lemma begin_addE:
  assumes "begin_add env pid p a m db = Inr (i, db')"
  obtains safe e payload st where
    "create_intent safe (mo_id m Intent_Id) (\<lambda>n. mo_id m (Target_Id (mo_id m Intent_Id) n)) (mo_id m Operation_Token) (mo_now m)
       pid (scope_app_id (ap_scope p)) e ''memory.add'' payload [] (Some (ap_mutation_id p)) (sd_intents db) = Inr (i, st)"
    "sd_intents db' = st"
  using assms
  by (auto simp: begin_add_def Let_def tx_bind_def svc_create_event_def tx_events_def svc_sanitize_def tx_query_def
      tx_raise_def svc_create_intent_def intent_op_def tx_intents_def split: sum.splits prod.splits if_splits)

section \<open>Every operation follows the protocol\<close>

definition follows :: "world \<Rightarrow> world \<Rightarrow> bool" where
  "follows w w' = (distinct_ids (sd_intents (w_db w)) \<longrightarrow>
     distinct_ids (sd_intents (w_db w')) \<and> protocol_steps (protocol_of w) (protocol_of w'))"

definition honest :: "service_env \<Rightarrow> bool" where
  "honest env = (digests env \<and> (\<forall>w. follows w (se_others env w)))"

lemma follows_refl: "follows w w"
  by (simp add: follows_def)

lemma follows_trans: "follows u v \<Longrightarrow> follows v w \<Longrightarrow> follows u w"
  by (auto simp: follows_def)

lemma follows_commit: "table_steps (w_db w) db \<Longrightarrow> follows w (w\<lparr>w_db := db\<rparr>)"
  by (simp add: follows_def protocol_of_def table_steps_protocol)

lemma follows_call: "\<not> is_addition c \<Longrightarrow> follows w (w\<lparr>w_calls := w_calls w @ [c]\<rparr>)"
  by (cases c) (simp_all add: follows_def protocol_of_def sent_additions_def List.map_filter_def)

lemma follows_called: "honest env \<Longrightarrow> \<not> is_addition c \<Longrightarrow> follows w (called env c w)"
  unfolding called_def honest_def using follows_call follows_trans by blast

lemma follows_sent:
  assumes "digests env" "plan_add env token pid d key db1 = Inr p" "start_add env pid p db2 = Inr a"
    and "begin_add env pid p a m (w_db w) = Inr (i, db)"
  shows "follows w (w\<lparr>w_db := db, w_calls := w_calls w @ [Add_Memory (as_payload a)]\<rparr>)"
proof -
  let ?k = "(pid, scope_app_id (ap_scope p), ''memory.add'', ap_mutation_id p)"
  have m: "ap_mutation_id p \<noteq> []" using marker_nonempty [OF assms(1,2)]  .
  obtain safe e payload st where c: "create_intent safe (mo_id m Intent_Id) (\<lambda>n. mo_id m (Target_Id (mo_id m Intent_Id) n))
       (mo_id m Operation_Token) (mo_now m) pid (scope_app_id (ap_scope p)) e ''memory.add'' payload []
       (Some (ap_mutation_id p)) (sd_intents (w_db w)) = Inr (i, st)" "sd_intents db = st"
    using assms(4) by (rule begin_addE)
  have key: "?k \<notin> set (intent_keys (sd_intents (w_db w)))" "intent_keys st = intent_keys (sd_intents (w_db w)) @ [?k]"
    using create_intent_keys(1,2) [OF c(1)] m by simp_all
  have "sent_additions (w_calls w @ [Add_Memory (as_payload a)]) = sent_additions (w_calls w) @ [?k]"
    using started_key [OF assms(2,3)] by (simp add: sent_additions_def List.map_filter_def)
  then show ?thesis
    using send [OF key(1)] create_intent_keys(3) [OF c(1)] c(2) key(2)
    by (auto simp: follows_def protocol_of_def intro!: r_into_rtranclp)
qed

lemma follows_add:
  assumes "honest env" "plan_add env token pid d key db1 = Inr p" "start_add env pid p db2 = Inr a"
    and "begin_add env pid p a m (w_db w) = Inr (i, db)"
  shows "follows w (called env (Add_Memory (as_payload a)) (w\<lparr>w_db := db\<rparr>))"
  using follows_trans [OF follows_sent [OF _ assms(2-4)]] assms(1) by (simp add: honest_def called_def)

interpretation protocol: adding_contract env "\<lambda>w w'. honest env \<longrightarrow> follows w w'" for env
proof unfold_locales
  show "honest env \<longrightarrow> follows u w" if "honest env \<longrightarrow> follows u v" "honest env \<longrightarrow> follows v w" for u v w
    using that follows_trans by blast
  show "honest env \<longrightarrow> follows w (called env c w)" if "is_read c" for c w
    using that follows_called by (cases c) auto
qed (auto simp: follows_refl follows_commit follows_called follows_add)

section \<open>Runs of many clients\<close>

text \<open>
  A run serves requests one after the other; while each of them waits for the upstream service,
  the others make runs of their own.  A client may also die after it sent an addition.
\<close>

inductive service_run :: "world \<Rightarrow> world \<Rightarrow> bool" where
  idle: "service_run w w"
| served: "service_run w u \<Longrightarrow> digests env \<Longrightarrow> (\<And>v. service_run v (se_others env v)) \<Longrightarrow>
    service_run w (perform env q u)"
| died: "service_run w u \<Longrightarrow> digests env \<Longrightarrow> plan_add env token pid d key db1 = Inr p \<Longrightarrow>
    start_add env pid p db2 = Inr a \<Longrightarrow> begin_add env pid p a m (w_db u) = Inr (i, db) \<Longrightarrow>
    service_run w (u\<lparr>w_db := db, w_calls := w_calls u @ [Add_Memory (as_payload a)]\<rparr>)"

text \<open>A relation that is respected by one operation among others is respected by a run.\<close>

lemma follows_perform: "honest env \<Longrightarrow> follows u (perform env q u)"
  using protocol.keep_perform [of env u q] by blast

lemma run_follows: "service_run w w' \<Longrightarrow> follows w w'"
proof (induction rule: service_run.induct)
  case (idle w)
  show ?case by (rule follows_refl)
next
  case (served w u env q)
  then have "honest env" by (simp add: honest_def)
  with served.IH(1) show ?case using follows_perform follows_trans by blast
next
  case (died w u env token pid d key db1 p db2 a m i db)
  then show ?case using follows_trans follows_sent by blast
qed

text \<open>
  C1: No addition is sent twice.  In any run of any number of clients that starts with no intents,
  whatever the interleaving of their work at the calls of the upstream service, the answers of
  the network, interruptions, and clients that die with an addition under way: the additions sent
  carry pairwise different markers, and each of them is the key of an intent that was committed.
  Since a marker is the fingerprint of the idempotency key, an idempotency key is sent once.
\<close>

theorem additions_sent_once:
  assumes "service_run \<lparr>w_db = db, w_calls = []\<rparr> w" "is_intents (sd_intents db) = []"
  shows "distinct (sent_additions (w_calls w))
    \<and> set (sent_additions (w_calls w)) \<subseteq> set (intent_keys (sd_intents (w_db w)))
    \<and> length (sent_additions (w_calls w)) = length (filter is_addition (w_calls w))"
proof -
  have "protocol_steps ([], []) (protocol_of w)"
    using run_follows [OF assms(1)] assms(2)
    by (simp add: follows_def protocol_of_def distinct_ids_def intent_keys_def sent_additions_def List.map_filter_simps)
  then have "protocol_ok (protocol_of w)" by (rule protocol_steps_ok) (simp add: protocol_ok_def)
  moreover have "length (sent_additions cs) = length (filter is_addition cs)" for cs
    unfolding sent_additions_def
  proof (induction cs)
    case (Cons c cs)
    then show ?case by (cases c) (simp_all add: List.map_filter_simps)
  qed (simp add: List.map_filter_simps)
  ultimately show ?thesis by (simp add: protocol_ok_def protocol_of_def)
qed

section \<open>Recovery only observes\<close>

definition writes :: "upstream_call list \<Rightarrow> upstream_call list" where
  "writes calls = filter (\<lambda>c. \<not> is_read c) calls"

definition quiet :: "service_env \<Rightarrow> bool" where
  "quiet env = (\<forall>w. writes (w_calls (se_others env w)) = writes (w_calls w))"

interpretation observing: reading_contract env
  "\<lambda>w w'. quiet env \<longrightarrow> writes (w_calls w') = writes (w_calls w)" for env
  by unfold_locales (auto simp: quiet_def writes_def called_def)

text \<open>
  C2: Recovery never repeats a mutation.  Whatever intents are open, whatever the network answers
  and however often it fails, recovering a scope, and reading a memory, send only reads: as long
  as no other client sends an addition, an update or a deletion meanwhile, none is sent.
\<close>

theorem recovery_only_observes:
  assumes "quiet env"
  shows "writes (w_calls (snd (recover_pending_mutations env pid app add_only w))) = writes (w_calls w)
    \<and> writes (w_calls (snd (read_memory env pid mid app' wide trace w))) = writes (w_calls w)"
  using act_keepsD [OF observing.keep_recovery surjective_pairing]
    act_keepsD [OF observing.keep_read_memory surjective_pairing] assms by blast

section \<open>The tables stay well formed\<close>

definition tables_ok :: "svc_db \<Rightarrow> bool" where
  "tables_ok db = (intents_ok (sd_intents db) \<and> index_ok (sd_memories db))"

lemma table_steps_ok: "table_steps db db' \<Longrightarrow> tables_ok db \<Longrightarrow> tables_ok db'"
proof (induction rule: rtranclp_induct)
  case (step y z)
  then show ?case
    by (auto simp: tables_ok_def elim!: table_step.cases intro: intent_step_ok index_step_ok)
qed

definition careful :: "service_env \<Rightarrow> bool" where
  "careful env = (\<forall>w. tables_ok (w_db w) \<longrightarrow> tables_ok (w_db (se_others env w)))"

lemma careful_call: "careful env \<Longrightarrow> tables_ok (w_db w) \<Longrightarrow> tables_ok (w_db (called env c w))"
  by (simp add: careful_def called_def)

lemma begin_add_steps: "begin_add env pid p a m db = Inr (i, db') \<Longrightarrow> table_steps db db'"
  by (rule tx_stepsD [OF steps_service(2)])

interpretation sound: adding_contract env
  "\<lambda>w w'. careful env \<longrightarrow> tables_ok (w_db w) \<longrightarrow> tables_ok (w_db w')" for env
  by unfold_locales (auto intro!: careful_call dest: table_steps_ok table_steps_ok [OF begin_add_steps])

text \<open>
  C34: Every run of the service keeps the tables well formed: in a run that starts with intents and
  an index that satisfy their invariants, whatever the upstream service answers, every intent has
  between one and three attempts and a lease exactly while it is active, no two intents share an
  operation key, targets are numbered without a gap, and the index has one row per memory, with
  consistent marker and consolidation columns.
\<close>

theorem runs_keep_tables_ok:
  assumes "service_run w w'" "tables_ok (w_db w)"
  shows "tables_ok (w_db w')"
  using assms
proof (induction rule: service_run.induct)
  case (served w u env q)
  then have "careful env" by (simp add: careful_def)
  with served.IH(1) served.prems show ?case using sound.keep_perform [of env u q] by blast
next
  case (died w u env token pid d key db1 p db2 a m i db)
  then show ?case using table_steps_ok begin_add_steps by fastforce
qed simp

section \<open>One mutation at a time\<close>

lemma no_blockers: "list_blocking pid app st = [] \<longleftrightarrow> (\<forall>i \<in> set (is_intents st). \<not> (int_project_id i = pid
    \<and> int_app_id i = app \<and> int_status i \<in> set BLOCKING_STATUSES))"
proof -
  have "take RECOVERY_LIMIT xs = [] \<longleftrightarrow> xs = []" for xs :: "mutation_intent list" by (simp add: RECOVERY_LIMIT_def)
  moreover have "sort_key f xs = [] \<longleftrightarrow> xs = []" for f :: "mutation_intent \<Rightarrow> int \<times> string" and xs
    by (metis length_0_conv length_sort)
  ultimately show ?thesis by (auto simp: list_blocking_def filter_empty_conv)
qed

lemma recovery_clears:
  assumes "recover_pending_mutations env pid app add_only w = (Inr counts, w')"
  shows "list_blocking pid app (sd_intents (w_db w')) = []"
  using assms
  by (auto simp: recover_pending_mutations_def act_bind_def inspect_def act_return_def blockers_gone_def check_blockers_def
      rbind_def split: prod.splits sum.splits if_splits)

lemma created_alone:
  assumes none: "list_blocking pid app st = []"
    and run: "create_intent safe nid tid tok now pid app ev op payload ms key st = Inr (i, st')"
  shows "list_blocking pid app st' = [i]"
proof -
  have "int_project_id i = pid" "int_app_id i = app"
    using run by (auto simp: create_intent_def Let_def res_simps new_intent_def split: if_splits prod.splits)
  then have "filter (\<lambda>j. int_project_id j = pid \<and> int_app_id j = app \<and> int_status j \<in> set BLOCKING_STATUSES) (is_intents st') = [i]"
    using none create_intent_keys(4,5) [OF run] by (auto simp: no_blockers filter_empty_conv BLOCKING_STATUSES_def)
  then show ?thesis by (simp add: list_blocking_def RECOVERY_LIMIT_def)
qed

text \<open>A transaction that commits a new intent of a scope.\<close>

definition creates :: "string \<Rightarrow> string \<Rightarrow> mutation_intent txn \<Rightarrow> bool" where
  "creates pid app t = (\<forall>db i db'. t db = Inr (i, db') \<longrightarrow> (\<exists>safe nid tid tok now ev op payload ms key.
     create_intent safe nid tid tok now pid app ev op payload ms key (sd_intents db) = Inr (i, sd_intents db')))"

lemma creates_intent: "creates pid app (svc_create_intent env m pid app eid op payload ms key)"
  by (auto simp: creates_def svc_create_intent_def intent_op_def tx_intents_def split: sum.splits prod.splits) blast

lemma creates_bind:
  assumes "\<And>db x db'. t db = Inr (x, db') \<Longrightarrow> sd_intents db' = sd_intents db" "\<And>x. creates pid app (f x)"
  shows "creates pid app (tx_bind t f)"
  unfolding creates_def
proof (intro allI impI)
  fix db i db' assume "tx_bind t f db = Inr (i, db')"
  then obtain x db1 where "t db = Inr (x, db1)" "f x db1 = Inr (i, db')" by (auto simp: tx_bind_def split: sum.splits prod.splits)
  then show "\<exists>safe nid tid tok now ev op payload ms key.
      create_intent safe nid tid tok now pid app ev op payload ms key (sd_intents db) = Inr (i, sd_intents db')"
    using assms(1) [of db x db1] assms(2) [of x, unfolded creates_def, rule_format, of db1 i db'] by simp
qed

lemma creates_raise: "creates pid app (tx_raise c t)"
  by (simp add: creates_def tx_raise_def)

lemma creates_if: "(\<not> b \<Longrightarrow> creates pid app t) \<Longrightarrow> creates pid app (if b then tx_raise c s else t)"
  by (simp add: creates_raise)

lemma untouched_intents:
  "svc_create_event env m pid a db = Inr (e, db') \<Longrightarrow> sd_intents db' = sd_intents db"
  "svc_sanitize env pid d db = Inr (d', db') \<Longrightarrow> sd_intents db' = sd_intents db"
  "tx_res r db = Inr (x, db') \<Longrightarrow> sd_intents db' = sd_intents db"
  by (auto simp: svc_create_event_def tx_events_def svc_sanitize_def tx_query_def tx_res_def split: sum.splits prod.splits)

lemma begins_create:
  "creates pid (scope_app_id (ap_scope p)) (begin_add env pid p a m)"
  "creates pid app (begin_update env pid app mid x patch m)"
  "creates pid app (begin_delete env pid app mid x m)"
  unfolding begin_add_def begin_update_def begin_delete_def Let_def
  by (intro creates_bind creates_if creates_intent; erule untouched_intents)+

text \<open>
  The operations up to the point where they send: either nothing was written, or the call goes out
  from a state in which the intent just committed is the only open one of its scope.
\<close>

definition silent :: "world \<Rightarrow> world \<Rightarrow> bool" where
  "silent w w' = (writes (w_calls w') = writes (w_calls w))"

definition sends_alone :: "string \<Rightarrow> (mutation_intent \<Rightarrow> json dict act \<Rightarrow> bool) \<Rightarrow> world \<Rightarrow> json dict result \<times> world \<Rightarrow> bool" where
  "sends_alone pid kind w out = (\<exists>i w1 send. silent w w1 \<and> int_project_id i = pid
     \<and> list_blocking pid (int_app_id i) (sd_intents (w_db w1)) = [i] \<and> kind i send \<and> send w1 = out)"

definition adding :: "service_env \<Rightarrow> string \<Rightarrow> mutation_intent \<Rightarrow> json dict act \<Rightarrow> bool" where
  "adding env pid i send = (\<exists>p a. scope_app_id (ap_scope p) = int_app_id i
     \<and> send = send_add env (int_id i) (int_attempt_count i) pid p a)"

definition updating :: "service_env \<Rightarrow> string \<Rightarrow> string \<Rightarrow> bool \<Rightarrow> mutation_intent \<Rightarrow> json dict act \<Rightarrow> bool" where
  "updating env pid mid upstream i send = (\<exists>x patch.
     send = send_update env (int_id i) (int_attempt_count i) pid (int_app_id i) mid x patch upstream)"

definition deleting :: "service_env \<Rightarrow> string \<Rightarrow> string \<Rightarrow> mutation_intent \<Rightarrow> json dict act \<Rightarrow> bool" where
  "deleting env pid mid i send = (\<exists>x. send = send_delete env (int_id i) (int_attempt_count i) pid (int_app_id i) mid x)"

lemma act_bindE:
  assumes "act_bind m f w = (r, w')"
  obtains (failed) e where "m w = (Inl e, w')" "r = Inl e" | (went_on) x v where "m w = (Inr x, v)" "f x v = (r, w')"
  using assms by (auto simp: act_bind_def split: prod.splits sum.splits)

lemma silent_simple:
  "inspect q w = (x, w') \<Longrightarrow> w' = w" "act_res r w = (y, w') \<Longrightarrow> w' = w" "act_raise c t w = (z, w') \<Longrightarrow> w' = w"
  "transact env tx w = (u, w') \<Longrightarrow> w_calls w' = w_calls w"
  by (auto simp: inspect_def act_res_def act_raise_def transact_def split: sum.splits prod.splits)

lemma silent_refl: "w_calls w' = w_calls w \<Longrightarrow> silent w w'"
  by (simp add: silent_def)

lemma silent_reads:
  assumes "quiet env"
  shows "recover_pending_mutations env pid app b w = (x, w') \<Longrightarrow> silent w w'"
    "reuse_add_intent env i fp w = (y, w') \<Longrightarrow> silent w w'" "lost_race env pid p w = (z, w') \<Longrightarrow> silent w w'"
  using assms act_keepsD [OF observing.keep_recovery] act_keepsD [OF observing.keep_reuse] act_keepsD [OF observing.keep_lost_race]
  by (simp_all add: silent_def)

text \<open>A step that reads before an operation changes nothing of what it sends.\<close>

definition alone :: "string \<Rightarrow> (mutation_intent \<Rightarrow> json dict act \<Rightarrow> bool) \<Rightarrow> json dict act \<Rightarrow> bool" where
  "alone pid kind m = (\<forall>w r w'. m w = (r, w') \<longrightarrow> silent w w' \<or> sends_alone pid kind w (r, w'))"

lemma alone_bind:
  assumes "\<And>w x w'. m w = (x, w') \<Longrightarrow> silent w w'" "\<And>x. alone pid kind (f x)"
  shows "alone pid kind (act_bind m f)"
  unfolding alone_def
proof (intro allI impI)
  fix w r w' assume "act_bind m f w = (r, w')"
  then show "silent w w' \<or> sends_alone pid kind w (r, w')"
  proof (cases rule: act_bindE)
    case failed
    then show ?thesis using assms(1) by blast
  next
    case (went_on x v)
    then have "silent w v" "silent v w' \<or> sends_alone pid kind v (r, w')" using assms by (auto simp: alone_def)
    then show ?thesis by (auto simp: silent_def sends_alone_def)
  qed
qed

lemma alone_still: "(\<And>w x w'. m w = (x, w') \<Longrightarrow> silent w w') \<Longrightarrow> alone pid kind m"
  by (auto simp: alone_def)

lemma alone_option: "alone pid kind m \<Longrightarrow> (\<And>y. alone pid kind (f y)) \<Longrightarrow> alone pid kind (case x of None \<Rightarrow> m | Some y \<Rightarrow> f y)"
  by (cases x) simp_all

lemma alone_prod: "(\<And>x y. alone pid kind (f x y)) \<Longrightarrow> alone pid kind (case p of (x, y) \<Rightarrow> f x y)"
  by (cases p) simp

text \<open>The same from a state in which the scope has no open intent.\<close>

definition cleared :: "string \<Rightarrow> string \<Rightarrow> (mutation_intent \<Rightarrow> json dict act \<Rightarrow> bool) \<Rightarrow> json dict act \<Rightarrow> bool" where
  "cleared pid app kind m = (\<forall>w r w'. list_blocking pid app (sd_intents (w_db w)) = [] \<longrightarrow> m w = (r, w') \<longrightarrow>
     silent w w' \<or> sends_alone pid kind w (r, w'))"

lemma cleared_same:
  assumes "\<And>w x w'. m w = (x, w') \<Longrightarrow> w' = w" "\<And>x. cleared pid app kind (f x)"
  shows "cleared pid app kind (act_bind m f)"
  unfolding cleared_def
proof (intro allI impI)
  fix w r w' assume none: "list_blocking pid app (sd_intents (w_db w)) = []" and run: "act_bind m f w = (r, w')"
  from run show "silent w w' \<or> sends_alone pid kind w (r, w')"
  proof (cases rule: act_bindE)
    case failed
    then show ?thesis using assms(1) by (auto simp: silent_def)
  next
    case (went_on x v)
    then show ?thesis using assms(1) [OF went_on(1)] assms(2) [of x] none unfolding cleared_def by blast
  qed
qed

lemma cleared_still: "(\<And>w x w'. m w = (x, w') \<Longrightarrow> silent w w') \<Longrightarrow> cleared pid app kind m"
  by (auto simp: cleared_def)

lemma cleared_option:
  "cleared pid app kind m \<Longrightarrow> (\<And>y. cleared pid app kind (f y)) \<Longrightarrow> cleared pid app kind (case x of None \<Rightarrow> m | Some y \<Rightarrow> f y)"
  by (cases x) simp_all

lemma cleared_recovered:
  assumes "quiet env" "cleared pid app kind m"
  shows "alone pid kind (act_then (recover_pending_mutations env pid app False) m)"
  unfolding alone_def act_then_def
proof (intro allI impI)
  fix w r w' assume "act_bind (recover_pending_mutations env pid app False) (\<lambda>_. m) w = (r, w')"
  then show "silent w w' \<or> sends_alone pid kind w (r, w')"
  proof (cases rule: act_bindE)
    case failed
    then show ?thesis using silent_reads(1) [OF assms(1)] by blast
  next
    case (went_on x v)
    then have "silent w v" "silent v w' \<or> sends_alone pid kind v (r, w')"
      using silent_reads(1) [OF assms(1)] recovery_clears assms(2) by (auto simp: cleared_def)
    then show ?thesis by (auto simp: silent_def sends_alone_def)
  qed
qed

lemma commit_alone:
  assumes "transact env start w = (Inr i, v)" "creates pid app (start (moment_of env w))"
    "list_blocking pid app (sd_intents (w_db w)) = []" "int_app_id i = app \<Longrightarrow> kind i send"
  shows "sends_alone pid kind w (send v)"
proof -
  have run: "start (moment_of env w) (w_db w) = Inr (i, w_db v)" "w_calls v = w_calls w"
    using assms(1) by (auto simp: transact_def split: sum.splits prod.splits)
  have single: "list_blocking pid app (sd_intents (w_db v)) = [i]"
    using run(1) assms(2,3) created_alone unfolding creates_def by blast
  then have "i \<in> set (list_blocking pid app (sd_intents (w_db v)))" by simp
  then have "int_project_id i = pid" "int_app_id i = app" by (auto simp: list_blocking_def dest: in_set_takeD)
  with single run(2) assms(4) show ?thesis unfolding sends_alone_def silent_def
    by (intro exI [of _ i] exI [of _ v] exI [of _ send]) simp
qed

lemma cleared_commit:
  assumes "\<And>m. creates pid app (start m)" "\<And>i. int_app_id i = app \<Longrightarrow> kind i (send i)"
  shows "cleared pid app kind (act_bind (transact env start) send)"
  unfolding cleared_def
proof (intro allI impI)
  fix w r w' assume none: "list_blocking pid app (sd_intents (w_db w)) = []" and run: "act_bind (transact env start) send w = (r, w')"
  from run show "silent w w' \<or> sends_alone pid kind w (r, w')"
  proof (cases rule: act_bindE)
    case failed
    then show ?thesis using silent_simple(4) by (metis silent_refl)
  next
    case (went_on i v)
    have "sends_alone pid kind w (send i v)"
      by (rule commit_alone [OF went_on(1) assms(1) none]) (rule assms(2))
    then show ?thesis using went_on(2) by simp
  qed
qed

lemma cleared_commit_or:
  assumes "\<And>m. creates pid app (start m)" "\<And>i. int_app_id i = app \<Longrightarrow> kind i (f (Some i))"
    and "\<And>w x w'. f None w = (x, w') \<Longrightarrow> silent w w'"
  shows "cleared pid app kind (act_bind (act_catch (act_bind (transact env start) (\<lambda>i. act_return (Some i)))
      (\<lambda>e. if b e then act_return None else act_fail e)) f)"
  unfolding cleared_def
proof (intro allI impI)
  fix w r w' assume none: "list_blocking pid app (sd_intents (w_db w)) = []"
    and run: "act_bind (act_catch (act_bind (transact env start) (\<lambda>i. act_return (Some i)))
      (\<lambda>e. if b e then act_return None else act_fail e)) f w = (r, w')"
  obtain t v where tv: "transact env start w = (t, v)" by fastforce
  have calls: "w_calls v = w_calls w" by (rule silent_simple(4) [OF tv])
  show "silent w w' \<or> sends_alone pid kind w (r, w')"
  proof (cases t)
    case (Inr i)
    then have "f (Some i) v = (r, w')"
      using run tv by (simp add: act_bind_def act_catch_def act_return_def)
    moreover have "sends_alone pid kind w (f (Some i) v)"
      by (rule commit_alone [OF tv [unfolded Inr] assms(1) none]) (rule assms(2))
    ultimately show ?thesis by simp
  next
    case (Inl e)
    then have "b e \<and> f None v = (r, w') \<or> w' = v"
      using run tv by (auto simp: act_bind_def act_catch_def act_return_def act_fail_def split: if_splits)
    then show ?thesis using assms(3) [of v r w'] calls by (auto simp: silent_def)
  qed
qed

lemma cleared_rules:
  "(\<And>x. cleared pid app kind (f x)) \<Longrightarrow> cleared pid app kind (act_bind (inspect q) f)"
  "(\<And>y. cleared pid app kind (g y)) \<Longrightarrow> cleared pid app kind (act_bind (act_res r) g)"
  "cleared pid app kind (act_raise c t)"
  by (rule cleared_same, erule silent_simple, assumption)
    (rule cleared_same, erule silent_simple, assumption,
     rule cleared_still, drule silent_simple(3), simp add: silent_def)

lemma alone_rules:
  "(\<And>x. alone pid kind (f x)) \<Longrightarrow> alone pid kind (act_bind (inspect q) f)"
  "(\<And>y. alone pid kind (g y)) \<Longrightarrow> alone pid kind (act_bind (act_res r) g)"
  "alone pid kind (act_raise c t)"
  by (rule alone_bind, drule silent_simple(1), simp add: silent_def, assumption)
    (rule alone_bind, drule silent_simple(2), simp add: silent_def, assumption,
     rule alone_still, drule silent_simple(3), simp add: silent_def)

lemma alone_choose:
  "(\<And>y. x = Inr y \<Longrightarrow> alone pid kind (f y)) \<Longrightarrow> alone pid kind (act_bind (act_res x) f)"
  by (cases x) (auto simp: alone_def act_bind_def act_res_def silent_def)

lemma update_alone:
  assumes "quiet env"
  shows "alone pid (updating env pid mid upstream) (update_memory env pid mid app wide d upstream)"
  unfolding update_memory_def
  by (intro alone_rules alone_prod alone_option cleared_recovered [OF assms] cleared_rules cleared_option
      cleared_commit begins_create) (auto simp: updating_def)

lemma add_alone:
  assumes "quiet env"
  shows "alone pid (adding env pid) (new_add env pid p)"
  unfolding new_add_def
proof (intro alone_rules cleared_recovered [OF assms] cleared_commit_or begins_create)
  fix a and i :: mutation_intent
  assume "int_app_id i = scope_app_id (ap_scope p)"
  then show "adding env pid i (case Some i of None \<Rightarrow> lost_race env pid p
      | Some i \<Rightarrow> send_add env (int_id i) (int_attempt_count i) pid p a)"
    by (auto simp: adding_def)
qed (simp add: silent_reads(3) [OF assms])

lemma delete_alone:
  assumes "quiet env"
  shows "alone pid (deleting env pid mid) (delete_memory env pid mid app wide)"
proof -
  have missing: "cleared pid app' (deleting env pid mid) (act_then (transact env t) (act_raise KeyError mid))" for app' and t :: "moment \<Rightarrow> 'x txn"
  proof (rule cleared_still)
    fix w x w' assume "act_then (transact env t) (act_raise KeyError mid) w = (x, w')"
    then show "silent w w'"
      by (auto simp: act_then_def act_bind_def act_raise_def transact_def silent_def split: sum.splits prod.splits)
  qed
  have app: "alone pid (deleting env pid mid) (act_bind (case found of Some x \<Rightarrow> act_res (required_projected_app_id x)
       | None \<Rightarrow> (case app0 of Some a \<Rightarrow> act_return a
         | None \<Rightarrow> inspect (\<lambda>db. Inr (effective_request_app_id (sd_projects db) pid app)))) f)"
    if "\<And>a. alone pid (deleting env pid mid) (f a)" for found app0 f
  proof (rule alone_bind)
    fix w x w'
    assume "(case found of Some x \<Rightarrow> act_res (required_projected_app_id x)
       | None \<Rightarrow> (case app0 of Some a \<Rightarrow> act_return a
         | None \<Rightarrow> inspect (\<lambda>db. Inr (effective_request_app_id (sd_projects db) pid app)))) w = (x, w')"
    then show "silent w w'"
      by (auto simp: act_res_def act_return_def inspect_def silent_def split: option.splits sum.splits)
  qed (rule that)
  show ?thesis
    unfolding delete_memory_def
    by (intro alone_rules alone_prod app cleared_recovered [OF assms] cleared_rules cleared_option missing
        cleared_commit begins_create) (auto simp: deleting_def)
qed

text \<open>
  C3: Mutations of a scope do not overlap.  An addition, an update or a deletion either sends no
  write at all (as long as no other client sends one meanwhile), or its write goes out from a
  state, which nothing but reads of its own came before, in which the intent it has just
  committed, of the project and of the application it works on, is the only open intent of that
  scope; what others do to the tables while its reads are under way is arbitrary.
\<close>

theorem one_mutation_at_a_time:
  assumes "quiet env"
  shows "(case add_memory env pid d key w of (r, w') \<Rightarrow>
      silent w w' \<or> sends_alone pid (adding env pid) w (r, w'))
    \<and> (case update_memory env pid mid app wide d upstream w of (r, w') \<Rightarrow>
      silent w w' \<or> sends_alone pid (updating env pid mid upstream) w (r, w'))
    \<and> (case delete_memory env pid mid app wide w of (r, w') \<Rightarrow>
      silent w w' \<or> sends_alone pid (deleting env pid mid) w (r, w'))"
proof -
  have "alone pid (adding env pid) (add_memory env pid d key)"
    unfolding alone_def
  proof (intro allI impI)
    fix w r w' assume run: "add_memory env pid d key w = (r, w')"
    have "alone pid (adding env pid) (act_bind (inspect (plan_add env t pid d key)) (\<lambda>p.
       act_bind (inspect (\<lambda>db. Inr (if ap_key p = None then None else find_add_intent pid p db))) (\<lambda>existing.
       case existing of Some i \<Rightarrow> reuse_add_intent env i (ap_fingerprint p) | None \<Rightarrow> new_add env pid p)))" for t
      by (intro alone_rules alone_option add_alone [OF assms]) (rule alone_still, rule silent_reads(2) [OF assms])
    then show "silent w w' \<or> sends_alone pid (adding env pid) w (r, w')"
      using run unfolding add_memory_def alone_def by blast
  qed
  then show ?thesis
    using update_alone [OF assms, of pid mid upstream app wide d] delete_alone [OF assms, of pid mid app wide]
    by (auto simp: alone_def split: prod.splits)
qed

section \<open>Reported success is recorded\<close>

definition recorded :: "service_env \<Rightarrow> string \<Rightarrow> json dict \<Rightarrow> svc_db \<Rightarrow> bool" where
  "recorded env pid r db = (\<exists>i \<in> set (is_intents (sd_intents db)). int_status i = ''COMPLETED''
     \<and> (intent_result i = r \<or> int_result_json i = Some (JObj (sanitize_payload env db pid r))))"

text \<open>What holds of the result and the tables whenever a transaction, or an operation, succeeds.\<close>

definition tx_ends :: "('a \<Rightarrow> svc_db \<Rightarrow> bool) \<Rightarrow> 'a txn \<Rightarrow> bool" where
  "tx_ends P t = (\<forall>db x db'. t db = Inr (x, db') \<longrightarrow> P x db')"

definition act_ends :: "('a \<Rightarrow> svc_db \<Rightarrow> bool) \<Rightarrow> 'a act \<Rightarrow> bool" where
  "act_ends P m = (\<forall>w x w'. m w = (Inr x, w') \<longrightarrow> P x (w_db w'))"

named_theorems ends \<open>rules that reach the end of an operation\<close>

lemma tx_ends_bind [ends]: "(\<And>x. tx_ends P (f x)) \<Longrightarrow> tx_ends P (tx_bind t f)"
  by (fastforce simp: tx_ends_def tx_bind_def split: sum.splits prod.splits)

lemma tx_ends_owned [ends]: "(\<And>i. tx_ends P (f i)) \<Longrightarrow> tx_ends P (svc_owned pid iid n t f)"
  unfolding svc_owned_def tx_then_def by (intro tx_ends_bind)

lemma act_ends_bind [ends]: "(\<And>x. act_ends P (f x)) \<Longrightarrow> act_ends P (act_bind m f)"
  by (fastforce simp: act_ends_def act_bind_def split: sum.splits prod.splits)

lemma act_ends_then [ends]: "act_ends P n \<Longrightarrow> act_ends P (act_then m n)"
  by (simp add: act_then_def act_ends_bind)

lemma act_ends_raise [ends]: "act_ends P (act_raise c t)" "act_ends P (act_fail e)"
  by (simp_all add: act_ends_def act_raise_def act_fail_def)

lemma act_ends_transact [ends]: "(\<And>m. tx_ends P (t m)) \<Longrightarrow> act_ends P (transact env t)"
  by (fastforce simp: act_ends_def tx_ends_def transact_def split: sum.splits)

lemma act_ends_if [ends]: "act_ends P m \<Longrightarrow> act_ends P n \<Longrightarrow> act_ends P (if b then m else n)"
  by simp

lemma act_ends_option [ends]:
  "act_ends P m \<Longrightarrow> (\<And>y. act_ends P (f y)) \<Longrightarrow> act_ends P (case x of None \<Rightarrow> m | Some y \<Rightarrow> f y)"
  by (cases x) simp_all

lemma act_ends_prod [ends]: "(\<And>a b. act_ends P (f a b)) \<Longrightarrow> act_ends P (case p of (a, b) \<Rightarrow> f a b)"
  by (cases p) simp

lemma act_ends_catch: "act_ends P m \<Longrightarrow> (\<And>e. act_ends P (h e)) \<Longrightarrow> act_ends P (act_catch m h)"
  by (fastforce simp: act_ends_def act_catch_def split: sum.splits prod.splits)

lemma act_ends_here: "(\<And>w. m w = f w w) \<Longrightarrow> (\<And>w. act_ends P (f w)) \<Longrightarrow> act_ends P m"
  by (auto simp: act_ends_def)

lemma act_endsD: "act_ends P m \<Longrightarrow> m w = (Inr x, w') \<Longrightarrow> P x (w_db w')"
  by (auto simp: act_ends_def)

lemma complete_recorded [ends]: "tx_ends (recorded env pid) (tx_then (svc_complete env m pid iid r) (tx_return r))"
  unfolding tx_ends_def
proof (intro allI impI)
  fix db x db' assume "tx_then (svc_complete env m pid iid r) (tx_return r) db = Inr (x, db')"
  then obtain i st where c: "complete_intent (\<lambda>d. JObj (sanitize_payload env db pid d)) (mo_now m) iid r (sd_intents db) = Inr (i, st)"
    "x = r" "db' = db\<lparr>sd_intents := st\<rparr>"
    by (auto simp: tx_then_def tx_bind_def svc_complete_def intent_op_def tx_intents_def tx_return_def
      split: sum.splits prod.splits)
  then obtain j where j: "row_by int_id iid (is_intents (sd_intents db)) = Some j" "int_id i = int_id j"
    "st = save_intent i (sd_intents db)" "int_status i = ''COMPLETED''"
    "int_result_json i = Some (JObj (sanitize_payload env db pid r))"
    by (auto simp: complete_intent_def res_simps Let_def)
  have "i \<in> set (is_intents st)"
    using row_by_Some [OF j(1)] j(2) unfolding j(3) by (auto simp: save_intent_def save_def image_iff)
  moreover have "sanitize_payload env db' pid r = sanitize_payload env db pid r" by (simp add: c(3) sanitize_payload_def)
  ultimately show "recorded env pid x db'" using c(2,3) j(4,5) by (auto simp: recorded_def)
qed

lemma settle_add_recorded: "tx_ends (recorded env pid) (settle_add env iid n ob pid p a d ds m)"
  unfolding settle_add_def Let_def tx_then_def by (intro tx_ends_owned tx_ends_bind complete_recorded [unfolded tx_then_def])

lemma finish_update_recorded: "tx_ends (recorded env pid) (finish_update env iid n pid app mid s d d' m)"
  unfolding finish_update_def Let_def tx_then_def by (intro tx_ends_owned tx_ends_bind complete_recorded [unfolded tx_then_def])

lemma finish_delete_recorded: "tx_ends (recorded env pid) (finish_delete env iid n pid app mid s d m)"
  unfolding finish_delete_def Let_def tx_then_def by (intro tx_ends_owned tx_ends_bind complete_recorded [unfolded tx_then_def])

lemma conclude_ends: "act_ends P (conclude_failure env pid iid n unknown e)"
  unfolding conclude_failure_def by (intro ends)

lemma act_bind_return: "act_bind m (\<lambda>x. act_return x) = m"
  by (auto simp: act_bind_def act_return_def fun_eq_iff split: prod.splits sum.splits)

lemma act_ends_ask:
  assumes "\<And>w. m w = (case ask env c w of (Inl e, w') \<Rightarrow> h e w' | (Inr v, w') \<Rightarrow> g v w')"
    and "\<And>e. act_ends P (h e)" "\<And>v. act_ends P (g v)"
  shows "act_ends P m"
  unfolding act_ends_def
proof (intro allI impI)
  fix w x w' assume "m w = (Inr x, w')"
  then have "(case ask env c w of (Inl e, w1) \<Rightarrow> h e w1 | (Inr v, w1) \<Rightarrow> g v w1) = (Inr x, w')" by (simp add: assms(1))
  then show "P x (w_db w')"
    using act_endsD [OF assms(2)] act_endsD [OF assms(3)] by (cases "ask env c w"; cases "fst (ask env c w)") auto
qed

lemma send_add_recorded: "act_ends (recorded env pid) (send_add env iid n pid p a)"
proof (rule act_ends_ask, rule send_add_def)
  have "act_ends (recorded env pid) (finish_add env iid n pid p a d)" for d
    by (rule act_ends_here, rule finish_add_def, unfold Let_def) (intro ends settle_add_recorded)
  then show "act_ends (recorded env pid) (act_catch (finish_add env iid n pid p a (jobject v))
      (conclude_failure env pid iid n True))" for v
    by (intro act_ends_catch conclude_ends)
qed (rule conclude_ends)

lemma send_update_recorded: "act_ends (recorded env pid) (send_update env iid n pid app mid x patch False)"
proof (rule act_ends_ask, rule send_update_def)
  have "act_ends (recorded env pid) (after_update env iid n pid app mid x v False)" for v
    unfolding after_update_def if_False act_bind_return by (intro ends finish_update_recorded)
  then show "act_ends (recorded env pid) (act_catch (after_update env iid n pid app mid x v False)
      (conclude_failure env pid iid n True))" for v
    by (intro act_ends_catch conclude_ends)
qed (intro ends conclude_ends)

lemma send_delete_recorded: "act_ends (recorded env pid) (send_delete env iid n pid app mid x)"
  by (rule act_ends_ask, rule send_delete_def [unfolded Let_def])
    (intro act_ends_catch conclude_ends ends finish_delete_recorded)+

lemma stored_result_recorded:
  "i \<in> set (is_intents (sd_intents db)) \<Longrightarrow> stored_result i = Some r \<Longrightarrow> recorded env pid r db"
  by (auto simp: stored_result_def recorded_def split: if_splits)

lemma get_intent_mem: "get_intent iid st = Inr i \<Longrightarrow> i \<in> set (is_intents st)"
  by (auto simp: res_simps dest: row_by_Some)

lemma reuse_recorded:
  assumes "reuse_add_intent env i fp w = (Inr r, w')" "i \<in> set (is_intents (sd_intents (w_db w)))"
  shows "recorded env pid r (w_db w')"
  using assms
  by (auto simp: reuse_add_intent_def act_raise_def act_return_def act_then_def act_bind_def inspect_def
      intro: stored_result_recorded dest: get_intent_mem split: if_splits option.splits prod.splits sum.splits)

lemma find_add_intent_mem: "find_add_intent pid p db = Some i \<Longrightarrow> i \<in> set (is_intents (sd_intents db))"
  by (auto simp: find_add_intent_def find_by_operation_key_def find_Some_iff)

lemma lost_race_recorded: "act_ends (recorded env pid) (lost_race env pid p)"
  by (auto simp: act_ends_def lost_race_def act_bind_def inspect_def act_raise_def
      dest: find_add_intent_mem reuse_recorded split: option.splits)

lemma new_add_recorded: "act_ends (recorded env pid) (new_add env pid p)"
  unfolding new_add_def by (intro ends lost_race_recorded send_add_recorded)

text \<open>Two operations that run alike: the same end, and the same exception if there is one.\<close>

definition ended :: "'a result \<times> world \<Rightarrow> unit result \<times> world" where
  "ended out = (case out of (Inl e, w) \<Rightarrow> (Inl e, w) | (Inr _, w) \<Rightarrow> (Inr (), w))"

definition alike :: "'a act \<Rightarrow> 'a act \<Rightarrow> bool" where
  "alike m n = (\<forall>w. ended (m w) = ended (n w))"

lemma ended_iff:
  "ended out = (Inl e, w) \<longleftrightarrow> out = (Inl e, w)" "ended out = (Inr (), w) \<longleftrightarrow> (\<exists>x. out = (Inr x, w))"
  by (auto simp: ended_def split: prod.splits sum.splits)

lemma ended_simps [simp]: "ended (Inl e, w) = (Inl e, w)" "ended (Inr x, w) = (Inr (), w)"
  by (simp_all add: ended_def)

lemma alike_bind: "(\<And>x. alike (f x) (g x)) \<Longrightarrow> alike (act_bind m f) (act_bind m g)"
  by (simp add: alike_def act_bind_def split: prod.split sum.split)

lemma alike_then: "alike f g \<Longrightarrow> alike (act_then m f) (act_then m g)"
  by (simp add: act_then_def alike_bind)

lemma alike_option: "alike m m' \<Longrightarrow> (\<And>y. alike (f y) (g y)) \<Longrightarrow>
    alike (case x of None \<Rightarrow> m | Some y \<Rightarrow> f y) (case x of None \<Rightarrow> m' | Some y \<Rightarrow> g y)"
  by (cases x) simp_all

lemma alike_prod: "(\<And>x y. alike (f x y) (g x y)) \<Longrightarrow> alike (case p of (x, y) \<Rightarrow> f x y) (case p of (x, y) \<Rightarrow> g x y)"
  by (cases p) simp

lemma alike_same: "alike m m"
  by (simp add: alike_def)

lemma alike_return: "alike (act_return x) (act_return y)"
  by (simp add: alike_def act_return_def)

lemma alike_catch:
  assumes "alike m n"
  shows "alike (act_catch m h) (act_catch n h)"
  unfolding alike_def
proof
  fix w
  obtain r v where m: "m w = (r, v)" by fastforce
  have same: "ended (n w) = ended (r, v)" using assms by (simp add: alike_def m [symmetric])
  show "ended (act_catch m h w) = ended (act_catch n h w)"
    using same by (cases r) (auto simp: act_catch_def m ended_iff)
qed

lemma update_alike: "alike (update_memory env pid mid app wide d upstream) (update_memory env pid mid app wide d False)"
proof -
  have "alike (after_update env iid n pid app mid x v upstream) (after_update env iid n pid app mid x v False)"
    for iid n app x v
    unfolding after_update_def by (intro alike_bind alike_then alike_return)
  then have "alike (send_update env iid n pid app mid x patch upstream) (send_update env iid n pid app mid x patch False)"
    for iid n app x patch
    using alike_catch [of "after_update env iid n pid app mid x _ upstream" "after_update env iid n pid app mid x _ False"]
    unfolding alike_def by (simp add: send_update_def split: prod.split sum.split)
  then show ?thesis
    unfolding update_memory_def by (intro alike_bind alike_then alike_prod alike_option alike_same) blast+
qed

text \<open>
  C4: A success is reported only once it is durable.  When adding, updating or deleting a memory
  returns a result, an intent in the committed tables is completed and holds that result, either as
  it was stored before, when an idempotency key is used again, or sanitised.  An update that was
  asked to return the answer of the upstream service instead runs exactly as it does otherwise:
  it ends in the same tables, where the result it would have returned is recorded.
\<close>

theorem success_is_recorded:
  assumes "(Inr r, w') \<in> {add_memory env pid d key w, update_memory env pid mid app wide d upstream w,
    delete_memory env pid mid app wide w}"
  shows "recorded env pid r (w_db w')
    \<or> upstream \<and> (\<exists>r'. update_memory env pid mid app wide d False w = (Inr r', w') \<and> recorded env pid r' (w_db w'))"
proof -
  have "recorded env pid r (w_db w')" if "add_memory env pid d key w = (Inr r, w')"
    using that act_endsD [OF new_add_recorded]
    by (auto simp: add_memory_def act_bind_def inspect_def dest: find_add_intent_mem reuse_recorded
      split: sum.splits option.splits if_splits)
  moreover have update: "act_ends (recorded env pid) (update_memory env pid mid app wide d False)"
    unfolding update_memory_def by (intro ends send_update_recorded)
  moreover have "act_ends (recorded env pid) (delete_memory env pid mid app wide)"
    unfolding delete_memory_def by (intro ends send_delete_recorded)
  moreover have "\<exists>r'. update_memory env pid mid app wide d False w = (Inr r', w')"
    if "update_memory env pid mid app wide d upstream w = (Inr r, w')"
  proof -
    have "ended (update_memory env pid mid app wide d False w) = (Inr (), w')"
      using update_alike [of env pid mid app wide d upstream] that unfolding alike_def by (metis ended_simps(2))
    then show ?thesis by (simp add: ended_iff)
  qed
  ultimately show ?thesis
    using assms act_endsD [of "recorded env pid"] by (cases upstream) (auto 4 4)
qed

section \<open>Witnesses\<close>

definition sample_project :: project where "sample_project = new_project 0 ''p'' ''n'' ''http://m'' None None None"

definition sample_db :: svc_db where
  "sample_db = \<lparr>sd_projects = [sample_project], sd_categories = [], sd_memories = [], sd_events = [], sd_entities = [],
     sd_intents = \<lparr>is_intents = [], is_targets = []\<rparr>, sd_proposals = []\<rparr>"

definition sample_trace_env :: trace_env where
  "sample_trace_env = \<lparr>te_float_text = (\<lambda>_. ''0''), te_loads = (\<lambda>_. None), te_sha256 = (\<lambda>s. CHR ''h'' # s),
     te_valid_uuid = (\<lambda>_. True), te_host = (\<lambda>_. None), te_scrub = (\<lambda>_ s. s)\<rparr>"

fun sample_id :: "id_purpose \<Rightarrow> string" where
  "sample_id Event_Id = ''e''"
| "sample_id Intent_Id = ''i''"
| "sample_id Operation_Token = ''t''"
| "sample_id (Target_Id i n) = i @ nat_str n"
| "sample_id (Memory_Row m) = m"
| "sample_id (Entity_Row a k i) = a @ k @ i"

definition sample_network :: "upstream_call list \<Rightarrow> http_request \<Rightarrow> http_outcome" where
  "sample_network calls r =
     (if rq_method r = ''POST'' then Success 200 (Some (JObj [(''id'', JStr ''m1''), (''memory'', JStr ''hello'')]))
      else Transport_Error [])"

definition sample_env :: service_env where
  "sample_env = \<lparr>se_trace = sample_trace_env,
     se_client = \<lparr>cl_memories_path = ''/memories'', cl_search_path = ''/search'', cl_quote = (\<lambda>s. s)\<rparr>,
     se_caller = \<lparr>at_transport = ''rest'', at_kind = ''none'', at_id = None, at_label = None, at_prefix = None\<rparr>,
     se_request_id = None, se_has_receipts = False, se_network = sample_network, se_others = (\<lambda>w. w),
     se_moment = (\<lambda>calls. \<lparr>mo_now = int (length calls), mo_id = sample_id\<rparr>), se_fromiso = (\<lambda>_. None),
     se_isoformat = (\<lambda>_. ''t''), se_isodatetime = (\<lambda>_. ''t''), se_pow2 = (\<lambda>_. Fin 1), se_repr = quoted, se_to_bool = (\<lambda>_. Inr True), se_to_int = (\<lambda>_. None)\<rparr>"

definition sample_world :: world where "sample_world = \<lparr>w_db = sample_db, w_calls = []\<rparr>"

definition sample_add :: request where
  "sample_add = Add ''p'' [(''text'', JStr ''hello''), (''user_id'', JStr ''bob'')] (Some ''key'')"

text \<open>The same request twice, under the same idempotency key.\<close>

definition sample_run :: world where
  "sample_run = perform sample_env sample_add (perform sample_env sample_add sample_world)"

lemma sample_env_ok: "digests sample_env" "service_run v (se_others sample_env v)" "quiet sample_env"
  by (simp_all add: digests_def quiet_def sample_env_def sample_trace_env_def idle)

lemma sample_run_reached: "service_run sample_world sample_run"
  unfolding sample_run_def by (intro served idle sample_env_ok)

lemma additions_sent_once_witness:
  "distinct (sent_additions (w_calls sample_run))
    \<and> set (sent_additions (w_calls sample_run)) \<subseteq> set (intent_keys (sd_intents (w_db sample_run)))"
  using additions_sent_once [of sample_db sample_run] sample_run_reached
  by (simp add: sample_world_def) (simp add: sample_db_def)

lemma recovery_only_observes_witness:
  "writes (w_calls (snd (recover_pending_mutations sample_env ''p'' ''p'' False sample_run))) = writes (w_calls sample_run)"
  using recovery_only_observes [OF sample_env_ok(3)] by blast

lemma sample_tables_ok: "tables_ok sample_db"
  by (simp add: tables_ok_def sample_db_def intents_ok_def targets_ok_def index_ok_def unique_memories_def)

lemma runs_keep_tables_ok_witness: "tables_ok (w_db sample_run)"
  using runs_keep_tables_ok [OF sample_run_reached] sample_tables_ok by (simp add: sample_world_def)

lemma safe_trace_document_total: "\<exists>d. safe_trace_document env hosts v = Inr d"
proof -
  have "\<exists>d. bounded_trace_document (te_float_text env) (int MAX_TRACE_BYTES) v = Inr d"
    by (simp add: bounded_trace_document_def MAX_TRACE_BYTES_def Let_def split: option.splits)
  then obtain d where d: "bounded_trace_document (te_float_text env) (int MAX_TRACE_BYTES) v = Inr d" by blast
  show ?thesis unfolding safe_trace_document_def d by (simp add: rbind_def Let_def split: json.splits)
qed

lemma create_event_total:
  assumes "raw_canonical_event_app_id (ea_request a) (ea_app_id a) = Inr (Some app)"
    and "raw_canonical_event_entity_id (ea_request a) (ea_user_id a) ''user_id'' = Inr u"
    and "raw_canonical_event_entity_id (ea_request a) (ea_agent_id a) ''agent_id'' = Inr g"
    and "raw_canonical_event_entity_id (ea_request a) (ea_run_id a) ''run_id'' = Inr r"
  shows "\<exists>e es'. create_event env who i now ps pid a es = Inr (e, es')"
  using assms safe_trace_document_total [of env "project_internal_hosts env ps pid" "JObj (ea_request a)"]
  by (auto simp: create_event_def Let_def rbind_def raise_if_def)

lemma one_mutation_at_a_time_witness:
  "case add_memory sample_env ''p'' [(''text'', JStr ''hello''), (''user_id'', JStr ''bob'')] (Some ''key'') sample_world of
     (r, w) \<Rightarrow> silent sample_world w \<or> sends_alone ''p'' (adding sample_env ''p'') sample_world (r, w)"
  using conjunct1 [OF one_mutation_at_a_time [OF sample_env_ok(3)]] by (auto split: prod.split)

text \<open>An addition that was completed before, asked for again with its key.\<close>

definition digest_env :: service_env where
  "digest_env = sample_env\<lparr>se_trace := sample_trace_env\<lparr>te_sha256 := (\<lambda>_. ''h'')\<rparr>\<rparr>"

definition completed_add :: mutation_intent where
  "completed_add = (new_intent JObj ''i1'' ''h'' 0 ''p'' ''p'' ''e1'' ''memory.add'' [(''request_fingerprint'', JStr ''h'')])
     \<lparr>int_status := ''COMPLETED'', int_lease_expires_at := None, int_result_json := Some (JObj [(''memory'', JNull)])\<rparr>"

definition completed_world :: world where
  "completed_world = \<lparr>w_db = sample_db\<lparr>sd_intents := \<lparr>is_intents = [completed_add], is_targets = []\<rparr>\<rparr>, w_calls = []\<rparr>"

definition again :: "json dict result \<times> world" where
  "again = add_memory digest_env ''p'' [(''text'', JStr ''hello'')] (Some ''key'') completed_world"

lemma again_ok: "fst again = Inr [(''memory'', JNull)]"
  by code_simp

lemma success_is_recorded_witness: "recorded digest_env ''p'' [(''memory'', JNull)] (w_db (snd again))"
proof -
  have "(Inr [(''memory'', JNull)], snd again) \<in> {add_memory digest_env ''p'' [(''text'', JStr ''hello'')] (Some ''key'') completed_world,
    update_memory digest_env ''p'' [] None False [(''text'', JStr ''hello'')] False completed_world,
    delete_memory digest_env ''p'' [] None False completed_world}"
    using again_ok by (simp add: again_def prod_eq_iff)
  from success_is_recorded [OF this] show ?thesis by simp
qed

end
