(* ===== verification/Service_Results.thy ===== *)
theory Service_Results
  imports Service_Safety
begin

text \<open>
  What the longer operations of the service achieve: the sweep of a synchronisation, the deletion
  of an entity, a bulk deletion, and the operator's resolution of an intent.  The results are
  about the tables an operation leaves, whatever the upstream answers and other clients do at the
  calls in between, unless a theorem says that no one else is at work.
\<close>

section \<open>Successful steps\<close>

lemma act_then_Inr_iff: "act_then m n w = (Inr y, w') \<longleftrightarrow> (\<exists>x v. m w = (Inr x, v) \<and> n v = (Inr y, w'))"
  by (auto simp: act_then_def act_bind_Inr_iff)

lemma act_res_Inr_iff: "act_res r w = (Inr x, w') \<longleftrightarrow> r = Inr x \<and> w' = w"
  by (auto simp: act_res_def split: sum.splits)

lemma transact_Inr_iff:
  "transact env t w = (Inr x, w') \<longleftrightarrow> (\<exists>db. t (moment_of env w) (w_db w) = Inr (x, db) \<and> w' = w\<lparr>w_db := db\<rparr>)"
  by (auto simp: transact_def split: sum.splits)

lemma act_catch_Inr_iff:
  "act_catch m h w = (Inr x, w') \<longleftrightarrow> m w = (Inr x, w') \<or> (\<exists>e v. m w = (Inl e, v) \<and> h e v = (Inr x, w'))"
  by (auto simp: act_catch_def split: sum.splits prod.splits)

lemmas act_iffs = act_bind_Inr_iff act_then_Inr_iff act_res_Inr_iff transact_Inr_iff act_return_iff inspect_Inr_iff

lemma never_concluded [simp]:
  "conclude_bulk env q b u e w \<noteq> (Inr x, w')" "conclude_entity env d u e w \<noteq> (Inr x, w')"
  "superseded c e w \<noteq> (Inr x, w')"
  by (auto simp: conclude_bulk_def conclude_entity_def superseded_def act_then_Inr_iff act_fail_def act_raise_def
      split: if_splits failure.splits)

lemma tx_ops_Inr_iff:
  "tx_intents f db = Inr (x, db') \<longleftrightarrow> (\<exists>st. f (sd_intents db) = Inr (x, st) \<and> db' = db\<lparr>sd_intents := st\<rparr>)"
  "tx_events g db = Inr (y, db') \<longleftrightarrow> (\<exists>es. g (sd_events db) = Inr (y, es) \<and> db' = db\<lparr>sd_events := es\<rparr>)"
  by (auto simp: tx_intents_def tx_events_def split: sum.splits)

section \<open>Resolving an intent\<close>

lemma events_kept:
  "svc_create_event env m pid a db = Inr (e, db') \<Longrightarrow> sd_intents db' = sd_intents db \<and> sd_memories db' = sd_memories db"
  "svc_event_failed env m eid d db = Inr (e, db') \<Longrightarrow> sd_intents db' = sd_intents db \<and> sd_memories db' = sd_memories db"
  "svc_event_succeeded env m eid d db = Inr (e, db') \<Longrightarrow> sd_intents db' = sd_intents db \<and> sd_memories db' = sd_memories db"
  by (auto simp: svc_create_event_def svc_event_failed_def svc_event_succeeded_def tx_ops_Inr_iff)

lemma svc_fail_Inr:
  assumes "svc_fail env m pid iid err db = Inr (i', db')"
  obtains i where "row_by int_id iid (is_intents (sd_intents db)) = Some i" "int_id i' = int_id i"
    "int_status i' = ''FAILED''" "int_lease_expires_at i' = None"
    "sd_intents db' = save_intent i' (sd_intents db)" "sd_memories db' = sd_memories db"
  using assms by (auto simp: svc_fail_def intent_op_def tx_ops_Inr_iff fail_intent_def res_simps Let_def)

lemma settle_resolution_gives_up:
  assumes "settle_resolution env rs operation ob m db = Inr (answer, db')"
  obtains i i' where "resolvable_intent (mo_now m) rs db = Inr i" "int_operation i = operation"
    "case ob of None \<Rightarrow> True | Some p \<Rightarrow> jget (intent_payload i) ''mutation_id'' = JStr (fst p)"
    "int_id i' = int_id i" "int_status i' = ''FAILED''" "int_lease_expires_at i' = None"
    "sd_intents db' = save_intent i' (sd_intents db)" "sd_memories db' = sd_memories db"
  using assms
  by (cases ob) (auto simp: settle_resolution_def tx_iffs tx_raise_def Let_def split: if_splits
      dest!: events_kept elim!: svc_fail_Inr, (metis row_by_Some)+)

lemma resolvable_intent_Inr:
  assumes "resolvable_intent now rs db = Inr i"
  shows "i \<in> set (is_intents (sd_intents db)) \<and> int_id i = rs_intent_id rs \<and> int_project_id i = rs_project_id rs
    \<and> int_app_id i = rs_app_id rs \<and> int_status i \<in> {''UNKNOWN'', ''EXHAUSTED''} \<and> int_status i = rs_status rs
    \<and> int_attempt_count i = rs_attempts rs \<and> \<not> lease_is_live now i"
  using assms
  by (auto simp: resolvable_intent_def rbind_Inr_iff RESOLVABLE_STATUSES_def find_Some_iff split: option.splits if_splits)

lemma read_resolution_Inr:
  assumes "read_resolution project_id app_id intent_id confirmation status attempts reason accept = Inr rs"
  shows "accept \<and> validate_scope_id (JStr project_id) ''project_id'' True = Inr (Some (rs_project_id rs))
    \<and> validate_scope_id (JStr app_id) ''app_id'' True = Inr (Some (rs_app_id rs))
    \<and> validate_scope_id (JStr intent_id) ''intent_id'' True = Inr (Some (rs_intent_id rs))
    \<and> validate_scope_id (JStr confirmation) ''intent_id'' True = Inr (Some (rs_intent_id rs))
    \<and> rs_status rs = status \<and> attempts = JInt (rs_attempts rs)"
  using assms
  by (cases attempts) (auto simp: read_resolution_def rbind_Inr_iff require_id_Inr raise_if_def split: if_splits)

lemma refuse_observed_marker_Inr:
  assumes "refuse_observed_marker env rs ob w = (Inr (), v)"
  obtains response items where
    "ask env (List_Memories (dset MUTATION_MARKER (JStr (fst ob))
       (dupdate [(''top_k'', JInt 1000), (''show_expired'', JBool True)] (snd ob)))) w = (Inr response, v)"
    "marker_results response = Inr items"
    "\<forall>d. JObj d \<in> set items \<longrightarrow> \<not> carries_scope (fst ob) (rs_project_id rs) (rs_app_id rs) d"
proof -
  from assms obtain response items where *:
    "ask env (List_Memories (dset MUTATION_MARKER (JStr (fst ob))
       (dupdate [(''top_k'', JInt 1000), (''show_expired'', JBool True)] (snd ob)))) w = (Inr response, v)"
    "marker_results response = Inr items"
    and none: "\<not> list_ex (\<lambda>item. case item of
           JObj d \<Rightarrow> carries_scope (fst ob) (rs_project_id rs) (rs_app_id rs) d | _ \<Rightarrow> False) items"
    by (auto simp: refuse_observed_marker_def act_iffs raise_if_def MARKER_SCAN_LIMIT_def split: if_splits)
  from none have "\<forall>d. JObj d \<in> set items \<longrightarrow> \<not> carries_scope (fst ob) (rs_project_id rs) (rs_app_id rs) d"
    by (force simp: list_ex_iff)
  with * that show thesis by blast
qed

lemma first_look_Inr:
  assumes "first_look now rs db = Inr (''memory.add'', ob)"
  obtains marker filters where "ob = Some (marker, filters)"
proof -
  from assms obtain i where "observation_of i db = Inr ob" "int_operation i = ''memory.add''"
    by (auto simp: first_look_def rbind_Inr_iff)
  then show thesis using that
    by (cases "jget (intent_payload i) ''mutation_id''") (auto simp: observation_of_def rbind_Inr_iff split: list.splits)
qed


section \<open>Deleting an entity\<close>

lemma send_deletions_all:
  assumes "send_deletions env mids w = (Inr (outcomes, None), w')"
  shows "map fst outcomes = mids"
  using assms
  by (induction mids arbitrary: w outcomes w')
    (auto simp: act_bind_Inr_iff act_return_iff split: prod.splits sum.splits if_splits)

text \<open>What a finished deletion has to show for each memory.\<close>

definition accounted :: "(string \<times> deletion) list \<Rightarrow> deletion_progress \<Rightarrow> bool" where
  "accounted outcomes p \<longleftrightarrow> dp_failed p = List.map_filter failed_item outcomes
     \<and> dp_deleted p = count_where (\<lambda>x. snd x = Deleted) outcomes"

lemma accounted_note: "accounted xs p \<Longrightarrow> accounted (xs @ ys) (note_outcomes (p\<lparr>dp_attempted := a, dp_effect := b\<rparr>) ys)"
  by (simp add: accounted_def note_outcomes_def count_where_def List.map_filter_def)

lemma delete_batches_accounted:
  assumes "delete_batches env d p batches w = (Inr (p', None), w')" "accounted before' p"
  shows "\<exists>outcomes. map fst outcomes = concat batches \<and> accounted (before' @ outcomes) p'"
  using assms
proof (induction batches arbitrary: p before' w)
  case (Cons batch batches)
  from Cons(2) obtain outcomes v v' where sent: "send_deletions env batch w = (Inr (outcomes, None), v)"
    and rest: "delete_batches env d (note_outcomes (p\<lparr>dp_attempted := True,
        dp_effect := (dp_effect p \<or> list_ex (\<lambda>x. snd x = Deleted) outcomes)\<rparr>) outcomes) batches v' = (Inr (p', None), w')"
    by (auto simp: Let_def split: prod.splits sum.splits option.splits)
  from Cons(1) [OF rest accounted_note [OF Cons(3)]] obtain more
    where "map fst more = concat batches" "accounted ((before' @ outcomes) @ more) p'" by blast
  with send_deletions_all [OF sent] show ?case by (intro exI [of _ "outcomes @ more"]) simp
qed (auto intro!: exI [of _ "[]"])

definition entity_status :: "deletion_progress \<Rightarrow> string" where
  "entity_status p = (if dp_failed p = [] then ''SUCCEEDED'' else if dp_deleted p \<noteq> 0 then ''PARTIAL'' else ''FAILED'')"

text \<open>The intent an operation ends, as it is stored.\<close>

lemma settled_intent:
  "complete_intent safe now iid r st = Inr (i, st') \<Longrightarrow> i \<in> set (is_intents st') \<and> int_id i = iid
     \<and> int_status i = ''COMPLETED'' \<and> int_result_json i = Some (safe r)"
  "fail_intent safe now iid e status (Some r) st = Inr (i, st') \<Longrightarrow> i \<in> set (is_intents st') \<and> int_id i = iid
     \<and> int_status i = status \<and> int_result_json i = Some (safe r)"
  by (force simp: complete_intent_def fail_intent_def res_simps Let_def save_intent_def save_def image_iff
      dest: row_by_Some split: if_splits)+

lemma sanitize_intents [simp]: "sanitize_payload env (db\<lparr>sd_intents := st\<rparr>) pid d = sanitize_payload env db pid d"
  by (simp add: sanitize_payload_def)

lemma finish_delete_entity_Inr:
  assumes "finish_delete_entity env d p m db = Inr (r, db')"
  shows "r = entity_result d p (entity_status p) @ [(''event_id'', JStr (ed_event_id d))]
    \<and> (\<exists>i \<in> set (is_intents (sd_intents db')). int_id i = ed_intent_id d
        \<and> int_status i = (if dp_failed p = [] then ''COMPLETED'' else entity_status p)
        \<and> int_result_json i = Some (JObj (sanitize_payload env db' (ed_project_id d) r)))"
  using assms
  by (auto simp: finish_delete_entity_def Let_def svc_owned_def tx_iffs svc_complete_def intent_op_def tx_ops_Inr_iff
      entity_status_def split: if_splits dest!: settled_intent)

text \<open>
  The deletion of an entity accounts for every memory.  When it returns, each memory that the
  entity had when the deletion began was either deleted or kept with an error, once and in order;
  the answer gives their number, the number deleted, and the kept ones with their errors; the
  status is SUCCEEDED exactly when none was kept, and PARTIAL or FAILED otherwise, by whether any
  was deleted; and the intent of the deletion is stored as completed, or ended with that status,
  with the sanitised answer as its result.
\<close>

lemma entity_deletion_accounts_for_all:
  assumes "delete_entity env project_id app_id kind eid w = (Inr r, w')"
  shows "\<exists>v k i d db outcomes status.
      validate_entity_identity (JStr kind) (JStr eid) = Inr (k, i)
    \<and> begin_delete_entity env (ed_project_id d) (ed_app_id d) k i (moment_of env v) (w_db v) = Inr (d, db)
    \<and> map fst outcomes = ed_memory_ids d
    \<and> r = [(''status'', JStr status), (''requested_count'', JInt (int (length outcomes))),
        (''deleted_count'', JInt (int (count_where (\<lambda>x. snd x = Deleted) outcomes))),
        (''failed_count'', JInt (int (count_where (\<lambda>x. snd x \<noteq> Deleted) outcomes))),
        (''failed'', JList (List.map_filter failed_item outcomes)), (''event_id'', JStr (ed_event_id d))]
    \<and> status = (if \<forall>x \<in> set outcomes. snd x = Deleted then ''SUCCEEDED''
        else if \<exists>x \<in> set outcomes. snd x = Deleted then ''PARTIAL'' else ''FAILED'')
    \<and> (\<exists>j \<in> set (is_intents (sd_intents (w_db w'))). int_id j = ed_intent_id d
        \<and> int_status j = (if status = ''SUCCEEDED'' then ''COMPLETED'' else status)
        \<and> int_result_json j = Some (JObj (sanitize_payload env (w_db w') (ed_project_id d) r)))"
proof -
  let ?start = "\<lparr>dp_failed = [], dp_deleted = 0, dp_attempted = False, dp_effect = False\<rparr>"
  from assms obtain pid app k i v d db where
    k: "validate_entity_identity (JStr kind) (JStr eid) = Inr (k, i)"
    and began: "begin_delete_entity env pid app k i (moment_of env v) (w_db v) = Inr (d, db)"
    and run: "run_delete_entity env d (v\<lparr>w_db := db\<rparr>) = (Inr r, w')"
    by (auto simp: delete_entity_def act_iffs rbind_Inr_iff split: prod.splits)
  from began have d: "ed_project_id d = pid" "ed_app_id d = app"
    by (auto simp: begin_delete_entity_def tx_iffs)
  from run obtain p u where
    batches: "delete_batches env d ?start (chunks ENTITY_DELETE_BATCH (ed_memory_ids d)) (v\<lparr>w_db := db\<rparr>) = (Inr (p, None), u)"
    and finish: "transact env (finish_delete_entity env d p) u = (Inr r, w')"
    by (auto simp: run_delete_entity_def act_bind_Inr_iff act_catch_Inr_iff split: prod.splits option.splits)
  obtain outcomes where ids: "map fst outcomes = ed_memory_ids d" and acc: "accounted outcomes p"
    using delete_batches_accounted [OF batches, of "[]"] concat_chunks [of ENTITY_DELETE_BATCH "ed_memory_ids d"]
    by (auto simp: accounted_def count_where_def ENTITY_DELETE_BATCH_def List.map_filter_simps)
  have kept: "List.map_filter failed_item outcomes = [] \<longleftrightarrow> (\<forall>x \<in> set outcomes. snd x = Deleted)"
    "length (List.map_filter failed_item outcomes) = count_where (\<lambda>x. snd x \<noteq> Deleted) outcomes"
    by (induction outcomes) (auto simp: count_where_def List.map_filter_simps failed_item_def split: deletion.splits)
  have some: "0 < count_where (\<lambda>x. snd x = Deleted) outcomes \<longleftrightarrow> (\<exists>x \<in> set outcomes. snd x = Deleted)"
    by (auto simp: count_where_def filter_empty_conv)
  have status: "entity_status p = (if \<forall>x \<in> set outcomes. snd x = Deleted then ''SUCCEEDED''
        else if \<exists>x \<in> set outcomes. snd x = Deleted then ''PARTIAL'' else ''FAILED'')"
    using acc kept(1) some by (auto simp: entity_status_def accounted_def)
  from finish obtain db2 where f: "finish_delete_entity env d p (moment_of env u) (w_db u) = Inr (r, db2)" and w': "w' = u\<lparr>w_db := db2\<rparr>"
    by (auto simp: transact_Inr_iff)
  note ended = finish_delete_entity_Inr [OF f]
  have r: "r = [(''status'', JStr (entity_status p)), (''requested_count'', JInt (int (length outcomes))),
        (''deleted_count'', JInt (int (count_where (\<lambda>x. snd x = Deleted) outcomes))),
        (''failed_count'', JInt (int (count_where (\<lambda>x. snd x \<noteq> Deleted) outcomes))),
        (''failed'', JList (List.map_filter failed_item outcomes)), (''event_id'', JStr (ed_event_id d))]"
    using conjunct1 [OF ended] acc arg_cong [OF ids, of length]
    by (simp add: entity_result_def accounted_def kept(2))
  have "\<exists>j \<in> set (is_intents (sd_intents (w_db w'))). int_id j = ed_intent_id d
        \<and> int_status j = (if entity_status p = ''SUCCEEDED'' then ''COMPLETED'' else entity_status p)
        \<and> int_result_json j = Some (JObj (sanitize_payload env (w_db w') (ed_project_id d) r))"
    using conjunct2 [OF ended] by (simp add: w' entity_status_def split: if_splits)
  with k began d ids r status show ?thesis by blast
qed

section \<open>Bulk deletion\<close>

subsection \<open>Targets stay\<close>

definition target_names :: "intent_store \<Rightarrow> (string \<times> string) set" where
  "target_names st = (\<lambda>t. (tgt_intent_id t, tgt_memory_id t)) ` set (is_targets st)"

abbreviation names_of :: "world \<Rightarrow> (string \<times> string) set" where
  "names_of w \<equiv> target_names (sd_intents (w_db w))"

lemma target_names_same: "is_targets st' = is_targets st \<Longrightarrow> target_names st' = target_names st"
  by (simp add: target_names_def)

lemma target_names_update:
  assumes "\<And>t. tgt_intent_id (f t) = tgt_intent_id t \<and> tgt_memory_id (f t) = tgt_memory_id t"
  shows "target_names (st\<lparr>is_targets := update_where q f (is_targets st)\<rparr>) = target_names st"
proof -
  have "tgt_intent_id (if q t then f t else t) = tgt_intent_id t" "tgt_memory_id (if q t then f t else t) = tgt_memory_id t" for t
    by (simp_all add: assms)
  then show ?thesis by (simp add: target_names_def update_where_def image_image del: if_image_distrib)
qed

lemma target_names_mono: "set (is_targets st) \<subseteq> set (is_targets st') \<Longrightarrow> target_names st \<subseteq> target_names st'"
  by (simp add: target_names_def image_mono)

lemma saved_targets [simp]: "is_targets (save_intent i st) = is_targets st"
  by (simp add: save_intent_def)

lemma same_targets:
  "update_payload safe now iid payload keep st = Inr (i, st') \<Longrightarrow> is_targets st' = is_targets st"
  "claim_recovery safe now snap st = Inr (b, st') \<Longrightarrow> is_targets st' = is_targets st"
  "renew_active_attempt now iid n st = Inr (i, st') \<Longrightarrow> is_targets st' = is_targets st"
  "mark_unresolved safe now iid e' st = Inr (i, st') \<Longrightarrow> is_targets st' = is_targets st"
  "fail_intent safe now iid e s r st = Inr (i, st') \<Longrightarrow> is_targets st' = is_targets st"
  "complete_intent safe now iid e st = Inr (i, st') \<Longrightarrow> is_targets st' = is_targets st"
  "point_to_event iid eid st = Inr (i, st') \<Longrightarrow> is_targets st' = is_targets st"
proof -
  show "claim_recovery safe now snap st = Inr (b, st') \<Longrightarrow> is_targets st' = is_targets st"
    by (auto simp: claim_recovery_def mark_unresolved_def Let_def res_simps split: if_splits prod.splits)
qed (auto simp: update_payload_def renew_active_attempt_def mark_unresolved_def fail_intent_def complete_intent_def
    point_to_event_def Let_def res_simps split: if_splits)

lemma more_targets:
  "create_intent safe nid tid tok now pid app ev op payload ms key st = Inr (i, st') \<Longrightarrow> set (is_targets st) \<subseteq> set (is_targets st')"
  "add_targets tid now iid ms st = Inr (rows, st') \<Longrightarrow> set (is_targets st) \<subseteq> set (is_targets st')"
  "add_target_batch tid now iid ms st = Inr (rows, st') \<Longrightarrow> set (is_targets st) \<subseteq> set (is_targets st')"
proof -
  show "create_intent safe nid tid tok now pid app ev op payload ms key st = Inr (i, st') \<Longrightarrow> set (is_targets st) \<subseteq> set (is_targets st')"
    by (auto simp: create_intent_def Let_def res_simps add_targets_def insert_targets_def split: if_splits prod.splits)
qed (auto simp: add_targets_def add_target_batch_def insert_targets_def Let_def split: if_splits)

lemma intent_step_names: "intent_step st st' \<Longrightarrow> target_names st \<subseteq> target_names st'"
proof (induction rule: intent_step.induct)
  case (target_done st now tid)
  then show ?case unfolding mark_target_succeeded_def by (subst target_names_update) auto
next
  case (target_failed safe now t e st st')
  then have "target_names st' = target_names st"
    by (auto simp only: mark_target_failed_def rbind_Inr_iff sum.inject intro!: target_names_update) simp_all
  then show ?case by simp
qed (erule same_targets [THEN target_names_same, THEN equalityD2] more_targets [THEN target_names_mono])+

lemma table_steps_names: "table_steps db db' \<Longrightarrow> target_names (sd_intents db) \<subseteq> target_names (sd_intents db')"
proof (induction rule: rtranclp_induct)
  case (step y z)
  from step(2) have "target_names (sd_intents y) \<subseteq> target_names (sd_intents z)"
    by cases (simp_all add: intent_step_names)
  with step(3) show ?case by (rule subset_trans)
qed simp

text \<open>Other clients may add targets and settle them, but forget none.\<close>

definition remembering :: "service_env \<Rightarrow> bool" where
  "remembering env = (\<forall>v. names_of v \<subseteq> names_of (se_others env v))"

lemma remembering_call: "remembering env \<Longrightarrow> names_of w \<subseteq> names_of (called env c w)"
  unfolding remembering_def called_def by (drule spec [of _ "w\<lparr>w_calls := w_calls w @ [c]\<rparr>"]) simp

interpretation named: adding_contract env "\<lambda>w w'. remembering env \<longrightarrow> names_of w \<subseteq> names_of w'" for env
proof (unfold_locales, goal_cases)
  case (6 token pid d key db1 p db2 a m w i db)
  then have "names_of w \<subseteq> names_of (w\<lparr>w_db := db\<rparr>)" using table_steps_names [OF begin_add_steps] by simp
  then show ?case using remembering_call by blast
qed (simp_all add: table_steps_names remembering_call, blast)

subsection \<open>The snapshot\<close>

lemma add_batch_names:
  assumes "add_target_batch tid now iid ms st = Inr (rows, st')" "mid \<in> set ms"
  shows "(iid, mid) \<in> target_names st'"
proof (cases "mid \<in> tgt_memory_id ` set (intent_targets iid st)")
  case True
  then have "(iid, mid) \<in> target_names st" by (auto simp: intent_targets_def target_names_def)
  then show ?thesis using more_targets(3) [OF assms(1)] target_names_mono by blast
next
  case False
  then have new: "mid \<in> set (unknown_targets iid ms st)" using assms(2) by (simp add: unknown_targets_def)
  then obtain n where "(n, mid) \<in> set (zip [next_ordinal iid st..<next_ordinal iid st + length (unknown_targets iid ms st)]
      (unknown_targets iid ms st))"
    by (metis in_set_impl_in_set_zip2 add_diff_cancel_left' length_upt)
  then have "(iid, mid) \<in> (\<lambda>t. (tgt_intent_id t, tgt_memory_id t)) ` set (map (target_row tid now iid)
      (zip [next_ordinal iid st..<next_ordinal iid st + length (unknown_targets iid ms st)] (unknown_targets iid ms st)))"
    by (force simp: target_row_def image_iff)
  moreover have "ms \<noteq> []" using assms(2) by auto
  ultimately show ?thesis
    using assms(1) by (auto simp: add_target_batch_def insert_targets_def Let_def target_names_def dedup_Nil_iff split: if_splits)
qed

definition bulk_match :: "bulk_request \<Rightarrow> bulk_run \<Rightarrow> memory_index \<Rightarrow> bool" where
  "bulk_match q b = bulk_delete_match (br_project_id q) (br_app_id q) (br_filters q) (Some (bk_cutoff b))"

lemma snapshot_page_covers:
  assumes unique: "unique_memories (sd_memories db)" and page: "bulk_snapshot_page q b after m db = Inr (r, db')"
    and x: "x \<in> set (sd_memories db)" "bulk_match q b x" "beyond memory_key after x"
  shows "case r of None \<Rightarrow> False
    | Some k \<Rightarrow> (bk_intent_id b, mi_mem0_memory_id x) \<in> target_names (sd_intents db') \<or> beyond memory_key (Some k) x"
proof -
  let ?L = "sort_key memory_key (filter (\<lambda>x. bulk_match q b x \<and> beyond memory_key after x) (sd_memories db))"
  have "cursor_key (map_option fst after) (map_option snd after) = after"
    by (cases after) (auto simp: cursor_key_def)
  with page obtain candidates where cand: "candidates = take 200 ?L"
    and some: "candidates = [] \<Longrightarrow> r = None" "candidates \<noteq> [] \<Longrightarrow> r = Some (memory_key (last candidates))"
    and added: "candidates \<noteq> [] \<Longrightarrow> \<exists>rows st. add_target_batch (\<lambda>n. mo_id m (Target_Id (bk_intent_id b) n)) (mo_now m) (bk_intent_id b)
        (map mi_mem0_memory_id candidates) (sd_intents db) = Inr (rows, st) \<and> is_targets (sd_intents db') = is_targets st"
    by (auto simp: Memory_Bulk.bulk_snapshot_page_def tx_iffs bulk_candidates_def list_bulk_delete_candidates_def bulk_match_def
        svc_require_def svc_add_target_batch_def svc_renew_def tx_ops_Inr_iff same_targets split: if_splits)
  have strict: "sorted_wrt (\<lambda>x y. memory_key x < memory_key y) ?L"
    by (rule sorted_by_key [OF unique]) (auto simp: memory_key_def bulk_match_def bulk_delete_match_def)
  have in_L: "x \<in> set ?L" using x by simp
  then have "?L \<noteq> []" by (metis empty_iff list.set(1))
  then have "candidates \<noteq> []" by (simp add: cand)
  then obtain xs l where xs: "candidates = xs @ [l]" by (cases candidates rule: rev_cases) auto
  have split: "candidates @ drop 200 ?L = ?L" unfolding cand by simp
  have "sorted_wrt (\<lambda>x y. memory_key x < memory_key y) (candidates @ drop 200 ?L)"
    unfolding split by (rule strict)
  then have late: "\<forall>y \<in> set (drop 200 ?L). memory_key (last candidates) < memory_key y"
    unfolding xs by (auto simp: sorted_wrt_append)
  have "x \<in> set candidates \<union> set (drop 200 ?L)" using in_L split by (metis set_append)
  then show ?thesis
  proof
    assume "x \<in> set candidates"
    then have "mi_mem0_memory_id x \<in> set (map mi_mem0_memory_id candidates)" by simp
    then have "(bk_intent_id b, mi_mem0_memory_id x) \<in> target_names (sd_intents db')"
      using added [OF \<open>candidates \<noteq> []\<close>] add_batch_names target_names_same by metis
    with some(2) \<open>candidates \<noteq> []\<close> show ?thesis by simp
  next
    assume "x \<in> set (drop 200 ?L)"
    with late have "beyond memory_key (Some (memory_key (last candidates))) x" by (simp add: beyond_def)
    with some(2) \<open>candidates \<noteq> []\<close> show ?thesis by simp
  qed
qed

lemma snapshot_page_rows: "bulk_snapshot_page q b after m db = Inr (r, db') \<Longrightarrow> sd_memories db' = sd_memories db"
  by (rule index_keptD [rotated], assumption, unfold Memory_Bulk.bulk_snapshot_page_def) (intro frames, auto intro!: frames)

lemma snapshot_names: "snapshot_loop env q b after w = (r, w') \<Longrightarrow> names_of w \<subseteq> names_of w'"
proof (induction env q b after w rule: snapshot_loop.induct)
  case (1 env q b after w)
  obtain t w1 where t: "transact env (bulk_snapshot_page q b after) w = (t, w1)" by fastforce
  have first: "names_of w \<subseteq> names_of w1"
  proof (cases "\<exists>opt. t = Inr opt")
    case True
    then obtain opt db where page: "bulk_snapshot_page q b after (moment_of env w) (w_db w) = Inr (opt, db)" "w1 = w\<lparr>w_db := db\<rparr>"
      using t by (auto simp: transact_Inr_iff)
    have "tx_steps (bulk_snapshot_page q b after m)" for m by (intro steps)
    from tx_stepsD [OF this page(1)] show ?thesis using page(2) table_steps_names by simp
  next
    case False
    with t show ?thesis by (auto simp: transact_def split: sum.splits)
  qed
  show ?case
  proof (cases "\<exists>k. t = Inr (Some k)")
    case True
    then obtain k where k: "t = Inr (Some k)" by blast
    with 1(2) t have "snapshot_loop env q b (Some k) w1 = (r, w')" by (simp add: snapshot_loop.simps [of env q b after w])
    with 1(1) t k first show ?thesis by (metis subset_trans)
  next
    case False
    with 1(2) t have "w' = w1" by (subst (asm) snapshot_loop.simps) (auto split: sum.splits option.splits)
    with first show ?thesis by simp
  qed
qed

lemma snapshot_loop_covers:
  assumes "snapshot_loop env q b after w = (Inr (), w')" "unique_memories (sd_memories (w_db w))"
    and "x \<in> set (sd_memories (w_db w))" "bulk_match q b x" "beyond memory_key after x"
  shows "(bk_intent_id b, mi_mem0_memory_id x) \<in> names_of w'"
  using assms
proof (induction env q b after w rule: snapshot_loop.induct)
  case (1 env q b after w)
  obtain t w1 where t: "transact env (bulk_snapshot_page q b after) w = (t, w1)" by fastforce
  with 1(2) obtain opt where opt: "t = Inr opt" by (cases t) (auto simp: snapshot_loop.simps [of env q b after w])
  with t obtain db where page: "bulk_snapshot_page q b after (moment_of env w) (w_db w) = Inr (opt, db)" and w1: "w1 = w\<lparr>w_db := db\<rparr>"
    by (auto simp: transact_Inr_iff)
  from snapshot_page_covers [OF 1(3) page 1(4-6)] obtain k where k: "opt = Some k"
    "(bk_intent_id b, mi_mem0_memory_id x) \<in> names_of w1 \<or> beyond memory_key (Some k) x"
    by (auto simp: w1 split: option.splits)
  have rest: "snapshot_loop env q b (Some k) w1 = (Inr (), w')"
    using 1(2) t opt k(1) by (simp add: snapshot_loop.simps [of env q b after w])
  have rows: "sd_memories (w_db w1) = sd_memories (w_db w)" by (simp add: w1 snapshot_page_rows [OF page])
  show ?case
  proof (cases "(bk_intent_id b, mi_mem0_memory_id x) \<in> names_of w1")
    case True
    then show ?thesis using snapshot_names [OF rest] by blast
  next
    case False
    with k 1(1) [OF t [symmetric] opt k(1) rest] 1(3-5) rows show ?thesis by simp
  qed
qed

subsection \<open>Settled targets\<close>

text \<open>Transactions that leave the targets alone.\<close>

definition targets_kept :: "'a txn \<Rightarrow> bool" where
  "targets_kept t = (\<forall>db x db'. t db = Inr (x, db') \<longrightarrow> is_targets (sd_intents db') = is_targets (sd_intents db))"

lemma targets_keptD: "targets_kept t \<Longrightarrow> t db = Inr (x, db') \<Longrightarrow> is_targets (sd_intents db') = is_targets (sd_intents db)"
  unfolding targets_kept_def by blast

named_theorems kept_targets \<open>transactions that leave the targets alone\<close>

lemma targets_kept_basic [kept_targets]:
  "targets_kept (tx_return x)" "targets_kept (tx_raise c s)" "targets_kept (tx_query q)" "targets_kept (tx_res r)"
  "targets_kept (tx_memories f)" "targets_kept (tx_events g)" "targets_kept (tx_entities h)"
  by (auto simp: targets_kept_def tx_return_def tx_raise_def tx_query_def tx_res_def tx_memories_def tx_events_def
      tx_entities_def split: sum.splits prod.splits)

lemma targets_kept_intents [kept_targets]:
  "targets_kept (intent_op env pid (\<lambda>safe. complete_intent safe now iid r))"
  "targets_kept (tx_intents (renew_active_attempt now iid n))"
  by (auto simp: targets_kept_def intent_op_def tx_ops_Inr_iff same_targets)

lemma targets_kept_bind [kept_targets]: "targets_kept t \<Longrightarrow> (\<And>x. targets_kept (f x)) \<Longrightarrow> targets_kept (tx_bind t f)"
  unfolding targets_kept_def tx_bind_Inr_iff by metis

lemma targets_kept_then [kept_targets]: "targets_kept t \<Longrightarrow> targets_kept u \<Longrightarrow> targets_kept (tx_then t u)"
  by (simp add: tx_then_def targets_kept_bind)

lemma targets_kept_option [kept_targets]:
  "targets_kept t \<Longrightarrow> (\<And>y. targets_kept (f y)) \<Longrightarrow> targets_kept (case x of None \<Rightarrow> t | Some y \<Rightarrow> f y)"
  by (cases x) simp_all

lemma targets_kept_if [kept_targets]: "targets_kept t \<Longrightarrow> targets_kept u \<Longrightarrow> targets_kept (if b then t else u)"
  by simp

lemma targets_kept_service [kept_targets]:
  "targets_kept (svc_lock pid)" "targets_kept (svc_require iid n c)" "targets_kept (svc_delete_row m pid mid)"
  "targets_kept (svc_refresh m pid app ps)" "targets_kept (svc_find_memory pid mid a wide)" "targets_kept (svc_get_target tid)"
  "targets_kept (svc_renew m iid n)" "targets_kept (svc_unchanged pid mid app prior msg)"
  "targets_kept (svc_event_succeeded env m eid d)" "targets_kept (svc_complete env m pid iid r)"
proof -
  show "targets_kept (svc_event_succeeded env m eid d)"
    by (auto simp: targets_kept_def dest: events_kept)
qed (unfold svc_lock_def svc_require_def svc_delete_row_def svc_refresh_def svc_find_memory_def svc_get_target_def
    svc_renew_def svc_unchanged_def svc_complete_def, (intro kept_targets)+)

text \<open>A settled target is completed, the others stay as they are.\<close>

definition settled_as :: "string \<Rightarrow> mutation_intent_target list \<Rightarrow> mutation_intent_target list \<Rightarrow> bool" where
  "settled_as tid ts ts' = (\<exists>now. ts' = update_where (\<lambda>t. tgt_id t = tid)
     (\<lambda>t. t\<lparr>tgt_status := ''COMPLETED'', tgt_error_json := Some (JObj []), tgt_updated_at := now\<rparr>) ts)"

definition settles :: "string \<Rightarrow> 'a txn \<Rightarrow> bool" where
  "settles tid t = (\<forall>db x db'. t db = Inr (x, db') \<longrightarrow> settled_as tid (is_targets (sd_intents db)) (is_targets (sd_intents db')))"

lemma settles_after: "(\<And>x. settles tid (f x)) \<Longrightarrow> targets_kept t \<Longrightarrow> settles tid (tx_bind t f)"
  unfolding settles_def tx_bind_Inr_iff by (metis targets_keptD)

lemma settles_then: "settles tid u \<Longrightarrow> targets_kept t \<Longrightarrow> settles tid (tx_then t u)"
  by (simp add: tx_then_def settles_after)

lemma settles_if: "settles tid t \<Longrightarrow> settles tid (if b then tx_raise c s else t)"
  by (simp add: settles_def tx_raise_def)

lemma settles_target: "settles tid (settle_target b tid m)"
proof -
  have "settled_as tid (is_targets (sd_intents db)) (is_targets (sd_intents db'))"
    if "settle_target b tid m db = Inr (x, db')" for db x db'
    using that targets_keptD [OF targets_kept_service(7)]
    by (auto simp: settle_target_def svc_get_target_def tx_iffs svc_mark_target_def tx_ops_Inr_iff mark_target_succeeded_def
        get_target_def settled_as_def dest!: row_by_Some split: option.splits)
  then show ?thesis by (simp add: settles_def)
qed

lemma settles_owned: "(\<And>i. settles tid (f i)) \<Longrightarrow> settles tid (svc_owned pid iid n c f)"
  unfolding svc_owned_def by (intro settles_then settles_after kept_targets)

lemma settles_bulk:
  "settles tid (settle_absent_target q b tid m)" "settles tid (settle_gone_target q b tid mid prior m)"
  "settles tid (settle_deleted_target q b tid mid prior m)"
  unfolding settle_absent_target_def settle_gone_target_def settle_deleted_target_def unindex_target_def
  by (intro settles_owned settles_then settles_after settles_if settles_target kept_targets)+

subsection \<open>One target\<close>

text \<open>Other clients that leave the targets alone.\<close>

definition aloof :: "service_env \<Rightarrow> bool" where
  "aloof env = (\<forall>v. is_targets (sd_intents (w_db (se_others env v))) = is_targets (sd_intents (w_db v)))"

abbreviation targets_of :: "world \<Rightarrow> mutation_intent_target list" where
  "targets_of w \<equiv> is_targets (sd_intents (w_db w))"

lemma aloof_call: "aloof env \<Longrightarrow> targets_of (called env c w) = targets_of w"
  by (simp add: aloof_def called_def)

lemma transact_settles:
  "transact env t w = (Inr x, w') \<Longrightarrow> (\<And>m. settles tid (t m)) \<Longrightarrow> settled_as tid (targets_of w) (targets_of w')"
  by (auto simp: transact_Inr_iff settles_def)

lemma bulk_failed_never [simp]: "bulk_failed b w \<noteq> (Inr x, w')"
  by (simp add: bulk_failed_def act_raise_def)

lemma sent_target_settled:
  assumes "send_target_delete env q b tid mid prior w = (Inr (), w')" "aloof env"
  shows "settled_as tid (targets_of w) (targets_of w')"
  using assms
  by (auto simp: send_target_delete_def ask_called act_then_Inr_iff act_catch_Inr_iff act_fail_def aloof_call
      dest!: transact_settles [OF _ settles_bulk(3)] split: sum.splits if_splits)

lemma gone_target_settled:
  assumes "already_gone env q b tid mid prior w = (Inr went, w')" "aloof env"
  shows "if went then settled_as tid (targets_of w) (targets_of w') else targets_of w' = targets_of w"
  using assms
  by (auto simp: already_gone_def ask_called act_then_Inr_iff act_catch_Inr_iff act_fail_def act_return_iff aloof_call
      dest!: transact_settles [OF _ settles_bulk(2)] split: sum.splits if_splits)

lemma deleted_target_settled:
  assumes "delete_target env q b (tid, mid) w = (Inr (), w')" "aloof env"
  shows "settled_as tid (targets_of w) (targets_of w')"
  using assms
  by (auto simp: delete_target_def act_bind_Inr_iff act_then_Inr_iff inspect_Inr_iff act_return_iff
      dest!: transact_settles [OF _ settles_bulk(1)] gone_target_settled
      dest: sent_target_settled split: option.splits if_splits)

definition open_targets :: "string \<Rightarrow> world \<Rightarrow> nat" where
  "open_targets iid w = count_where (\<lambda>t. tgt_intent_id t = iid \<and> tgt_status t \<noteq> ''COMPLETED'') (targets_of w)"

lemma settled_open:
  assumes "settled_as tid ts ts'"
  shows "count_where (\<lambda>t. tgt_intent_id t = iid \<and> tgt_status t \<noteq> ''COMPLETED'') ts'
      + count_where (\<lambda>t. tgt_intent_id t = iid \<and> tgt_status t \<noteq> ''COMPLETED'' \<and> tgt_id t = tid) ts
    = count_where (\<lambda>t. tgt_intent_id t = iid \<and> tgt_status t \<noteq> ''COMPLETED'') ts"
proof -
  from assms obtain now where ts': "ts' = update_where (\<lambda>t. tgt_id t = tid)
     (\<lambda>t. t\<lparr>tgt_status := ''COMPLETED'', tgt_error_json := Some (JObj []), tgt_updated_at := now\<rparr>) ts"
    by (auto simp: settled_as_def)
  show ?thesis unfolding ts' by (induction ts) (auto simp: count_where_def update_where_def)
qed

text \<open>A round works off at least the first of the open targets.\<close>

lemma each_target_settled:
  assumes "act_each (delete_target env q b) targets w = (Inr xs, w')" "aloof env"
  shows "open_targets iid w' \<le> open_targets iid w"
  using assms(1)
proof (induction targets arbitrary: w xs)
  case (Cons t ts)
  then obtain x v ys where first: "delete_target env q b t w = (Inr x, v)"
    and rest: "act_each (delete_target env q b) ts v = (Inr ys, w')"
    by (auto simp: act_bind_Inr_iff act_return_iff)
  from first have "settled_as (fst t) (targets_of w) (targets_of v)"
    using deleted_target_settled [OF _ assms(2), of q b "fst t" "snd t" w v] by simp
  from settled_open [OF this, of iid] have "open_targets iid v \<le> open_targets iid w" by (simp add: open_targets_def)
  with Cons(1) [OF rest] show ?case by linarith
qed (simp add: act_return_iff)

lemma round_progress:
  assumes "bulk_targets b (w_db w) = Inr targets" "targets \<noteq> []"
    and "act_each (delete_target env q b) targets w = (Inr xs, w')" "aloof env"
  shows "open_targets (bk_intent_id b) w' < open_targets (bk_intent_id b) w"
proof -
  let ?iid = "bk_intent_id b"
  from assms(2) obtain t ts where targets: "targets = t # ts" by (cases targets) auto
  with assms(3) obtain v ys where first: "delete_target env q b t w = (Inr (), v)"
    and rest: "act_each (delete_target env q b) ts v = (Inr ys, w')"
    by (auto simp: act_bind_Inr_iff act_return_iff)
  have "settled_as (fst t) (targets_of w) (targets_of v)"
    using deleted_target_settled [OF _ assms(4), of q b "fst t" "snd t" w v] first by simp
  moreover have "t \<in> set targets" by (simp add: targets)
  then obtain row where row: "row \<in> set (targets_of w)" "tgt_intent_id row = ?iid" "tgt_status row \<noteq> ''COMPLETED''" "tgt_id row = fst t"
    using assms(1) by (auto simp: bulk_targets_def incomplete_targets_def intent_targets_def rbind_Inr_iff dest!: in_set_takeD)
  then have "0 < count_where (\<lambda>t'. tgt_intent_id t' = ?iid \<and> tgt_status t' \<noteq> ''COMPLETED'' \<and> tgt_id t' = fst t) (targets_of w)"
    by (auto simp: count_where_def filter_empty_conv)
  ultimately have "open_targets ?iid v < open_targets ?iid w"
    using settled_open [of "fst t" "targets_of w" "targets_of v" ?iid] by (simp add: open_targets_def)
  with each_target_settled [OF rest assms(4), of ?iid] show ?thesis by linarith
qed

lemma no_open_targets: "open_targets (bk_intent_id b) w = 0 \<Longrightarrow> bulk_targets b (w_db w) = Inr []"
  by (auto simp: open_targets_def count_where_def bulk_targets_def incomplete_targets_def intent_targets_def rbind_def
      filter_empty_conv)

lemma more_rounds:
  assumes "aloof env" "open_targets (bk_intent_id b) w \<le> n"
  shows "delete_rounds env q b (Suc n + k) w = delete_rounds env q b (Suc n) w"
  using assms(2)
proof (induction n arbitrary: w)
  case 0
  then show ?case using no_open_targets [of b w] by (simp add: act_bind_def inspect_def)
next
  case (Suc n)
  obtain targets where targets: "bulk_targets b (w_db w) = Inr targets" by (auto simp: bulk_targets_def incomplete_targets_def rbind_def)
  obtain r v where run: "act_each (delete_target env q b) targets w = (r, v)" by fastforce
  show ?case
  proof (cases "targets = [] \<or> (\<exists>e. r = Inl e)")
    case True
    then show ?thesis using targets run by (auto simp: act_bind_def act_then_def inspect_def)
  next
    case False
    then obtain xs where xs: "r = Inr xs" by (cases r) auto
    have "open_targets (bk_intent_id b) v \<le> n"
      using round_progress [OF targets _ run [unfolded xs] assms(1)] False Suc(2) by simp
    from Suc(1) [OF this] show ?thesis
      using targets run xs False by (simp add: act_bind_def act_then_def inspect_def)
  qed
qed

text \<open>
  A bulk deletion never runs out of rounds.  In well-formed tables an intent has at most 5000
  targets and every round that succeeds settles at least one of them, so the 5001 rounds of the
  model are as good as any larger number, whatever the upstream answers, as long as the other
  clients leave the targets alone: the loop of the code ends.
\<close>

lemma bulk_rounds_suffice:
  assumes "\<And>v. is_targets (sd_intents (w_db (se_others env v))) = is_targets (sd_intents (w_db v))"
    and "intents_ok (sd_intents (w_db w))"
  shows "delete_rounds env q b (Suc MAX_TARGETS + extra) w = delete_rounds env q b (Suc MAX_TARGETS) w"
proof (rule more_rounds)
  show "aloof env" using assms(1) by (simp add: aloof_def)
  have fewer: "length (filter (\<lambda>x. P x \<and> Q x) ts) \<le> length (filter P ts)" for P Q and ts :: "mutation_intent_target list"
    by (induction ts) auto
  have "open_targets (bk_intent_id b) w \<le> length (filter (\<lambda>t. tgt_intent_id t = bk_intent_id b) (targets_of w))"
    unfolding open_targets_def count_where_def by (rule fewer)
  also have "\<dots> \<le> MAX_TARGETS" using assms(2) by (simp add: intents_ok_def targets_ok_def)
  finally show "open_targets (bk_intent_id b) w \<le> MAX_TARGETS" .
qed

subsection \<open>The whole deletion\<close>

lemma rounds_done: "delete_rounds env q b n w = (Inr (), w') \<Longrightarrow> bulk_targets b (w_db w') = Inr []"
  by (induction n arbitrary: w)
    (auto simp: act_fail_def act_bind_Inr_iff act_then_Inr_iff inspect_Inr_iff act_return_iff split: if_splits)

lemma all_completed:
  "bulk_targets b db = Inr [] \<Longrightarrow> t \<in> set (is_targets (sd_intents db)) \<Longrightarrow> tgt_intent_id t = bk_intent_id b \<Longrightarrow>
     tgt_status t = ''COMPLETED''"
  by (auto simp: bulk_targets_def incomplete_targets_def intent_targets_def rbind_Inr_iff filter_empty_conv)

lemma finish_bulk_delete_Inr:
  assumes "finish_bulk_delete env q b m db = Inr (r, db')"
  shows "r = [(''message'', JStr ''All relevant memories deleted'')]
    \<and> is_targets (sd_intents db') = is_targets (sd_intents db)
    \<and> (\<exists>i \<in> set (is_intents (sd_intents db')). int_id i = bk_intent_id b \<and> int_status i = ''COMPLETED''
        \<and> int_result_json i = Some (JObj (sanitize_payload env db' (br_project_id q) r)))"
proof -
  have "targets_kept (finish_bulk_delete env q b m)"
    unfolding finish_bulk_delete_def svc_owned_def Let_def by (intro kept_targets)
  with assms have "is_targets (sd_intents db') = is_targets (sd_intents db)" by (rule targets_keptD [rotated])
  moreover have "r = [(''message'', JStr ''All relevant memories deleted'')]
    \<and> (\<exists>i \<in> set (is_intents (sd_intents db')). int_id i = bk_intent_id b \<and> int_status i = ''COMPLETED''
        \<and> int_result_json i = Some (JObj (sanitize_payload env db' (br_project_id q) r)))"
    using assms
    by (auto simp: finish_bulk_delete_def svc_owned_def Let_def tx_iffs svc_complete_def intent_op_def tx_ops_Inr_iff
        dest!: settled_intent)
  ultimately show ?thesis by blast
qed


lemma index_kept_intent_op [frames]: "index_kept (intent_op env pid f)"
  by (auto simp: index_kept_def intent_op_def tx_ops_Inr_iff)

lemma index_kept_events [frames]: "index_kept (svc_event_failed env m eid d)"
  by (auto simp: index_kept_def dest: events_kept)

lemma index_kept_target [frames]:
  "index_kept (settle_target b tid m)" "index_kept (settle_absent_target q b tid m)"
  "index_kept (fail_changed_target env q b tid mid m)"
  unfolding settle_target_def settle_absent_target_def fail_changed_target_def svc_get_target_def svc_mark_target_def
    svc_owned_def svc_fail_target_def svc_completed_targets_def svc_fail_bulk_def Let_def
  by (intro frames)+

lemma transact_index_kept:
  "transact env t w = (r, w') \<Longrightarrow> (\<And>m. index_kept (t m)) \<Longrightarrow> w_calls w' = w_calls w \<and> sd_memories (w_db w') = sd_memories (w_db w)"
  unfolding index_kept_def by (fastforce simp: transact_def split: sum.splits)

lemma deleted_row_gone: "get_memory pid mid app False (snd (delete_memory_row now pid mid rows)) = None"
  by (auto simp: delete_memory_row_def get_memory_def find_None_iff memory_row_def live_def Let_def opt_is_def
      split: option.splits)

lemma unindexed_gone:
  "unindex_target q b tid mid prior m db = Inr (x, db') \<Longrightarrow>
     get_memory (br_project_id q) mid app False (sd_memories db') = None"
  by (auto simp: unindex_target_def tx_iffs svc_delete_row_def tx_memories_def deleted_row_gone
      dest!: index_keptD [OF index_kept_sweep(3)] index_keptD [OF index_kept_target(1)])

lemma settled_gone:
  "transact env (settle_gone_target q b tid mid prior) w = (Inr x, w') \<Longrightarrow>
     get_memory (br_project_id q) mid app False (sd_memories (w_db w')) = None"
  "transact env (settle_deleted_target q b tid mid prior) w = (Inr x, w') \<Longrightarrow>
     get_memory (br_project_id q) mid app False (sd_memories (w_db w')) = None"
  by (auto simp: transact_Inr_iff settle_gone_target_def settle_deleted_target_def svc_owned_def tx_iffs tx_raise_def
      dest: unindexed_gone split: if_splits)

text \<open>
  A target of a bulk deletion is deleted only if its memory has not changed since the request.
  When the live row of the memory was written after the intent, no call is sent, the index stays as
  it is and the deletion fails; and when a target is settled without error, no live row of the
  memory is left in the scope, whatever other clients did while the upstream was asked.
\<close>

lemma bulk_target_deleted_or_spared:
  assumes "delete_target env q b (tid, mid) w = (res, w')"
  shows "(case get_memory (br_project_id q) mid (Some (br_app_id q)) False (sd_memories (w_db w)) of
        Some x \<Rightarrow> mi_updated_at x > bk_started_at b \<longrightarrow>
          (\<exists>e. res = Inl e) \<and> w_calls w' = w_calls w \<and> sd_memories (w_db w') = sd_memories (w_db w)
      | None \<Rightarrow> w_calls w' = w_calls w \<and> sd_memories (w_db w') = sd_memories (w_db w))
    \<and> (res = Inr () \<longrightarrow> get_memory (br_project_id q) mid (Some (br_app_id q)) False (sd_memories (w_db w')) = None)"
proof -
  let ?found = "get_memory (br_project_id q) mid (Some (br_app_id q)) False"
  have sent: "?found (sd_memories (w_db v')) = None" if "send_target_delete env q b tid mid prior v = (Inr (), v')" for prior v v'
    using that
    by (auto simp: send_target_delete_def ask_called act_then_Inr_iff act_catch_Inr_iff act_fail_def
      dest!: settled_gone(2) split: sum.splits if_splits)
  have gone: "?found (sd_memories (w_db v')) = None" if "already_gone env q b tid mid prior v = (Inr True, v')" for prior v v'
    using that
    by (auto simp: already_gone_def ask_called act_then_Inr_iff act_catch_Inr_iff act_fail_def act_return_iff
      dest!: settled_gone(1) split: sum.splits if_splits)
  show ?thesis
  proof (cases "?found (sd_memories (w_db w))")
    case None
    then have "transact env (settle_absent_target q b tid) w = (res, w')"
      using assms by (simp add: delete_target_def act_bind_def inspect_def)
    from transact_index_kept [OF this index_kept_target(2)] show ?thesis by (simp add: None)
  next
    case (Some x)
    have spared: "(\<exists>e. res = Inl e) \<and> w_calls w' = w_calls w \<and> sd_memories (w_db w') = sd_memories (w_db w)"
      if late: "mi_updated_at x > bk_started_at b"
    proof -
      obtain r v where run: "transact env (fail_changed_target env q b tid mid) w = (r, v)" by fastforce
      have "w' = v" "\<exists>e. res = Inl e"
        using assms Some late run
        by (auto simp: delete_target_def act_bind_def act_then_def inspect_def bulk_failed_def act_raise_def split: sum.splits)
      then show ?thesis using transact_index_kept [OF run index_kept_target(3)] by blast
    qed
    moreover have "?found (sd_memories (w_db w')) = None" if ok: "res = Inr ()"
    proof -
      let ?prior = "snapshot_memory_projection x"
      from spared ok have "\<not> mi_updated_at x > bk_started_at b" by auto
      then have "act_bind (if bk_resuming b then already_gone env q b tid mid ?prior else act_return False) (\<lambda>went.
          if went then act_return () else send_target_delete env q b tid mid ?prior) w = (Inr (), w')"
        using assms Some ok by (simp add: delete_target_def act_bind_def [of "inspect _"] inspect_def)
      then obtain went v where first: "(if bk_resuming b then already_gone env q b tid mid ?prior else act_return False) w = (Inr went, v)"
        and rest: "(if went then act_return () else send_target_delete env q b tid mid ?prior) v = (Inr (), w')"
        by (simp only: act_bind_Inr_iff) blast
      show ?thesis
      proof (cases went)
        case True
        then have "already_gone env q b tid mid ?prior w = (Inr True, v)" "w' = v"
          using first rest by (simp_all add: act_return_def split: if_splits)
        then show ?thesis by (simp add: gone)
      next
        case False
        with rest show ?thesis by (simp add: sent)
      qed
    qed
    ultimately show ?thesis using Some by simp
  qed
qed

section \<open>Witnesses\<close>

text \<open>The writers of events succeed on events that exist.\<close>

lemma event_writers_total:
  assumes "i \<in> ev_id ` set (sd_events db)"
  shows "\<exists>e es. svc_event_failed env m i d db = Inr (e, db\<lparr>sd_events := es\<rparr>) \<and> ev_id ` set es = ev_id ` set (sd_events db)"
    and "\<exists>e es. svc_event_succeeded env m i d db = Inr (e, db\<lparr>sd_events := es\<rparr>) \<and> ev_id ` set es = ev_id ` set (sd_events db)"
proof -
  obtain e where e: "get_event i (sd_events db) = Inr e" "ev_id e = i"
    using assms by (cases "row_by ev_id i (sd_events db)") (auto simp: get_event_def row_by_None dest: row_by_Some)
  let ?hosts = "project_internal_hosts (se_trace env) (sd_projects db) (ev_project_id e)"
  have ids: "ev_id ` set (save_event e' (sd_events db)) = ev_id ` set (sd_events db)" for e'
  proof -
    have "map ev_id (save_event e' es) = map ev_id es" for es by (induction es) (simp_all add: save_event_def save_def)
    then show ?thesis by (metis list.set_map)
  qed
  obtain x where "safe_trace_document (se_trace env) ?hosts (JObj d) = Inr x" using safe_trace_document_total by blast
  then show "\<exists>e es. svc_event_failed env m i d db = Inr (e, db\<lparr>sd_events := es\<rparr>) \<and> ev_id ` set es = ev_id ` set (sd_events db)"
    using e by (simp add: svc_event_failed_def tx_events_def event_mark_failed_def rbind_def Let_def)
      (rule exI, rule conjI, rule refl, rule ids)
  let ?summary = "[(''results'', jget d ''results''), (''total'', jget d ''total'')]"
  obtain n previews where previews: "trace_result_summary ?summary = (n, previews)" by fastforce
  obtain y where "safe_trace_document (se_trace env) ?hosts (JObj (response_document d previews)) = Inr y"
    using safe_trace_document_total by blast
  then show "\<exists>e es. svc_event_succeeded env m i d db = Inr (e, db\<lparr>sd_events := es\<rparr>) \<and> ev_id ` set es = ev_id ` set (sd_events db)"
    using e previews
    by (simp add: svc_event_succeeded_def tx_events_def event_mark_succeeded_def rbind_def Let_def)
      (intro conjI impI; rule exI, rule conjI, rule refl, rule ids)
qed

text \<open>An update whose outcome is unknown.\<close>

definition unknown_update :: mutation_intent where
  "unknown_update = (new_intent JObj ''i1'' ''h'' 0 ''p'' ''p'' ''e1'' ''memory.update'' [])
     \<lparr>int_status := ''UNKNOWN'', int_lease_expires_at := None\<rparr>"

definition unknown_world :: world where
  "unknown_world = \<lparr>w_db = sample_db\<lparr>sd_intents := \<lparr>is_intents = [unknown_update], is_targets = []\<rparr>,
     sd_events := [sample_event ''e1'' None None]\<rparr>, w_calls = []\<rparr>"

definition given_up :: "json dict result \<times> world" where
  "given_up = resolve_intent sample_env ''p'' ''p'' ''i1'' ''i1'' ''UNKNOWN'' (JInt 1) (JStr ''lost'') True unknown_world"

definition given_up_resolution :: resolution where
  "given_up_resolution = \<lparr>rs_project_id = ''p'', rs_app_id = ''p'', rs_intent_id = ''i1'', rs_status = ''UNKNOWN'', rs_attempts = 1,
     rs_reason = ''lost''\<rparr>"

lemma given_up_steps:
  "read_resolution ''p'' ''p'' ''i1'' ''i1'' ''UNKNOWN'' (JInt 1) (JStr ''lost'') True = Inr given_up_resolution"
  "first_look 0 given_up_resolution (w_db unknown_world) = Inr (''memory.update'', None)"
  "resolvable_intent 0 given_up_resolution (w_db unknown_world) = Inr unknown_update"
  "raw_canonical_event_app_id [(''intent_id'', JStr ''i1''), (''expected_status'', JStr ''UNKNOWN''),
     (''expected_attempt_count'', JInt 1), (''accept_unknown_outcome'', JBool True), (''reason'', JStr ''lost'')] (Some ''p'') = Inr (Some ''p'')"
  "raw_canonical_event_entity_id [(''intent_id'', JStr ''i1''), (''expected_status'', JStr ''UNKNOWN''),
     (''expected_attempt_count'', JInt 1), (''accept_unknown_outcome'', JBool True), (''reason'', JStr ''lost'')] None ''user_id'' = Inr None"
  "raw_canonical_event_entity_id [(''intent_id'', JStr ''i1''), (''expected_status'', JStr ''UNKNOWN''),
     (''expected_attempt_count'', JInt 1), (''accept_unknown_outcome'', JBool True), (''reason'', JStr ''lost'')] None ''agent_id'' = Inr None"
  "raw_canonical_event_entity_id [(''intent_id'', JStr ''i1''), (''expected_status'', JStr ''UNKNOWN''),
     (''expected_attempt_count'', JInt 1), (''accept_unknown_outcome'', JBool True), (''reason'', JStr ''lost'')] None ''run_id'' = Inr None"
  by code_simp+

lemma given_up_resolution_fields: "rs_project_id given_up_resolution = ''p''" "rs_reason given_up_resolution = ''lost''"
  by (simp_all add: given_up_resolution_def)

lemma given_up_ok: "\<exists>answer. fst given_up = Inr answer"
proof -
  let ?m = "moment_of sample_env unknown_world" and ?db = "w_db unknown_world" and ?a = "resolution_event_args given_up_resolution"
  have m: "mo_now ?m = 0" "mo_id ?m = sample_id" by (simp_all add: moment_of_def sample_env_def unknown_world_def)
  have "\<exists>e es. create_event (se_trace sample_env) (se_caller sample_env) ''e'' 0 (sd_projects ?db) ''p'' ?a (sd_events ?db) = Inr (e, es)"
    by (rule create_event_total [where app = "''p''" and u = None and g = None and r = None])
      (simp_all add: given_up_steps(4-7) resolution_event_args_def given_up_resolution_def)
  then obtain e es where made: "create_event (se_trace sample_env) (se_caller sample_env) ''e'' 0 (sd_projects ?db) ''p'' ?a (sd_events ?db) = Inr (e, es)"
    by blast
  have id: "ev_id e = ''e''" and es: "es = sd_events ?db @ [e]"
    using made by (auto simp: create_event_def rbind_Inr_iff Let_def)
  let ?db1 = "?db\<lparr>sd_events := es\<rparr>"
  let ?err = "[(''message'', JStr ''Operator accepted an unknown upstream mutation outcome''), (''reason'', JStr ''lost'')]"
  have created: "svc_create_event sample_env ?m ''p'' ?a ?db = Inr (e, ?db1)"
    using made by (simp add: svc_create_event_def tx_events_def m)
  have "''e1'' \<in> ev_id ` set (sd_events ?db1)" by (simp add: es unknown_world_def sample_event_def)
  from event_writers_total(1) [OF this, of sample_env ?m ?err] obtain e1 es1 where
    failed: "svc_event_failed sample_env ?m ''e1'' ?err ?db1 = Inr (e1, ?db1\<lparr>sd_events := es1\<rparr>)" "ev_id ` set es1 = ev_id ` set es"
    by auto
  let ?db2 = "?db1\<lparr>sd_events := es1\<rparr>"
  have "\<exists>i db3. svc_fail sample_env ?m ''p'' ''i1'' ?err ?db2 = Inr (i, db3) \<and> sd_events db3 = es1"
    by (simp add: svc_fail_def intent_op_def tx_intents_def fail_intent_def rbind_def get_intent_def row_by_def Let_def
        unknown_world_def unknown_update_def new_intent_def)
  then obtain i db3 where ended: "svc_fail sample_env ?m ''p'' ''i1'' ?err ?db2 = Inr (i, db3)" "sd_events db3 = es1" by blast
  have "''e'' \<in> ev_id ` set (sd_events db3)" using ended(2) failed(2) es id by force
  from event_writers_total(2) [OF this, of sample_env ?m "[(''id'', JStr ''i1''), (''status'', JStr ''FAILED'')]"] obtain e2 es2 where
    told: "svc_event_succeeded sample_env ?m ''e'' [(''id'', JStr ''i1''), (''status'', JStr ''FAILED'')] db3 = Inr (e2, db3\<lparr>sd_events := es2\<rparr>)"
    by auto
  have i1: "int_id unknown_update = ''i1''" "int_event_id unknown_update = ''e1''" "int_operation unknown_update = ''memory.update''"
    by (simp_all add: unknown_update_def new_intent_def)
  have "\<exists>answer db. settle_resolution sample_env given_up_resolution ''memory.update'' None ?m ?db = Inr (answer, db)"
    using created failed(1) ended(1) told id
    by (simp add: settle_resolution_def tx_bind_def tx_then_def tx_query_def tx_return_def given_up_steps(3) m i1
        given_up_resolution_fields Let_def)
  then show ?thesis
    using m by (auto simp: given_up_def resolve_intent_def act_bind_def act_then_def act_res_def inspect_def act_return_def
        given_up_steps(1,2) transact_def)
qed


text \<open>A listing that names one of two memories.\<close>

definition swept_world :: world where
  "swept_world = \<lparr>w_db = sample_db\<lparr>sd_memories :=
     [(new_memory ''r1'' 0 ''p'' ''m1'')\<lparr>mi_app_id := Some ''p''\<rparr>, (new_memory ''r2'' 0 ''p'' ''m2'')\<lparr>mi_app_id := Some ''p''\<rparr>]\<rparr>,
     w_calls = []\<rparr>"

definition sample_sweep :: sweep where
  "sample_sweep = \<lparr>sw_project_id = ''p'', sw_app_id = Some ''p'', sw_cutoff = 0, sw_accepted = [''m1''], sw_attempt = None\<rparr>"

lemma swept_ok: "fst (sweep_loop sample_env sample_sweep None swept_world) = Inr 1"
  by code_simp

lemma sweep_marks_unlisted_witness:
  "\<exists>w'. sweep_loop sample_env sample_sweep None swept_world = (Inr 1, w')
    \<and> sd_memories (w_db w') = update_where (\<lambda>x. mi_project_id x = ''p'' \<and> live x \<and> mi_updated_at x \<le> 0
          \<and> (Some ''p'' = None \<or> mi_app_id x = Some ''p'') \<and> mi_mem0_memory_id x \<notin> set [''m1''])
        (\<lambda>x. x\<lparr>mi_deleted_at := Some 0, mi_updated_at := 0\<rparr>) (sd_memories (w_db swept_world))"
proof -
  obtain w' where run: "sweep_loop sample_env sample_sweep None swept_world = (Inr 1, w')"
    using swept_ok by (metis prod.collapse)
  have unique: "unique_memories (sd_memories (w_db swept_world))" by code_simp
  have now: "mo_now (moment_of sample_env swept_world) = 0" by code_simp
  from sweep_marks_unlisted [OF unique run] run show ?thesis by (simp add: now) (simp add: sample_sweep_def)
qed

definition sample_bulk :: bulk_request where
  "sample_bulk = \<lparr>br_project_id = ''p'', br_app_id = ''p'', br_filters = [], br_fingerprint = ''h''\<rparr>"

definition sample_bulk_run :: bulk_run where
  "sample_bulk_run = \<lparr>bk_intent_id = ''i1'', bk_attempt = 1, bk_event_id = ''e1'', bk_started_at = 0, bk_cutoff = 0,
     bk_resuming = False\<rparr>"

lemma bulk_rounds_suffice_witness:
  "delete_rounds sample_env sample_bulk sample_bulk_run (Suc MAX_TARGETS + 1) swept_world
    = delete_rounds sample_env sample_bulk sample_bulk_run (Suc MAX_TARGETS) swept_world"
  by (rule bulk_rounds_suffice)
    (simp_all add: sample_env_def swept_world_def sample_db_def intents_ok_def targets_ok_def)

text \<open>A memory that was written after the request.\<close>

definition late_world :: world where
  "late_world = swept_world\<lparr>w_db := (w_db swept_world)\<lparr>sd_memories :=
     [(new_memory ''r1'' 7 ''p'' ''m1'')\<lparr>mi_app_id := Some ''p''\<rparr>]\<rparr>\<rparr>"

lemma bulk_target_deleted_or_spared_witness:
  "\<exists>e. fst (delete_target sample_env sample_bulk sample_bulk_run (''t1'', ''m1'') late_world) = Inl e"
proof -
  have "get_memory ''p'' ''m1'' (Some ''p'') False (sd_memories (w_db late_world))
      = Some ((new_memory ''r1'' 7 ''p'' ''m1'')\<lparr>mi_app_id := Some ''p''\<rparr>)"
    by (simp add: late_world_def get_memory_def new_memory_def opt_is_def live_def)
  then show ?thesis
    using bulk_target_deleted_or_spared [of sample_env sample_bulk sample_bulk_run "''t1''" "''m1''" late_world, OF surjective_pairing]
    by (simp add: sample_bulk_def sample_bulk_run_def new_memory_def)
qed

text \<open>A bulk deletion that finds nothing to delete.\<close>

definition bulk_intent :: mutation_intent where
  "bulk_intent = new_intent JObj ''i1'' ''h'' 0 ''p'' ''p'' ''e1'' ''memory.bulk_delete'' []"

definition bulk_world :: world where
  "bulk_world = \<lparr>w_db = sample_db\<lparr>sd_intents := \<lparr>is_intents = [bulk_intent], is_targets = []\<rparr>,
     sd_events := [sample_event ''e1'' None None]\<rparr>, w_calls = []\<rparr>"

lemma bulk_intent_facts: "int_id bulk_intent = ''i1''" "\<not> truthy (jget (intent_payload bulk_intent) ''snapshot_complete'')"
  by code_simp+

lemma bulk_run_ok: "\<exists>r. fst (run_bulk_delete sample_env sample_bulk sample_bulk_run bulk_world) = Inr r"
proof -
  let ?m = "moment_of sample_env bulk_world" and ?env = sample_env and ?q = sample_bulk and ?b = sample_bulk_run
  have "bulk_snapshot_page ?q ?b None ?m (w_db bulk_world) = Inr (None, w_db bulk_world)"
    by (simp add: bulk_snapshot_page_def tx_bind_def tx_query_def bulk_candidates_def list_bulk_delete_candidates_def
        bulk_world_def sample_db_def tx_return_def)
  then have loop: "snapshot_loop ?env ?q ?b None bulk_world = (Inr (), bulk_world)"
    by (simp add: snapshot_loop.simps [of ?env ?q ?b None bulk_world] transact_def)
  have "\<exists>i. finish_snapshot ?env ?q ?b ?m (w_db bulk_world) = Inr ((), (w_db bulk_world)\<lparr>sd_intents := \<lparr>is_intents = [i], is_targets = []\<rparr>\<rparr>)
      \<and> int_id i = ''i1'' \<and> int_status i = ''ACTIVE'' \<and> int_attempt_count i = 1"
    by (simp add: finish_snapshot_def svc_owned_def svc_lock_def svc_require_def svc_get_intent_def tx_bind_def tx_then_def
        tx_query_def tx_return_def intent_op_def tx_intents_def update_payload_def rbind_def get_intent_def row_by_def Let_def
        require_active_attempt_def lock_for_mutation_def bulk_world_def sample_db_def sample_project_def new_project_def
        sample_bulk_def sample_bulk_run_def bulk_intent_def new_intent_def save_intent_def save_def)
  then obtain i where snap: "finish_snapshot ?env ?q ?b ?m (w_db bulk_world)
      = Inr ((), (w_db bulk_world)\<lparr>sd_intents := \<lparr>is_intents = [i], is_targets = []\<rparr>\<rparr>)"
    and i: "int_id i = ''i1''" "int_status i = ''ACTIVE''" "int_attempt_count i = 1" by blast
  let ?w = "bulk_world\<lparr>w_db := (w_db bulk_world)\<lparr>sd_intents := \<lparr>is_intents = [i], is_targets = []\<rparr>\<rparr>\<rparr>"
  have targets: "snapshot_targets ?env ?q ?b bulk_world = (Inr (), ?w)"
    using loop snap
    by (simp add: snapshot_targets_def act_bind_def act_then_def inspect_def transact_def get_intent_def row_by_def
        bulk_world_def sample_bulk_run_def bulk_intent_facts)
  have "bulk_targets ?b (w_db ?w) = Inr []"
    by (simp add: bulk_targets_def incomplete_targets_def intent_targets_def rbind_def)
  then have rounds: "delete_rounds ?env ?q ?b (Suc MAX_TARGETS) ?w = (Inr (), ?w)"
    by (simp add: act_bind_def inspect_def act_return_def)
  let ?r = "[(''message'', JStr ''All relevant memories deleted'')]"
  have "''e1'' \<in> ev_id ` set (sd_events (w_db ?w))" by (simp add: bulk_world_def sample_event_def)
  from event_writers_total(2) [OF this, of ?env "moment_of ?env ?w" ?r] obtain e es where
    "svc_event_succeeded ?env (moment_of ?env ?w) ''e1'' ?r (w_db ?w) = Inr (e, (w_db ?w)\<lparr>sd_events := es\<rparr>)" by blast
  then have "\<exists>db. finish_bulk_delete ?env ?q ?b (moment_of ?env ?w) (w_db ?w) = Inr (?r, db)"
    using i
    by (simp add: finish_bulk_delete_def svc_owned_def svc_lock_def svc_require_def tx_bind_def tx_then_def svc_complete_def
        tx_query_def tx_return_def intent_op_def tx_intents_def complete_intent_def rbind_def get_intent_def row_by_def Let_def
        require_active_attempt_def lock_for_mutation_def bulk_world_def sample_db_def sample_project_def new_project_def
        sample_bulk_def sample_bulk_run_def)
  then show ?thesis
    using targets rounds by (auto simp: run_bulk_delete_def act_then_def act_bind_def act_catch_def transact_def)
qed


text \<open>An entity without memories.\<close>

definition sample_entity :: entity where
  "sample_entity = \<lparr>ent_id = ''n1'', ent_project_id = ''p'', ent_app_id = ''p'', ent_entity_type = ''user'', ent_entity_id = ''bob'',
     ent_display_name = None, ent_metadata_json = None, ent_memory_count = 0, ent_last_seen_at = None, ent_created_at = 0,
     ent_updated_at = 0\<rparr>"

definition entity_world :: world where
  "entity_world = \<lparr>w_db = sample_db\<lparr>sd_entities := [sample_entity]\<rparr>, w_calls = []\<rparr>"

lemma entity_request_scope:
  "raw_canonical_event_app_id [(''app_id'', JStr ''p''), (''entity_type'', JStr ''user''), (''entity_id'', JStr ''bob''),
     (''projected_count'', JInt 0)] (Some ''p'') = Inr (Some ''p'')"
  "raw_canonical_event_entity_id [(''app_id'', JStr ''p''), (''entity_type'', JStr ''user''), (''entity_id'', JStr ''bob''),
     (''projected_count'', JInt 0)] (Some ''bob'') ''user_id'' = Inr (Some ''bob'')"
  "raw_canonical_event_entity_id [(''app_id'', JStr ''p''), (''entity_type'', JStr ''user''), (''entity_id'', JStr ''bob''),
     (''projected_count'', JInt 0)] None ''agent_id'' = Inr None"
  "raw_canonical_event_entity_id [(''app_id'', JStr ''p''), (''entity_type'', JStr ''user''), (''entity_id'', JStr ''bob''),
     (''projected_count'', JInt 0)] None ''run_id'' = Inr None"
  "validate_entity_identity (JStr ''user'') (JStr ''bob'') = Inr (''user'', ''bob'')"
  "entity_portable_id (JStr ''p'') ''project_id'' = Inr ''p''" "entity_portable_id (JStr ''p'') ''app_id'' = Inr ''p''"
  "get_project_entity ''p'' ''p'' ''user'' ''bob'' [sample_entity] = Inr sample_entity"
  "list_entity_memory_ids ''p'' ''p'' ''user'' ''bob'' [] = Inr []"
  by code_simp+

lemma entity_run_ok: "\<exists>r. fst (delete_entity sample_env ''p'' ''p'' ''user'' ''bob'' entity_world) = Inr r"
proof -
  let ?m = "moment_of sample_env entity_world" and ?db = "w_db entity_world" and ?env = sample_env
  let ?a = "entity_event_args ?env ''p'' ''user'' ''bob'' sample_entity"
  have m: "mo_now ?m = 0" "mo_id ?m = sample_id" by (simp_all add: moment_of_def sample_env_def entity_world_def)
  have db: "sd_projects ?db = [Service_Safety.sample_project]" "sd_memories ?db = []" "sd_events ?db = []"
      "sd_entities ?db = [sample_entity]" "sd_intents ?db = \<lparr>is_intents = [], is_targets = []\<rparr>"
    by (simp_all add: entity_world_def sample_db_def)
  have recovered: "recover_pending_mutations ?env ''p'' ''p'' False entity_world = (Inr (0, 0), entity_world)"
    by (simp add: recover_pending_mutations_def act_bind_def inspect_def open_intents_def lock_for_mutation_def row_by_def
      entity_world_def sample_db_def sample_project_def new_project_def list_recoverable_def act_return_def
      blockers_gone_def check_blockers_def list_blocking_def rbind_def)
  have "\<exists>e es. create_event (se_trace ?env) (se_caller ?env) ''e'' 0 (sd_projects ?db) ''p'' ?a [] = Inr (e, es)"
    by (rule create_event_total [where app = "''p''" and u = "Some ''bob''" and g = None and r = None])
      (simp_all add: entity_request_scope entity_event_args_def sample_entity_def)
  then obtain e es where made: "create_event (se_trace ?env) (se_caller ?env) ''e'' 0 (sd_projects ?db) ''p'' ?a [] = Inr (e, es)"
    by blast
  have id: "ev_id e = ''e''" and es: "es = [e]" using made by (auto simp: create_event_def rbind_Inr_iff Let_def)
  have created: "svc_create_event ?env ?m ''p'' ?a ?db = Inr (e, ?db\<lparr>sd_events := es\<rparr>)"
    using made by (simp add: svc_create_event_def tx_events_def m db)
  have "\<exists>d i. begin_delete_entity ?env ''p'' ''p'' ''user'' ''bob'' ?m ?db
      = Inr (d, ?db\<lparr>sd_events := es, sd_intents := \<lparr>is_intents = [i], is_targets = []\<rparr>\<rparr>)
      \<and> ed_memory_ids d = [] \<and> ed_project_id d = ''p'' \<and> ed_intent_id d = ''i'' \<and> ed_attempt d = 1 \<and> ed_event_id d = ''e''
      \<and> int_id i = ''i'' \<and> int_status i = ''ACTIVE'' \<and> int_attempt_count i = 1"
    using created
    by (simp add: begin_delete_entity_def tx_bind_def tx_then_def tx_query_def tx_return_def svc_lock_def lock_for_mutation_def
        row_by_def rbind_def svc_create_intent_def intent_op_def tx_intents_def create_intent_def find_by_operation_key_def
        add_targets_def intent_targets_def unknown_targets_def insert_targets_def dedup_def MAX_TARGETS_def Let_def
        list_memories_by_ids_def entity_request_scope new_intent_def m id db
        sample_project_def new_project_def)
      (rule exI, rule conjI, rule refl, simp)
  then obtain d i where began: "begin_delete_entity ?env ''p'' ''p'' ''user'' ''bob'' ?m ?db
      = Inr (d, ?db\<lparr>sd_events := es, sd_intents := \<lparr>is_intents = [i], is_targets = []\<rparr>\<rparr>)"
    and d: "ed_memory_ids d = []" "ed_project_id d = ''p''" "ed_intent_id d = ''i''" "ed_attempt d = 1" "ed_event_id d = ''e''"
    and i: "int_id i = ''i''" "int_status i = ''ACTIVE''" "int_attempt_count i = 1" by blast
  let ?w = "entity_world\<lparr>w_db := ?db\<lparr>sd_events := es, sd_intents := \<lparr>is_intents = [i], is_targets = []\<rparr>\<rparr>\<rparr>"
  let ?p = "\<lparr>dp_failed = [], dp_deleted = 0, dp_attempted = False, dp_effect = False\<rparr>"
  let ?told = "[(''status'', JStr ''SUCCEEDED''), (''total'', JInt 0), (''count'', JInt 0), (''success'', JBool True)]"
  have "''e'' \<in> ev_id ` set (sd_events (w_db ?w))" by (simp add: es id)
  from event_writers_total(2) [OF this, of ?env "moment_of ?env ?w" ?told] obtain e2 es2 where
    "svc_event_succeeded ?env (moment_of ?env ?w) ''e'' ?told (w_db ?w) = Inr (e2, (w_db ?w)\<lparr>sd_events := es2\<rparr>)" by blast
  then have "\<exists>r db. finish_delete_entity ?env d ?p (moment_of ?env ?w) (w_db ?w) = Inr (r, db)"
    using i d
    by (simp add: finish_delete_entity_def svc_owned_def svc_lock_def svc_require_def tx_bind_def tx_then_def svc_complete_def
        tx_query_def tx_return_def intent_op_def tx_intents_def complete_intent_def rbind_def get_intent_def row_by_def Let_def
        require_active_attempt_def lock_for_mutation_def db sample_project_def new_project_def)
  moreover have "chunks ENTITY_DELETE_BATCH [] = ([] :: string list list)" by code_simp
  ultimately have "\<exists>r. fst (run_delete_entity ?env d ?w) = Inr r"
    by (auto simp: run_delete_entity_def act_bind_def act_catch_def transact_def d)
  then show ?thesis
    using recovered began
    by (simp add: delete_entity_def act_bind_def act_then_def act_res_def rbind_def entity_request_scope transact_def)
qed

lemma entity_deletion_accounts_for_all_witness:
  "\<exists>r w' (j :: mutation_intent). delete_entity sample_env ''p'' ''p'' ''user'' ''bob'' entity_world = (Inr r, w')
    \<and> j \<in> set (is_intents (sd_intents (w_db w'))) \<and> int_status j \<in> {''COMPLETED'', ''PARTIAL'', ''FAILED''}"
proof -
  obtain r w' where run: "delete_entity sample_env ''p'' ''p'' ''user'' ''bob'' entity_world = (Inr r, w')"
    using entity_run_ok by (metis prod.collapse)
  have "\<exists>j :: mutation_intent. j \<in> set (is_intents (sd_intents (w_db w'))) \<and> int_status j \<in> {''COMPLETED'', ''PARTIAL'', ''FAILED''}"
    using entity_deletion_accounts_for_all [OF run] by (elim exE conjE bexE) (auto split: if_splits)
  with run show ?thesis by blast
qed

end
