(* ===== verification/Memory_Scan.thy ===== *)
theory Memory_Scan
  imports Memory_Reads
begin

text \<open>
  Scanning the memories of a scope page by page (\<open>core/memory_scan.py\<close>,
  \<open>core/memory_scan_cursor.py\<close>, \<open>core/memory_scan_types.py\<close>,
  \<open>core/memory_scan_hydration.py\<close>): the request, the signed cursor that carries a scan from
  one page to the next, base64 included, and the scan itself.
\<close>

section \<open>Requests\<close>

abbreviation scan_invalid :: "string \<Rightarrow> 'a res" where
  "scan_invalid m \<equiv> raise (OtherError ''MemoryScanValidationError'') m"

definition scan_conflict :: "exn" where
  "scan_conflict = Exn (OtherError ''MemoryScanConflictError'')
     ''Memory projection changed during cursor traversal; restart without a cursor''"

datatype scan_mode = Page_Mode | Count_Mode

record scan_request =
  sq_project_id :: string
  sq_app_id :: "string option"
  sq_project_wide :: bool
  sq_user_id :: "string option"
  sq_agent_id :: "string option"
  sq_run_id :: "string option"
  sq_type :: "string option"
  sq_mode :: scan_mode
  sq_page_size :: "int option"
  sq_cursor :: "string option"
  sq_include_expired :: bool

text \<open>What a request is once it is made: a page has a size from 1 to 100.\<close>

definition make_scan_request :: "scan_request \<Rightarrow> scan_request res" where
  "make_scan_request q =
     (if sq_project_wide q = (sq_app_id q \<noteq> None)
      then scan_invalid ''exactly one of app_id or project_wide=true is required''
      else case sq_mode q of
        Page_Mode \<Rightarrow>
          let size = (case sq_page_size q of None \<Rightarrow> 100 | Some n \<Rightarrow> n) in
          if 1 \<le> size \<and> size \<le> 100 then Inr (q\<lparr>sq_page_size := Some size\<rparr>)
          else scan_invalid ''page_size must be between 1 and 100''
      | Count_Mode \<Rightarrow>
          if sq_page_size q \<noteq> None \<or> sq_cursor q \<noteq> None
          then scan_invalid ''count mode does not accept page_size or cursor''
          else Inr q)"

definition metadata_type :: "memory_index \<Rightarrow> string option" where
  "metadata_type x = (case jget (metadata_projection x) ''type'' of JStr t \<Rightarrow> Some t | _ \<Rightarrow> None)"

section \<open>Base64\<close>

definition B64_ALPHABET :: string where
  "B64_ALPHABET = ''ABCDEFGHIJKLMNOPQRSTUVWXYZabcdefghijklmnopqrstuvwxyz0123456789-_''"

definition b64_char :: "nat \<Rightarrow> char" where
  "b64_char n = B64_ALPHABET ! n"

fun b64_encode :: "nat list \<Rightarrow> string" where
  "b64_encode [] = []"
| "b64_encode [a] = [b64_char (a div 4), b64_char (a mod 4 * 16), CHR ''='', CHR ''='']"
| "b64_encode [a, b] = [b64_char (a div 4), b64_char (a mod 4 * 16 + b div 16), b64_char (b mod 16 * 4), CHR ''='']"
| "b64_encode (a # b # c # bytes) =
     [b64_char (a div 4), b64_char (a mod 4 * 16 + b div 16), b64_char (b mod 16 * 4 + c div 64), b64_char (c mod 64)]
     @ b64_encode bytes"

text \<open>The decoder also takes the characters that the usual alphabet has in place of the last two.\<close>

definition b64_value :: "char \<Rightarrow> nat option" where
  "b64_value c = (let n = code c in
     if 65 \<le> n \<and> n \<le> 90 then Some (n - 65)
     else if 97 \<le> n \<and> n \<le> 122 then Some (n - 71)
     else if 48 \<le> n \<and> n \<le> 57 then Some (n + 4)
     else if n = 45 \<or> n = 43 then Some 62
     else if n = 95 \<or> n = 47 then Some 63 else None)"

fun b64_bytes :: "nat list \<Rightarrow> nat list" where
  "b64_bytes (p # q # r # s # rest) = [p * 4 + q div 16, q mod 16 * 16 + r div 4, r mod 4 * 64 + s] @ b64_bytes rest"
| "b64_bytes [p, q, r] = [p * 4 + q div 16, q mod 16 * 16 + r div 4]"
| "b64_bytes [p, q] = [p * 4 + q div 16]"
| "b64_bytes _ = []"

text \<open>Whole groups, the last of which may be filled up with one or two equals signs.\<close>

definition b64_decode :: "string \<Rightarrow> nat list option" where
  "b64_decode s =
     (let body = takeWhile (\<lambda>c. c \<noteq> CHR ''='') s; fill = dropWhile (\<lambda>c. c \<noteq> CHR ''='') s;
          sextets = map b64_value body
      in if list_all (\<lambda>c. c = CHR ''='') fill \<and> list_all (\<lambda>v. v \<noteq> None) sextets
           \<and> (length body mod 4, length fill) \<in> {(0, 0), (2, 2), (3, 1)}
         then Some (b64_bytes (map the sextets)) else None)"

lemma b64_alphabet:
  "map b64_value B64_ALPHABET = map Some [0, 1, 2, 3, 4, 5, 6, 7, 8, 9, 10, 11, 12, 13, 14, 15, 16, 17, 18, 19, 20, 21, 22, 23, 24, 25, 26, 27, 28, 29, 30, 31, 32, 33, 34, 35, 36, 37, 38, 39, 40, 41, 42, 43, 44, 45, 46, 47, 48, 49, 50, 51, 52, 53, 54, 55, 56, 57, 58, 59, 60, 61, 62, 63]"
  "CHR ''='' \<notin> set B64_ALPHABET" "length B64_ALPHABET = 64"
  by (simp_all add: B64_ALPHABET_def b64_value_def code_def)

lemma b64_value_char: "n < 64 \<Longrightarrow> b64_value (b64_char n) = Some n"
proof -
  assume n: "n < 64"
  have "[0, 1, 2, 3, 4, 5, 6, 7, 8, 9, 10, 11, 12, 13, 14, 15, 16, 17, 18, 19, 20, 21, 22, 23, 24, 25, 26, 27, 28, 29, 30, 31, 32, 33, 34, 35, 36, 37, 38, 39, 40, 41, 42, 43, 44, 45, 46, 47, 48, 49, 50, 51, 52, 53, 54, 55, 56, 57, 58, 59, 60, 61, 62, 63] = [0..<64 :: nat]" by (simp add: upt_conv_Cons)
  then have "map b64_value B64_ALPHABET = map Some [0..<64]" using b64_alphabet(1) by simp
  then have "map b64_value B64_ALPHABET ! n = Some n" using n by simp
  then show ?thesis using n by (simp add: b64_char_def b64_alphabet(3))
qed

lemma b64_char_fill: "n < 64 \<Longrightarrow> b64_char n \<noteq> CHR ''=''"
  unfolding b64_char_def using b64_alphabet(2,3) by (metis nth_mem)

definition b64_token :: "nat list \<Rightarrow> string" where
  "b64_token bytes = rev (dropWhile (\<lambda>c. c = CHR ''='') (rev (b64_encode bytes)))"

definition b64_padded :: "string \<Rightarrow> string" where
  "b64_padded t = t @ replicate ((4 - length t mod 4) mod 4) (CHR ''='')"

subsection \<open>Decoding undoes encoding\<close>

fun b64_sextets :: "nat list \<Rightarrow> nat list" where
  "b64_sextets [] = []"
| "b64_sextets [a] = [a div 4, a mod 4 * 16]"
| "b64_sextets [a, b] = [a div 4, a mod 4 * 16 + b div 16, b mod 16 * 4]"
| "b64_sextets (a # b # c # bytes) =
     [a div 4, a mod 4 * 16 + b div 16, b mod 16 * 4 + c div 64, c mod 64] @ b64_sextets bytes"

definition b64_fill :: "nat list \<Rightarrow> nat" where
  "b64_fill bytes = (3 - length bytes mod 3) mod 3"

lemma b64_encode_sextets: "b64_encode bytes = map b64_char (b64_sextets bytes) @ replicate (b64_fill bytes) (CHR ''='')"
  by (induction bytes rule: b64_encode.induct) (simp_all add: b64_fill_def numeral_2_eq_2 mod_Suc)

lemma byte_high: "b < 256 \<Longrightarrow> b div 16 < 16" "b < 256 \<Longrightarrow> b div 64 < 4" "b < 256 \<Longrightarrow> b div 4 < 64" for b :: nat
  by (simp_all add: less_mult_imp_div_less)

lemma two_parts: "x < m \<Longrightarrow> y < k \<Longrightarrow> x * k + y < m * k" for x y k m :: nat
proof -
  assume "x < m" "y < k"
  then have "x * k + y < (x + 1) * k" by simp
  also have "\<dots> \<le> m * k" using \<open>x < m\<close> by (intro mult_le_mono1) simp
  finally show ?thesis .
qed

lemma b64_sextets_small: "\<forall>b \<in> set bytes. b < 256 \<Longrightarrow> \<forall>n \<in> set (b64_sextets bytes). n < 64"
proof (induction bytes rule: b64_sextets.induct)
  case (2 a)
  then show ?case using byte_high(3) [of a] two_parts [of "a mod 4" 4 0 16] by simp
next
  case (3 a b)
  then show ?case
    using byte_high(3) [of a] byte_high(1) [of b] two_parts [of "a mod 4" 4 "b div 16" 16] two_parts [of "b mod 16" 16 0 4] by simp
next
  case (4 a b c bytes)
  then show ?case
    using byte_high(3) [of a] byte_high(1) [of b] byte_high(2) [of c] two_parts [of "a mod 4" 4 "b div 16" 16]
      two_parts [of "b mod 16" 16 "c div 64" 4] by simp
qed simp

lemma b64_bytes_sextets: "\<forall>b \<in> set bytes. b < 256 \<Longrightarrow> b64_bytes (b64_sextets bytes) = bytes"
  by (induction bytes rule: b64_sextets.induct) (simp_all add: byte_high)

lemma b64_sextets_length:
  "(length (b64_sextets bytes) mod 4, b64_fill bytes) \<in> {(0, 0), (2, 2), (3, 1)}
     \<and> b64_fill bytes = (4 - length (b64_sextets bytes) mod 4) mod 4"
proof -
  have "(length (b64_sextets bytes) mod 4, length bytes mod 3) \<in> {(0, 0), (2, 1), (3, 2)}"
  proof (induction bytes rule: b64_sextets.induct)
    case (4 a b c bytes)
    have "length (b64_sextets (a # b # c # bytes)) = length (b64_sextets bytes) + 4" "length (a # b # c # bytes) = length bytes + 3"
      by simp_all
    with 4 show ?case by (simp only: mod_add_self2)
  qed simp_all
  then show ?thesis by (auto simp: b64_fill_def)
qed

lemma b64_token_sextets:
  assumes "\<forall>b \<in> set bytes. b < 256"
  shows "b64_token bytes = map b64_char (b64_sextets bytes)"
proof -
  have "dropWhile (\<lambda>c. c = CHR ''='') (rev (map b64_char ns)) = rev (map b64_char ns)" if "\<forall>n \<in> set ns. n < 64" for ns
    using that b64_char_fill by (cases ns rule: rev_cases) auto
  moreover have "dropWhile (\<lambda>c. c = CHR ''='') (replicate n (CHR ''='') @ cs) = dropWhile (\<lambda>c. c = CHR ''='') cs" for n cs
    by (induction n) auto
  ultimately show ?thesis
    using b64_sextets_small [OF assms] by (simp add: b64_token_def b64_encode_sextets)
qed

lemma span_fill:
  assumes "\<And>c. c \<in> set cs \<Longrightarrow> c \<noteq> e"
  shows "takeWhile (\<lambda>c. c \<noteq> e) (cs @ replicate n e) = cs"
    "dropWhile (\<lambda>c. c \<noteq> e) (cs @ replicate n e) = replicate n e"
  using assms by (induction cs) (auto simp: takeWhile_replicate dropWhile_replicate)

lemma b64_roundtrip:
  assumes "\<forall>b \<in> set bytes. b < 256"
  shows "b64_decode (b64_padded (b64_token bytes)) = Some bytes"
proof -
  let ?ns = "b64_sextets bytes" and ?eq = "CHR ''=''"
  have small: "\<forall>n \<in> set ?ns. n < 64" by (rule b64_sextets_small [OF assms])
  have padded: "b64_padded (b64_token bytes) = map b64_char ?ns @ replicate (b64_fill bytes) ?eq"
    using b64_sextets_length [of bytes] by (simp add: b64_padded_def b64_token_sextets [OF assms])
  have out: "\<And>c. c \<in> set (map b64_char ?ns) \<Longrightarrow> c \<noteq> ?eq"
    using small b64_char_fill by (metis imageE list.set_map)
  have sextets: "takeWhile (\<lambda>c. c \<noteq> ?eq) (map b64_char ?ns @ replicate n ?eq) = map b64_char ?ns"
    "dropWhile (\<lambda>c. c \<noteq> ?eq) (map b64_char ?ns @ replicate n ?eq) = replicate n ?eq" for n
    using span_fill [OF out] by blast+
  have vals: "map b64_value (map b64_char ?ns) = map Some ?ns"
    unfolding list.map_comp comp_def by (rule map_cong [OF refl]) (use small b64_value_char in blast)
  have kind: "(length ?ns mod 4, b64_fill bytes) \<in> {(0, 0), (2, 2), (3, 1)}"
    by (rule conjunct1 [OF b64_sextets_length])
  have read: "map the (map Some ?ns) = ?ns" by (induction ?ns) simp_all
  have ok: "list_all (\<lambda>c. c = ?eq) (replicate (b64_fill bytes) ?eq)" "list_all (\<lambda>v. v \<noteq> None) (map Some ?ns)"
    by (simp_all add: list_all_iff)
  show ?thesis
    unfolding b64_decode_def padded Let_def sextets vals length_map length_replicate read b64_bytes_sextets [OF assms]
    using ok kind by (simp only: simp_thms if_True)
qed

section \<open>The cursor\<close>

record cursor_scope =
  cs_project_id :: string
  cs_app_id :: "string option"
  cs_project_wide :: bool
  cs_user_id :: "string option"
  cs_agent_id :: "string option"
  cs_run_id :: "string option"
  cs_type :: "string option"
  cs_include_expired :: bool

record cursor_state =
  ct_snapshot_at :: time
  ct_upper :: memory_key
  ct_after :: memory_key
  ct_total :: int

text \<open>
  The key of the deployment with the keyed digest over it, and the reader of a JSON document from
  its UTF-8 bytes.
\<close>

record cursor_key =
  ck_hmac :: "string \<Rightarrow> string"
  ck_loads :: "nat list \<Rightarrow> json option"

definition CURSOR_MAX_LENGTH :: nat where "CURSOR_MAX_LENGTH = 4096"
definition CURSOR_VERSION :: int where "CURSOR_VERSION = 1"

definition scope_of_request :: "scan_request \<Rightarrow> cursor_scope" where
  "scope_of_request q =
     \<lparr>cs_project_id = sq_project_id q, cs_app_id = sq_app_id q, cs_project_wide = sq_project_wide q,
      cs_user_id = sq_user_id q, cs_agent_id = sq_agent_id q, cs_run_id = sq_run_id q, cs_type = sq_type q,
      cs_include_expired = sq_include_expired q\<rparr>"

definition scope_payload :: "cursor_scope \<Rightarrow> json" where
  "scope_payload sc = JObj
     [(''project_id'', JStr (cs_project_id sc)), (''app_id'', opt_json (cs_app_id sc)),
      (''project_wide'', JBool (cs_project_wide sc)),
      (''filters'', JObj [(''user_id'', opt_json (cs_user_id sc)), (''agent_id'', opt_json (cs_agent_id sc)),
         (''run_id'', opt_json (cs_run_id sc)), (''type'', opt_json (cs_type sc))]),
      (''include_expired'', JBool (cs_include_expired sc))]"

definition scope_digest :: "service_env \<Rightarrow> cursor_scope \<Rightarrow> string" where
  "scope_digest env sc = se_sha256 env (json_dumps (se_float_text env) compact_sorted (scope_payload sc))"

definition cursor_mac :: "service_env \<Rightarrow> cursor_key \<Rightarrow> json dict \<Rightarrow> cursor_scope \<Rightarrow> string" where
  "cursor_mac env ck payload sc =
     ck_hmac ck (json_dumps (se_float_text env) compact_sorted
       (JObj [(''cursor'', JObj payload), (''scope'', scope_payload sc)]))"

definition keyset_json :: "service_env \<Rightarrow> memory_key \<Rightarrow> json" where
  "keyset_json env k = JList [JStr (se_isoformat env (fst k)), JStr (snd k)]"

definition cursor_payload :: "service_env \<Rightarrow> cursor_state \<Rightarrow> cursor_scope \<Rightarrow> json dict" where
  "cursor_payload env st sc =
     [(''v'', JInt CURSOR_VERSION), (''snapshot_at'', JStr (se_isoformat env (ct_snapshot_at st))),
      (''upper'', keyset_json env (ct_upper st)), (''after'', keyset_json env (ct_after st)),
      (''total'', JInt (ct_total st)), (''digest'', JStr (scope_digest env sc))]"

definition signed_cursor :: "service_env \<Rightarrow> cursor_key \<Rightarrow> cursor_state \<Rightarrow> cursor_scope \<Rightarrow> json" where
  "signed_cursor env ck st sc =
     JObj (dset ''mac'' (JStr (cursor_mac env ck (cursor_payload env st sc) sc)) (cursor_payload env st sc))"

definition encode_cursor :: "service_env \<Rightarrow> cursor_key \<Rightarrow> cursor_state \<Rightarrow> cursor_scope \<Rightarrow> string" where
  "encode_cursor env ck st sc =
     b64_token (map code (json_dumps (se_float_text env) compact_sorted (signed_cursor env ck st sc)))"

definition INVALID_CURSOR :: string where "INVALID_CURSOR = ''invalid memory scan cursor''"
definition FOREIGN_CURSOR :: string where "FOREIGN_CURSOR = ''memory scan cursor does not match request scope''"

text \<open>Dates of a cursor carry their zone.\<close>

definition parse_cursor_date :: "service_env \<Rightarrow> json \<Rightarrow> time res" where
  "parse_cursor_date env value =
     (case value of
        JStr s \<Rightarrow> (case se_fromiso env (replace_Z s) of
            Some (Aware t off) \<Rightarrow> Inr (instant (Aware t off)) | _ \<Rightarrow> scan_invalid INVALID_CURSOR)
      | _ \<Rightarrow> scan_invalid INVALID_CURSOR)"

definition parse_keyset :: "service_env \<Rightarrow> json \<Rightarrow> memory_key res" where
  "parse_keyset env value =
     (case value of
        JList [t, JStr i] \<Rightarrow>
          if i = [] then scan_invalid INVALID_CURSOR
          else rbind (parse_cursor_date env t) (\<lambda>at_time. Inr (at_time, i))
      | _ \<Rightarrow> scan_invalid INVALID_CURSOR)"

definition is_mac :: "string \<Rightarrow> bool" where
  "is_mac s = (length s = 64 \<and> list_all (\<lambda>c. c \<in> set ''0123456789abcdefABCDEF'') s)"

definition CURSOR_KEYS :: "string set" where
  "CURSOR_KEYS = {''v'', ''snapshot_at'', ''upper'', ''after'', ''total'', ''digest'', ''mac''}"

text \<open>The document of a token with its signature taken out.\<close>

definition open_token :: "cursor_key \<Rightarrow> string \<Rightarrow> (json dict \<times> string) res" where
  "open_token ck token =
     (if token = [] \<or> length token > CURSOR_MAX_LENGTH then scan_invalid INVALID_CURSOR
      else case Option.bind (b64_decode (b64_padded token)) (ck_loads ck) of
        Some (JObj value) \<Rightarrow>
          if set (dkeys value) \<noteq> CURSOR_KEYS then scan_invalid INVALID_CURSOR
          else (case jget value ''mac'' of
              JStr mac \<Rightarrow> if is_mac mac then Inr (ddel ''mac'' value, mac) else scan_invalid INVALID_CURSOR
            | _ \<Rightarrow> scan_invalid INVALID_CURSOR)
      | _ \<Rightarrow> scan_invalid INVALID_CURSOR)"

definition cursor_content :: "service_env \<Rightarrow> json dict \<Rightarrow> cursor_state res" where
  "cursor_content env value =
     rbind (case jget value ''v'' of JInt v \<Rightarrow> raise_if (v \<noteq> CURSOR_VERSION) (Exn (OtherError ''MemoryScanValidationError'') INVALID_CURSOR)
       | _ \<Rightarrow> scan_invalid INVALID_CURSOR) (\<lambda>_.
     rbind (case jget value ''total'' of JInt n \<Rightarrow> if n < 0 then scan_invalid INVALID_CURSOR else Inr n
       | _ \<Rightarrow> scan_invalid INVALID_CURSOR) (\<lambda>n.
     rbind (case jget value ''digest'' of JStr _ \<Rightarrow> Inr () | _ \<Rightarrow> scan_invalid INVALID_CURSOR) (\<lambda>_.
     rbind (parse_cursor_date env (jget value ''snapshot_at'')) (\<lambda>snapshot_at.
     rbind (parse_keyset env (jget value ''upper'')) (\<lambda>upper_key.
     rbind (parse_keyset env (jget value ''after'')) (\<lambda>after_key.
       Inr \<lparr>ct_snapshot_at = snapshot_at, ct_upper = upper_key, ct_after = after_key, ct_total = n\<rparr>))))))"

definition decode_cursor :: "service_env \<Rightarrow> cursor_key \<Rightarrow> string \<Rightarrow> cursor_scope \<Rightarrow> cursor_state res" where
  "decode_cursor env ck token sc =
     rbind (open_token ck token) (\<lambda>(value, mac).
       if mac \<noteq> cursor_mac env ck value sc
       then scan_invalid (if jget value ''digest'' \<noteq> JStr (scope_digest env sc) then FOREIGN_CURSOR else INVALID_CURSOR)
       else cursor_content env value)"

subsection \<open>A cursor comes back as it was issued\<close>

lemma sort_key_map_keys: "(\<And>x. g (h x) = f x) \<Longrightarrow> sort_key g (map h xs) = map h (sort_key f xs)"
proof (induction xs)
  case (Cons x xs)
  have "insort_key g (h x) (map h ys) = map h (insort_key f x ys)" for ys
    by (induction ys) (simp_all add: Cons.prems)
  with Cons show ?case by simp
qed simp

lemma json_dumps_canon: "js_sort_keys st \<Longrightarrow> json_dumps fr st (canon_json j) = json_dumps fr st j"
proof (induction j rule: canon_json.induct)
  case (2 m)
  let ?r = "\<lambda>(k, v). (k, json_dumps fr st v)" and ?c = "\<lambda>(k, v). (k, canon_json v)"
  have "map ?r (sort_key fst (map ?c m)) = sort_key fst (map ?r (map ?c m))"
    by (rule sort_key_map_keys [symmetric]) auto
  also have "map ?r (map ?c m) = map ?r m" using 2 by (auto simp: comp_def)
  finally have "sort_key fst (map ?r (sort_key fst (map ?c m))) = sort_key fst (map ?r m)"
    by (simp add: sort_key_id_if_sorted)
  with 2(2) show ?case by (simp add: Let_def)
qed (auto simp: comp_def cong: map_cong)

lemma canon_payload:
  "canon_json (JObj (cursor_payload env st sc)) = JObj
     [(''after'', keyset_json env (ct_after st)), (''digest'', JStr (scope_digest env sc)),
      (''snapshot_at'', JStr (se_isoformat env (ct_snapshot_at st))), (''total'', JInt (ct_total st)),
      (''upper'', keyset_json env (ct_upper st)), (''v'', JInt CURSOR_VERSION)]"
  by (simp add: cursor_payload_def keyset_json_def)

lemma canon_signed:
  "canon_json (signed_cursor env ck st sc) = JObj
     [(''after'', keyset_json env (ct_after st)), (''digest'', JStr (scope_digest env sc)),
      (''mac'', JStr (cursor_mac env ck (cursor_payload env st sc) sc)),
      (''snapshot_at'', JStr (se_isoformat env (ct_snapshot_at st))), (''total'', JInt (ct_total st)),
      (''upper'', keyset_json env (ct_upper st)), (''v'', JInt CURSOR_VERSION)]"
  by (simp add: signed_cursor_def cursor_payload_def keyset_json_def)

lemma cursor_mac_canon:
  assumes "canon_json (JObj p) = canon_json (JObj p')"
  shows "cursor_mac env ck p sc = cursor_mac env ck p' sc"
proof -
  let ?dumps = "json_dumps (se_float_text env) compact_sorted"
  have "?dumps (JObj p) = ?dumps (JObj p')"
    using json_dumps_canon [of compact_sorted "se_float_text env"] assms by (metis compact_sorted_def json_style.select_convs(4))
  then show ?thesis by (simp add: cursor_mac_def Let_def del: json_dumps.simps) (simp only: json_dumps.simps list.map prod.case)
qed

definition date_survives :: "service_env \<Rightarrow> time \<Rightarrow> bool" where
  "date_survives env t = (parse_cursor_date env (JStr (se_isoformat env t)) = Inr t)"

lemma open_encoded:
  assumes loads: "ck_loads ck (map code (json_dumps (se_float_text env) compact_sorted (signed_cursor env ck st sc)))
      = Some (canon_json (signed_cursor env ck st sc))"
    and mac: "is_mac (cursor_mac env ck (cursor_payload env st sc) sc)"
    and fits: "length (encode_cursor env ck st sc) \<le> CURSOR_MAX_LENGTH"
  obtains p where "canon_json (JObj (cursor_payload env st sc)) = JObj p"
    "open_token ck (encode_cursor env ck st sc) = Inr (p, cursor_mac env ck (cursor_payload env st sc) sc)"
proof -
  let ?text = "json_dumps (se_float_text env) compact_sorted (signed_cursor env ck st sc)"
  have decoded: "b64_decode (b64_padded (encode_cursor env ck st sc)) = Some (map code ?text)"
    unfolding encode_cursor_def by (rule b64_roundtrip) (simp add: code_less_256)
  then have "Option.bind (b64_decode (b64_padded (encode_cursor env ck st sc))) (ck_loads ck)
      = Some (canon_json (signed_cursor env ck st sc))"
    using loads by simp
  moreover have "encode_cursor env ck st sc \<noteq> []"
  proof
    assume "encode_cursor env ck st sc = []"
    with decoded have "?text = []" by (simp add: b64_padded_def b64_decode_def Let_def)
    then show False by (simp add: signed_cursor_def Let_def)
  qed
  ultimately show ?thesis
    using that [OF canon_payload] mac fits
    by (simp add: open_token_def canon_signed CURSOR_KEYS_def insert_commute jget_def)
qed

lemma decode_encoded:
  assumes "ck_loads ck (map code (json_dumps (se_float_text env) compact_sorted (signed_cursor env ck st sc)))
      = Some (canon_json (signed_cursor env ck st sc))"
    and "is_mac (cursor_mac env ck (cursor_payload env st sc) sc)"
    and "length (encode_cursor env ck st sc) \<le> CURSOR_MAX_LENGTH"
    and dates: "date_survives env (ct_snapshot_at st)" "date_survives env (fst (ct_upper st))" "date_survives env (fst (ct_after st))"
    and wf: "snd (ct_upper st) \<noteq> []" "snd (ct_after st) \<noteq> []" "0 \<le> ct_total st"
  shows "decode_cursor env ck (encode_cursor env ck st sc) sc' =
     (if cursor_mac env ck (cursor_payload env st sc) sc = cursor_mac env ck (cursor_payload env st sc) sc' then Inr st
      else scan_invalid (if scope_digest env sc \<noteq> scope_digest env sc' then FOREIGN_CURSOR else INVALID_CURSOR))"
proof -
  obtain p where p: "canon_json (JObj (cursor_payload env st sc)) = JObj p"
    and opened: "open_token ck (encode_cursor env ck st sc) = Inr (p, cursor_mac env ck (cursor_payload env st sc) sc)"
    using open_encoded [OF assms(1-3)] by blast
  have same: "cursor_mac env ck p sc' = cursor_mac env ck (cursor_payload env st sc) sc'" for sc'
    by (rule cursor_mac_canon) (simp add: p [symmetric] canon_payload keyset_json_def del: canon_json.simps(2), simp add: keyset_json_def)
  have "cursor_content env p = Inr st"
    using dates wf p [unfolded canon_payload]
    by (auto simp: cursor_content_def jget_def keyset_json_def parse_keyset_def date_survives_def raise_if_def)
  moreover have "jget p ''digest'' = JStr (scope_digest env sc)"
    using p [unfolded canon_payload] by (auto simp: jget_def)
  ultimately show ?thesis by (auto simp: decode_cursor_def opened same)
qed

text \<open>
  A cursor comes back as it was issued: a token that fits, made for a scope, decodes under the
  same scope to the state it carries: the moment of the scan, its bounds, the place reached and
  the total announced.  Under a scope for which the signature differs it is refused, and the
  refusal names the scope when the digest of the scope differs too.
\<close>

lemma cursor_roundtrip:
  assumes "ck_loads ck (map code (json_dumps (se_float_text env) compact_sorted (signed_cursor env ck st sc)))
      = Some (canon_json (signed_cursor env ck st sc))"
    and "is_mac (cursor_mac env ck (cursor_payload env st sc) sc)"
    and "length (encode_cursor env ck st sc) \<le> CURSOR_MAX_LENGTH"
    and "date_survives env (ct_snapshot_at st)" "date_survives env (fst (ct_upper st))" "date_survives env (fst (ct_after st))"
    and "snd (ct_upper st) \<noteq> []" "snd (ct_after st) \<noteq> []" "0 \<le> ct_total st"
  shows "decode_cursor env ck (encode_cursor env ck st sc) sc = Inr st
    \<and> (\<forall>sc'. cursor_mac env ck (cursor_payload env st sc) sc' \<noteq> cursor_mac env ck (cursor_payload env st sc) sc \<longrightarrow>
         decode_cursor env ck (encode_cursor env ck st sc) sc'
           = scan_invalid (if scope_digest env sc \<noteq> scope_digest env sc' then FOREIGN_CURSOR else INVALID_CURSOR))"
  by (auto simp: decode_encoded [OF assms])

text \<open>
  Only a signed cursor is accepted: a token that decodes under a scope is no longer than the
  limit and holds a document whose signature is the keyed digest of the rest of the document
  together with that scope; the state it yields has a total that is no number below zero and names
  a memory at its bound and at the place reached.
\<close>

lemma accepted_cursor_signed:
  assumes "decode_cursor env ck token sc = Inr st"
  shows "length token \<le> CURSOR_MAX_LENGTH
    \<and> (\<exists>d. Option.bind (b64_decode (b64_padded token)) (ck_loads ck) = Some (JObj d) \<and> set (dkeys d) = CURSOR_KEYS
         \<and> dget d ''mac'' = Some (JStr (cursor_mac env ck (ddel ''mac'' d) sc))
         \<and> dget d ''total'' = Some (JInt (ct_total st)))
    \<and> 0 \<le> ct_total st \<and> snd (ct_upper st) \<noteq> [] \<and> snd (ct_after st) \<noteq> []"
proof -
  obtain p mac where opened: "open_token ck token = Inr (p, mac)" and mac: "mac = cursor_mac env ck p sc"
    and content: "cursor_content env p = Inr st"
    using assms by (auto simp: decode_cursor_def res_simps split: if_splits)
  have key: "snd k \<noteq> []" if "parse_keyset env j = Inr k" for j k
    using that by (auto simp: parse_keyset_def rbind_Inr_iff split: json.splits list.splits if_splits)
  have total: "jget p ''total'' = JInt (ct_total st)" "0 \<le> ct_total st" "snd (ct_upper st) \<noteq> []" "snd (ct_after st) \<noteq> []"
    using content key by (auto simp: cursor_content_def res_simps split: json.splits if_splits)
  have get: "jget v k = x \<Longrightarrow> x \<noteq> JNull \<Longrightarrow> dget v k = Some x" for v k x
    by (auto simp: jget_def split: option.splits)
  from opened obtain v where v: "Option.bind (b64_decode (b64_padded token)) (ck_loads ck) = Some (JObj v)"
    "set (dkeys v) = CURSOR_KEYS" "jget v ''mac'' = JStr mac" "p = ddel ''mac'' v" "length token \<le> CURSOR_MAX_LENGTH"
    by (auto simp: open_token_def split: if_splits option.splits json.splits)
  have "dget v ''total'' = Some (JInt (ct_total st))"
    using get [OF total(1)] v(4) by simp
  then show ?thesis using v total mac get [OF v(3)] by auto
qed

section \<open>The scan\<close>

definition COUNT_BATCH :: int where "COUNT_BATCH = 200"

definition scan_scope_of :: "scan_request \<Rightarrow> time \<Rightarrow> scan_scope" where
  "scan_scope_of q snapshot_at =
     \<lparr>sc_project_id = sq_project_id q, sc_app_id = sq_app_id q, sc_project_wide = sq_project_wide q,
      sc_user_id = sq_user_id q, sc_agent_id = sq_agent_id q, sc_run_id = sq_run_id q,
      sc_snapshot_at = snapshot_at, sc_include_expired = sq_include_expired q\<rparr>"

definition scan_type_match :: "scan_request \<Rightarrow> memory_index \<Rightarrow> bool" where
  "scan_type_match q x = (sq_type q = None \<or> metadata_type x = sq_type q)"

definition initial_total :: "scan_request \<Rightarrow> time \<Rightarrow> memory_key option \<Rightarrow> memory_index list \<Rightarrow> nat" where
  "initial_total q snapshot_at bound rows =
     (if sq_type q = None then count_scan_rows (scan_scope_of q snapshot_at) bound rows
      else sum_list (map (\<lambda>page. length (filter (\<lambda>x. metadata_type x = sq_type q) page))
        (read_pages (\<lambda>after. list_scan_candidates (scan_scope_of q snapshot_at) bound after COUNT_BATCH rows)
          memory_key (Suc (length rows)) None)))"

text \<open>Where a scan stands: its moment, its bound, the place reached, and the total announced.\<close>

record scan_position =
  sp_snapshot_at :: time
  sp_upper :: "memory_key option"
  sp_after :: "memory_key option"
  sp_total :: int

definition scan_start ::
    "service_env \<Rightarrow> cursor_key \<Rightarrow> scan_request \<Rightarrow> time \<Rightarrow> svc_db \<Rightarrow> scan_position res" where
  "scan_start env ck q now db =
     (case sq_cursor q of
        Some (c # cs) \<Rightarrow>
          rbind (decode_cursor env ck (c # cs) (scope_of_request q)) (\<lambda>st.
            Inr \<lparr>sp_snapshot_at = ct_snapshot_at st, sp_upper = Some (ct_upper st), sp_after = Some (ct_after st),
                 sp_total = ct_total st\<rparr>)
      | _ \<Rightarrow>
          let bound = find_scan_upper (scan_scope_of q now) (sd_memories db) in
          Inr \<lparr>sp_snapshot_at = now, sp_upper = bound, sp_after = None,
               sp_total = int (initial_total q now bound (sd_memories db))\<rparr>)"

text \<open>The candidates up to the one that fills the page.\<close>

fun examine :: "scan_request \<Rightarrow> nat \<Rightarrow> memory_index list \<Rightarrow> memory_index list" where
  "examine q 0 xs = []"
| "examine q (Suc n) [] = []"
| "examine q (Suc n) (x # xs) = x # (if scan_type_match q x then examine q n xs else examine q (Suc n) xs)"

record scan_page_plan =
  pp_selected :: "memory_index list"
  pp_after :: "memory_key option"
  pp_has_more :: bool

definition plan_page :: "scan_request \<Rightarrow> nat \<Rightarrow> scan_position \<Rightarrow> memory_index list \<Rightarrow> scan_page_plan" where
  "plan_page q psize sp rows =
     (let candidates = list_scan_candidates (scan_scope_of q (sp_snapshot_at sp)) (sp_upper sp);
          examined = examine q psize (candidates (sp_after sp) (min (2 * int psize) 200) rows);
          after = (if examined = [] then sp_after sp else Some (memory_key (last examined)))
      in \<lparr>pp_selected = filter (scan_type_match q) examined, pp_after = after,
          pp_has_more = (after \<noteq> None \<and> candidates after 1 rows \<noteq> [])\<rparr>)"

text \<open>What is written once the records are read: rows whose record is gone become stale.\<close>

definition row_unchanged :: "scan_request \<Rightarrow> memory_index list \<Rightarrow> svc_db \<Rightarrow> memory_index \<Rightarrow> bool" where
  "row_unchanged q selected db x =
     (case List.find (\<lambda>m. mi_mem0_memory_id m = mi_mem0_memory_id x)
         (rev (list_memories_by_ids (sq_project_id q) (sq_app_id q) (map mi_mem0_memory_id selected) False False
           (sd_memories db))) of
        None \<Rightarrow> False | Some m \<Rightarrow> projection_matches_snapshot m (snapshot_memory_projection x))"

definition settle_scan ::
    "scan_request \<Rightarrow> memory_index list \<Rightarrow> memory_index list \<Rightarrow> moment \<Rightarrow> unit txn" where
  "settle_scan q selected stale m =
     tx_then (if stale = [] then tx_return () else svc_lock (sq_project_id q))
     (tx_then (tx_query (\<lambda>db. raise_if (\<not> list_all (row_unchanged q selected db) selected) scan_conflict))
       (if stale = [] then tx_return ()
        else let snapshots = map snapshot_memory_projection stale in
          tx_bind (svc_mark_stale_if_unchanged m (sq_project_id q) (sq_app_id q) (map ps_memory_id snapshots)
             (latest_version snapshots) (map (\<lambda>s. (ps_memory_id s, ps_updated_at s)) snapshots)) (\<lambda>marked.
          if marked \<noteq> length stale then tx_res (Inl scan_conflict)
          else svc_refresh_affected_projections m (sq_project_id q) snapshots)))"

record scan_result =
  sr_results :: "json dict list"
  sr_total :: int
  sr_next_cursor :: "string option"
  sr_has_more :: bool
  sr_stale_skipped :: nat

definition next_cursor ::
    "service_env \<Rightarrow> cursor_key \<Rightarrow> scan_request \<Rightarrow> scan_position \<Rightarrow> scan_page_plan \<Rightarrow> string option" where
  "next_cursor env ck q sp plan =
     (case (pp_has_more plan, sp_upper sp, pp_after plan) of
        (True, Some u, Some k) \<Rightarrow>
          Some (encode_cursor env ck \<lparr>ct_snapshot_at = sp_snapshot_at sp, ct_upper = u, ct_after = k, ct_total = sp_total sp\<rparr>
            (scope_of_request q))
      | _ \<Rightarrow> None)"

definition scan_memories :: "service_env \<Rightarrow> cursor_key \<Rightarrow> scan_request \<Rightarrow> scan_result act" where
  "scan_memories env ck q w =
     act_bind (inspect (scan_start env ck q (mo_now (moment_of env w)))) (\<lambda>sp.
       if sq_mode q = Count_Mode \<or> sp_upper sp = None
       then act_return \<lparr>sr_results = [], sr_total = sp_total sp, sr_next_cursor = None, sr_has_more = False, sr_stale_skipped = 0\<rparr>
       else case sq_page_size q of
         None \<Rightarrow> act_raise AssertionError ''page mode requires a page size''
       | Some psize \<Rightarrow>
         act_bind (inspect (\<lambda>db. Inr (plan_page q (nat psize) sp (sd_memories db)))) (\<lambda>plan.
         act_bind (hydrate_batch env (pp_selected plan)) (\<lambda>found.
         let stale = map fst (filter (\<lambda>(x, r). r = None) found) in
         act_then (transact env (settle_scan q (pp_selected plan) stale))
           (act_return \<lparr>sr_results = List.map_filter snd found, sr_total = sp_total sp,
              sr_next_cursor = next_cursor env ck q sp plan, sr_has_more = pp_has_more plan,
              sr_stale_skipped = length stale\<rparr>)))) w"

subsection \<open>Walking the pages\<close>

lemma examine_prefix: "examine q n xs = take (length (examine q n xs)) xs"
  by (induction q n xs rule: examine.induct) simp_all

lemma examine_full: "length (filter (scan_type_match q) (examine q n xs)) \<le> n"
  by (induction q n xs rule: examine.induct) simp_all

lemma examine_Nil_iff: "examine q n xs = [] \<longleftrightarrow> n = 0 \<or> xs = []"
  by (cases n; cases xs) simp_all

lemma examine_short: "length (examine q n xs) \<le> length xs"
  by (induction q n xs rule: examine.induct) simp_all

definition scan_rest :: "scan_request \<Rightarrow> time \<Rightarrow> memory_key \<Rightarrow> memory_key option \<Rightarrow> memory_index list \<Rightarrow> memory_index list" where
  "scan_rest q t u after rows = filter (beyond memory_key after) (scan_rows (scan_scope_of q t) u rows)"

lemma candidates_rest:
  "list_scan_candidates (scan_scope_of q t) (Some u) after n rows = take (nat n) (scan_rest q t u after rows)"
  by (simp add: list_scan_candidates_def scan_rest_def scan_rows_def filter_sort_key filter_filter conj_ac)

lemma rest_after_prefix:
  assumes ok: "unique_memories rows" and xs: "xs = take (length xs) (scan_rest q t u after rows)" "xs \<noteq> []"
  shows "scan_rest q t u (Some (memory_key (last xs))) rows = drop (length xs) (scan_rest q t u after rows)"
proof -
  obtain n where n: "length xs = Suc n" using xs(2) by (cases "length xs") auto
  have page: "scan_page (scan_scope_of q t) u n rows after = xs"
    unfolding scan_page_def candidates_rest nat_int using xs(1) n by simp
  show ?thesis
    using scan.rest_after_page [OF ok, of "scan_scope_of q t" u n after] xs(2) n unfolding page scan_rest_def by simp
qed

lemma plan_page_walks:
  fixes q :: scan_request
  assumes ok: "unique_memories rows" and psize: "0 < psize" and bound: "sp_upper sp = Some u"
  defines "plan \<equiv> plan_page q psize sp rows"
    and "rest \<equiv> scan_rest q (sp_snapshot_at sp) u (sp_after sp) rows"
  shows "\<exists>e. pp_selected plan = filter (scan_type_match q) (take e rest) \<and> length (pp_selected plan) \<le> psize
    \<and> (pp_has_more plan \<longrightarrow> 0 < e \<and> pp_after plan = Some (memory_key (last (take e rest))) \<and> drop e rest \<noteq> []
       \<and> scan_rest q (sp_snapshot_at sp) u (pp_after plan) rows = drop e rest)
    \<and> (\<not> pp_has_more plan \<longrightarrow> drop e rest = [])"
proof -
  define ex where "ex = examine q psize (take (min (2 * psize) 200) rest)"
  have cands: "nat (min (2 * int psize) 200) = min (2 * psize) 200" by simp
  have plan: "plan = (let after = (if ex = [] then sp_after sp else Some (memory_key (last ex))) in
      \<lparr>pp_selected = filter (scan_type_match q) ex, pp_after = after,
       pp_has_more = (after \<noteq> None \<and> scan_rest q (sp_snapshot_at sp) u after rows \<noteq> [])\<rparr>)"
    unfolding plan_def plan_page_def bound Let_def candidates_rest cands rest_def [symmetric] ex_def [symmetric] by simp
  have ex: "ex = take (length ex) rest"
    using examine_prefix [of q psize "take (min (2 * psize) 200) rest"] examine_short [of q psize "take (min (2 * psize) 200) rest"]
    unfolding ex_def [symmetric] by (simp add: min_def split: if_splits)
  have none: "ex = [] \<longleftrightarrow> rest = []" using psize by (simp add: ex_def examine_Nil_iff min_def)
  have drop: "ex \<noteq> [] \<Longrightarrow> scan_rest q (sp_snapshot_at sp) u (Some (memory_key (last ex))) rows = drop (length ex) rest"
    using rest_after_prefix [OF ok, of ex q "sp_snapshot_at sp" u "sp_after sp"] ex unfolding rest_def by blast
  show ?thesis
  proof (intro exI [of _ "length ex"] conjI impI)
    show "pp_selected plan = filter (scan_type_match q) (take (length ex) rest)"
      using ex by (simp add: plan Let_def)
    show "length (pp_selected plan) \<le> psize"
      using examine_full [of q psize] by (simp add: plan Let_def ex_def)
    assume more: "pp_has_more plan"
    then have "ex \<noteq> []" using none by (cases "ex = []") (auto simp: plan Let_def rest_def)
    with more show "0 < length ex" "pp_after plan = Some (memory_key (last (take (length ex) rest)))"
      "drop (length ex) rest \<noteq> []" "scan_rest q (sp_snapshot_at sp) u (pp_after plan) rows = drop (length ex) rest"
      using drop ex by (auto simp: plan Let_def)
  next
    assume "\<not> pp_has_more plan"
    then show "drop (length ex) rest = []"
      using drop none by (cases "ex = []"; cases "memory_key (last ex)") (auto simp: plan Let_def)
  qed
qed

text \<open>The pages a client reads when it sends back each cursor it is given.\<close>

fun scan_walk ::
    "service_env \<Rightarrow> cursor_key \<Rightarrow> scan_request \<Rightarrow> nat \<Rightarrow> time \<Rightarrow> svc_db \<Rightarrow> nat \<Rightarrow> string option \<Rightarrow>
     memory_index list list res" where
  "scan_walk env ck q psize now db 0 token = Inr []"
| "scan_walk env ck q psize now db (Suc n) token =
     rbind (scan_start env ck (q\<lparr>sq_cursor := token\<rparr>) now db) (\<lambda>sp.
       let plan = plan_page q psize sp (sd_memories db) in
       case next_cursor env ck q sp plan of
         None \<Rightarrow> Inr [pp_selected plan]
       | Some t \<Rightarrow> rbind (scan_walk env ck q psize now db n (Some t)) (\<lambda>pages. Inr (pp_selected plan # pages)))"

definition cursors_survive :: "service_env \<Rightarrow> cursor_key \<Rightarrow> cursor_scope \<Rightarrow> time \<Rightarrow> memory_key \<Rightarrow> int \<Rightarrow> memory_index list \<Rightarrow> bool" where
  "cursors_survive env ck sc t u n rows =
     list_all (\<lambda>x. memory_key x < u \<longrightarrow>
       (let st = \<lparr>ct_snapshot_at = t, ct_upper = u, ct_after = memory_key x, ct_total = n\<rparr>;
            token = encode_cursor env ck st sc
        in token \<noteq> [] \<and> decode_cursor env ck token sc = Inr st)) rows"

lemma scan_start_resumed:
  assumes "token \<noteq> []" "decode_cursor env ck token (scope_of_request q) = Inr st"
  shows "scan_start env ck (q\<lparr>sq_cursor := Some token\<rparr>) now db
    = Inr \<lparr>sp_snapshot_at = ct_snapshot_at st, sp_upper = Some (ct_upper st), sp_after = Some (ct_after st), sp_total = ct_total st\<rparr>"
proof -
  have "scope_of_request (q\<lparr>sq_cursor := Some token\<rparr>) = scope_of_request q" by (simp add: scope_of_request_def)
  with assms show ?thesis by (cases token) (simp_all add: scan_start_def)
qed

lemma next_cursor_None: "\<not> pp_has_more plan \<Longrightarrow> next_cursor env ck q sp plan = None"
  by (simp add: next_cursor_def)

lemma rest_below:
  assumes ok: "unique_memories rows" and more: "drop e (scan_rest q t u after rows) \<noteq> []" and e: "0 < e"
  shows "\<exists>x \<in> set rows. last (take e (scan_rest q t u after rows)) = x \<and> memory_key x < u"
proof -
  let ?R = "scan_rest q t u after rows"
  have srt: "sorted_wrt (\<lambda>x y. memory_key x < memory_key y) (take e ?R @ drop e ?R)"
    using scan.filter_sorted [OF ok, of "beyond memory_key after" "scan_scope_of q t" u] by (simp add: scan_rest_def)
  have sub: "x \<in> set rows \<and> memory_key x \<le> u" if "x \<in> set ?R" for x
    using that by (auto simp: scan_rest_def scan_rows_def)
  have "take e ?R \<noteq> []" using more e by auto
  then have x: "last (take e ?R) \<in> set (take e ?R)" by simp
  obtain y where y: "y \<in> set (drop e ?R)" using more by (meson ex_in_conv set_empty)
  have "memory_key (last (take e ?R)) < memory_key y" using srt x y unfolding sorted_wrt_append by blast
  moreover have "memory_key y \<le> u" using sub y set_drop_subset by fast
  ultimately show ?thesis using sub x set_take_subset by (meson less_le_trans subsetD)
qed

lemma scan_walk_from:
  assumes ok: "unique_memories (sd_memories db)" and psize: "0 < psize"
    and survive: "cursors_survive env ck (scope_of_request q) t u n (sd_memories db)"
    and start: "scan_start env ck (q\<lparr>sq_cursor := token\<rparr>) now db
      = Inr \<lparr>sp_snapshot_at = t, sp_upper = Some u, sp_after = after, sp_total = n\<rparr>"
    and fuel: "length (scan_rest q t u after (sd_memories db)) < fuel"
  shows "\<exists>pages. scan_walk env ck q psize now db fuel token = Inr pages
    \<and> concat pages = filter (scan_type_match q) (scan_rest q t u after (sd_memories db))
    \<and> (\<forall>page \<in> set pages. length page \<le> psize)"
  using start fuel
proof (induction fuel arbitrary: token after)
  case (Suc fuel)
  let ?rows = "sd_memories db" and ?sp = "\<lparr>sp_snapshot_at = t, sp_upper = Some u, sp_after = after, sp_total = n\<rparr>"
  let ?plan = "plan_page q psize ?sp ?rows" and ?R = "scan_rest q t u after ?rows"
  obtain e where sel: "pp_selected ?plan = filter (scan_type_match q) (take e ?R)" "length (pp_selected ?plan) \<le> psize"
    and more: "pp_has_more ?plan \<Longrightarrow> 0 < e \<and> pp_after ?plan = Some (memory_key (last (take e ?R))) \<and> drop e ?R \<noteq> []
       \<and> scan_rest q t u (pp_after ?plan) ?rows = drop e ?R"
    and ended: "\<not> pp_has_more ?plan \<Longrightarrow> drop e ?R = []"
    using plan_page_walks [OF ok psize, of ?sp u q] unfolding scan_position.simps by blast
  show ?case
  proof (cases "pp_has_more ?plan")
    case False
    from ended [OF False] have "take e ?R = ?R" using append_take_drop_id [of e ?R] by simp
    with sel False Suc.prems(1) show ?thesis by (simp add: Let_def next_cursor_None)
  next
    case True
    obtain x where x: "x \<in> set ?rows" "last (take e ?R) = x" "memory_key x < u"
      using rest_below [OF ok] more [OF True] by metis
    define st where "st = \<lparr>ct_snapshot_at = t, ct_upper = u, ct_after = memory_key x, ct_total = n\<rparr>"
    define tok where "tok = encode_cursor env ck st (scope_of_request q)"
    have "tok \<noteq> [] \<and> decode_cursor env ck tok (scope_of_request q) = Inr st"
      using survive x by (auto simp: cursors_survive_def list_all_iff Let_def tok_def st_def)
    then have resumed: "scan_start env ck (q\<lparr>sq_cursor := Some tok\<rparr>) now db
        = Inr \<lparr>sp_snapshot_at = t, sp_upper = Some u, sp_after = Some (memory_key x), sp_total = n\<rparr>"
      using scan_start_resumed by (simp add: st_def)
    have after: "pp_after ?plan = Some (memory_key x)" and left: "scan_rest q t u (Some (memory_key x)) ?rows = drop e ?R"
      using more [OF True] x(2) by auto
    have next_tok: "next_cursor env ck q ?sp ?plan = Some tok"
      using True after by (simp add: next_cursor_def tok_def st_def)
    have "length (drop e ?R) < fuel" using Suc.prems(2) more [OF True] by auto
    then obtain pages where pages: "scan_walk env ck q psize now db fuel (Some tok) = Inr pages"
      "concat pages = filter (scan_type_match q) (drop e ?R)" "\<forall>page \<in> set pages. length page \<le> psize"
      using Suc.IH [OF resumed] unfolding left by blast
    have "filter (scan_type_match q) (take e ?R) @ filter (scan_type_match q) (drop e ?R) = filter (scan_type_match q) ?R"
      by (metis append_take_drop_id filter_append)
    with Suc.prems(1) next_tok pages sel show ?thesis by (simp add: Let_def)
  qed
qed simp

lemma scan_upper_bounds:
  assumes "find_scan_upper sc rows = Some u"
  shows "scan_rows sc u rows = sort_key memory_key (filter (scan_predicates sc) rows)"
proof -
  let ?S = "sort_key memory_key (filter (scan_predicates sc) rows)"
  have S: "?S \<noteq> []" "memory_key (last ?S) = u"
    using assms by (auto simp: find_scan_upper_def last_rev [symmetric] hd_rev split: list.splits)
  have "memory_key x \<le> memory_key (last xs)" if "sorted (map memory_key xs)" "x \<in> set xs" for x :: memory_index and xs
    using that by (induction xs) auto
  from this [of ?S] have "memory_key x \<le> u" if "x \<in> set ?S" for x
    using that unfolding S(2) by simp
  then have "filter (\<lambda>m. scan_predicates sc m \<and> memory_key m \<le> u) rows = filter (scan_predicates sc) rows"
    by (auto intro!: filter_cong)
  then show ?thesis by (simp add: scan_rows_def)
qed

lemma initial_total_counts:
  assumes "unique_memories rows"
  shows "initial_total q t (Some u) rows = length (filter (scan_type_match q) (scan_rows (scan_scope_of q t) u rows))"
proof (cases "sq_type q")
  case None
  then show ?thesis by (simp add: initial_total_def scan_type_match_def count_scan_rows_def count_where_def scan_rows_def)
next
  case (Some ty)
  let ?sc = "scan_scope_of q t" and ?p = "\<lambda>x. metadata_type x = sq_type q"
  let ?pages = "read_pages (scan_page ?sc u 199 rows) memory_key (Suc (length rows)) None"
  have "(\<lambda>after. list_scan_candidates ?sc (Some u) after COUNT_BATCH rows) = scan_page ?sc u 199 rows"
    by (simp add: scan_page_def COUNT_BATCH_def fun_eq_iff)
  moreover have "concat ?pages = scan_rows ?sc u rows"
    by (rule scan.read_all [OF assms]) (simp add: scan_rows_def le_imp_less_Suc)
  moreover have "sum_list (map (\<lambda>page. length (filter ?p page)) pages) = length (filter ?p (concat pages))" for pages
    by (induction pages) simp_all
  moreover have "scan_type_match q = ?p" using Some by (auto simp: scan_type_match_def)
  ultimately show ?thesis using Some by (simp add: initial_total_def)
qed

text \<open>
  A scan is complete: when a client starts a scan and sends back each cursor it is given, and the
  index does not change in between, its requests select every memory of its scope that has the type
  it asks for, each once and in order of creation; no page selects more than was asked for, as many
  are selected as the first answer announced, and the walk ends after no more requests than there are
  rows and one.  (That the cursors issued on the way are accepted again is a hypothesis here; the round
  trip of cursors gives it.)
\<close>

lemma scan_walk_complete:
  fixes q :: scan_request and now :: time and db :: svc_db and u :: memory_key
  defines "rows \<equiv> sd_memories db"
  assumes ok: "unique_memories rows" and psize: "0 < psize"
    and bound: "find_scan_upper (scan_scope_of q now) rows = Some u"
    and survive: "cursors_survive env ck (scope_of_request q) now u (int (initial_total q now (Some u) rows)) rows"
  shows "\<exists>pages. scan_walk env ck q psize now db (Suc (length rows)) None = Inr pages
    \<and> concat pages = sort_key memory_key (filter (\<lambda>x. scan_predicates (scan_scope_of q now) x \<and> scan_type_match q x) rows)
    \<and> distinct (concat pages) \<and> length (concat pages) = initial_total q now (Some u) rows
    \<and> (\<forall>page \<in> set pages. length page \<le> psize)"
proof -
  let ?sc = "scan_scope_of q now"
  let ?hits = "filter (\<lambda>x. scan_predicates ?sc x \<and> scan_type_match q x) rows"
  have scope: "scan_scope_of (q\<lparr>sq_cursor := None\<rparr>) now = ?sc"
    "initial_total (q\<lparr>sq_cursor := None\<rparr>) now (Some u) rows = initial_total q now (Some u) rows"
    by (simp_all add: scan_scope_of_def initial_total_def)
  have start: "scan_start env ck (q\<lparr>sq_cursor := None\<rparr>) now db
      = Inr \<lparr>sp_snapshot_at = now, sp_upper = Some u, sp_after = None, sp_total = int (initial_total q now (Some u) rows)\<rparr>"
    using bound scope by (simp add: scan_start_def rows_def Let_def)
  have rest: "scan_rest q now u None rows = sort_key memory_key (filter (scan_predicates ?sc) rows)"
    by (simp add: scan_rest_def beyond_def scan_upper_bounds [OF bound])
  then have "length (scan_rest q now u None rows) < Suc (length rows)" by (simp add: le_imp_less_Suc)
  then obtain pages where pages: "scan_walk env ck q psize now db (Suc (length rows)) None = Inr pages"
    "concat pages = filter (scan_type_match q) (scan_rest q now u None rows)" "\<forall>page \<in> set pages. length page \<le> psize"
    using scan_walk_from [OF ok [unfolded rows_def] psize survive [unfolded rows_def] start [unfolded rows_def]]
    unfolding rows_def by blast
  have hits: "concat pages = sort_key memory_key ?hits"
    unfolding pages(2) rest filter_sort_key filter_filter by (simp add: conj_commute)
  moreover have "distinct (sort_key memory_key ?hits)"
    using ok by (simp add: unique_memories_def distinct_map)
  moreover have "length (concat pages) = initial_total q now (Some u) rows"
    unfolding pages(2) initial_total_counts [OF ok] by (simp add: scan_rest_def beyond_def)
  ultimately show ?thesis using pages by auto
qed

end
