(* ===== verification/Scan_Examples.thy ===== *)
theory Scan_Examples
  imports Service_Safety Memory_Scan
begin

text \<open>A small index, a key and a cursor, at which the properties of \<open>Memory_Scan\<close> are seen to apply.\<close>

section \<open>A scan of two memories\<close>

definition parity :: "string \<Rightarrow> string \<Rightarrow> string \<Rightarrow> string" where
  "parity x y s = (if even (length s) then x else y)"

definition scan_env :: service_env where
  "scan_env = sample_env\<lparr>se_trace := sample_trace_env\<lparr>te_sha256 := parity ''d'' ''e''\<rparr>,
     se_isoformat := (\<lambda>_. ''t''), se_fromiso := (\<lambda>_. Some (Aware 0 0))\<rparr>"

definition scan_query :: scan_request where
  "scan_query = \<lparr>sq_project_id = ''p'', sq_app_id = Some ''a'', sq_project_wide = False, sq_user_id = None,
     sq_agent_id = None, sq_run_id = None, sq_type = None, sq_mode = Page_Mode, sq_page_size = Some 1,
     sq_cursor = None, sq_include_expired = False\<rparr>"

definition scan_state :: cursor_state where
  "scan_state = \<lparr>ct_snapshot_at = 0, ct_upper = (0, ''m2''), ct_after = (0, ''m1''), ct_total = 2\<rparr>"

definition scan_mac :: "string \<Rightarrow> string" where
  "scan_mac = parity (replicate 64 (CHR ''a'')) (replicate 64 (CHR ''b''))"

definition scan_key :: cursor_key where
  "scan_key = \<lparr>ck_hmac = scan_mac, ck_loads = (\<lambda>_. Some (canon_json (signed_cursor scan_env
     \<lparr>ck_hmac = scan_mac, ck_loads = (\<lambda>_. None)\<rparr> scan_state (scope_of_request scan_query))))\<rparr>"

definition scan_token :: string where
  "scan_token = encode_cursor scan_env scan_key scan_state (scope_of_request scan_query)"

lemma signed_key: "signed_cursor env \<lparr>ck_hmac = f, ck_loads = g\<rparr> st sc = signed_cursor env \<lparr>ck_hmac = f, ck_loads = g'\<rparr> st sc"
  by (simp add: signed_cursor_def cursor_mac_def)

lemma scan_token_short: "length scan_token \<le> CURSOR_MAX_LENGTH"
  by code_simp

lemma scan_token_ok:
  fixes sc sc' :: cursor_scope
  defines "sc \<equiv> scope_of_request scan_query" and "sc' \<equiv> scope_of_request (scan_query\<lparr>sq_project_id := ''pp''\<rparr>)"
  shows "ck_loads scan_key (map code (json_dumps (se_float_text scan_env) compact_sorted
      (signed_cursor scan_env scan_key scan_state sc))) = Some (canon_json (signed_cursor scan_env scan_key scan_state sc))"
    "is_mac (cursor_mac scan_env scan_key (cursor_payload scan_env scan_state sc) sc)"
    "length (encode_cursor scan_env scan_key scan_state sc) \<le> CURSOR_MAX_LENGTH"
    "date_survives scan_env (ct_snapshot_at scan_state)" "date_survives scan_env (fst (ct_upper scan_state))"
    "date_survives scan_env (fst (ct_after scan_state))" "snd (ct_upper scan_state) \<noteq> []" "snd (ct_after scan_state) \<noteq> []"
    "0 \<le> ct_total scan_state"
    "cursor_mac scan_env scan_key (cursor_payload scan_env scan_state sc) sc'
      \<noteq> cursor_mac scan_env scan_key (cursor_payload scan_env scan_state sc) sc"
    "scope_digest scan_env sc \<noteq> scope_digest scan_env sc'"
proof -
  show "ck_loads scan_key (map code (json_dumps (se_float_text scan_env) compact_sorted
      (signed_cursor scan_env scan_key scan_state sc))) = Some (canon_json (signed_cursor scan_env scan_key scan_state sc))"
    by (simp add: scan_key_def sc_def) (rule arg_cong [where f = canon_json], rule signed_key)
  show "is_mac (cursor_mac scan_env scan_key (cursor_payload scan_env scan_state sc) sc)"
    "cursor_mac scan_env scan_key (cursor_payload scan_env scan_state sc) sc'
      \<noteq> cursor_mac scan_env scan_key (cursor_payload scan_env scan_state sc) sc"
    "scope_digest scan_env sc \<noteq> scope_digest scan_env sc'"
    unfolding sc_def sc'_def by code_simp+
  show "length (encode_cursor scan_env scan_key scan_state sc) \<le> CURSOR_MAX_LENGTH"
    using scan_token_short by (simp add: scan_token_def sc_def)
qed (simp_all add: date_survives_def parse_cursor_date_def scan_env_def scan_state_def)

lemma scan_token_reads:
  "scan_token \<noteq> [] \<and> decode_cursor scan_env scan_key scan_token (scope_of_request scan_query) = Inr scan_state"
proof -
  have "scan_token \<noteq> []" by code_simp
  then show ?thesis unfolding scan_token_def by (simp add: decode_encoded [OF scan_token_ok(1-9)])
qed

lemma cursor_roundtrip_witness:
  "decode_cursor scan_env scan_key scan_token (scope_of_request scan_query) = Inr scan_state
    \<and> decode_cursor scan_env scan_key scan_token (scope_of_request (scan_query\<lparr>sq_project_id := ''pp''\<rparr>))
        = scan_invalid FOREIGN_CURSOR"
  unfolding scan_token_def using cursor_roundtrip [OF scan_token_ok(1-9)] scan_token_ok(10,11) by auto

lemma accepted_cursor_signed_witness:
  "length scan_token \<le> CURSOR_MAX_LENGTH
    \<and> (\<exists>d. Option.bind (b64_decode (b64_padded scan_token)) (ck_loads scan_key) = Some (JObj d)
         \<and> dget d ''mac'' = Some (JStr (cursor_mac scan_env scan_key (ddel ''mac'' d) (scope_of_request scan_query))))"
  using accepted_cursor_signed [OF conjunct2 [OF scan_token_reads]] by auto

definition scan_db :: svc_db where
  "scan_db = sample_db\<lparr>sd_memories := snd (upsert_memory ''i2'' 0 ''p'' ''m2'' sample_projection False
     (snd (upsert_memory ''i1'' 0 ''p'' ''m1'' sample_projection False [])))\<rparr>"

lemma cursors_survive_keys:
  "cursors_survive env ck sc t u n rows = list_all (\<lambda>k. k < u \<longrightarrow>
     (let st = \<lparr>ct_snapshot_at = t, ct_upper = u, ct_after = k, ct_total = n\<rparr>; token = encode_cursor env ck st sc
      in token \<noteq> [] \<and> decode_cursor env ck token sc = Inr st)) (map memory_key rows)"
  by (simp add: cursors_survive_def list_all_iff)

lemma scan_walk_complete_witness:
  "\<exists>pages. scan_walk scan_env scan_key scan_query 1 0 scan_db 3 None = Inr pages
    \<and> map mi_mem0_memory_id (concat pages) = [''m1'', ''m2''] \<and> (\<forall>page \<in> set pages. length page \<le> 1)"
proof -
  let ?rows = "sd_memories scan_db"
  have len: "length ?rows = 2" and uniq: "unique_memories ?rows" by code_simp+
  have bound: "find_scan_upper (scan_scope_of scan_query 0) ?rows = Some (0, ''m2'')" by code_simp
  have keys: "map memory_key ?rows = [(0, ''m1''), (0, ''m2'')]" by code_simp
  have total: "initial_total scan_query 0 (Some (0, ''m2'')) ?rows = 2" by code_simp
  have survive: "cursors_survive scan_env scan_key (scope_of_request scan_query) 0 (0, ''m2'')
      (int (initial_total scan_query 0 (Some (0, ''m2'')) ?rows)) ?rows"
    unfolding total cursors_survive_keys keys
    using scan_token_reads by (simp add: scan_token_def scan_state_def Let_def)
  have ids: "map mi_mem0_memory_id (sort_key memory_key (filter (\<lambda>x. scan_predicates (scan_scope_of scan_query 0) x
      \<and> scan_type_match scan_query x) ?rows)) = [''m1'', ''m2'']" by code_simp
  have three: "Suc (length ?rows) = 3" using len by simp
  from scan_walk_complete [OF uniq zero_less_one bound survive] ids show ?thesis unfolding three by auto
qed

end
