(* ===== verification/Client_Auth.thy ===== *)
theory Client_Auth
  imports Attribution Projects Memory_Store
begin

text \<open>
  Who may call (\<open>http_adapter/client_auth.py\<close>, \<open>http_adapter/dependencies.py\<close>) and on which
  scope (\<open>http_adapter/project_scope.py\<close>).  Parameters: \<open>call\<close> is the authentication service,
  nothing when it cannot be reached, or an exception other than a request error (a header that
  cannot be encoded); \<open>loads\<close> is \<open>json.loads\<close>, nothing for a text it rejects, or an exception
  other than those of rejected text (nesting too deep); \<open>int_text\<close> is \<open>int\<close> of a text.
  Headers are Latin-1 text.
\<close>

section \<open>Authentication\<close>

definition MAX_CORE_AUTH_RESPONSE_BYTES :: int where "MAX_CORE_AUTH_RESPONSE_BYTES = 64 * 1024"

record principal =
  pr_subject_id :: "string option"
  pr_role :: string
  pr_attribution :: attribution

text \<open>A refusal with its status, detail and challenge, or an exception the code does not catch.\<close>

datatype auth_error = Refused nat string "string option" | Uncaught exn

record auth_config =
  ac_enabled :: bool
  ac_admin_key :: "string option"
  ac_allow_bootstrap_admin :: bool

record auth_reply =
  ar_status :: int
  ar_challenge :: "string option"
  ar_content_length :: "string option"
  ar_chunks :: "string list"

record auth_world =
  aw_valid_uuid :: "string \<Rightarrow> bool"
  aw_decode_payload :: "string \<Rightarrow> json option res"
  aw_loads :: "string \<Rightarrow> json option res"
  aw_int_text :: "string \<Rightarrow> int option"
  aw_call :: "string option \<Rightarrow> string option \<Rightarrow> auth_reply option res"

definition unavailable :: "auth_error + 'a" where
  "unavailable = Inl (Refused 503 ''Authentication service is unavailable.'' None)"

text \<open>What a parameter raises and the code does not catch.\<close>

definition uncaught :: "'a res \<Rightarrow> auth_error + 'a" where
  "uncaught r = (case r of Inl x \<Rightarrow> Inl (Uncaught x) | Inr y \<Rightarrow> Inr y)"

lemma uncaught_iff:
  "uncaught r = Inr y \<longleftrightarrow> r = Inr y" "uncaught r = Inl e \<longleftrightarrow> (\<exists>x. r = Inl x \<and> e = Uncaught x)"
  by (auto simp: uncaught_def split: sum.splits)

text \<open>\<open>str.replace\<close>, and \<open>partition('' '')\<close>'s last part.\<close>

function str_replace :: "string \<Rightarrow> string \<Rightarrow> string \<Rightarrow> string" where
  "str_replace old new s =
     (if old = [] then s
      else case s of
        [] \<Rightarrow> []
      | c # cs \<Rightarrow> if starts_with old s then new @ str_replace old new (drop (length old) s)
          else c # str_replace old new cs)"
  by pat_completeness auto
termination by (relation "measure (\<lambda>(old, new, s). length s)") auto

declare str_replace.simps [simp del]

definition after_space :: "string \<Rightarrow> string" where
  "after_space s = drop 1 (dropWhile (\<lambda>c. c \<noteq> CHR '' '') s)"

definition redacted_detail :: "json \<Rightarrow> string option \<Rightarrow> string option \<Rightarrow> string" where
  "redacted_detail value authorization x_api_key =
     (let detail = (case value of JStr (c # cs) \<Rightarrow> c # cs | _ \<Rightarrow> ''Authentication failed.'');
          token = map_option after_space authorization;
          credentials = filter (\<lambda>s. s \<noteq> []) (List.map_filter id [authorization, x_api_key, token])
      in fold (\<lambda>c d. str_replace c ''[redacted]'' d) (sort_key (\<lambda>s. - int (length s)) (remdups credentials)) detail)"

definition safe_auth_challenge :: "string option \<Rightarrow> string option" where
  "safe_auth_challenge v =
     (case v of Some (c # cs) \<Rightarrow>
        if length (c # cs) > 512 \<or> list_ex (\<lambda>c. code c < 32) (c # cs) then None else Some (c # cs)
      | _ \<Rightarrow> None)"

fun read_chunks :: "string \<Rightarrow> string list \<Rightarrow> auth_error + string" where
  "read_chunks body [] = Inr body"
| "read_chunks body (c # cs) =
     (if int (length (body @ c)) > MAX_CORE_AUTH_RESPONSE_BYTES then unavailable else read_chunks (body @ c) cs)"

definition read_bounded_auth_body :: "(string \<Rightarrow> int option) \<Rightarrow> auth_reply \<Rightarrow> auth_error + string" where
  "read_bounded_auth_body int_text reply =
     (case ar_content_length reply of
        None \<Rightarrow> read_chunks [] (ar_chunks reply)
      | Some t \<Rightarrow> (case int_text t of
          None \<Rightarrow> unavailable
        | Some n \<Rightarrow> if n < 0 \<or> n > MAX_CORE_AUTH_RESPONSE_BYTES then unavailable
            else read_chunks [] (ar_chunks reply)))"

text \<open>\<open>secrets.compare_digest\<close> of two texts compares only ASCII.\<close>

definition compare_digest :: "string \<Rightarrow> string \<Rightarrow> auth_error + bool" where
  "compare_digest a b =
     (if list_ex (\<lambda>c. code c \<ge> 128) (a @ b)
      then Inl (Uncaught (Exn TypeError ''comparing strings with non-ASCII characters is not supported''))
      else Inr (a = b))"

definition rest_attribution :: "string \<Rightarrow> string option \<Rightarrow> attribution" where
  "rest_attribution kind label =
     \<lparr>at_transport = ''rest'', at_kind = kind, at_id = None, at_label = label, at_prefix = None\<rparr>"

definition is_bootstrap_admin :: "auth_config \<Rightarrow> string option \<Rightarrow> string option \<Rightarrow> auth_error + bool" where
  "is_bootstrap_admin cfg authorization x_api_key =
     (case (authorization, x_api_key, ac_admin_key cfg) of
        (None, Some key, Some admin) \<Rightarrow>
          if ac_allow_bootstrap_admin cfg then compare_digest key admin else Inr False
      | _ \<Rightarrow> Inr False)"

definition bootstrap_principal :: "auth_world \<Rightarrow> string option \<Rightarrow> auth_error + principal" where
  "bootstrap_principal w caller_context =
     (case caller_context of
        None \<Rightarrow> Inr \<lparr>pr_subject_id = None, pr_role = ''admin'',
          pr_attribution = rest_attribution ''operator_static'' (Some ''Legacy admin API key'')\<rparr>
      | Some header \<Rightarrow>
          (case from_internal_header (aw_valid_uuid w) (aw_decode_payload w) header of
             Inl (Exn AttributionRejected _) \<Rightarrow> Inl (Refused 400 ''Invalid caller attribution.'' None)
           | Inl e \<Rightarrow> Inl (Uncaught e)
           | Inr a \<Rightarrow> Inr \<lparr>pr_subject_id = None, pr_role = ''admin'', pr_attribution = a\<rparr>))"

definition principal_of_body :: "(string \<Rightarrow> bool) \<Rightarrow> json dict \<Rightarrow> auth_error + principal" where
  "principal_of_body valid_uuid body =
     (case (jget body ''id'', jget body ''role'', jget body ''credential'') of
        (JStr sid, JStr role, JObj descriptor) \<Rightarrow>
          if sid = [] \<or> \<not> (1 \<le> length role \<and> length role \<le> 64) then unavailable
          else (case from_core_descriptor valid_uuid descriptor of
              Inl _ \<Rightarrow> unavailable
            | Inr a \<Rightarrow> Inr \<lparr>pr_subject_id = Some sid, pr_role = role, pr_attribution = a\<rparr>)
      | _ \<Rightarrow> unavailable)"

definition principal_of_reply :: "auth_world \<Rightarrow> string option \<Rightarrow> string option \<Rightarrow> auth_reply \<Rightarrow> string \<Rightarrow> auth_error + principal" where
  "principal_of_reply w authorization x_api_key reply body =
     (if ar_status reply = 401 \<or> ar_status reply = 403 then
        rbind (uncaught (aw_loads w body)) (\<lambda>document.
          let detail = (case document of Some (JObj d) \<Rightarrow> jget d ''detail'' | _ \<Rightarrow> JNull)
          in Inl (Refused (nat (ar_status reply)) (redacted_detail detail authorization x_api_key)
               (safe_auth_challenge (ar_challenge reply))))
      else if ar_status reply \<noteq> 200 then unavailable
      else rbind (uncaught (aw_loads w body)) (\<lambda>document. case document of
        Some (JObj d) \<Rightarrow> principal_of_body (aw_valid_uuid w) d
      | _ \<Rightarrow> unavailable))"

definition verify ::
    "auth_world \<Rightarrow> auth_config \<Rightarrow> string option \<Rightarrow> string option \<Rightarrow> string option \<Rightarrow> auth_error + principal" where
  "verify w cfg authorization x_api_key caller_context =
     (if \<not> ac_enabled cfg
      then Inr \<lparr>pr_subject_id = None, pr_role = ''system'', pr_attribution = rest_attribution ''disabled'' None\<rparr>
      else rbind (is_bootstrap_admin cfg authorization x_api_key) (\<lambda>bootstrap.
        if bootstrap then bootstrap_principal w caller_context
        else rbind (uncaught (aw_call w authorization x_api_key)) (\<lambda>answer. case answer of
          None \<Rightarrow> unavailable
        | Some reply \<Rightarrow>
            rbind (read_bounded_auth_body (aw_int_text w) reply) (\<lambda>body.
              principal_of_reply w authorization x_api_key reply body))))"

definition OPERATOR_CREDENTIAL_KINDS :: "string list" where
  "OPERATOR_CREDENTIAL_KINDS = [''disabled'', ''operator_static'', ''session'']"

definition require_operator_principal ::
    "auth_world \<Rightarrow> auth_config \<Rightarrow> string option \<Rightarrow> string option \<Rightarrow> string option \<Rightarrow> auth_error + principal" where
  "require_operator_principal w cfg authorization x_api_key caller_context =
     rbind (verify w cfg authorization x_api_key caller_context) (\<lambda>p.
       if pr_role p \<notin> {''admin'', ''system''} \<or> at_kind (pr_attribution p) \<notin> set OPERATOR_CREDENTIAL_KINDS
       then Inl (Refused 403 ''Operator access is required.'' None)
       else Inr p)"

section \<open>The scope of a request\<close>

record http_request =
  hr_header :: "string \<Rightarrow> string option"
  hr_query :: "string \<Rightarrow> string option"
  hr_role :: string
  hr_default_project_id :: string

record compatible_scope =
  cs_project_id :: string
  cs_app_id :: string
  cs_app_is_explicit :: bool

definition non_empty :: "json \<Rightarrow> string option" where
  "non_empty v = (case v of JStr (c # cs) \<Rightarrow> Some (c # cs) | _ \<Rightarrow> None)"

definition body_of :: "json dict option \<Rightarrow> json dict" where
  "body_of payload = (case payload of None \<Rightarrow> [] | Some b \<Rightarrow> b)"

definition sub_object :: "json dict \<Rightarrow> string \<Rightarrow> json dict" where
  "sub_object body k = (case jget body k of JObj d \<Rightarrow> d | _ \<Rightarrow> [])"

text \<open>The places a request can name a project or an application in, in order of precedence.\<close>

definition project_selectors :: "http_request \<Rightarrow> json dict \<Rightarrow> json list" where
  "project_selectors req body =
     [opt_json (hr_header req ''X-Mem0-Project-ID''), jget body ''project_id'', opt_json (hr_query req ''project_id''),
      jget (sub_object body ''filters'') ''project_id'', jget (sub_object body ''metadata'') ''_mem0_sidecar_project_id'']"

definition app_selectors :: "http_request \<Rightarrow> json dict \<Rightarrow> json list" where
  "app_selectors req body =
     [opt_json (hr_header req ''X-Mem0-App-ID''), jget body ''app_id'', opt_json (hr_query req ''app_id''),
      jget (sub_object body ''filters'') ''app_id'', jget (sub_object body ''metadata'') ''_mem0_sidecar_app_id'']"

definition first_non_empty :: "json list \<Rightarrow> string option" where
  "first_non_empty vs = (case List.map_filter non_empty vs of [] \<Rightarrow> None | s # _ \<Rightarrow> Some s)"

definition enforce_compatible_scope_boundary :: "http_request \<Rightarrow> json dict option \<Rightarrow> unit res" where
  "enforce_compatible_scope_boundary req payload =
     (if hr_role req \<in> {''admin'', ''system''} then Inr ()
      else raise_if (list_ex (\<lambda>v. non_empty v \<noteq> None)
             (project_selectors req (body_of payload) @ app_selectors req (body_of payload)))
        (Exn (HTTPException 403) ''Project and app scope overrides require an admin principal''))"

definition default_app :: "project list \<Rightarrow> string \<Rightarrow> string" where
  "default_app projects pid =
     (case row_by prj_id pid projects of
        Some p \<Rightarrow> (case prj_default_app_id p of Some (c # cs) \<Rightarrow> c # cs | _ \<Rightarrow> pid)
      | None \<Rightarrow> pid)"

definition resolve_compatible_scope ::
    "http_request \<Rightarrow> project list \<Rightarrow> json dict option \<Rightarrow> compatible_scope res" where
  "resolve_compatible_scope req projects payload =
     (let body = body_of payload;
          pid = (case first_non_empty (project_selectors req body) of Some s \<Rightarrow> s | None \<Rightarrow> hr_default_project_id req);
          explicit = first_non_empty (app_selectors req body)
      in rbind (require_id (validate_scope_id (JStr pid) ''project_id'' True)) (\<lambda>pid.
         rbind (require_id (validate_scope_id (JStr (case explicit of Some a \<Rightarrow> a | None \<Rightarrow> default_app projects pid)) ''app_id'' True)) (\<lambda>app.
         Inr \<lparr>cs_project_id = pid, cs_app_id = app, cs_app_is_explicit = (explicit \<noteq> None)\<rparr>)))"

definition resolve_compatible_memory_scope ::
    "http_request \<Rightarrow> project list \<Rightarrow> memory_index list \<Rightarrow> string \<Rightarrow> json dict option \<Rightarrow> compatible_scope res" where
  "resolve_compatible_memory_scope req projects rows mid payload =
     rbind (resolve_compatible_scope req projects payload) (\<lambda>sc.
       if cs_app_is_explicit sc \<or> hr_role req \<notin> {''admin'', ''system''} then Inr sc
       else case get_memory (cs_project_id sc) mid None False rows of
         None \<Rightarrow> Inr sc
       | Some m \<Rightarrow> (case mi_app_id m of
           Some (c # cs) \<Rightarrow> rbind (require_id (validate_scope_id (JStr (c # cs)) ''app_id'' True)) (\<lambda>app.
             Inr \<lparr>cs_project_id = cs_project_id sc, cs_app_id = app, cs_app_is_explicit = False\<rparr>)
         | _ \<Rightarrow> Inr sc))"

definition resolve_app_id :: "http_request \<Rightarrow> json dict option \<Rightarrow> string option" where
  "resolve_app_id req payload =
     first_non_empty [jget (body_of payload) ''app_id'', opt_json (hr_query req ''app_id'')]"

definition resolve_project_id :: "http_request \<Rightarrow> json dict option \<Rightarrow> string" where
  "resolve_project_id req payload =
     (case first_non_empty [jget (body_of payload) ''project_id'', opt_json (hr_query req ''project_id''),
          jget (body_of payload) ''app_id'', opt_json (hr_query req ''app_id'')] of
        Some s \<Rightarrow> s | None \<Rightarrow> hr_default_project_id req)"

definition resolve_project_app_id :: "project list \<Rightarrow> string \<Rightarrow> string option \<Rightarrow> string option" where
  "resolve_project_app_id projects pid request_app_id =
     (case row_by prj_id pid projects of
        None \<Rightarrow> None
      | Some p \<Rightarrow> (case request_app_id of Some (c # cs) \<Rightarrow> Some (c # cs) | _ \<Rightarrow> prj_default_app_id p))"

definition normalized_payload_for_project :: "http_request \<Rightarrow> json dict \<Rightarrow> json dict" where
  "normalized_payload_for_project req payload =
     (let p = ddel ''project_id'' payload in
      case resolve_app_id req None of
        Some a \<Rightarrow> if dget p ''app_id'' = None then dset ''app_id'' (JStr a) p else p
      | None \<Rightarrow> p)"

definition ensure_project_row ::
    "time \<Rightarrow> string \<Rightarrow> json \<Rightarrow> json \<Rightarrow> project list \<Rightarrow> project list res" where
  "ensure_project_row now base_url pid default_app_id projects =
     rbind (require_id (validate_scope_id pid ''project_id'' True)) (\<lambda>pid.
     rbind (validate_scope_id default_app_id ''app_id'' False) (\<lambda>app.
     Inr (ensure_project now pid pid base_url app projects)))"

section \<open>Operators\<close>

lemma rejected_class: "rejected = Inl e \<Longrightarrow> exn_class e = AttributionRejected"
  by (auto simp: rejected_def)

lemma optional_string_err: "optional_string v = Inl e \<Longrightarrow> exn_class e = AttributionRejected"
  by (cases v) (auto simp: optional_string_def dest: rejected_class)

lemma decoded_fields_err: "decoded_fields t k i l p = Inl e \<Longrightarrow> exn_class e = AttributionRejected"
  by (auto simp: decoded_fields_def res_simps dest: optional_string_err)

lemma decoded_fields_kind: "decoded_fields t k i l p = Inr a \<Longrightarrow> at_kind a = k \<and> at_transport a = t"
  by (auto simp: decoded_fields_def res_simps)

lemma kind_in_err: "kind_in v ks = Inl e \<Longrightarrow> exn_class e = TypeError \<and> (\<exists>xs m. v \<in> {JList xs, JObj m})"
  by (cases v) (auto simp: kind_in_def)

lemma kind_in_true: "kind_in v ks = Inr True \<Longrightarrow> text_of v \<in> set ks"
  by (cases v) (auto simp: kind_in_def text_of_def)

lemma header_decoded:
  "decode_internal_header decode v = rejected
   \<or> (\<exists>x. decode v = Inl x \<and> decode_internal_header decode v = Inl x)
   \<or> (\<exists>d. decode v = Inr (Some (JObj d)) \<and> decode_internal_header decode v
        = rbind (kind_in (jget d ''credential_kind'') [''core_api_key'', ''legacy_static'', ''disabled'']) (\<lambda>known.
            if \<not> known then rejected
            else decoded_fields ''mcp'' (text_of (jget d ''credential_kind''))
              (jget d ''credential_id'') (jget d ''label'') (jget d ''key_prefix'')))"
  unfolding decode_internal_header_def by (cases "decode v") (simp_all split: option.split json.split)

lemma attribution_errors:
  assumes "decode_internal_header decode v = Inl e"
  shows "exn_class e = AttributionRejected \<or> decode v = Inl e \<or> exn_class e = TypeError
    \<and> (\<exists>d. decode v = Inr (Some (JObj d)) \<and> (\<exists>xs m. jget d ''credential_kind'' \<in> {JList xs, JObj m}))"
  using header_decoded [of decode v]
proof (elim disjE exE conjE)
  assume "decode_internal_header decode v = rejected"
  then show ?thesis using assms rejected_class by metis
next
  fix x assume "decode v = Inl x" "decode_internal_header decode v = Inl x"
  then show ?thesis using assms by simp
next
  fix d
  assume d: "decode v = Inr (Some (JObj d))" and run: "decode_internal_header decode v
        = rbind (kind_in (jget d ''credential_kind'') [''core_api_key'', ''legacy_static'', ''disabled'']) (\<lambda>known.
            if \<not> known then rejected
            else decoded_fields ''mcp'' (text_of (jget d ''credential_kind''))
              (jget d ''credential_id'') (jget d ''label'') (jget d ''key_prefix''))"
  from assms [unfolded run] show ?thesis
    using d by (auto simp: rbind_Inl_iff dest: kind_in_err rejected_class decoded_fields_err split: if_splits)
qed

lemma decoded_kind:
  assumes "decode_internal_header decode v = Inr a"
  shows "at_kind a \<in> {''core_api_key'', ''legacy_static'', ''disabled''} \<and> at_transport a = ''mcp''"
  using header_decoded [of decode v]
proof (elim disjE exE conjE)
  assume "decode_internal_header decode v = rejected"
  then show ?thesis using assms by (simp add: rejected_def)
next
  fix x assume "decode_internal_header decode v = Inl x"
  then show ?thesis using assms by simp
next
  fix d
  assume run: "decode_internal_header decode v
        = rbind (kind_in (jget d ''credential_kind'') [''core_api_key'', ''legacy_static'', ''disabled'']) (\<lambda>known.
            if \<not> known then rejected
            else decoded_fields ''mcp'' (text_of (jget d ''credential_kind''))
              (jget d ''credential_id'') (jget d ''label'') (jget d ''key_prefix''))"
  from assms [unfolded run] show ?thesis
    by (auto simp: rbind_Inr_iff rejected_def dest!: kind_in_true decoded_fields_kind split: if_splits)
qed

lemma RequestAttribution_kind:
  "RequestAttribution valid_uuid a = Inr b \<Longrightarrow> at_kind b = at_kind a \<and> at_transport b = at_transport a"
  by (auto simp: RequestAttribution_def core_key_attribution_def rejected_def Let_def split: if_splits option.splits)

lemma RequestAttribution_errors:
  "RequestAttribution valid_uuid a = Inl e \<Longrightarrow> at_kind a \<in> set CREDENTIAL_VALUES \<Longrightarrow> exn_class e = AttributionRejected"
  by (auto simp: RequestAttribution_def core_key_attribution_def rejected_def Let_def CREDENTIAL_VALUES_def
      split: if_splits option.splits)

lemma header_errors:
  assumes "from_internal_header valid_uuid decode value = Inl e" "exn_class e \<noteq> AttributionRejected"
  shows "decode value = Inl e \<or> exn_class e = TypeError \<and> (\<exists>d. decode value = Inr (Some (JObj d)) \<and> (\<exists>xs m. jget d ''credential_kind'' \<in> {JList xs, JObj m}))"
proof -
  have "RequestAttribution valid_uuid a \<noteq> Inl e" if "decode_internal_header decode value = Inr a" for a
    using RequestAttribution_errors [of valid_uuid a e] decoded_kind [OF that] assms(2)
    by (auto simp: CREDENTIAL_VALUES_def)
  then have "decode_internal_header decode value = Inl e"
    using assms(1) by (auto simp: from_internal_header_def res_simps)
  then show ?thesis using attribution_errors assms(2) by blast
qed

definition holds_admin_key :: "auth_config \<Rightarrow> string option \<Rightarrow> string option \<Rightarrow> bool" where
  "holds_admin_key cfg authorization x_api_key =
     (authorization = None \<and> ac_allow_bootstrap_admin cfg \<and> x_api_key \<noteq> None \<and> x_api_key = ac_admin_key cfg)"

lemma bootstrap_Inr:
  "is_bootstrap_admin cfg authorization x_api_key = Inr b \<Longrightarrow> b = holds_admin_key cfg authorization x_api_key"
  by (auto simp: is_bootstrap_admin_def holds_admin_key_def compare_digest_def split: option.splits if_splits)

lemma core_descriptor_kind:
  assumes "from_core_descriptor valid_uuid d = Inr a"
  shows "at_kind a \<in> {''core_api_key'', ''operator_static'', ''session'', ''disabled''} \<and> at_transport a = ''rest''"
proof -
  obtain a0 where a0: "decode_core_descriptor d = Inr a0" "RequestAttribution valid_uuid a0 = Inr a"
    using assms by (auto simp: from_core_descriptor_def rbind_Inr_iff)
  then show ?thesis
    by (auto simp: decode_core_descriptor_def rejected_def rbind_Inr_iff dest!: decoded_fields_kind RequestAttribution_kind
        split: if_splits json.splits)
qed

lemma principal_of_body_Inr:
  assumes "principal_of_body valid_uuid d = Inr p"
  shows "jget d ''role'' = JStr (pr_role p) \<and> at_transport (pr_attribution p) = ''rest''
    \<and> at_kind (pr_attribution p) \<in> {''core_api_key'', ''operator_static'', ''session'', ''disabled''}"
  using assms
  by (auto simp: principal_of_body_def unavailable_def dest!: core_descriptor_kind split: json.splits if_splits sum.splits)

lemma principal_of_body_Inl: "principal_of_body valid_uuid d = Inl e \<Longrightarrow> Inl e = (unavailable :: auth_error + unit)"
  by (auto simp: principal_of_body_def unavailable_def split: json.splits if_splits sum.splits)

lemma principal_of_reply_Inr:
  assumes "principal_of_reply w authorization x_api_key reply body = Inr p"
  shows "ar_status reply = 200 \<and> (\<exists>d. aw_loads w body = Inr (Some (JObj d)) \<and> principal_of_body (aw_valid_uuid w) d = Inr p)"
proof (cases "aw_loads w body")
  case (Inl x)
  then show ?thesis using assms by (simp add: principal_of_reply_def uncaught_def unavailable_def split: if_splits)
next
  case (Inr document)
  then show ?thesis
    using assms
    by (auto simp: principal_of_reply_def uncaught_def unavailable_def Let_def split: if_splits option.splits json.splits)
qed

lemma read_body_Inl: "read_bounded_auth_body it reply = Inl e \<Longrightarrow> Inl e = (unavailable :: auth_error + unit)"
proof -
  have "read_chunks b cs = Inl e \<Longrightarrow> Inl e = (unavailable :: auth_error + unit)" for b cs
    by (induction b cs rule: read_chunks.induct) (auto simp: unavailable_def split: if_splits)
  then show "read_bounded_auth_body it reply = Inl e \<Longrightarrow> Inl e = (unavailable :: auth_error + unit)"
    by (auto simp: read_bounded_auth_body_def unavailable_def split: option.splits if_splits)
qed

lemma principal_of_reply_Inl:
  assumes "principal_of_reply w authorization x_api_key reply body = Inl e"
  shows "(\<exists>status detail challenge. e = Refused status detail challenge \<and> status \<in> {401, 403, 503})
    \<or> (\<exists>x. e = Uncaught x \<and> aw_loads w body = Inl x)"
proof (cases "aw_loads w body")
  case (Inl x)
  then show ?thesis using assms by (auto simp: principal_of_reply_def uncaught_def unavailable_def split: if_splits)
next
  case (Inr document)
  then show ?thesis
    using assms
    by (auto simp: principal_of_reply_def uncaught_def unavailable_def Let_def split: if_splits option.splits json.splits
      dest!: principal_of_body_Inl)
qed

lemma bootstrap_principal_Inr:
  assumes "bootstrap_principal w ctx = Inr p"
  shows "ctx = None \<or> at_transport (pr_attribution p) = ''mcp''
    \<and> at_kind (pr_attribution p) \<in> {''core_api_key'', ''legacy_static'', ''disabled''}"
proof (cases ctx)
  case (Some h)
  then obtain a where "from_internal_header (aw_valid_uuid w) (aw_decode_payload w) h = Inr a" "pr_attribution p = a"
    using assms by (auto simp: bootstrap_principal_def split: sum.splits exn.splits exn_class.splits)
  then show ?thesis
    by (auto simp: from_internal_header_def rbind_Inr_iff dest!: decoded_kind RequestAttribution_kind)
qed simp

lemma bootstrap_principal_Inl:
  assumes "bootstrap_principal w ctx = Inl e"
  shows "(\<exists>detail challenge. e = Refused 400 detail challenge)
    \<or> (\<exists>x h. e = Uncaught x \<and> ctx = Some h \<and> (aw_decode_payload w h = Inl x
        \<or> exn_class x = TypeError
          \<and> (\<exists>d xs m. aw_decode_payload w h = Inr (Some (JObj d)) \<and> jget d ''credential_kind'' \<in> {JList xs, JObj m})))"
proof (cases ctx)
  case None
  then show ?thesis using assms by (simp add: bootstrap_principal_def)
next
  case (Some h)
  then obtain x where x: "from_internal_header (aw_valid_uuid w) (aw_decode_payload w) h = Inl x"
      and e: "e = (if exn_class x = AttributionRejected then Refused 400 ''Invalid caller attribution.'' None else Uncaught x)"
    using assms by (auto simp: bootstrap_principal_def split: sum.splits exn.splits exn_class.splits)
  then show ?thesis using header_errors [OF x] Some by (auto split: if_splits)
qed

lemma is_bootstrap_Inl:
  assumes "is_bootstrap_admin cfg authorization x_api_key = Inl e"
  shows "\<exists>x. e = Uncaught x \<and> exn_class x = TypeError \<and> authorization = None \<and> ac_allow_bootstrap_admin cfg
    \<and> list_ex (\<lambda>c. code c \<ge> 128) (the x_api_key @ the (ac_admin_key cfg))"
  using assms by (auto simp: is_bootstrap_admin_def compare_digest_def split: option.splits if_splits)

text \<open>C30: Operator routes are reached only with cause: authentication is off; or the caller holds the
  configured admin key, presented without another authorization while bootstrap access is allowed, and
  either speaks for itself or for a bridge that has authentication disabled (never for a client key or
  the shared key of a bridge); or the authentication service answered 200 with the role of an admin or
  of the system for a session, an operator credential or disabled authentication.\<close>

theorem operator_access_justified:
  assumes run: "require_operator_principal w cfg authorization x_api_key caller_context = Inr p"
  shows "\<not> ac_enabled cfg
    \<or> holds_admin_key cfg authorization x_api_key
      \<and> (caller_context = None \<or> at_kind (pr_attribution p) = ''disabled'' \<and> at_transport (pr_attribution p) = ''mcp'')
    \<or> (\<exists>reply body d. aw_call w authorization x_api_key = Inr (Some reply) \<and> ar_status reply = 200
        \<and> read_bounded_auth_body (aw_int_text w) reply = Inr body \<and> aw_loads w body = Inr (Some (JObj d))
        \<and> jget d ''role'' = JStr (pr_role p) \<and> pr_role p \<in> {''admin'', ''system''}
        \<and> at_kind (pr_attribution p) \<in> {''operator_static'', ''session'', ''disabled''}
        \<and> at_transport (pr_attribution p) = ''rest'')"
proof -
  have ver: "verify w cfg authorization x_api_key caller_context = Inr p"
    and op: "pr_role p \<in> {''admin'', ''system''}" "at_kind (pr_attribution p) \<in> set OPERATOR_CREDENTIAL_KINDS"
    using run by (auto simp: require_operator_principal_def rbind_Inr_iff split: if_splits)
  show ?thesis
  proof (cases "\<not> ac_enabled cfg")
    case False
    then obtain b where b: "is_bootstrap_admin cfg authorization x_api_key = Inr b"
      and rest: "(if b then bootstrap_principal w caller_context
        else rbind (uncaught (aw_call w authorization x_api_key)) (\<lambda>answer. case answer of
          None \<Rightarrow> unavailable
        | Some reply \<Rightarrow> rbind (read_bounded_auth_body (aw_int_text w) reply) (\<lambda>body.
              principal_of_reply w authorization x_api_key reply body))) = Inr p"
      using ver by (auto simp: verify_def rbind_Inr_iff)
    show ?thesis
    proof (cases b)
      case True
      then have "bootstrap_principal w caller_context = Inr p" using rest by simp
      from bootstrap_principal_Inr [OF this] show ?thesis
        using op(2) bootstrap_Inr [OF b] True by (auto simp: OPERATOR_CREDENTIAL_KINDS_def)
    next
      case False
      then obtain reply body where "aw_call w authorization x_api_key = Inr (Some reply)"
          "read_bounded_auth_body (aw_int_text w) reply = Inr body"
          and r: "principal_of_reply w authorization x_api_key reply body = Inr p"
        using rest by (auto simp: rbind_Inr_iff unavailable_def uncaught_iff split: option.splits)
      moreover obtain d where "ar_status reply = 200" "aw_loads w body = Inr (Some (JObj d))"
          and d: "principal_of_body (aw_valid_uuid w) d = Inr p"
        using principal_of_reply_Inr [OF r] by blast
      ultimately show ?thesis
        using principal_of_body_Inr [OF d] op by (auto simp: OPERATOR_CREDENTIAL_KINDS_def)
    qed
  qed simp
qed

definition sample_auth_config :: auth_config where
  "sample_auth_config = \<lparr>ac_enabled = True, ac_admin_key = Some ''key'', ac_allow_bootstrap_admin = True\<rparr>"

definition sample_auth_body :: json where
  "sample_auth_body = JObj [(''id'', JStr ''u''), (''role'', JStr ''admin''), (''credential'',
     JObj [(''kind'', JStr ''session''), (''id'', JNull), (''label'', JNull), (''key_prefix'', JNull)])]"

definition sample_auth_world :: auth_world where
  "sample_auth_world = \<lparr>aw_valid_uuid = (\<lambda>_. True), aw_decode_payload = (\<lambda>_. Inr None),
     aw_loads = (\<lambda>s. if s = ''me'' then Inr (Some sample_auth_body) else Inr None), aw_int_text = (\<lambda>_. None),
     aw_call = (\<lambda>a k. if a = Some ''Bearer s'' then Inr (Some \<lparr>ar_status = 200, ar_challenge = None,
       ar_content_length = None, ar_chunks = [''m'', ''e'']\<rparr>) else Inr None)\<rparr>"

definition sample_principal :: principal where
  "sample_principal = \<lparr>pr_subject_id = Some ''u'', pr_role = ''admin'', pr_attribution = rest_attribution ''session'' None\<rparr>"

theorem operator_access_justified_witness:
  "require_operator_principal sample_auth_world sample_auth_config (Some ''Bearer s'') None None = Inr sample_principal
   \<and> (\<exists>reply. aw_call sample_auth_world (Some ''Bearer s'') None = Inr (Some reply) \<and> ar_status reply = 200)"
proof -
  have run: "require_operator_principal sample_auth_world sample_auth_config (Some ''Bearer s'') None None = Inr sample_principal"
    by code_simp
  from operator_access_justified [OF this] have "\<exists>reply. aw_call sample_auth_world (Some ''Bearer s'') None = Inr (Some reply) \<and> ar_status reply = 200"
    by (auto simp: sample_auth_config_def holds_admin_key_def)
  with run show ?thesis by simp
qed

text \<open>C31: Authentication fails in the ways it declares, with status 400, 401, 403 or 503, or with one
  of four exceptions it does not catch.  Two are on the path of the admin key, taken only without
  another authorization and while bootstrap access is allowed: an API key, or an admin key, with
  characters beyond ASCII; and, once the keys are equal, a caller context whose decoding raises,
  or whose credential kind is a list or an object.  Two are on the path of the authentication
  service: what the call raises other than a request error, and what decoding an answer that was
  read in full raises other than a rejection of its text.\<close>

theorem authentication_errors:
  assumes "verify w cfg authorization x_api_key caller_context = Inl e"
  shows "(\<exists>status detail challenge. e = Refused status detail challenge \<and> status \<in> {400, 401, 403, 503})
    \<or> (\<exists>x. e = Uncaught x \<and>
         (exn_class x = TypeError \<and> authorization = None \<and> ac_allow_bootstrap_admin cfg
            \<and> list_ex (\<lambda>c. code c \<ge> 128) (the x_api_key @ the (ac_admin_key cfg))
        \<or> holds_admin_key cfg authorization x_api_key \<and> (\<exists>h. caller_context = Some h
            \<and> (aw_decode_payload w h = Inl x
             \<or> exn_class x = TypeError \<and> (\<exists>d xs m. aw_decode_payload w h = Inr (Some (JObj d))
                  \<and> jget d ''credential_kind'' \<in> {JList xs, JObj m})))
        \<or> aw_call w authorization x_api_key = Inl x
        \<or> (\<exists>reply body. aw_call w authorization x_api_key = Inr (Some reply)
            \<and> read_bounded_auth_body (aw_int_text w) reply = Inr body \<and> aw_loads w body = Inl x)))"
proof -
  have enabled: "ac_enabled cfg" using assms by (auto simp: verify_def split: if_splits)
  show ?thesis
  proof (cases "is_bootstrap_admin cfg authorization x_api_key")
    case (Inl e')
    then show ?thesis
      using is_bootstrap_Inl [OF Inl] assms enabled by (auto simp: verify_def)
  next
    case (Inr b)
    show ?thesis
    proof (cases b)
      case True
      then have "bootstrap_principal w caller_context = Inl e" using assms enabled Inr by (simp add: verify_def)
      from bootstrap_principal_Inl [OF this] show ?thesis
        using bootstrap_Inr [OF Inr] True by auto
    next
      case False
      then have run: "rbind (uncaught (aw_call w authorization x_api_key)) (\<lambda>answer. case answer of None \<Rightarrow> unavailable
          | Some reply \<Rightarrow> rbind (read_bounded_auth_body (aw_int_text w) reply) (\<lambda>body.
              principal_of_reply w authorization x_api_key reply body)) = Inl e"
        using assms enabled Inr by (simp add: verify_def)
      show ?thesis
      proof (cases "aw_call w authorization x_api_key")
        case (Inl x)
        then show ?thesis using run by (auto simp: uncaught_def)
      next
        case (Inr answer)
        with run show ?thesis
          by (cases answer) (auto simp: uncaught_def unavailable_def rbind_Inl_iff
            dest!: read_body_Inl principal_of_reply_Inl)
      qed
    qed
  qed
qed

definition latin_key :: string where "latin_key = [CHR 0xE9]"

theorem authentication_errors_witness:
  "\<exists>x. verify sample_auth_world sample_auth_config None (Some latin_key) None = Inl (Uncaught x) \<and> exn_class x = TypeError"
proof -
  have "case verify sample_auth_world sample_auth_config None (Some latin_key) None of
      Inl (Uncaught _) \<Rightarrow> True | _ \<Rightarrow> False"
    by code_simp
  then obtain x where x: "verify sample_auth_world sample_auth_config None (Some latin_key) None = Inl (Uncaught x)"
    by (auto split: sum.splits auth_error.splits)
  from authentication_errors [OF x] x show ?thesis by (auto simp: sample_auth_world_def split: if_splits)
qed

section \<open>Scope\<close>

text \<open>An ordinary principal cannot choose its tenant: once its request has passed the boundary, the
  project and the application it works on are the configured ones, whatever its headers, query and body
  say, for requests on a single memory as well.\<close>

lemma ordinary_principals_keep_default_scope:
  assumes pass: "enforce_compatible_scope_boundary req payload = Inr ()"
    and ordinary: "hr_role req \<notin> {''admin'', ''system''}"
  shows "resolve_compatible_scope req projects payload
      = resolve_compatible_scope (req\<lparr>hr_header := \<lambda>_. None, hr_query := \<lambda>_. None\<rparr>) projects None
    \<and> resolve_compatible_memory_scope req projects rows mid payload = resolve_compatible_scope req projects payload"
proof -
  have none: "non_empty v = None"
    if "v \<in> set (project_selectors req (body_of payload)) \<or> v \<in> set (app_selectors req (body_of payload))" for v
    using pass ordinary that by (auto simp: enforce_compatible_scope_boundary_def raise_if_Inr list_ex_iff)
  have first: "first_non_empty vs = None" if "\<And>v. v \<in> set vs \<Longrightarrow> non_empty v = None" for vs
    using that by (induction vs) (auto simp: first_non_empty_def)
  have "first_non_empty (project_selectors req (body_of payload)) = None"
    "first_non_empty (app_selectors req (body_of payload)) = None"
    by (intro first none; simp)+
  moreover have "first_non_empty (project_selectors (req\<lparr>hr_header := \<lambda>_. None, hr_query := \<lambda>_. None\<rparr>) (body_of None)) = None"
    "first_non_empty (app_selectors (req\<lparr>hr_header := \<lambda>_. None, hr_query := \<lambda>_. None\<rparr>) (body_of None)) = None"
    by (simp_all add: first_non_empty_def project_selectors_def app_selectors_def body_of_def sub_object_def non_empty_def)
  ultimately have same: "resolve_compatible_scope req projects payload
      = resolve_compatible_scope (req\<lparr>hr_header := \<lambda>_. None, hr_query := \<lambda>_. None\<rparr>) projects None"
    by (simp add: resolve_compatible_scope_def Let_def)
  have "resolve_compatible_memory_scope req projects rows mid payload = resolve_compatible_scope req projects payload"
    using ordinary by (cases "resolve_compatible_scope req projects payload") (simp_all add: resolve_compatible_memory_scope_def)
  with same show ?thesis by simp
qed

definition sample_http_request :: http_request where
  "sample_http_request = \<lparr>hr_header = (\<lambda>_. None), hr_query = (\<lambda>k. if k = ''page'' then Some ''2'' else None),
     hr_role = ''user'', hr_default_project_id = ''default''\<rparr>"

lemma ordinary_principals_keep_default_scope_witness:
  "enforce_compatible_scope_boundary sample_http_request (Some [(''user_id'', JStr ''u'')]) = Inr ()
   \<and> resolve_compatible_scope sample_http_request [] (Some [(''user_id'', JStr ''u'')])
      = resolve_compatible_scope (sample_http_request\<lparr>hr_header := \<lambda>_. None, hr_query := \<lambda>_. None\<rparr>) [] None"
proof -
  have pass: "enforce_compatible_scope_boundary sample_http_request (Some [(''user_id'', JStr ''u'')]) = Inr ()"
    by code_simp
  have ordinary: "hr_role sample_http_request \<notin> {''admin'', ''system''}" by (simp add: sample_http_request_def)
  from pass conjunct1 [OF ordinary_principals_keep_default_scope [OF pass ordinary]] show ?thesis by (rule conjI)
qed

end
