(* ===== verification/Spec2Isabelle.thy ===== *)
theory Spec2Isabelle
  imports Scope Explorer_Filters Jobs Consolidation_Analysis Mutation_Intents Memory_Records Projects Consolidation_Scan Entities Service_Results Scan_Examples Client_Auth
begin

text \<open>
  A verification library for the Mem0 platform sidecar (\<open>src/src/mem0_sidecar\<close>), a service that
  puts projects, tenancy scopes, an index, an event log and durable mutations in front of an
  upstream memory service.

  The program.  A request arrives with credentials and an attribution (\<open>http_adapter\<close>,
  \<open>request_attribution.py\<close>), is narrowed to a scope of project and application (\<open>core/scope.py\<close>,
  \<open>http_adapter/project_scope.py\<close>), and is served by \<open>MemoryService\<close> (\<open>core/memory_ops.py\<close>) or one
  of its neighbours (\<open>core/entities.py\<close>, \<open>core/memory_scan.py\<close>, \<open>core/mutation_admin.py\<close>).  The
  service writes a durable intent, commits, calls the upstream through \<open>mem0_client\<close>, and settles
  intent, index, entities and event log in a last transaction; when it dies in between, recovery
  finds the open intent and observes what the upstream holds, but does not send the mutation again.
  Workers (\<open>workers\<close>) repeat recovery and the mirroring of direct writes, and drive
  consolidation (\<open>core/consolidation_service.py\<close>): scans propose duplicates, an operator or a
  policy approves, a leased attempt exports and shadows the sources, and after a grace period they
  are deleted.

  Which theory models what:
  \<^item> \<open>Prelude\<close>: decoded JSON, Python dictionaries in insertion order,
  exceptions as the left of a sum, dates, strings; \<open>Py_Text\<close>: regular expressions, \<open>json.dumps\<close>,
  \<open>float\<close>; \<open>Float64\<close>: rounding to doubles.
  \<^item> \<open>Scope\<close>, \<open>Explorer_Filters\<close>: \<open>core/scope.py\<close>, \<open>core/explorer_filters.py\<close>.
  \<^item> \<open>Models\<close>: one record per table of \<open>store/models.py\<close>, and tables as lists of rows.
  \<^item> The repositories of \<open>store/repositories.py\<close>, an operation a function from a table to its result
  and the new table: \<open>Jobs\<close> (with \<open>workers/runner.py\<close>), \<open>Mutation_Intents\<close>, \<open>Memory_Store\<close>, \<open>Projects\<close>
  (projects, bridge capabilities, categories, with \<open>core/projects.py\<close>,
  \<open>core/dashboard_categories.py\<close> and \<open>core/categories.py\<close>), \<open>Consolidation_Store\<close>, \<open>Entities\<close>, \<open>Events\<close>
  (with \<open>core/events.py\<close>).
  \<^item> \<open>Trace_Payloads\<close>: the redaction and bounding of traced documents (\<open>core/trace_payloads.py\<close>);
  \<open>Attribution\<close> and \<open>Client_Auth\<close>: \<open>request_attribution.py\<close>, its codec, \<open>http_adapter/client_auth.py\<close>,
  \<open>dependencies.py\<close> and \<open>project_scope.py\<close>.
  \<^item> \<open>Upstream\<close>, \<open>Mem0_Client\<close>: the client, its errors and the classification of unknown outcomes;
  \<open>Memory_Records\<close>: the documents exchanged with the upstream (the module functions of
  \<open>core/memory_ops.py\<close>).
  \<^item> \<open>Service\<close>: the state of the memory service (the record \<open>svc_db\<close> of its tables, the record
  \<open>world\<close> of the tables and the calls sent), transactions and actions; \<open>Recovery\<close>,
  \<open>Memory_Service\<close> (adding, updating, deleting, reading one memory), \<open>Memory_Reads\<close> (listing,
  searching, querying, history), \<open>Memory_Sync\<close> (mirroring and reconciliation), \<open>Memory_Bulk\<close> (bulk
  deletion): the methods of \<open>MemoryService\<close>; \<open>Memory_Scan\<close>: \<open>core/memory_scan*.py\<close>;
  \<open>Entity_Service\<close>: \<open>core/entities.py\<close>; \<open>Mutation_Admin\<close>: \<open>core/mutation_admin.py\<close> with the rounds of
  \<open>workers/add_recovery.py\<close> and \<open>workers/direct_write_sync.py\<close>; \<open>Ranking\<close>: \<open>core/ranking.py\<close>;
  \<open>Extraction_Policy\<close>: \<open>core/extraction_policy.py\<close>.
  \<^item> \<open>Consolidation_Policy\<close>, \<open>Consolidation_Analysis\<close>, \<open>Consolidation_Lifecycle\<close>, \<open>Consolidation_Scan\<close>:
  \<open>core/consolidation_policy.py\<close>, \<open>consolidation_analysis.py\<close>, \<open>consolidation_service.py\<close> and
  \<open>workers/consolidation.py\<close>.

  Interfaces.  \<open>Leases\<close> states time-limited ownership (\<open>leased\<close>, \<open>fenced\<close>), interpreted on jobs, on
  the recovery of intents and on shadowing attempts; \<open>Paging\<close> states keyset pagination (\<open>keyset\<close>),
  interpreted on scans, on the snapshot of a bulk deletion and on the anchors of a consolidation.
  \<open>Service_Steps\<close> states what an operation may do to the world (\<open>reading_contract\<close>,
  \<open>writing_contract\<close>, \<open>adding_contract\<close>); \<open>Service_Safety\<close> and \<open>Service_Results\<close> interpret it with the
  relations their theorems are about.

  What is shown.  Tables: every operation keeps each table well formed (attempts bounded, a lease
  exactly while active, distinct keys, shadowed rows justified by their proposal), under any
  interleaving of transactions (\<open>reachable_queue_ok\<close>, \<open>runs_keep_tables_ok\<close>,
  \<open>workers_keep_invariant\<close>).  Mutations: an addition is sent at most once per key, recovery only
  observes, mutations of a scope wait for each other, what a client is told is what the intent
  holds (\<open>Service_Safety\<close>); a bulk deletion covers all that was asked, a sweep is one update, an
  operator's resolution touches one intent (\<open>Service_Results\<close>, \<open>Memory_Sync\<close>).  Tenancy: search
  results, rankings, event queries and claims stay in their scope.  Consolidation: what may be
  approved, shadowed, rolled back and deleted (\<open>Consolidation_Safety\<close>), and which pairs a scan
  proposes (\<open>Consolidation_Scan\<close>).  Documents: parsers yield well-formed values and read back what
  printers write, traces are bounded and free of the values under credential keys.

  Bounds and fuel.  Matching a pattern over a text has the text's length as fuel;
  \<open>sanitize\<close> recurses into a depth of nine with a budget of 512 nodes, as the code does; the loop of a
  query ends by a measure on the window; the loops of the sweep and of the snapshot by the rows
  beyond their cursor; \<open>delete_rounds\<close> has one round more than an intent may have targets, and
  \<open>bulk_rounds_suffice\<close> shows that more change nothing; \<open>read_pages\<close> and \<open>scan_walk\<close> have one request
  more than there are rows, which \<open>read_all\<close> and \<open>scan_walk_complete\<close> show to be enough.

  Parameters.  Code outside the repository and its inputs are arguments: the replies of the network
  (a function of the calls sent so far), what other clients do while a call is awaited, the clock and
  new identifiers (\<open>moment\<close>), the digests, \<open>fromisoformat\<close> and \<open>isoformat\<close>, the text of a float, the
  power \<open>2 ** x\<close>, the lenient conversions of the validation library, the reader of a JSON text and
  the scrubbing of URLs and credentials inside strings.

  Simplifications.  A transaction is atomic and its row locks are implied by that; other clients work
  only while a call is awaited; the clock does not move within a transaction; records that the code
  reads concurrently are read one after the other.  Rows a session keeps across an awaited call are
  seen as they were first read, where a method does that (\<open>approve_proposal\<close>, \<open>semantic_drafts\<close>).
  Characters are code points below 256; NaN is one value and a zero has no sign; owner columns of a
  request that are not text are refused.

  Not modelled: the HTTP routes that only decode a request and render an answer, the command line,
  logging and metrics, configuration, the engine and its migrations, the dashboard, and exports; the
  race of two writes of a category that the uniqueness constraint decides.
\<close>

end
